(* ===== verification/Prelude.thy ===== *)
theory Prelude
imports Complex_Main
begin

text \<open>
  Shared vocabulary of the development: raised exceptions as values, the two bind operators
  that thread them (with and without a state), Python dictionaries as association lists in
  insertion order, and the list lemmas several components use.

  A Python function that may raise returns \<open>exn + 'a\<close> (\<open>Inl\<close> the exception). A service that
  also reads and writes a state returns \<open>'s \<Rightarrow> exn + 'a \<times> 's\<close>; when it raises, the state is
  dropped, as the request handler rolls the transaction back.
\<close>

named_theorems py_simps \<open>computation rules of the modelled Python primitives\<close>

named_theorems step_elims \<open>inversion rules for successful runs\<close>

section \<open>Exceptions\<close>

text \<open>
  The exception classes the modelled code raises or catches. A \<open>ValueError\<close>, a
  \<open>ServiceError\<close> and an \<open>HTTPException\<close> carry their literal message; where the source
  formats values into the message, the constructor carries those values. An \<open>OtherError\<close> is an exception of
  a class of another package, named by it.
\<close>

datatype exn =
    ValueError string
  | InsufficientCredits int int
  | ServiceError string int
  | HTTPException int string
  | IntegrityError
  | DataError
  | MultipleResultsFound
  | NoResultFound
  | TypeError
  | KeyError
  | IndexError
  | ZeroDivisionError
  | OverflowError
  | RuntimeError string
  | OSError
  | AttributeError
  | PyJWTError
  | RedisError
  | SystemExit
  | OtherError string

type_synonym 'a res = "exn + 'a"

definition bind_r :: "'a res \<Rightarrow> ('a \<Rightarrow> 'b res) \<Rightarrow> 'b res" where
  "bind_r m f = (case m of Inl e \<Rightarrow> Inl e | Inr x \<Rightarrow> f x)"

lemma bind_r_simps [simp]:
  "bind_r (Inl e) f = Inl e"
  "bind_r (Inr x) f = f x"
  by (simp_all add: bind_r_def)

lemma bind_r_Inr_iff: "bind_r m f = Inr r \<longleftrightarrow> (\<exists>x. m = Inr x \<and> f x = Inr r)"
  by (cases m) simp_all

lemma bind_r_Inl_iff: "bind_r m f = Inl e \<longleftrightarrow> m = Inl e \<or> (\<exists>x. m = Inr x \<and> f x = Inl e)"
  by (cases m) simp_all

text \<open>The computation returns: no exception.\<close>

definition returns :: "'a res \<Rightarrow> bool" where
  "returns m \<longleftrightarrow> (\<exists>x. m = Inr x)"

named_theorems returns_intros \<open>rules that show a computation raises nothing\<close>

lemma returns_Inr [simp, returns_intros]: "returns (Inr x)"
  by (simp add: returns_def)

lemma returns_Inl [simp]: "\<not> returns (Inl e)"
  by (simp add: returns_def)

lemma returns_bind [returns_intros]:
  "returns m \<Longrightarrow> (\<And>x. m = Inr x \<Longrightarrow> returns (f x)) \<Longrightarrow> returns (bind_r m f)"
  by (auto simp: returns_def)

lemma returns_if [returns_intros]:
  "(b \<Longrightarrow> returns m) \<Longrightarrow> (\<not> b \<Longrightarrow> returns n) \<Longrightarrow> returns (if b then m else n)"
  by simp

lemma returnsE: "returns m \<Longrightarrow> (\<And>x. m = Inr x \<Longrightarrow> thesis) \<Longrightarrow> thesis"
  by (auto simp: returns_def)

section \<open>State passing with exceptions\<close>

type_synonym ('s, 'a) sres = "'s \<Rightarrow> exn + 'a \<times> 's"

definition return_s :: "'a \<Rightarrow> ('s, 'a) sres" where
  "return_s x = (\<lambda>s. Inr (x, s))"

definition raise_s :: "exn \<Rightarrow> ('s, 'a) sres" where
  "raise_s e = (\<lambda>s. Inl e)"

definition bind_s :: "('s, 'a) sres \<Rightarrow> ('a \<Rightarrow> ('s, 'b) sres) \<Rightarrow> ('s, 'b) sres" where
  "bind_s m f = (\<lambda>s. case m s of Inl e \<Rightarrow> Inl e | Inr r \<Rightarrow> f (fst r) (snd r))"

definition get_s :: "('s \<Rightarrow> 'a) \<Rightarrow> ('s, 'a) sres" where
  "get_s q = (\<lambda>s. Inr (q s, s))"

definition modify_s :: "('s \<Rightarrow> 's) \<Rightarrow> ('s, unit) sres" where
  "modify_s u = (\<lambda>s. Inr ((), u s))"

definition lift_s :: "'a res \<Rightarrow> ('s, 'a) sres" where
  "lift_s r = (\<lambda>s. case r of Inl e \<Rightarrow> Inl e | Inr x \<Rightarrow> Inr (x, s))"

lemma return_s_apply [simp]: "return_s x s = Inr (x, s)"
  by (simp add: return_s_def)

lemma raise_s_apply [simp]: "raise_s e s = Inl e"
  by (simp add: raise_s_def)

lemma get_s_apply [simp]: "get_s q s = Inr (q s, s)"
  by (simp add: get_s_def)

lemma modify_s_apply [simp]: "modify_s u s = Inr ((), u s)"
  by (simp add: modify_s_def)

lemma lift_s_simps [simp]:
  "lift_s (Inl e) s = Inl e"
  "lift_s (Inr x) s = Inr (x, s)"
  by (simp_all add: lift_s_def)

lemma lift_s_Inr_iff [simp]: "lift_s m s = Inr r \<longleftrightarrow> m = Inr (fst r) \<and> snd r = s"
  by (cases m) (auto simp: prod_eq_iff)

lemma bind_s_Inl [simp]: "m s = Inl e \<Longrightarrow> bind_s m f s = Inl e"
  by (simp add: bind_s_def)

lemma bind_s_Inr [simp]: "m s = Inr (x, t) \<Longrightarrow> bind_s m f s = f x t"
  by (simp add: bind_s_def)

lemma bind_s_Inr_iff:
  "bind_s m f s = Inr r \<longleftrightarrow> (\<exists>x t. m s = Inr (x, t) \<and> f x t = Inr r)"
  by (auto simp: bind_s_def split: sum.splits)

lemma bind_s_Inl_iff:
  "bind_s m f s = Inl e \<longleftrightarrow> m s = Inl e \<or> (\<exists>x t. m s = Inr (x, t) \<and> f x t = Inl e)"
  by (auto simp: bind_s_def split: sum.splits)

lemma bind_s_return [simp]: "bind_s (return_s x) f = f x"
  by (rule ext) simp

lemma bind_s_raise [simp]: "bind_s (raise_s e) f = raise_s e"
  by (rule ext) simp

lemma bind_s_get [simp]: "bind_s (get_s q) f s = f (q s) s"
  by simp

lemma bind_s_modify [simp]: "bind_s (modify_s u) f s = f () (u s)"
  by simp

section \<open>Dictionaries\<close>

text \<open>
  A Python dictionary is an association list in insertion order with distinct keys.
  \<open>d.get(k)\<close> is \<open>map_of d k\<close>; assignment keeps the place of an existing key and appends a
  new one, as CPython does.
\<close>

type_synonym ('k, 'v) dict = "('k \<times> 'v) list"

fun dict_set :: "'k \<Rightarrow> 'v \<Rightarrow> ('k, 'v) dict \<Rightarrow> ('k, 'v) dict" where
  "dict_set k v [] = [(k, v)]"
| "dict_set k v ((k', v') # d) = (if k' = k then (k, v) # d else (k', v') # dict_set k v d)"

definition dict_get :: "('k, 'v) dict \<Rightarrow> 'k \<Rightarrow> 'v \<Rightarrow> 'v" where
  "dict_get d k dflt = (case map_of d k of Some v \<Rightarrow> v | None \<Rightarrow> dflt)"

definition dict_del :: "'k \<Rightarrow> ('k, 'v) dict \<Rightarrow> ('k, 'v) dict" where
  "dict_del k d = filter (\<lambda>p. fst p \<noteq> k) d"

abbreviation dict_keys :: "('k, 'v) dict \<Rightarrow> 'k list" where
  "dict_keys d \<equiv> map fst d"

abbreviation dict_values :: "('k, 'v) dict \<Rightarrow> 'v list" where
  "dict_values d \<equiv> map snd d"

abbreviation dict_ok :: "('k, 'v) dict \<Rightarrow> bool" where
  "dict_ok d \<equiv> distinct (dict_keys d)"

lemma map_of_dict_set [simp]: "map_of (dict_set k v d) = (map_of d)(k \<mapsto> v)"
  by (induction k v d rule: dict_set.induct) (auto simp: fun_eq_iff)

lemma keys_dict_set: "set (dict_keys (dict_set k v d)) = insert k (set (dict_keys d))"
  by (induction k v d rule: dict_set.induct) auto

lemma dict_ok_set [simp]: "dict_ok d \<Longrightarrow> dict_ok (dict_set k v d)"
proof (induction k v d rule: dict_set.induct)
  case (2 k v k' v' d)
  then show ?case
    using keys_dict_set [of k v d] by auto
qed simp

lemma values_dict_set: "set (dict_values (dict_set k v d)) \<subseteq> insert v (set (dict_values d))"
  by (induction k v d rule: dict_set.induct) auto

lemma map_of_dict_del: "map_of (dict_del k d) = (map_of d)(k := None)"
  by (induction d) (auto simp: dict_del_def fun_eq_iff)

lemma dict_ok_del [simp]: "dict_ok d \<Longrightarrow> dict_ok (dict_del k d)"
  by (induction d) (auto simp: dict_del_def)

lemma dict_get_set [simp]:
  "dict_get (dict_set k v d) k' dflt = (if k' = k then v else dict_get d k' dflt)"
  by (simp add: dict_get_def)

lemma dict_values_set_all: "list_all P (dict_values d) \<Longrightarrow> P v \<Longrightarrow> list_all P (dict_values (dict_set k v d))"
  by (induction k v d rule: dict_set.induct) auto

lemma dict_values_del_all: "list_all P (dict_values d) \<Longrightarrow> list_all P (dict_values (dict_del k d))"
  by (auto simp: dict_del_def list_all_iff)

lemma dict_values_all_get: "list_all P (dict_values d) \<Longrightarrow> map_of d k = Some v \<Longrightarrow> P v"
  by (force simp: list_all_iff dest: map_of_SomeD)

lemma fst_dict_del [simp]: "fst ` set (dict_del k d) = fst ` set d - {k}"
  by (auto simp: dict_del_def)

lemma fst_dict_set [simp]: "fst ` set (dict_set k v d) = insert k (fst ` set d)"
  using keys_dict_set [of k v d] by simp

lemma dict_set_length: "map_of d k \<noteq> None \<Longrightarrow> length (dict_set k v d) = length d"
  by (induction k v d rule: dict_set.induct) auto

lemma dict_del_length: "map_of d k \<noteq> None \<Longrightarrow> length (dict_del k d) < length d"
proof (induction d)
  case (Cons p d)
  then show ?case using length_filter_le [of "\<lambda>p. fst p \<noteq> k" d]
    by (cases "fst p = k") (auto simp: dict_del_def less_Suc_eq_le)
qed simp

section \<open>Lists\<close>

lemma filter_replace_one:
  assumes "\<And>x. x \<in> set xs \<Longrightarrow> P (g x) = P x"
  shows "filter P (map g xs) = map g (filter P xs)"
  using assms by (induction xs) auto

lemma map_upd_fst [simp]: "(\<And>x. f (g x) = f x) \<Longrightarrow> map f (map g xs) = map f xs"
  by (induction xs) auto

lemma filter_single: "filter P xs = [r] \<Longrightarrow> r \<in> set xs \<and> P r"
proof -
  assume "filter P xs = [r]"
  then have "r \<in> set (filter P xs)" by simp
  then show ?thesis by simp
qed

lemma foldl_invariant:
  assumes "P s" "\<And>s x. P s \<Longrightarrow> x \<in> set xs \<Longrightarrow> P (f s x)"
  shows "P (foldl f s xs)"
  using assms by (induction xs arbitrary: s) auto

end
