(* ===== verification/Py_Float.thy ===== *)
theory Py_Float
imports Prelude "HOL-Library.Log_Nat"
begin

text \<open>
  Python's \<open>float\<close>: IEEE 754 binary64 with round-to-nearest-even, infinities and NaN. A finite
  float is carried by its exact value, a rational; every operation computes the exact result
  and rounds it with \<open>rnd\<close>, so the arithmetic is bit-exact but for the sign of zero, which the
  modelled code never observes. Comparisons are those of IEEE 754: every comparison with NaN is
  false. All definitions are executable.
\<close>

section \<open>Rounding a rational to binary64\<close>

text \<open>The exponent of the leading bit of a positive rational.\<close>

definition ilog2 :: "rat \<Rightarrow> int" where
  "ilog2 x = (let (p, q) = quotient_of x; k = bitlen p - bitlen q
     in if 2 powi k \<le> x then k else k - 1)"

text \<open>Rounding to the nearest integer, ties to even.\<close>

definition round_half_even :: "rat \<Rightarrow> int" where
  "round_half_even x = (let n = \<lfloor>x\<rfloor>; d = x - of_int n
     in if d < 1/2 then n else if 1/2 < d then n + 1 else if even n then n else n + 1)"

text \<open>The exponent of the last place: 53 significant bits, no bit below \<open>2\<^sup>-\<^sup>1\<^sup>0\<^sup>7\<^sup>4\<close>.\<close>

definition ulp_exp :: "rat \<Rightarrow> int" where
  "ulp_exp x = max (ilog2 \<bar>x\<bar> - 52) (-1074)"

definition rnd :: "rat \<Rightarrow> rat" where
  "rnd x = (if x = 0 then 0
     else of_int (round_half_even (x / 2 powi ulp_exp x)) * 2 powi ulp_exp x)"

section \<open>The type of floats\<close>

datatype flt = Fin rat | PosInf | NegInf | NaN

definition flt_of_rat :: "rat \<Rightarrow> flt" where
  "flt_of_rat x = (let r = rnd x
     in if 2 ^ 1024 \<le> r then PosInf else if r \<le> - (2 ^ 1024) then NegInf else Fin r)"

text \<open>A literal of the source, and the conversion of an \<open>int\<close>.\<close>

abbreviation lit :: "rat \<Rightarrow> flt" where
  "lit \<equiv> flt_of_rat"

definition flt_of_int :: "int \<Rightarrow> flt" where
  "flt_of_int n = flt_of_rat (of_int n)"

fun is_fin :: "flt \<Rightarrow> bool" where
  "is_fin (Fin _) = True"
| "is_fin _ = False"

fun fneg :: "flt \<Rightarrow> flt" where
  "fneg (Fin x) = Fin (- x)"
| "fneg PosInf = NegInf"
| "fneg NegInf = PosInf"
| "fneg NaN = NaN"

fun fabs :: "flt \<Rightarrow> flt" where
  "fabs (Fin x) = Fin \<bar>x\<bar>"
| "fabs NaN = NaN"
| "fabs _ = PosInf"

fun fadd :: "flt \<Rightarrow> flt \<Rightarrow> flt" where
  "fadd NaN _ = NaN"
| "fadd _ NaN = NaN"
| "fadd PosInf NegInf = NaN"
| "fadd NegInf PosInf = NaN"
| "fadd PosInf _ = PosInf"
| "fadd _ PosInf = PosInf"
| "fadd NegInf _ = NegInf"
| "fadd _ NegInf = NegInf"
| "fadd (Fin x) (Fin y) = flt_of_rat (x + y)"

definition inf_signed :: "bool \<Rightarrow> flt" where
  "inf_signed pos = (if pos then PosInf else NegInf)"

fun fmul :: "flt \<Rightarrow> flt \<Rightarrow> flt" where
  "fmul NaN _ = NaN"
| "fmul _ NaN = NaN"
| "fmul PosInf PosInf = PosInf"
| "fmul PosInf NegInf = NegInf"
| "fmul NegInf PosInf = NegInf"
| "fmul NegInf NegInf = PosInf"
| "fmul PosInf (Fin y) = (if y = 0 then NaN else inf_signed (0 < y))"
| "fmul NegInf (Fin y) = (if y = 0 then NaN else inf_signed (y < 0))"
| "fmul (Fin x) PosInf = (if x = 0 then NaN else inf_signed (0 < x))"
| "fmul (Fin x) NegInf = (if x = 0 then NaN else inf_signed (x < 0))"
| "fmul (Fin x) (Fin y) = flt_of_rat (x * y)"

text \<open>
  Division by zero raises \<open>ZeroDivisionError\<close> in Python. The total \<open>fdiv\<close> answers NaN there and
  is used where the code has already tested the divisor; \<open>py_div\<close> is the raising division.
\<close>

fun fdiv :: "flt \<Rightarrow> flt \<Rightarrow> flt" where
  "fdiv NaN _ = NaN"
| "fdiv _ NaN = NaN"
| "fdiv (Fin x) (Fin y) = (if y = 0 then NaN else flt_of_rat (x / y))"
| "fdiv (Fin x) _ = Fin 0"
| "fdiv PosInf (Fin y) = (if y = 0 then NaN else inf_signed (0 < y))"
| "fdiv NegInf (Fin y) = (if y = 0 then NaN else inf_signed (y < 0))"
| "fdiv _ _ = NaN"

fun fless :: "flt \<Rightarrow> flt \<Rightarrow> bool" where
  "fless (Fin x) (Fin y) = (x < y)"
| "fless NegInf (Fin _) = True"
| "fless NegInf PosInf = True"
| "fless (Fin _) PosInf = True"
| "fless _ _ = False"

fun fle :: "flt \<Rightarrow> flt \<Rightarrow> bool" where
  "fle (Fin x) (Fin y) = (x \<le> y)"
| "fle NegInf b = (b \<noteq> NaN)"
| "fle a PosInf = (a \<noteq> NaN)"
| "fle _ _ = False"

text \<open>Python's \<open>==\<close> on floats: NaN equals nothing.\<close>

definition feq :: "flt \<Rightarrow> flt \<Rightarrow> bool" where
  "feq a b \<longleftrightarrow> a = b \<and> a \<noteq> NaN"

instantiation flt :: "{zero, one, plus, minus, uminus, times, inverse, ord, abs}"
begin

definition "0 = Fin 0"

definition "1 = Fin 1"

definition "a + b = fadd a b"

definition "a - b = fadd a (fneg b)"

definition "- a = fneg a"

definition "a * b = fmul a b"

definition "a div b = fdiv a b"

definition "inverse a = fdiv (Fin 1) a"

definition "a < b \<longleftrightarrow> fless a b"

definition "a \<le> b \<longleftrightarrow> fle a b"

definition "\<bar>a\<bar> = fabs a"

instance ..

end

section \<open>The rounding function\<close>

lemma powi2_pos [simp]: "(0 :: rat) < 2 powi k"
  by (simp add: zero_less_power_int)

lemma powi2_nonzero [simp]: "(2 :: rat) powi k \<noteq> 0"
  using powi2_pos [of k] by linarith

lemma powi2_le_iff [simp]: "(2 :: rat) powi m \<le> 2 powi n \<longleftrightarrow> m \<le> n"
  by (metis linorder_not_less one_le_numeral one_less_numeral_iff power_int_increasing
      power_int_strict_increasing semiring_norm(76))

lemma powi2_less_iff [simp]: "(2 :: rat) powi m < 2 powi n \<longleftrightarrow> m < n"
  by (simp add: less_le_not_le)

lemma powi2_add: "(2 :: rat) powi (m + n) = 2 powi m * 2 powi n"
  by (simp add: power_int_add)

lemma powi2_diff: "(2 :: rat) powi (m - n) = 2 powi m / 2 powi n"
  by (simp add: power_int_diff)

lemma powi2_int: "0 \<le> k \<Longrightarrow> (2 :: rat) powi k = of_int (2 ^ nat k)"
  by (simp add: power_int_def)

lemma bitlen_powi_bounds:
  assumes "0 < (p :: int)"
  shows "2 powi (bitlen p - 1) \<le> (of_int p :: rat)" "(of_int p :: rat) < 2 powi bitlen p"
proof -
  have pos: "1 \<le> bitlen p"
    using assms bitlen_nonneg [of p] bitlen_eq_zero_iff [of p] by linarith
  have "(2 :: rat) powi (bitlen p - 1) = of_int (2 ^ nat (bitlen p - 1))"
    by (rule powi2_int) (use pos in simp)
  also have "\<dots> \<le> of_int p"
    using bitlen_bounds [OF assms] by (simp only: of_int_le_iff)
  finally show "2 powi (bitlen p - 1) \<le> (of_int p :: rat)" .
  have "(of_int p :: rat) < of_int (2 ^ nat (bitlen p))"
    using bitlen_bounds [OF assms] by (simp only: of_int_less_iff)
  also have "\<dots> = 2 powi bitlen p"
    by (rule powi2_int [symmetric]) (use pos in simp)
  finally show "(of_int p :: rat) < 2 powi bitlen p" .
qed

lemma ilog2_bounds:
  assumes "0 < x"
  shows "2 powi ilog2 x \<le> x" "x < 2 powi (ilog2 x + 1)"
proof -
  obtain p q where pq: "quotient_of x = (p, q)" by (cases "quotient_of x")
  have q: "0 < q" by (rule quotient_of_denom_pos [OF pq])
  have x: "x = of_int p / of_int q" by (rule quotient_of_div [OF pq])
  have p: "0 < p" using assms q by (simp add: x zero_less_divide_iff)
  define k where "k = bitlen p - bitlen q"
  have "2 powi (k - 1) = 2 powi (bitlen p - 1) / (2 powi bitlen q :: rat)"
    by (simp add: k_def powi2_diff)
  also have "\<dots> \<le> of_int p / of_int q"
    using bitlen_powi_bounds [OF p] bitlen_powi_bounds [OF q] q p
    by (intro frac_le) (auto intro: less_imp_le)
  finally have lo: "2 powi (k - 1) \<le> x" by (simp add: x)
  have "of_int p / of_int q < 2 powi bitlen p / (2 powi (bitlen q - 1) :: rat)"
    using bitlen_powi_bounds [OF p] bitlen_powi_bounds [OF q] p
    by (intro frac_less) auto
  also have "\<dots> = 2 powi (k + 1)"
    by (simp add: k_def powi2_diff powi2_add)
  finally have hi: "x < 2 powi (k + 1)" by (simp add: x)
  show "2 powi ilog2 x \<le> x" "x < 2 powi (ilog2 x + 1)"
    using lo hi by (auto simp: ilog2_def pq Let_def k_def [symmetric])
qed

lemma ilog2_unique:
  assumes "2 powi k \<le> x" "x < 2 powi (k + 1)"
  shows "ilog2 x = k"
proof -
  have "0 < x" using assms(1) powi2_pos [of k] by linarith
  note b = ilog2_bounds [OF this]
  have "2 powi k < (2 :: rat) powi (ilog2 x + 1)" using assms b by linarith
  moreover have "2 powi ilog2 x < (2 :: rat) powi (k + 1)" using assms b by linarith
  ultimately show ?thesis by simp
qed

lemma ilog2_mono: "0 < x \<Longrightarrow> x \<le> y \<Longrightarrow> ilog2 x \<le> ilog2 y"
proof -
  assume "0 < x" "x \<le> y"
  then have "2 powi ilog2 x < (2 :: rat) powi (ilog2 y + 1)"
    using ilog2_bounds [of x] ilog2_bounds [of y] by linarith
  then show ?thesis by simp
qed

lemma rhe_mono: "x \<le> y \<Longrightarrow> round_half_even x \<le> round_half_even y"
proof -
  assume le: "x \<le> y"
  then consider "\<lfloor>x\<rfloor> = \<lfloor>y\<rfloor>" | "\<lfloor>x\<rfloor> + 1 \<le> \<lfloor>y\<rfloor>" by (metis floor_mono le_less zless_imp_add1_zle)
  then show ?thesis
    using le by cases (auto simp: round_half_even_def Let_def)
qed

lemma rhe_of_int [simp]: "round_half_even (of_int n) = n"
  by (simp add: round_half_even_def)

lemma rhe_minus: "round_half_even (- x) = - round_half_even x"
proof (cases "x = of_int \<lfloor>x\<rfloor>")
  case True
  then obtain n where "x = of_int n" by blast
  then show ?thesis using rhe_of_int [of "- n"] by simp
next
  case False
  then have "\<lfloor>- x\<rfloor> = - \<lfloor>x\<rfloor> - 1" by linarith
  then show ?thesis by (auto simp: round_half_even_def Let_def)
qed

lemma rhe_close: "\<bar>of_int (round_half_even x) - x\<bar> \<le> 1/2"
proof -
  have "of_int \<lfloor>x\<rfloor> \<le> x" "x < of_int \<lfloor>x\<rfloor> + 1" by linarith+
  then show ?thesis by (auto simp: round_half_even_def Let_def abs_le_iff)
qed

lemma rnd_0 [simp]: "rnd 0 = 0"
  by (simp add: rnd_def)

lemma rnd_minus [simp]: "rnd (- x) = - rnd x"
  by (simp add: rnd_def ulp_exp_def rhe_minus)

text \<open>A value with at most 53 significant bits in range is representable: rounding keeps it.\<close>

lemma rnd_exact:
  assumes "\<bar>m\<bar> \<le> 2 ^ 53" "-1074 \<le> k"
  shows "rnd (of_int m * 2 powi k) = of_int m * 2 powi k"
proof (cases "m = 0")
  case False
  define x :: rat where "x = of_int m * 2 powi k"
  define e where "e = ulp_exp x"
  have x: "0 < \<bar>x\<bar>" using False by (simp add: x_def)
  have "e \<le> k \<or> \<bar>m\<bar> = 2 ^ 53 \<and> e = k + 1"
  proof (cases "\<bar>m\<bar> = 2 ^ 53")
    case True
    have "\<bar>x\<bar> = of_int \<bar>m\<bar> * 2 powi k" by (simp add: x_def abs_mult)
    also have "\<dots> = 2 powi (53 + k)" by (simp add: True powi2_add)
    finally have "ilog2 \<bar>x\<bar> = 53 + k" by (intro ilog2_unique) auto
    with True assms show ?thesis by (simp add: e_def ulp_exp_def)
  next
    case False
    have "\<bar>x\<bar> = of_int \<bar>m\<bar> * 2 powi k" by (simp add: x_def abs_mult)
    also have "of_int \<bar>m\<bar> < (of_int (2 ^ 53) :: rat)"
      using False assms(1) by (simp only: of_int_less_iff)
    then have "of_int \<bar>m\<bar> * 2 powi k < (2 :: rat) powi 53 * 2 powi k"
      by (intro mult_strict_right_mono) auto
    finally have "\<bar>x\<bar> < 2 powi (53 + k)" by (simp add: powi2_add)
    with ilog2_bounds [OF x] have "2 powi ilog2 \<bar>x\<bar> < (2 :: rat) powi (53 + k)" by linarith
    with assms(2) show ?thesis by (simp add: e_def ulp_exp_def)
  qed
  then have "\<exists>n. x / 2 powi e = of_int n"
  proof
    assume "e \<le> k"
    have "x / 2 powi e = of_int m * 2 powi (k - e)" by (simp add: x_def powi2_diff)
    also have "2 powi (k - e) = (of_int (2 ^ nat (k - e)) :: rat)"
      by (rule powi2_int) (use \<open>e \<le> k\<close> in simp)
    finally have "x / 2 powi e = of_int (m * 2 ^ nat (k - e))" by simp
    then show ?thesis by blast
  next
    assume a: "\<bar>m\<bar> = 2 ^ 53 \<and> e = k + 1"
    then have "m = 2 * 2 ^ 52 \<or> m = 2 * (- (2 ^ 52))"
      by (auto simp: abs_if split: if_splits)
    then obtain n where m: "m = 2 * n" by blast
    have "x / 2 powi e = of_int n" using a by (simp add: x_def powi2_add m)
    then show ?thesis by blast
  qed
  then obtain n where n: "x / 2 powi e = of_int n" by blast
  have "rnd x = of_int n * 2 powi e"
    using x by (simp add: rnd_def e_def [symmetric] n)
  also have "\<dots> = x" using n by (simp add: field_simps)
  finally show ?thesis by (simp add: x_def)
qed simp

lemma rnd_of_int [simp]: "\<bar>n\<bar> \<le> 2 ^ 53 \<Longrightarrow> rnd (of_int n) = of_int n"
  using rnd_exact [of n 0] by simp

lemma rnd_mono_pos:
  assumes "0 < x" "x \<le> y"
  shows "rnd x \<le> rnd y"
proof -
  define ex ey where "ex = ulp_exp x" and "ey = ulp_exp y"
  have y: "0 < y" using assms by simp
  have e: "ex \<le> ey" using ilog2_mono [OF assms] assms y by (simp add: ex_def ey_def ulp_exp_def)
  have rx: "rnd x = of_int (round_half_even (x / 2 powi ex)) * 2 powi ex"
    and ry: "rnd y = of_int (round_half_even (y / 2 powi ey)) * 2 powi ey"
    using assms y by (simp_all add: rnd_def ex_def ey_def)
  show ?thesis
  proof (cases "ex = ey")
    case True
    have "x / 2 powi ey \<le> y / 2 powi ey" using assms by (simp add: divide_right_mono less_imp_le)
    then show ?thesis
      by (simp add: rx ry True rhe_mono)
  next
    case False
    define L where "L = ilog2 y"
    have L: "ey = L - 52" "ex < L" "ilog2 x < L"
      using False e assms y by (auto simp: ex_def ey_def ulp_exp_def L_def)
    have "x \<le> 2 powi L"
    proof -
      have "(2 :: rat) powi (ilog2 x + 1) \<le> 2 powi L" using L by simp
      then show ?thesis using ilog2_bounds [OF assms(1)] by linarith
    qed
    then have "x / 2 powi ex \<le> 2 powi L / 2 powi ex" by (simp add: divide_right_mono less_imp_le)
    also have "\<dots> = of_int (2 ^ nat (L - ex))"
      using L powi2_int [of "L - ex"] by (simp add: powi2_diff)
    finally have "round_half_even (x / 2 powi ex) \<le> 2 ^ nat (L - ex)"
      using rhe_mono rhe_of_int by metis
    then have "(of_int (round_half_even (x / 2 powi ex)) :: rat) \<le> of_int (2 ^ nat (L - ex))"
      by (simp only: of_int_le_iff)
    also have "\<dots> = 2 powi (L - ex)" using L by (intro powi2_int [symmetric]) simp
    finally have "rnd x \<le> 2 powi (L - ex) * 2 powi ex"
      by (simp add: rx)
    then have 1: "rnd x \<le> 2 powi L" by (simp add: powi2_diff)
    have "2 powi L \<le> y" using ilog2_bounds [OF y] by (simp add: L_def)
    then have "2 powi L / 2 powi ey \<le> y / 2 powi ey" by (simp add: divide_right_mono less_imp_le)
    moreover have "2 powi L / 2 powi ey = (of_int (2 ^ 52) :: rat)"
      by (simp add: L powi2_diff)
    ultimately have "2 ^ 52 \<le> round_half_even (y / 2 powi ey)"
      using rhe_mono rhe_of_int by metis
    then have "(of_int (2 ^ 52) :: rat) \<le> of_int (round_half_even (y / 2 powi ey))"
      by (simp only: of_int_le_iff)
    then have "of_int (2 ^ 52) * 2 powi ey \<le> rnd y" by (simp add: ry)
    moreover have "of_int (2 ^ 52) * 2 powi ey = (2 powi L :: rat)"
      by (simp add: L powi2_diff)
    ultimately show ?thesis using 1 by linarith
  qed
qed

lemma rnd_nonneg: "0 \<le> x \<Longrightarrow> 0 \<le> rnd x"
proof (cases "x = 0")
  case False
  assume "0 \<le> x"
  then have "0 \<le> round_half_even (x / 2 powi ulp_exp x)"
    using rhe_mono [of 0 "x / 2 powi ulp_exp x"] rhe_of_int [of 0] by simp
  then show ?thesis by (simp add: rnd_def)
qed simp

lemma rnd_mono: "x \<le> y \<Longrightarrow> rnd x \<le> rnd y"
proof -
  assume le: "x \<le> y"
  consider "0 < x" | "x \<le> 0" "0 \<le> y" | "y < 0" by linarith
  then show ?thesis
  proof cases
    case 1
    then show ?thesis using le by (rule rnd_mono_pos)
  next
    case 2
    then have "0 \<le> rnd (- x)" "0 \<le> rnd y" using rnd_nonneg [of "- x"] rnd_nonneg by auto
    then show ?thesis by simp
  next
    case 3
    then have "rnd (- y) \<le> rnd (- x)" using le by (intro rnd_mono_pos) auto
    then show ?thesis by simp
  qed
qed

lemma rnd_rnd_int: "\<bar>n\<bar> \<le> 2 ^ 53 \<Longrightarrow> x \<le> of_int n \<Longrightarrow> rnd x \<le> of_int n"
  using rnd_mono [of x "of_int n"] by simp

lemma rnd_close: "\<bar>rnd x - x\<bar> \<le> 2 powi (ulp_exp x) / 2"
proof (cases "x = 0")
  case False
  let ?e = "2 powi ulp_exp x :: rat"
  have "\<bar>of_int (round_half_even (x / ?e)) - x / ?e\<bar> * ?e \<le> 1/2 * ?e"
    by (intro mult_right_mono rhe_close) (simp add: less_imp_le)
  also have "\<bar>of_int (round_half_even (x / ?e)) - x / ?e\<bar> * ?e
      = \<bar>(of_int (round_half_even (x / ?e)) - x / ?e) * ?e\<bar>"
    by (simp add: abs_mult)
  also have "(of_int (round_half_even (x / ?e)) - x / ?e) * ?e = rnd x - x"
    using False by (simp add: rnd_def left_diff_distrib)
  finally show ?thesis by simp
qed simp

lemma ulp_exp_le: "\<bar>x\<bar> < 2 powi k \<Longrightarrow> -1021 \<le> k \<Longrightarrow> x \<noteq> 0 \<Longrightarrow> ulp_exp x \<le> k - 53"
proof -
  assume *: "\<bar>x\<bar> < 2 powi k" "-1021 \<le> k" "x \<noteq> 0"
  then have "2 powi ilog2 \<bar>x\<bar> < (2 :: rat) powi k"
    using ilog2_bounds [of "\<bar>x\<bar>"] by linarith
  then show ?thesis using * by (simp add: ulp_exp_def)
qed

lemma rnd_close_below:
  assumes "\<bar>x\<bar> < 2 powi k" "-1021 \<le> k"
  shows "\<bar>rnd x - x\<bar> \<le> 2 powi (k - 54)"
proof (cases "x = 0")
  case False
  have "\<bar>rnd x - x\<bar> \<le> 2 powi (ulp_exp x) / 2" by (rule rnd_close)
  also have "\<dots> \<le> 2 powi (k - 53) / 2" using ulp_exp_le [OF assms False] by simp
  also have "\<dots> = 2 powi (k - 54)" by (simp add: powi2_diff)
  finally show ?thesis .
qed simp

text \<open>Rounding is idempotent.\<close>

lemma rhe_abs_le: "\<bar>x\<bar> \<le> of_int n \<Longrightarrow> \<bar>round_half_even x\<bar> \<le> n"
  using rhe_mono [of x "of_int n"] rhe_mono [of "- of_int n" x] rhe_of_int [of "- n"]
  by (simp add: abs_le_iff)

lemma rnd_idem [simp]: "rnd (rnd x) = rnd x"
proof (cases "x = 0")
  case False
  let ?e = "ulp_exp x"
  have "\<bar>x\<bar> < 2 powi (ilog2 \<bar>x\<bar> + 1)" using False by (intro ilog2_bounds) simp
  also have "\<dots> \<le> 2 powi (53 + ?e)" by (simp add: ulp_exp_def)
  finally have "\<bar>x\<bar> \<le> of_int (2 ^ 53) * 2 powi ?e" by (simp add: powi2_add)
  then have "\<bar>x\<bar> / 2 powi ?e \<le> of_int (2 ^ 53)" by (simp add: pos_divide_le_eq)
  then have "\<bar>x / 2 powi ?e\<bar> \<le> of_int (2 ^ 53)" by (simp add: abs_divide)
  then have "\<bar>round_half_even (x / 2 powi ?e)\<bar> \<le> 2 ^ 53" by (rule rhe_abs_le)
  then have "rnd (of_int (round_half_even (x / 2 powi ?e)) * 2 powi ?e)
      = of_int (round_half_even (x / 2 powi ?e)) * 2 powi ?e"
    by (rule rnd_exact) (simp add: ulp_exp_def)
  then show ?thesis using False by (simp add: rnd_def [of x])
qed simp

lemma rnd_le_rnd: "x \<le> rnd y \<Longrightarrow> rnd x \<le> rnd y"
  using rnd_mono [of x "rnd y"] by simp

lemma rnd_ge_rnd: "rnd y \<le> x \<Longrightarrow> rnd y \<le> rnd x"
  using rnd_mono [of "rnd y" x] by simp

section \<open>Evaluating floats by the simplifier\<close>

named_theorems flt_eval \<open>evaluation of closed float expressions\<close>

lemma ilog2_eval [flt_eval]:
  "1 \<le> x \<Longrightarrow> x < 2 \<Longrightarrow> ilog2 x = 0"
  "2 \<le> x \<Longrightarrow> x < 1024 \<Longrightarrow> ilog2 x = ilog2 (x / 2) + 1"
  "1024 \<le> x \<Longrightarrow> ilog2 x = ilog2 (x / 1024) + 10"
  "1/1024 \<le> x \<Longrightarrow> x < 1 \<Longrightarrow> ilog2 x = ilog2 (2 * x) - 1"
  "0 < x \<Longrightarrow> x < 1/1024 \<Longrightarrow> ilog2 x = ilog2 (1024 * x) - 10"
proof -
  show "1 \<le> x \<Longrightarrow> x < 2 \<Longrightarrow> ilog2 x = 0" by (rule ilog2_unique) auto
  have shift: "ilog2 x = ilog2 (x / 2 powi k) + k" if "0 < x" for k
  proof (rule ilog2_unique)
    have p: "0 < x / 2 powi k" using that by simp
    note b = ilog2_bounds [OF p]
    show "2 powi (ilog2 (x / 2 powi k) + k) \<le> x"
      using b(1) by (simp add: powi2_add pos_le_divide_eq)
    show "x < 2 powi (ilog2 (x / 2 powi k) + k + 1)"
      using b(2) by (simp add: powi2_add pos_divide_less_eq mult_ac)
  qed
  show "2 \<le> x \<Longrightarrow> x < 1024 \<Longrightarrow> ilog2 x = ilog2 (x / 2) + 1" using shift [of 1] by simp
  show "1024 \<le> x \<Longrightarrow> ilog2 x = ilog2 (x / 1024) + 10" using shift [of 10] by simp
  show "1/1024 \<le> x \<Longrightarrow> x < 1 \<Longrightarrow> ilog2 x = ilog2 (2 * x) - 1"
    using shift [of "-1"] by (simp add: mult.commute)
  show "0 < x \<Longrightarrow> x < 1/1024 \<Longrightarrow> ilog2 x = ilog2 (1024 * x) - 10"
    using shift [of "-10"] by (simp add: mult.commute)
qed

lemma floor_rat_eval [flt_eval]:
  "\<lfloor>numeral a / numeral b :: rat\<rfloor> = numeral a div numeral b"
  "\<lfloor>- (numeral a / numeral b) :: rat\<rfloor> = - numeral a div numeral b"
  "\<lfloor>1 / numeral b :: rat\<rfloor> = 1 div numeral b"
  "\<lfloor>- (1 / numeral b) :: rat\<rfloor> = - 1 div numeral b"
  using floor_divide_of_int_eq [of "numeral a" "numeral b", where 'a = rat]
    floor_divide_of_int_eq [of "- numeral a" "numeral b", where 'a = rat]
    floor_divide_of_int_eq [of 1 "numeral b", where 'a = rat]
    floor_divide_of_int_eq [of "-1" "numeral b", where 'a = rat] by simp_all

lemma flt_of_rat_small [flt_eval]:
  assumes "\<bar>x\<bar> \<le> 1000000000000000000"
  shows "flt_of_rat x = Fin (rnd x)"
proof -
  have r: "rnd (10 ^ 18) = (10 ^ 18 :: rat)"
    using rnd_exact [of "5 ^ 18" 18] by simp
  have "x \<le> 10 ^ 18" "- (10 ^ 18) \<le> x" using assms by auto
  then have "rnd x \<le> 10 ^ 18" "- (10 ^ 18) \<le> rnd x"
    using rnd_mono [of x "10 ^ 18"] rnd_mono [of "- (10 ^ 18)" x] r by auto
  moreover have "(10 ^ 18 :: rat) < 2 ^ 1024"
    using power_strict_increasing [of 60 1024 "2 :: rat"] by simp
  ultimately show ?thesis by (auto simp: flt_of_rat_def Let_def)
qed

lemmas flt_ops = zero_flt_def one_flt_def plus_flt_def minus_flt_def uminus_flt_def times_flt_def
  divide_flt_def less_flt_def less_eq_flt_def abs_flt_def

declare rnd_def [flt_eval] ulp_exp_def [flt_eval] round_half_even_def [flt_eval]
declare flt_ops [flt_eval] feq_def [flt_eval] flt_of_int_def [flt_eval]

section \<open>Order and special values\<close>

lemma flt_le_simps [simp]:
  "(Fin x \<le> Fin y) = (x \<le> y)" "(Fin x < Fin y) = (x < y)"
  "Fin x \<le> PosInf" "Fin x < PosInf" "\<not> PosInf \<le> Fin x" "\<not> PosInf < a"
  "NegInf \<le> Fin x" "NegInf < Fin x" "\<not> Fin x \<le> NegInf" "\<not> a < NegInf"
  "\<not> NaN \<le> a" "\<not> a \<le> NaN" "\<not> NaN < a" "\<not> a < NaN"
  "PosInf \<le> PosInf" "NegInf \<le> NegInf" "NegInf < PosInf" "NegInf \<le> PosInf" "\<not> PosInf \<le> NegInf"
  by (simp_all add: flt_ops) (cases a; simp)+

lemma flt_consts [simp]: "(0 = Fin x) = (x = 0)" "(Fin x = 0) = (x = 0)"
  "(1 = Fin x) = (x = 1)" "(Fin x = 1) = (x = 1)"
  by (auto simp: flt_ops)

lemma flt_0_1: "(0 :: flt) = Fin 0" "(1 :: flt) = Fin 1"
  by (simp_all add: flt_ops)

lemma flt_less_le: "(a :: flt) < b \<Longrightarrow> a \<le> b"
  by (cases a; cases b) simp_all

lemma flt_not_less: "a \<noteq> NaN \<Longrightarrow> b \<noteq> NaN \<Longrightarrow> (\<not> a < b) = (b \<le> (a :: flt))"
  by (cases a; cases b) auto

lemma flt_le_trans: "(a :: flt) \<le> b \<Longrightarrow> b \<le> c \<Longrightarrow> a \<le> c"
  by (cases a; cases b; cases c) auto

lemma flt_ge_zero_iff: "0 \<le> v \<longleftrightarrow> (\<exists>r \<ge> 0. v = Fin r) \<or> v = PosInf"
  by (cases v) (auto simp: flt_0_1)

lemma flt_gt_zero_iff: "0 < v \<longleftrightarrow> (\<exists>r > 0. v = Fin r) \<or> v = PosInf"
  by (cases v) (auto simp: flt_0_1)

lemma flt_of_rat_nonneg: "0 \<le> x \<Longrightarrow> 0 \<le> flt_of_rat x"
  using rnd_nonneg [of x] by (auto simp: flt_of_rat_def Let_def flt_0_1)

lemma flt_add_nonneg: "0 \<le> a \<Longrightarrow> 0 \<le> b \<Longrightarrow> 0 \<le> a + (b :: flt)"
  using flt_of_rat_nonneg by (cases a; cases b) (auto simp: flt_0_1 plus_flt_def)

lemma flt_mul_nonneg: "0 \<le> a \<Longrightarrow> 0 < c \<Longrightarrow> 0 \<le> a * Fin c"
  using flt_of_rat_nonneg by (cases a) (auto simp: flt_0_1 times_flt_def inf_signed_def)

lemma flt_div_nonneg: "0 \<le> a \<Longrightarrow> 0 < c \<Longrightarrow> 0 \<le> a / Fin c"
  using flt_of_rat_nonneg by (cases a) (auto simp: flt_0_1 divide_flt_def inf_signed_def)

section \<open>Built-in functions\<close>

text \<open>
  \<open>max(a, b)\<close> and \<open>min(a, b)\<close> keep the first argument unless the second compares strictly
  better, so with NaN the result depends on the order of the arguments.
\<close>

definition py_max :: "flt \<Rightarrow> flt \<Rightarrow> flt" where
  "py_max a b = (if a < b then b else a)"

definition py_min :: "flt \<Rightarrow> flt \<Rightarrow> flt" where
  "py_min a b = (if b < a then b else a)"

text \<open>\<open>round(x, n)\<close>: the decimal with \<open>n\<close> digits nearest to the exact value, ties to even.\<close>

fun py_round :: "flt \<Rightarrow> nat \<Rightarrow> flt" where
  "py_round (Fin x) n = flt_of_rat (of_int (round_half_even (x * 10 ^ n)) / 10 ^ n)"
| "py_round v n = v"

text \<open>
  \<open>sum(xs)\<close> on floats: CPython 3.12, the interpreter of the repository's image, adds with
  Neumaier's compensation and folds the finite compensation in at the end.
\<close>

fun sum_step :: "flt \<times> flt \<Rightarrow> flt \<Rightarrow> flt \<times> flt" where
  "sum_step (s, c) x =
     (let t = s + x
      in (t, if \<bar>x\<bar> \<le> \<bar>s\<bar> then c + ((s - t) + x) else c + ((x - t) + s)))"

definition py_sum :: "flt list \<Rightarrow> flt" where
  "py_sum xs = (case foldl sum_step (0, 0) xs of
     (s, c) \<Rightarrow> if \<not> feq c 0 \<and> is_fin c then s + c else s)"

text \<open>The division that raises.\<close>

definition py_div :: "flt \<Rightarrow> flt \<Rightarrow> flt res" where
  "py_div a b = (if feq b 0 then Inl ZeroDivisionError else Inr (a / b))"

declare py_max_def [flt_eval] py_min_def [flt_eval] py_sum_def [flt_eval]

section \<open>Intervals\<close>

text \<open>\<open>between l u v\<close>: the float \<open>v\<close> is finite and lies between the rationals \<open>l\<close> and \<open>u\<close>.\<close>

definition between :: "rat \<Rightarrow> rat \<Rightarrow> flt \<Rightarrow> bool" where
  "between l u v \<longleftrightarrow> (case v of Fin r \<Rightarrow> l \<le> r \<and> r \<le> u | _ \<Rightarrow> False)"

lemma between_iff: "between l u v \<longleftrightarrow> (\<exists>r. v = Fin r \<and> l \<le> r \<and> r \<le> u)"
  by (auto simp: between_def split: flt.splits)

lemma between_Fin [simp]: "between l u (Fin r) \<longleftrightarrow> l \<le> r \<and> r \<le> u"
  by (simp add: between_def)

lemma between_simps [simp]: "\<not> between l u NaN" "\<not> between l u PosInf" "\<not> between l u NegInf"
  "between l u 0 \<longleftrightarrow> l \<le> 0 \<and> 0 \<le> u" "between l u 1 \<longleftrightarrow> l \<le> 1 \<and> 1 \<le> u"
  by (simp_all add: between_def flt_0_1)

lemma between_not_NaN: "between l u v \<Longrightarrow> v \<noteq> NaN"
  by auto

lemma between_is_fin: "between l u v \<Longrightarrow> is_fin v"
  by (auto simp: between_iff)

lemma between_weaken: "between l u v \<Longrightarrow> l' \<le> l \<Longrightarrow> u \<le> u' \<Longrightarrow> between l' u' v"
  by (auto simp: between_iff)

lemma between_if: "(b \<Longrightarrow> between l u x) \<Longrightarrow> (\<not> b \<Longrightarrow> between l u y) \<Longrightarrow> between l u (if b then x else y)"
  by simp

lemma between_flt_of_rat:
  assumes "l \<le> x" "x \<le> u" "\<bar>l\<bar> \<le> 10 ^ 18" "\<bar>u\<bar> \<le> 10 ^ 18"
  shows "between (rnd l) (rnd u) (flt_of_rat x)"
proof -
  have "\<bar>x\<bar> \<le> 10 ^ 18" using assms by linarith
  then show ?thesis using assms rnd_mono by (simp add: flt_of_rat_small)
qed

text \<open>The bounds of an exact result carry over when they are representable.\<close>

lemma between_rounded:
  assumes "l \<le> x" "x \<le> u" "rnd l = l" "rnd u = u" "\<bar>l\<bar> \<le> 10 ^ 18" "\<bar>u\<bar> \<le> 10 ^ 18"
  shows "between l u (flt_of_rat x)"
  using between_flt_of_rat [of l x u] assms by simp

lemma between_add:
  assumes "between a b x" "between c d y" "l \<le> a + c" "b + d \<le> u"
    "rnd l = l" "rnd u = u" "\<bar>l\<bar> \<le> 10 ^ 18" "\<bar>u\<bar> \<le> 10 ^ 18"
  shows "between l u (x + y)"
  using assms by (auto simp: between_iff plus_flt_def intro!: between_rounded [unfolded between_iff])

lemma between_diff:
  assumes "between a b x" "between c d y" "l \<le> a - d" "b - c \<le> u"
    "rnd l = l" "rnd u = u" "\<bar>l\<bar> \<le> 10 ^ 18" "\<bar>u\<bar> \<le> 10 ^ 18"
  shows "between l u (x - y)"
  using assms by (auto simp: between_iff minus_flt_def intro!: between_rounded [unfolded between_iff])

lemma between_mult_nonneg:
  assumes "between 0 b x" "between 0 d y" "b * d \<le> u" "rnd u = u" "u \<le> 10 ^ 18"
  shows "between 0 u (x * y)"
proof -
  from assms obtain r s where rs: "x = Fin r" "y = Fin s" "0 \<le> r" "r \<le> b" "0 \<le> s" "s \<le> d"
    by (auto simp: between_iff)
  then have "0 \<le> r * s" "r * s \<le> u" using mult_mono [of r b s d] assms by auto
  then have "between 0 u (flt_of_rat (r * s))"
    using assms(4,5) by (intro between_rounded) auto
  then show ?thesis by (simp add: rs times_flt_def)
qed

lemma between_lit:
  "l \<le> q \<Longrightarrow> q \<le> u \<Longrightarrow> rnd l = l \<Longrightarrow> rnd u = u \<Longrightarrow> \<bar>l\<bar> \<le> 10 ^ 18 \<Longrightarrow> \<bar>u\<bar> \<le> 10 ^ 18
   \<Longrightarrow> between l u (lit q)"
  by (rule between_rounded)

lemma between_py_max: "between a b x \<Longrightarrow> l \<le> c \<Longrightarrow> a \<le> c \<Longrightarrow> between l u (Fin c) \<Longrightarrow> b \<le> u
   \<Longrightarrow> between l u (py_max x (Fin c))"
  by (auto simp: between_iff py_max_def)

lemma between_py_round:
  assumes "between l u v" "of_int m \<le> l * 10 ^ n" "u * 10 ^ n \<le> of_int k + 1/2" "even k"
    "a = of_int m / 10 ^ n" "b = of_int k / 10 ^ n"
    "rnd a = a" "rnd b = b" "\<bar>a\<bar> \<le> 10 ^ 18" "\<bar>b\<bar> \<le> 10 ^ 18"
  shows "between a b (py_round v n)"
proof -
  obtain r where r: "v = Fin r" "l \<le> r" "r \<le> u" using assms(1) by (auto simp: between_iff)
  have "of_int m \<le> r * 10 ^ n" "r * 10 ^ n \<le> of_int k + 1/2"
    using order_trans [OF assms(2) mult_right_mono [OF r(2), of "10 ^ n"]]
      order_trans [OF mult_right_mono [OF r(3), of "10 ^ n"] assms(3)] by auto
  moreover have "round_half_even (of_int k + 1/2 :: rat) = k"
    using assms(4) by (simp add: round_half_even_def Let_def floor_rat_eval)
  ultimately have "m \<le> round_half_even (r * 10 ^ n)" "round_half_even (r * 10 ^ n) \<le> k"
    using rhe_mono rhe_of_int by metis+
  then have "a \<le> of_int (round_half_even (r * 10 ^ n)) / 10 ^ n"
    "of_int (round_half_even (r * 10 ^ n)) / 10 ^ n \<le> b"
    using assms(5,6) by (auto intro!: divide_right_mono)
  then show ?thesis using assms r between_rounded by simp
qed

end
