(* ===== verification/Py_Value.thy ===== *)
theory Py_Value
imports Py_Float
begin

text \<open>
  The dynamic values the scoring code meets: the JSON values of a miner's response and of the
  data a company provides. An \<open>int\<close> and the \<open>float\<close> it equals are one number here.
\<close>

datatype pyval = PNone | PNum flt | PStr string | PList "pyval list" | PDict "(string \<times> pyval) list"

type_synonym pydict = "(string, pyval) dict"

text \<open>A value used as a number: anything else raises \<open>TypeError\<close>.\<close>

fun as_num :: "pyval \<Rightarrow> flt res" where
  "as_num (PNum x) = Inr x"
| "as_num _ = Inl TypeError"

fun truthy :: "pyval \<Rightarrow> bool" where
  "truthy PNone = False"
| "truthy (PNum x) = (\<not> feq x 0)"
| "truthy (PStr s) = (s \<noteq> [])"
| "truthy (PList l) = (l \<noteq> [])"
| "truthy (PDict d) = (d \<noteq> [])"

text \<open>\<open>v == 0\<close>, which no string, dictionary or \<open>None\<close> satisfies.\<close>

fun eq_zero :: "pyval \<Rightarrow> bool" where
  "eq_zero (PNum x) = feq x 0"
| "eq_zero _ = False"

text \<open>\<open>v is not None and v != 0 and v != ""\<close>\<close>

fun provided :: "pyval \<Rightarrow> bool" where
  "provided PNone = False"
| "provided (PNum x) = (\<not> feq x 0)"
| "provided (PStr s) = (s \<noteq> [])"
| "provided (PList l) = True"
| "provided (PDict d) = True"

text \<open>\<open>d.get(k, 0)\<close> used as a number\<close>

definition get_num :: "pydict \<Rightarrow> string \<Rightarrow> flt res" where
  "get_num d k = as_num (dict_get d k (PNum 0))"

text \<open>\<open>d.get(k) or 0\<close>\<close>

definition get_or_zero :: "pydict \<Rightarrow> string \<Rightarrow> pyval" where
  "get_or_zero d k = (case map_of d k of Some v \<Rightarrow> (if truthy v then v else PNum 0) | None \<Rightarrow> PNum 0)"

text \<open>\<open>(d.get(k) or 0) > 0\<close>\<close>

definition field_pos :: "pydict \<Rightarrow> string \<Rightarrow> bool res" where
  "field_pos d k = bind_r (as_num (get_or_zero d k)) (\<lambda>x. Inr (0 < x))"

text \<open>
  \<open>any((d.get(f) or 0) > 0 for f in fs)\<close> stops at the first true test;
  \<open>sum(1 for f in fs if (d.get(f) or 0) > 0)\<close> tests every field.
\<close>

fun any_field_pos :: "pydict \<Rightarrow> string list \<Rightarrow> bool res" where
  "any_field_pos d [] = Inr False"
| "any_field_pos d (f # fs) =
     bind_r (field_pos d f) (\<lambda>b. if b then Inr True else any_field_pos d fs)"

fun count_fields_pos :: "pydict \<Rightarrow> string list \<Rightarrow> nat res" where
  "count_fields_pos d [] = Inr 0"
| "count_fields_pos d (f # fs) =
     bind_r (field_pos d f) (\<lambda>b.
     bind_r (count_fields_pos d fs) (\<lambda>n. Inr (if b then Suc n else n)))"

text \<open>\<open>[v for v in d.values() if isinstance(v, (int, float))]\<close>\<close>

fun numbers :: "pyval list \<Rightarrow> flt list" where
  "numbers [] = []"
| "numbers (PNum x # vs) = x # numbers vs"
| "numbers (_ # vs) = numbers vs"

text \<open>A non-empty dictionary, the only value the detail checks look into.\<close>

fun as_nonempty_dict :: "pyval option \<Rightarrow> pydict option" where
  "as_nonempty_dict (Some (PDict d)) = (if d = [] then None else Some d)"
| "as_nonempty_dict _ = None"

text \<open>The validator's own query: the dictionary \<open>questionnaire\<close> of the protocol.\<close>

record questionnaire =
  q_industry :: "string option"
  q_region :: "string option"
  provided_data :: pydict

section \<open>Scores with penalties\<close>

text \<open>\<open>if b: score -= p\<close>\<close>

definition penalty :: "bool \<Rightarrow> flt \<Rightarrow> flt \<Rightarrow> flt" where
  "penalty b p score = (if b then score - p else score)"

text \<open>
  A score that never exceeds 1 keeps this bound under every penalty, whatever the test behind it
  sees (NaN included), and the final \<open>max(score, 0.0)\<close> brings it into the unit interval.
\<close>

lemma flt_diff_le_1: "s \<le> 1 \<Longrightarrow> 0 \<le> p \<Longrightarrow> s - p \<le> (1 :: flt)"
proof -
  assume s: "s \<le> 1" and p: "0 \<le> p"
  have "flt_of_rat x \<le> Fin 1" if "x \<le> 1" for x
    using rnd_mono [OF that] rnd_of_int [of 1] one_less_power [of "2 :: rat" 1024]
    by (auto simp: flt_of_rat_def Let_def)
  then show "s - p \<le> 1"
    using s p by (cases s; cases p) (auto simp: flt_0_1 minus_flt_def)
qed

lemma lit_nonneg [simp]: "0 \<le> q \<Longrightarrow> 0 \<le> lit q"
  by (rule flt_of_rat_nonneg)

lemma penalty_le_1 [simp]: "s \<le> 1 \<Longrightarrow> 0 \<le> p \<Longrightarrow> penalty b p s \<le> 1"
  by (simp add: penalty_def flt_diff_le_1)

lemma clamp_between [simp]: "s \<le> 1 \<Longrightarrow> between 0 1 (py_max s 0)"
  by (cases s) (auto simp: py_max_def flt_0_1)

lemma one_le_one [simp]: "(1 :: flt) \<le> 1"
  by (simp add: flt_0_1)

lemma lit_between_0_1: "0 \<le> q \<Longrightarrow> q \<le> 1 \<Longrightarrow> between 0 1 (lit q)"
  using between_lit [of 0 q 1] rnd_of_int [of 1] by (simp del: rnd_of_int)

section \<open>Errors\<close>

text \<open>The only exception these primitives raise is \<open>TypeError\<close>.\<close>

lemma as_num_Inl: "as_num v = Inl e \<Longrightarrow> e = TypeError"
  by (cases v) auto

lemma get_num_Inl: "get_num d k = Inl e \<Longrightarrow> e = TypeError"
  by (simp add: get_num_def as_num_Inl)

lemma field_pos_Inl: "field_pos d f = Inl e \<Longrightarrow> e = TypeError"
  by (auto simp: field_pos_def bind_r_Inl_iff dest: as_num_Inl)

lemma any_field_pos_Inl: "any_field_pos d fs = Inl e \<Longrightarrow> e = TypeError"
  by (induction fs) (auto simp: bind_r_Inl_iff dest: field_pos_Inl split: if_splits)

lemma count_fields_pos_Inl: "count_fields_pos d fs = Inl e \<Longrightarrow> e = TypeError"
  by (induction fs) (auto simp: bind_r_Inl_iff dest: field_pos_Inl)

lemmas type_error_only = get_num_Inl field_pos_Inl any_field_pos_Inl count_fields_pos_Inl as_num_Inl

text \<open>A key that is absent or holds a number never raises.\<close>

definition num_at :: "pydict \<Rightarrow> string \<Rightarrow> bool" where
  "num_at d k \<longleftrightarrow> (case map_of d k of None \<Rightarrow> True | Some (PNum _) \<Rightarrow> True | _ \<Rightarrow> False)"

lemma get_num_num_at: "num_at d k \<Longrightarrow> \<exists>x. get_num d k = Inr x"
  by (auto simp: num_at_def get_num_def dict_get_def split: option.splits pyval.splits)

lemma field_pos_num_at: "num_at d k \<Longrightarrow> \<exists>b. field_pos d k = Inr b"
  by (auto simp: num_at_def field_pos_def get_or_zero_def split: option.splits pyval.splits)

lemma any_field_pos_num_at: "list_all (num_at d) fs \<Longrightarrow> \<exists>b. any_field_pos d fs = Inr b"
  by (induction fs) (auto dest!: field_pos_num_at)

lemma count_fields_pos_num_at: "list_all (num_at d) fs \<Longrightarrow> \<exists>n. count_fields_pos d fs = Inr n"
  by (induction fs) (auto dest!: field_pos_num_at)

lemma count_fields_pos_le: "count_fields_pos d fs = Inr n \<Longrightarrow> n \<le> length fs"
  by (induction fs arbitrary: n) (force simp: bind_r_Inr_iff)+

end
