(* ===== verification/Float_Order.thy ===== *)
theory Float_Order
imports Py_Value
begin

text \<open>
  Monotonicity of the rounded operations on all floats, infinities included, and the relative
  error of one rounding. The emission calculators are compositions of these operations.
\<close>

lemma flt_of_rat_mono: "x \<le> y \<Longrightarrow> flt_of_rat x \<le> flt_of_rat y"
  using rnd_mono [of x y] by (auto simp: flt_of_rat_def Let_def)

lemma flt_of_rat_not_NaN [simp]: "flt_of_rat x \<noteq> NaN"
  by (simp add: flt_of_rat_def Let_def)

lemma le_infinity [simp]: "(a :: flt) \<le> PosInf \<longleftrightarrow> a \<noteq> NaN" "NegInf \<le> a \<longleftrightarrow> a \<noteq> NaN"
  by (cases a; simp)+

lemma flt_mult_right_mono: "a \<le> b \<Longrightarrow> 0 \<le> a \<Longrightarrow> 0 < c \<Longrightarrow> a * Fin c \<le> b * Fin c"
  by (cases a; cases b) (auto simp: times_flt_def flt_0_1 inf_signed_def flt_of_rat_mono mult_right_mono)

lemma flt_divide_right_mono: "a \<le> b \<Longrightarrow> 0 < c \<Longrightarrow> a / Fin c \<le> b / Fin c"
  by (cases a; cases b) (auto simp: divide_flt_def flt_0_1 inf_signed_def flt_of_rat_mono divide_right_mono)

lemma flt_round_mono: "a \<le> b \<Longrightarrow> py_round a n \<le> py_round b n"
  by (cases a; cases b) (auto intro!: flt_of_rat_mono divide_right_mono rhe_mono mult_right_mono)

lemma flt_round_nonneg: "0 \<le> a \<Longrightarrow> 0 \<le> py_round a n"
proof -
  assume a: "0 \<le> a"
  have "py_round 0 n \<le> py_round a n" using a by (rule flt_round_mono)
  moreover have "py_round 0 n = 0"
    using rhe_of_int [of 0] by (simp add: flt_0_1 flt_of_rat_small)
  ultimately show ?thesis by simp
qed

lemma flt_le_refl: "(a :: flt) \<noteq> NaN \<Longrightarrow> a \<le> a"
  by (cases a) simp_all

lemma flt_less_imp_le: "(a :: flt) < b \<Longrightarrow> a \<le> b"
  by (rule flt_less_le)

lemma flt_diff_le: "0 \<le> b \<Longrightarrow> 0 < a \<Longrightarrow> rnd r = r \<Longrightarrow> \<bar>r\<bar> < 2 ^ 1024 \<Longrightarrow> a = Fin r \<Longrightarrow> a - b \<le> a"
proof -
  assume b: "0 \<le> b" and r: "rnd r = r" "\<bar>r\<bar> < 2 ^ 1024" "a = Fin r"
  have "flt_of_rat r = Fin r" using r by (auto simp: flt_of_rat_def Let_def)
  then show "a - b \<le> a"
    using b r flt_of_rat_mono [of "r + - s" r for s] by (cases b) (auto simp: minus_flt_def flt_0_1)
qed

text \<open>One rounding of a non-negative number errs upwards by at most a factor \<open>1 + 2\<^sup>-\<^sup>5\<^sup>3\<close>, or by half
  the least subnormal.\<close>

lemma rnd_upper:
  assumes "0 \<le> x"
  shows "rnd x \<le> x * (1 + 1 / 2 ^ 53) + 1 / 2 ^ 1075"
proof (cases "x = 0")
  case False
  then have x: "0 < x" using assms by simp
  have "rnd x - x \<le> 2 powi (ulp_exp x) / 2" using rnd_close [of x] by linarith
  also have "\<dots> \<le> x / 2 ^ 53 + 1 / 2 ^ 1075"
  proof (cases "ilog2 x - 52 \<le> -1074")
    case True
    then have "ulp_exp x = -1074" using x by (simp add: ulp_exp_def)
    moreover have "(2 :: rat) powi (-1074) / 2 = 1 / 2 ^ 1075" by (simp add: power_int_minus)
    ultimately show ?thesis using x by simp
  next
    case False
    then have "ulp_exp x = ilog2 x - 52" using x by (simp add: ulp_exp_def)
    then have "2 powi (ulp_exp x) / 2 = 2 powi (ilog2 x) / (2 :: rat) ^ 53"
      using powi2_diff [of "ilog2 x" 52] by simp
    also have "\<dots> \<le> x / 2 ^ 53" using ilog2_bounds [OF x] by (intro divide_right_mono) simp_all
    finally show ?thesis by simp
  qed
  finally show ?thesis by (simp add: algebra_simps)
qed simp

end
