(* ===== verification/Py_String.thy ===== *)
theory Py_String
imports Prelude
begin

text \<open>
  The string methods the program uses on ASCII text: \<open>upper\<close>, \<open>lower\<close>, \<open>strip\<close> and \<open>str(int)\<close>,
  on lists of characters. Characters beyond ASCII are left alone by the case methods here.
\<close>

definition upper_char :: "char \<Rightarrow> char" where
  "upper_char c = (let n = of_char c :: nat in if 97 \<le> n \<and> n \<le> 122 then char_of (n - 32) else c)"

definition lower_char :: "char \<Rightarrow> char" where
  "lower_char c = (let n = of_char c :: nat in if 65 \<le> n \<and> n \<le> 90 then char_of (n + 32) else c)"

definition py_upper :: "string \<Rightarrow> string" where
  "py_upper s = map upper_char s"

definition py_lower :: "string \<Rightarrow> string" where
  "py_lower s = map lower_char s"

definition is_space :: "char \<Rightarrow> bool" where
  "is_space c = (let n = of_char c :: nat in n = 32 \<or> (9 \<le> n \<and> n \<le> 13) \<or> (28 \<le> n \<and> n \<le> 31))"

definition py_strip :: "string \<Rightarrow> string" where
  "py_strip s = rev (dropWhile is_space (rev (dropWhile is_space s)))"

text \<open>\<open>str(n)\<close> of a non-negative and of any integer.\<close>

definition digit_char :: "nat \<Rightarrow> char" where
  "digit_char d = char_of (48 + d)"

fun str_nat :: "nat \<Rightarrow> string" where
  "str_nat n = (if n < 10 then [digit_char n] else str_nat (n div 10) @ [digit_char (n mod 10)])"

definition str_int :: "int \<Rightarrow> string" where
  "str_int n = (if n < 0 then CHR ''-'' # str_nat (nat (- n)) else str_nat (nat n))"

text \<open>\<open>s.startswith(p)\<close> and \<open>p in s\<close>\<close>

fun starts_with :: "string \<Rightarrow> string \<Rightarrow> bool" where
  "starts_with [] s = True"
| "starts_with (c # cs) [] = False"
| "starts_with (c # cs) (d # ds) = (c = d \<and> starts_with cs ds)"

fun contains :: "string \<Rightarrow> string \<Rightarrow> bool" where
  "contains sub [] = (sub = [])"
| "contains sub (c # cs) = (starts_with sub (c # cs) \<or> contains sub cs)"

text \<open>\<open>sep.join(parts)\<close>\<close>

fun join :: "string \<Rightarrow> string list \<Rightarrow> string" where
  "join sep [] = []"
| "join sep [s] = s"
| "join sep (s # ss) = s @ sep @ join sep ss"

declare str_nat.simps [simp del]

lemma lower_char_idem [simp]: "lower_char (lower_char c) = lower_char c"
  by (simp add: lower_char_def Let_def)

lemma upper_char_idem [simp]: "upper_char (upper_char c) = upper_char c"
proof (cases "97 \<le> (of_char c :: nat) \<and> (of_char c :: nat) \<le> 122")
  case True
  then have "(of_char c - 32) mod 256 = of_char c - (32 :: nat)" by (intro mod_less) auto
  moreover have "\<not> 97 \<le> of_char c - (32 :: nat)" using True by linarith
  ultimately show ?thesis using True by (simp add: upper_char_def Let_def)
qed (auto simp: upper_char_def Let_def)

lemma py_lower_idem [simp]: "py_lower (py_lower s) = py_lower s"
  by (simp add: py_lower_def)

lemma py_upper_idem [simp]: "py_upper (py_upper s) = py_upper s"
  by (simp add: py_upper_def)

text \<open>Stripping is idempotent: what is left neither starts nor ends with white space.\<close>

lemma dropWhile_fix: "xs = [] \<or> \<not> P (hd xs) \<Longrightarrow> dropWhile P xs = xs"
  by (cases xs) auto

lemma hd_rev_dropWhile:
  assumes "xs = [] \<or> \<not> P (hd xs)"
  shows "rev (dropWhile P (rev xs)) = [] \<or> \<not> P (hd (rev (dropWhile P (rev xs))))"
proof (cases "rev (dropWhile P (rev xs))")
  case (Cons y ys)
  obtain zs where "rev xs = zs @ dropWhile P (rev xs)" using takeWhile_dropWhile_id by metis
  then have "xs = rev (dropWhile P (rev xs)) @ rev zs" by (metis rev_append rev_rev_ident)
  then have "hd xs = y" "xs \<noteq> []" using Cons by auto
  then show ?thesis using assms Cons by simp
qed simp

lemma py_strip_idem [simp]: "py_strip (py_strip s) = py_strip s"
proof -
  have "dropWhile is_space s = [] \<or> \<not> is_space (hd (dropWhile is_space s))"
    by (metis hd_dropWhile)
  from hd_rev_dropWhile [where P = is_space, OF this] show ?thesis
    by (simp add: py_strip_def dropWhile_fix)
qed

end
