(* ===== verification/Benchmark_Alignment.thy ===== *)
theory Benchmark_Alignment
imports Py_Value
begin

text \<open>
  \<open>carbonscope/validation/benchmark.py\<close> and the industry profile lookup of
  \<open>carbonscope/emission_factors/loader.py\<close>. The dataset \<open>industry_averages.json\<close> is a parameter:
  a dictionary from industries to profiles, of which the code uses the fields below. An absent
  key is \<open>None\<close>, and the code's default applies.
\<close>

record industry_profile =
  typical_scope_split :: "(string, flt) dict"
  spend_factor_kgco2e_per_1000usd :: "flt option"
  avg_tco2e_per_million_usd_revenue :: "flt option"
  avg_tco2e_per_employee :: "flt option"
  scope3_materiality :: "(string, flt) dict"

type_synonym industry_data = "(string, industry_profile) dict"

text \<open>\<open>industries.get(industry, industries["manufacturing"])\<close>; the default is evaluated first.\<close>

definition get_industry_profile :: "industry_data \<Rightarrow> string \<Rightarrow> industry_profile res" where
  "get_industry_profile industries industry =
     (case map_of industries ''manufacturing'' of
        None \<Rightarrow> Inl KeyError
      | Some manufacturing \<Rightarrow> Inr (dict_get industries industry manufacturing))"

text \<open>One scope's share against the expected share.\<close>

definition scope_penalty :: "flt \<Rightarrow> flt \<Rightarrow> flt \<Rightarrow> flt" where
  "scope_penalty actual exp_pct score =
     (let tolerance = lit (15/100); deviation = \<bar>actual - exp_pct\<bar>
      in if tolerance < deviation
         then let excess = deviation - tolerance;
                  pen = py_min (excess / lit (4/10)) 1 * lit (33/100)
              in score - pen
         else score)"

definition check_benchmark_alignment :: "industry_data \<Rightarrow> pydict \<Rightarrow> string \<Rightarrow> flt res" where
  "check_benchmark_alignment industries emissions industry =
     bind_r (get_num emissions ''scope1'') (\<lambda>s1.
     bind_r (get_num emissions ''scope2'') (\<lambda>s2.
     bind_r (get_num emissions ''scope3'') (\<lambda>s3.
     let total = s1 + s2 + s3
     in if total \<le> 0 then Inr (lit (5/10))
        else bind_r (get_industry_profile industries industry) (\<lambda>profile.
          let expected = typical_scope_split profile
          in if expected = [] then Inr (lit (5/10))
             else Inr (py_max
               (foldl (\<lambda>score (key, actual). scope_penalty actual (dict_get expected key 0) score) 1
                  [(''scope1_pct'', s1 / total), (''scope2_pct'', s2 / total),
                   (''scope3_pct'', s3 / total)]) 0)))))"

lemma flt_mult_lit_nonneg: "0 \<le> x \<Longrightarrow> 0 < q \<Longrightarrow> q \<le> 10 ^ 6 \<Longrightarrow> 0 < rnd q \<Longrightarrow> 0 \<le> x * lit q"
  using flt_mul_nonneg [of x "rnd q"] by (simp add: flt_of_rat_small)

lemma lit_33: "lit (33/100) = Fin (rnd (33/100))" "0 < rnd (33/100)"
  and lit_4: "lit (4/10) = Fin (rnd (4/10))" "0 < rnd (4/10)"
  by (simp_all add: flt_eval)

lemma flt_diff_pos: "a < b \<Longrightarrow> a \<noteq> NegInf \<Longrightarrow> 0 \<le> b - (a :: flt)"
  using flt_of_rat_nonneg by (cases a; cases b) (auto simp: minus_flt_def flt_0_1)

lemma scope_penalty_le_1 [simp]: "score \<le> 1 \<Longrightarrow> scope_penalty actual exp_pct score \<le> 1"
proof -
  assume s: "score \<le> 1"
  define d where "d = \<bar>actual - exp_pct\<bar>"
  have "0 \<le> py_min ((d - lit (15/100)) / lit (4/10)) 1 * lit (33/100)" if d: "lit (15/100) < d"
  proof -
    have "0 \<le> d - lit (15/100)" using d by (intro flt_diff_pos) (simp_all add: flt_eval)
    then have "0 \<le> (d - lit (15/100)) / lit (4/10)" unfolding lit_4 by (rule flt_div_nonneg) (rule lit_4)
    then have "0 \<le> py_min ((d - lit (15/100)) / lit (4/10)) 1" by (simp add: py_min_def flt_0_1)
    then show ?thesis unfolding lit_33 by (rule flt_mul_nonneg) (rule lit_33)
  qed
  with s show ?thesis
    by (simp add: scope_penalty_def Let_def d_def [symmetric] flt_diff_le_1)
qed

lemma check_benchmark_alignment_range:
  "check_benchmark_alignment industries emissions industry = Inr sc \<Longrightarrow> between 0 1 sc"
  by (auto simp: check_benchmark_alignment_def Let_def bind_r_Inr_iff lit_between_0_1
      split: if_splits)

lemma check_benchmark_alignment_error:
  "check_benchmark_alignment industries emissions industry = Inl e \<Longrightarrow> e = TypeError \<or> e = KeyError"
  by (auto simp: check_benchmark_alignment_def get_industry_profile_def Let_def bind_r_Inl_iff
      split: if_splits option.splits dest: type_error_only)

end
