(* ===== verification/Emission_Factors.thy ===== *)
theory Emission_Factors
imports Float_Order Py_String Benchmark_Alignment
begin

text \<open>
  \<open>carbonscope/emission_factors\<close>: the lookups of \<open>loader.py\<close> and the calculators of \<open>scope1.py\<close>,
  \<open>scope2.py\<close> and \<open>scope3.py\<close>. The JSON datasets are a parameter, a record of the tables the code
  reads; a missing key of a table raises \<open>KeyError\<close> where the code indexes and takes the default
  where the code calls \<open>get\<close>. Amounts are in the units of the source (kgCO2e, kWh, km).
\<close>

record vehicle =
  vt_fuel_type :: "string option"
  kgco2e_per_km :: flt

record emission_data =
  fuels :: "(string, flt) dict"
  vehicle_types :: "(string, vehicle) dict"
  subregions :: "(string, flt) dict"
  state_to_subregion :: "(string, string) dict"
  countries :: "(string, flt) dict"
  regional_averages :: "(string, flt) dict"
  global_average :: flt
  freight :: "(string, pydict) dict"
  industries :: industry_data
  business_travel_averages :: "(string, flt) dict"
  commuting_averages :: "(string, flt) dict"
  gwp_100yr :: "(string, int) dict"
  common_refrigerants :: "(string, int) dict"

text \<open>\<open>d[k]\<close>\<close>

definition dict_item :: "('k, 'v) dict \<Rightarrow> 'k \<Rightarrow> 'v res" where
  "dict_item d k = (case map_of d k of None \<Rightarrow> Inl KeyError | Some v \<Rightarrow> Inr v)"

section \<open>Lookups\<close>

definition get_fuel_factor :: "emission_data \<Rightarrow> string \<Rightarrow> flt res" where
  "get_fuel_factor D fuel_type =
     (case map_of (fuels D) fuel_type of
        Some f \<Rightarrow> Inr f
      | None \<Rightarrow> dict_item (fuels D) ''diesel'')"

definition get_grid_factor :: "emission_data \<Rightarrow> string \<Rightarrow> flt res" where
  "get_grid_factor D region =
     (let region_upper = py_strip (py_upper region)
      in case map_of (subregions D) region_upper of
           Some f \<Rightarrow> Inr f
         | None \<Rightarrow>
      (case map_of (state_to_subregion D) region_upper of
           Some subregion \<Rightarrow> dict_item (subregions D) subregion
         | None \<Rightarrow>
      (case map_of (countries D) region_upper of
           Some f \<Rightarrow> Inr f
         | None \<Rightarrow>
      (case map_of (regional_averages D) region_upper of
           Some f \<Rightarrow> Inr f
         | None \<Rightarrow> Inr (global_average D)))))"

definition get_transport_factor :: "emission_data \<Rightarrow> string \<Rightarrow> string option \<Rightarrow> pyval res" where
  "get_transport_factor D mode detail =
     (case map_of (freight D) mode of
        None \<Rightarrow> bind_r (dict_item (freight D) ''road'') (\<lambda>road. dict_item road ''kgco2e_per_ton_km'')
      | Some mode_data \<Rightarrow>
          (case detail of
             Some d \<Rightarrow>
               if d \<noteq> [] \<and> map_of mode_data d \<noteq> None then dict_item mode_data d
               else dict_item mode_data ''kgco2e_per_ton_km''
           | None \<Rightarrow> dict_item mode_data ''kgco2e_per_ton_km''))"

section \<open>Scope 1\<close>

definition calc_stationary_combustion :: "emission_data \<Rightarrow> string \<Rightarrow> flt \<Rightarrow> string \<Rightarrow> flt res" where
  "calc_stationary_combustion D fuel_type quantity unit =
     (if quantity \<le> 0 then Inr 0
      else bind_r (get_fuel_factor D fuel_type) (\<lambda>factor.
        let quantity' =
          (if fuel_type = ''natural_gas'' \<and> unit = ''therms'' then quantity * lit (283168/100000)
           else if fuel_type = ''natural_gas'' \<and> unit = ''kWh'' then quantity * lit (949/10000)
           else quantity)
        in Inr (py_round (quantity' * factor) 2)))"

definition calc_mobile_combustion :: "emission_data \<Rightarrow> string \<Rightarrow> flt \<Rightarrow> flt \<Rightarrow> flt res" where
  "calc_mobile_combustion D vehicle_type distance_km fuel_liters =
     (if 0 < fuel_liters then
        let fuel_type =
          (case map_of (vehicle_types D) vehicle_type of
             None \<Rightarrow> ''diesel''
           | Some vt \<Rightarrow> (case vt_fuel_type vt of Some f \<Rightarrow> f | None \<Rightarrow> ''diesel''))
        in calc_stationary_combustion D fuel_type fuel_liters ''liters''
      else if 0 < distance_km then
        bind_r (case map_of (vehicle_types D) vehicle_type of
            Some vt \<Rightarrow> Inr vt
          | None \<Rightarrow> dict_item (vehicle_types D) ''heavy_truck_diesel'') (\<lambda>vt.
          Inr (py_round (distance_km * kgco2e_per_km vt) 2))
      else Inr 0)"

definition calc_fugitive_emissions :: "emission_data \<Rightarrow> string \<Rightarrow> flt \<Rightarrow> flt" where
  "calc_fugitive_emissions D refrigerant_type kg_leaked =
     (if kg_leaked \<le> 0 then 0
      else case map_of (common_refrigerants D) refrigerant_type of
        Some g \<Rightarrow> py_round (kg_leaked * flt_of_int g) 2
      | None \<Rightarrow>
          (case map_of (gwp_100yr D) refrigerant_type of
             Some g \<Rightarrow> py_round (kg_leaked * flt_of_int g) 2
           | None \<Rightarrow> py_round (kg_leaked * Fin 1530) 2))"

section \<open>Scope 2\<close>

text \<open>\<open>factor_override\<close> is the value the caller passes, \<open>None\<close> included.\<close>

definition calc_location_based :: "emission_data \<Rightarrow> flt \<Rightarrow> string \<Rightarrow> flt res" where
  "calc_location_based D kwh region =
     (if kwh \<le> 0 then Inr 0
      else bind_r (get_grid_factor D region) (\<lambda>gco2e_per_kwh.
        Inr (py_round (kwh * gco2e_per_kwh / Fin 1000) 2)))"

definition calc_market_based :: "emission_data \<Rightarrow> flt \<Rightarrow> string \<Rightarrow> pyval \<Rightarrow> flt \<Rightarrow> flt res" where
  "calc_market_based D kwh region factor_override rec_kwh =
     (if kwh \<le> 0 then Inr 0
      else let chargeable_kwh = py_max (kwh - rec_kwh) 0
      in if feq chargeable_kwh 0 then Inr 0
      else bind_r
        (if factor_override \<noteq> PNone
         then bind_r (as_num factor_override) (\<lambda>f. if 0 \<le> f then Inr f else get_grid_factor D region)
         else get_grid_factor D region) (\<lambda>gco2e.
        Inr (py_round (chargeable_kwh * gco2e / Fin 1000) 2)))"

definition calc_steam_heating :: "flt \<Rightarrow> string \<Rightarrow> flt" where
  "calc_steam_heating energy_kwh source_type =
     (if energy_kwh \<le> 0 then 0
      else let factors = [(''natural_gas'', lit (21/100)), (''coal'', lit (36/100)), (''oil'', lit (28/100))]
      in py_round (energy_kwh * dict_get factors source_type (lit (21/100))) 2)"

section \<open>Scope 3\<close>

definition calc_spend_based :: "emission_data \<Rightarrow> flt \<Rightarrow> string \<Rightarrow> flt res" where
  "calc_spend_based D spend_usd industry =
     (if spend_usd \<le> 0 then Inr 0
      else bind_r (get_industry_profile (industries D) industry) (\<lambda>profile.
        let factor = (case spend_factor_kgco2e_per_1000usd profile of Some f \<Rightarrow> f | None \<Rightarrow> Fin 3)
        in Inr (py_round (spend_usd / Fin 1000 * factor) 2)))"

definition calc_cat1_purchased_goods :: "emission_data \<Rightarrow> flt \<Rightarrow> string \<Rightarrow> flt res" where
  "calc_cat1_purchased_goods D spend_usd industry =
     (if spend_usd \<le> 0 then Inr 0
      else bind_r (get_industry_profile (industries D) industry) (\<lambda>profile.
        let factor = (case spend_factor_kgco2e_per_1000usd profile of Some f \<Rightarrow> f | None \<Rightarrow> Fin 3)
        in Inr (py_round (spend_usd / Fin 1000 * factor) 2)))"

definition calc_cat4_transport :: "emission_data \<Rightarrow> flt \<Rightarrow> string \<Rightarrow> flt res" where
  "calc_cat4_transport D ton_km mode =
     (if ton_km \<le> 0 then Inr 0
      else bind_r (get_transport_factor D mode None) (\<lambda>v.
        bind_r (as_num v) (\<lambda>factor. Inr (py_round (ton_km * factor) 2))))"

definition calc_cat5_waste :: "flt \<Rightarrow> string \<Rightarrow> flt" where
  "calc_cat5_waste waste_kg mthd =
     (if waste_kg \<le> 0 then 0
      else let factors = [(''landfill'', lit (586/1000)), (''recycling'', lit (21/1000)), (''incineration'', lit (21/1000))]
      in py_round (waste_kg * dict_get factors mthd (lit (586/1000))) 2)"

definition calc_cat6_business_travel :: "emission_data \<Rightarrow> flt \<Rightarrow> string \<Rightarrow> flt \<Rightarrow> flt" where
  "calc_cat6_business_travel D employee_count industry travel_spend_usd =
     (if 0 < travel_spend_usd then py_round (travel_spend_usd * lit (30/100)) 2
      else if 0 < employee_count then
        let averages = business_travel_averages D;
            tco2e_per_emp = dict_get averages industry (dict_get averages ''global_average'' (lit (15/10)))
        in py_round (employee_count * tco2e_per_emp * Fin 1000) 2
      else 0)"

definition calc_cat7_commuting :: "emission_data \<Rightarrow> flt \<Rightarrow> string \<Rightarrow> flt" where
  "calc_cat7_commuting D employee_count region =
     (if employee_count \<le> 0 then 0
      else let averages = commuting_averages D;
               region_upper = py_strip (py_upper region);
               tco2e_per_emp = dict_get averages region_upper (dict_get averages ''global'' (lit (15/10)))
      in py_round (employee_count * tco2e_per_emp * Fin 1000) 2)"

section \<open>Gap filling\<close>

text \<open>One category of the loop: \<open>acc\<close> is \<open>already_accounted\<close>, \<open>est\<close> the estimated total.\<close>

definition fill_step :: "flt \<Rightarrow> (string, flt) dict \<times> flt \<Rightarrow> string \<times> flt \<Rightarrow> (string, flt) dict \<times> flt" where
  "fill_step est st p =
     (let filled = fst st; acc = snd st; cat = fst p
      in if 0 < dict_get filled cat 0 then st
         else let estimated_cat = est * snd p;
                  remaining = py_max (est - acc) 0;
                  fill_val = py_min estimated_cat remaining
              in if 0 < fill_val then (dict_set cat (py_round fill_val 2) filled, acc + fill_val) else st)"

definition normalize_materiality :: "(string, flt) dict \<Rightarrow> (string, flt) dict" where
  "normalize_materiality materiality =
     (let mat_total = py_sum (dict_values materiality)
      in if 0 < mat_total \<and> lit (1/100) < \<bar>mat_total - 1\<bar>
         then map (\<lambda>(k, v). (k, v / mat_total)) materiality
         else materiality)"

definition estimate_scope3 :: "industry_profile \<Rightarrow> pydict \<Rightarrow> flt res" where
  "estimate_scope3 profile data =
     bind_r (as_num (get_or_zero data ''revenue_usd'')) (\<lambda>revenue.
     if 0 < revenue then
       let per_m_usd = (case avg_tco2e_per_million_usd_revenue profile of Some x \<Rightarrow> x | None \<Rightarrow> Fin 50)
       in bind_r (dict_item (typical_scope_split profile) ''scope3_pct'') (\<lambda>scope3_pct.
            Inr ((revenue / Fin 1000000) * per_m_usd * Fin 1000 * scope3_pct))
     else bind_r (as_num (get_or_zero data ''employee_count'')) (\<lambda>employees.
       if 0 < employees then
         let per_emp = (case avg_tco2e_per_employee profile of Some x \<Rightarrow> x | None \<Rightarrow> Fin 10)
         in bind_r (dict_item (typical_scope_split profile) ''scope3_pct'') (\<lambda>scope3_pct.
              Inr (employees * per_emp * Fin 1000 * scope3_pct))
       else Inr 0))"

definition fill_industry_defaults ::
    "emission_data \<Rightarrow> (string, flt) dict \<Rightarrow> string \<Rightarrow> pydict \<Rightarrow> (string, flt) dict res" where
  "fill_industry_defaults D scope3_detail industry data =
     bind_r (get_industry_profile (industries D) industry) (\<lambda>profile.
     bind_r (estimate_scope3 profile data) (\<lambda>est.
     if est \<le> 0 then Inr scope3_detail
     else Inr (fst (foldl (fill_step est) (scope3_detail, py_sum (dict_values scope3_detail))
                 (normalize_materiality (scope3_materiality profile))))))"

end
