(* ===== verification/Emission_Laws.thy ===== *)
theory Emission_Laws
imports Emission_Factors
begin

text \<open>
  What the calculators of the emission factors guarantee: certificates only lower the market-based
  figure, and gap filling keeps what was reported and stays within the estimated budget.
\<close>

section \<open>The calculators are non-negative and monotone\<close>

definition nonneg_table :: "('k, flt) dict \<Rightarrow> bool" where
  "nonneg_table d = list_all (\<lambda>v. 0 \<le> v \<and> is_fin v) (dict_values d)"

lemma nonneg_table_get: "nonneg_table d \<Longrightarrow> map_of d k = Some v \<Longrightarrow> \<exists>r \<ge> 0. v = Fin r"
  by (cases v) (force simp: nonneg_table_def list_all_iff flt_0_1 dest: map_of_SomeD)+

definition grid_ok :: "emission_data \<Rightarrow> bool" where
  "grid_ok D \<longleftrightarrow> nonneg_table (subregions D) \<and> nonneg_table (countries D) \<and>
     nonneg_table (regional_averages D) \<and> 0 \<le> global_average D \<and> is_fin (global_average D)"

lemma grid_factor_nonneg:
  assumes "grid_ok D" "get_grid_factor D region = Inr f"
  shows "\<exists>r \<ge> 0. f = Fin r"
proof -
  have g: "\<exists>r \<ge> 0. global_average D = Fin r"
    using assms(1) by (cases "global_average D") (auto simp: grid_ok_def flt_0_1)
  show ?thesis
    using assms g by (auto simp: get_grid_factor_def dict_item_def Let_def grid_ok_def
        dest: nonneg_table_get split: option.splits)
qed

text \<open>\<open>round(amount * factor / divisor, 2)\<close> on non-negative numbers: non-negative and monotone.\<close>

lemma fin_product_mono:
  assumes "0 \<le> a" "a \<le> b" "0 \<le> r"
  shows "0 \<le> Fin a * Fin r" "Fin a * Fin r \<le> Fin b * Fin r"
  using assms by (auto simp: times_flt_def flt_of_rat_nonneg intro!: flt_of_rat_mono mult_right_mono)

lemma chargeable_bounds:
  assumes "rnd k = k" "\<bar>k\<bar> < 2 ^ 1024" "0 < k" "0 \<le> rec_kwh"
  shows "\<exists>c. py_max (Fin k - rec_kwh) 0 = Fin c \<and> 0 \<le> c \<and> c \<le> k"
proof -
  have "Fin k - rec_kwh \<le> Fin k" using assms by (intro flt_diff_le) (simp_all add: flt_0_1)
  then show ?thesis using assms(3) by (cases "Fin k - rec_kwh") (auto simp: py_max_def flt_0_1)
qed

text \<open>Renewable energy certificates never raise the market-based figure above the location-based one.\<close>

lemma recs_only_lower:
  assumes "grid_ok D" "rnd k = k" "\<bar>k\<bar> < 2 ^ 1024" "0 \<le> rec_kwh"
    "calc_location_based D (Fin k) region = Inr loc" "calc_market_based D (Fin k) region PNone rec_kwh = Inr mkt"
  shows "0 \<le> mkt \<and> mkt \<le> loc"
proof (cases "k \<le> 0")
  case True
  then show ?thesis using assms(5,6) by (auto simp: calc_location_based_def calc_market_based_def flt_0_1)
next
  case False
  then have k: "0 < k" by simp
  obtain c where c: "py_max (Fin k - rec_kwh) 0 = Fin c" "0 \<le> c" "c \<le> k"
    using chargeable_bounds [OF assms(2,3) k assms(4)] by blast
  obtain f where f: "get_grid_factor D region = Inr f" "loc = py_round (Fin k * f / Fin 1000) 2"
    using assms(5) k by (auto simp: calc_location_based_def flt_0_1 bind_r_Inr_iff)
  obtain r where r: "f = Fin r" "0 \<le> r" using grid_factor_nonneg [OF assms(1) f(1)] by blast
  have loc: "0 \<le> loc"
    using fin_product_mono [of k k r] k r f by (simp add: flt_round_nonneg flt_div_nonneg)
  show ?thesis
  proof (cases "c = 0")
    case True
    then show ?thesis using assms(6) k c loc by (auto simp: calc_market_based_def feq_def flt_0_1 Let_def)
  next
    case False
    then have "mkt = py_round (Fin c * f / Fin 1000) 2"
      using assms(6) k c f by (simp add: calc_market_based_def feq_def flt_0_1 Let_def)
    moreover have "0 \<le> Fin c * f" "Fin c * f \<le> Fin k * f" using fin_product_mono [of c k r] c r by auto
    ultimately show ?thesis using f
      by (simp add: flt_round_nonneg flt_div_nonneg flt_round_mono flt_divide_right_mono)
  qed
qed

section \<open>Gap filling\<close>

text \<open>The exact sum of the finite values of a table.\<close>

fun fin_value :: "flt \<Rightarrow> rat" where
  "fin_value (Fin r) = r"
| "fin_value _ = 0"

definition exact_total :: "(string, flt) dict \<Rightarrow> rat" where
  "exact_total d = sum_list (map fin_value (dict_values d))"

lemma exact_total_set:
  "dict_ok d \<Longrightarrow> exact_total (dict_set k v d) = exact_total d - fin_value (dict_get d k 0) + fin_value v"
proof (induction k v d rule: dict_set.induct)
  case (2 k v k' v' d)
  have "map_of d k' = None" if "dict_ok ((k', v') # d)" using that by (simp add: map_of_eq_None_iff)
  with 2 show ?case by (auto simp: exact_total_def dict_get_def)
qed (simp add: exact_total_def dict_get_def flt_0_1)

lemma fill_step_keeps:
  assumes "0 < v" "map_of (fst st) cat = Some v"
  shows "map_of (fst (fill_step est st p)) cat = Some v"
  using assms by (auto simp: fill_step_def Let_def dict_get_def)

lemma fill_keeps:
  "0 < v \<Longrightarrow> map_of (fst st) cat = Some v \<Longrightarrow> map_of (fst (foldl (fill_step est) st ps)) cat = Some v"
  by (induction ps arbitrary: st) (simp_all add: fill_step_keeps)

text \<open>
  Filling adds at most what is left of the estimate: with \<open>\<delta>\<close> the error of one rounding of a number
  below \<open>2\<^sup>4\<^sup>0\<close>, each category costs half a cent of a kilogram and the roundings.
\<close>

definition delta :: rat where
  "delta = 1 / 2 ^ 14"

lemma rnd_delta: "\<bar>x\<bar> \<le> 10 ^ 12 \<Longrightarrow> \<bar>rnd x - x\<bar> \<le> delta"
  using rnd_close_below [of x 40] by (simp add: delta_def power_int_def power_divide)

lemma small_float: "\<bar>x\<bar> \<le> 10 ^ 12 \<Longrightarrow> flt_of_rat x = Fin (rnd x)"
  by (rule flt_of_rat_small) simp

lemma round_cents:
  assumes "0 \<le> f" "f \<le> 10 ^ 11"
  shows "\<exists>v. py_round (Fin f) 2 = Fin v \<and> 0 \<le> v \<and> v \<le> f + 1/200 + delta"
proof -
  let ?q = "of_int (round_half_even (f * 10 ^ 2)) / 10 ^ 2 :: rat"
  have "of_int (round_half_even (f * 10 ^ 2)) \<le> f * 10 ^ 2 + (1/2 :: rat)" using rhe_close [of "f * 10 ^ 2"] by linarith
  then have q: "?q \<le> f + 1/200" by simp
  have "0 \<le> round_half_even (f * 10 ^ 2)" using rhe_mono [of 0 "f * 10 ^ 2"] rhe_of_int [of 0] assms by simp
  then have q0: "0 \<le> ?q" by simp
  have "\<bar>?q\<bar> \<le> 10 ^ 12" using q q0 assms by simp
  then show ?thesis using small_float [of ?q] rnd_delta [of ?q] rnd_nonneg [OF q0] q by auto
qed

lemma remaining_budget:
  assumes "0 \<le> a" "a \<le> 2 * 10 ^ 11" "0 < e" "e \<le> 10 ^ 11"
  shows "\<exists>r. py_max (Fin e - Fin a) 0 = Fin r \<and> 0 \<le> r \<and> (0 < r \<longrightarrow> a < e \<and> r \<le> e - a + delta)"
proof -
  have small: "\<bar>e - a\<bar> \<le> 10 ^ 12" using assms by (simp add: abs_le_iff)
  have "a < e" if "0 < rnd (e - a)" using rnd_mono [of "e - a" 0] that by force
  then show ?thesis
    using small_float [OF small] rnd_delta [OF small] by (auto simp: minus_flt_def py_max_def flt_0_1)
qed

definition values_nonneg :: "(string, flt) dict \<Rightarrow> bool" where
  "values_nonneg d = list_all (\<lambda>v. 0 \<le> v) (dict_values d)"

lemma values_nonneg_set: "values_nonneg d \<Longrightarrow> 0 \<le> v \<Longrightarrow> values_nonneg (dict_set k v d)"
  using values_dict_set [of k v d] unfolding values_nonneg_def list_all_iff by blast

lemma fill_step_budget:
  assumes "dict_ok d" "values_nonneg d" "0 \<le> a" "a \<le> 2 * 10 ^ 11" "0 < e" "e \<le> 10 ^ 11"
  shows "\<exists>d' a'. fill_step (Fin e) (d, Fin a) p = (d', Fin a') \<and> dict_ok d' \<and> values_nonneg d' \<and>
    0 \<le> a' \<and> a' \<le> max a (e + 2 * delta) \<and> exact_total d' \<le> exact_total d + (a' - a) + (1/200 + 2 * delta)"
proof -
  obtain r where r: "py_max (Fin e - Fin a) 0 = Fin r" "0 \<le> r" "0 < r \<Longrightarrow> a < e \<and> r \<le> e - a + delta"
    using remaining_budget [OF assms(3-6)] by blast
  define f where "f = py_min (Fin e * snd p) (Fin r)"
  show ?thesis
  proof (cases "0 < dict_get d (fst p) 0 \<or> \<not> 0 < f")
    case True
    then have "fill_step (Fin e) (d, Fin a) p = (d, Fin a)" by (auto simp: fill_step_def Let_def r(1) f_def)
    then show ?thesis using assms by (simp add: delta_def)
  next
    case False
    have fr: "f \<le> Fin r" using False
      by (cases "Fin e * snd p") (auto simp: f_def py_min_def flt_0_1 split: if_splits)
    then obtain q where q: "f = Fin q" "0 < q" "q \<le> r" using False by (cases f) (auto simp: flt_0_1)
    then have qe: "a < e" "q \<le> e - a + delta" using r(3) by auto
    have q11: "q \<le> 10 ^ 11"
    proof -
      have "\<bar>e - a\<bar> \<le> 10 ^ 12" using assms by (simp add: abs_le_iff)
      have "Fin r = py_max (Fin e - Fin a) 0" by (simp add: r(1))
      then have "r \<le> rnd (e - a) \<or> r = 0" using small_float [OF \<open>\<bar>e - a\<bar> \<le> 10 ^ 12\<close>]
        by (auto simp: minus_flt_def py_max_def flt_0_1 split: if_splits)
      moreover have "rnd (e - a) \<le> of_int (10 ^ 11)" using assms by (intro rnd_rnd_int) auto
      ultimately show ?thesis using q by auto
    qed
    obtain v where v: "py_round f 2 = Fin v" "0 \<le> v" "v \<le> q + 1/200 + delta"
      using round_cents [of q] q q11 by auto
    have small: "\<bar>a + q\<bar> \<le> 10 ^ 12" using assms q q11 by (simp add: abs_le_iff)
    note add = small_float [OF small] rnd_delta [OF small]
    have step: "fill_step (Fin e) (d, Fin a) p = (dict_set (fst p) (Fin v) d, Fin (rnd (a + q)))"
      using False by (simp add: fill_step_def Let_def r(1) f_def [symmetric] v(1))
        (simp add: q(1) plus_flt_def add(1))
    have old: "0 \<le> fin_value (dict_get d (fst p) 0)"
    proof (cases "map_of d (fst p)")
      case (Some w)
      then have "0 \<le> w" using assms(2) by (force simp: values_nonneg_def list_all_iff dest: map_of_SomeD)
      with Some show ?thesis by (cases w) (auto simp: dict_get_def flt_0_1)
    qed (simp add: dict_get_def flt_0_1)
    have "0 \<le> rnd (a + q)" using assms q by (intro rnd_nonneg) simp
    moreover have "rnd (a + q) \<le> e + 2 * delta" using add(2) qe by (simp add: abs_le_iff)
    moreover have "exact_total (dict_set (fst p) (Fin v) d) \<le> exact_total d + (rnd (a + q) - a) + (1/200 + 2 * delta)"
      using exact_total_set [OF assms(1), of "fst p" "Fin v"] old v add(2) by (simp add: abs_le_iff)
    ultimately show ?thesis
      using step assms v values_nonneg_set [OF assms(2), of "Fin v"] by (auto simp: flt_0_1)
  qed
qed

lemma fill_budget:
  assumes "dict_ok d" "values_nonneg d" "0 \<le> a" "a \<le> m" "e + 2 * delta \<le> m" "m \<le> 2 * 10 ^ 11" "0 < e" "e \<le> 10 ^ 11"
  shows "\<exists>d' a'. foldl (fill_step (Fin e)) (d, Fin a) ps = (d', Fin a') \<and> values_nonneg d' \<and> dict_ok d' \<and>
    a' \<le> m \<and> exact_total d' \<le> exact_total d + (a' - a) + of_nat (length ps) * (1/200 + 2 * delta)"
  using assms(1-4)
proof (induction ps arbitrary: d a)
  case (Cons p ps)
  obtain d1 a1 where 1: "fill_step (Fin e) (d, Fin a) p = (d1, Fin a1)" "dict_ok d1" "values_nonneg d1" "0 \<le> a1"
    "a1 \<le> max a (e + 2 * delta)" "exact_total d1 \<le> exact_total d + (a1 - a) + (1/200 + 2 * delta)"
    using fill_step_budget [of d a e p] Cons.prems assms(6-8) by auto
  then have "a1 \<le> m" using Cons.prems assms(5) by auto
  then obtain d2 a2 where 2: "foldl (fill_step (Fin e)) (d1, Fin a1) ps = (d2, Fin a2)" "values_nonneg d2" "dict_ok d2" "a2 \<le> m"
    "exact_total d2 \<le> exact_total d1 + (a2 - a1) + of_nat (length ps) * (1/200 + 2 * delta)"
    using Cons.IH [of d1 a1] 1 by auto
  have "of_nat (length (p # ps)) * (1/200 + 2 * delta) = (1/200 + 2 * delta) + of_nat (length ps) * (1/200 + 2 * delta)"
    by (simp only: length_Cons of_nat_Suc distrib_right mult_1)
  then show ?case using 1 2 by auto
qed (simp add: assms)

text \<open>
  Whatever the materiality weights are, filling the gaps of a non-negative detail adds no more than
  the part of the estimate that is not yet accounted for, up to 6 grams per category.
\<close>

lemma fill_within_budget:
  assumes "dict_ok d" "values_nonneg d" "py_sum (dict_values d) = Fin a" "0 \<le> a" "a \<le> 10 ^ 11" "0 < e" "e \<le> 10 ^ 11"
    "fst (foldl (fill_step (Fin e)) (d, py_sum (dict_values d)) ps) = d'"
  shows "values_nonneg d' \<and> exact_total d' \<le> exact_total d + max 0 (e - a) + of_nat (length ps) * (6/1000)"
proof (cases ps)
  case (Cons p qs)
  define n where "n = (of_nat (length ps) :: rat)"
  have n: "1 \<le> n" by (simp add: n_def Cons)
  obtain a' where a': "values_nonneg d'" "a' \<le> max a (e + 2 * delta)" "exact_total d' \<le> exact_total d + (a' - a) + n * (1/200 + 2 * delta)"
    using fill_budget [of d a "max a (e + 2 * delta)" e ps] assms by (auto simp: delta_def n_def)
  have "n * (1/200 + 2 * delta) + 2 * delta \<le> n * (6/1000)" using n by (simp add: delta_def)
  moreover have "a' - a \<le> max 0 (e - a) + 2 * delta" using a'(2) by (auto simp: delta_def)
  ultimately show ?thesis using a'(1,3) by (simp add: n_def)
qed (use assms in simp)

end
