(* ===== verification/Protocol.thy ===== *)
theory Protocol
imports Py_Value Py_String
begin

text \<open>
  \<open>carbonscope/protocol.py\<close>: the message \<open>CarbonSynapse\<close> between validators and miners, its field
  validators and the hash that binds a response to its request. SHA-256 and \<open>json.dumps\<close> are
  parameters.
\<close>

text \<open>An entry of the audit trail: literal text, or text around a formatted value.\<close>

datatype remark = Text string | Text_Str string string | Text_Val string pyval string

record carbon_synapse =
  syn_protocol_version :: int
  syn_questionnaire :: pydict
  syn_context :: pydict
  syn_emissions :: "pydict option"
  syn_breakdown :: "pydict option"
  syn_confidence :: "flt option"
  syn_data_completeness :: "flt option"
  syn_sources :: "remark list option"
  syn_assumptions :: "remark list option"
  syn_methodology_version :: "string option"
  syn_request_hash :: "string option"

definition compute_request_hash ::
    "(string \<Rightarrow> string) \<Rightarrow> (pydict option \<Rightarrow> string) \<Rightarrow> carbon_synapse \<Rightarrow> string" where
  "compute_request_hash sha256 dumps syn =
     sha256 (''v'' @ str_int (syn_protocol_version syn) @ '':'' @ dumps (Some (syn_questionnaire syn)) @ dumps (syn_emissions syn))"

definition clamp_confidence :: "flt option \<Rightarrow> flt option" where
  "clamp_confidence v =
     (case v of
        None \<Rightarrow> None
      | Some x \<Rightarrow> if 0 \<le> x then Some (py_max 0 (py_min x 1)) else Some x)"

fun clean_keys :: "string list \<Rightarrow> pydict \<Rightarrow> pydict res" where
  "clean_keys [] cleaned = Inr cleaned"
| "clean_keys (key # ks) cleaned =
     (case map_of cleaned key of
        None \<Rightarrow> clean_keys ks cleaned
      | Some PNone \<Rightarrow> clean_keys ks cleaned
      | Some v \<Rightarrow> bind_r (as_num v) (\<lambda>x.
          clean_keys ks (if x < 0 then dict_set key (PNum 0) cleaned else cleaned)))"

definition total_keys :: "string list" where
  "total_keys = [''scope1'', ''scope2'', ''scope3'', ''total'']"

definition check_emissions :: "pydict option \<Rightarrow> pydict option res" where
  "check_emissions v =
     (case v of
        None \<Rightarrow> Inr None
      | Some d \<Rightarrow> bind_r (clean_keys total_keys d) (\<lambda>d'. Inr (Some d')))"

definition check_breakdown_keys :: "(string, 'v) dict option \<Rightarrow> (string, 'v) dict option" where
  "check_breakdown_keys v =
     (case v of
        None \<Rightarrow> None
      | Some d \<Rightarrow> Some (filter (\<lambda>p. fst p \<in> {''scope1_detail'', ''scope2_detail'', ''scope3_detail''}) d))"

text \<open>A clamped confidence is an error code, NaN, or in the unit interval; clamping is idempotent.\<close>

lemma clamp_confidence_cases:
  "clamp_confidence (Some x) = Some y \<Longrightarrow> between 0 1 y \<or> y < 0 \<or> y = NaN"
  by (cases x) (auto simp: clamp_confidence_def py_max_def py_min_def flt_0_1 split: if_splits)

lemma clamp_confidence_idem [simp]: "clamp_confidence (clamp_confidence v) = clamp_confidence v"
proof (cases v)
  case (Some x)
  then show ?thesis
    by (cases x) (auto simp: clamp_confidence_def py_max_def py_min_def flt_0_1)
qed (simp add: clamp_confidence_def)

text \<open>The cleaned totals are not negative; NaN stays as it is.\<close>

definition not_negative_at :: "pydict \<Rightarrow> string \<Rightarrow> bool" where
  "not_negative_at d k \<longleftrightarrow> (case map_of d k of Some (PNum x) \<Rightarrow> \<not> x < 0 | _ \<Rightarrow> True)"

lemma clean_keys_not_negative:
  "clean_keys ks d = Inr d' \<Longrightarrow> k \<in> set ks \<or> not_negative_at d k \<Longrightarrow> not_negative_at d' k"
proof (induction ks arbitrary: d)
  case (Cons j ks)
  show ?case
  proof (cases "map_of d j")
    case None
    then show ?thesis using Cons by (auto simp: not_negative_at_def)
  next
    case (Some v)
    then show ?thesis using Cons
      by (cases v) (auto simp: not_negative_at_def flt_0_1 bind_r_Inr_iff split: if_splits)
  qed
qed simp

lemma check_emissions_not_negative:
  "check_emissions (Some d) = Inr (Some d') \<Longrightarrow> k \<in> set total_keys \<Longrightarrow> not_negative_at d' k"
  by (auto simp: check_emissions_def bind_r_Inr_iff intro: clean_keys_not_negative)

end
