(* ===== verification/Utils.thy ===== *)
theory Utils
imports Py_Value
begin

text \<open>
  \<open>carbonscope/utils.py\<close>: unit conversions, global warming potentials and the data completeness
  score. The literal tables are the source's; \<open>gwp_ar6.json\<close> is a parameter.
\<close>

section \<open>Unit conversion\<close>

definition volume_conversions :: "(string, rat) dict" where
  "volume_conversions =
    [(''gallons_to_liters'', 378541/100000), (''m3_to_liters'', 1000),
     (''barrels_to_liters'', 158987/1000)]"

definition mass_conversions :: "(string, rat) dict" where
  "mass_conversions =
    [(''tonnes_to_kg'', 1000), (''short_tons_to_kg'', 907185/1000), (''pounds_to_kg'', 453592/1000000)]"

definition energy_conversions :: "(string, rat) dict" where
  "energy_conversions =
    [(''mwh_to_kwh'', 1000), (''therms_to_kwh'', 293001/10000), (''mmbtu_to_kwh'', 293071/1000),
     (''gj_to_kwh'', 277778/1000), (''mj_to_kwh'', 277778/1000000)]"

definition distance_conversions :: "(string, rat) dict" where
  "distance_conversions =
    [(''miles_to_km'', 160934/100000), (''nautical_miles_to_km'', 1852/1000)]"

text \<open>\<open>{**VOLUME, **MASS, **ENERGY, **DISTANCE}\<close>: a later table overrides an earlier one.\<close>

definition all_conversions :: "(string, rat) dict" where
  "all_conversions = foldl (\<lambda>d (k, v). dict_set k v d) []
     (volume_conversions @ mass_conversions @ energy_conversions @ distance_conversions)"

definition convert_units :: "flt \<Rightarrow> string \<Rightarrow> flt res" where
  "convert_units value conversion =
     (case map_of all_conversions conversion of
        None \<Rightarrow> Inl (ValueError ''Unknown conversion'')
      | Some factor \<Rightarrow> Inr (value * lit factor))"

section \<open>Global warming potentials\<close>

text \<open>
  \<open>get_gwp\<close> loads the table once and keeps it in a module variable: \<open>cache\<close> is that
  variable before and after the call, \<open>gwp_file\<close> the table \<open>gwp_100yr\<close> on disk at the time of the call.
\<close>

definition get_gwp ::
    "(string, int) dict \<Rightarrow> string \<Rightarrow> (string, int) dict option \<Rightarrow> int res \<times> (string, int) dict option" where
  "get_gwp gwp_file gas cache =
     (let table = (case cache of None \<Rightarrow> gwp_file | Some c \<Rightarrow> c)
      in (case map_of table gas of None \<Rightarrow> Inl (ValueError ''Unknown gas'') | Some v \<Rightarrow> Inr v,
          Some table))"

lemma get_gwp_cached:
  "snd (get_gwp f1 g1 cache) = Some t \<Longrightarrow> get_gwp f2 g2 (Some t) = get_gwp t g2 None"
  by (simp add: get_gwp_def)

definition to_co2e :: "flt \<Rightarrow> flt \<Rightarrow> flt \<Rightarrow> flt" where
  "to_co2e co2_kg ch4_kg n2o_kg = co2_kg * Fin 1 + ch4_kg * Fin 27 + n2o_kg * Fin 273"

section \<open>Data completeness\<close>

definition weights_manufacturing :: "(string, rat) dict" where
  "weights_manufacturing =
    [(''fuel_use_liters'', 15/100), (''fuel_type'', 5/100), (''natural_gas_m3'', 15/100),
     (''electricity_kwh'', 15/100), (''employee_count'', 5/100), (''revenue_usd'', 5/100),
     (''supplier_spend_usd'', 2/10), (''shipping_ton_km'', 1/10), (''office_sqm'', 2/100),
     (''vehicle_km'', 8/100)]"

definition weights_transportation :: "(string, rat) dict" where
  "weights_transportation =
    [(''fuel_use_liters'', 3/10), (''fuel_type'', 5/100), (''electricity_kwh'', 5/100),
     (''employee_count'', 5/100), (''revenue_usd'', 5/100), (''vehicle_km'', 2/10),
     (''shipping_ton_km'', 15/100), (''supplier_spend_usd'', 1/10), (''natural_gas_m3'', 3/100),
     (''office_sqm'', 2/100)]"

definition weights_technology :: "(string, rat) dict" where
  "weights_technology =
    [(''electricity_kwh'', 2/10), (''employee_count'', 15/100), (''revenue_usd'', 1/10),
     (''supplier_spend_usd'', 15/100), (''office_sqm'', 1/10), (''fuel_use_liters'', 2/100),
     (''natural_gas_m3'', 3/100), (''vehicle_km'', 2/100), (''shipping_ton_km'', 3/100),
     (''fuel_type'', 2/100), (''business_travel_usd'', 18/100)]"

definition weights_retail :: "(string, rat) dict" where
  "weights_retail =
    [(''electricity_kwh'', 2/10), (''supplier_spend_usd'', 25/100), (''shipping_ton_km'', 15/100),
     (''employee_count'', 5/100), (''revenue_usd'', 5/100), (''fuel_use_liters'', 5/100),
     (''fuel_type'', 3/100), (''natural_gas_m3'', 5/100), (''office_sqm'', 7/100),
     (''vehicle_km'', 1/10)]"

definition weights_energy :: "(string, rat) dict" where
  "weights_energy =
    [(''fuel_use_liters'', 25/100), (''fuel_type'', 5/100), (''natural_gas_m3'', 2/10),
     (''electricity_kwh'', 1/10), (''employee_count'', 3/100), (''revenue_usd'', 5/100),
     (''supplier_spend_usd'', 1/10), (''shipping_ton_km'', 5/100), (''office_sqm'', 2/100),
     (''vehicle_km'', 5/100), (''waste_kg'', 1/10)]"

definition weights_financial_services :: "(string, rat) dict" where
  "weights_financial_services =
    [(''electricity_kwh'', 2/10), (''employee_count'', 15/100), (''revenue_usd'', 1/10),
     (''office_sqm'', 15/100), (''business_travel_usd'', 2/10), (''supplier_spend_usd'', 1/10),
     (''fuel_use_liters'', 2/100), (''natural_gas_m3'', 3/100), (''vehicle_km'', 2/100),
     (''shipping_ton_km'', 1/100), (''fuel_type'', 2/100)]"

definition weights_construction :: "(string, rat) dict" where
  "weights_construction =
    [(''fuel_use_liters'', 25/100), (''fuel_type'', 5/100), (''natural_gas_m3'', 5/100),
     (''electricity_kwh'', 1/10), (''vehicle_km'', 15/100), (''supplier_spend_usd'', 15/100),
     (''employee_count'', 5/100), (''revenue_usd'', 5/100), (''shipping_ton_km'', 5/100),
     (''waste_kg'', 8/100), (''office_sqm'', 2/100)]"

definition weights_food_beverage :: "(string, rat) dict" where
  "weights_food_beverage =
    [(''electricity_kwh'', 15/100), (''natural_gas_m3'', 15/100), (''fuel_use_liters'', 1/10),
     (''fuel_type'', 3/100), (''supplier_spend_usd'', 2/10), (''shipping_ton_km'', 12/100),
     (''waste_kg'', 1/10), (''employee_count'', 5/100), (''revenue_usd'', 5/100),
     (''vehicle_km'', 3/100), (''office_sqm'', 2/100)]"

definition weights_healthcare :: "(string, rat) dict" where
  "weights_healthcare =
    [(''electricity_kwh'', 2/10), (''natural_gas_m3'', 1/10), (''supplier_spend_usd'', 2/10),
     (''employee_count'', 1/10), (''office_sqm'', 1/10), (''waste_kg'', 1/10),
     (''fuel_use_liters'', 5/100), (''fuel_type'', 2/100), (''revenue_usd'', 5/100),
     (''vehicle_km'', 3/100), (''business_travel_usd'', 5/100)]"

definition default_weights :: "(string, rat) dict" where
  "default_weights =
    [(''fuel_use_liters'', 15/100), (''fuel_type'', 5/100), (''natural_gas_m3'', 1/10),
     (''electricity_kwh'', 15/100), (''employee_count'', 8/100), (''revenue_usd'', 7/100),
     (''supplier_spend_usd'', 15/100), (''shipping_ton_km'', 1/10), (''office_sqm'', 5/100),
     (''vehicle_km'', 1/10)]"

definition field_weights :: "(string, (string, rat) dict) dict" where
  "field_weights =
    [(''manufacturing'', weights_manufacturing),
     (''transportation'', weights_transportation),
     (''technology'', weights_technology),
     (''retail'', weights_retail),
     (''energy'', weights_energy),
     (''financial_services'', weights_financial_services),
     (''construction'', weights_construction),
     (''food_beverage'', weights_food_beverage),
     (''healthcare'', weights_healthcare)]"

definition earn :: "pydict \<Rightarrow> flt \<Rightarrow> string \<times> rat \<Rightarrow> flt" where
  "earn data earned p =
     (if (case map_of data (fst p) of None \<Rightarrow> False | Some v \<Rightarrow> provided v)
      then earned + lit (snd p) else earned)"

definition calc_data_completeness :: "pydict \<Rightarrow> string \<Rightarrow> flt" where
  "calc_data_completeness data industry =
     (let weights = dict_get field_weights industry default_weights;
          total_weight = py_sum (map lit (dict_values weights))
      in if feq total_weight 0 then 0
         else let earned = foldl (earn data) 0 weights
              in py_round (py_min (earned / total_weight) 1) 4)"


text \<open>The keys of the four tables are distinct, so no conversion overrides another.\<close>

lemma convert_units_known:
  assumes "(conversion, factor) \<in> set (volume_conversions @ mass_conversions @ energy_conversions @ distance_conversions)"
  shows "convert_units value conversion = Inr (value * lit factor)"
proof -
  have d: "distinct (map fst (volume_conversions @ mass_conversions @ energy_conversions @ distance_conversions))"
    by (simp add: volume_conversions_def mass_conversions_def energy_conversions_def distance_conversions_def)
  have "map_of (foldl (\<lambda>d (k, v). dict_set k v d) acc xs) k =
      (case map_of (rev xs) k of Some v \<Rightarrow> Some v | None \<Rightarrow> map_of acc k)" for acc xs :: "(string, rat) dict" and k
    by (induction xs arbitrary: acc) (auto simp: map_of_append map_add_def split: option.splits)
  then have "map_of all_conversions conversion = Some factor"
    using assms d map_of_eq_Some_iff [of "rev (volume_conversions @ mass_conversions @ energy_conversions @ distance_conversions)" conversion factor]
    unfolding all_conversions_def
    by (simp only: rev_map [symmetric] distinct_rev set_rev simp_thms option.case)
  then show ?thesis by (simp add: convert_units_def)
qed

text \<open>The weights of every industry sum to about 1 and each lies in the unit interval.\<close>

definition sum_near_1 :: "(string, rat) dict \<Rightarrow> bool" where
  "sum_near_1 weights = between (9/10) (11/10) (py_sum (map lit (dict_values weights)))"

lemma sum_weights_manufacturing: "sum_near_1 weights_manufacturing"
  by (simp add: sum_near_1_def weights_manufacturing_def flt_eval Let_def)

lemma sum_weights_transportation: "sum_near_1 weights_transportation"
  by (simp add: sum_near_1_def weights_transportation_def flt_eval Let_def)

lemma sum_weights_technology: "sum_near_1 weights_technology"
  by (simp add: sum_near_1_def weights_technology_def flt_eval Let_def)

lemma sum_weights_retail: "sum_near_1 weights_retail"
  by (simp add: sum_near_1_def weights_retail_def flt_eval Let_def)

lemma sum_weights_energy: "sum_near_1 weights_energy"
  by (simp add: sum_near_1_def weights_energy_def flt_eval Let_def)

lemma sum_weights_financial_services: "sum_near_1 weights_financial_services"
  by (simp add: sum_near_1_def weights_financial_services_def flt_eval Let_def)

lemma sum_weights_construction: "sum_near_1 weights_construction"
  by (simp add: sum_near_1_def weights_construction_def flt_eval Let_def)

lemma sum_weights_food_beverage: "sum_near_1 weights_food_beverage"
  by (simp add: sum_near_1_def weights_food_beverage_def flt_eval Let_def)

lemma sum_weights_healthcare: "sum_near_1 weights_healthcare"
  by (simp add: sum_near_1_def weights_healthcare_def flt_eval Let_def)

lemma sum_default_weights: "sum_near_1 default_weights"
  by (simp add: sum_near_1_def default_weights_def flt_eval Let_def)

lemmas sums_near_1 = sum_weights_manufacturing sum_weights_transportation sum_weights_technology sum_weights_retail sum_weights_energy sum_weights_financial_services sum_weights_construction sum_weights_food_beverage sum_weights_healthcare sum_default_weights

lemma weights_facts:
  assumes "weights = dict_get field_weights industry default_weights"
  shows "\<exists>t. py_sum (map lit (dict_values weights)) = Fin t \<and> 9/10 \<le> t \<and> t \<le> 11/10"
    "list_all (\<lambda>q. 0 \<le> q \<and> q \<le> 1) (dict_values weights)" "length weights \<le> 11"
proof -
  have w: "weights \<in> set (default_weights # dict_values field_weights)"
    using assms by (force simp: dict_get_def dest!: map_of_SomeD split: option.splits)
  then show "list_all (\<lambda>q. 0 \<le> q \<and> q \<le> 1) (dict_values weights)" "length weights \<le> 11"
    by (auto simp: field_weights_def weights_manufacturing_def weights_transportation_def
      weights_technology_def weights_retail_def weights_energy_def weights_financial_services_def
      weights_construction_def weights_food_beverage_def weights_healthcare_def default_weights_def)
  have "sum_near_1 weights"
    using w sums_near_1 by (auto simp: field_weights_def)
  then show "\<exists>t. py_sum (map lit (dict_values weights)) = Fin t \<and> 9/10 \<le> t \<and> t \<le> 11/10"
    by (auto simp: sum_near_1_def between_iff)
qed


text \<open>
  Two companies, the second providing at least the fields of the first: what the loop earns grows
  with the provided fields, and it stays finite.
\<close>

abbreviation provides :: "pydict \<Rightarrow> string \<Rightarrow> bool" where
  "provides data field \<equiv> (case map_of data field of None \<Rightarrow> False | Some v \<Rightarrow> provided v)"

lemma flt_add_lit:
  assumes "0 \<le> r" "r \<le> of_nat n" "0 \<le> q" "q \<le> 1" "n \<le> 100"
  shows "Fin r + lit q = Fin (rnd (r + rnd q))" "0 \<le> rnd (r + rnd q)" "rnd (r + rnd q) \<le> of_nat (Suc n)"
proof -
  have q: "0 \<le> rnd q" "rnd q \<le> 1" using rnd_nonneg [of q] rnd_mono [of q 1] rnd_of_int [of 1] assms by auto
  have n: "(of_nat n :: rat) \<le> 100" using assms(5) by (simp only: of_nat_le_numeral_iff)
  have "rnd (r + rnd q) \<le> rnd (of_int (int (Suc n)))" using assms q by (intro rnd_mono) simp
  also have "\<dots> = of_int (int (Suc n))" using assms(5) by (intro rnd_of_int) simp
  finally show "rnd (r + rnd q) \<le> of_nat (Suc n)" by simp
  show "Fin r + lit q = Fin (rnd (r + rnd q))"
    using assms q n by (simp add: plus_flt_def flt_of_rat_small)
  show "0 \<le> rnd (r + rnd q)" using assms q by (simp add: rnd_nonneg)
qed

lemma earn_mono:
  assumes "\<And>f. f \<in> set (dict_keys ws) \<Longrightarrow> provides d1 f \<Longrightarrow> provides d2 f"
    "list_all (\<lambda>q. 0 \<le> q \<and> q \<le> 1) (dict_values ws)"
    "0 \<le> r" "r \<le> s" "s \<le> of_nat n" "n + length ws \<le> 100" "rnd r = r" "rnd s = s"
  shows "\<exists>r' s'. foldl (earn d1) (Fin r) ws = Fin r' \<and> foldl (earn d2) (Fin s) ws = Fin s' \<and>
    0 \<le> r' \<and> r' \<le> s' \<and> s' \<le> of_nat (n + length ws)"
  using assms
proof (induction ws arbitrary: r s n)
  case (Cons w ws)
  obtain f q where w: "w = (f, q)" by (cases w)
  have q: "0 \<le> q" "q \<le> 1" using Cons.prems(2) by (simp_all add: w)
  have r: "r \<le> of_nat n" and s: "0 \<le> s" using Cons.prems by auto
  note ar = flt_add_lit [OF Cons.prems(3) r q] and as = flt_add_lit [OF s Cons.prems(5) q]
  have "\<exists>r1 s1. earn d1 (Fin r) w = Fin r1 \<and> earn d2 (Fin s) w = Fin s1 \<and> 0 \<le> r1 \<and> r1 \<le> s1 \<and> s1 \<le> of_nat (Suc n) \<and> rnd r1 = r1 \<and> rnd s1 = s1"
  proof (cases "provides d1 f")
    case True
    then have "provides d2 f" using Cons.prems(1) [of f] by (simp add: w)
    then show ?thesis
      using True ar as rnd_mono [of "r + rnd q" "s + rnd q"] Cons.prems by (simp add: earn_def w)
  next
    case False
    have "s \<le> rnd (s + rnd q)"
      using rnd_mono [of s "s + rnd q"] rnd_nonneg [OF q(1)] Cons.prems by simp
    then show ?thesis using False Cons.prems as by (simp add: earn_def w)
  qed
  then obtain r1 s1 where 1: "earn d1 (Fin r) w = Fin r1" "earn d2 (Fin s) w = Fin s1" "0 \<le> r1" "r1 \<le> s1" "s1 \<le> of_nat (Suc n)"
    "rnd r1 = r1" "rnd s1 = s1"
    by blast
  show ?case
    using Cons.IH [of r1 s1 "Suc n"] 1 Cons.prems by auto
qed auto


lemma py_round_mono: "x \<le> y \<Longrightarrow> \<bar>x\<bar> \<le> 10 ^ 4 \<Longrightarrow> \<bar>y\<bar> \<le> 10 ^ 4 \<Longrightarrow> \<exists>a b. py_round (Fin x) 4 = Fin a \<and> py_round (Fin y) 4 = Fin b \<and> a \<le> b"
proof -
  assume xy: "x \<le> y" "\<bar>x\<bar> \<le> 10 ^ 4" "\<bar>y\<bar> \<le> 10 ^ 4"
  let ?r = "\<lambda>x. of_int (round_half_even (x * 10 ^ 4)) / 10 ^ 4 :: rat"
  have small: "\<bar>?r z\<bar> \<le> 10 ^ 18" if "\<bar>z\<bar> \<le> 10 ^ 4" for z
  proof -
    have "\<bar>round_half_even (z * 10 ^ 4)\<bar> \<le> 10 ^ 8" using that by (intro rhe_abs_le) (simp add: abs_mult)
    then have "of_int \<bar>round_half_even (z * 10 ^ 4)\<bar> \<le> (of_int (10 ^ 8) :: rat)" by (simp only: of_int_le_iff)
    then show ?thesis by (simp add: abs_divide)
  qed
  have "?r x \<le> ?r y" using rhe_mono [of "x * 10 ^ 4" "y * 10 ^ 4"] xy by (simp add: divide_right_mono)
  then have "rnd (?r x) \<le> rnd (?r y)" by (rule rnd_mono)
  then show ?thesis using flt_of_rat_small [of "?r x"] flt_of_rat_small [of "?r y"] small xy by simp
qed

lemma clipped_ratio_mono:
  assumes "0 \<le> r" "r \<le> s" "s \<le> 100" "9/10 \<le> t"
  shows "\<exists>a b. py_min (Fin r / Fin t) 1 = Fin a \<and> py_min (Fin s / Fin t) 1 = Fin b \<and> 0 \<le> a \<and> a \<le> b \<and> b \<le> 1"
proof -
  have q: "0 \<le> r / t" "r / t \<le> s / t" using assms by (auto intro: divide_right_mono)
  have "s / t \<le> 100 / (9/10)" using assms by (intro frac_le) auto
  also have "\<dots> \<le> 10 ^ 18" by simp
  finally have "s / t \<le> 10 ^ 18" .
  then have small: "\<bar>r / t\<bar> \<le> 10 ^ 18" "\<bar>s / t\<bar> \<le> 10 ^ 18" using q by linarith+
  have "0 \<le> rnd (r / t)" "rnd (r / t) \<le> rnd (s / t)" using q by (auto intro: rnd_nonneg rnd_mono)
  then show ?thesis using assms small by (auto simp: divide_flt_def flt_of_rat_small py_min_def flt_0_1)
qed

text \<open>
  The completeness score lies in the unit interval, and providing more of the industry's fields
  never lowers it.
\<close>

lemma completeness_mono:
  assumes "\<And>f. f \<in> set (dict_keys (dict_get field_weights industry default_weights)) \<Longrightarrow>
      provides d1 f \<Longrightarrow> provides d2 f"
  shows "\<exists>a b. calc_data_completeness d1 industry = Fin a \<and> calc_data_completeness d2 industry = Fin b \<and>
    a \<le> b"
proof -
  define ws where "ws = dict_get field_weights industry default_weights"
  note wf = weights_facts [OF ws_def]
  from wf(1) obtain t where t: "py_sum (map lit (dict_values ws)) = Fin t" "9/10 \<le> t" "t \<le> 11/10" by blast
  obtain r s where e: "foldl (earn d1) (Fin 0) ws = Fin r" "foldl (earn d2) (Fin 0) ws = Fin s" "0 \<le> r" "r \<le> s"
    "s \<le> of_nat (0 + length ws)"
    using earn_mono [of ws d1 d2 0 0 0] assms wf by (auto simp: ws_def [symmetric])
  have "(of_nat (length ws) :: rat) \<le> 11" using wf(3) by (simp only: of_nat_le_numeral_iff)
  then obtain a b where ab: "py_min (Fin r / Fin t) 1 = Fin a" "py_min (Fin s / Fin t) 1 = Fin b" "0 \<le> a" "a \<le> b" "b \<le> 1"
    using clipped_ratio_mono [of r s t] e t by auto
  obtain x y where "py_round (Fin a) 4 = Fin x" "py_round (Fin b) 4 = Fin y" "x \<le> y"
    using py_round_mono [of a b] ab by auto
  then show ?thesis using t e ab
    by (auto simp: calc_data_completeness_def ws_def [symmetric] Let_def feq_def flt_0_1)
qed

lemma completeness_range: "between 0 1 (calc_data_completeness data industry)"
proof -
  define ws where "ws = dict_get field_weights industry default_weights"
  note wf = weights_facts [OF ws_def]
  from wf(1) obtain t where t: "py_sum (map lit (dict_values ws)) = Fin t" "9/10 \<le> t" by blast
  obtain r s where e: "foldl (earn data) (Fin 0) ws = Fin r" "0 \<le> r" "r \<le> s" "s \<le> of_nat (0 + length ws)"
    using earn_mono [of ws data data 0 0 0] wf by auto
  have "(of_nat (length ws) :: rat) \<le> 11" using wf(3) by (simp only: of_nat_le_numeral_iff)
  then have "between 0 1 (py_min (Fin r / Fin t) 1)"
    using clipped_ratio_mono [of r r t] e t by auto
  then have "between 0 1 (py_round (py_min (Fin r / Fin t) 1) 4)"
    using between_py_round [of 0 1 _ 0 4 10000 0 1] rnd_of_int [of 1] by (simp del: rnd_of_int)
  then show ?thesis using t e
    by (auto simp: calc_data_completeness_def ws_def [symmetric] Let_def feq_def flt_0_1)
qed

end
