(* ===== verification/Miner.thy ===== *)
theory Miner
imports Emission_Laws Protocol Utils
begin

text \<open>
  \<open>neurons/miner.py\<close>: the validation of the questionnaire, the estimation of the three scopes and
  the error handling of \<open>forward\<close>. The rate limiter is in \<open>Rate_Limiter\<close>. Pydantic's parsing of a
  number is a parameter: \<open>pyd_float hi v\<close> is the float it makes of \<open>v\<close> for a field constrained to
  lie between 0 and \<open>hi\<close>, or \<open>None\<close> for a validation error; \<open>pyd_int lo hi v\<close> likewise for an \<open>int\<close> field.
\<close>

record pydantic =
  pyd_float :: "rat \<Rightarrow> pyval \<Rightarrow> flt option"
  pyd_int :: "int \<Rightarrow> int \<Rightarrow> pyval \<Rightarrow> int option"

section \<open>Input validation\<close>

definition valid_industries :: "string list" where
  "valid_industries =
    [''manufacturing'', ''transportation'', ''technology'', ''retail'', ''energy'',
     ''financial_services'', ''construction'', ''food_beverage'', ''healthcare'']"

definition valid_fuel_types :: "string list" where
  "valid_fuel_types =
    [''diesel'', ''gasoline'', ''natural_gas'', ''propane'', ''fuel_oil'', ''kerosene'', ''lpg'',
     ''coal'', ''biomass'']"

text \<open>The kinds of fields of \<open>ProvidedDataInput\<close>; a number carries its upper bound.\<close>

datatype field_kind = Float_Field rat | Int_Field int | Fuel_Type_Field | Str_Field string | Opt_Str_Field

definition provided_schema :: "(string \<times> field_kind) list" where
  "provided_schema =
    [(''fuel_use_liters'', Float_Field 10000000), (''fuel_type'', Fuel_Type_Field),
     (''natural_gas_m3'', Float_Field 100000000), (''electricity_kwh'', Float_Field 1000000000),
     (''vehicle_km'', Float_Field 100000000), (''vehicle_type'', Str_Field ''heavy_truck_diesel''),
     (''employee_count'', Int_Field 1000000), (''revenue_usd'', Float_Field 1000000000000),
     (''supplier_spend_usd'', Float_Field 1000000000000), (''shipping_ton_km'', Float_Field 10000000000),
     (''office_sqm'', Float_Field 100000000), (''business_travel_usd'', Float_Field 1000000000),
     (''waste_kg'', Float_Field 1000000000), (''refrigerant_type'', Opt_Str_Field),
     (''refrigerant_kg_leaked'', Float_Field 1000000), (''rec_kwh'', Float_Field 1000000000)]"

definition validate_fuel_type :: "string \<Rightarrow> string res" where
  "validate_fuel_type v =
     (if py_lower v \<in> set valid_fuel_types then Inr (py_lower v) else Inl (ValueError ''Invalid fuel_type''))"

definition validate_industry :: "string \<Rightarrow> string res" where
  "validate_industry v =
     (if py_lower v \<in> set valid_industries then Inr (py_lower v) else Inl (ValueError ''Invalid industry''))"

definition validation_error :: "'a res" where
  "validation_error = Inl (ValueError ''ValidationError'')"

definition res_of_option :: "'a option \<Rightarrow> 'a res" where
  "res_of_option m = (case m of Some x \<Rightarrow> Inr x | None \<Rightarrow> validation_error)"

text \<open>A default is not validated.\<close>

definition validate_field :: "pydantic \<Rightarrow> field_kind \<Rightarrow> pyval option \<Rightarrow> pyval res" where
  "validate_field P kind raw =
     (case kind of
        Float_Field hi \<Rightarrow> (case raw of None \<Rightarrow> Inr (PNum 0)
          | Some v \<Rightarrow> bind_r (res_of_option (pyd_float P hi v)) (\<lambda>x. Inr (PNum x)))
      | Int_Field hi \<Rightarrow> (case raw of None \<Rightarrow> Inr (PNum 0)
          | Some v \<Rightarrow> bind_r (res_of_option (pyd_int P 0 hi v)) (\<lambda>n. Inr (PNum (flt_of_int n))))
      | Fuel_Type_Field \<Rightarrow> (case raw of None \<Rightarrow> Inr (PStr ''diesel'')
          | Some (PStr s) \<Rightarrow> bind_r (validate_fuel_type s) (\<lambda>f. Inr (PStr f))
          | Some _ \<Rightarrow> validation_error)
      | Str_Field dflt \<Rightarrow> (case raw of None \<Rightarrow> Inr (PStr dflt)
          | Some (PStr s) \<Rightarrow> Inr (PStr s)
          | Some _ \<Rightarrow> validation_error)
      | Opt_Str_Field \<Rightarrow> (case raw of None \<Rightarrow> Inr PNone
          | Some PNone \<Rightarrow> Inr PNone
          | Some (PStr s) \<Rightarrow> Inr (PStr s)
          | Some _ \<Rightarrow> validation_error))"

fun validate_fields :: "pydantic \<Rightarrow> (string \<times> field_kind) list \<Rightarrow> pydict \<Rightarrow> pydict res" where
  "validate_fields P [] raw = Inr []"
| "validate_fields P ((f, kind) # schema) raw =
     bind_r (validate_field P kind (map_of raw f)) (\<lambda>v.
     bind_r (validate_fields P schema raw) (\<lambda>rest. Inr ((f, v) # rest)))"

text \<open>\<open>ProvidedDataInput(**raw).model_dump()\<close>: the declared fields, then the extra ones.\<close>

definition validate_provided :: "pydantic \<Rightarrow> pydict \<Rightarrow> pydict res" where
  "validate_provided P raw =
     bind_r (validate_fields P provided_schema raw) (\<lambda>declared.
     Inr (declared @ filter (\<lambda>p. fst p \<notin> fst ` set provided_schema) raw))"

fun is_str :: "pyval \<Rightarrow> bool" where
  "is_str (PStr _) = True"
| "is_str _ = False"

text \<open>The fields of \<open>QuestionnaireInput\<close>.\<close>

definition read_str :: "pyval option \<Rightarrow> string \<Rightarrow> string res" where
  "read_str raw dflt = (case raw of None \<Rightarrow> Inr dflt | Some (PStr s) \<Rightarrow> Inr s | Some _ \<Rightarrow> validation_error)"

definition read_industry :: "pyval option \<Rightarrow> string res" where
  "read_industry raw =
     (case raw of None \<Rightarrow> Inr ''manufacturing'' | Some (PStr s) \<Rightarrow> validate_industry s | Some _ \<Rightarrow> validation_error)"

definition read_services :: "pyval option \<Rightarrow> unit res" where
  "read_services raw =
     (case raw of None \<Rightarrow> Inr ()
      | Some (PList vs) \<Rightarrow> if list_all is_str vs then Inr () else validation_error
      | Some _ \<Rightarrow> validation_error)"

definition read_provided :: "pydantic \<Rightarrow> pyval option \<Rightarrow> pydict res" where
  "read_provided P raw =
     (case raw of None \<Rightarrow> validate_provided P []
      | Some (PDict d) \<Rightarrow> validate_provided P d
      | Some _ \<Rightarrow> validation_error)"

definition read_year :: "pydantic \<Rightarrow> pyval option \<Rightarrow> int res" where
  "read_year P raw =
     (case raw of None \<Rightarrow> Inr 2025 | Some v \<Rightarrow> res_of_option (pyd_int P 1990 2100 v))"

text \<open>\<open>QuestionnaireInput(**raw)\<close>, of which the estimation uses the data, the industry and the region.\<close>

definition validate_questionnaire :: "pydantic \<Rightarrow> pydict \<Rightarrow> (pydict \<times> string \<times> string) res" where
  "validate_questionnaire P raw =
     bind_r (read_str (map_of raw ''company'') '''') (\<lambda>company.
     bind_r (read_industry (map_of raw ''industry'')) (\<lambda>industry.
     bind_r (read_services (map_of raw ''services_used'')) (\<lambda>_.
     bind_r (read_provided P (map_of raw ''provided_data'')) (\<lambda>data.
     bind_r (read_str (map_of raw ''region'') ''US'') (\<lambda>region.
     bind_r (read_year P (map_of raw ''year'')) (\<lambda>year.
     Inr (data, industry, region)))))))"

section \<open>The three scopes\<close>

text \<open>\<open>data.get(k) or 0\<close> used as a number, and a field used as a string.\<close>

definition num_or_zero :: "pydict \<Rightarrow> string \<Rightarrow> flt res" where
  "num_or_zero data k = as_num (get_or_zero data k)"

definition str_or :: "pydict \<Rightarrow> string \<Rightarrow> string \<Rightarrow> string res" where
  "str_or data k dflt =
     (case map_of data k of None \<Rightarrow> Inr dflt | Some (PStr s) \<Rightarrow> Inr s | Some _ \<Rightarrow> Inl TypeError)"

record estimate =
  es_total :: flt
  es_detail :: "(string, flt) dict"
  es_assumptions :: "remark list"
  es_sources :: "remark list"

text \<open>
  Each scope starts from the lists of remarks the earlier scopes left. Validated data holds a
  string or \<open>None\<close> as refrigerant type.
\<close>

definition estimate_scope1 :: "emission_data \<Rightarrow> pydict \<Rightarrow> remark list \<Rightarrow> remark list \<Rightarrow> estimate res" where
  "estimate_scope1 D data assumptions sources =
     bind_r (num_or_zero data ''fuel_use_liters'') (\<lambda>fuel_liters.
     bind_r (if 0 < fuel_liters then
         bind_r (str_or data ''fuel_type'' ''diesel'') (\<lambda>fuel_type.
         bind_r (calc_stationary_combustion D fuel_type fuel_liters ''liters'') (\<lambda>val.
         Inr \<lparr>es_total = 0 + val, es_detail = [(''stationary_combustion'', val)],
              es_assumptions = assumptions, es_sources = sources @ [Text ''EPA emission factors v2025'']\<rparr>))
       else Inr \<lparr>es_total = 0, es_detail = [], es_assumptions = assumptions, es_sources = sources\<rparr>) (\<lambda>e.
     bind_r (num_or_zero data ''natural_gas_m3'') (\<lambda>ng_m3.
     bind_r (if 0 < ng_m3 then
         bind_r (calc_stationary_combustion D ''natural_gas'' ng_m3 ''m3'') (\<lambda>val.
         Inr (e\<lparr>es_total := es_total e + val,
           es_detail := dict_set ''stationary_combustion''
             (dict_get (es_detail e) ''stationary_combustion'' 0 + val) (es_detail e)\<rparr>))
       else Inr e) (\<lambda>e.
     bind_r (num_or_zero data ''vehicle_km'') (\<lambda>vehicle_km.
     bind_r (if 0 < vehicle_km then
         bind_r (str_or data ''vehicle_type'' ''heavy_truck_diesel'') (\<lambda>vehicle_type.
         bind_r (calc_mobile_combustion D vehicle_type vehicle_km 0) (\<lambda>val.
         Inr (e\<lparr>es_total := es_total e + val, es_detail := dict_set ''mobile_combustion'' val (es_detail e),
           es_assumptions := es_assumptions e @ [Text_Str ''Vehicle fleet type: '' vehicle_type]\<rparr>)))
       else Inr e) (\<lambda>e.
     (case map_of data ''refrigerant_type'' of
        Some (PStr ref_type) \<Rightarrow>
          if ref_type = [] then Inr e
          else bind_r (num_or_zero data ''refrigerant_kg_leaked'') (\<lambda>ref_leaked.
            if 0 < ref_leaked then
              let val = calc_fugitive_emissions D ref_type ref_leaked
              in Inr (e\<lparr>es_total := es_total e + val, es_detail := dict_set ''fugitive_emissions'' val (es_detail e)\<rparr>)
            else Inr e)
      | Some PNone \<Rightarrow> Inr e
      | None \<Rightarrow> Inr e
      | Some _ \<Rightarrow> Inl TypeError)))))))"

definition estimate_scope2 ::
    "emission_data \<Rightarrow> pydict \<Rightarrow> string \<Rightarrow> pydict \<Rightarrow> remark list \<Rightarrow> remark list \<Rightarrow> estimate res" where
  "estimate_scope2 D data region ctx assumptions sources =
     bind_r (num_or_zero data ''electricity_kwh'') (\<lambda>electricity_kwh.
     if 0 < electricity_kwh then
       let grid_override = dict_get ctx ''grid_factor_override'' PNone
       in bind_r (num_or_zero data ''rec_kwh'') (\<lambda>rec_kwh.
          bind_r (calc_location_based D electricity_kwh region) (\<lambda>loc.
          bind_r (calc_market_based D electricity_kwh region grid_override rec_kwh) (\<lambda>mkt.
          Inr \<lparr>es_total = loc, es_detail = [(''location_based'', loc), (''market_based'', mkt)],
            es_assumptions = assumptions
              @ (if truthy grid_override
                 then [Text_Val ''Market-based factor override: '' grid_override '' gCO2e/kWh''] else [])
              @ (if 0 < rec_kwh then [Text_Val ''RECs cover '' (PNum rec_kwh) '' kWh''] else []),
            es_sources = sources @ [Text_Str ''Grid factor for region '' region]\<rparr>)))
     else Inr \<lparr>es_total = 0, es_detail = [], es_assumptions = assumptions, es_sources = sources\<rparr>)"

definition activity_categories :: "string list" where
  "activity_categories =
    [''cat1_purchased_goods'', ''cat4_upstream_transport'', ''cat5_waste'', ''cat6_business_travel'',
     ''cat7_commuting'']"

definition scope3_activity ::
    "emission_data \<Rightarrow> pydict \<Rightarrow> string \<Rightarrow> string \<Rightarrow> remark list \<Rightarrow> remark list \<Rightarrow> estimate res" where
  "scope3_activity D data industry region assumptions sources =
     bind_r (num_or_zero data ''supplier_spend_usd'') (\<lambda>supplier_spend.
     bind_r (if 0 < supplier_spend then
         bind_r (calc_cat1_purchased_goods D supplier_spend industry) (\<lambda>val.
         Inr ([(''cat1_purchased_goods'', val)],
              assumptions @ [Text ''Scope 3 Cat 1: spend-based estimate using industry factors'']))
       else Inr ([], assumptions)) (\<lambda>(detail, assumptions).
     bind_r (num_or_zero data ''shipping_ton_km'') (\<lambda>shipping_tkm.
     bind_r (if 0 < shipping_tkm then
         bind_r (calc_cat4_transport D shipping_tkm ''road'') (\<lambda>val.
         Inr (dict_set ''cat4_upstream_transport'' val detail,
              assumptions @ [Text ''Scope 3 Cat 4: assumed road transport''],
              sources @ [Text ''GLEC Framework transport factors'']))
       else Inr (detail, assumptions, sources)) (\<lambda>(detail, assumptions, sources).
     bind_r (num_or_zero data ''waste_kg'') (\<lambda>waste_kg.
     let detail = (if 0 < waste_kg then dict_set ''cat5_waste'' (calc_cat5_waste waste_kg ''landfill'') detail else detail)
     in bind_r (num_or_zero data ''business_travel_usd'') (\<lambda>travel_spend.
     bind_r (num_or_zero data ''employee_count'') (\<lambda>employees.
     let detail = (if 0 < travel_spend \<or> 0 < employees
                   then dict_set ''cat6_business_travel'' (calc_cat6_business_travel D employees industry travel_spend) detail
                   else detail);
         r = (if 0 < employees
              then (dict_set ''cat7_commuting'' (calc_cat7_commuting D employees region) detail,
                    assumptions @ [Text_Str ''Scope 3 Cat 7: regional avg commuting for '' region])
              else (detail, assumptions))
     in Inr \<lparr>es_total = 0, es_detail = fst r, es_assumptions = snd r, es_sources = sources\<rparr>)))))))"

definition estimate_scope3_all ::
    "emission_data \<Rightarrow> pydict \<Rightarrow> string \<Rightarrow> string \<Rightarrow> remark list \<Rightarrow> remark list \<Rightarrow> estimate res" where
  "estimate_scope3_all D data industry region assumptions sources =
     bind_r (scope3_activity D data industry region assumptions sources) (\<lambda>e.
     bind_r (fill_industry_defaults D (es_detail e) industry data) (\<lambda>detail.
     let gap = list_ex (\<lambda>k. k \<notin> set activity_categories) (dict_keys detail)
     in Inr \<lparr>es_total = py_sum (dict_values detail), es_detail = detail,
       es_assumptions = es_assumptions e
         @ (if gap then [Text ''Missing Scope 3 categories filled using industry averages''] else []),
       es_sources = es_sources e @ (if gap then [Text ''Industry average benchmarks (CDP/EPA)''] else [])\<rparr>))"

section \<open>The whole estimate\<close>

text \<open>\<open>v is not None and v != 0 and v != "" and k not in ("fuel_type", "vehicle_type")\<close>\<close>

definition non_zero_fields :: "pydict \<Rightarrow> nat" where
  "non_zero_fields data =
     length (filter (\<lambda>(k, v). provided v \<and> k \<notin> {''fuel_type'', ''vehicle_type''}) data)"

definition model_confidence :: "flt \<Rightarrow> nat \<Rightarrow> flt" where
  "model_confidence completeness n =
     (let input_ratio = py_min (flt_of_int (int n) / Fin 13) 1
      in py_round (completeness * lit (6/10) + input_ratio * lit (4/10)) 4)"

definition num_dict :: "(string, flt) dict \<Rightarrow> pyval" where
  "num_dict d = PDict (map (\<lambda>(k, v). (k, PNum v)) d)"

definition totals :: "flt \<Rightarrow> flt \<Rightarrow> flt \<Rightarrow> flt \<Rightarrow> pydict" where
  "totals s1 s2 s3 sum_all =
     [(''scope1'', PNum s1), (''scope2'', PNum s2), (''scope3'', PNum s3), (''total'', PNum sum_all)]"

definition estimate_synapse ::
    "emission_data \<Rightarrow> pydantic \<Rightarrow> (string \<Rightarrow> string) \<Rightarrow> (pydict option \<Rightarrow> string) \<Rightarrow> carbon_synapse \<Rightarrow> carbon_synapse res" where
  "estimate_synapse D P sha256 dumps syn =
     bind_r (validate_questionnaire P (syn_questionnaire syn)) (\<lambda>(data, industry, region).
     bind_r (estimate_scope1 D data [] []) (\<lambda>e1.
     bind_r (estimate_scope2 D data region (syn_context syn) (es_assumptions e1) (es_sources e1)) (\<lambda>e2.
     bind_r (estimate_scope3_all D data industry region (es_assumptions e2) (es_sources e2)) (\<lambda>e3.
     let sum_all = es_total e1 + es_total e2 + es_total e3;
         completeness = calc_data_completeness data industry;
         confidence = model_confidence completeness (non_zero_fields data);
         syn' = syn\<lparr>
           syn_emissions := Some (totals (py_round (es_total e1) 2) (py_round (es_total e2) 2)
             (py_round (es_total e3) 2) (py_round sum_all 2)),
           syn_breakdown := Some
             [(''scope1_detail'', num_dict (es_detail e1)), (''scope2_detail'', num_dict (es_detail e2)),
              (''scope3_detail'', num_dict (es_detail e3))],
           syn_confidence := Some (py_round confidence 4),
           syn_data_completeness := Some (py_round completeness 4),
           syn_sources := Some (if es_sources e3 = [] then [Text ''EPA emission factors v2025''] else es_sources e3),
           syn_assumptions := Some (if es_assumptions e3 = []
             then [Text ''Standard GHG Protocol methodology applied''] else es_assumptions e3),
           syn_methodology_version := Some ''ghg_protocol_v2025''\<rparr>
     in Inr (syn'\<lparr>syn_request_hash := Some (compute_request_hash sha256 dumps syn')\<rparr>)))))"

definition failed_synapse :: "flt \<Rightarrow> remark list \<Rightarrow> carbon_synapse \<Rightarrow> carbon_synapse" where
  "failed_synapse code why syn =
     syn\<lparr>syn_emissions := Some (totals 0 0 0 0), syn_confidence := Some code,
        syn_sources := Some [], syn_assumptions := Some why\<rparr>"

definition forward ::
    "emission_data \<Rightarrow> pydantic \<Rightarrow> (string \<Rightarrow> string) \<Rightarrow> (pydict option \<Rightarrow> string) \<Rightarrow> carbon_synapse \<Rightarrow> carbon_synapse" where
  "forward D P sha256 dumps syn =
     (case estimate_synapse D P sha256 dumps syn of
        Inr syn' \<Rightarrow> syn'
      | Inl (ValueError msg) \<Rightarrow> failed_synapse (Fin (- 1)) [Text_Str ''Validation error: '' msg] syn
      | Inl _ \<Rightarrow> failed_synapse (Fin (- 2)) [Text ''Estimation failed due to internal error''] syn)"

end
