(* ===== verification/Miner_Laws.thy ===== *)
theory Miner_Laws
imports Miner
begin

text \<open>
  What the miner guarantees: the confidence it reports, that every questionnaire that validates is
  answered when the datasets are complete, and that the totals it reports are not negative.
\<close>

section \<open>Confidence\<close>

lemma input_ratio_range: "between 0 1 (py_min (flt_of_int (int n) / Fin 13) 1)"
proof -
  have "0 \<le> flt_of_int (int n)" by (simp add: flt_of_int_def)
  then have "0 \<le> flt_of_int (int n) / Fin 13" by (rule flt_div_nonneg) simp
  then show ?thesis
    by (cases "flt_of_int (int n) / Fin 13") (auto simp: py_min_def flt_0_1)
qed

lemma model_confidence_range:
  assumes "between 0 1 c"
  shows "between 0 1 (model_confidence c n)"
proof -
  have l: "between 0 (rnd (6/10)) (lit (6/10))" "between 0 (rnd (4/10)) (lit (4/10))"
    "rnd (6/10) + rnd (4/10) \<le> (1 :: rat)" "0 \<le> rnd (6/10)" "rnd (6/10) \<le> 1" "0 \<le> rnd (4/10)" "rnd (4/10) \<le> (1 :: rat)"
    by (simp_all add: flt_eval rnd_def ulp_exp_def round_half_even_def Let_def)
  have 1: "between 0 (rnd (6/10)) (c * lit (6/10))"
    by (rule between_mult_nonneg [OF assms l(1)]) (use l in simp_all)
  have 2: "between 0 (rnd (4/10)) (py_min (flt_of_int (int n) / Fin 13) 1 * lit (4/10))"
    by (rule between_mult_nonneg [OF input_ratio_range l(2)]) (use l in simp_all)
  have "between 0 1 (c * lit (6/10) + py_min (flt_of_int (int n) / Fin 13) 1 * lit (4/10))"
    by (rule between_add [OF 1 2]) (use l rnd_of_int [of 1] in simp_all)
  then show ?thesis
    using between_py_round [of 0 1 _ 0 4 10000 0 1] rnd_of_int [of 1]
    by (simp add: model_confidence_def Let_def del: rnd_of_int)
qed

lemma round_in_unit: "between 0 1 c \<Longrightarrow> between 0 1 (py_round c 4)"
  using between_py_round [of 0 1 c 0 4 10000 0 1] rnd_of_int [of 1] by (simp del: rnd_of_int)

lemma estimate_confidence:
  assumes "estimate_synapse D P sha256 dumps syn = Inr syn'"
  shows "\<exists>c. syn_confidence syn' = Some c \<and> between 0 1 c"
  using assms
  by (auto simp: estimate_synapse_def bind_r_Inr_iff Let_def
    intro!: round_in_unit model_confidence_range completeness_range)

section \<open>Validated data\<close>

lemma validate_fields_get:
  "validate_fields P schema raw = Inr d \<Longrightarrow> map_of schema f = Some kind \<Longrightarrow>
   \<exists>v. map_of d f = Some v \<and> validate_field P kind (map_of raw f) = Inr v"
  by (induction schema arbitrary: d) (auto simp: bind_r_Inr_iff split: if_splits)

lemma validate_provided_get:
  assumes "validate_provided P raw = Inr data" "map_of provided_schema f = Some kind"
  shows "\<exists>v. map_of data f = Some v \<and> validate_field P kind (map_of raw f) = Inr v"
  using assms by (auto simp: validate_provided_def bind_r_Inr_iff map_of_append map_add_Some_iff
    dest!: validate_fields_get)

fun num_kind :: "field_kind \<Rightarrow> bool" where
  "num_kind (Float_Field _) = True"
| "num_kind (Int_Field _) = True"
| "num_kind _ = False"

definition validated :: "pydict \<Rightarrow> bool" where
  "validated data \<longleftrightarrow> (\<exists>P raw. validate_provided P raw = Inr data)"

lemma validated_num:
  assumes "validated data" "map_of provided_schema f = Some kind" "num_kind kind"
  shows "\<exists>x. map_of data f = Some (PNum x)"
proof -
  obtain P raw where "validate_provided P raw = Inr data" using assms(1) by (auto simp: validated_def)
  from validate_provided_get [OF this assms(2)] show ?thesis
    using assms(3) by (cases kind) (auto simp: validate_field_def bind_r_Inr_iff split: option.splits)
qed

lemma validated_num_or_zero [returns_intros]:
  "validated data \<Longrightarrow> map_of provided_schema f = Some kind \<Longrightarrow> num_kind kind \<Longrightarrow> returns (num_or_zero data f)"
  by (auto simp: num_or_zero_def get_or_zero_def dest!: validated_num)

lemma validated_str_or:
  assumes "validated data" "map_of provided_schema f = Some kind" "kind = Fuel_Type_Field \<or> kind = Str_Field s"
  shows "returns (str_or data f dflt)"
proof -
  obtain P raw where "validate_provided P raw = Inr data" using assms(1) by (auto simp: validated_def)
  from validate_provided_get [OF this assms(2)] show ?thesis
    using assms(3) by (auto simp: validate_field_def validation_error_def bind_r_Inr_iff str_or_def
        split: option.splits pyval.splits)
qed

lemma validated_refrigerant:
  assumes "validated data"
  shows "map_of data ''refrigerant_type'' = Some PNone \<or> (\<exists>s. map_of data ''refrigerant_type'' = Some (PStr s))"
proof -
  obtain P raw where "validate_provided P raw = Inr data" using assms by (auto simp: validated_def)
  from validate_provided_get [OF this, of "''refrigerant_type''" Opt_Str_Field] show ?thesis
    by (auto simp: provided_schema_def validate_field_def validation_error_def split: option.splits pyval.splits)
qed

lemma validated_questionnaire:
  "validate_questionnaire P raw = Inr (data, industry, region) \<Longrightarrow> validated data"
  by (auto simp: validate_questionnaire_def read_provided_def validation_error_def bind_r_Inr_iff validated_def
    split: option.splits pyval.splits)

section \<open>Every valid questionnaire is answered\<close>

text \<open>The entries the code takes for granted are in the datasets.\<close>

definition datasets_complete :: "emission_data \<Rightarrow> bool" where
  "datasets_complete D \<longleftrightarrow>
     map_of (fuels D) ''diesel'' \<noteq> None \<and> map_of (vehicle_types D) ''heavy_truck_diesel'' \<noteq> None \<and>
     list_all (\<lambda>s. map_of (subregions D) s \<noteq> None) (dict_values (state_to_subregion D)) \<and>
     (case map_of (freight D) ''road'' of None \<Rightarrow> False
      | Some road \<Rightarrow> (case map_of road ''kgco2e_per_ton_km'' of Some (PNum x) \<Rightarrow> True | _ \<Rightarrow> False)) \<and>
     map_of (industries D) ''manufacturing'' \<noteq> None \<and>
     list_all (\<lambda>p. map_of (typical_scope_split p) ''scope3_pct'' \<noteq> None) (dict_values (industries D))"

lemma dict_item_returns [returns_intros]: "map_of d k \<noteq> None \<Longrightarrow> returns (dict_item d k)"
  by (auto simp: dict_item_def)

lemma fuel_factor_returns [returns_intros]: "datasets_complete D \<Longrightarrow> returns (get_fuel_factor D f)"
  by (auto simp: get_fuel_factor_def datasets_complete_def split: option.splits intro!: returns_intros)

lemma grid_factor_returns [returns_intros]: "datasets_complete D \<Longrightarrow> returns (get_grid_factor D region)"
  by (auto simp: get_grid_factor_def datasets_complete_def Let_def split: option.splits
    intro!: dict_item_returns dest: dict_values_all_get)

lemma stationary_returns [returns_intros]: "datasets_complete D \<Longrightarrow> returns (calc_stationary_combustion D f x u)"
  by (auto simp: calc_stationary_combustion_def Let_def intro!: returns_intros)

lemma mobile_returns [returns_intros]: "datasets_complete D \<Longrightarrow> returns (calc_mobile_combustion D v x y)"
  by (auto simp: calc_mobile_combustion_def Let_def datasets_complete_def split: option.splits
    intro!: returns_intros)

lemma location_returns [returns_intros]: "datasets_complete D \<Longrightarrow> returns (calc_location_based D x region)"
  by (auto simp: calc_location_based_def intro!: returns_intros)

lemma market_returns [returns_intros]:
  "datasets_complete D \<Longrightarrow> g = PNone \<or> returns (as_num g) \<Longrightarrow> returns (calc_market_based D x region g r)"
  by (auto simp: calc_market_based_def Let_def intro!: returns_intros)

lemma profile_returns [returns_intros]: "datasets_complete D \<Longrightarrow> returns (get_industry_profile (industries D) i)"
  by (auto simp: get_industry_profile_def datasets_complete_def split: option.splits)

lemma profile_split:
  "datasets_complete D \<Longrightarrow> get_industry_profile (industries D) i = Inr p \<Longrightarrow>
   map_of (typical_scope_split p) ''scope3_pct'' \<noteq> None"
  by (fastforce simp: get_industry_profile_def datasets_complete_def dict_get_def split: option.splits
    dest: dict_values_all_get)

lemma spend_returns [returns_intros]: "datasets_complete D \<Longrightarrow> returns (calc_cat1_purchased_goods D x i)"
  by (auto simp: calc_cat1_purchased_goods_def Let_def intro!: returns_intros)

lemma road_returns [returns_intros]: "datasets_complete D \<Longrightarrow> returns (calc_cat4_transport D x ''road'')"
  by (auto simp: calc_cat4_transport_def get_transport_factor_def dict_item_def datasets_complete_def
    split: option.splits pyval.splits)

lemma fill_returns [returns_intros]:
  assumes "datasets_complete D" "validated data"
  shows "returns (fill_industry_defaults D detail i data)"
proof -
  have n: "returns (as_num (get_or_zero data ''revenue_usd''))" "returns (as_num (get_or_zero data ''employee_count''))"
    using validated_num_or_zero [OF assms(2), of "''revenue_usd''"] validated_num_or_zero [OF assms(2), of "''employee_count''"]
    by (simp_all add: num_or_zero_def provided_schema_def)
  show ?thesis
    using assms(1) n unfolding fill_industry_defaults_def estimate_scope3_def Let_def
    by (intro returns_intros) (auto dest: profile_split)
qed

lemma scope1_returns [returns_intros]:
  assumes "datasets_complete D" "validated data"
  shows "returns (estimate_scope1 D data as ss)"
proof -
  have n: "returns (num_or_zero data ''fuel_use_liters'')" "returns (num_or_zero data ''natural_gas_m3'')"
    "returns (num_or_zero data ''vehicle_km'')" "returns (num_or_zero data ''refrigerant_kg_leaked'')"
    using validated_num_or_zero [OF assms(2)] by (auto simp: provided_schema_def)
  have s: "returns (str_or data ''fuel_type'' f)" "returns (str_or data ''vehicle_type'' f)" for f
    using validated_str_or [OF assms(2)] by (auto simp: provided_schema_def)
  consider (none) "map_of data ''refrigerant_type'' = Some PNone"
    | (str) r where "map_of data ''refrigerant_type'' = Some (PStr r)"
    using validated_refrigerant [OF assms(2)] by blast
  then show ?thesis
    unfolding estimate_scope1_def Let_def
    by cases (simp only: option.case pyval.case; intro returns_intros n s assms)+
qed

lemma scope2_returns [returns_intros]:
  assumes "datasets_complete D" "validated data"
    "dict_get ctx ''grid_factor_override'' PNone = PNone \<or> returns (as_num (dict_get ctx ''grid_factor_override'' PNone))"
  shows "returns (estimate_scope2 D data region ctx as ss)"
proof -
  have n: "returns (num_or_zero data k)" if "k \<in> {''electricity_kwh'', ''rec_kwh''}" for k
    using validated_num_or_zero [OF assms(2), of k] that by (auto simp: provided_schema_def)
  show ?thesis
    unfolding estimate_scope2_def Let_def by (intro returns_intros n assms) auto
qed

lemma scope3_returns [returns_intros]:
  assumes "datasets_complete D" "validated data"
  shows "returns (estimate_scope3_all D data i region as ss)"
proof -
  have n: "returns (num_or_zero data k)"
    if "k \<in> {''supplier_spend_usd'', ''shipping_ton_km'', ''waste_kg'', ''business_travel_usd'', ''employee_count''}" for k
    using validated_num_or_zero [OF assms(2), of k] that by (auto simp: provided_schema_def)
  have "returns (scope3_activity D data i region as ss)"
    unfolding scope3_activity_def Let_def case_prod_unfold by (intro returns_intros n assms) auto
  then show ?thesis
    unfolding estimate_scope3_all_def Let_def by (intro returns_intros assms)
qed

text \<open>
  With complete datasets the only failure is a validation error: the miner answers every
  questionnaire that validates.
\<close>

lemma valid_is_answered:
  assumes "datasets_complete D" "validate_questionnaire P (syn_questionnaire syn) = Inr v"
    "dict_get (syn_context syn) ''grid_factor_override'' PNone = PNone \<or>
     returns (as_num (dict_get (syn_context syn) ''grid_factor_override'' PNone))"
  shows "returns (estimate_synapse D P sha256 dumps syn)"
proof -
  obtain data i region where v: "v = (data, i, region)" by (cases v)
  have "validated data" using assms(2) v by (auto dest: validated_questionnaire)
  then show ?thesis
    unfolding estimate_synapse_def assms(2) v Let_def bind_r_simps prod.case
    by (intro returns_intros assms)
qed

end
