(* ===== verification/Ghg_Protocol.thy ===== *)
theory Ghg_Protocol
imports Py_Value
begin

text \<open>
  \<open>carbonscope/validation/ghg_protocol.py\<close>: the GHG Protocol compliance score of a miner's
  response. The list of penalty messages the source builds and drops is left out.
\<close>

text \<open>The tests on one scope's breakdown, \<open>abs(sum - s) / max(s, sum) > 0.02\<close>.\<close>

definition detail_mismatch :: "flt \<Rightarrow> flt \<Rightarrow> bool" where
  "detail_mismatch s detail_sum \<longleftrightarrow>
     0 < detail_sum \<and> lit (2/100) < \<bar>detail_sum - s\<bar> / py_max s detail_sum"

definition sum_detail_mismatch :: "flt \<Rightarrow> pyval option \<Rightarrow> bool" where
  "sum_detail_mismatch s detail = (case as_nonempty_dict detail of
     None \<Rightarrow> False
   | Some d \<Rightarrow> 0 < s \<and> detail_mismatch s (py_sum (numbers (dict_values d))))"

definition scope2_detail_mismatch :: "flt \<Rightarrow> pyval option \<Rightarrow> bool" where
  "scope2_detail_mismatch s2 detail = (case as_nonempty_dict detail of
     None \<Rightarrow> False
   | Some d \<Rightarrow> 0 < s2 \<and> (case dict_get d ''location_based'' (PNum 0) of
       PNum s2_loc \<Rightarrow> detail_mismatch s2 s2_loc | _ \<Rightarrow> False))"

definition check_ghg_compliance :: "pydict \<Rightarrow> pydict option \<Rightarrow> questionnaire \<Rightarrow> flt res" where
  "check_ghg_compliance emissions breakdown q =
     bind_r (get_num emissions ''scope1'') (\<lambda>s1.
     bind_r (get_num emissions ''scope2'') (\<lambda>s2.
     bind_r (get_num emissions ''scope3'') (\<lambda>s3.
     bind_r (get_num emissions ''total'') (\<lambda>total.
     let expected_total = s1 + s2 + s3;
         score = 1;
         score = penalty (0 < expected_total \<and>
           lit (1/100) < \<bar>total - expected_total\<bar> / expected_total) (lit (25/100)) score;
         score = foldl (\<lambda>sc val. penalty (val < 0) (lit (20/100)) sc) score [s1, s2, s3, total]
     in bind_r (any_field_pos (provided_data q) [''fuel_use_liters'', ''natural_gas_m3'']) (\<lambda>has_fuel.
        let score = penalty (has_fuel \<and> feq s1 0) (lit (15/100)) score
        in bind_r (any_field_pos (provided_data q) [''electricity_kwh'']) (\<lambda>has_electricity.
           let score = penalty (has_electricity \<and> feq s2 0) (lit (15/100)) score
           in case breakdown of
                None \<Rightarrow> Inr (py_max (penalty (0 < total) (lit (10/100)) score) 0)
              | Some bd \<Rightarrow>
                  let score = penalty (0 < total \<and> sum_detail_mismatch s1 (map_of bd ''scope1_detail''))
                        (lit (10/100)) score;
                      score = penalty (0 < total \<and> scope2_detail_mismatch s2 (map_of bd ''scope2_detail''))
                        (lit (5/100)) score;
                      score = penalty (0 < total \<and> sum_detail_mismatch s3 (map_of bd ''scope3_detail''))
                        (lit (10/100)) score
                  in Inr (py_max score 0)))))))"

text \<open>Every score the checker returns lies in the unit interval, whatever the miner sends.\<close>

lemma check_ghg_compliance_range:
  "check_ghg_compliance emissions breakdown q = Inr sc \<Longrightarrow> between 0 1 sc"
  by (auto simp: check_ghg_compliance_def Let_def bind_r_Inr_iff simp del: any_field_pos.simps
      split: option.splits)

lemma check_ghg_compliance_error:
  "check_ghg_compliance emissions breakdown q = Inl e \<Longrightarrow> e = TypeError"
  by (auto simp: check_ghg_compliance_def Let_def bind_r_Inl_iff simp del: any_field_pos.simps
      split: option.splits dest: type_error_only)

lemma check_ghg_compliance_total:
  assumes "list_all (num_at emissions) [''scope1'', ''scope2'', ''scope3'', ''total'']"
    "list_all (num_at (provided_data q)) [''fuel_use_liters'', ''natural_gas_m3'', ''electricity_kwh'']"
  shows "\<exists>sc. check_ghg_compliance emissions breakdown q = Inr sc"
proof -
  obtain s1 s2 s3 tt where "get_num emissions ''scope1'' = Inr s1" "get_num emissions ''scope2'' = Inr s2"
    "get_num emissions ''scope3'' = Inr s3" "get_num emissions ''total'' = Inr tt"
    using assms(1) by (auto dest!: get_num_num_at)
  moreover obtain f e where
    "any_field_pos (provided_data q) [''fuel_use_liters'', ''natural_gas_m3''] = Inr f"
    "any_field_pos (provided_data q) [''electricity_kwh''] = Inr e"
    using assms(2) any_field_pos_num_at [of "provided_data q" "[''fuel_use_liters'', ''natural_gas_m3'']"]
      any_field_pos_num_at [of "provided_data q" "[''electricity_kwh'']"] by auto
  ultimately show ?thesis
    by (auto simp: check_ghg_compliance_def Let_def simp del: any_field_pos.simps split: option.splits)
qed

end
