(* ===== verification/Sanity_Checks.thy ===== *)
theory Sanity_Checks
imports Py_Value
begin

text \<open>
  \<open>carbonscope/validation/sanity_checks.py\<close>: the anti-hallucination score. The upper bounds per
  employee are the source's table; an unknown industry uses its default.
\<close>

definition upper_per_employee :: "(string, rat) dict" where
  "upper_per_employee =
    [(''technology'', 50000), (''financial_services'', 30000), (''manufacturing'', 250000),
     (''transportation'', 400000), (''energy'', 2000000), (''retail'', 80000),
     (''construction'', 200000), (''food_beverage'', 180000), (''healthcare'', 100000)]"

definition confidence_fields :: "string list" where
  "confidence_fields =
    [''fuel_use_liters'', ''natural_gas_m3'', ''electricity_kwh'', ''vehicle_km'',
     ''employee_count'', ''revenue_usd'', ''supplier_spend_usd'', ''shipping_ton_km'']"

definition activity_fields :: "string list" where
  "activity_fields = [''fuel_use_liters'', ''natural_gas_m3'', ''electricity_kwh'', ''vehicle_km'']"

text \<open>Scope 2 against the grid-factor band of the electricity input.\<close>

definition scope2_out_of_band :: "flt \<Rightarrow> flt \<Rightarrow> bool" where
  "scope2_out_of_band electricity_kwh s2 \<longleftrightarrow>
     0 < electricity_kwh \<and> 0 < s2 \<and>
     (s2 < (electricity_kwh * lit (1/100)) * lit (5/10) \<or>
      (electricity_kwh * lit (9/10)) * lit (15/10) < s2)"

definition run_sanity_checks ::
    "pydict \<Rightarrow> pydict option \<Rightarrow> flt option \<Rightarrow> questionnaire \<Rightarrow> flt res" where
  "run_sanity_checks emissions breakdown confidence q =
     (let data = provided_data q;
          industry = (case q_industry q of None \<Rightarrow> ''manufacturing'' | Some i \<Rightarrow> i)
      in bind_r (get_num emissions ''scope1'') (\<lambda>s1.
         bind_r (get_num emissions ''scope2'') (\<lambda>s2.
         bind_r (get_num emissions ''scope3'') (\<lambda>s3.
         bind_r (get_num emissions ''total'') (\<lambda>total.
         let score = penalty (list_ex (\<lambda>val. val < 0) [s1, s2, s3, total]) (lit (30/100)) 1
         in bind_r (as_num (get_or_zero data ''electricity_kwh'')) (\<lambda>electricity_kwh.
            let score = penalty (scope2_out_of_band electricity_kwh s2) (lit (20/100)) score
            in bind_r (as_num (get_or_zero data ''employee_count'')) (\<lambda>employees.
               let upper = flt_of_rat (dict_get upper_per_employee industry 250000);
                   score = penalty (0 < employees \<and> employees * upper < total) (lit (20/100)) score
               in bind_r (case confidence of
                    None \<Rightarrow> Inr score
                  | Some c \<Rightarrow> bind_r (count_fields_pos data confidence_fields) (\<lambda>filled.
                      Inr (penalty (filled \<le> 2 \<and> lit (9/10) < c) (lit (15/100)) score))) (\<lambda>score.
                  bind_r (any_field_pos data activity_fields) (\<lambda>has_any_data.
                  Inr (py_max (penalty (has_any_data \<and> feq total 0) (lit (25/100)) score) 0))))))))))"

lemma run_sanity_checks_range:
  "run_sanity_checks emissions breakdown confidence q = Inr sc \<Longrightarrow> between 0 1 sc"
  by (auto simp: run_sanity_checks_def Let_def bind_r_Inr_iff simp del: any_field_pos.simps
      count_fields_pos.simps split: option.splits)

lemma run_sanity_checks_error:
  "run_sanity_checks emissions breakdown confidence q = Inl e \<Longrightarrow> e = TypeError"
  by (auto simp: run_sanity_checks_def Let_def bind_r_Inl_iff simp del: any_field_pos.simps
      count_fields_pos.simps split: option.splits dest: type_error_only)

end
