(* ===== verification/Scoring.thy ===== *)
theory Scoring
imports Ghg_Protocol Sanity_Checks Benchmark_Alignment
begin

text \<open>
  \<open>carbonscope/scoring.py\<close>: the five axes and the composite score. Sources and assumptions are
  lists whose emptiness alone matters.
\<close>

section \<open>Accuracy\<close>

definition scope_weights :: "(string, flt) dict" where
  "scope_weights = [(''scope1'', lit (30/100)), (''scope2'', lit (20/100)), (''scope3'', lit (50/100))]"

text \<open>The absolute percentage error of one scope.\<close>

definition scope_ape :: "pyval \<Rightarrow> flt \<Rightarrow> flt res" where
  "scope_ape est gt =
     (if 0 < gt then bind_r (as_num est) (\<lambda>x. Inr (\<bar>x - gt\<bar> / gt))
      else if eq_zero est then Inr 0 else Inr 1)"

fun accuracy_loop :: "pydict \<Rightarrow> (string, flt) dict \<Rightarrow> (string, flt) dict \<Rightarrow> flt \<times> flt \<Rightarrow> (flt \<times> flt) res" where
  "accuracy_loop estimated ground_truth [] acc = Inr acc"
| "accuracy_loop estimated ground_truth ((scope, weight) # ws) (weighted_error, total_weight) =
     bind_r (scope_ape (dict_get estimated scope (PNum 0)) (dict_get ground_truth scope 0)) (\<lambda>ape.
     accuracy_loop estimated ground_truth ws
       (weighted_error + weight * py_min ape 1, total_weight + weight))"

definition calc_accuracy_score :: "pydict \<Rightarrow> (string, flt) dict \<Rightarrow> flt res" where
  "calc_accuracy_score estimated ground_truth =
     bind_r (accuracy_loop estimated ground_truth scope_weights (0, 0))
       (\<lambda>(weighted_error, total_weight).
          if feq total_weight 0 then Inr (lit (5/10))
          else let mape = weighted_error / total_weight
               in Inr (py_round (py_max (1 - mape) 0) 4))"

section \<open>Completeness\<close>

text \<open>\<open>if ok: score += 1.0\<close>\<close>

definition add_check :: "bool \<Rightarrow> flt \<Rightarrow> flt" where
  "add_check ok score = (if ok then score + 1 else score)"

definition completeness_count ::
    "pydict option \<Rightarrow> pydict option \<Rightarrow> flt option \<Rightarrow> 's list option \<Rightarrow> 's list option \<Rightarrow> flt" where
  "completeness_count emissions breakdown confidence sources assumptions =
     (let score = 0;
          score = add_check (case emissions of None \<Rightarrow> False | Some e \<Rightarrow>
            e \<noteq> [] \<and> list_all (\<lambda>k. map_of e k \<noteq> None) [''scope1'', ''scope2'', ''scope3'', ''total''])
            score;
          score = add_check (case breakdown of None \<Rightarrow> False | Some b \<Rightarrow> b \<noteq> []) score;
          score = add_check (case confidence of None \<Rightarrow> False | Some c \<Rightarrow> 0 \<le> c \<and> c \<le> 1) score;
          score = add_check (case sources of None \<Rightarrow> False | Some s \<Rightarrow> s \<noteq> []) score;
          score = add_check (case assumptions of None \<Rightarrow> False | Some s \<Rightarrow> s \<noteq> []) score
      in score)"

definition calc_completeness_score ::
    "pydict option \<Rightarrow> pydict option \<Rightarrow> flt option \<Rightarrow> 's list option \<Rightarrow> 's list option \<Rightarrow> flt" where
  "calc_completeness_score emissions breakdown confidence sources assumptions =
     py_round (completeness_count emissions breakdown confidence sources assumptions / Fin 5) 4"

section \<open>Overconfidence penalty\<close>

definition fields_provided :: "pydict \<Rightarrow> nat" where
  "fields_provided data = length (filter provided (dict_values data))"

definition calc_overconfidence_penalty :: "flt option \<Rightarrow> questionnaire \<Rightarrow> flt" where
  "calc_overconfidence_penalty confidence q =
     (case confidence of
        None \<Rightarrow> 0
      | Some c \<Rightarrow>
          if c < lit (7/10) then 0
          else let n = fields_provided (provided_data q)
               in if n \<le> 3 \<and> lit (85/100) < c then lit (25/100)
                  else if n \<le> 5 \<and> lit (7/10) \<le> c then lit (15/100)
                  else if n \<le> 8 \<and> lit (8/10) \<le> c then lit (8/100)
                  else 0)"

section \<open>Composite score\<close>

record score_result =
  sr_accuracy :: flt
  sr_compliance :: flt
  sr_completeness :: flt
  sr_anti_hallucination :: flt
  sr_benchmark :: flt
  sr_penalty :: flt
  sr_final :: flt

record axis_weights =
  w_accuracy :: rat
  w_compliance :: rat
  w_completeness :: rat
  w_anti_hallucination :: rat
  w_benchmark :: rat

text \<open>The two weight sets of the module.\<close>

definition weights_gt :: axis_weights where
  "weights_gt = \<lparr>w_accuracy = 40/100, w_compliance = 25/100, w_completeness = 15/100,
     w_anti_hallucination = 15/100, w_benchmark = 5/100\<rparr>"

definition weights_no_gt :: axis_weights where
  "weights_no_gt = \<lparr>w_accuracy = 10/100, w_compliance = 35/100, w_completeness = 20/100,
     w_anti_hallucination = 25/100, w_benchmark = 10/100\<rparr>"

definition weighted_sum :: "axis_weights \<Rightarrow> flt \<Rightarrow> flt \<Rightarrow> flt \<Rightarrow> flt \<Rightarrow> flt \<Rightarrow> flt" where
  "weighted_sum w accuracy compliance completeness anti_hallucination benchmark =
     lit (w_accuracy w) * accuracy + lit (w_compliance w) * compliance
       + lit (w_completeness w) * completeness
       + lit (w_anti_hallucination w) * anti_hallucination + lit (w_benchmark w) * benchmark"

definition score_response ::
    "industry_data \<Rightarrow> pydict \<Rightarrow> pydict option \<Rightarrow> flt option \<Rightarrow> 's list option \<Rightarrow> 's list option
     \<Rightarrow> questionnaire \<Rightarrow> (string, flt) dict option \<Rightarrow> string \<Rightarrow> score_result res" where
  "score_response industries emissions breakdown confidence sources assumptions q ground_truth industry =
     bind_r (case ground_truth of Some gt \<Rightarrow> calc_accuracy_score emissions gt
             | None \<Rightarrow> Inr (lit (5/10))) (\<lambda>accuracy.
     bind_r (check_ghg_compliance emissions breakdown q) (\<lambda>compliance.
     let completeness = calc_completeness_score (Some emissions) breakdown confidence sources assumptions
     in bind_r (run_sanity_checks emissions breakdown confidence q) (\<lambda>anti_hallucination.
        bind_r (check_benchmark_alignment industries emissions industry) (\<lambda>benchmark.
        let w = (if ground_truth \<noteq> None then weights_gt else weights_no_gt);
            final = weighted_sum w accuracy compliance completeness anti_hallucination benchmark;
            pen = calc_overconfidence_penalty confidence q;
            final = py_max 0 (final - pen)
        in Inr \<lparr>sr_accuracy = py_round accuracy 4, sr_compliance = py_round compliance 4,
                sr_completeness = py_round completeness 4,
                sr_anti_hallucination = py_round anti_hallucination 4,
                sr_benchmark = py_round benchmark 4, sr_penalty = py_round pen 4,
                sr_final = py_round final 4\<rparr>))))"

text \<open>The module's two import-time assertions on the weights.\<close>

definition weight_total :: "axis_weights \<Rightarrow> flt" where
  "weight_total w = lit (w_accuracy w) + lit (w_compliance w) + lit (w_completeness w)
     + lit (w_anti_hallucination w) + lit (w_benchmark w)"

lemma weights_assertion:
  "feq (py_round (weight_total weights_gt) 10) 1" "feq (py_round (weight_total weights_no_gt) 10) 1"
  by (simp_all add: weight_total_def weights_gt_def weights_no_gt_def flt_eval Let_def)

section \<open>Ranges\<close>

lemma py_round_unit: "between 0 u v \<Longrightarrow> u \<le> 100004/100000 \<Longrightarrow> between 0 1 (py_round v 4)"
  using between_py_round [of 0 u v 0 4 10000 0 1] rnd_of_int [of 1] by (simp del: rnd_of_int)

lemma scope_ape_nonneg: "scope_ape est gt = Inr ape \<Longrightarrow> 0 \<le> ape \<or> ape = NaN"
proof -
  assume a: "scope_ape est gt = Inr ape"
  have abs: "0 \<le> \<bar>x\<bar> \<or> \<bar>x\<bar> = NaN" for x :: flt
    by (cases x) (auto simp: flt_ops flt_0_1)
  have div: "0 \<le> v / gt \<or> v / gt = NaN" if "0 \<le> v \<or> v = NaN" "0 < gt" for v
    using that flt_div_nonneg [of v] by (cases gt; cases v) (auto simp: flt_0_1 divide_flt_def)
  show ?thesis
    using a div [OF abs] by (auto simp: scope_ape_def bind_r_Inr_iff flt_0_1 split: if_splits)
qed

lemma clipped_term:
  assumes "0 \<le> ape \<or> ape = NaN" "between 0 u (lit w)" "rnd u = u" "u \<le> 1"
  shows "between 0 u (lit w * py_min ape 1) \<or> lit w * py_min ape 1 = NaN"
proof (cases "ape = NaN")
  case True
  then show ?thesis by (cases "lit w") (auto simp: py_min_def times_flt_def)
next
  case False
  with assms(1) have "between 0 1 (py_min ape 1)"
    by (cases ape) (auto simp: py_min_def flt_0_1)
  then have "between 0 u (lit w * py_min ape 1)"
    using assms by (intro between_mult_nonneg [where b = u and d = 1]) auto
  then show ?thesis ..
qed

lemma NaN_arith [simp]: "NaN + a = NaN" "a + NaN = NaN" "NaN - a = NaN" "a - NaN = NaN"
  "NaN * a = NaN" "a * NaN = NaN" "NaN / a = NaN" "a / NaN = NaN"
  by (cases a; simp add: flt_ops)+

lemma add_or_NaN:
  assumes "between 0 a x \<or> x = NaN" "between 0 b y \<or> y = NaN" "a + b \<le> c" "rnd c = c" "c \<le> 10"
    "0 \<le> a" "0 \<le> b"
  shows "between 0 c (x + y) \<or> x + y = NaN"
  using assms between_add [of 0 a x 0 b y 0 c] by auto

lemma accuracy_range:
  assumes "calc_accuracy_score estimated ground_truth = Inr sc"
  shows "between 0 1 sc \<or> sc = NaN"
proof -
  obtain e t where et: "accuracy_loop estimated ground_truth scope_weights (0, 0) = Inr (e, t)"
    using assms by (auto simp: calc_accuracy_score_def bind_r_Inr_iff)
  have dy: "rnd (5/16) = 5/16" "rnd (1/2) = 1/2" "rnd (1/4) = 1/4" "rnd (9/16) = 9/16" "rnd (17/16) = 17/16"
    by (simp_all add: flt_eval)
  obtain a1 a2 a3 where
    ape: "0 \<le> a1 \<or> a1 = NaN" "0 \<le> a2 \<or> a2 = NaN" "0 \<le> a3 \<or> a3 = NaN" and
    e: "e = 0 + lit (30/100) * py_min a1 1 + lit (20/100) * py_min a2 1 + lit (50/100) * py_min a3 1" and
    t: "t = 0 + lit (30/100) + lit (20/100) + lit (50/100)"
    using et by (auto simp: scope_weights_def bind_r_Inr_iff dest: scope_ape_nonneg)
  have "between 0 (5/16) (lit (30/100))" "between 0 (1/4) (lit (20/100))" "between 0 (1/2) (lit (50/100))"
    by (simp_all add: flt_eval)
  note clip = clipped_term [OF ape(1) this(1)] clipped_term [OF ape(2) this(2)] clipped_term [OF ape(3) this(3)]
  have e_range: "between 0 (17/16) e \<or> e = NaN"
    unfolding e by (intro add_or_NaN [where a = "9/16" and b = "1/2"] add_or_NaN [where a = "5/16" and b = "1/4"]
      add_or_NaN [where a = 0 and b = "5/16"] clip) (simp_all add: dy)
  have t1: "t = Fin 1" unfolding t by (simp add: flt_eval)
  have sc: "sc = py_round (py_max (1 - e / Fin 1) 0) 4"
    using assms et t1 by (auto simp: calc_accuracy_score_def feq_def flt_0_1)
  show ?thesis
  proof (cases "e = NaN")
    case True
    then show ?thesis by (simp add: sc py_max_def)
  next
    case False
    then obtain r where r: "e = Fin r" "0 \<le> r" "r \<le> 17/16" using e_range by (auto simp: between_iff)
    have "between 0 2 (e / Fin 1)"
      using r rnd_of_int [of 2] by (auto simp: divide_flt_def intro!: between_rounded simp del: rnd_of_int)
    then have "1 - e / Fin 1 \<le> 1" by (intro flt_diff_le_1) (auto simp: between_iff flt_0_1)
    then have "between 0 1 (py_max (1 - e / Fin 1) 0)" by simp
    then show ?thesis unfolding sc by (auto intro: py_round_unit)
  qed
qed

lemma add_check_between: "between 0 u score \<Longrightarrow> rnd (u + 1) = u + 1 \<Longrightarrow> u \<le> 10 \<Longrightarrow> 0 \<le> u
   \<Longrightarrow> between 0 (u + 1) (add_check ok score)"
  using between_add [of 0 u score 1 1 1 0 "u + 1"] between_weaken [of 0 u score 0 "u + 1"]
  by (simp add: add_check_def)

lemma completeness_between:
  "between 0 1 (calc_completeness_score emissions breakdown confidence sources assumptions)"
proof -
  have int: "rnd 2 = 2" "rnd 3 = 3" "rnd 4 = 4" "rnd 5 = 5" "rnd 1 = 1"
    using rnd_of_int [of 2] rnd_of_int [of 3] rnd_of_int [of 4] rnd_of_int [of 5] rnd_of_int [of 1]
    by (simp_all del: rnd_of_int)
  note step = add_check_between [where u = 0] add_check_between [where u = 1]
    add_check_between [where u = 2] add_check_between [where u = 3] add_check_between [where u = 4]
  have "between 0 5 (completeness_count emissions breakdown confidence sources assumptions)"
    unfolding completeness_count_def Let_def
    using step [simplified int, simplified] by (simp add: int)
  then obtain r where r: "completeness_count emissions breakdown confidence sources assumptions = Fin r"
    "0 \<le> r" "r \<le> 5"
    by (auto simp: between_iff)
  then have "between 0 1 (flt_of_rat (r / 5))" by (intro between_rounded) (simp_all add: int)
  then show ?thesis
    unfolding calc_completeness_score_def r by (auto simp: divide_flt_def intro: py_round_unit)
qed

lemma overconfidence_penalty_range:
  "between 0 (1/4) (calc_overconfidence_penalty confidence q)"
  by (auto simp: calc_overconfidence_penalty_def Let_def flt_eval split: option.splits)


text \<open>The weighted sum of five axis scores stays below the next rounding boundary above 1.\<close>

definition weight_caps :: "axis_weights \<Rightarrow> rat list \<Rightarrow> bool" where
  "weight_caps w caps \<longleftrightarrow>
     list_all2 (\<lambda>q c. between 0 c (lit q) \<and> rnd c = c \<and> 0 \<le> c \<and> c \<le> 1)
       [w_accuracy w, w_compliance w, w_completeness w, w_anti_hallucination w, w_benchmark w] caps"

lemma weight_caps_gt: "weight_caps weights_gt
  [419431/1048576, 1/4, 157287/1048576, 157287/1048576, 52429/1048576]"
  by (simp add: weight_caps_def weights_gt_def flt_eval)

lemma weight_caps_no_gt: "weight_caps weights_no_gt
  [104858/1048576, 367002/1048576, 209716/1048576, 1/4, 104858/1048576]"
  by (simp add: weight_caps_def weights_no_gt_def flt_eval)

lemma weighted_sum_range:
  assumes caps: "weight_caps w [c1, c2, c3, c4, c5]"
    and sums: "rnd (c1 + c2) = c1 + c2" "rnd (c1 + c2 + c3) = c1 + c2 + c3"
      "rnd (c1 + c2 + c3 + c4) = c1 + c2 + c3 + c4"
      "rnd (c1 + c2 + c3 + c4 + c5) = c1 + c2 + c3 + c4 + c5"
    and axes: "between 0 1 a \<or> a = NaN" "between 0 1 b" "between 0 1 c" "between 0 1 d" "between 0 1 e"
  shows "between 0 (c1 + c2 + c3 + c4 + c5) (weighted_sum w a b c d e) \<or> weighted_sum w a b c d e = NaN"
proof (cases "a = NaN")
  case False
  have scaled: "between 0 u (lit q * x)" if "between 0 u (lit q)" "rnd u = u" "u \<le> 1" "between 0 1 x" for q u x
    using that by (intro between_mult_nonneg [where b = u and d = 1]) auto
  have "between 0 c1 (lit (w_accuracy w) * a)" "between 0 c2 (lit (w_compliance w) * b)"
    "between 0 c3 (lit (w_completeness w) * c)" "between 0 c4 (lit (w_anti_hallucination w) * d)"
    "between 0 c5 (lit (w_benchmark w) * e)"
    using caps axes False by (auto simp: weight_caps_def intro!: scaled)
  then show ?thesis
    unfolding weighted_sum_def using caps
    by (intro disjI1 between_add [where a = 0 and c = 0]) (auto simp: weight_caps_def sums)
qed (simp add: weighted_sum_def)

lemma final_range:
  assumes "between 0 (1 + 1/100000) s \<or> s = NaN" "0 \<le> p"
  shows "between 0 1 (py_round (py_max 0 (s - p)) 4)"
proof (cases "s = NaN")
  case True
  then show ?thesis by (simp add: py_max_def flt_eval)
next
  case False
  then obtain r where r: "s = Fin r" "0 \<le> r" "r \<le> 1 + 1/100000" using assms(1) by (auto simp: between_iff)
  have up: "rnd (100001/100000) \<le> 100004/100000" by (simp add: flt_eval)
  have "py_max 0 (s - p) = Fin 0 \<or> (\<exists>v. py_max 0 (s - p) = Fin v \<and> 0 \<le> v \<and> v \<le> rnd (100001/100000))"
  proof (cases p)
    case (Fin x)
    then have "r - x \<le> 100001/100000" using r assms(2) by (auto simp: flt_0_1)
    then have "rnd (r - x) \<le> rnd (100001/100000)" by (rule rnd_mono)
    then show ?thesis using Fin r up
      by (auto simp: minus_flt_def py_max_def flt_of_rat_def Let_def flt_0_1)
  qed (use assms(2) r in \<open>auto simp: minus_flt_def py_max_def flt_0_1\<close>)
  then have "between 0 (100004/100000) (py_max 0 (s - p))" using up by auto
  then show ?thesis by (rule py_round_unit) simp
qed

lemma NaN_emission [simp]: "feq NaN a = False" "py_round NaN n = NaN" "\<bar>NaN\<bar> = NaN"
  by (simp_all add: feq_def abs_flt_def)


text \<open>The components a successful call combines.\<close>

lemma score_responseE:
  assumes "score_response industries emissions breakdown confidence sources assumptions q ground_truth industry
    = Inr r"
  obtains acc comp anti bench where
    "(case ground_truth of Some gt \<Rightarrow> calc_accuracy_score emissions gt | None \<Rightarrow> Inr (lit (5/10))) = Inr acc"
    "check_ghg_compliance emissions breakdown q = Inr comp"
    "run_sanity_checks emissions breakdown confidence q = Inr anti"
    "check_benchmark_alignment industries emissions industry = Inr bench"
    "sr_final r = py_round (py_max 0 (weighted_sum
      (if ground_truth \<noteq> None then weights_gt else weights_no_gt) acc comp
        (calc_completeness_score (Some emissions) breakdown confidence sources assumptions) anti bench
      - calc_overconfidence_penalty confidence q)) 4"
    "sr_accuracy r = py_round acc 4"
  using assms unfolding score_response_def Let_def bind_r_Inr_iff sum.inject by (metis score_result.select_convs(1,7))

lemma sr_final_range:
  assumes "score_response industries emissions breakdown confidence sources assumptions q ground_truth industry
    = Inr r"
  shows "between 0 1 (sr_final r)"
proof -
  from assms obtain acc comp anti bench where
    acc_eq: "(case ground_truth of Some gt \<Rightarrow> calc_accuracy_score emissions gt | None \<Rightarrow> Inr (lit (5/10))) = Inr acc"
    and parts: "check_ghg_compliance emissions breakdown q = Inr comp"
      "run_sanity_checks emissions breakdown confidence q = Inr anti"
      "check_benchmark_alignment industries emissions industry = Inr bench"
    and fin: "sr_final r = py_round (py_max 0 (weighted_sum
      (if ground_truth \<noteq> None then weights_gt else weights_no_gt) acc comp
        (calc_completeness_score (Some emissions) breakdown confidence sources assumptions) anti bench
      - calc_overconfidence_penalty confidence q)) 4"
    by (rule score_responseE)
  have acc: "between 0 1 acc \<or> acc = NaN"
    using acc_eq by (cases ground_truth) (auto simp: lit_between_0_1 dest: accuracy_range)
  have axes: "between 0 1 comp" "between 0 1 anti" "between 0 1 bench"
    using parts by (auto intro: check_ghg_compliance_range run_sanity_checks_range
        check_benchmark_alignment_range)
  define w where "w = (if ground_truth \<noteq> None then weights_gt else weights_no_gt)"
  define s where "s = weighted_sum w acc comp
    (calc_completeness_score (Some emissions) breakdown confidence sources assumptions) anti bench"
  have "between 0 (1048578/1048576) s \<or> s = NaN" if "w = weights_gt"
    using weighted_sum_range [OF weight_caps_gt _ _ _ _ acc axes(1) completeness_between axes(2,3)]
    unfolding s_def that by (simp add: flt_eval)
  moreover have "between 0 (1048578/1048576) s \<or> s = NaN" if "w = weights_no_gt"
    using weighted_sum_range [OF weight_caps_no_gt _ _ _ _ acc axes(1) completeness_between axes(2,3)]
    unfolding s_def that by (simp add: flt_eval)
  moreover have "w = weights_gt \<or> w = weights_no_gt" by (simp add: w_def)
  ultimately have "between 0 (1048578/1048576) s \<or> s = NaN" by blast
  then have "between 0 (1 + 1/100000) s \<or> s = NaN"
    using between_weaken [of 0 "1048578/1048576" s 0 "1 + 1/100000"] by auto
  moreover have "0 \<le> calc_overconfidence_penalty confidence q"
    using overconfidence_penalty_range [of confidence q] by (auto simp: between_iff flt_0_1)
  ultimately show ?thesis unfolding fin s_def w_def by (rule final_range)
qed


section \<open>Exact values\<close>

text \<open>A response that repeats the ground truth has accuracy 1.\<close>

lemma scope_ape_exact: "0 \<le> g \<Longrightarrow> scope_ape (PNum (Fin g)) (Fin g) = Inr 0"
  by (cases "g = 0") (auto simp: scope_ape_def flt_0_1 minus_flt_def abs_flt_def divide_flt_def feq_def
      flt_of_rat_small)

lemma accuracy_exact:
  assumes "\<And>scope. scope \<in> {''scope1'', ''scope2'', ''scope3''} \<Longrightarrow>
      \<exists>g \<ge> 0. dict_get estimated scope (PNum 0) = PNum (Fin g) \<and> dict_get ground_truth scope 0 = Fin g"
  shows "calc_accuracy_score estimated ground_truth = Inr 1"
proof -
  obtain g1 g2 g3 where g:
    "0 \<le> g1" "dict_get estimated ''scope1'' (PNum 0) = PNum (Fin g1)" "dict_get ground_truth ''scope1'' 0 = Fin g1"
    "0 \<le> g2" "dict_get estimated ''scope2'' (PNum 0) = PNum (Fin g2)" "dict_get ground_truth ''scope2'' 0 = Fin g2"
    "0 \<le> g3" "dict_get estimated ''scope3'' (PNum 0) = PNum (Fin g3)" "dict_get ground_truth ''scope3'' 0 = Fin g3"
    using assms [of "''scope1''"] assms [of "''scope2''"] assms [of "''scope3''"] by auto
  have "accuracy_loop estimated ground_truth scope_weights (0, 0) = Inr (Fin 0, Fin 1)"
    unfolding scope_weights_def accuracy_loop.simps g bind_r_simps
      scope_ape_exact [OF g(1)] scope_ape_exact [OF g(4)] scope_ape_exact [OF g(7)]
    by (simp add: flt_eval)
  then show ?thesis by (simp add: calc_accuracy_score_def flt_eval)
qed

text \<open>
  A response whose four figures are NaN fails no check: every comparison with NaN is false, so no
  penalty applies, and without ground truth the response earns the full mark on every other axis.
\<close>

definition nan_emissions :: pydict where
  "nan_emissions = [(''scope1'', PNum NaN), (''scope2'', PNum NaN), (''scope3'', PNum NaN), (''total'', PNum NaN)]"

lemma nan_get [simp]:
  "get_num nan_emissions ''scope1'' = Inr NaN" "get_num nan_emissions ''scope2'' = Inr NaN"
  "get_num nan_emissions ''scope3'' = Inr NaN" "get_num nan_emissions ''total'' = Inr NaN"
  by (simp_all add: nan_emissions_def get_num_def dict_get_def)

lemma penalty_False [simp]: "penalty False p s = s"
  by (simp add: penalty_def)

lemma nan_sum_detail [simp]: "sum_detail_mismatch NaN d = False" "scope2_detail_mismatch NaN d = False"
  by (auto simp: sum_detail_mismatch_def scope2_detail_mismatch_def split: option.splits pyval.splits)

lemma nan_compliance:
  assumes "list_all (num_at (provided_data q)) [''fuel_use_liters'', ''natural_gas_m3'', ''electricity_kwh'']"
  shows "check_ghg_compliance nan_emissions (Some bd) q = Inr 1"
proof -
  obtain f e where
    "any_field_pos (provided_data q) [''fuel_use_liters'', ''natural_gas_m3''] = Inr f"
    "any_field_pos (provided_data q) [''electricity_kwh''] = Inr e"
    using assms any_field_pos_num_at [of "provided_data q" "[''fuel_use_liters'', ''natural_gas_m3'']"]
      any_field_pos_num_at [of "provided_data q" "[''electricity_kwh'']"] by auto
  then show ?thesis
    by (simp add: check_ghg_compliance_def Let_def py_max_def flt_0_1 del: any_field_pos.simps)
qed

lemma num_at_get_or_zero: "num_at d k \<Longrightarrow> \<exists>x. get_or_zero d k = PNum x"
  by (auto simp: num_at_def get_or_zero_def split: option.splits pyval.splits)

lemma nan_sanity:
  assumes "list_all (num_at (provided_data q)) confidence_fields" "c \<le> lit (9/10)"
  shows "run_sanity_checks nan_emissions bd (Some c) q = Inr 1"
proof -
  obtain el em where "get_or_zero (provided_data q) ''electricity_kwh'' = PNum el"
    "get_or_zero (provided_data q) ''employee_count'' = PNum em"
    using assms(1) num_at_get_or_zero by (fastforce simp: confidence_fields_def)
  moreover obtain n where "count_fields_pos (provided_data q) confidence_fields = Inr n"
    using count_fields_pos_num_at [OF assms(1)] by blast
  moreover obtain b where "any_field_pos (provided_data q) activity_fields = Inr b"
    using assms(1) any_field_pos_num_at [of "provided_data q" activity_fields]
    by (auto simp: activity_fields_def confidence_fields_def)
  moreover have "\<not> lit (9/10) < c"
    using assms(2) by (cases c) (simp_all add: flt_eval)
  ultimately show ?thesis
    by (simp add: run_sanity_checks_def Let_def scope2_out_of_band_def py_max_def flt_0_1
        del: any_field_pos.simps count_fields_pos.simps)
qed

lemma nan_benchmark:
  assumes "map_of industries ''manufacturing'' = Some m"
    "typical_scope_split (dict_get industries industry m) \<noteq> []"
  shows "check_benchmark_alignment industries nan_emissions industry = Inr 1"
  using assms by (simp add: check_benchmark_alignment_def get_industry_profile_def scope_penalty_def
      Let_def py_max_def flt_0_1)

lemma nan_completeness:
  assumes "bd \<noteq> []" "0 \<le> c" "c \<le> 1" "src \<noteq> []" "asm \<noteq> []"
  shows "calc_completeness_score (Some nan_emissions) (Some bd) (Some c) (Some src) (Some asm) = Fin 1"
  using assms by (simp add: calc_completeness_score_def completeness_count_def add_check_def
      nan_emissions_def Let_def flt_eval)

lemma overconfidence_low: "c < lit (7/10) \<Longrightarrow> calc_overconfidence_penalty (Some c) q = 0"
  by (simp add: calc_overconfidence_penalty_def)

lemma nan_response_score:
  assumes "list_all (num_at (provided_data q)) confidence_fields"
    "map_of industries ''manufacturing'' = Some m"
    "typical_scope_split (dict_get industries industry m) \<noteq> []"
    "bd \<noteq> []" "0 \<le> c" "c < lit (7/10)" "src \<noteq> []" "asm \<noteq> []"
  shows "\<exists>r. score_response industries nan_emissions (Some bd) (Some c) (Some src) (Some asm) q None industry
     = Inr r \<and> sr_final r = lit (95/100)"
proof -
  obtain x where x: "c = Fin x" using assms(5,6) by (cases c) (auto simp: flt_0_1 flt_eval)
  have c: "c \<le> 1" "c \<le> lit (9/10)" using assms(6) by (simp_all add: x flt_0_1 flt_eval)
  have "list_all (num_at (provided_data q)) [''fuel_use_liters'', ''natural_gas_m3'', ''electricity_kwh'']"
    using assms(1) by (simp add: confidence_fields_def)
  note ax = nan_compliance [OF this, of bd] nan_sanity [OF assms(1) c(2), of "Some bd"]
    nan_benchmark [OF assms(2,3)] nan_completeness [OF assms(4,5) c(1) assms(7,8)] overconfidence_low [OF assms(6), of q]
  show ?thesis
    by (simp add: score_response_def Let_def ax weighted_sum_def weights_no_gt_def flt_eval)
qed

lemma score_response_error:
  "score_response industries emissions breakdown confidence sources assumptions q ground_truth industry = Inl e
   \<Longrightarrow> e = TypeError \<or> e = KeyError"
proof -
  have loop: "accuracy_loop est gt ws acc = Inl e \<Longrightarrow> e = TypeError" for est gt ws acc
    by (induction est gt ws acc rule: accuracy_loop.induct)
      (auto simp: bind_r_Inl_iff scope_ape_def split: if_splits dest: as_num_Inl)
  have "calc_accuracy_score est gt = Inl e \<Longrightarrow> e = TypeError" for est gt
    by (auto simp: calc_accuracy_score_def Let_def bind_r_Inl_iff split: prod.splits if_splits dest: loop)
  then show "score_response industries emissions breakdown confidence sources assumptions q ground_truth industry = Inl e
   \<Longrightarrow> e = TypeError \<or> e = KeyError"
    by (auto simp: score_response_def Let_def bind_r_Inl_iff split: option.splits
        dest: check_ghg_compliance_error run_sanity_checks_error check_benchmark_alignment_error)
qed

end
