(* ===== verification/Validator.thy ===== *)
theory Validator
imports Scoring Protocol
begin

text \<open>
  \<open>neurons/validator.py\<close>: scoring of responses, the moving average of scores, normalisation into
  weights, retries with the circuit breaker, and the choice of the miners to query. The network
  (dendrite, subtensor) is a parameter: the outcome of each attempt. Delays are exact numbers of
  seconds; random draws are arguments.
\<close>

record validator_config =
  ema_alpha :: flt
  query_interval :: rat
  circuit_breaker_max_failures :: int
  circuit_breaker_base_backoff :: rat
  circuit_breaker_max_backoff :: rat
  skip_zero_after :: int

record validator =
  v_scores :: "(nat, flt) dict"
  v_query_counts :: "(nat, int) dict"
  v_consecutive_zeros :: "(nat, int) dict"
  v_case_index :: nat
  v_last_weight_block :: int
  v_consecutive_failures :: int
  v_backoff_seconds :: rat

definition alpha :: "validator_config \<Rightarrow> flt" where
  "alpha cfg = py_max 0 (py_min 1 (ema_alpha cfg))"

definition cold_start_rounds :: int where
  "cold_start_rounds = 10"

definition cold_start_alpha :: "validator_config \<Rightarrow> flt" where
  "cold_start_alpha cfg = py_min (lit (3/10)) (alpha cfg * Fin 3)"

definition cold_start_seed :: flt where
  "cold_start_seed = lit (3/10)"

text \<open>The state \<open>__init__\<close> builds around the persisted scores.\<close>

definition init_validator :: "validator_config \<Rightarrow> (nat, flt) dict \<Rightarrow> validator" where
  "init_validator cfg scores =
     \<lparr>v_scores = scores, v_query_counts = [], v_consecutive_zeros = [], v_case_index = 0,
      v_last_weight_block = 0, v_consecutive_failures = 0,
      v_backoff_seconds = circuit_breaker_base_backoff cfg\<rparr>"

section \<open>Queries\<close>

text \<open>A test case: questionnaire, context and, for curated ones, the ground truth.\<close>

record test_case =
  tc_questionnaire :: pydict
  tc_context :: pydict
  tc_ground_truth :: "(string, flt) dict option"

definition query_synapse :: "test_case \<Rightarrow> carbon_synapse" where
  "query_synapse c =
     \<lparr>syn_protocol_version = 2, syn_questionnaire = tc_questionnaire c, syn_context = tc_context c,
      syn_emissions = None, syn_breakdown = None, syn_confidence = None, syn_data_completeness = None,
      syn_sources = None, syn_assumptions = None, syn_methodology_version = None, syn_request_hash = None\<rparr>"

text \<open>\<open>draw\<close> is \<open>random.random()\<close>, \<open>synthetic\<close> the generated case.\<close>

definition next_query ::
    "test_case list \<Rightarrow> rat \<Rightarrow> test_case \<Rightarrow> validator \<Rightarrow> (carbon_synapse \<times> (string, flt) dict option) \<times> validator" where
  "next_query curated_cases draw synthetic v =
     (if draw < 7/10 \<and> curated_cases \<noteq> [] then
        let c = curated_cases ! (v_case_index v mod length curated_cases)
        in ((query_synapse c, tc_ground_truth c), v\<lparr>v_case_index := v_case_index v + 1\<rparr>)
      else ((query_synapse synthetic, tc_ground_truth synthetic), v))"

section \<open>Scoring one response\<close>

record response =
  is_success :: bool
  resp :: carbon_synapse

definition questionnaire_of :: "pydict \<Rightarrow> questionnaire" where
  "questionnaire_of raw =
     \<lparr>q_industry = (case map_of raw ''industry'' of Some (PStr s) \<Rightarrow> Some s | _ \<Rightarrow> None),
      q_region = (case map_of raw ''region'' of Some (PStr s) \<Rightarrow> Some s | _ \<Rightarrow> None),
      provided_data = (case map_of raw ''provided_data'' of Some (PDict d) \<Rightarrow> d | _ \<Rightarrow> [])\<rparr>"

definition score_miner_response ::
    "industry_data \<Rightarrow> carbon_synapse \<Rightarrow> (string, flt) dict option \<Rightarrow> response \<Rightarrow> flt res" where
  "score_miner_response industries syn ground_truth r =
     (case syn_emissions (resp r) of
        None \<Rightarrow> Inr 0
      | Some ems \<Rightarrow>
          if \<not> is_success r then Inr 0
          else let q = questionnaire_of (syn_questionnaire syn);
                   industry = (case q_industry q of Some i \<Rightarrow> i | None \<Rightarrow> ''manufacturing'')
          in bind_r (score_response industries ems (syn_breakdown (resp r)) (syn_confidence (resp r))
               (syn_sources (resp r)) (syn_assumptions (resp r)) q ground_truth industry)
               (\<lambda>result. Inr (sr_final result)))"

section \<open>Moving averages\<close>

definition count_zero :: "nat \<Rightarrow> flt \<Rightarrow> validator \<Rightarrow> validator" where
  "count_zero uid score v =
     v\<lparr>v_consecutive_zeros := dict_set uid
        (if feq score 0 then dict_get (v_consecutive_zeros v) uid 0 + 1 else 0) (v_consecutive_zeros v)\<rparr>"

definition ema :: "flt \<Rightarrow> flt \<Rightarrow> flt \<Rightarrow> flt" where
  "ema a old score = (1 - a) * old + a * score"

text \<open>\<open>update_scores\<close>; the writing of the score file that ends it is \<open>save_scores\<close> of theory \<open>Score_Store\<close>.\<close>

definition update_scores :: "validator_config \<Rightarrow> nat \<Rightarrow> flt \<Rightarrow> validator \<Rightarrow> validator" where
  "update_scores cfg uid score v =
     (let v = count_zero uid score v
      in case map_of (v_scores v) uid of
           Some old \<Rightarrow>
             let n = dict_get (v_query_counts v) uid 0 + 1;
                 a = (if n \<le> cold_start_rounds then cold_start_alpha cfg else alpha cfg)
             in v\<lparr>v_query_counts := dict_set uid n (v_query_counts v),
                  v_scores := dict_set uid (ema a old score) (v_scores v)\<rparr>
         | None \<Rightarrow>
             v\<lparr>v_query_counts := dict_set uid 1 (v_query_counts v),
               v_scores := dict_set uid
                 (cold_start_seed * (1 - cold_start_alpha cfg) + score * cold_start_alpha cfg) (v_scores v)\<rparr>)"

text \<open>The exceptions the loop over the responses catches.\<close>

fun caught :: "exn \<Rightarrow> bool" where
  "caught (ValueError _) = True"
| "caught TypeError = True"
| "caught KeyError = True"
| "caught _ = False"

text \<open>The loop over \<open>zip(miner_uids, responses)\<close>, for any scoring function.\<close>

fun score_and_update ::
    "validator_config \<Rightarrow> (response \<Rightarrow> flt res) \<Rightarrow> (nat \<times> response) list \<Rightarrow> (validator, unit) sres" where
  "score_and_update cfg score [] v = Inr ((), v)"
| "score_and_update cfg score ((uid, r) # rs) v =
     (if (case syn_confidence (resp r) of Some c \<Rightarrow> c < 0 | None \<Rightarrow> False)
      then score_and_update cfg score rs (update_scores cfg uid 0 v)
      else case score r of
        Inr sc \<Rightarrow> score_and_update cfg score rs (update_scores cfg uid sc v)
      | Inl e \<Rightarrow> if caught e then score_and_update cfg score rs (update_scores cfg uid 0 v) else Inl e)"

section \<open>Weights\<close>

definition weights_of :: "flt list \<Rightarrow> flt list" where
  "weights_of raw =
     (let sum_all = py_sum raw
      in if 0 < sum_all then map (\<lambda>w. w / sum_all) raw
         else replicate (length raw) (1 / flt_of_int (int (length raw))))"

text \<open>
  Attempts with a list of delays between them: the answer of the first successful attempt, if any,
  and the delays slept.
\<close>

fun with_retries :: "(nat \<Rightarrow> 'r option) \<Rightarrow> nat \<Rightarrow> rat list \<Rightarrow> 'r option \<times> rat list" where
  "with_retries attempt k [] = (attempt k, [])"
| "with_retries attempt k (d # ds) =
     (case attempt k of
        Some r \<Rightarrow> (Some r, [])
      | None \<Rightarrow> (let (r, slept) = with_retries attempt (Suc k) ds in (r, d # slept)))"

text \<open>
  \<open>submit k uids weights\<close> is the outcome of the \<open>k\<close>-th call of \<open>subtensor.set_weights\<close>: the current block
  after a success, \<open>None\<close> when it raises.
\<close>

definition set_weights ::
    "(nat \<Rightarrow> nat list \<Rightarrow> flt list \<Rightarrow> int option) \<Rightarrow> validator \<Rightarrow> rat list \<times> validator" where
  "set_weights submit v =
     (if v_scores v = [] then ([], v)
      else let uids = dict_keys (v_scores v);
               weights = weights_of (dict_values (v_scores v));
               (block, slept) = with_retries (\<lambda>k. submit k uids weights) 0 [1, 2, 4]
           in (slept, case block of None \<Rightarrow> v | Some b \<Rightarrow> v\<lparr>v_last_weight_block := b\<rparr>))"

text \<open>\<open>chain\<close> is the pair of the current block and the tempo, or \<open>None\<close> when the chain raises.\<close>

definition should_set_weights :: "(int \<times> int) option \<Rightarrow> validator \<Rightarrow> bool" where
  "should_set_weights chain v =
     (case chain of None \<Rightarrow> True | Some (current_block, tempo) \<Rightarrow> tempo \<le> current_block - v_last_weight_block v)"

section \<open>Queries with the circuit breaker\<close>

text \<open>\<open>jitter k\<close> is the random part of the \<open>k\<close>-th delay. The result is the responses, if any, the
  delays slept and the new state.\<close>

definition query_miners ::
    "validator_config \<Rightarrow> (nat \<Rightarrow> 'r option) \<Rightarrow> (nat \<Rightarrow> rat) \<Rightarrow> validator \<Rightarrow> 'r option \<times> rat list \<times> validator" where
  "query_miners cfg attempt jitter v =
     (case with_retries attempt 0 [1/2 + jitter 0, 1 + jitter 1, 2 + jitter 2] of
        (Some r, slept) \<Rightarrow>
          (Some r, slept, v\<lparr>v_consecutive_failures := 0, v_backoff_seconds := circuit_breaker_base_backoff cfg\<rparr>)
      | (None, slept) \<Rightarrow>
          let n = v_consecutive_failures v + 1
          in if circuit_breaker_max_failures cfg \<le> n
             then let backoff = min (v_backoff_seconds v) (circuit_breaker_max_backoff cfg)
                  in (None, slept @ [backoff],
                      v\<lparr>v_consecutive_failures := n,
                        v_backoff_seconds := min (v_backoff_seconds v * 2) (circuit_breaker_max_backoff cfg)\<rparr>)
             else (None, slept @ [query_interval cfg], v\<lparr>v_consecutive_failures := n\<rparr>))"

section \<open>The miners to query\<close>

text \<open>\<open>permit\<close> and \<open>active\<close> are the metagraph's lists; \<open>sample\<close> draws the probed miners from the
  skipped ones.\<close>

definition active_miners :: "bool list \<Rightarrow> bool list \<Rightarrow> nat \<Rightarrow> nat list" where
  "active_miners permit active n = filter (\<lambda>uid. \<not> permit ! uid \<and> active ! uid) [0..<n]"

definition select_miners ::
    "validator_config \<Rightarrow> bool list \<Rightarrow> bool list \<Rightarrow> nat \<Rightarrow> (nat list \<Rightarrow> nat \<Rightarrow> nat list) \<Rightarrow> validator \<Rightarrow> nat list" where
  "select_miners cfg permit active n sample v =
     (let uids = active_miners permit active n
      in if 0 < skip_zero_after cfg then
           let skipped = filter (\<lambda>uid. skip_zero_after cfg \<le> dict_get (v_consecutive_zeros v) uid 0) uids
           in if skipped \<noteq> [] then
                filter (\<lambda>uid. uid \<notin> set skipped) uids
                @ (if v_case_index v mod 10 = 0 then sample skipped (min 3 (length skipped)) else [])
              else uids
         else uids)"

section \<open>One round of the main loop\<close>

text \<open>What the world does in one round.\<close>

record round_env =
  env_permit :: "bool list"
  env_active :: "bool list"
  env_n :: nat
  env_sample :: "nat list \<Rightarrow> nat \<Rightarrow> nat list"
  env_draw :: rat
  env_synthetic :: test_case
  env_attempt :: "nat list \<Rightarrow> carbon_synapse \<Rightarrow> nat \<Rightarrow> response list option"
  env_jitter :: "nat \<Rightarrow> rat"
  env_chain :: "(int \<times> int) option"
  env_submit :: "nat \<Rightarrow> nat list \<Rightarrow> flt list \<Rightarrow> int option"

definition validator_round ::
    "validator_config \<Rightarrow> industry_data \<Rightarrow> test_case list \<Rightarrow> round_env \<Rightarrow> (validator, unit) sres" where
  "validator_round cfg industries curated_cases env v =
     (let uids = select_miners cfg (env_permit env) (env_active env) (env_n env) (env_sample env) v
      in if uids = [] then Inr ((), v)
         else let ((syn, ground_truth), v1) = next_query curated_cases (env_draw env) (env_synthetic env) v;
                  (responses, slept, v2) = query_miners cfg (env_attempt env uids syn) (env_jitter env) v1
              in case responses of
                   None \<Rightarrow> Inr ((), v2)
                 | Some rs \<Rightarrow>
                     bind_s (score_and_update cfg (score_miner_response industries syn ground_truth) (zip uids rs))
                       (\<lambda>_ v3. Inr ((), if should_set_weights (env_chain env) v3
                          then snd (set_weights (env_submit env) v3) else v3)) v2)"

end
