(* ===== verification/Validator_Laws.thy ===== *)
theory Validator_Laws
imports Validator Float_Order
begin

text \<open>
  What the validator guarantees, for every scoring function with scores in the unit interval and
  with the exceptions the loop catches: the moving averages stay in the unit interval, the loop
  handles every response, and the weights respect the order of the scores.
\<close>

section \<open>One averaging step\<close>

lemma alpha_range: "between 0 1 (alpha cfg)"
  by (cases "ema_alpha cfg") (auto simp: alpha_def py_max_def py_min_def flt_0_1)

lemma cold_start_alpha_range: "between 0 1 (cold_start_alpha cfg)"
proof -
  obtain r where r: "alpha cfg = Fin r" "0 \<le> r" "r \<le> 1" using alpha_range [of cfg] by (auto simp: between_iff)
  have "between 0 3 (alpha cfg * Fin 3)"
    using rnd_of_int [of 3] r by (intro between_mult_nonneg [of 1 _ 3]) (simp_all del: rnd_of_int)
  then show ?thesis
    using lit_between_0_1 [of "3/10"] by (auto simp: cold_start_alpha_def py_min_def between_iff)
qed

lemma rnd_just_above_1: "rnd (1 + 1 / 2 ^ 53) = 1"
  by (simp add: rnd_def ulp_exp_def round_half_even_def Let_def flt_eval)

lemma rnd_error_below_1: "0 \<le> x \<Longrightarrow> x \<le> 1 \<Longrightarrow> rnd x \<le> x + 1 / 2 ^ 54"
proof (cases "x = 1")
  case False
  assume x: "0 \<le> x" "x \<le> 1"
  then have "\<bar>rnd x - x\<bar> \<le> 2 powi (- 54)" using False rnd_close_below [of x 0] by simp
  then have "rnd x - x \<le> 2 powi (- 54)" by linarith
  also have "(2 :: rat) powi (- 54) = 1 / 2 ^ 54" by (simp add: power_int_minus inverse_eq_divide)
  finally show ?thesis by linarith
next
  case True
  then show ?thesis using rnd_of_int [of 1] by (simp del: rnd_of_int)
qed

text \<open>A convex combination of two numbers of the unit interval, rounded three times, stays in it.\<close>

lemma convex_between:
  assumes "between 0 1 a" "between 0 1 x" "between 0 1 y"
  shows "between 0 1 ((1 - a) * x + a * y)"
proof -
  obtain p q r where f: "a = Fin p" "0 \<le> p" "p \<le> 1" "x = Fin q" "0 \<le> q" "q \<le> 1" "y = Fin r" "0 \<le> r" "r \<le> 1"
    using assms by (auto simp: between_iff)
  have one: "rnd 1 = (1 :: rat)" using rnd_of_int [of 1] by (simp del: rnd_of_int)
  have b: "0 \<le> rnd (1 - p)" "rnd (1 - p) \<le> 1" using f rnd_mono [of "1 - p" 1] one by (auto intro: rnd_nonneg)
  have 1: "1 - a = Fin (rnd (1 - p))" using f by (simp add: flt_0_1 minus_flt_def flt_of_rat_small)
  have m: "rnd (1 - p) * q \<le> rnd (1 - p)" "p * r \<le> p" "0 \<le> rnd (1 - p) * q" "0 \<le> p * r"
    using f b by (auto simp: mult_left_le)
  then have n: "rnd (1 - p) * q \<le> 1" "p * r \<le> 1" using f b by auto
  have pq: "(1 - a) * x = Fin (rnd (rnd (1 - p) * q))" "a * y = Fin (rnd (p * r))"
    unfolding 1 using f m n by (auto simp: times_flt_def flt_of_rat_small)
  have s: "0 \<le> rnd (rnd (1 - p) * q)" "rnd (rnd (1 - p) * q) \<le> rnd (1 - p)" "0 \<le> rnd (p * r)" "rnd (p * r) \<le> rnd p"
    using m rnd_mono [OF m(1)] rnd_mono [OF m(2)] by (auto intro: rnd_nonneg)
  have "rnd (rnd (1 - p) * q) + rnd (p * r) \<le> 1 + 1 / 2 ^ 53"
    using s rnd_error_below_1 [of "1 - p"] rnd_error_below_1 [of p] f by simp
  then have "rnd (rnd (rnd (1 - p) * q) + rnd (p * r)) \<le> 1"
    using rnd_mono rnd_just_above_1 by metis
  moreover have "0 \<le> rnd (rnd (rnd (1 - p) * q) + rnd (p * r))" using s by (intro rnd_nonneg) simp
  moreover have "\<bar>rnd (rnd (1 - p) * q) + rnd (p * r)\<bar> \<le> 10 ^ 18"
    using s b f rnd_mono [of p 1] one by (simp add: abs_le_iff)
  ultimately show ?thesis unfolding pq by (simp add: plus_flt_def flt_of_rat_small)
qed

lemma ema_range: "between 0 1 a \<Longrightarrow> between 0 1 old \<Longrightarrow> between 0 1 score \<Longrightarrow> between 0 1 (ema a old score)"
  unfolding ema_def by (rule convex_between)

lemma flt_commute: "(a :: flt) * b = b * a" "(a :: flt) + b = b + a"
  by (cases a; cases b; auto simp: times_flt_def plus_flt_def inf_signed_def mult.commute add.commute)+

lemma seed_range:
  "between 0 1 score \<Longrightarrow> between 0 1 (cold_start_seed * (1 - cold_start_alpha cfg) + score * cold_start_alpha cfg)"
  using convex_between [OF cold_start_alpha_range [of cfg], of cold_start_seed score] lit_between_0_1 [of "3/10"]
  by (simp add: flt_commute cold_start_seed_def)

definition scores_ok :: "validator \<Rightarrow> bool" where
  "scores_ok v \<longleftrightarrow> dict_ok (v_scores v) \<and> list_all (between 0 1) (dict_values (v_scores v))"

lemma update_scores_ok:
  assumes "scores_ok v" "between 0 1 score"
  shows "scores_ok (update_scores cfg uid score v)"
proof (cases "map_of (v_scores v) uid")
  case None
  then show ?thesis using assms seed_range [OF assms(2)]
    by (simp add: scores_ok_def update_scores_def count_zero_def dict_values_set_all)
next
  case (Some old)
  then have "between 0 1 old" using assms(1) by (auto simp: scores_ok_def dest: dict_values_all_get)
  then show ?thesis
    using Some assms ema_range [OF alpha_range] ema_range [OF cold_start_alpha_range]
    by (simp add: scores_ok_def update_scores_def count_zero_def Let_def dict_values_set_all)
qed

text \<open>Only the scored miner's entries change.\<close>

lemma update_scores_frame:
  "uid' \<noteq> uid \<Longrightarrow> map_of (v_scores (update_scores cfg uid score v)) uid' = map_of (v_scores v) uid'"
  by (simp add: update_scores_def count_zero_def Let_def split: option.splits)

section \<open>The scoring interface\<close>

text \<open>What the loop needs of a scoring function.\<close>

locale scorer =
  fixes score :: "response \<Rightarrow> flt res"
  assumes score_range: "score r = Inr x \<Longrightarrow> between 0 1 x"
    and score_caught: "score r = Inl e \<Longrightarrow> caught e"
begin

lemma loop_total: "\<exists>v'. score_and_update cfg score rs v = Inr ((), v')"
proof (induction rs arbitrary: v)
  case (Cons p rs)
  obtain uid r where p: "p = (uid, r)" by (cases p)
  show ?case
    using Cons.IH score_caught [of r] by (cases "score r") (auto simp: p split: option.splits)
qed simp

lemma loop_scores_ok:
  "scores_ok v \<Longrightarrow> score_and_update cfg score rs v = Inr ((), v') \<Longrightarrow> scores_ok v'"
proof (induction rs arbitrary: v)
  case (Cons p rs)
  obtain uid r where p: "p = (uid, r)" by (cases p)
  have "scores_ok (update_scores cfg uid 0 v)" using Cons.prems(1) by (rule update_scores_ok) simp
  moreover have "scores_ok (update_scores cfg uid x v)" if "score r = Inr x" for x
    using Cons.prems(1) score_range [OF that] by (rule update_scores_ok)
  ultimately show ?case
    using Cons.IH Cons.prems(2) by (cases "score r") (auto simp: p split: option.splits if_splits)
qed simp

lemma loop_frame:
  "score_and_update cfg score rs v = Inr ((), v') \<Longrightarrow> uid \<notin> fst ` set rs \<Longrightarrow>
   map_of (v_scores v') uid = map_of (v_scores v) uid"
proof (induction rs arbitrary: v)
  case (Cons p rs)
  obtain u r where p: "p = (u, r)" by (cases p)
  show ?case
    using Cons by (cases "score r") (auto simp: p update_scores_frame split: option.splits if_splits)
qed simp

end

interpretation miner_scorer: scorer "score_miner_response industries syn ground_truth"
proof
  fix r x
  assume "score_miner_response industries syn ground_truth r = Inr x"
  then show "between 0 1 x"
    by (auto simp: score_miner_response_def Let_def bind_r_Inr_iff split: option.splits if_splits
        dest: sr_final_range)
next
  fix r e
  assume "score_miner_response industries syn ground_truth r = Inl e"
  then have "e = TypeError \<or> e = KeyError"
    by (auto simp: score_miner_response_def Let_def bind_r_Inl_iff split: option.splits if_splits
        dest: score_response_error)
  then show "caught e" by auto
qed

section \<open>Rounds\<close>

lemma next_query_scores [simp]: "v_scores (snd (next_query cs d s v)) = v_scores v"
  by (simp add: next_query_def Let_def)

lemma query_miners_scores: "query_miners cfg attempt jitter v = (r, slept, v') \<Longrightarrow> v_scores v' = v_scores v"
  by (auto simp: query_miners_def Let_def split: prod.splits option.splits if_splits)

lemma set_weights_scores [simp]: "v_scores (snd (set_weights submit v)) = v_scores v"
  by (auto simp: set_weights_def Let_def split: prod.splits option.splits)

text \<open>A round leaves the state alone, stops at the query, or scores the responses.\<close>

lemma round_cases:
  obtains (idle) "validator_round cfg industries cases env v = Inr ((), v)"
  | (failed) v2 where "validator_round cfg industries cases env v = Inr ((), v2)" "v_scores v2 = v_scores v"
  | (scored) syn gt rs v2 v3 v4 where "validator_round cfg industries cases env v = Inr ((), v4)"
      "score_and_update cfg (score_miner_response industries syn gt) rs v2 = Inr ((), v3)"
      "v_scores v2 = v_scores v" "v_scores v4 = v_scores v3"
proof -
  define uids where "uids = select_miners cfg (env_permit env) (env_active env) (env_n env) (env_sample env) v"
  obtain syn gt v1 where q: "next_query cases (env_draw env) (env_synthetic env) v = ((syn, gt), v1)"
    by (metis surj_pair)
  obtain responses slept v2 where m: "query_miners cfg (env_attempt env uids syn) (env_jitter env) v1 = (responses, slept, v2)"
    by (metis surj_pair)
  have v2: "v_scores v2 = v_scores v"
    using query_miners_scores [OF m] next_query_scores [of cases "env_draw env" "env_synthetic env" v] q by simp
  show thesis
  proof (cases "uids = []")
    case True
    then show ?thesis by (intro idle) (simp add: validator_round_def uids_def [symmetric] Let_def)
  next
    case False
    note round = validator_round_def [of cfg industries cases env v, unfolded uids_def [symmetric] Let_def q]
    show ?thesis
    proof (cases responses)
      case None
      then show ?thesis using False v2 m by (intro failed [of v2]) (simp_all add: round)
    next
      case (Some rs)
      obtain v3 where "score_and_update cfg (score_miner_response industries syn gt) (zip uids rs) v2 = Inr ((), v3)"
        using miner_scorer.loop_total by blast
      then show ?thesis
        using False v2 m Some
        by (intro scored [of "if should_set_weights (env_chain env) v3 then snd (set_weights (env_submit env) v3) else v3" syn gt "zip uids rs" v2 v3])
          (simp_all add: round)
    qed
  qed
qed

text \<open>No round of the main loop raises, and each keeps the scores in the unit interval.\<close>

lemma round_total: "\<exists>v'. validator_round cfg industries cases env v = Inr ((), v')"
  by (rule round_cases [of cfg industries cases env v]) auto

lemma round_scores_ok:
  assumes "scores_ok v" "validator_round cfg industries cases env v = Inr ((), v')"
  shows "scores_ok v'"
proof (rule round_cases [of cfg industries cases env v])
  fix syn gt rs v2 v3 v4
  assume r: "validator_round cfg industries cases env v = Inr ((), v4)"
    "score_and_update cfg (score_miner_response industries syn gt) rs v2 = Inr ((), v3)"
    "v_scores v2 = v_scores v" "v_scores v4 = v_scores v3"
  have "scores_ok v3"
    by (rule miner_scorer.loop_scores_ok [OF _ r(2)]) (use assms(1) r(3) in \<open>simp add: scores_ok_def\<close>)
  then show ?thesis using r assms(2) by (simp add: scores_ok_def)
qed (use assms in \<open>simp_all add: scores_ok_def\<close>)

section \<open>Weights\<close>

text \<open>The weights follow the scores: a higher score never gets a smaller weight, and none is negative.\<close>

lemma weights_length [simp]: "length (weights_of raw) = length raw"
  by (simp add: weights_of_def Let_def)

lemma py_sum_positive_fin: "0 < s \<Longrightarrow> s \<noteq> PosInf \<Longrightarrow> \<exists>t > 0. s = Fin t"
  by (cases s) (auto simp: flt_0_1)

lemma weights_order:
  assumes "i < length raw" "j < length raw" "raw ! i \<le> raw ! j" "is_fin (py_sum raw)"
  shows "weights_of raw ! i \<le> weights_of raw ! j"
proof (cases "0 < py_sum raw")
  case True
  then obtain t where "0 < t" "py_sum raw = Fin t" using assms(4) by (cases "py_sum raw") (auto simp: flt_0_1)
  then show ?thesis using assms by (simp add: weights_of_def Let_def flt_0_1 flt_divide_right_mono)
next
  case False
  have "1 \<le> (of_int (int (length raw)) :: rat)" using assms(1) by (cases raw) auto
  then have "1 \<le> rnd (of_int (int (length raw)))"
    using rnd_mono [of 1 "of_int (int (length raw))"] rnd_of_int [of 1] by (simp del: rnd_of_int)
  then have "1 / flt_of_int (int (length raw)) \<noteq> NaN"
    by (auto simp: flt_of_int_def flt_of_rat_def [of "of_int _"] flt_of_rat_def [of "of_nat _"] Let_def flt_0_1 divide_flt_def)
  then show ?thesis using assms False by (simp add: weights_of_def Let_def flt_le_refl)
qed

section \<open>Retries and the circuit breaker\<close>

text \<open>The delays slept are the first ones of the list; all of them exactly when every attempt failed.\<close>

lemma with_retries_slept:
  "with_retries attempt k ds = (r, slept) \<Longrightarrow> \<exists>rest. ds = slept @ rest"
  by (induction attempt k ds arbitrary: r slept rule: with_retries.induct)
    (auto split: option.splits prod.splits)

lemma with_retries_None:
  "fst (with_retries attempt k ds) = None \<longleftrightarrow> (\<forall>i < Suc (length ds). attempt (k + i) = None)"
proof (induction attempt k ds rule: with_retries.induct)
  case (2 attempt k d ds)
  then show ?case
    by (subst All_less_Suc2) (auto split: option.splits prod.splits)
qed simp

lemma with_retries_success:
  "with_retries attempt k ds = (Some r, slept) \<Longrightarrow>
   attempt (k + length slept) = Some r \<and> (\<forall>i < length slept. attempt (k + i) = None)"
proof (induction attempt k ds arbitrary: slept rule: with_retries.induct)
  case (2 attempt k d ds)
  show ?case
  proof (cases "attempt k")
    case None
    then obtain sl where "with_retries attempt (Suc k) ds = (Some r, sl)" "slept = d # sl"
      using "2.prems" by (auto split: prod.splits)
    then show ?thesis using "2.IH" [OF None] None by (auto simp: All_less_Suc2)
  qed (use "2.prems" in auto)
qed simp

lemma with_retries_exhausted:
  "with_retries attempt k ds = (None, slept) \<Longrightarrow> slept = ds"
  by (induction attempt k ds arbitrary: slept rule: with_retries.induct) (auto split: option.splits prod.splits)

text \<open>Consecutive failed queries: how many, from which state to which, and the last pause.\<close>

inductive failed_queries :: "validator_config \<Rightarrow> nat \<Rightarrow> validator \<Rightarrow> validator \<Rightarrow> rat \<Rightarrow> bool" for cfg where
  none: "failed_queries cfg 0 v v 0"
| more: "failed_queries cfg n v v1 pause \<Longrightarrow>
    query_miners cfg (attempt :: nat \<Rightarrow> response list option) jitter v1 = (None, slept @ [pause'], v2) \<Longrightarrow> failed_queries cfg (Suc n) v v2 pause'"

inductive_cases failed_queries_SucE: "failed_queries cfg (Suc n) v v' pause"

lemma query_failure:
  "query_miners cfg attempt jitter v = (None, slept @ [pause], v') \<Longrightarrow>
   v_consecutive_failures v' = v_consecutive_failures v + 1 \<and>
   (if circuit_breaker_max_failures cfg \<le> v_consecutive_failures v + 1
    then pause = min (v_backoff_seconds v) (circuit_breaker_max_backoff cfg) \<and>
         v_backoff_seconds v' = min (v_backoff_seconds v * 2) (circuit_breaker_max_backoff cfg)
    else pause = query_interval cfg \<and> v_backoff_seconds v' = v_backoff_seconds v)"
  by (auto simp: query_miners_def Let_def split: prod.splits option.splits if_splits)

lemma query_success_resets:
  "query_miners cfg attempt jitter v = (Some r, slept, v') \<Longrightarrow>
   v_consecutive_failures v' = 0 \<and> v_backoff_seconds v' = circuit_breaker_base_backoff cfg"
  by (auto simp: query_miners_def Let_def split: prod.splits option.splits if_splits)

text \<open>
  After a success, the pause after the \<open>n\<close>-th failure in a row is the polling interval until the
  breaker opens; then it doubles from the base and is capped.
\<close>

lemma breaker_backoff:
  assumes "failed_queries cfg n v v' pause" "circuit_breaker_max_failures cfg = int m" "0 < m"
    "0 \<le> circuit_breaker_base_backoff cfg" "circuit_breaker_base_backoff cfg \<le> circuit_breaker_max_backoff cfg"
    "v_consecutive_failures v = 0" "v_backoff_seconds v = circuit_breaker_base_backoff cfg"
  shows "v_consecutive_failures v' = int n \<and>
    v_backoff_seconds v' = min (circuit_breaker_base_backoff cfg * 2 ^ (Suc n - m)) (circuit_breaker_max_backoff cfg) \<and>
    (0 < n \<longrightarrow> pause = (if n < m then query_interval cfg
       else min (circuit_breaker_base_backoff cfg * 2 ^ (n - m)) (circuit_breaker_max_backoff cfg)))"
  using assms
proof (induction rule: failed_queries.induct)
  case (more n v v1 pause attempt jitter slept pause' v2)
  let ?b = "circuit_breaker_base_backoff cfg" and ?M = "circuit_breaker_max_backoff cfg"
  have v1: "v_consecutive_failures v1 = int n" "v_backoff_seconds v1 = min (?b * 2 ^ (Suc n - m)) ?M"
    using more.IH more.prems by auto
  note f = query_failure [OF more.hyps(2)]
  show ?case
  proof (cases "m \<le> Suc n")
    case True
    have "min (min (?b * 2 ^ (Suc n - m)) ?M * 2) ?M = min (?b * 2 ^ (Suc n - m) * 2) ?M"
      using more.prems by (auto simp: min_def)
    moreover have "Suc (Suc n) - m = Suc (Suc n - m)" using True by (rule Suc_diff_le)
    ultimately show ?thesis using f v1 more.prems True by (auto simp: mult_ac)
  next
    case False
    then show ?thesis using f v1 more.prems by (auto simp: min_def)
  qed
qed (auto simp: min_def)

section \<open>Selection\<close>

lemma select_miners_ok:
  assumes "\<And>xs k. set (sample xs k) \<subseteq> set xs \<and> distinct (sample xs k)"
  shows "distinct (select_miners cfg permit active n sample v)"
    "uid \<in> set (select_miners cfg permit active n sample v) \<Longrightarrow> uid < n \<and> \<not> permit ! uid \<and> active ! uid"
proof -
  define skipped where "skipped = filter (\<lambda>uid. skip_zero_after cfg \<le> dict_get (v_consecutive_zeros v) uid 0)
    (active_miners permit active n)"
  have d: "distinct (active_miners permit active n)" by (simp add: active_miners_def)
  have s: "set skipped \<subseteq> set (active_miners permit active n)" by (auto simp: skipped_def)
  note sel = select_miners_def [of cfg permit active n sample v, unfolded Let_def skipped_def [symmetric]]
  show "distinct (select_miners cfg permit active n sample v)"
    using d assms by (auto simp: sel)
  show "uid \<in> set (select_miners cfg permit active n sample v) \<Longrightarrow> uid < n \<and> \<not> permit ! uid \<and> active ! uid"
    using s assms by (auto simp: sel active_miners_def split: if_splits)
qed

end
