(* ===== verification/Rate_Limiter.thy ===== *)
theory Rate_Limiter
imports Prelude
begin

text \<open>
  The per-hotkey rate limiter of the miner (\<open>neurons/miner.py\<close>, \<open>CarbonMiner.blacklist\<close>): an ordered
  dictionary from hotkeys to the times of their accepted requests, bounded by evicting the least
  recently used hotkey. Clock readings are exact numbers of seconds.
\<close>

type_synonym request_times = "(string, rat list) dict"

record metagraph =
  hotkeys :: "string list"
  validator_permit :: "bool list"

record limiter_config =
  rate_limit_max :: nat
  rate_limit_window :: rat

definition max_tracked_hotkeys :: nat where
  "max_tracked_hotkeys = 1000"

text \<open>\<open>list(hotkeys).index(caller)\<close> and an index into a list.\<close>

fun index_of :: "'a \<Rightarrow> 'a list \<Rightarrow> nat option" where
  "index_of x [] = None"
| "index_of x (y # ys) = (if y = x then Some 0 else map_option Suc (index_of x ys))"

definition list_item :: "'a list \<Rightarrow> nat \<Rightarrow> 'a res" where
  "list_item xs n = (if n < length xs then Inr (xs ! n) else Inl IndexError)"

text \<open>\<open>while len(d) >= m: d.popitem(last=False)\<close>\<close>

fun evict :: "nat \<Rightarrow> 'a list \<Rightarrow> 'a list" where
  "evict m [] = []"
| "evict m (r # rs) = (if m \<le> length (r # rs) then evict m rs else r # rs)"

text \<open>The caller's queue is at the most recently used end afterwards.\<close>

definition touch :: "string \<Rightarrow> request_times \<Rightarrow> request_times" where
  "touch caller st =
     (case map_of st caller of
        None \<Rightarrow> evict max_tracked_hotkeys st @ [(caller, [])]
      | Some ts \<Rightarrow> dict_del caller st @ [(caller, ts)])"

definition rate_limit :: "limiter_config \<Rightarrow> string \<Rightarrow> rat \<Rightarrow> request_times \<Rightarrow> bool \<times> request_times" where
  "rate_limit cfg caller now st =
     (let st1 = touch caller st;
          ts = dropWhile (\<lambda>t. t < now - rate_limit_window cfg) (dict_get st1 caller [])
      in if rate_limit_max cfg \<le> length ts
         then (True, dict_set caller ts st1)
         else (False, dict_set caller (ts @ [now]) st1))"

definition blacklist ::
    "limiter_config \<Rightarrow> metagraph \<Rightarrow> string \<Rightarrow> rat \<Rightarrow> (request_times, bool \<times> string) sres" where
  "blacklist cfg mg caller now st =
     (case index_of caller (hotkeys mg) of
        None \<Rightarrow> Inr ((True, ''Unregistered hotkey''), st)
      | Some uid \<Rightarrow>
          bind_r (list_item (validator_permit mg) uid) (\<lambda>permit.
          if \<not> permit then Inr ((True, ''Caller is not a validator''), st)
          else case rate_limit cfg caller now st of
            (True, st') \<Rightarrow> Inr ((True, ''Rate limited''), st')
          | (False, st') \<Rightarrow> Inr ((False, ''''), st')))"

section \<open>Bounded memory\<close>

lemma evict_length: "0 < m \<Longrightarrow> length (evict m xs) < m"
  by (induction m xs rule: evict.induct) auto

lemma evict_subset: "set (evict m xs) \<subseteq> set xs"
  by (induction m xs rule: evict.induct) auto

lemma evict_distinct: "distinct (map f xs) \<Longrightarrow> distinct (map f (evict m xs))"
  by (induction m xs rule: evict.induct) auto

lemma evict_small [simp]: "length xs < m \<Longrightarrow> evict m xs = xs"
  by (cases xs) auto

definition limiter_ok :: "limiter_config \<Rightarrow> request_times \<Rightarrow> bool" where
  "limiter_ok cfg st \<longleftrightarrow> dict_ok st \<and> length st \<le> max_tracked_hotkeys \<and>
     list_all (\<lambda>ts. length ts \<le> rate_limit_max cfg) (dict_values st)"

lemma touch_get: "dict_get (touch caller st) caller [] = dict_get st caller []"
  and touch_found: "map_of (touch caller st) caller \<noteq> None"
  using evict_subset [of max_tracked_hotkeys st]
  by (auto simp: touch_def dict_get_def map_of_append map_add_def map_of_dict_del split: option.splits
      dest: map_of_SomeD)
    (metis map_of_SomeD map_of_eq_None_iff fst_conv image_eqI subsetD)+

lemma touch_ok:
  assumes "limiter_ok cfg st" shows "limiter_ok cfg (touch caller st)"
proof (cases "map_of st caller")
  case None
  have "caller \<notin> set (dict_keys (evict max_tracked_hotkeys st))"
    using evict_subset [of max_tracked_hotkeys st] None by (auto simp: map_of_eq_None_iff)
  moreover have "length (evict max_tracked_hotkeys st) < max_tracked_hotkeys"
    by (rule evict_length) (simp add: max_tracked_hotkeys_def)
  ultimately show ?thesis
    using assms None evict_subset [of max_tracked_hotkeys st]
    by (auto simp: limiter_ok_def touch_def list_all_iff intro: evict_distinct)
next
  case (Some ts)
  have "length ts \<le> rate_limit_max cfg" using assms Some by (auto simp: limiter_ok_def dest: dict_values_all_get)
  moreover have "length (dict_del caller st) < length st" by (rule dict_del_length) (simp add: Some)
  ultimately show ?thesis
    using assms Some by (simp add: limiter_ok_def touch_def dict_values_del_all)
qed

lemma rate_limit_ok:
  assumes "limiter_ok cfg st" "rate_limit cfg caller now st = (rejected, st')"
  shows "limiter_ok cfg st'"
proof -
  obtain ts where t: "map_of (touch caller st) caller = Some ts" using touch_found by fastforce
  let ?kept = "dropWhile (\<lambda>t. t < now - rate_limit_window cfg) ts"
  have ok: "limiter_ok cfg (touch caller st)" by (rule touch_ok [OF assms(1)])
  then have "length ts \<le> rate_limit_max cfg" using t by (auto simp: limiter_ok_def dest: dict_values_all_get)
  then have kept: "length ?kept \<le> rate_limit_max cfg" using length_dropWhile_le order_trans by blast
  have "limiter_ok cfg (dict_set caller ys (touch caller st))" if "length ys \<le> rate_limit_max cfg" for ys
    using ok that t dict_set_length [of "touch caller st" caller ys]
    by (simp add: limiter_ok_def dict_values_set_all)
  then show ?thesis
    using assms(2) kept t by (auto simp: rate_limit_def Let_def dict_get_def split: if_splits)
qed

lemma blacklist_ok:
  "limiter_ok cfg st \<Longrightarrow> blacklist cfg mg caller now st = Inr (r, st') \<Longrightarrow> limiter_ok cfg st'"
  by (auto simp: blacklist_def bind_r_Inr_iff split: option.splits if_splits prod.splits bool.splits
    dest: rate_limit_ok)

section \<open>The sliding window\<close>

text \<open>
  A run of the limiter: the log of accepted requests with their times, the last clock reading and
  the state. The clock does not go back.
\<close>

inductive limiter_run :: "limiter_config \<Rightarrow> metagraph \<Rightarrow> (string \<times> rat) list \<Rightarrow> rat \<Rightarrow> request_times \<Rightarrow> bool"
  for cfg mg where
  start: "limiter_run cfg mg [] t []"
| accepted: "limiter_run cfg mg hist prev st \<Longrightarrow> prev \<le> now \<Longrightarrow>
    blacklist cfg mg caller now st = Inr ((False, msg), st') \<Longrightarrow> limiter_run cfg mg (hist @ [(caller, now)]) now st'"
| rejected: "limiter_run cfg mg hist prev st \<Longrightarrow> prev \<le> now \<Longrightarrow>
    blacklist cfg mg caller now st = Inr ((True, msg), st') \<Longrightarrow> limiter_run cfg mg hist now st'"

definition accepted_by :: "string \<Rightarrow> (string \<times> rat) list \<Rightarrow> rat list" where
  "accepted_by c hist = map snd (filter (\<lambda>p. fst p = c) hist)"

definition in_window :: "rat \<Rightarrow> rat \<Rightarrow> rat list \<Rightarrow> nat" where
  "in_window w s ts = length (filter (\<lambda>x. s - w \<le> x \<and> x \<le> s) ts)"

lemma accepted_by_snoc [simp]:
  "accepted_by c (hist @ [(c', now)]) = accepted_by c hist @ (if c' = c then [now] else [])"
  by (simp add: accepted_by_def)

lemma index_of_Some: "index_of x xs = Some n \<Longrightarrow> x \<in> set xs"
  by (induction xs arbitrary: n) (auto split: if_splits)

lemma blacklist_cases:
  assumes "blacklist cfg mg caller now st = Inr ((b, msg), st')"
  obtains (limited) "caller \<in> set (hotkeys mg)" "rate_limit cfg caller now st = (b, st')"
    | (refused) "b" "st' = st"
  using assms
  by (auto simp: blacklist_def bind_r_Inr_iff split: option.splits if_splits prod.splits bool.splits dest: index_of_Some)

lemma reached_ok: "limiter_run cfg mg hist prev st \<Longrightarrow> limiter_ok cfg st"
  by (induction rule: limiter_run.induct) (auto simp: limiter_ok_def [of _ "[]"] dest: blacklist_ok)

lemma touch_keys: "fst ` set (touch caller st) \<subseteq> insert caller (fst ` set st)"
  using evict_subset [of max_tracked_hotkeys st]
  by (auto simp: touch_def image_Un split: option.splits)

lemma rate_limit_keys:
  "rate_limit cfg caller now st = (b, st') \<Longrightarrow> fst ` set st' \<subseteq> insert caller (fst ` set st)"
proof -
  assume "rate_limit cfg caller now st = (b, st')"
  then obtain ts where "st' = dict_set caller ts (touch caller st)"
    by (auto simp: rate_limit_def Let_def split: if_splits)
  then have "fst ` set st' = insert caller (fst ` set (touch caller st))" by simp
  then show "fst ` set st' \<subseteq> insert caller (fst ` set st)" using touch_keys by blast
qed

lemma blacklist_keys:
  assumes "blacklist cfg mg caller now st = Inr ((b, msg), st')" "fst ` set st \<subseteq> set (hotkeys mg)"
  shows "fst ` set st' \<subseteq> set (hotkeys mg)"
  using assms(1)
proof (rule blacklist_cases)
  assume "caller \<in> set (hotkeys mg)" "rate_limit cfg caller now st = (b, st')"
  then show ?thesis using rate_limit_keys assms(2) by blast
qed (use assms in simp)

lemma touch_no_eviction:
  assumes "dict_ok st" "fst ` set st \<subseteq> set hs" "caller \<in> set hs" "length hs \<le> max_tracked_hotkeys"
  shows "dict_get (touch caller st) c [] = dict_get st c []"
proof (cases "map_of st caller")
  case None
  then have "fst ` set st \<subset> set hs" using assms(2,3) by (auto simp: map_of_eq_None_iff)
  then have "card (fst ` set st) < card (set hs)" by (intro psubset_card_mono) auto
  then have "length st < max_tracked_hotkeys"
    using assms(1,4) card_length [of hs] distinct_card [of "map fst st"] by simp
  then show ?thesis using None by (auto simp: touch_def dict_get_def map_of_append map_add_def split: option.splits)
qed (auto simp: touch_def dict_get_def map_of_append map_add_def map_of_dict_del split: option.splits)

lemma accepted_unregistered:
  "limiter_run cfg mg hist prev st \<Longrightarrow> c \<notin> set (hotkeys mg) \<Longrightarrow> accepted_by c hist = []"
proof (induction rule: limiter_run.induct)
  case (accepted hist prev st now caller msg st')
  then show ?case by (auto elim!: blacklist_cases)
qed (simp_all add: accepted_by_def)

lemma reached_keys: "limiter_run cfg mg hist prev st \<Longrightarrow> fst ` set st \<subseteq> set (hotkeys mg)"
  by (induction rule: limiter_run.induct) (simp_all add: blacklist_keys)

text \<open>
  The queue of a hotkey holds its recent acceptances: what is missing is older than the window.
\<close>

definition tracks :: "limiter_config \<Rightarrow> (string \<times> rat) list \<Rightarrow> rat \<Rightarrow> request_times \<Rightarrow> bool" where
  "tracks cfg hist prev st \<longleftrightarrow>
     (\<forall>c. \<exists>old. accepted_by c hist = old @ dict_get st c [] \<and> list_all (\<lambda>x. x < prev - rate_limit_window cfg) old)"

lemma tracks_step:
  assumes "tracks cfg hist prev st" "prev \<le> now" "rate_limit cfg caller now st = (b, st')"
    "\<And>c. dict_get (touch caller st) c [] = dict_get st c []"
  shows "tracks cfg (if b then hist else hist @ [(caller, now)]) now st'"
  unfolding tracks_def
proof
  fix c
  define kept where "kept = dropWhile (\<lambda>t. t < now - rate_limit_window cfg) (dict_get st caller [])"
  obtain old where old: "accepted_by c hist = old @ dict_get st c []" "list_all (\<lambda>x. x < prev - rate_limit_window cfg) old"
    using assms(1) by (auto simp: tracks_def)
  have old': "list_all (\<lambda>x. x < now - rate_limit_window cfg) old"
    using old(2) assms(2) by (auto simp: list_all_iff)
  have st': "dict_get st' c [] = (if c = caller then if b then kept else kept @ [now] else dict_get st c [])"
    using assms(3,4) by (auto simp: rate_limit_def Let_def kept_def split: if_splits)
  let ?gone = "takeWhile (\<lambda>t. t < now - rate_limit_window cfg) (dict_get st caller [])"
  have gone: "list_all (\<lambda>x. x < now - rate_limit_window cfg) ?gone" "dict_get st caller [] = ?gone @ kept"
    by (auto simp: list_all_iff kept_def dest: set_takeWhileD)
  show "\<exists>old. accepted_by c (if b then hist else hist @ [(caller, now)]) = old @ dict_get st' c [] \<and>
      list_all (\<lambda>x. x < now - rate_limit_window cfg) old"
  proof (cases "c = caller")
    case True
    then show ?thesis using old(1) old' gone st' by (intro exI [of _ "old @ ?gone"]) auto
  next
    case False
    then show ?thesis using old(1) old' st' by (intro exI [of _ old]) auto
  qed
qed

lemma reached_tracks:
  "limiter_run cfg mg hist prev st \<Longrightarrow> length (hotkeys mg) \<le> max_tracked_hotkeys \<Longrightarrow> tracks cfg hist prev st"
proof (induction rule: limiter_run.induct)
  case (start t)
  then show ?case by (simp add: tracks_def accepted_by_def dict_get_def)
next
  case (accepted hist prev st now caller msg st')
  from accepted(3) show ?case
  proof (rule blacklist_cases)
    assume c: "caller \<in> set (hotkeys mg)" "rate_limit cfg caller now st = (False, st')"
    have "dict_ok st" using reached_ok [OF accepted(1)] by (simp add: limiter_ok_def)
    then show ?thesis
      using tracks_step [OF accepted.IH [OF accepted.prems] accepted(2) c(2)]
        touch_no_eviction [of st "hotkeys mg" caller] reached_keys [OF accepted(1)] c accepted.prems by simp
  qed simp
next
  case (rejected hist prev st now caller msg st')
  have "tracks cfg hist now st"
    using rejected.IH [OF rejected.prems] rejected(2) by (force simp: tracks_def list_all_iff)
  from rejected(3) show ?case
  proof (rule blacklist_cases)
    assume c: "caller \<in> set (hotkeys mg)" "rate_limit cfg caller now st = (True, st')"
    have "dict_ok st" using reached_ok [OF rejected(1)] by (simp add: limiter_ok_def)
    then show ?thesis
      using tracks_step [OF rejected.IH [OF rejected.prems] rejected(2) c(2)]
        touch_no_eviction [of st "hotkeys mg" caller] reached_keys [OF rejected(1)] c rejected.prems by simp
  qed (use \<open>tracks cfg hist now st\<close> in simp)
qed

lemma in_window_old: "list_all (\<lambda>x. x < now - w) old \<Longrightarrow> now \<le> s \<Longrightarrow> in_window w s (old @ ts) = in_window w s ts"
  by (auto simp: in_window_def list_all_iff filter_empty_conv)

lemma in_window_length: "in_window w s ts \<le> length ts"
  by (simp add: in_window_def)

lemma window_bound:
  "limiter_run cfg mg hist prev st \<Longrightarrow> length (hotkeys mg) \<le> max_tracked_hotkeys \<Longrightarrow>
   in_window (rate_limit_window cfg) s (accepted_by c hist) \<le> rate_limit_max cfg"
proof (induction rule: limiter_run.induct)
  case (start t)
  then show ?case by (simp add: in_window_def accepted_by_def)
next
  case (accepted hist prev st now caller msg st')
  note run = limiter_run.accepted [OF accepted(1-3)]
  show ?case
  proof (cases "c = caller \<and> now \<le> s")
    case True
    have "tracks cfg (hist @ [(caller, now)]) now st'" by (rule reached_tracks [OF run accepted.prems])
    then obtain old where old: "accepted_by c (hist @ [(caller, now)]) = old @ dict_get st' c []"
      "list_all (\<lambda>x. x < now - rate_limit_window cfg) old"
      by (auto simp: tracks_def)
    have "length (dict_get st' c []) \<le> rate_limit_max cfg"
      using reached_ok [OF run] by (auto simp: limiter_ok_def dict_get_def dest: dict_values_all_get split: option.splits)
    then show ?thesis
      using True in_window_old [OF old(2), of s "dict_get st' c []"] in_window_length [of _ s "dict_get st' c []"]
      unfolding old(1) by (metis order_trans)
  next
    case False
    then have "in_window (rate_limit_window cfg) s (accepted_by c (hist @ [(caller, now)])) =
        in_window (rate_limit_window cfg) s (accepted_by c hist)"
      by (auto simp: in_window_def)
    then show ?thesis using accepted by simp
  qed
qed

end
