(* ===== verification/Loader.thy ===== *)
theory Loader
imports Prelude
begin

text \<open>
  The dataset cache of \<open>carbonscope/emission_factors/loader.py\<close>. The module variable \<open>_cache\<close> maps
  a dataset to its parsed content, the SHA-256 of the file and the time of loading. The file
  system, the digest and the JSON parser are parameters: \<open>disk\<close> gives the bytes of a file at the
  time of the call, \<open>sha\<close> the digest, \<open>parse_json\<close> the parsed content. Times are the readings of
  \<open>time.monotonic()\<close>, as exact numbers.
\<close>

definition dataset_files :: "(string, string) dict" where
  "dataset_files =
    [(''epa_stationary'', ''epa_stationary_combustion.json''),
     (''epa_mobile'', ''epa_mobile_combustion.json''),
     (''egrid'', ''egrid_subregions.json''),
     (''iea'', ''iea_grid_factors.json''),
     (''defra'', ''defra_factors.json''),
     (''transport'', ''transport_factors.json''),
     (''industry'', ''industry_averages.json''),
     (''gwp'', ''gwp_ar6.json'')]"

record 'd cache_entry =
  ce_data :: 'd
  ce_sha :: string
  ce_loaded_at :: rat

type_synonym 'd factor_cache = "(string, 'd cache_entry) dict"

definition cache_ttl_seconds :: rat where
  "cache_ttl_seconds = 3600"

text \<open>One read of a file: its parsed content and its digest.\<close>

definition read_dataset ::
    "('b \<Rightarrow> 'd) \<Rightarrow> ('b \<Rightarrow> string) \<Rightarrow> 'b \<Rightarrow> rat \<Rightarrow> 'd cache_entry" where
  "read_dataset parse_json sha bytes now =
     \<lparr>ce_data = parse_json bytes, ce_sha = sha bytes, ce_loaded_at = now\<rparr>"

definition load_factors ::
    "('b \<Rightarrow> 'd) \<Rightarrow> ('b \<Rightarrow> string) \<Rightarrow> (string \<Rightarrow> 'b) \<Rightarrow> string \<Rightarrow> rat \<Rightarrow>
     ('d factor_cache, 'd) sres" where
  "load_factors parse_json sha disk dataset now cache =
     (case map_of dataset_files dataset of
        None \<Rightarrow> Inl (ValueError ''Unknown dataset'')
      | Some path \<Rightarrow>
          (let fresh = read_dataset parse_json sha (disk path) now;
               reload = Inr (ce_data fresh, dict_set dataset fresh cache)
           in case map_of cache dataset of
                None \<Rightarrow> reload
              | Some entry \<Rightarrow>
                  if now - ce_loaded_at entry < cache_ttl_seconds
                  then Inr (ce_data entry, cache)
                  else if sha (disk path) = ce_sha entry
                  then Inr (ce_data entry, dict_set dataset (entry\<lparr>ce_loaded_at := now\<rparr>) cache)
                  else reload))"

definition get_dataset_version ::
    "('b \<Rightarrow> string) \<Rightarrow> (string \<Rightarrow> 'b) \<Rightarrow> 'd factor_cache \<Rightarrow> string \<Rightarrow> string res" where
  "get_dataset_version sha disk cache dataset =
     (case map_of dataset_files dataset of
        None \<Rightarrow> Inl (ValueError ''Unknown dataset'')
      | Some path \<Rightarrow>
          (case map_of cache dataset of
             Some entry \<Rightarrow> Inr (ce_sha entry)
           | None \<Rightarrow> Inr (sha (disk path))))"

definition invalidate_cache :: "string option \<Rightarrow> 'd factor_cache \<Rightarrow> 'd factor_cache" where
  "invalidate_cache dataset cache =
     (case dataset of None \<Rightarrow> [] | Some d \<Rightarrow> dict_del d cache)"

section \<open>Freshness\<close>

text \<open>
  \<open>hist t path\<close> are the bytes of a file at time \<open>t\<close>. An entry is faithful up to a time when it is
  the reading of the file at its loading time, which is no later.
\<close>

definition entry_faithful ::
    "('b \<Rightarrow> 'd) \<Rightarrow> ('b \<Rightarrow> string) \<Rightarrow> (rat \<Rightarrow> string \<Rightarrow> 'b) \<Rightarrow> rat \<Rightarrow> string \<Rightarrow> 'd cache_entry \<Rightarrow> bool" where
  "entry_faithful parse_json sha hist now dataset entry \<longleftrightarrow>
     (case map_of dataset_files dataset of
        None \<Rightarrow> False
      | Some path \<Rightarrow> ce_loaded_at entry \<le> now \<and>
          entry = read_dataset parse_json sha (hist (ce_loaded_at entry) path) (ce_loaded_at entry))"

definition cache_faithful ::
    "('b \<Rightarrow> 'd) \<Rightarrow> ('b \<Rightarrow> string) \<Rightarrow> (rat \<Rightarrow> string \<Rightarrow> 'b) \<Rightarrow> rat \<Rightarrow> 'd factor_cache \<Rightarrow> bool" where
  "cache_faithful parse_json sha hist now cache \<longleftrightarrow>
     list_all (\<lambda>(dataset, entry). entry_faithful parse_json sha hist now dataset entry) cache"

lemma cache_faithful_get:
  "cache_faithful p s h now cache \<Longrightarrow> map_of cache d = Some e \<Longrightarrow> entry_faithful p s h now d e"
  by (auto simp: cache_faithful_def list_all_iff dest: map_of_SomeD)

lemma cache_faithful_set:
  "cache_faithful p s h now cache \<Longrightarrow> entry_faithful p s h now d e \<Longrightarrow> cache_faithful p s h now (dict_set d e cache)"
  by (induction d e cache rule: dict_set.induct) (auto simp: cache_faithful_def)

lemma cache_faithful_later:
  "cache_faithful p s h now cache \<Longrightarrow> now \<le> later \<Longrightarrow> cache_faithful p s h later cache"
  by (force simp: cache_faithful_def list_all_iff entry_faithful_def split: option.splits)

lemma cache_faithful_invalidate:
  "cache_faithful p s h now cache \<Longrightarrow> cache_faithful p s h now (invalidate_cache d cache)"
  by (cases d) (auto simp: invalidate_cache_def cache_faithful_def list_all_iff dict_del_def)

text \<open>
  With a collision-free digest every call serves a content the file had within the last hour, and
  the cache stays faithful.
\<close>

lemma load_factors_fresh:
  assumes "inj sha" "cache_faithful parse_json sha hist now cache"
    "load_factors parse_json sha (hist now) dataset now cache = Inr (data, cache')"
  shows "cache_faithful parse_json sha hist now cache'"
    "\<exists>path t. map_of dataset_files dataset = Some path \<and> t \<le> now \<and> now - t < cache_ttl_seconds \<and>
       data = parse_json (hist t path)"
proof -
  obtain path where path: "map_of dataset_files dataset = Some path"
    using assms(3) by (cases "map_of dataset_files dataset") (simp_all add: load_factors_def)
  define fresh where "fresh = read_dataset parse_json sha (hist now path) now"
  have fresh: "entry_faithful parse_json sha hist now dataset fresh" "ce_data fresh = parse_json (hist now path)"
    by (simp_all add: entry_faithful_def path fresh_def read_dataset_def)
  have ttl: "0 < cache_ttl_seconds" by (simp add: cache_ttl_seconds_def)
  consider (reload) "data = ce_data fresh" "cache' = dict_set dataset fresh cache"
    | (hit) entry where "map_of cache dataset = Some entry" "now - ce_loaded_at entry < cache_ttl_seconds"
        "data = ce_data entry" "cache' = cache"
    | (refresh) entry where "map_of cache dataset = Some entry" "sha (hist now path) = ce_sha entry"
        "data = ce_data entry" "cache' = dict_set dataset (entry\<lparr>ce_loaded_at := now\<rparr>) cache"
    using assms(3) by (auto simp: load_factors_def path fresh_def [symmetric] Let_def split: option.splits if_splits)
  then have "cache_faithful parse_json sha hist now cache' \<and>
    (\<exists>t. t \<le> now \<and> now - t < cache_ttl_seconds \<and> data = parse_json (hist t path))"
  proof cases
    case reload
    then show ?thesis using fresh assms(2) ttl by (auto intro: cache_faithful_set exI [of _ now])
  next
    case hit
    note e = cache_faithful_get [OF assms(2) hit(1)]
    then have "ce_data entry = parse_json (hist (ce_loaded_at entry) path)"
      by (cases entry) (simp add: entry_faithful_def path read_dataset_def)
    then show ?thesis using hit e assms(2) by (auto simp: entry_faithful_def path)
  next
    case refresh
    note e = cache_faithful_get [OF assms(2) refresh(1)]
    then have "ce_sha entry = sha (hist (ce_loaded_at entry) path)"
      "ce_data entry = parse_json (hist (ce_loaded_at entry) path)"
      by (cases entry; simp add: entry_faithful_def path read_dataset_def)+
    then have same: "hist (ce_loaded_at entry) path = hist now path"
      using refresh(2) assms(1) by (simp add: inj_eq)
    then have "entry\<lparr>ce_loaded_at := now\<rparr> = fresh"
      using e by (cases entry) (simp add: entry_faithful_def path read_dataset_def fresh_def)
    then show ?thesis
      using refresh fresh assms(2) ttl by (auto intro: cache_faithful_set exI [of _ now]
        simp: same \<open>ce_data entry = _\<close>)
  qed
  then show "cache_faithful parse_json sha hist now cache'"
    "\<exists>path t. map_of dataset_files dataset = Some path \<and> t \<le> now \<and> now - t < cache_ttl_seconds \<and>
       data = parse_json (hist t path)"
    using path by auto
qed

text \<open>The version reported after a load is the digest of the content served.\<close>

lemma version_of_loaded:
  assumes "inj sha" "cache_faithful parse_json sha hist now cache"
    "load_factors parse_json sha (hist now) dataset now cache = Inr (data, cache')"
    "get_dataset_version sha disk cache' dataset = Inr v"
  shows "\<exists>bytes. v = sha bytes \<and> data = parse_json bytes"
proof -
  note f = load_factors_fresh [OF assms(1-3)]
  obtain path where path: "map_of dataset_files dataset = Some path" using f(2) by blast
  have "\<exists>e. map_of cache' dataset = Some e \<and> data = ce_data e"
    using assms(3) by (auto simp: load_factors_def path Let_def split: option.splits if_splits)
  then obtain e where e: "map_of cache' dataset = Some e" "data = ce_data e" by blast
  then have "entry_faithful parse_json sha hist now dataset e" by (rule_tac cache_faithful_get [OF f(1)])
  then show ?thesis
    using e assms(4) by (cases e) (auto simp: entry_faithful_def path read_dataset_def get_dataset_version_def)
qed

end
