(* ===== verification/Score_Store.thy ===== *)
theory Score_Store
imports Py_String Py_Float
begin

text \<open>
  The persisted scores of the validator (\<open>neurons/validator.py\<close>: \<open>_score_hmac_key\<close>, \<open>_save_scores\<close>,
  \<open>_load_scores\<close>). The JSON encoder and decoder and the keyed digest are parameters; the disk holds
  the score file and its signature file.
\<close>

record score_disk =
  score_file :: "string option"
  sig_file :: "string option"

text \<open>\<open>key\<close> and \<open>network\<close> are the values of the two environment variables.\<close>

definition score_hmac_key :: "string \<Rightarrow> string \<Rightarrow> string res" where
  "score_hmac_key key network =
     (if key = [] then if network = ''test'' then Inr [] else Inl SystemExit else Inr key)"

text \<open>The score file is written before the key is read, so it stays when the key is missing.\<close>

definition save_scores ::
    "('s \<Rightarrow> string) \<Rightarrow> (string \<Rightarrow> string \<Rightarrow> string) \<Rightarrow> string res \<Rightarrow> 's \<Rightarrow> score_disk \<Rightarrow> unit res \<times> score_disk" where
  "save_scores dumps hmac hmac_key scores disk =
     (let raw_data = dumps scores;
          disk = disk\<lparr>score_file := Some raw_data\<rparr>
      in case hmac_key of
           Inl e \<Rightarrow> (Inl e, disk)
         | Inr key \<Rightarrow>
             (Inr (), if key \<noteq> [] then disk\<lparr>sig_file := Some (hmac key raw_data)\<rparr> else disk))"

text \<open>
  \<open>loads\<close> is the JSON decoder, \<open>scores_of\<close> the comprehension that reads keys and values as numbers;
  its \<open>ValueError\<close> is caught, other exceptions are not.
\<close>

definition load_scores ::
    "(string \<Rightarrow> 'j option) \<Rightarrow> ('j \<Rightarrow> 's res) \<Rightarrow> (string \<Rightarrow> string \<Rightarrow> string) \<Rightarrow> 's \<Rightarrow> string res \<Rightarrow> score_disk \<Rightarrow> 's res" where
  "load_scores loads scores_of hmac empty_scores hmac_key disk =
     (let read = (\<lambda>data. case scores_of data of Inl (ValueError _) \<Rightarrow> Inr empty_scores | r \<Rightarrow> r)
      in case score_file disk of
        None \<Rightarrow> Inr empty_scores
      | Some raw_data \<Rightarrow>
          (case loads raw_data of
             None \<Rightarrow> Inr empty_scores
           | Some data \<Rightarrow>
               (case sig_file disk of
                  None \<Rightarrow> read data
                | Some stored_sig \<Rightarrow>
                    bind_r hmac_key (\<lambda>key.
                    if key \<noteq> [] \<and> py_strip stored_sig \<noteq> hmac key raw_data
                    then Inr empty_scores else read data))))"

text \<open>What is saved is what is loaded, and an altered file under the same signature is rejected.\<close>

lemma save_load:
  assumes "\<And>s. \<exists>j. loads (dumps s) = Some j \<and> scores_of j = Inr s" "\<And>k m. py_strip (hmac k m) = hmac k m" "key \<noteq> []"
    "save_scores dumps hmac (Inr key) scores disk = (r, disk')"
  shows "r = Inr () \<and> load_scores loads scores_of hmac empty_scores (Inr key) disk' = Inr scores"
proof -
  obtain j where "loads (dumps scores) = Some j" "scores_of j = Inr scores" using assms(1) by blast
  then show ?thesis using assms(2-4) by (auto simp: save_scores_def load_scores_def Let_def)
qed

lemma altered_rejected:
  assumes "\<And>k m. py_strip (hmac k m) = hmac k m" "key \<noteq> []"
    "save_scores dumps hmac (Inr key) scores disk = (r, disk')" "hmac key raw \<noteq> hmac key (dumps scores)"
  shows "load_scores loads scores_of hmac empty_scores (Inr key) (disk'\<lparr>score_file := Some raw\<rparr>) = Inr empty_scores"
  using assms by (auto simp: save_scores_def load_scores_def Let_def split: option.splits)

text \<open>Without the signature file nothing is verified: any parseable content is taken.\<close>

lemma unsigned_accepted:
  "sig_file disk = None \<Longrightarrow> score_file disk = Some raw \<Longrightarrow> loads raw = Some data \<Longrightarrow> scores_of data = Inr scores \<Longrightarrow>
   load_scores loads scores_of hmac empty_scores hmac_key disk = Inr scores"
  by (simp add: load_scores_def)

end
