(* ===== verification/Models.thy ===== *)
theory Models
imports Protocol
begin

text \<open>
  \<open>api/models.py\<close>: the tables as records and the database as the list of rows of each table in
  order of insertion, with the clock and the supply of fresh identifiers. Each reading of the clock
  advances it, so rows written one after the other have different \<open>created_at\<close>. Identifiers (random
  hex strings in the source) are fresh numbers; the bookkeeping column \<open>updated_at\<close>, which no modelled
  code reads, is left out. A service is a state transformer on the database; when it raises, the
  transaction is rolled back.
\<close>

type_synonym ident = nat

type_synonym timestamp = int

section \<open>Enumerations\<close>

datatype user_role = Admin | Member

datatype supply_chain_status = Link_Pending | Link_Verified | Link_Rejected

datatype questionnaire_status = Q_Uploaded | Q_Extracting | Q_Extracted | Q_Reviewed | Q_Exported

datatype question_status = Question_Draft | Question_Reviewed | Question_Approved

datatype scenario_status = Scenario_Draft | Scenario_Computed

datatype subscription_plan = Free | Pro | Enterprise

datatype subscription_status = Sub_Active | Sub_Cancelled | Sub_Past_Due

datatype alert_type = Emission_Increase | Confidence_Drop | Target_Exceeded

datatype alert_severity = Severity_Info | Severity_Warning | Severity_Critical

datatype data_listing_type = Listing_Emission_Report | Listing_Benchmark | Listing_Supply_Chain

datatype data_listing_status = Listing_Active | Listing_Sold | Listing_Withdrawn

datatype credit_reason =
    Subscription_Grant | Plan_Upgrade | Estimate_Usage | Export_Usage | Pdf_Export_Usage
  | Questionnaire_Extract_Usage | Scenario_Compute_Usage | Marketplace_Purchase_Usage | Manual
  | Manual_Grant | Monthly_Reset | Marketplace_Sale | Plan_Downgrade_Adjustment

datatype pcaf_asset_class =
    Listed_Equity | Corporate_Bonds | Business_Loans | Project_Finance | Commercial_Real_Estate
  | Mortgages | Sovereign_Debt

datatype review_status = Draft | Submitted | In_Review | Approved | Rejected

section \<open>Tables\<close>

record company =
  co_id :: ident
  co_name :: string
  co_industry :: string
  co_region :: string
  co_employee_count :: "int option"
  co_revenue_usd :: "flt option"
  co_created_at :: timestamp
  co_deleted_at :: "timestamp option"

record user =
  us_id :: ident
  us_email :: string
  us_hashed_password :: string
  us_full_name :: string
  us_company_id :: ident
  us_role :: user_role
  us_is_active :: bool
  us_deleted_at :: "timestamp option"
  us_last_login :: "timestamp option"
  us_failed_login_attempts :: int
  us_locked_until :: "timestamp option"
  us_created_at :: timestamp

record data_upload =
  du_id :: ident
  du_company_id :: ident
  du_year :: int
  du_provided_data :: "pydict option"
  du_notes :: "string option"
  du_created_at :: timestamp
  du_deleted_at :: "timestamp option"

record emission_report =
  er_id :: ident
  er_company_id :: ident
  er_data_upload_id :: "ident option"
  er_year :: int
  er_scope1 :: flt
  er_scope2 :: flt
  er_scope3 :: flt
  er_total :: flt
  er_breakdown :: "pydict option"
  er_confidence :: flt
  er_sources :: "remark list option"
  er_assumptions :: "remark list option"
  er_methodology_version :: string
  er_miner_scores :: "pydict option"
  er_notes :: "string option"
  er_created_at :: timestamp
  er_deleted_at :: "timestamp option"

record supply_chain_link =
  scl_id :: ident
  scl_buyer_company_id :: ident
  scl_supplier_company_id :: ident
  scl_spend_usd :: "flt option"
  scl_category :: string
  scl_status :: supply_chain_status
  scl_notes :: "string option"
  scl_created_at :: timestamp
  scl_deleted_at :: "timestamp option"

record webhook =
  wh_id :: ident
  wh_company_id :: ident
  wh_url :: string
  wh_event_types :: "string list"
  wh_secret :: string
  wh_active :: bool
  wh_created_at :: timestamp
  wh_deleted_at :: "timestamp option"

record webhook_delivery =
  wd_id :: ident
  wd_webhook_id :: ident
  wd_event_type :: string
  wd_payload :: pydict
  wd_status_code :: "int option"
  wd_response_body :: "string option"
  wd_success :: bool
  wd_error :: "string option"
  wd_retry_count :: int
  wd_max_retries :: int
  wd_next_retry_at :: "timestamp option"
  wd_created_at :: timestamp

record audit_log =
  au_id :: ident
  au_user_id :: "ident option"
  au_company_id :: "ident option"
  au_action :: string
  au_resource_type :: string
  au_resource_id :: "ident option"
  au_detail :: "string option"
  au_created_at :: timestamp

record questionnaire_doc =
  qn_id :: ident
  qn_company_id :: ident
  qn_title :: string
  qn_original_filename :: string
  qn_file_type :: string
  qn_file_size :: int
  qn_status :: "questionnaire_status option"
  qn_extracted_text :: "string option"
  qn_created_at :: timestamp
  qn_deleted_at :: "timestamp option"

record question =
  qq_id :: ident
  qq_questionnaire_id :: ident
  qq_question_number :: int
  qq_question_text :: string
  qq_category :: "string option"
  qq_ai_draft_answer :: "string option"
  qq_human_answer :: "string option"
  qq_status :: question_status
  qq_confidence :: flt
  qq_created_at :: timestamp

record scenario =
  sn_id :: ident
  sn_company_id :: ident
  sn_name :: string
  sn_description :: "string option"
  sn_base_report_id :: "ident option"
  sn_parameters :: pydict
  sn_results :: "pydict option"
  sn_status :: scenario_status
  sn_created_at :: timestamp
  sn_deleted_at :: "timestamp option"

record subscription =
  sub_id :: ident
  sub_company_id :: ident
  sub_plan :: subscription_plan
  sub_status :: subscription_status
  sub_stripe_customer_id :: "string option"
  sub_stripe_subscription_id :: "string option"
  sub_created_at :: timestamp
  sub_deleted_at :: "timestamp option"

record credit_entry =
  cl_id :: ident
  cl_company_id :: ident
  cl_amount :: int
  cl_reason :: credit_reason
  cl_balance_after :: int
  cl_created_at :: timestamp

record alert =
  al_id :: ident
  al_company_id :: ident
  al_alert_type :: alert_type
  al_severity :: alert_severity
  al_is_read :: bool
  al_acknowledged_at :: "timestamp option"
  al_metadata :: pydict
  al_created_at :: timestamp

record data_listing =
  dl_id :: ident
  dl_seller_company_id :: ident
  dl_title :: string
  dl_description :: "string option"
  dl_data_type :: data_listing_type
  dl_industry :: string
  dl_region :: string
  dl_year :: int
  dl_price_credits :: int
  dl_anonymized_data :: pydict
  dl_status :: data_listing_status
  dl_created_at :: timestamp
  dl_deleted_at :: "timestamp option"

record data_purchase =
  dp_id :: ident
  dp_listing_id :: ident
  dp_buyer_company_id :: ident
  dp_price_credits :: int
  dp_created_at :: timestamp

record refresh_token =
  rt_id :: ident
  rt_user_id :: ident
  rt_token_hash :: string
  rt_expires_at :: timestamp
  rt_created_at :: timestamp

record revoked_token =
  rv_id :: ident
  rv_jti :: string
  rv_user_id :: ident
  rv_revoked_at :: timestamp
  rv_expires_at :: timestamp

record password_reset_token =
  pr_id :: ident
  pr_user_id :: ident
  pr_email :: string
  pr_token_hash :: string
  pr_expires_at :: timestamp
  pr_created_at :: timestamp

record financed_portfolio =
  fp_id :: ident
  fp_company_id :: ident
  fp_name :: string
  fp_year :: int
  fp_created_at :: timestamp
  fp_deleted_at :: "timestamp option"

record financed_asset =
  fa_id :: ident
  fa_portfolio_id :: ident
  fa_asset_name :: string
  fa_asset_class :: pcaf_asset_class
  fa_outstanding_amount :: flt
  fa_total_equity_debt :: flt
  fa_investee_emissions_tco2e :: flt
  fa_attribution_factor :: "flt option"
  fa_financed_emissions_tco2e :: "flt option"
  fa_data_quality_score :: int
  fa_industry :: "string option"
  fa_region :: "string option"
  fa_notes :: "string option"
  fa_created_at :: timestamp

record mfa_secret =
  mf_id :: ident
  mf_user_id :: ident
  mf_totp_secret :: string
  mf_is_enabled :: bool
  mf_backup_codes :: "string list option"
  mf_created_at :: timestamp

record invitation =
  iv_id :: ident
  iv_company_id :: ident
  iv_email :: string
  iv_role :: user_role
  iv_invited_by :: ident
  iv_token_hash :: string
  iv_expires_at :: timestamp
  iv_accepted_at :: "timestamp option"
  iv_created_at :: timestamp

record data_review =
  dr_id :: ident
  dr_report_id :: ident
  dr_company_id :: ident
  dr_status :: review_status
  dr_submitted_by :: "ident option"
  dr_reviewed_by :: "ident option"
  dr_submitted_at :: "timestamp option"
  dr_reviewed_at :: "timestamp option"
  dr_review_notes :: "string option"
  dr_created_at :: timestamp

record industry_benchmark =
  ib_id :: ident
  ib_industry :: string
  ib_region :: string
  ib_year :: int
  ib_avg_scope1 :: flt
  ib_avg_scope2 :: flt
  ib_avg_scope3 :: flt
  ib_avg_total :: flt
  ib_sample_size :: int
  ib_created_at :: timestamp

record db =
  db_now :: timestamp
  db_next_id :: ident
  companies :: "company list"
  emission_reports :: "emission_report list"
  supply_chain_links :: "supply_chain_link list"
  webhooks :: "webhook list"
  webhook_deliveries :: "webhook_delivery list"
  subscriptions :: "subscription list"
  credit_ledger :: "credit_entry list"
  alerts :: "alert list"
  data_listings :: "data_listing list"
  data_purchases :: "data_purchase list"
  data_reviews :: "data_review list"
  industry_benchmarks :: "industry_benchmark list"
  users :: "user list"
  data_uploads :: "data_upload list"
  audit_logs :: "audit_log list"
  questionnaires :: "questionnaire_doc list"
  questions :: "question list"
  scenarios :: "scenario list"
  refresh_tokens :: "refresh_token list"
  revoked_tokens :: "revoked_token list"
  password_reset_tokens :: "password_reset_token list"
  financed_portfolios :: "financed_portfolio list"
  financed_assets :: "financed_asset list"
  mfa_secrets :: "mfa_secret list"
  invitations :: "invitation list"

definition empty_db :: db where
  "empty_db = \<lparr>db_now = 0, db_next_id = 0, companies = [], emission_reports = [], supply_chain_links = [],
     webhooks = [], webhook_deliveries = [], subscriptions = [], credit_ledger = [], alerts = [],
     data_listings = [], data_purchases = [], data_reviews = [], industry_benchmarks = [], users = [],
     data_uploads = [], audit_logs = [], questionnaires = [], questions = [], scenarios = [], refresh_tokens = [],
     revoked_tokens = [], password_reset_tokens = [], financed_portfolios = [], financed_assets = [], mfa_secrets = [],
     invitations = []\<rparr>"

section \<open>Queries\<close>

text \<open>\<open>_utcnow()\<close> and \<open>_new_id()\<close>\<close>

definition utcnow :: "(db, timestamp) sres" where
  "utcnow s = Inr (db_now s, s\<lparr>db_now := db_now s + 1\<rparr>)"

definition new_id :: "(db, ident) sres" where
  "new_id s = Inr (db_next_id s, s\<lparr>db_next_id := db_next_id s + 1\<rparr>)"

text \<open>\<open>result.scalar_one_or_none()\<close> and \<open>result.scalar_one()\<close>\<close>

definition scalar_one_or_none :: "'a list \<Rightarrow> 'a option res" where
  "scalar_one_or_none rows =
     (case rows of [] \<Rightarrow> Inr None | [r] \<Rightarrow> Inr (Some r) | _ \<Rightarrow> Inl MultipleResultsFound)"

definition scalar_one :: "'a list \<Rightarrow> 'a res" where
  "scalar_one rows = (case rows of [] \<Rightarrow> Inl NoResultFound | [r] \<Rightarrow> Inr r | _ \<Rightarrow> Inl MultipleResultsFound)"

text \<open>\<open>ORDER BY key DESC\<close>; rows with equal keys stay in the order of the table.\<close>

definition order_by_desc :: "('a \<Rightarrow> int) \<Rightarrow> 'a list \<Rightarrow> 'a list" where
  "order_by_desc key rows = sort_key (\<lambda>r. - key r) rows"

definition paginate :: "nat \<Rightarrow> nat \<Rightarrow> 'a list \<Rightarrow> 'a list" where
  "paginate limit offset rows = take limit (drop offset rows)"

text \<open>A page of a query together with the count of its rows.\<close>

definition page :: "('a \<Rightarrow> int) \<Rightarrow> nat \<Rightarrow> nat \<Rightarrow> 'a list \<Rightarrow> 'a list \<times> nat" where
  "page key limit offset rows = (paginate limit offset (order_by_desc key rows), length rows)"

text \<open>The write of a changed row object.\<close>

definition update_row :: "('a \<Rightarrow> ident) \<Rightarrow> ident \<Rightarrow> ('a \<Rightarrow> 'a) \<Rightarrow> 'a list \<Rightarrow> 'a list" where
  "update_row row_id i f rows = map (\<lambda>r. if row_id r = i then f r else r) rows"

section \<open>Facts about the queries\<close>

lemma utcnow_apply [simp]: "utcnow s = Inr (db_now s, s\<lparr>db_now := db_now s + 1\<rparr>)"
  by (simp add: utcnow_def)

lemma new_id_apply [simp]: "new_id s = Inr (db_next_id s, s\<lparr>db_next_id := db_next_id s + 1\<rparr>)"
  by (simp add: new_id_def)

lemma scalar_one_or_none_simps [simp]:
  "scalar_one_or_none [] = Inr None" "scalar_one_or_none [r] = Inr (Some r)"
  by (simp_all add: scalar_one_or_none_def)

lemma scalar_one_or_none_Inr: "scalar_one_or_none rows = Inr m \<longleftrightarrow> rows = (case m of None \<Rightarrow> [] | Some r \<Rightarrow> [r])"
  by (auto simp: scalar_one_or_none_def split: list.splits option.splits)

lemma scalar_one_or_none_Some: "scalar_one_or_none rows = Inr (Some r) \<longleftrightarrow> rows = [r]"
  by (simp add: scalar_one_or_none_Inr)

lemma scalar_one_or_none_None: "scalar_one_or_none rows = Inr None \<longleftrightarrow> rows = []"
  by (simp add: scalar_one_or_none_Inr)

lemma scalar_one_Inr: "scalar_one rows = Inr r \<longleftrightarrow> rows = [r]"
  by (auto simp: scalar_one_def split: list.splits)

text \<open>A query for one key of a table with distinct keys finds at most one row.\<close>

lemma distinct_key_filter:
  "distinct (map k rows) \<Longrightarrow> filter (\<lambda>r. k r = i \<and> P r) rows = [] \<or> (\<exists>r. filter (\<lambda>r. k r = i \<and> P r) rows = [r])"
proof (induction rows)
  case (Cons x xs)
  have "filter (\<lambda>r. k r = k x \<and> P r) xs = []" if "k x \<notin> k ` set xs"
    using that by (auto simp: filter_empty_conv image_iff)
  with Cons show ?case by (cases "k x = i") auto
qed simp

text \<open>Rows written in order of time are returned latest first.\<close>

lemma insort_key_last: "(\<And>y. y \<in> set ys \<Longrightarrow> \<not> f x \<le> f y) \<Longrightarrow> insort_key f x ys = ys @ [x]"
  by (induction ys) auto

lemma order_by_desc_strict:
  "sorted_wrt (<) (map key rows) \<Longrightarrow> order_by_desc key rows = rev rows"
  unfolding order_by_desc_def
proof (induction rows)
  case (Cons r rows)
  then have "insort_key (\<lambda>r. - key r) r (rev rows) = rev rows @ [r]" by (intro insort_key_last) auto
  with Cons show ?case by simp
qed simp

lemma fresh_id: "list_all (\<lambda>r. k r < (n :: nat) \<and> P r) rows \<Longrightarrow> n \<notin> k ` set rows"
  by (force simp: list_all_iff)

lemma order_by_desc_set [simp]: "set (order_by_desc key rows) = set rows"
  by (simp add: order_by_desc_def)

lemma update_row_map [simp]: "(\<And>r. g (f r) = g r) \<Longrightarrow> map g (update_row k i f rows) = map g rows"
  by (simp add: update_row_def)

lemma update_row_filter:
  "(\<And>r. P (f r) = P r) \<Longrightarrow> filter P (update_row k i f rows) = update_row k i f (filter P rows)"
  unfolding update_row_def by (rule filter_replace_one) auto

end
