(* ===== verification/Subscriptions.thy ===== *)
theory Subscriptions
imports Models
begin

text \<open>
  \<open>api/services/subscriptions.py\<close>: plans, the credit ledger and the operations on them. The balance
  is the last \<open>balance_after\<close> of a company's entries; \<open>balance_of\<close>, the sum of the amounts, is the
  abstract balance it implements. Row locks have no effect on one session's state and are left out.
\<close>

section \<open>Plans\<close>

datatype plan_limit = Limit int | Flag bool

definition plan_limits :: "subscription_plan \<Rightarrow> (string, plan_limit) dict" where
  "plan_limits plan =
     (case plan of
        Free \<Rightarrow>
          [(''monthly_credits'', Limit 100), (''max_reports_per_month'', Limit 3), (''max_scenarios'', Limit 5),
           (''max_questionnaires'', Limit 3), (''pdf_export'', Flag False), (''supply_chain'', Flag False),
           (''webhooks'', Flag False), (''marketplace'', Flag False), (''price_usd'', Limit 0)]
      | Pro \<Rightarrow>
          [(''monthly_credits'', Limit 1000), (''max_reports_per_month'', Limit (- 1)), (''max_scenarios'', Limit (- 1)),
           (''max_questionnaires'', Limit (- 1)), (''pdf_export'', Flag True), (''supply_chain'', Flag True),
           (''webhooks'', Flag True), (''marketplace'', Flag True), (''price_usd'', Limit 99)]
      | Enterprise \<Rightarrow>
          [(''monthly_credits'', Limit 10000), (''max_reports_per_month'', Limit (- 1)), (''max_scenarios'', Limit (- 1)),
           (''max_questionnaires'', Limit (- 1)), (''pdf_export'', Flag True), (''supply_chain'', Flag True),
           (''webhooks'', Flag True), (''marketplace'', Flag True), (''price_usd'', Limit 499)])"

definition monthly_credits :: "subscription_plan \<Rightarrow> int" where
  "monthly_credits plan =
     (case map_of (plan_limits plan) ''monthly_credits'' of Some (Limit n) \<Rightarrow> n | _ \<Rightarrow> 0)"

definition plan_of_name :: "(string, subscription_plan) dict" where
  "plan_of_name = [(''free'', Free), (''pro'', Pro), (''enterprise'', Enterprise)]"

definition credit_costs :: "(string, int) dict" where
  "credit_costs = [(''estimate'', 10), (''pdf_export'', 5), (''questionnaire_extract'', 5),
     (''scenario_compute'', 3), (''marketplace_purchase'', 0)]"

text \<open>The values of the enumeration \<open>CreditReason\<close>; any other string is refused by the column type.\<close>

definition credit_reason_names :: "(string, credit_reason) dict" where
  "credit_reason_names =
    [(''subscription_grant'', Subscription_Grant), (''plan_upgrade'', Plan_Upgrade),
     (''estimate_usage'', Estimate_Usage), (''export_usage'', Export_Usage),
     (''pdf_export_usage'', Pdf_Export_Usage), (''questionnaire_extract_usage'', Questionnaire_Extract_Usage),
     (''scenario_compute_usage'', Scenario_Compute_Usage),
     (''marketplace_purchase_usage'', Marketplace_Purchase_Usage), (''manual'', Manual),
     (''manual_grant'', Manual_Grant), (''monthly_reset'', Monthly_Reset),
     (''marketplace_sale'', Marketplace_Sale), (''plan_downgrade_adjustment'', Plan_Downgrade_Adjustment)]"

definition usage_reason :: "string \<Rightarrow> credit_reason res" where
  "usage_reason operation =
     (case map_of credit_reason_names (operation @ ''_usage'') of Some r \<Rightarrow> Inr r | None \<Rightarrow> Inl KeyError)"

section \<open>The credit ledger\<close>

definition company_ledger :: "ident \<Rightarrow> db \<Rightarrow> credit_entry list" where
  "company_ledger c s = filter (\<lambda>e. cl_company_id e = c) (credit_ledger s)"

definition latest_balance :: "ident \<Rightarrow> db \<Rightarrow> int res" where
  "latest_balance c s =
     bind_r (scalar_one_or_none (take 1 (order_by_desc cl_created_at (company_ledger c s)))) (\<lambda>row.
     Inr (case row of Some e \<Rightarrow> cl_balance_after e | None \<Rightarrow> 0))"

definition get_credit_balance :: "ident \<Rightarrow> (db, int) sres" where
  "get_credit_balance c s = lift_s (latest_balance c s) s"

definition get_balance_for_update :: "ident \<Rightarrow> (db, int) sres" where
  "get_balance_for_update c s = lift_s (latest_balance c s) s"

text \<open>\<open>db.add(entry); flush()\<close>, with the check constraint \<open>balance_after >= 0\<close>.\<close>

definition insert_entry :: "ident \<Rightarrow> int \<Rightarrow> credit_reason \<Rightarrow> int \<Rightarrow> (db, credit_entry) sres" where
  "insert_entry c amount reason balance_after =
     bind_s new_id (\<lambda>i.
     bind_s utcnow (\<lambda>now.
     let e = \<lparr>cl_id = i, cl_company_id = c, cl_amount = amount, cl_reason = reason,
              cl_balance_after = balance_after, cl_created_at = now\<rparr>
     in if balance_after < 0 then raise_s IntegrityError
        else bind_s (modify_s (\<lambda>s. s\<lparr>credit_ledger := credit_ledger s @ [e]\<rparr>)) (\<lambda>_. return_s e)))"

definition grant_credits :: "ident \<Rightarrow> int \<Rightarrow> credit_reason \<Rightarrow> (db, credit_entry) sres" where
  "grant_credits c amount reason =
     bind_s (get_balance_for_update c) (\<lambda>current.
     insert_entry c amount reason (current + amount))"

definition deduct_credits :: "ident \<Rightarrow> int \<Rightarrow> credit_reason \<Rightarrow> (db, credit_entry) sres" where
  "deduct_credits c amount reason =
     bind_s (get_balance_for_update c) (\<lambda>current.
     if current < amount then raise_s (InsufficientCredits current amount)
     else insert_entry c (- amount) reason (current - amount))"

definition get_credit_ledger :: "ident \<Rightarrow> nat \<Rightarrow> nat \<Rightarrow> db \<Rightarrow> credit_entry list \<times> nat" where
  "get_credit_ledger c limit offset s = page cl_created_at limit offset (company_ledger c s)"

section \<open>Subscriptions\<close>

definition active_subscriptions :: "ident \<Rightarrow> db \<Rightarrow> subscription list" where
  "active_subscriptions c s = filter (\<lambda>r. sub_company_id r = c \<and> sub_deleted_at r = None) (subscriptions s)"

definition has_subscription_row :: "ident \<Rightarrow> db \<Rightarrow> bool" where
  "has_subscription_row c s = list_ex (\<lambda>r. sub_company_id r = c) (subscriptions s)"

text \<open>
  The flush checks the unique constraint on the company, which counts deleted rows too. When it
  fails, the session is rolled back and the query repeated.
\<close>

definition get_or_create_subscription :: "ident \<Rightarrow> (db, subscription) sres" where
  "get_or_create_subscription c s =
     bind_s (\<lambda>s. lift_s (scalar_one_or_none (active_subscriptions c s)) s) (\<lambda>found.
     case found of
       Some sub \<Rightarrow> return_s sub
     | None \<Rightarrow>
         if has_subscription_row c s then
           bind_s (\<lambda>s. lift_s (scalar_one_or_none (active_subscriptions c s)) s) (\<lambda>again.
           case again of Some sub \<Rightarrow> return_s sub | None \<Rightarrow> raise_s IntegrityError)
         else
           bind_s new_id (\<lambda>i.
           bind_s utcnow (\<lambda>now.
           let sub = \<lparr>sub_id = i, sub_company_id = c, sub_plan = Free, sub_status = Sub_Active,
                      sub_stripe_customer_id = None, sub_stripe_subscription_id = None,
                      sub_created_at = now, sub_deleted_at = None\<rparr>
           in bind_s (modify_s (\<lambda>s. s\<lparr>subscriptions := subscriptions s @ [sub]\<rparr>)) (\<lambda>_.
              bind_s (grant_credits c (monthly_credits Free) Subscription_Grant) (\<lambda>_.
              return_s sub))))) s"

definition get_plan_limits :: "ident \<Rightarrow> (db, subscription_plan \<times> (string, plan_limit) dict) sres" where
  "get_plan_limits c =
     bind_s (get_or_create_subscription c) (\<lambda>sub. return_s (sub_plan sub, plan_limits (sub_plan sub)))"

text \<open>\<open>limits.get(feature, False) is not False\<close>, the key \<open>plan\<close> included\<close>

definition check_feature_access :: "ident \<Rightarrow> string \<Rightarrow> (db, bool) sres" where
  "check_feature_access c feature =
     bind_s (get_plan_limits c) (\<lambda>(plan, limits).
     return_s (case map_of limits feature of
        None \<Rightarrow> feature = ''plan''
      | Some v \<Rightarrow> v \<noteq> Flag False))"

text \<open>The credits that follow a change of plan: the difference on an upgrade, a cap on a downgrade.\<close>

definition adjust_credits :: "ident \<Rightarrow> int \<Rightarrow> int \<Rightarrow> (db, unit) sres" where
  "adjust_credits c old_credits new_credits =
     (if old_credits < new_credits then
        bind_s (grant_credits c (new_credits - old_credits) Plan_Upgrade) (\<lambda>_. return_s ())
      else if new_credits < old_credits then
        bind_s (get_credit_balance c) (\<lambda>current_balance.
        if new_credits < current_balance then
          bind_s (deduct_credits c (current_balance - new_credits) Plan_Downgrade_Adjustment) (\<lambda>_. return_s ())
        else return_s ())
      else return_s ())"

definition change_plan :: "ident \<Rightarrow> string \<Rightarrow> (db, subscription) sres" where
  "change_plan c new_name =
     (case map_of plan_of_name new_name of
        None \<Rightarrow> raise_s (ValueError ''Invalid plan'')
      | Some new_plan \<Rightarrow>
          bind_s (get_or_create_subscription c) (\<lambda>sub.
          if sub_plan sub = new_plan then return_s sub
          else
            bind_s utcnow (\<lambda>_.
            bind_s (modify_s (\<lambda>s. s\<lparr>subscriptions :=
              update_row sub_id (sub_id sub) (\<lambda>r. r\<lparr>sub_plan := new_plan\<rparr>) (subscriptions s)\<rparr>)) (\<lambda>_.
            bind_s (adjust_credits c (monthly_credits (sub_plan sub)) (monthly_credits new_plan)) (\<lambda>_.
            return_s (sub\<lparr>sub_plan := new_plan\<rparr>))))))"

section \<open>Metered operations\<close>

definition operation_cost :: "string \<Rightarrow> int" where
  "operation_cost operation = dict_get credit_costs operation 0"

definition deduct_operation_credits :: "ident \<Rightarrow> string \<Rightarrow> (db, unit) sres" where
  "deduct_operation_credits c operation =
     (if 0 < operation_cost operation then
        bind_s (lift_s (usage_reason operation)) (\<lambda>reason.
        bind_s (deduct_credits c (operation_cost operation) reason) (\<lambda>_. return_s ()))
      else return_s ())"

definition check_credit_and_deduct :: "ident \<Rightarrow> string \<Rightarrow> (db, unit) sres" where
  "check_credit_and_deduct c operation =
     bind_s (get_or_create_subscription c) (\<lambda>_.
     if 0 < operation_cost operation then
       bind_s (lift_s (usage_reason operation)) (\<lambda>reason.
       bind_s (deduct_credits c (operation_cost operation) reason) (\<lambda>_. return_s ()))
     else return_s ())"

definition check_credit_balance :: "ident \<Rightarrow> string \<Rightarrow> (db, unit) sres" where
  "check_credit_balance c operation =
     bind_s (get_or_create_subscription c) (\<lambda>_.
     if 0 < operation_cost operation then
       bind_s (get_credit_balance c) (\<lambda>balance.
       if balance < operation_cost operation
       then raise_s (InsufficientCredits balance (operation_cost operation))
       else return_s ())
     else return_s ())"

section \<open>The abstract balance\<close>

definition balance_of :: "db \<Rightarrow> ident \<Rightarrow> int" where
  "balance_of s c = sum_list (map cl_amount (company_ledger c s))"

text \<open>Each entry carries the running sum, which is never negative.\<close>

fun running :: "int \<Rightarrow> credit_entry list \<Rightarrow> bool" where
  "running b [] \<longleftrightarrow> True"
| "running b (e # es) \<longleftrightarrow>
     cl_balance_after e = b + cl_amount e \<and> 0 \<le> b + cl_amount e \<and> running (b + cl_amount e) es"

definition ledger_ok :: "db \<Rightarrow> bool" where
  "ledger_ok s \<longleftrightarrow> sorted_wrt (<) (map cl_created_at (credit_ledger s)) \<and>
     list_all (\<lambda>e. cl_created_at e < db_now s) (credit_ledger s) \<and> (\<forall>c. running 0 (company_ledger c s))"

lemma running_append:
  "running b (es @ [e]) \<longleftrightarrow> running b es \<and> cl_balance_after e = b + sum_list (map cl_amount es) + cl_amount e \<and>
     0 \<le> b + sum_list (map cl_amount es) + cl_amount e"
  by (induction es arbitrary: b) (simp_all add: add.assoc)

lemma running_last: "running b (es @ [e]) \<Longrightarrow> cl_balance_after e = b + sum_list (map cl_amount (es @ [e]))"
  by (simp add: running_append)

lemma running_nonneg: "running b es \<Longrightarrow> 0 \<le> b \<Longrightarrow> 0 \<le> b + sum_list (map cl_amount es)"
proof (induction es arbitrary: b)
  case (Cons e es)
  then show ?case using Cons.IH [of "b + cl_amount e"] by (simp add: add.assoc)
qed simp

lemma balance_nonneg: "ledger_ok s \<Longrightarrow> 0 \<le> balance_of s c"
  using running_nonneg [of 0 "company_ledger c s"] by (simp add: ledger_ok_def balance_of_def)

lemma sorted_wrt_filter_map: "sorted_wrt P (map f xs) \<Longrightarrow> sorted_wrt P (map f (filter Q xs))"
  by (induction xs) auto

lemma latest_balance_refines:
  assumes "ledger_ok s" shows "latest_balance c s = Inr (balance_of s c)"
proof -
  have "sorted_wrt (<) (map cl_created_at (company_ledger c s))"
    using assms by (simp add: ledger_ok_def company_ledger_def sorted_wrt_filter_map)
  then have o: "order_by_desc cl_created_at (company_ledger c s) = rev (company_ledger c s)"
    by (rule order_by_desc_strict)
  have r: "running 0 (company_ledger c s)" using assms by (simp add: ledger_ok_def)
  show ?thesis
  proof (cases "company_ledger c s" rule: rev_cases)
    case Nil
    then show ?thesis using o by (simp add: latest_balance_def balance_of_def)
  next
    case (snoc es e)
    then show ?thesis using r o by (simp add: latest_balance_def balance_of_def running_append)
  qed
qed

lemma insert_entry_ok:
  assumes "ledger_ok s" "0 \<le> balance_of s c + amount"
  shows "\<exists>e. insert_entry c amount reason (balance_of s c + amount) s =
      Inr (e, s\<lparr>db_now := db_now s + 1, db_next_id := db_next_id s + 1, credit_ledger := credit_ledger s @ [e]\<rparr>) \<and>
      cl_company_id e = c \<and> cl_amount e = amount \<and> cl_reason e = reason \<and>
      ledger_ok (s\<lparr>db_now := db_now s + 1, db_next_id := db_next_id s + 1, credit_ledger := credit_ledger s @ [e]\<rparr>)"
proof -
  let ?e = "\<lparr>cl_id = db_next_id s, cl_company_id = c, cl_amount = amount, cl_reason = reason,
              cl_balance_after = balance_of s c + amount, cl_created_at = db_now s\<rparr>"
  have "running 0 (company_ledger c s @ [?e])"
    using assms by (simp add: ledger_ok_def running_append balance_of_def)
  then have "ledger_ok (s\<lparr>db_now := db_now s + 1, db_next_id := db_next_id s + 1, credit_ledger := credit_ledger s @ [?e]\<rparr>)"
    using assms(1) by (auto simp: ledger_ok_def company_ledger_def sorted_wrt_append list_all_iff split: if_splits)
  then show ?thesis using assms(2)
    by (intro exI [of _ ?e]) (simp add: insert_entry_def Let_def bind_s_def)
qed

lemma balance_of_insert [simp]:
  "balance_of (s\<lparr>db_now := n, db_next_id := i, credit_ledger := credit_ledger s @ [e]\<rparr>) c' =
   balance_of s c' + (if cl_company_id e = c' then cl_amount e else 0)"
  by (simp add: balance_of_def company_ledger_def)

section \<open>The ledger as an interface\<close>

text \<open>
  What the clients of the ledger rely on: granting and deducting move the balance of one company by
  the amount, keep the invariant, and a deduction beyond the balance is refused.
\<close>

locale ledger =
  fixes balance :: "'s \<Rightarrow> ident \<Rightarrow> int"
    and grant deduct :: "ident \<Rightarrow> int \<Rightarrow> credit_reason \<Rightarrow> ('s, 'e) sres"
    and inv :: "'s \<Rightarrow> bool"
  assumes grant_law: "inv s \<Longrightarrow> 0 \<le> n \<Longrightarrow>
      \<exists>e s'. grant c n r s = Inr (e, s') \<and> inv s' \<and> (\<forall>d. balance s' d = balance s d + (if d = c then n else 0))"
    and deduct_law: "inv s \<Longrightarrow> 0 \<le> n \<Longrightarrow> n \<le> balance s c \<Longrightarrow>
      \<exists>e s'. deduct c n r s = Inr (e, s') \<and> inv s' \<and> (\<forall>d. balance s' d = balance s d - (if d = c then n else 0))"
    and deduct_refused: "inv s \<Longrightarrow> balance s c < n \<Longrightarrow> deduct c n r s = Inl (InsufficientCredits (balance s c) n)"
    and balance_law: "inv s \<Longrightarrow> 0 \<le> balance s c"
begin

text \<open>A payment moves the amount from one company to another, or fails without any effect.\<close>

lemma payment:
  assumes "inv s" "0 \<le> n" "buyer \<noteq> seller" "n \<le> balance s buyer"
  shows "\<exists>e s'. bind_s (deduct buyer n r1) (\<lambda>_. grant seller n r2) s = Inr (e, s') \<and> inv s' \<and>
    balance s' buyer = balance s buyer - n \<and> balance s' seller = balance s seller + n \<and>
    (\<forall>d. d \<noteq> buyer \<longrightarrow> d \<noteq> seller \<longrightarrow> balance s' d = balance s d)"
proof -
  obtain e s1 where 1: "deduct buyer n r1 s = Inr (e, s1)" "inv s1"
    "\<And>d. balance s1 d = balance s d - (if d = buyer then n else 0)"
    using deduct_law [OF assms(1,2,4)] by blast
  obtain e' s2 where 2: "grant seller n r2 s1 = Inr (e', s2)" "inv s2"
    "\<And>d. balance s2 d = balance s1 d + (if d = seller then n else 0)"
    using grant_law [OF 1(2) assms(2)] by blast
  show ?thesis using 1 2 assms(3) by auto
qed

lemma payment_refused:
  "inv s \<Longrightarrow> balance s buyer < n \<Longrightarrow>
   bind_s (deduct buyer n r1) (\<lambda>_. grant seller n r2) s = Inl (InsufficientCredits (balance s buyer) n)"
  by (simp add: deduct_refused)

lemma payment_cases:
  assumes "inv s" "0 \<le> n" "buyer \<noteq> seller"
    "bind_s (deduct buyer n r1) (\<lambda>_. grant seller n r2) s = Inr (e, s')"
  shows "inv s' \<and> n \<le> balance s buyer \<and> balance s' buyer = balance s buyer - n \<and>
    balance s' seller = balance s seller + n \<and> (\<forall>d. d \<noteq> buyer \<longrightarrow> d \<noteq> seller \<longrightarrow> balance s' d = balance s d)"
proof (cases "n \<le> balance s buyer")
  case True
  then show ?thesis using payment [OF assms(1-3) True, of r1 r2] assms(4) by auto
next
  case False
  then show ?thesis using payment_refused [OF assms(1), of buyer n r1 seller r2] assms(4) by simp
qed

end

lemma get_balance_refines:
  "ledger_ok s \<Longrightarrow> get_credit_balance c s = Inr (balance_of s c, s)"
  "ledger_ok s \<Longrightarrow> get_balance_for_update c s = Inr (balance_of s c, s)"
  by (simp_all add: get_credit_balance_def get_balance_for_update_def latest_balance_refines)

text \<open>The exact effect of the two operations: one new entry, the clock and the identifiers.\<close>

lemma grant_effect:
  assumes "ledger_ok s" "0 \<le> balance_of s c + n"
  shows "\<exists>e. grant_credits c n r s =
      Inr (e, s\<lparr>db_now := db_now s + 1, db_next_id := db_next_id s + 1, credit_ledger := credit_ledger s @ [e]\<rparr>) \<and>
      cl_company_id e = c \<and> cl_amount e = n \<and> cl_reason e = r \<and>
      ledger_ok (s\<lparr>db_now := db_now s + 1, db_next_id := db_next_id s + 1, credit_ledger := credit_ledger s @ [e]\<rparr>)"
  using insert_entry_ok [OF assms, of r] get_balance_refines [OF assms(1)]
  by (simp add: grant_credits_def)

lemma deduct_effect:
  assumes "ledger_ok s" "n \<le> balance_of s c"
  shows "\<exists>e. deduct_credits c n r s =
      Inr (e, s\<lparr>db_now := db_now s + 1, db_next_id := db_next_id s + 1, credit_ledger := credit_ledger s @ [e]\<rparr>) \<and>
      cl_company_id e = c \<and> cl_amount e = - n \<and> cl_reason e = r \<and>
      ledger_ok (s\<lparr>db_now := db_now s + 1, db_next_id := db_next_id s + 1, credit_ledger := credit_ledger s @ [e]\<rparr>)"
  using insert_entry_ok [OF assms(1), of c "- n" r] assms(2) get_balance_refines [OF assms(1)]
  by (simp add: deduct_credits_def)

lemma deduct_insufficient:
  "ledger_ok s \<Longrightarrow> balance_of s c < n \<Longrightarrow> deduct_credits c n r s = Inl (InsufficientCredits (balance_of s c) n)"
  using get_balance_refines by (simp add: deduct_credits_def)

interpretation credits: ledger balance_of grant_credits deduct_credits ledger_ok
proof
  fix s n c r
  show "\<exists>e s'. grant_credits c n r s = Inr (e, s') \<and> ledger_ok s' \<and>
      (\<forall>d. balance_of s' d = balance_of s d + (if d = c then n else 0))" if "ledger_ok s" "0 \<le> n"
    using grant_effect [OF that(1), of c n r] balance_nonneg [OF that(1), of c] that(2) by auto
  show "\<exists>e s'. deduct_credits c n r s = Inr (e, s') \<and> ledger_ok s' \<and>
      (\<forall>d. balance_of s' d = balance_of s d - (if d = c then n else 0))"
    if "ledger_ok s" "0 \<le> n" "n \<le> balance_of s c"
    using deduct_effect [OF that(1,3), of r] by auto
  show "deduct_credits c n r s = Inl (InsufficientCredits (balance_of s c) n)"
    if "ledger_ok s" "balance_of s c < n"
    using that by (rule deduct_insufficient)
  show "0 \<le> balance_of s c" if "ledger_ok s" using that by (rule balance_nonneg)
qed

section \<open>Subscriptions and plans\<close>

text \<open>One row per company, as the unique constraint demands, and distinct identifiers.\<close>

definition subscriptions_ok :: "db \<Rightarrow> bool" where
  "subscriptions_ok s \<longleftrightarrow> distinct (map sub_company_id (subscriptions s)) \<and> distinct (map sub_id (subscriptions s)) \<and>
     list_all (\<lambda>r. sub_id r < db_next_id s) (subscriptions s)"

lemma plan_credits [simp]:
  "monthly_credits Free = 100" "monthly_credits Pro = 1000" "monthly_credits Enterprise = 10000"
  by (simp_all add: monthly_credits_def plan_limits_def)

lemma active_subscriptions_cases:
  assumes "subscriptions_ok s"
  shows "active_subscriptions c s = [] \<or> (\<exists>sub. active_subscriptions c s = [sub])"
  using distinct_key_filter [of sub_company_id "subscriptions s" c "\<lambda>r. sub_deleted_at r = None"] assms
  by (simp add: subscriptions_ok_def active_subscriptions_def)

lemma existing_subscription:
  "active_subscriptions c s = [sub] \<Longrightarrow> get_or_create_subscription c s = Inr (sub, s)"
  by (simp add: get_or_create_subscription_def)

text \<open>The first access creates a free subscription and grants its monthly credits.\<close>

lemma created_subscription:
  assumes "ledger_ok s" "subscriptions_ok s" "\<not> has_subscription_row c s" "balance_of s c = 0"
  shows "\<exists>sub s'. get_or_create_subscription c s = Inr (sub, s') \<and> sub_plan sub = Free \<and>
    active_subscriptions c s' = [sub] \<and> balance_of s' c = 100 \<and> ledger_ok s' \<and> subscriptions_ok s'"
proof -
  have none: "filter (\<lambda>r. sub_company_id r = c \<and> sub_deleted_at r = None) (subscriptions s) = []"
    using assms(3) by (auto simp: has_subscription_row_def list_ex_iff filter_empty_conv)
  let ?sub = "\<lparr>sub_id = db_next_id s, sub_company_id = c, sub_plan = Free, sub_status = Sub_Active,
                      sub_stripe_customer_id = None, sub_stripe_subscription_id = None,
                      sub_created_at = db_now s, sub_deleted_at = None\<rparr>"
  let ?s1 = "s\<lparr>db_next_id := db_next_id s + 1, db_now := db_now s + 1, subscriptions := subscriptions s @ [?sub]\<rparr>"
  have "ledger_ok ?s1" using assms(1) by (auto simp: ledger_ok_def company_ledger_def list_all_iff)
  moreover have "balance_of ?s1 c = 0" using assms(4) by (simp add: balance_of_def company_ledger_def)
  ultimately obtain e where e: "grant_credits c 100 Subscription_Grant ?s1 =
      Inr (e, ?s1\<lparr>db_now := db_now ?s1 + 1, db_next_id := db_next_id ?s1 + 1, credit_ledger := credit_ledger ?s1 @ [e]\<rparr>)"
    "cl_company_id e = c" "cl_amount e = 100"
    "ledger_ok (?s1\<lparr>db_now := db_now ?s1 + 1, db_next_id := db_next_id ?s1 + 1, credit_ledger := credit_ledger ?s1 @ [e]\<rparr>)"
    using grant_effect [of ?s1 c 100 Subscription_Grant] by auto
  let ?s2 = "?s1\<lparr>db_now := db_now ?s1 + 1, db_next_id := db_next_id ?s1 + 1, credit_ledger := credit_ledger ?s1 @ [e]\<rparr>"
  have "get_or_create_subscription c s = Inr (?sub, ?s2)"
    using assms(3) none e(1) by (simp add: get_or_create_subscription_def active_subscriptions_def Let_def bind_s_def)
  moreover have "active_subscriptions c ?s2 = [?sub]" using none by (simp add: active_subscriptions_def)
  moreover have "subscriptions_ok ?s2"
    using assms(2,3) by (auto simp: subscriptions_ok_def has_subscription_row_def list_ex_iff list_all_iff image_iff less_SucI)
  moreover have "balance_of ?s2 c = 100" using assms(4) e by (simp add: balance_of_def company_ledger_def)
  ultimately show ?thesis using e by auto
qed

text \<open>A company whose only row was soft-deleted can never use the service again.\<close>

lemma deleted_subscription_blocks:
  assumes "has_subscription_row c s" "active_subscriptions c s = []"
  shows "get_or_create_subscription c s = Inl IntegrityError"
  using assms by (simp add: get_or_create_subscription_def bind_s_def)

text \<open>
  What a change of plan does to the balance: an upgrade adds the difference of the monthly credits,
  a downgrade caps the balance at the new plan's credits.
\<close>

definition adjusted :: "int \<Rightarrow> int \<Rightarrow> int \<Rightarrow> int" where
  "adjusted old new b =
     (if old < new then b + (new - old) else if new < old then min b new else b)"

lemma adjust_credits_effect:
  assumes "ledger_ok s" "0 \<le> new"
  shows "\<exists>s'. adjust_credits c old new s = Inr ((), s') \<and> ledger_ok s' \<and> subscriptions s' = subscriptions s \<and>
    db_next_id s \<le> db_next_id s' \<and>
    (\<forall>d. balance_of s' d = (if d = c then adjusted old new (balance_of s c) else balance_of s d))"
proof -
  note b = get_balance_refines(1) [OF assms(1), of c]
  consider (up) "old < new" | (cap) "new < old" "new < balance_of s c" | (stay) "new \<le> old" "new = old \<or> balance_of s c \<le> new"
    by linarith
  then show ?thesis
  proof cases
    case up
    then show ?thesis
      using grant_effect [OF assms(1), of c "new - old" Plan_Upgrade] balance_nonneg [OF assms(1), of c]
      by (fastforce simp: adjust_credits_def adjusted_def bind_s_def)
  next
    case cap
    then show ?thesis
      using deduct_effect [OF assms(1), of "balance_of s c - new" c Plan_Downgrade_Adjustment] b assms(2)
      by (fastforce simp: adjust_credits_def adjusted_def bind_s_def)
  next
    case stay
    then show ?thesis using assms b by (auto simp: adjust_credits_def adjusted_def bind_s_def)
  qed
qed

lemma active_after_update:
  assumes "subscriptions_ok s" "active_subscriptions c s = [sub]"
    "subscriptions s' = update_row sub_id (sub_id sub) (\<lambda>r. r\<lparr>sub_plan := p\<rparr>) (subscriptions s)"
    "db_next_id s \<le> db_next_id s'"
  shows "active_subscriptions c s' = [sub\<lparr>sub_plan := p\<rparr>]" "subscriptions_ok s'"
  using assms
  by (auto simp: active_subscriptions_def update_row_filter subscriptions_ok_def list_all_iff)
    (auto simp: update_row_def)

lemma change_plan_effect:
  assumes "ledger_ok s" "subscriptions_ok s" "active_subscriptions c s = [sub]" "map_of plan_of_name name = Some new"
  shows "\<exists>s'. change_plan c name s = Inr (sub\<lparr>sub_plan := new\<rparr>, s') \<and>
    active_subscriptions c s' = [sub\<lparr>sub_plan := new\<rparr>] \<and> ledger_ok s' \<and> subscriptions_ok s' \<and>
    (\<forall>d. balance_of s' d = (if d = c
       then adjusted (monthly_credits (sub_plan sub)) (monthly_credits new) (balance_of s c) else balance_of s d))"
proof (cases "sub_plan sub = new")
  case True
  then have "sub\<lparr>sub_plan := new\<rparr> = sub" by auto
  then show ?thesis using assms True existing_subscription [OF assms(3)]
    by (simp add: change_plan_def adjusted_def)
next
  case False
  let ?s1 = "s\<lparr>db_now := db_now s + 1, subscriptions :=
      update_row sub_id (sub_id sub) (\<lambda>r. r\<lparr>sub_plan := new\<rparr>) (subscriptions s)\<rparr>"
  have "ledger_ok ?s1" using assms(1) by (auto simp: ledger_ok_def company_ledger_def list_all_iff)
  moreover have "balance_of ?s1 d = balance_of s d" for d by (simp add: balance_of_def company_ledger_def)
  moreover have "0 \<le> monthly_credits new" by (cases new) simp_all
  ultimately obtain s' where s': "adjust_credits c (monthly_credits (sub_plan sub)) (monthly_credits new) ?s1 = Inr ((), s')"
    "ledger_ok s'" "subscriptions s' = subscriptions ?s1" "db_next_id ?s1 \<le> db_next_id s'"
    "\<forall>d. balance_of s' d = (if d = c
       then adjusted (monthly_credits (sub_plan sub)) (monthly_credits new) (balance_of s c) else balance_of s d)"
    using adjust_credits_effect [of ?s1 "monthly_credits new" c "monthly_credits (sub_plan sub)"] by auto
  have "change_plan c name s = Inr (sub\<lparr>sub_plan := new\<rparr>, s')"
    using assms(4) False existing_subscription [OF assms(3)] s'(1) by (simp add: change_plan_def bind_s_def)
  then show ?thesis using s' active_after_update [OF assms(2,3), of s' new] by auto
qed

text \<open>
  Upgrading pays out the full difference every time: a company that spends the grant, downgrades and
  upgrades again receives it again.
\<close>

lemma upgrade_cycle:
  assumes "ledger_ok s" "subscriptions_ok s" "active_subscriptions c s = [sub]" "sub_plan sub = Free" "balance_of s c = 0"
  shows "\<exists>sub1 s1 e s2 sub3 s3. change_plan c ''pro'' s = Inr (sub1, s1) \<and>
    deduct_credits c 900 r s1 = Inr (e, s2) \<and> change_plan c ''free'' s2 = Inr (sub3, s3) \<and>
    ledger_ok s3 \<and> subscriptions_ok s3 \<and> active_subscriptions c s3 = [sub3] \<and> sub_plan sub3 = Free \<and> balance_of s3 c = 0"
proof -
  obtain s1 where 1: "change_plan c ''pro'' s = Inr (sub\<lparr>sub_plan := Pro\<rparr>, s1)" "ledger_ok s1" "subscriptions_ok s1"
    "active_subscriptions c s1 = [sub\<lparr>sub_plan := Pro\<rparr>]" "balance_of s1 c = 900"
    using change_plan_effect [OF assms(1-3), of "''pro''" Pro] assms(4,5) by (auto simp: plan_of_name_def adjusted_def)
  obtain e s2 where 2: "deduct_credits c 900 r s1 = Inr (e, s2)" "ledger_ok s2" "balance_of s2 c = 0"
    "subscriptions_ok s2" "active_subscriptions c s2 = [sub\<lparr>sub_plan := Pro\<rparr>]"
    using deduct_effect [OF 1(2), of 900 c r] 1
    by (fastforce simp: subscriptions_ok_def active_subscriptions_def list_all_iff less_SucI)
  obtain s3 where 3: "change_plan c ''free'' s2 = Inr (sub\<lparr>sub_plan := Free\<rparr>, s3)" "ledger_ok s3" "subscriptions_ok s3"
    "active_subscriptions c s3 = [sub\<lparr>sub_plan := Free\<rparr>]" "balance_of s3 c = 0"
    using change_plan_effect [OF 2(2,4,5), of "''free''" Free] 2(3) by (auto simp: plan_of_name_def adjusted_def)
  show ?thesis using 1(1) 2(1) 3 by (intro exI [of _ "sub\<lparr>sub_plan := Pro\<rparr>"] exI) auto
qed

text \<open>Every operation with a cost has a reason the column type accepts.\<close>

lemma usage_reasons_exist: "0 < operation_cost operation \<Longrightarrow> \<exists>r. usage_reason operation = Inr r"
  by (auto simp: operation_cost_def dict_get_def credit_costs_def usage_reason_def credit_reason_names_def
    split: if_splits)

section \<open>Sequences of ledger operations\<close>

text \<open>
  Sequences of credit operations against the abstract ledger, which is a balance for each company. A
  request whose operation raises is rolled back and the next request goes on.
\<close>

datatype ledger_op = Grant ident int credit_reason | Deduct ident int credit_reason

fun op_amount :: "ledger_op \<Rightarrow> int" where
  "op_amount (Grant c n r) = n"
| "op_amount (Deduct c n r) = n"

text \<open>One request, given the two services.\<close>

fun run_op ::
    "(ident \<Rightarrow> int \<Rightarrow> credit_reason \<Rightarrow> ('s, 'e) sres) \<Rightarrow> (ident \<Rightarrow> int \<Rightarrow> credit_reason \<Rightarrow> ('s, 'e) sres) \<Rightarrow>
     ledger_op \<Rightarrow> 's \<Rightarrow> 's" where
  "run_op grant deduct (Grant c n r) s = (case grant c n r s of Inl _ \<Rightarrow> s | Inr p \<Rightarrow> snd p)"
| "run_op grant deduct (Deduct c n r) s = (case deduct c n r s of Inl _ \<Rightarrow> s | Inr p \<Rightarrow> snd p)"

definition run_ops ::
    "(ident \<Rightarrow> int \<Rightarrow> credit_reason \<Rightarrow> ('s, 'e) sres) \<Rightarrow> (ident \<Rightarrow> int \<Rightarrow> credit_reason \<Rightarrow> ('s, 'e) sres) \<Rightarrow>
     ledger_op list \<Rightarrow> 's \<Rightarrow> 's" where
  "run_ops grant deduct ops s = foldl (\<lambda>s op. run_op grant deduct op s) s ops"

text \<open>The same request on the abstract balances: a deduction happens when it is covered.\<close>

fun spec_op :: "ledger_op \<Rightarrow> (ident \<Rightarrow> int) \<Rightarrow> ident \<Rightarrow> int" where
  "spec_op (Grant c n r) b = b(c := b c + n)"
| "spec_op (Deduct c n r) b = (if n \<le> b c then b(c := b c - n) else b)"

definition spec_ops :: "ledger_op list \<Rightarrow> (ident \<Rightarrow> int) \<Rightarrow> ident \<Rightarrow> int" where
  "spec_ops ops b = foldl (\<lambda>b op. spec_op op b) b ops"

context ledger
begin

lemma op_refines:
  assumes "inv s" "0 \<le> op_amount op"
  shows "inv (run_op grant deduct op s) \<and> balance (run_op grant deduct op s) = spec_op op (balance s)"
proof (cases op)
  case (Grant c n r)
  then obtain e s' where "grant c n r s = Inr (e, s')" "inv s'" "\<forall>d. balance s' d = balance s d + (if d = c then n else 0)"
    using grant_law [OF assms(1), of n c r] assms(2) by auto
  then show ?thesis using Grant by (auto simp: fun_eq_iff)
next
  case (Deduct c n r)
  show ?thesis
  proof (cases "n \<le> balance s c")
    case True
    then obtain e s' where "deduct c n r s = Inr (e, s')" "inv s'" "\<forall>d. balance s' d = balance s d - (if d = c then n else 0)"
      using deduct_law [OF assms(1), of n c r] assms(2) Deduct by auto
    then show ?thesis using Deduct True by (auto simp: fun_eq_iff)
  next
    case False
    then show ?thesis using Deduct deduct_refused [OF assms(1), of c n r] assms(1) by simp
  qed
qed

lemma ops_refine:
  "inv s \<Longrightarrow> list_all (\<lambda>op. 0 \<le> op_amount op) ops \<Longrightarrow>
   inv (run_ops grant deduct ops s) \<and> balance (run_ops grant deduct ops s) = spec_ops ops (balance s)"
proof (induction ops arbitrary: s)
  case (Cons op ops)
  then show ?case using op_refines [of s op] by (simp add: run_ops_def spec_ops_def)
qed (simp add: run_ops_def spec_ops_def)

end

end
