(* ===== verification/Marketplace.thy ===== *)
theory Marketplace
imports Subscriptions
begin

text \<open>
  \<open>api/services/marketplace.py\<close>: listing, browsing, buying and withdrawing anonymised emission data.
  Payments go through the credit ledger of \<open>Subscriptions\<close>.
\<close>

section \<open>Listings\<close>

definition anonymize_report :: "emission_report \<Rightarrow> company \<Rightarrow> pydict" where
  "anonymize_report report co =
     [(''industry'', PStr (co_industry co)), (''region'', PStr (co_region co)),
      (''year'', PNum (flt_of_int (er_year report))),
      (''scope1'', PNum (py_round (er_scope1 report) 1)), (''scope2'', PNum (py_round (er_scope2 report) 1)),
      (''scope3'', PNum (py_round (er_scope3 report) 1)), (''total'', PNum (py_round (er_total report) 1)),
      (''confidence'', PNum (py_round (er_confidence report) 2)),
      (''methodology_version'', PStr (er_methodology_version report)),
      (''breakdown_categories'',
        PList (map PStr (dict_keys (case er_breakdown report of Some b \<Rightarrow> b | None \<Rightarrow> []))))]"

definition find_report :: "ident \<Rightarrow> ident \<Rightarrow> db \<Rightarrow> emission_report option res" where
  "find_report report_id c s = scalar_one_or_none
     (filter (\<lambda>r. er_id r = report_id \<and> er_company_id r = c \<and> er_deleted_at r = None) (emission_reports s))"

definition find_company :: "ident \<Rightarrow> db \<Rightarrow> company res" where
  "find_company c s = scalar_one (filter (\<lambda>r. co_id r = c \<and> co_deleted_at r = None) (companies s))"

definition create_listing ::
    "ident \<Rightarrow> string \<Rightarrow> string option \<Rightarrow> data_listing_type \<Rightarrow> ident \<Rightarrow> int \<Rightarrow> (db, data_listing) sres" where
  "create_listing c title description data_type report_id price_credits s =
     bind_s (lift_s (find_report report_id c s)) (\<lambda>found.
     case found of
       None \<Rightarrow> raise_s (ValueError ''Report not found or not owned by company'')
     | Some report \<Rightarrow>
         bind_s (lift_s (find_company c s)) (\<lambda>co.
         bind_s new_id (\<lambda>i.
         bind_s utcnow (\<lambda>now.
         let listing = \<lparr>dl_id = i, dl_seller_company_id = c, dl_title = title, dl_description = description,
               dl_data_type = data_type, dl_industry = co_industry co, dl_region = co_region co,
               dl_year = er_year report, dl_price_credits = price_credits,
               dl_anonymized_data = anonymize_report report co, dl_status = Listing_Active,
               dl_created_at = now, dl_deleted_at = None\<rparr>
         in bind_s (modify_s (\<lambda>s. s\<lparr>data_listings := data_listings s @ [listing]\<rparr>)) (\<lambda>_.
            return_s listing))))) s"

definition is_active_listing :: "data_listing \<Rightarrow> bool" where
  "is_active_listing l \<longleftrightarrow> dl_status l = Listing_Active \<and> dl_deleted_at l = None"

text \<open>An empty filter string is no filter.\<close>

definition browse_listings ::
    "string option \<Rightarrow> string option \<Rightarrow> data_listing_type option \<Rightarrow> nat \<Rightarrow> nat \<Rightarrow> db \<Rightarrow> data_listing list \<times> nat" where
  "browse_listings industry region data_type limit offset s =
     (let rows = filter is_active_listing (data_listings s);
          rows = (case industry of Some i \<Rightarrow> if i = [] then rows else filter (\<lambda>l. dl_industry l = i) rows | None \<Rightarrow> rows);
          rows = (case region of Some i \<Rightarrow> if i = [] then rows else filter (\<lambda>l. dl_region l = i) rows | None \<Rightarrow> rows);
          rows = (case data_type of Some t \<Rightarrow> filter (\<lambda>l. dl_data_type l = t) rows | None \<Rightarrow> rows)
      in page dl_created_at limit offset rows)"

definition find_listing :: "ident \<Rightarrow> db \<Rightarrow> data_listing option res" where
  "find_listing listing_id s =
     scalar_one_or_none (filter (\<lambda>l. dl_id l = listing_id \<and> is_active_listing l) (data_listings s))"

definition get_listing_by_id :: "ident \<Rightarrow> (db, data_listing option) sres" where
  "get_listing_by_id listing_id s = lift_s (find_listing listing_id s) s"

section \<open>Purchases\<close>

definition purchases_of :: "ident \<Rightarrow> ident \<Rightarrow> db \<Rightarrow> data_purchase list" where
  "purchases_of listing_id buyer s =
     filter (\<lambda>p. dp_listing_id p = listing_id \<and> dp_buyer_company_id p = buyer) (data_purchases s)"

text \<open>The flush of a purchase checks the unique constraint on listing and buyer.\<close>

definition insert_purchase :: "ident \<Rightarrow> ident \<Rightarrow> int \<Rightarrow> (db, data_purchase) sres" where
  "insert_purchase listing_id buyer price =
     bind_s new_id (\<lambda>i.
     bind_s utcnow (\<lambda>now.
     let p = \<lparr>dp_id = i, dp_listing_id = listing_id, dp_buyer_company_id = buyer, dp_price_credits = price,
              dp_created_at = now\<rparr>
     in (\<lambda>s. if purchases_of listing_id buyer s \<noteq> [] then Inl (ValueError ''Already purchased this listing'')
             else Inr (p, s\<lparr>data_purchases := data_purchases s @ [p]\<rparr>))))"

definition pay :: "ident \<Rightarrow> ident \<Rightarrow> int \<Rightarrow> (db, credit_entry) sres" where
  "pay buyer seller price =
     bind_s (deduct_credits buyer price Marketplace_Purchase_Usage) (\<lambda>_.
     grant_credits seller price Marketplace_Sale)"

definition purchase_listing :: "ident \<Rightarrow> ident \<Rightarrow> (db, data_purchase) sres" where
  "purchase_listing listing_id buyer s =
     bind_s (get_listing_by_id listing_id) (\<lambda>found.
     case found of
       None \<Rightarrow> raise_s (ValueError ''Listing not found or no longer available'')
     | Some listing \<Rightarrow>
         if dl_seller_company_id listing = buyer then raise_s (ValueError ''Cannot purchase your own listing'')
         else
           bind_s (lift_s (scalar_one_or_none (purchases_of listing_id buyer s))) (\<lambda>existing.
           if existing \<noteq> None then raise_s (ValueError ''Already purchased this listing'')
           else
             bind_s (insert_purchase listing_id buyer (dl_price_credits listing)) (\<lambda>purchase.
             if 0 < dl_price_credits listing then
               bind_s (pay buyer (dl_seller_company_id listing) (dl_price_credits listing)) (\<lambda>_. return_s purchase)
             else return_s purchase))) s"

definition list_my_listings :: "ident \<Rightarrow> nat \<Rightarrow> nat \<Rightarrow> db \<Rightarrow> data_listing list \<times> nat" where
  "list_my_listings c limit offset s =
     page dl_created_at limit offset
       (filter (\<lambda>l. dl_seller_company_id l = c \<and> dl_deleted_at l = None) (data_listings s))"

definition withdraw_listing :: "ident \<Rightarrow> ident \<Rightarrow> (db, data_listing option) sres" where
  "withdraw_listing listing_id c s =
     bind_s (lift_s (scalar_one_or_none (filter
       (\<lambda>l. dl_id l = listing_id \<and> dl_seller_company_id l = c \<and> is_active_listing l) (data_listings s)))) (\<lambda>found.
     case found of
       None \<Rightarrow> return_s None
     | Some listing \<Rightarrow>
         bind_s (modify_s (\<lambda>s. s\<lparr>data_listings :=
           update_row dl_id listing_id (\<lambda>l. l\<lparr>dl_status := Listing_Withdrawn\<rparr>) (data_listings s)\<rparr>)) (\<lambda>_.
         return_s (Some (listing\<lparr>dl_status := Listing_Withdrawn\<rparr>)))) s"

text \<open>The join of purchases and listings, restricted to one seller.\<close>

definition sales_of :: "ident \<Rightarrow> db \<Rightarrow> data_purchase list" where
  "sales_of c s =
     concat (map (\<lambda>p. map (\<lambda>l. p)
       (filter (\<lambda>l. dl_id l = dp_listing_id p \<and> dl_seller_company_id l = c) (data_listings s))) (data_purchases s))"

definition list_my_sales :: "ident \<Rightarrow> nat \<Rightarrow> nat \<Rightarrow> db \<Rightarrow> data_purchase list \<times> nat" where
  "list_my_sales c limit offset s = page dp_created_at limit offset (sales_of c s)"

record seller_revenue =
  total_revenue_credits :: int
  total_sales :: nat
  active_listing_count :: nat

definition get_seller_revenue :: "ident \<Rightarrow> db \<Rightarrow> seller_revenue" where
  "get_seller_revenue c s =
     \<lparr>total_revenue_credits = sum_list (map dp_price_credits (sales_of c s)),
      total_sales = length (sales_of c s),
      active_listing_count =
        length (filter (\<lambda>l. dl_seller_company_id l = c \<and> dl_status l = Listing_Active) (data_listings s))\<rparr>"

section \<open>Purchases are paid for once\<close>

definition market_ok :: "db \<Rightarrow> bool" where
  "market_ok s \<longleftrightarrow> ledger_ok s \<and> distinct (map dl_id (data_listings s)) \<and>
     distinct (map (\<lambda>p. (dp_listing_id p, dp_buyer_company_id p)) (data_purchases s))"

lemma purchases_of_empty:
  "purchases_of l b s = [] \<longleftrightarrow> (l, b) \<notin> set (map (\<lambda>p. (dp_listing_id p, dp_buyer_company_id p)) (data_purchases s))"
  by (auto simp: purchases_of_def filter_empty_conv)

lemma pay_frame:
  assumes "ledger_ok s" "0 \<le> n" "n \<le> balance_of s buyer" "buyer \<noteq> seller"
  shows "\<exists>e s'. pay buyer seller n s = Inr (e, s') \<and> ledger_ok s' \<and> data_listings s' = data_listings s \<and>
    data_purchases s' = data_purchases s \<and> db_next_id s \<le> db_next_id s'"
proof -
  obtain e where 1: "deduct_credits buyer n Marketplace_Purchase_Usage s =
      Inr (e, s\<lparr>db_now := db_now s + 1, db_next_id := db_next_id s + 1, credit_ledger := credit_ledger s @ [e]\<rparr>)"
    "ledger_ok (s\<lparr>db_now := db_now s + 1, db_next_id := db_next_id s + 1, credit_ledger := credit_ledger s @ [e]\<rparr>)"
    using deduct_effect [OF assms(1,3)] by blast
  let ?s1 = "s\<lparr>db_now := db_now s + 1, db_next_id := db_next_id s + 1, credit_ledger := credit_ledger s @ [e]\<rparr>"
  show ?thesis
    using 1 grant_effect [OF 1(2), of seller n Marketplace_Sale] balance_nonneg [OF 1(2), of seller] assms(2)
    by (fastforce simp: pay_def bind_s_def)
qed

text \<open>The runs of a purchase: what the buyer is told, or the new purchase with its payment.\<close>

lemma purchase_cases:
  assumes "market_ok s" "purchase_listing listing_id buyer s = Inr (p, s')"
  obtains listing s1 where
    "find_listing listing_id s = Inr (Some listing)" "dl_seller_company_id listing \<noteq> buyer"
    "purchases_of listing_id buyer s = []"
    "insert_purchase listing_id buyer (dl_price_credits listing) s = Inr (p, s1)"
    "if 0 < dl_price_credits listing
     then \<exists>e. pay buyer (dl_seller_company_id listing) (dl_price_credits listing) s1 = Inr (e, s') else s' = s1"
  using assms(2)
  by (auto simp: purchase_listing_def get_listing_by_id_def bind_s_Inr_iff lift_s_def scalar_one_or_none_None
      split: sum.splits option.splits if_splits)

lemma insert_purchase_effect:
  "insert_purchase listing_id buyer n s = Inr (p, s1) \<Longrightarrow>
   dp_listing_id p = listing_id \<and> dp_buyer_company_id p = buyer \<and> dp_price_credits p = n \<and>
   s1 = s\<lparr>db_next_id := db_next_id s + 1, db_now := db_now s + 1, data_purchases := data_purchases s @ [p]\<rparr>"
  by (auto simp: insert_purchase_def bind_s_Inr_iff Let_def split: if_splits)

lemma purchase_effect:
  assumes "market_ok s" "purchase_listing listing_id buyer s = Inr (p, s')"
  shows "\<exists>listing. find_listing listing_id s = Inr (Some listing) \<and> dl_seller_company_id listing \<noteq> buyer \<and>
    data_purchases s' = data_purchases s @ [p] \<and> data_listings s' = data_listings s \<and>
    dp_listing_id p = listing_id \<and> dp_buyer_company_id p = buyer \<and> dp_price_credits p = dl_price_credits listing \<and>
    market_ok s' \<and>
    (let price = max 0 (dl_price_credits listing); seller = dl_seller_company_id listing
     in price \<le> balance_of s buyer \<and> balance_of s' buyer = balance_of s buyer - price \<and>
        balance_of s' seller = balance_of s seller + price \<and>
        (\<forall>d. d \<noteq> buyer \<longrightarrow> d \<noteq> seller \<longrightarrow> balance_of s' d = balance_of s d))"
proof -
  obtain listing s1 where p: "find_listing listing_id s = Inr (Some listing)" "dl_seller_company_id listing \<noteq> buyer"
    "purchases_of listing_id buyer s = []"
    "insert_purchase listing_id buyer (dl_price_credits listing) s = Inr (p, s1)"
    "if 0 < dl_price_credits listing
     then \<exists>e. pay buyer (dl_seller_company_id listing) (dl_price_credits listing) s1 = Inr (e, s') else s' = s1"
    by (rule purchase_cases [OF assms])
  note i = insert_purchase_effect [OF p(4)]
  have s1: "ledger_ok s1" "balance_of s1 d = balance_of s d" for d
    using i assms(1) by (auto simp: market_ok_def ledger_ok_def company_ledger_def balance_of_def list_all_iff)
  have m1: "market_ok s1"
    using s1(1) i assms(1) p(3) by (auto simp: market_ok_def purchases_of_empty)
  show ?thesis
  proof (cases "0 < dl_price_credits listing")
    case True
    then obtain e where e: "pay buyer (dl_seller_company_id listing) (dl_price_credits listing) s1 = Inr (e, s')"
      using p(5) by auto
    have b: "ledger_ok s' \<and> dl_price_credits listing \<le> balance_of s1 buyer \<and>
      balance_of s' buyer = balance_of s1 buyer - dl_price_credits listing \<and>
      balance_of s' (dl_seller_company_id listing) = balance_of s1 (dl_seller_company_id listing) + dl_price_credits listing \<and>
      (\<forall>d. d \<noteq> buyer \<longrightarrow> d \<noteq> dl_seller_company_id listing \<longrightarrow> balance_of s' d = balance_of s1 d)"
      using credits.payment_cases [OF s1(1) _ p(2) [symmetric] e [unfolded pay_def]] True by simp
    then have "data_listings s' = data_listings s1 \<and> data_purchases s' = data_purchases s1"
      using pay_frame [OF s1(1), of "dl_price_credits listing" buyer "dl_seller_company_id listing"] True p(2) e by auto
    then show ?thesis using b True p i s1 m1 by (auto simp: Let_def market_ok_def)
  next
    case False
    then show ?thesis using p i s1 m1 balance_nonneg [OF s1(1), of buyer] by (auto simp: Let_def)
  qed
qed

text \<open>The refusals: a second purchase, and a purchase beyond the balance.\<close>

lemma purchase_again_refused:
  assumes "purchases_of listing_id buyer s = [p]" "find_listing listing_id s = Inr (Some listing)"
    "dl_seller_company_id listing \<noteq> buyer"
  shows "purchase_listing listing_id buyer s = Inl (ValueError ''Already purchased this listing'')"
  using assms by (simp add: purchase_listing_def get_listing_by_id_def bind_s_def)

lemma purchase_too_expensive:
  assumes "market_ok s" "purchases_of listing_id buyer s = []" "find_listing listing_id s = Inr (Some listing)"
    "dl_seller_company_id listing \<noteq> buyer" "0 < dl_price_credits listing" "balance_of s buyer < dl_price_credits listing"
  shows "purchase_listing listing_id buyer s =
    Inl (InsufficientCredits (balance_of s buyer) (dl_price_credits listing))"
proof -
  obtain p s1 where i: "insert_purchase listing_id buyer (dl_price_credits listing) s = Inr (p, s1)"
    using assms(2) by (simp add: insert_purchase_def bind_s_def Let_def purchases_of_def)
  have s1: "ledger_ok s1" "balance_of s1 d = balance_of s d" for d
    using insert_purchase_effect [OF i] assms(1)
    by (auto simp: market_ok_def ledger_ok_def company_ledger_def balance_of_def list_all_iff)
  have "pay buyer (dl_seller_company_id listing) (dl_price_credits listing) s1 =
      Inl (InsufficientCredits (balance_of s buyer) (dl_price_credits listing))"
    using credits.payment_refused [OF s1(1)] s1(2) assms(6) by (simp add: pay_def)
  then show ?thesis
    using assms i by (simp add: purchase_listing_def get_listing_by_id_def bind_s_def)
qed

text \<open>The seller's revenue grows by the price.\<close>

lemma find_listing_row:
  "find_listing l s = Inr (Some listing) \<Longrightarrow> listing \<in> set (data_listings s) \<and> dl_id listing = l \<and> is_active_listing listing"
  by (auto simp: find_listing_def scalar_one_or_none_Some dest!: filter_single)

lemma listing_join:
  assumes "distinct (map dl_id ls)" "listing \<in> set ls"
  shows "filter (\<lambda>l. dl_id l = dl_id listing \<and> dl_seller_company_id l = c) ls =
    (if dl_seller_company_id listing = c then [listing] else [])"
proof -
  have u: "l = listing" if "l \<in> set ls" "dl_id l = dl_id listing" for l
    using that assms by (metis distinct_map inj_onD)
  consider "filter (\<lambda>l. dl_id l = dl_id listing \<and> dl_seller_company_id l = c) ls = []"
    | r where "filter (\<lambda>l. dl_id l = dl_id listing \<and> dl_seller_company_id l = c) ls = [r]"
    using distinct_key_filter [OF assms(1), of "dl_id listing" "\<lambda>l. dl_seller_company_id l = c"] by blast
  then show ?thesis
  proof cases
    case 1
    then show ?thesis using assms(2) by (auto simp: filter_empty_conv)
  next
    case 2
    then have "r \<in> set ls \<and> dl_id r = dl_id listing \<and> dl_seller_company_id r = c"
      by (auto dest: filter_single)
    then show ?thesis using 2 u by auto
  qed
qed

lemma revenue_effect:
  assumes "market_ok s" "purchase_listing listing_id buyer s = Inr (p, s')" "find_listing listing_id s = Inr (Some listing)"
  shows "total_revenue_credits (get_seller_revenue c s') = total_revenue_credits (get_seller_revenue c s) +
    (if c = dl_seller_company_id listing then dl_price_credits listing else 0)"
    "total_sales (get_seller_revenue c s') = total_sales (get_seller_revenue c s) +
    (if c = dl_seller_company_id listing then 1 else 0)"
proof -
  have e: "data_purchases s' = data_purchases s @ [p]" "data_listings s' = data_listings s" "dp_listing_id p = listing_id"
    "dp_price_credits p = dl_price_credits listing"
    using purchase_effect [OF assms(1,2)] assms(3) by auto
  have "listing \<in> set (data_listings s)" "dl_id listing = listing_id" using find_listing_row [OF assms(3)] by auto
  then have "sales_of c s' = sales_of c s @ (if c = dl_seller_company_id listing then [p] else [])"
    using listing_join [of "data_listings s" listing c] assms(1) e by (simp add: sales_of_def market_ok_def)
  then show "total_revenue_credits (get_seller_revenue c s') = total_revenue_credits (get_seller_revenue c s) +
    (if c = dl_seller_company_id listing then dl_price_credits listing else 0)"
    "total_sales (get_seller_revenue c s') = total_sales (get_seller_revenue c s) +
    (if c = dl_seller_company_id listing then 1 else 0)"
    using e by (simp_all add: get_seller_revenue_def)
qed

text \<open>A withdrawn listing can no longer be found or bought.\<close>

lemma withdrawn_unavailable:
  assumes "market_ok s" "withdraw_listing listing_id c s = Inr (Some l, s')"
  shows "find_listing listing_id s' = Inr None"
    "purchase_listing listing_id buyer s' = Inl (ValueError ''Listing not found or no longer available'')"
proof -
  have "data_listings s' = update_row dl_id listing_id (\<lambda>l. l\<lparr>dl_status := Listing_Withdrawn\<rparr>) (data_listings s)"
    using assms(2) by (fastforce simp: withdraw_listing_def bind_s_Inr_iff split: option.splits)
  then have im: "set (data_listings s') = (\<lambda>r. if dl_id r = listing_id then r\<lparr>dl_status := Listing_Withdrawn\<rparr> else r) ` set (data_listings s)"
    by (simp add: update_row_def)
  have "\<not> (dl_id x = listing_id \<and> is_active_listing x)" if x: "x \<in> set (data_listings s')" for x
  proof -
    obtain y :: data_listing where "x = (if dl_id y = listing_id then y\<lparr>dl_status := Listing_Withdrawn\<rparr> else y)"
      using x unfolding im by (elim imageE)
    then show ?thesis by (cases "dl_id y = listing_id") (simp_all add: is_active_listing_def)
  qed
  then have "filter (\<lambda>l. dl_id l = listing_id \<and> is_active_listing l) (data_listings s') = []"
    unfolding filter_empty_conv by blast
  then show f: "find_listing listing_id s' = Inr None" by (simp add: find_listing_def)
  then show "purchase_listing listing_id buyer s' = Inl (ValueError ''Listing not found or no longer available'')"
    by (simp add: purchase_listing_def get_listing_by_id_def bind_s_def)
qed

end
