(* ===== verification/Reviews.thy ===== *)
theory Reviews
imports Models
begin

text \<open>
  \<open>api/services/reviews.py\<close>: the approval workflow of emission reports as a state machine. A
  \<open>ReviewError\<close> is a \<open>ServiceError\<close> with its message and status code.
\<close>

definition create_review :: "ident \<Rightarrow> ident \<Rightarrow> (db, data_review) sres" where
  "create_review report_id c s =
     bind_s (lift_s (scalar_one_or_none (filter
       (\<lambda>r. er_id r = report_id \<and> er_company_id r = c \<and> er_deleted_at r = None) (emission_reports s)))) (\<lambda>report.
     if report = None then raise_s (ServiceError ''Report not found'' 404)
     else bind_s (lift_s (scalar_one_or_none (filter (\<lambda>r. dr_report_id r = report_id) (data_reviews s)))) (\<lambda>existing.
       if existing \<noteq> None then raise_s (ServiceError ''Review already exists for this report'' 409)
       else
         bind_s new_id (\<lambda>i.
         bind_s utcnow (\<lambda>now.
         let review = \<lparr>dr_id = i, dr_report_id = report_id, dr_company_id = c, dr_status = Draft,
               dr_submitted_by = None, dr_reviewed_by = None, dr_submitted_at = None, dr_reviewed_at = None,
               dr_review_notes = None, dr_created_at = now\<rparr>
         in bind_s (modify_s (\<lambda>s. s\<lparr>data_reviews := data_reviews s @ [review]\<rparr>)) (\<lambda>_. return_s review))))) s"

definition list_reviews :: "ident \<Rightarrow> review_status option \<Rightarrow> nat \<Rightarrow> nat \<Rightarrow> db \<Rightarrow> data_review list \<times> nat" where
  "list_reviews c status_filter limit offset s =
     (let rows = filter (\<lambda>r. dr_company_id r = c) (data_reviews s);
          rows = (case status_filter of Some st \<Rightarrow> filter (\<lambda>r. dr_status r = st) rows | None \<Rightarrow> rows)
      in page dr_created_at limit offset rows)"

definition get_review :: "ident \<Rightarrow> ident \<Rightarrow> (db, data_review) sres" where
  "get_review review_id c s =
     bind_s (lift_s (scalar_one_or_none (filter (\<lambda>r. dr_id r = review_id \<and> dr_company_id r = c) (data_reviews s))))
       (\<lambda>found. case found of Some r \<Rightarrow> return_s r | None \<Rightarrow> raise_s (ServiceError ''Review not found'' 404)) s"

text \<open>One transition; \<open>now\<close> is the time read at its start.\<close>

definition review_transition ::
    "string \<Rightarrow> ident \<Rightarrow> string \<Rightarrow> string option \<Rightarrow> timestamp \<Rightarrow> data_review \<Rightarrow> data_review res" where
  "review_transition action user_id user_role notes now r =
     (if action = ''submit'' then
        if dr_status r \<notin> {Draft, Rejected}
        then Inl (ServiceError ''Can only submit from draft or rejected status'' 400)
        else Inr (r\<lparr>dr_status := Submitted, dr_submitted_by := Some user_id, dr_submitted_at := Some now,
                    dr_reviewed_by := None, dr_reviewed_at := None, dr_review_notes := None\<rparr>)
      else if action = ''approve'' then
        if user_role \<noteq> ''admin'' then Inl (ServiceError ''Only admins can approve reviews'' 403)
        else if dr_status r \<notin> {Submitted, In_Review}
        then Inl (ServiceError ''Can only approve submitted or in-review items'' 400)
        else Inr (r\<lparr>dr_status := Approved, dr_reviewed_by := Some user_id, dr_reviewed_at := Some now,
                    dr_review_notes := notes\<rparr>)
      else if action = ''reject'' then
        if user_role \<noteq> ''admin'' then Inl (ServiceError ''Only admins can reject reviews'' 403)
        else if dr_status r \<notin> {Submitted, In_Review}
        then Inl (ServiceError ''Can only reject submitted or in-review items'' 400)
        else Inr (r\<lparr>dr_status := Rejected, dr_reviewed_by := Some user_id, dr_reviewed_at := Some now,
                    dr_review_notes := notes\<rparr>)
      else Inl (ServiceError ''Unknown action'' 400))"

definition perform_action ::
    "data_review \<Rightarrow> string \<Rightarrow> ident \<Rightarrow> string \<Rightarrow> string option \<Rightarrow> (db, data_review) sres" where
  "perform_action review action user_id user_role notes =
     bind_s utcnow (\<lambda>now.
     bind_s (lift_s (review_transition action user_id user_role notes now review)) (\<lambda>review'.
     bind_s (modify_s (\<lambda>s. s\<lparr>data_reviews := update_row dr_id (dr_id review) (\<lambda>_. review') (data_reviews s)\<rparr>))
       (\<lambda>_. return_s review')))"

section \<open>The workflow as a step relation\<close>

text \<open>The states a review goes through from its creation, with the actor of each step.\<close>

inductive review_step :: "data_review \<Rightarrow> data_review \<Rightarrow> bool" where
  act: "review_transition action user_id user_role notes now r = Inr r' \<Longrightarrow> review_step r r'"

inductive review_reachable :: "data_review \<Rightarrow> bool" where
  created: "dr_status r = Draft \<Longrightarrow> dr_submitted_by r = None \<Longrightarrow> dr_reviewed_by r = None \<Longrightarrow>
    dr_submitted_at r = None \<Longrightarrow> dr_reviewed_at r = None \<Longrightarrow> dr_review_notes r = None \<Longrightarrow> review_reachable r"
| step: "review_reachable r \<Longrightarrow> review_step r r' \<Longrightarrow> review_reachable r'"

inductive_cases review_stepE: "review_step r r'"

text \<open>The abstract workflow: the moves between states.\<close>

fun allowed_move :: "review_status \<Rightarrow> review_status \<Rightarrow> bool" where
  "allowed_move Draft Submitted = True"
| "allowed_move Rejected Submitted = True"
| "allowed_move Submitted Approved = True"
| "allowed_move Submitted Rejected = True"
| "allowed_move In_Review Approved = True"
| "allowed_move In_Review Rejected = True"
| "allowed_move _ _ = False"

lemma transition_moves:
  "review_transition action u role notes now r = Inr r' \<Longrightarrow> allowed_move (dr_status r) (dr_status r')"
  by (cases "dr_status r") (auto simp: review_transition_def split: if_splits)

lemma transition_keeps:
  "review_transition action u role notes now r = Inr r' \<Longrightarrow>
   dr_id r' = dr_id r \<and> dr_report_id r' = dr_report_id r \<and> dr_company_id r' = dr_company_id r"
  by (auto simp: review_transition_def split: if_splits)

lemma approval_needs_admin:
  "review_transition action u role notes now r = Inr r' \<Longrightarrow> dr_status r' \<in> {Approved, Rejected} \<Longrightarrow>
   role = ''admin'' \<and> dr_reviewed_by r' = Some u"
  by (auto simp: review_transition_def split: if_splits)

lemma approved_is_final:
  "dr_status r = Approved \<Longrightarrow> \<exists>e. review_transition action u role notes now r = Inl e"
  by (auto simp: review_transition_def)

text \<open>What holds of every reachable review: who has acted agrees with the status, and \<open>in_review\<close> never occurs.\<close>

definition review_ok :: "data_review \<Rightarrow> bool" where
  "review_ok r \<longleftrightarrow> dr_status r \<noteq> In_Review \<and>
     (dr_status r = Draft \<longrightarrow> dr_submitted_by r = None) \<and>
     (dr_status r \<noteq> Draft \<longrightarrow> dr_submitted_by r \<noteq> None \<and> dr_submitted_at r \<noteq> None) \<and>
     (dr_status r \<in> {Approved, Rejected} \<longleftrightarrow> dr_reviewed_by r \<noteq> None) \<and>
     (dr_reviewed_by r \<noteq> None \<longleftrightarrow> dr_reviewed_at r \<noteq> None)"

lemma review_ok_step: "review_step r r' \<Longrightarrow> review_ok r \<Longrightarrow> review_ok r'"
  by (erule review_stepE) (auto simp: review_transition_def review_ok_def split: if_splits)

lemma reachable_ok: "review_reachable r \<Longrightarrow> review_ok r"
proof (induction rule: review_reachable.induct)
  case (created r)
  then show ?case by (simp add: review_ok_def)
next
  case (step r r')
  then show ?case by (blast intro: review_ok_step)
qed

text \<open>The service creates reviews in the initial state, one for each report.\<close>

lemma created_reachable: "create_review report_id c s = Inr (r, s') \<Longrightarrow> review_reachable r"
  by (auto simp: create_review_def bind_s_Inr_iff Let_def intro!: created split: if_splits)

definition reviews_ok :: "db \<Rightarrow> bool" where
  "reviews_ok s \<longleftrightarrow> distinct (map dr_report_id (data_reviews s)) \<and> distinct (map dr_id (data_reviews s)) \<and>
     list_all (\<lambda>r. dr_id r < db_next_id s \<and> review_reachable r) (data_reviews s)"

lemma create_review_ok:
  assumes "reviews_ok s" "create_review report_id c s = Inr (r, s')"
  shows "reviews_ok s'"
proof -
  have s': "data_reviews s' = data_reviews s @ [r]" "db_next_id s' = Suc (db_next_id s)" "dr_id r = db_next_id s"
    "dr_report_id r = report_id" "filter (\<lambda>r. dr_report_id r = report_id) (data_reviews s) = []"
    using assms(2) by (auto simp: create_review_def bind_s_Inr_iff Let_def scalar_one_or_none_None split: if_splits)
  then have "report_id \<notin> dr_report_id ` set (data_reviews s)" by (auto simp: filter_empty_conv)
  moreover have "db_next_id s \<notin> dr_id ` set (data_reviews s)"
    using assms(1) by (auto simp: reviews_ok_def dest: fresh_id)
  ultimately show ?thesis
    using assms(1) s' created_reachable [OF assms(2)] by (simp add: reviews_ok_def list_all_iff less_SucI)
qed

lemma perform_action_run:
  assumes "perform_action review action u role notes s = Inr (r, s')"
  shows "review_transition action u role notes (db_now s) review = Inr r"
    "s' = s\<lparr>db_now := db_now s + 1, data_reviews := update_row dr_id (dr_id review) (\<lambda>_. r) (data_reviews s)\<rparr>"
  using assms
  by (cases "review_transition action u role notes (db_now s) review"; simp add: perform_action_def bind_s_def)+

lemma perform_action_ok:
  assumes "reviews_ok s" "review \<in> set (data_reviews s)" "perform_action review action u role notes s = Inr (r, s')"
  shows "reviews_ok s' \<and> review_step review r \<and> allowed_move (dr_status review) (dr_status r)"
proof -
  have t: "review_transition action u role notes (db_now s) review = Inr r"
    and s': "s' = s\<lparr>db_now := db_now s + 1, data_reviews := update_row dr_id (dr_id review) (\<lambda>_. r) (data_reviews s)\<rparr>"
    using perform_action_run [OF assms(3)] by blast+
  have st: "review_step review r" using t by (rule act)
  have u: "x = review" if "x \<in> set (data_reviews s)" "dr_id x = dr_id review" for x
    using that assms(1,2) unfolding reviews_ok_def distinct_map by (blast dest: inj_onD)
  have m: "map dr_report_id (data_reviews s') = map dr_report_id (data_reviews s)" "map dr_id (data_reviews s') = map dr_id (data_reviews s)"
    using transition_keeps [OF t] u by (auto simp: s' update_row_def)
  have "review_reachable r"
    using assms(1,2) st by (auto simp: reviews_ok_def list_all_iff intro: review_reachable.step)
  then have "list_all (\<lambda>r. dr_id r < db_next_id s' \<and> review_reachable r) (data_reviews s')"
    using assms(1,2) transition_keeps [OF t] by (auto simp: reviews_ok_def list_all_iff s' update_row_def)
  then show ?thesis
    using assms(1) st transition_moves [OF t] unfolding reviews_ok_def m by simp
qed

end
