(* ===== verification/Supply_Chain.thy ===== *)
theory Supply_Chain
imports Models Float_Order
begin

text \<open>
  \<open>api/services/supply_chain.py\<close>: links between buyers and suppliers and the emissions a buyer
  inherits from verified suppliers. Rows ordered by company name are compared by character code.
\<close>

section \<open>Links\<close>

definition live_links :: "(supply_chain_link \<Rightarrow> bool) \<Rightarrow> db \<Rightarrow> supply_chain_link list" where
  "live_links P s = filter (\<lambda>l. P l \<and> scl_deleted_at l = None) (supply_chain_links s)"

text \<open>
  The commit of a new link checks the unique constraint on buyer and supplier, which counts deleted
  rows too; the violation is not caught.
\<close>

definition create_link ::
    "ident \<Rightarrow> ident \<Rightarrow> flt option \<Rightarrow> string \<Rightarrow> string option \<Rightarrow> (db, supply_chain_link) sres" where
  "create_link buyer supplier spend_usd category notes s =
     (if buyer = supplier then Inl (ValueError ''A company cannot be its own supplier'')
      else bind_s (lift_s (scalar_one_or_none
          (live_links (\<lambda>l. scl_buyer_company_id l = buyer \<and> scl_supplier_company_id l = supplier) s))) (\<lambda>existing.
        if existing \<noteq> None then raise_s (ValueError ''Supply chain link already exists'')
        else bind_s new_id (\<lambda>i.
          bind_s utcnow (\<lambda>now.
          let link = \<lparr>scl_id = i, scl_buyer_company_id = buyer, scl_supplier_company_id = supplier,
                scl_spend_usd = spend_usd, scl_category = category, scl_status = Link_Pending,
                scl_notes = notes, scl_created_at = now, scl_deleted_at = None\<rparr>
          in (\<lambda>s. if list_ex (\<lambda>l. scl_buyer_company_id l = buyer \<and> scl_supplier_company_id l = supplier)
                       (supply_chain_links s)
                  then Inl IntegrityError
                  else Inr (link, s\<lparr>supply_chain_links := supply_chain_links s @ [link]\<rparr>))))) s)"

definition find_link :: "ident \<Rightarrow> ident \<Rightarrow> db \<Rightarrow> supply_chain_link option res" where
  "find_link link_id buyer s = scalar_one_or_none
     (live_links (\<lambda>l. scl_id l = link_id \<and> scl_buyer_company_id l = buyer) s)"

definition get_link :: "ident \<Rightarrow> ident \<Rightarrow> (db, supply_chain_link option) sres" where
  "get_link link_id buyer s = lift_s (find_link link_id buyer s) s"

definition remove_link :: "ident \<Rightarrow> ident \<Rightarrow> (db, bool) sres" where
  "remove_link link_id c s =
     bind_s (lift_s (find_link link_id c s)) (\<lambda>found.
     if found = None then return_s False
     else bind_s utcnow (\<lambda>now.
       bind_s (modify_s (\<lambda>s. s\<lparr>supply_chain_links :=
         update_row scl_id link_id (\<lambda>l. l\<lparr>scl_deleted_at := Some now\<rparr>) (supply_chain_links s)\<rparr>)) (\<lambda>_.
       return_s True))) s"

definition update_link_status ::
    "ident \<Rightarrow> ident \<Rightarrow> supply_chain_status \<Rightarrow> (db, supply_chain_link option) sres" where
  "update_link_status link_id c status s =
     bind_s (lift_s (find_link link_id c s)) (\<lambda>found.
     case found of
       None \<Rightarrow> return_s None
     | Some link \<Rightarrow>
         bind_s (modify_s (\<lambda>s. s\<lparr>supply_chain_links :=
           update_row scl_id link_id (\<lambda>l. l\<lparr>scl_status := status\<rparr>) (supply_chain_links s)\<rparr>)) (\<lambda>_.
         return_s (Some (link\<lparr>scl_status := status\<rparr>)))) s"

section \<open>Joins\<close>

text \<open>The reports of a company in the scope of a query, and those created at the latest time.\<close>

definition reports_of :: "ident \<Rightarrow> int option \<Rightarrow> db \<Rightarrow> emission_report list" where
  "reports_of c year s = filter (\<lambda>r. er_company_id r = c \<and> er_deleted_at r = None \<and>
     (case year of Some y \<Rightarrow> y \<noteq> 0 \<longrightarrow> er_year r = y | None \<Rightarrow> True)) (emission_reports s)"

definition latest_reports :: "ident \<Rightarrow> int option \<Rightarrow> db \<Rightarrow> emission_report list" where
  "latest_reports c year s =
     (let rows = reports_of c year s
      in filter (\<lambda>r. list_all (\<lambda>r'. er_created_at r' \<le> er_created_at r) rows) rows)"

text \<open>A left outer join pads with \<open>None\<close>.\<close>

definition outer :: "'a list \<Rightarrow> 'a option list" where
  "outer rows = (if rows = [] then [None] else map Some rows)"

definition companies_with_id :: "ident \<Rightarrow> db \<Rightarrow> company list" where
  "companies_with_id c s = filter (\<lambda>co. co_id co = c) (companies s)"

fun name_le :: "string \<Rightarrow> string \<Rightarrow> bool" where
  "name_le [] _ = True"
| "name_le (a # as) [] = False"
| "name_le (a # as) (b # bs) =
     (let x = of_char a :: nat; y = of_char b in x < y \<or> x = y \<and> name_le as bs)"

fun insert_by_name :: "('a \<Rightarrow> string) \<Rightarrow> 'a \<Rightarrow> 'a list \<Rightarrow> 'a list" where
  "insert_by_name f x [] = [x]"
| "insert_by_name f x (y # ys) = (if name_le (f x) (f y) then x # y # ys else y # insert_by_name f x ys)"

definition order_by_name :: "('a \<Rightarrow> string) \<Rightarrow> 'a list \<Rightarrow> 'a list" where
  "order_by_name f rows = foldr (insert_by_name f) rows []"

definition list_suppliers ::
    "ident \<Rightarrow> nat \<Rightarrow> nat \<Rightarrow> db \<Rightarrow> (supply_chain_link \<times> company \<times> emission_report option) list \<times> nat" where
  "list_suppliers buyer limit offset s =
     (let links = live_links (\<lambda>l. scl_buyer_company_id l = buyer) s;
          rows = concat (map (\<lambda>l. concat (map (\<lambda>co. map (\<lambda>r. (l, co, r))
            (outer (latest_reports (scl_supplier_company_id l) None s)))
            (companies_with_id (scl_supplier_company_id l) s))) links)
      in (paginate limit offset (order_by_name (\<lambda>(l, co, r). co_name co) rows), length links))"

definition list_buyers ::
    "ident \<Rightarrow> nat \<Rightarrow> nat \<Rightarrow> db \<Rightarrow> (supply_chain_link \<times> company) list \<times> nat" where
  "list_buyers supplier limit offset s =
     (let links = live_links (\<lambda>l. scl_supplier_company_id l = supplier) s;
          rows = concat (map (\<lambda>l. map (\<lambda>co. (l, co)) (companies_with_id (scl_buyer_company_id l) s)) links)
      in (paginate limit offset (order_by_name (\<lambda>(l, co). co_name co) rows), length links))"

section \<open>Inherited emissions\<close>

record supplier_detail =
  sd_supplier :: ident
  sd_scope1 :: flt
  sd_scope2 :: flt
  sd_attributed :: flt
  sd_spend :: "flt option"
  sd_year :: int

record supplier_scope3 =
  ss_cat1 :: flt
  ss_supplier_count :: nat
  ss_verified_count :: nat
  ss_coverage_pct :: flt
  ss_details :: "supplier_detail list"

definition verified_rows :: "ident \<Rightarrow> int option \<Rightarrow> db \<Rightarrow> (supply_chain_link \<times> emission_report option) list" where
  "verified_rows buyer year s =
     concat (map (\<lambda>l. map (\<lambda>r. (l, r)) (outer (latest_reports (scl_supplier_company_id l) year s)))
       (live_links (\<lambda>l. scl_buyer_company_id l = buyer \<and> scl_status l = Link_Verified) s))"

definition spend_or_zero :: "supply_chain_link \<Rightarrow> flt" where
  "spend_or_zero l = (case scl_spend_usd l of None \<Rightarrow> 0 | Some x \<Rightarrow> if feq x 0 then 0 else x)"

definition attributed_emissions :: "flt \<Rightarrow> supply_chain_link \<Rightarrow> emission_report \<Rightarrow> flt" where
  "attributed_emissions total_spend l r =
     (let supplier_emissions = er_scope1 r + er_scope2 r
      in case scl_spend_usd l of
           Some spend \<Rightarrow>
             if \<not> feq spend 0 \<and> 0 < total_spend then supplier_emissions * (spend / total_spend)
             else supplier_emissions
         | None \<Rightarrow> supplier_emissions)"

fun attribute_rows ::
    "flt \<Rightarrow> (supply_chain_link \<times> emission_report option) list \<Rightarrow> flt \<times> supplier_detail list \<Rightarrow> flt \<times> supplier_detail list" where
  "attribute_rows total_spend [] acc = acc"
| "attribute_rows total_spend ((l, None) # rows) acc = attribute_rows total_spend rows acc"
| "attribute_rows total_spend ((l, Some r) # rows) (cat1, details) =
     (let attributed = attributed_emissions total_spend l r
      in attribute_rows total_spend rows (cat1 + attributed, details @
           [\<lparr>sd_supplier = scl_supplier_company_id l, sd_scope1 = er_scope1 r, sd_scope2 = er_scope2 r,
             sd_attributed = py_round attributed 2, sd_spend = scl_spend_usd l, sd_year = er_year r\<rparr>]))"

definition coverage_pct :: "nat \<Rightarrow> nat \<Rightarrow> flt" where
  "coverage_pct n all_count =
     py_round (flt_of_int (int n) / flt_of_int (max (int all_count) 1) * Fin 100) 1"

definition calc_supplier_scope3 :: "ident \<Rightarrow> int option \<Rightarrow> db \<Rightarrow> supplier_scope3" where
  "calc_supplier_scope3 buyer year s =
     (let rows = verified_rows buyer year s;
          all_count = length (live_links (\<lambda>l. scl_buyer_company_id l = buyer) s)
      in if rows = [] then
           \<lparr>ss_cat1 = 0, ss_supplier_count = all_count, ss_verified_count = 0, ss_coverage_pct = 0, ss_details = []\<rparr>
         else
           let total_spend = py_sum (map (\<lambda>(l, r). spend_or_zero l) rows);
               (cat1, details) = attribute_rows total_spend rows (0, [])
           in \<lparr>ss_cat1 = py_round cat1 2, ss_supplier_count = all_count, ss_verified_count = length rows,
               ss_coverage_pct = coverage_pct (length rows) all_count, ss_details = details\<rparr>)"

section \<open>Links stay unique and honest\<close>

definition links_ok :: "db \<Rightarrow> bool" where
  "links_ok s \<longleftrightarrow> distinct (map (\<lambda>l. (scl_buyer_company_id l, scl_supplier_company_id l)) (supply_chain_links s)) \<and>
     distinct (map scl_id (supply_chain_links s)) \<and>
     list_all (\<lambda>l. scl_id l < db_next_id s \<and> scl_buyer_company_id l \<noteq> scl_supplier_company_id l) (supply_chain_links s)"

lemma create_link_run:
  assumes "create_link buyer supplier spend category notes s = Inr (l, s')"
  shows "buyer \<noteq> supplier" "(buyer, supplier) \<notin> (\<lambda>l. (scl_buyer_company_id l, scl_supplier_company_id l)) ` set (supply_chain_links s)"
    "scl_id l = db_next_id s" "scl_status l = Link_Pending" "scl_deleted_at l = None"
    "scl_buyer_company_id l = buyer" "scl_supplier_company_id l = supplier"
    "s' = s\<lparr>db_next_id := db_next_id s + 1, db_now := db_now s + 1, supply_chain_links := supply_chain_links s @ [l]\<rparr>"
  using assms by (auto simp: create_link_def bind_s_Inr_iff Let_def list_ex_iff split: if_splits)

lemma create_link_ok:
  assumes "links_ok s" "create_link buyer supplier spend category notes s = Inr (l, s')"
  shows "links_ok s'"
proof -
  note r = create_link_run [OF assms(2)]
  have "db_next_id s \<notin> scl_id ` set (supply_chain_links s)"
    using assms(1) by (auto simp: links_ok_def dest: fresh_id)
  then show ?thesis using assms(1) r by (auto simp: links_ok_def list_all_iff less_SucI)
qed

lemma remove_link_run:
  "remove_link link_id c s = Inr (True, s') \<Longrightarrow>
   \<exists>l. find_link link_id c s = Inr (Some l) \<and> s' = s\<lparr>db_now := db_now s + 1, supply_chain_links :=
     update_row scl_id link_id (\<lambda>l. l\<lparr>scl_deleted_at := Some (db_now s)\<rparr>) (supply_chain_links s)\<rparr>"
  by (auto simp: remove_link_def bind_s_Inr_iff split: if_splits)

lemma remove_link_ok:
  assumes "links_ok s" "remove_link link_id c s = Inr (b, s')"
  shows "links_ok s'"
proof (cases b)
  case True
  have "s' = s\<lparr>db_now := db_now s + 1, supply_chain_links :=
     update_row scl_id link_id (\<lambda>l. l\<lparr>scl_deleted_at := Some (db_now s)\<rparr>) (supply_chain_links s)\<rparr>"
    using remove_link_run [of link_id c s s'] assms(2) True by auto
  then show ?thesis using assms(1) by (auto simp: links_ok_def list_all_iff) (auto simp: update_row_def)
next
  case False
  then have "s' = s" using assms(2) by (auto simp: remove_link_def bind_s_Inr_iff split: if_splits)
  then show ?thesis using assms(1) by simp
qed

lemma update_status_ok:
  assumes "links_ok s" "update_link_status link_id c st s = Inr (m, s')"
  shows "links_ok s'"
  using assms
  by (auto simp: update_link_status_def bind_s_Inr_iff links_ok_def list_all_iff split: option.splits)
    (auto simp: update_row_def)

text \<open>
  A removed link can never be made again: the soft-deleted row still holds the pair of the unique
  constraint, and the error is not the documented \<open>ValueError\<close>.
\<close>

lemma removed_link_blocks:
  assumes "links_ok s" "find_link link_id buyer s = Inr (Some l)" "remove_link link_id buyer s = Inr (True, s')"
  shows "create_link buyer (scl_supplier_company_id l) spend category notes s' = Inl IntegrityError"
proof -
  let ?sup = "scl_supplier_company_id l"
  have l: "l \<in> set (supply_chain_links s)" "scl_id l = link_id" "scl_buyer_company_id l = buyer"
    using assms(2) by (auto simp: find_link_def live_links_def scalar_one_or_none_Some dest!: filter_single)
  obtain l' where s': "s' = s\<lparr>db_now := db_now s + 1, supply_chain_links :=
     update_row scl_id link_id (\<lambda>l. l\<lparr>scl_deleted_at := Some (db_now s)\<rparr>) (supply_chain_links s)\<rparr>"
    using remove_link_run [OF assms(3)] by blast
  have ne: "buyer \<noteq> ?sup" using assms(1) l by (auto simp: links_ok_def list_all_iff)
  have uniq: "x = l" if "x \<in> set (supply_chain_links s)" "scl_buyer_company_id x = buyer" "scl_supplier_company_id x = ?sup" for x
    using that assms(1) l unfolding links_ok_def distinct_map by (auto dest!: inj_onD [of _ _ x l])
  have "scl_deleted_at x \<noteq> None"
    if x: "x \<in> set (supply_chain_links s')" "scl_buyer_company_id x = buyer" "scl_supplier_company_id x = ?sup" for x
  proof -
    obtain y where y: "y \<in> set (supply_chain_links s)" "x = (if scl_id y = link_id then y\<lparr>scl_deleted_at := Some (db_now s)\<rparr> else y)"
      using x(1) by (auto simp: s' update_row_def)
    then have "y = l" using uniq [of y] x(2,3) by (auto split: if_splits)
    then show ?thesis using y l by simp
  qed
  then have "live_links (\<lambda>l. scl_buyer_company_id l = buyer \<and> scl_supplier_company_id l = ?sup) s' = []"
    by (auto simp: live_links_def filter_empty_conv)
  moreover have "list_ex (\<lambda>l. scl_buyer_company_id l = buyer \<and> scl_supplier_company_id l = ?sup) (supply_chain_links s')"
  proof -
    have "l\<lparr>scl_deleted_at := Some (db_now s)\<rparr> \<in> set (supply_chain_links s')"
      using l(1,2) by (auto simp: s' update_row_def intro!: image_eqI [of _ _ l])
    then show ?thesis unfolding list_ex_iff by (rule rev_bexI) (simp add: l(3))
  qed
  ultimately show ?thesis using ne by (simp add: create_link_def bind_s_def Let_def)
qed

section \<open>Inherited emissions\<close>

text \<open>Report times are distinct, so each supplier contributes at most one row.\<close>

definition reports_ok :: "db \<Rightarrow> bool" where
  "reports_ok s \<longleftrightarrow> distinct (map er_created_at (emission_reports s))"

lemma same_key_short:
  assumes "distinct (map k xs)" "\<And>x y. x \<in> set xs \<Longrightarrow> y \<in> set xs \<Longrightarrow> k x = k y"
  shows "length xs \<le> 1"
proof (cases xs)
  case (Cons a ys)
  have "ys = []"
  proof (cases ys)
    case (Cons b zs)
    then show ?thesis using assms(1) assms(2) [of a b] \<open>xs = a # ys\<close> by simp
  qed simp
  then show ?thesis using Cons by simp
qed simp

lemma latest_report_unique:
  assumes "reports_ok s"
  shows "length (latest_reports c year s) \<le> 1"
proof (rule same_key_short [of er_created_at])
  show "distinct (map er_created_at (latest_reports c year s))"
    using assms unfolding latest_reports_def reports_of_def reports_ok_def Let_def
    by (intro distinct_map_filter)
  show "er_created_at x = er_created_at y"
    if "x \<in> set (latest_reports c year s)" "y \<in> set (latest_reports c year s)" for x y
    using that unfolding latest_reports_def Let_def list_all_iff set_filter mem_Collect_eq
    by (intro antisym) blast+
qed

lemma length_filter_mono: "(\<And>x. P x \<Longrightarrow> Q x) \<Longrightarrow> length (filter P xs) \<le> length (filter Q xs)"
  by (induction xs) (auto simp: le_SucI)

lemma verified_at_most_all:
  assumes "reports_ok s"
  shows "length (verified_rows buyer year s) \<le> length (live_links (\<lambda>l. scl_buyer_company_id l = buyer) s)"
proof -
  have one: "length (outer (latest_reports c year s)) = 1" for c
    using latest_report_unique [OF assms, of c year] by (cases "latest_reports c year s") (auto simp: outer_def)
  have "length (verified_rows buyer year s) = length (live_links (\<lambda>l. scl_buyer_company_id l = buyer \<and> scl_status l = Link_Verified) s)"
    by (simp add: verified_rows_def length_concat comp_def one sum_list_triv)
  also have "\<dots> \<le> length (live_links (\<lambda>l. scl_buyer_company_id l = buyer) s)"
    unfolding live_links_def by (rule length_filter_mono) auto
  finally show ?thesis .
qed

end
