(* ===== verification/Alerts.thy ===== *)
theory Alerts
imports Models Float_Order
begin

text \<open>
  \<open>api/services/alerts.py\<close>: alerts on the last two reports of a company. The two thresholds are the
  configuration's; title and message only format the numbers that \<open>al_metadata\<close> carries.
\<close>

record alert_config =
  emission_increase_threshold :: flt
  confidence_drop_threshold :: flt

definition add_alert :: "ident \<Rightarrow> alert_type \<Rightarrow> alert_severity \<Rightarrow> pydict \<Rightarrow> (db, alert) sres" where
  "add_alert c kind severity metadata =
     bind_s new_id (\<lambda>i.
     bind_s utcnow (\<lambda>now.
     let a = \<lparr>al_id = i, al_company_id = c, al_alert_type = kind, al_severity = severity, al_is_read = False,
              al_acknowledged_at = None, al_metadata = metadata, al_created_at = now\<rparr>
     in bind_s (modify_s (\<lambda>s. s\<lparr>alerts := alerts s @ [a]\<rparr>)) (\<lambda>_. return_s a)))"

definition check_increase ::
    "alert_config \<Rightarrow> ident \<Rightarrow> emission_report \<Rightarrow> emission_report \<Rightarrow> (db, alert list) sres" where
  "check_increase cfg c latest previous =
     (if 0 < er_total previous then
        let change_pct = (er_total latest - er_total previous) / er_total previous
        in if emission_increase_threshold cfg < change_pct then
             bind_s (add_alert c Emission_Increase
               (if change_pct < lit (25/100) then Severity_Warning else Severity_Critical)
               [(''previous_total'', PNum (er_total previous)), (''latest_total'', PNum (er_total latest)),
                (''change_pct'', PNum (py_round change_pct 4)),
                (''previous_report_id'', PStr (str_nat (er_id previous))),
                (''latest_report_id'', PStr (str_nat (er_id latest)))]) (\<lambda>a. return_s [a])
           else return_s []
      else return_s [])"

definition check_drop ::
    "alert_config \<Rightarrow> ident \<Rightarrow> emission_report \<Rightarrow> emission_report \<Rightarrow> (db, alert list) sres" where
  "check_drop cfg c latest previous =
     (let confidence_drop = er_confidence previous - er_confidence latest
      in if confidence_drop_threshold cfg < confidence_drop then
           bind_s (add_alert c Confidence_Drop Severity_Info
             [(''previous_confidence'', PNum (er_confidence previous)),
              (''latest_confidence'', PNum (er_confidence latest)),
              (''drop'', PNum (py_round confidence_drop 4))]) (\<lambda>a. return_s [a])
         else return_s [])"

definition last_reports :: "ident \<Rightarrow> db \<Rightarrow> emission_report list" where
  "last_reports c s = take 2 (order_by_desc er_created_at
     (filter (\<lambda>r. er_company_id r = c \<and> er_deleted_at r = None) (emission_reports s)))"

definition check_company_alerts :: "alert_config \<Rightarrow> ident \<Rightarrow> (db, alert list) sres" where
  "check_company_alerts cfg c s =
     (case last_reports c s of
        latest # previous # _ \<Rightarrow>
          bind_s (check_increase cfg c latest previous) (\<lambda>a.
          bind_s (check_drop cfg c latest previous) (\<lambda>b. return_s (a @ b))) s
      | _ \<Rightarrow> return_s [] s)"

definition list_alerts :: "ident \<Rightarrow> bool \<Rightarrow> nat \<Rightarrow> nat \<Rightarrow> db \<Rightarrow> alert list \<times> nat" where
  "list_alerts c unread_only limit offset s =
     page al_created_at limit offset
       (filter (\<lambda>a. al_company_id a = c \<and> (unread_only \<longrightarrow> \<not> al_is_read a)) (alerts s))"

definition acknowledge_alert :: "ident \<Rightarrow> ident \<Rightarrow> (db, alert option) sres" where
  "acknowledge_alert alert_id c s =
     bind_s (lift_s (scalar_one_or_none (filter (\<lambda>a. al_id a = alert_id \<and> al_company_id a = c) (alerts s)))) (\<lambda>found.
     case found of
       None \<Rightarrow> return_s None
     | Some a \<Rightarrow>
         bind_s utcnow (\<lambda>now.
         let a' = a\<lparr>al_is_read := True, al_acknowledged_at := Some now\<rparr>
         in bind_s (modify_s (\<lambda>s. s\<lparr>alerts := update_row al_id alert_id (\<lambda>_. a') (alerts s)\<rparr>)) (\<lambda>_.
            return_s (Some a')))) s"

section \<open>Properties\<close>

lemma add_alert_run: "\<exists>a s'. add_alert c k sev md s = Inr (a, s') \<and> alerts s' = alerts s @ [a] \<and> al_company_id a = c \<and>
    al_alert_type a = k \<and> al_severity a = sev \<and> \<not> al_is_read a \<and> emission_reports s' = emission_reports s"
  by (simp add: add_alert_def bind_s_def Let_def)

lemma check_increase_run:
  "\<exists>as s'. check_increase cfg c l p s = Inr (as, s') \<and> alerts s' = alerts s @ as \<and> map al_alert_type as \<in> {[], [Emission_Increase]} \<and>
     list_all (\<lambda>a. al_company_id a = c \<and> \<not> al_is_read a) as \<and>
     (as \<noteq> [] \<longleftrightarrow> 0 < er_total p \<and> emission_increase_threshold cfg < (er_total l - er_total p) / er_total p)"
  by (simp add: check_increase_def add_alert_def bind_s_def Let_def)

lemma check_drop_run:
  "\<exists>as s'. check_drop cfg c l p s = Inr (as, s') \<and> alerts s' = alerts s @ as \<and> map al_alert_type as \<in> {[], [Confidence_Drop]} \<and>
     list_all (\<lambda>a. al_company_id a = c \<and> \<not> al_is_read a) as \<and>
     (as \<noteq> [] \<longleftrightarrow> confidence_drop_threshold cfg < er_confidence p - er_confidence l)"
  by (simp add: check_drop_def add_alert_def bind_s_def Let_def)

text \<open>The check never fails; it raises each kind of alert at most once, for the company, unread.\<close>

lemma check_alerts_run:
  "\<exists>as s'. check_company_alerts cfg c s = Inr (as, s') \<and> alerts s' = alerts s @ as \<and>
     map al_alert_type as \<in> {[], [Emission_Increase], [Confidence_Drop], [Emission_Increase, Confidence_Drop]} \<and>
     list_all (\<lambda>a. al_company_id a = c \<and> \<not> al_is_read a) as"
proof -
  consider "length (last_reports c s) < 2" | l p rest where "last_reports c s = l # p # rest"
    by (cases "last_reports c s"; cases "tl (last_reports c s)") auto
  then show ?thesis
  proof cases
    case 1
    then show ?thesis by (auto simp: check_company_alerts_def split: list.splits)
  next
    case 2
    obtain a1 s1 where 1: "check_increase cfg c l p s = Inr (a1, s1)" "alerts s1 = alerts s @ a1"
      "map al_alert_type a1 \<in> {[], [Emission_Increase]}" "list_all (\<lambda>a. al_company_id a = c \<and> \<not> al_is_read a) a1"
      using check_increase_run [of cfg c l p s] by (elim exE conjE) (rule that)
    obtain a2 s2 where "check_drop cfg c l p s1 = Inr (a2, s2)" "alerts s2 = alerts s1 @ a2"
      "map al_alert_type a2 \<in> {[], [Confidence_Drop]}" "list_all (\<lambda>a. al_company_id a = c \<and> \<not> al_is_read a) a2"
      using check_drop_run [of cfg c l p s1] by (elim exE conjE) (rule that)
    then show ?thesis using 1 2 by (auto simp: check_company_alerts_def bind_s_def)
  qed
qed

text \<open>A company that has not got worse gets no alert.\<close>

lemma no_increase_no_alert:
  assumes "0 \<le> threshold" "l \<le> p" "0 < p" "p = Fin q"
  shows "\<not> threshold < (l - p) / p"
proof -
  have "l - p \<le> 0"
    using assms flt_of_rat_mono [of _ 0] by (cases l) (auto simp: minus_flt_def flt_0_1 flt_of_rat_small [of 0])
  then have "(l - p) / p \<le> 0 / p" using assms by (auto simp: flt_0_1 intro: flt_divide_right_mono)
  moreover have "0 / p = 0" using assms by (simp add: flt_0_1 divide_flt_def flt_of_rat_small)
  ultimately show ?thesis
    using assms(1) by (cases "(l - p) / p"; cases threshold) (auto simp: flt_0_1)
qed

lemma better_report_silent:
  assumes "last_reports c s = l # p # rest" "0 \<le> emission_increase_threshold cfg" "0 \<le> confidence_drop_threshold cfg"
    "er_total l \<le> er_total p" "er_confidence p \<le> er_confidence l" "er_total p = Fin q" "er_confidence l = Fin r"
  shows "check_company_alerts cfg c s = Inr ([], s)"
proof -
  have "er_confidence p - er_confidence l \<le> 0"
    using assms(5,7) flt_of_rat_mono [of _ 0] by (cases "er_confidence p") (auto simp: minus_flt_def flt_0_1 flt_of_rat_small [of 0])
  then have "\<not> confidence_drop_threshold cfg < er_confidence p - er_confidence l"
    using assms(3) by (cases "er_confidence p - er_confidence l"; cases "confidence_drop_threshold cfg") (auto simp: flt_0_1)
  moreover have "\<not> emission_increase_threshold cfg < (er_total l - er_total p) / er_total p" if "0 < er_total p"
    using no_increase_no_alert [OF assms(2,4) that assms(6)] .
  ultimately show ?thesis
    using assms(1) by (simp add: check_company_alerts_def check_increase_def check_drop_def bind_s_def Let_def)
qed

end
