(* ===== verification/Benchmarks.thy ===== *)
theory Benchmarks
imports Models Float_Order
begin

text \<open>
  \<open>api/services/benchmarks.py\<close>: the comparison of a report with the industry average. The labels of
  \<open>_rank_label\<close> are a type, ordered from best to worst.
\<close>

datatype rank_label = Top_10 | Top_25 | Median | Bottom_25 | Bottom_10

fun rank_position :: "rank_label \<Rightarrow> nat" where
  "rank_position Top_10 = 0"
| "rank_position Top_25 = 1"
| "rank_position Median = 2"
| "rank_position Bottom_25 = 3"
| "rank_position Bottom_10 = 4"

instantiation rank_label :: linorder
begin

definition "a \<le> b \<longleftrightarrow> rank_position a \<le> rank_position b"

definition "a < b \<longleftrightarrow> rank_position a < rank_position b"

instance
proof
  fix x y :: rank_label
  show "x \<le> y \<Longrightarrow> y \<le> x \<Longrightarrow> x = y"
    by (cases x; cases y) (simp_all add: less_eq_rank_label_def)
qed (auto simp: less_eq_rank_label_def less_rank_label_def)

end

definition pct_diff :: "flt \<Rightarrow> flt \<Rightarrow> flt" where
  "pct_diff company_val avg_val =
     (if feq avg_val 0 then 0 else py_round ((company_val - avg_val) / avg_val * Fin 100) 1)"

definition classify_rank :: "flt \<Rightarrow> rank_label" where
  "classify_rank pct =
     (if pct \<le> Fin (- 30) then Top_10
      else if pct \<le> Fin (- 10) then Top_25
      else if pct \<le> Fin 10 then Median
      else if pct \<le> Fin 30 then Bottom_25
      else Bottom_10)"

text \<open>An empty or zero filter is no filter; the listing is ordered by year descending, then industry.\<close>

definition filter_benchmarks ::
    "string option \<Rightarrow> string option \<Rightarrow> int option \<Rightarrow> db \<Rightarrow> industry_benchmark list" where
  "filter_benchmarks industry region year s =
     (let rows = industry_benchmarks s;
          rows = (case industry of Some i \<Rightarrow> if i = [] then rows else filter (\<lambda>b. ib_industry b = i) rows | None \<Rightarrow> rows);
          rows = (case region of Some i \<Rightarrow> if i = [] then rows else filter (\<lambda>b. ib_region b = i) rows | None \<Rightarrow> rows)
      in case year of Some y \<Rightarrow> if y = 0 then rows else filter (\<lambda>b. ib_year b = y) rows | None \<Rightarrow> rows)"

record four_scopes =
  fs_scope1 :: flt
  fs_scope2 :: flt
  fs_scope3 :: flt
  fs_total :: flt

definition map_scopes :: "(flt \<Rightarrow> 'a) \<Rightarrow> four_scopes \<Rightarrow> 'a list" where
  "map_scopes f x = [f (fs_scope1 x), f (fs_scope2 x), f (fs_scope3 x), f (fs_total x)]"

record comparison =
  cmp_company :: four_scopes
  cmp_average :: "industry_benchmark option"
  cmp_ranks :: "rank_label list option"
  cmp_vs :: "four_scopes option"

definition pick_benchmark :: "company \<Rightarrow> int \<Rightarrow> db \<Rightarrow> industry_benchmark option res" where
  "pick_benchmark co year s = scalar_one_or_none (take 1
     (order_by_desc (\<lambda>b. if ib_region b = co_region co then 1 else 0)
       (filter (\<lambda>b. ib_industry b = co_industry co \<and> ib_year b = year) (industry_benchmarks s))))"

definition versus :: "emission_report \<Rightarrow> industry_benchmark \<Rightarrow> four_scopes" where
  "versus r b =
     \<lparr>fs_scope1 = pct_diff (er_scope1 r) (ib_avg_scope1 b), fs_scope2 = pct_diff (er_scope2 r) (ib_avg_scope2 b),
      fs_scope3 = pct_diff (er_scope3 r) (ib_avg_scope3 b), fs_total = pct_diff (er_total r) (ib_avg_total b)\<rparr>"

definition compare_to_industry :: "ident \<Rightarrow> ident \<Rightarrow> db \<Rightarrow> comparison res" where
  "compare_to_industry report_id c s =
     bind_r (scalar_one_or_none (filter
       (\<lambda>r. er_id r = report_id \<and> er_company_id r = c \<and> er_deleted_at r = None) (emission_reports s))) (\<lambda>found.
     case found of
       None \<Rightarrow> Inl (ServiceError ''Report not found'' 404)
     | Some report \<Rightarrow>
         bind_r (scalar_one (filter (\<lambda>r. co_id r = c \<and> co_deleted_at r = None) (companies s))) (\<lambda>co.
         bind_r (pick_benchmark co (er_year report) s) (\<lambda>benchmark.
         let company_emissions = \<lparr>fs_scope1 = er_scope1 report, fs_scope2 = er_scope2 report,
               fs_scope3 = er_scope3 report, fs_total = er_total report\<rparr>
         in case benchmark of
              None \<Rightarrow> Inr \<lparr>cmp_company = company_emissions, cmp_average = None, cmp_ranks = None, cmp_vs = None\<rparr>
            | Some b \<Rightarrow>
                let vs = versus report b
                in Inr \<lparr>cmp_company = company_emissions, cmp_average = Some b,
                        cmp_ranks = Some (map_scopes classify_rank vs), cmp_vs = Some vs\<rparr>)))"

section \<open>Lower emissions never get a worse label\<close>

lemma classify_rank_mono: "a \<le> b \<Longrightarrow> classify_rank a \<le> classify_rank b"
proof -
  assume ab: "a \<le> b"
  have "a \<le> c" if "b \<le> c" for c using ab that by (rule flt_le_trans)
  then show ?thesis by (auto simp: classify_rank_def less_eq_rank_label_def)
qed

lemma flt_diff_right_mono: "a \<le> b \<Longrightarrow> a - Fin c \<le> b - Fin c"
  by (cases a; cases b) (auto simp: minus_flt_def flt_of_rat_mono)

lemma flt_mult_right_mono_pos: "a \<le> b \<Longrightarrow> 0 < c \<Longrightarrow> a * Fin c \<le> b * Fin c"
  by (cases a; cases b) (auto simp: times_flt_def inf_signed_def flt_of_rat_mono)

lemma pct_diff_mono: "a \<le> b \<Longrightarrow> 0 < t \<Longrightarrow> pct_diff a (Fin t) \<le> pct_diff b (Fin t)"
  by (simp add: pct_diff_def feq_def flt_0_1 flt_round_mono flt_mult_right_mono_pos flt_divide_right_mono
    flt_diff_right_mono)

lemma rank_mono: "a \<le> b \<Longrightarrow> 0 < t \<Longrightarrow> classify_rank (pct_diff a (Fin t)) \<le> classify_rank (pct_diff b (Fin t))"
  by (simp add: classify_rank_mono pct_diff_mono)

text \<open>A company at the average is in the middle.\<close>

lemma average_is_median: "classify_rank (pct_diff (Fin t) (Fin t)) = Median"
  by (cases "t = 0") (simp_all add: pct_diff_def classify_rank_def feq_def flt_0_1 minus_flt_def divide_flt_def
    times_flt_def flt_of_rat_small rhe_of_int [of 0, simplified])

text \<open>The benchmark of the company's own region is preferred.\<close>

lemma insort_first: "(\<And>y. y \<in> set ys \<Longrightarrow> f x \<le> f y) \<Longrightarrow> insort_key f x ys = x # ys"
  by (cases ys) auto

lemma hd_sort_key_least: "x \<in> set xs \<Longrightarrow> f (hd (sort_key f xs)) \<le> (f x :: int)"
proof -
  assume x: "x \<in> set xs"
  have s: "sorted (map f (sort_key f xs))" by simp
  obtain y ys where y: "sort_key f xs = y # ys" using x by (cases "sort_key f xs") (use set_sort [of f xs] in auto)
  have "x \<in> set (y # ys)" using x y set_sort [of f xs] by simp
  then show ?thesis using s by (auto simp: y)
qed

lemma own_region_preferred:
  assumes "pick_benchmark co year s = Inr (Some b)" "b' \<in> set (industry_benchmarks s)"
    "ib_industry b' = co_industry co" "ib_year b' = year" "ib_region b' = co_region co"
  shows "ib_region b = co_region co"
proof -
  define rows where "rows = filter (\<lambda>b. ib_industry b = co_industry co \<and> ib_year b = year) (industry_benchmarks s)"
  define key where "key = (\<lambda>b :: industry_benchmark. - (if ib_region b = co_region co then 1 else 0 :: int))"
  have b': "b' \<in> set rows" using assms by (simp add: rows_def)
  have "take 1 (sort_key key rows) = [b]"
    using assms(1) by (simp add: pick_benchmark_def scalar_one_or_none_Some rows_def key_def order_by_desc_def)
  then have "hd (sort_key key rows) = b" by (cases "sort_key key rows") auto
  then have "key b \<le> key b'" using hd_sort_key_least [OF b', of key] by simp
  then show ?thesis using assms(5) by (simp add: key_def split: if_splits)
qed

end
