(* ===== verification/Pcaf.thy ===== *)
theory Pcaf
imports Float_Order
begin

text \<open>
  \<open>api/services/pcaf.py\<close>: attribution of an investee's emissions to a financial institution and the
  portfolio summary. An asset is the dictionary the route passes; an absent key is \<open>None\<close>.
\<close>

definition calculate_attribution_factor :: "flt \<Rightarrow> flt \<Rightarrow> flt" where
  "calculate_attribution_factor outstanding_amount total_equity_debt =
     (if total_equity_debt \<le> 0 then 0 else outstanding_amount / total_equity_debt)"

definition calculate_financed_emissions :: "flt \<Rightarrow> flt \<Rightarrow> flt \<Rightarrow> flt \<times> flt" where
  "calculate_financed_emissions outstanding_amount total_equity_debt investee_emissions =
     (let af = calculate_attribution_factor outstanding_amount total_equity_debt
      in (af, py_round (af * investee_emissions) 4))"

record asset =
  as_financed_emissions :: "flt option"
  as_outstanding_amount :: "flt option"
  as_data_quality_score :: "int option"
  as_asset_class :: "string option"

record bucket =
  bk_financed_emissions :: flt
  bk_outstanding_amount :: flt
  bk_count :: nat

record portfolio_sums =
  ps_financed :: flt
  ps_outstanding :: flt
  ps_dq_num :: flt
  ps_by_class :: "(string, bucket) dict"

definition add_asset :: "portfolio_sums \<Rightarrow> asset \<Rightarrow> portfolio_sums" where
  "add_asset p a =
     (let fe = (case as_financed_emissions a of Some x \<Rightarrow> (if feq x 0 then 0 else x) | None \<Rightarrow> 0);
          oa = (case as_outstanding_amount a of Some x \<Rightarrow> x | None \<Rightarrow> 0);
          dq = (case as_data_quality_score a of Some n \<Rightarrow> n | None \<Rightarrow> 3);
          ac = (case as_asset_class a of Some c \<Rightarrow> c | None \<Rightarrow> ''unknown'');
          b = dict_get (ps_by_class p) ac \<lparr>bk_financed_emissions = 0, bk_outstanding_amount = 0, bk_count = 0\<rparr>
      in \<lparr>ps_financed = ps_financed p + fe, ps_outstanding = ps_outstanding p + oa,
          ps_dq_num = ps_dq_num p + flt_of_int dq * oa,
          ps_by_class = dict_set ac
            \<lparr>bk_financed_emissions = bk_financed_emissions b + fe,
             bk_outstanding_amount = bk_outstanding_amount b + oa, bk_count = bk_count b + 1\<rparr> (ps_by_class p)\<rparr>)"

record portfolio_summary =
  total_financed_emissions :: flt
  total_outstanding :: flt
  weighted_data_quality :: flt
  asset_count :: nat
  by_asset_class :: "(string, bucket) dict"

definition round_bucket :: "bucket \<Rightarrow> bucket" where
  "round_bucket b = \<lparr>bk_financed_emissions = py_round (bk_financed_emissions b) 2,
     bk_outstanding_amount = py_round (bk_outstanding_amount b) 2, bk_count = bk_count b\<rparr>"

definition summarise_portfolio :: "asset list \<Rightarrow> portfolio_summary" where
  "summarise_portfolio assets =
     (let p = foldl add_asset \<lparr>ps_financed = 0, ps_outstanding = 0, ps_dq_num = 0, ps_by_class = []\<rparr> assets
      in \<lparr>total_financed_emissions = py_round (ps_financed p) 2,
          total_outstanding = py_round (ps_outstanding p) 2,
          weighted_data_quality =
            (if 0 < ps_outstanding p then py_round (ps_dq_num p / ps_outstanding p) 2 else 0),
          asset_count = length assets,
          by_asset_class = map (\<lambda>(k, b). (k, round_bucket b)) (ps_by_class p)\<rparr>)"

section \<open>Properties\<close>

text \<open>An owner of a part of the company gets a factor in the unit interval and no more than all emissions.\<close>

lemma attribution_range:
  assumes "0 \<le> a" "a \<le> t"
  shows "between 0 1 (calculate_attribution_factor (Fin a) (Fin t))"
proof (cases "t \<le> 0")
  case False
  then have "0 \<le> a / t" "a / t \<le> 1" using assms by auto
  then have "between 0 1 (flt_of_rat (a / t))"
    using rnd_of_int [of 1] by (intro between_rounded) (simp_all del: rnd_of_int)
  then show ?thesis using False by (simp add: calculate_attribution_factor_def flt_0_1 divide_flt_def)
qed (simp add: calculate_attribution_factor_def flt_0_1)

lemma financed_at_most_all:
  assumes "0 \<le> a" "a \<le> t" "0 \<le> e" "rnd e = e" "e \<le> 10 ^ 18"
  shows "0 \<le> snd (calculate_financed_emissions (Fin a) (Fin t) (Fin e)) \<and>
    snd (calculate_financed_emissions (Fin a) (Fin t) (Fin e)) \<le> py_round (Fin e) 4"
proof -
  have "between 0 e (calculate_attribution_factor (Fin a) (Fin t) * Fin e)"
    using between_mult_nonneg [OF attribution_range [OF assms(1,2)], of e "Fin e" e] assms(3-5) by simp
  then obtain r where r: "calculate_attribution_factor (Fin a) (Fin t) * Fin e = Fin r" "0 \<le> r" "r \<le> e"
    by (auto simp: between_iff)
  then have "Fin r \<le> Fin e" "0 \<le> Fin r" by (simp_all add: flt_0_1)
  then show ?thesis
    by (simp add: calculate_financed_emissions_def Let_def r(1) flt_round_mono flt_round_nonneg del: py_round.simps flt_le_simps)
qed

text \<open>Every asset is counted in exactly one class.\<close>

definition class_count :: "(string, bucket) dict \<Rightarrow> nat" where
  "class_count d = sum_list (map bk_count (dict_values d))"

lemma class_count_set:
  "dict_ok d \<Longrightarrow> class_count (dict_set k b d) + (case map_of d k of Some b' \<Rightarrow> bk_count b' | None \<Rightarrow> 0) =
   class_count d + bk_count b"
proof (induction k b d rule: dict_set.induct)
  case (2 k b k' b' d)
  have "map_of d k' = None" if "dict_ok ((k', b') # d)" using that by (simp add: map_of_eq_None_iff)
  with 2 show ?case by (auto simp: class_count_def)
qed (simp add: class_count_def)

lemma add_asset_class:
  "\<exists>ac b. ps_by_class (add_asset p a) = dict_set ac b (ps_by_class p) \<and>
     bk_count b = Suc (case map_of (ps_by_class p) ac of Some b' \<Rightarrow> bk_count b' | None \<Rightarrow> 0)"
  unfolding add_asset_def Let_def portfolio_sums.simps
  by (intro exI conjI, rule refl) (simp add: dict_get_def split: option.split)

lemma add_asset_count:
  assumes "dict_ok (ps_by_class p)"
  shows "dict_ok (ps_by_class (add_asset p a))" "class_count (ps_by_class (add_asset p a)) = Suc (class_count (ps_by_class p))"
proof -
  obtain ac b where ac: "ps_by_class (add_asset p a) = dict_set ac b (ps_by_class p)"
    "bk_count b = Suc (case map_of (ps_by_class p) ac of Some b' \<Rightarrow> bk_count b' | None \<Rightarrow> 0)"
    using add_asset_class by blast
  show "dict_ok (ps_by_class (add_asset p a))" using assms by (simp add: ac)
  show "class_count (ps_by_class (add_asset p a)) = Suc (class_count (ps_by_class p))"
    using class_count_set [OF assms, of ac b] by (simp add: ac)
qed

lemma summary_counts:
  "sum_list (map bk_count (dict_values (by_asset_class (summarise_portfolio assets)))) = asset_count (summarise_portfolio assets)"
proof -
  have "dict_ok (ps_by_class (foldl add_asset p assets)) \<and>
      class_count (ps_by_class (foldl add_asset p assets)) = class_count (ps_by_class p) + length assets"
    if "dict_ok (ps_by_class p)" for p
    using that by (induction assets arbitrary: p) (simp_all add: add_asset_count)
  from this [of "\<lparr>ps_financed = 0, ps_outstanding = 0, ps_dq_num = 0, ps_by_class = []\<rparr>"]
  have "class_count (ps_by_class (foldl add_asset \<lparr>ps_financed = 0, ps_outstanding = 0, ps_dq_num = 0, ps_by_class = []\<rparr> assets)) =
      length assets"
    by (simp add: class_count_def)
  then show ?thesis
    by (simp add: summarise_portfolio_def Let_def class_count_def round_bucket_def comp_def case_prod_unfold)
qed

end
