(* ===== verification/Url_Validator.thy ===== *)
theory Url_Validator
imports Prelude Py_String "HOL-Library.Word"
begin

unbundle bit_operations_syntax

text \<open>
  \<open>api/services/url_validator.py\<close>: the check of a webhook URL against server-side request forgery.
  The parts of \<open>urlparse\<close> the check reads are modelled on ASCII text; its test of a bracketed host
  and the resolver of host names are parameters. Addresses are words of 32 and 128 bits.
\<close>

section \<open>Addresses and networks\<close>

datatype ip_addr = IPv4 "32 word" | IPv6 "128 word"

datatype ip_network = Net4 "32 word" nat | Net6 "128 word" nat

text \<open>\<open>ip in network\<close>: an address of the other version is in no network.\<close>

fun in_network :: "ip_addr \<Rightarrow> ip_network \<Rightarrow> bool" where
  "in_network (IPv4 a) (Net4 n p) \<longleftrightarrow> a AND push_bit (32 - p) (mask p) = n"
| "in_network (IPv6 a) (Net6 n p) \<longleftrightarrow> a AND push_bit (128 - p) (mask p) = n"
| "in_network _ _ \<longleftrightarrow> False"

text \<open>The address with the four octets of the dotted notation.\<close>

definition dotted :: "nat \<Rightarrow> nat \<Rightarrow> nat \<Rightarrow> nat \<Rightarrow> 32 word" where
  "dotted a b c d = word_of_nat (((a * 256 + b) * 256 + c) * 256 + d)"

definition blocked_ranges :: "ip_network list" where
  "blocked_ranges =
     [Net4 (dotted 10 0 0 0) 8,
      Net4 (dotted 172 16 0 0) 12,
      Net4 (dotted 192 168 0 0) 16,
      Net4 (dotted 127 0 0 0) 8,
      Net4 (dotted 169 254 0 0) 16,
      Net4 (dotted 0 0 0 0) 8,
      Net6 1 128,
      Net6 (push_bit 120 0xfc) 7,
      Net6 (push_bit 112 0xfe80) 10]"

section \<open>Reading the URL\<close>

record split_url =
  scheme :: string
  netloc :: string

definition ascii_alpha :: "char \<Rightarrow> bool" where
  "ascii_alpha c \<longleftrightarrow> (let n = of_char c :: nat in 65 \<le> n \<and> n \<le> 90 \<or> 97 \<le> n \<and> n \<le> 122)"

definition ascii_digit :: "char \<Rightarrow> bool" where
  "ascii_digit c \<longleftrightarrow> (let n = of_char c :: nat in 48 \<le> n \<and> n \<le> 57)"

definition scheme_char :: "char \<Rightarrow> bool" where
  "scheme_char c \<longleftrightarrow> ascii_alpha c \<or> ascii_digit c \<or> c \<in> set ''+-.''"

text \<open>\<open>urlsplit\<close>: leading control characters, tabs and line ends are dropped first.\<close>

definition urlsplit :: "(string \<Rightarrow> bool) \<Rightarrow> string \<Rightarrow> split_url res" where
  "urlsplit bracket_ok url0 =
     (let url = filter (\<lambda>c. of_char c \<notin> {9, 10, 13 :: nat}) (dropWhile (\<lambda>c. of_char c \<le> (32 :: nat)) url0);
          before = takeWhile (\<lambda>c. c \<noteq> CHR '':'') url;
          has_scheme = before \<noteq> [] \<and> before \<noteq> url \<and> ascii_alpha (hd before) \<and> list_all scheme_char before;
          scheme = (if has_scheme then py_lower before else []);
          rest = (if has_scheme then drop (Suc (length before)) url else url)
      in if take 2 rest = ''//'' then
           let netloc = takeWhile (\<lambda>c. c \<notin> set ''/?#'') (drop 2 rest)
           in if (CHR ''['' \<in> set netloc) \<noteq> (CHR '']'' \<in> set netloc) then Inl (ValueError ''Invalid IPv6 URL'')
              else if CHR ''['' \<in> set netloc \<and> \<not> bracket_ok netloc then Inl (ValueError ''Invalid IPv6 URL'')
              else Inr \<lparr>scheme = scheme, netloc = netloc\<rparr>
         else Inr \<lparr>scheme = scheme, netloc = []\<rparr>)"

definition after_char :: "char \<Rightarrow> string \<Rightarrow> string" where
  "after_char c s = drop (Suc (length (takeWhile (\<lambda>x. x \<noteq> c) s))) s"

text \<open>\<open>_hostinfo\<close>: host and port of the part behind the last \<open>@\<close>\<close>

definition hostinfo :: "split_url \<Rightarrow> string \<times> string" where
  "hostinfo u =
     (let host = rev (takeWhile (\<lambda>c. c \<noteq> CHR ''@'') (rev (netloc u)))
      in if CHR ''['' \<in> set host then
           let bracketed = after_char (CHR ''['') host
           in (takeWhile (\<lambda>c. c \<noteq> CHR '']'') bracketed,
               after_char (CHR '':'') (after_char (CHR '']'') bracketed))
         else (takeWhile (\<lambda>c. c \<noteq> CHR '':'') host, after_char (CHR '':'') host))"

definition hostname :: "split_url \<Rightarrow> string" where
  "hostname u =
     (let h = fst (hostinfo u); host = takeWhile (\<lambda>c. c \<noteq> CHR ''%'') h
      in py_lower host @ drop (length host) h)"

definition parse_nat :: "string \<Rightarrow> nat" where
  "parse_nat s = foldl (\<lambda>n c. 10 * n + (of_char c - 48)) 0 s"

definition port :: "split_url \<Rightarrow> nat option res" where
  "port u =
     (let p = snd (hostinfo u)
      in if p = [] then Inr None
         else if \<not> list_all ascii_digit p then Inl (ValueError ''Port could not be cast to integer value'')
         else if 65535 < parse_nat p then Inl (ValueError ''Port out of range 0-65535'')
         else Inr (Some (parse_nat p)))"

section \<open>The check\<close>

datatype resolution = Resolved "ip_addr list" | Gaierror

definition blocked_hosts :: "string list" where
  "blocked_hosts = [''localhost'', ''0.0.0.0'', ''metadata.google.internal'', ''169.254.169.254'']"

text \<open>\<open>parsed.port or 443\<close>\<close>

definition port_or_443 :: "nat option \<Rightarrow> nat" where
  "port_or_443 p = (case p of None \<Rightarrow> 443 | Some n \<Rightarrow> if n = 0 then 443 else n)"

text \<open>\<open>env\<close> is the value of the variable \<open>ENV\<close>, \<open>development\<close> when it is not set.\<close>

definition validate_webhook_url ::
    "(string \<Rightarrow> bool) \<Rightarrow> (string \<Rightarrow> nat \<Rightarrow> resolution) \<Rightarrow> string \<Rightarrow> string \<Rightarrow> unit res" where
  "validate_webhook_url bracket_ok getaddrinfo env url =
     bind_r (urlsplit bracket_ok url) (\<lambda>parsed.
     if py_lower env = ''production'' \<and> scheme parsed \<noteq> ''https''
     then Inl (ValueError ''Webhook URL must use HTTPS in production'')
     else if scheme parsed \<notin> {''http'', ''https''}
     then Inl (ValueError ''Webhook URL must use http or https scheme'')
     else if hostname parsed = [] then Inl (ValueError ''Webhook URL must have a valid hostname'')
     else
       let hostname = py_lower (hostname parsed)
       in if hostname \<in> set blocked_hosts
          then Inl (ValueError (''Webhook URL hostname '' @ hostname @ '' is not allowed''))
          else bind_r (port parsed) (\<lambda>p.
            case getaddrinfo hostname (port_or_443 p) of
              Gaierror \<Rightarrow> Inl (ValueError (''Cannot resolve webhook URL hostname '' @ hostname))
            | Resolved infos \<Rightarrow>
                if list_ex (\<lambda>ip. list_ex (in_network ip) blocked_ranges) infos
                then Inl (ValueError ''Webhook URL resolves to private/reserved IP address'')
                else Inr ()))"

section \<open>What the check shows\<close>

lemma validate_blocks:
  assumes "validate_webhook_url bracket_ok getaddrinfo env url = Inr ()"
  obtains parsed p infos where "urlsplit bracket_ok url = Inr parsed" "scheme parsed \<in> {''http'', ''https''}"
    "py_lower env = ''production'' \<Longrightarrow> scheme parsed = ''https''" "hostname parsed \<noteq> []"
    "py_lower (hostname parsed) \<notin> set blocked_hosts" "port parsed = Inr p"
    "getaddrinfo (py_lower (hostname parsed)) (port_or_443 p) = Resolved infos"
    "list_all (\<lambda>ip. list_all (\<lambda>net. \<not> in_network ip net) blocked_ranges) infos"
proof -
  obtain parsed where 1: "urlsplit bracket_ok url = Inr parsed"
    using assms by (auto simp: validate_webhook_url_def bind_r_Inr_iff)
  obtain p where 2: "port parsed = Inr p"
    using assms 1 by (auto simp: validate_webhook_url_def bind_r_Inr_iff Let_def split: if_splits)
  show ?thesis
    using assms 1 2
    by (intro that [of parsed p "case getaddrinfo (py_lower (hostname parsed)) (port_or_443 p) of Resolved is \<Rightarrow> is"])
      (auto simp: validate_webhook_url_def Let_def list_ex_iff list_all_iff split: if_splits resolution.splits)
qed

text \<open>A prefix test on an IPv4 address is a test of its leading octets.\<close>

lemma net4_prefix:
  fixes a n :: "32 word"
  assumes "p \<le> 32"
  shows "a AND push_bit (32 - p) (mask p) = n \<longleftrightarrow>
    drop_bit (32 - p) a = drop_bit (32 - p) n \<and> take_bit (32 - p) n = 0"
proof -
  have *: "bit (push_bit (32 - p) (mask p) :: 32 word) i \<longleftrightarrow> 32 - p \<le> i \<and> i < 32" for i
    using assms by (auto simp: bit_simps)
  show ?thesis
  proof
    assume n: "a AND push_bit (32 - p) (mask p) = n"
    have bits: "bit n i \<longleftrightarrow> bit a i \<and> 32 - p \<le> i \<and> i < 32" for i
      using * [of i] by (simp add: n [symmetric] bit_and_iff)
    have "drop_bit (32 - p) a = drop_bit (32 - p) n"
      by (rule bit_word_eqI) (use bits bit_imp_le_length [of a] in \<open>force simp: bit_drop_bit_eq\<close>)
    moreover have "take_bit (32 - p) n = 0"
      by (rule bit_word_eqI) (simp add: bit_take_bit_iff bits)
    ultimately show "drop_bit (32 - p) a = drop_bit (32 - p) n \<and> take_bit (32 - p) n = 0" ..
  next
    assume n: "drop_bit (32 - p) a = drop_bit (32 - p) n \<and> take_bit (32 - p) n = 0"
    have low: "\<not> bit n i" if "i < 32 - p" for i
    proof -
      have "bit (take_bit (32 - p) n) i = bit n i" using that by (simp add: bit_take_bit_iff)
      then show ?thesis using n by simp
    qed
    have high: "bit a i = bit n i" if "32 - p \<le> i" for i
    proof -
      have "bit (drop_bit (32 - p) a) (i - (32 - p)) = bit (drop_bit (32 - p) n) (i - (32 - p))"
        using n by simp
      then show ?thesis using that by (simp add: bit_drop_bit_eq)
    qed
    show "a AND push_bit (32 - p) (mask p) = n"
    proof (rule bit_word_eqI)
      fix i assume "i < LENGTH(32)"
      then show "bit (a AND push_bit (32 - p) (mask p)) i = bit n i"
        using * [of i] low [of i] high [of i] unfolding bit_and_iff by fastforce
    qed
  qed
qed

lemma drop_bit_eq_unat:
  "drop_bit k (a :: 32 word) = drop_bit k b \<longleftrightarrow> unat a div 2 ^ k = unat b div 2 ^ k"
  unfolding word_unat_eq_iff unat_drop_bit_eq drop_bit_eq_div [where ?'a = nat] ..

lemma net4_octets:
  assumes "p \<le> 32" "take_bit (32 - p) n = 0"
  shows "in_network (IPv4 a) (Net4 n p) \<longleftrightarrow> unat a div 2 ^ (32 - p) = unat n div 2 ^ (32 - p)"
  unfolding in_network.simps net4_prefix [OF assms(1)] drop_bit_eq_unat using assms(2) by simp

text \<open>No accepted URL resolves to a loopback, private or link-local IPv4 address.\<close>

definition private_ipv4 :: "32 word \<Rightarrow> bool" where
  "private_ipv4 a \<longleftrightarrow>
     (let o1 = unat a div 2 ^ 24; o2 = unat a div 2 ^ 16 mod 256
      in o1 \<in> {0, 10, 127} \<or> o1 = 172 \<and> 16 \<le> o2 \<and> o2 \<le> 31 \<or> o1 = 192 \<and> o2 = 168 \<or> o1 = 169 \<and> o2 = 254)"

lemma net4_cases:
  "in_network (IPv4 a) (Net4 (dotted 10 0 0 0) 8) \<longleftrightarrow> unat a div 2 ^ 24 = 10"
  "in_network (IPv4 a) (Net4 (dotted 127 0 0 0) 8) \<longleftrightarrow> unat a div 2 ^ 24 = 127"
  "in_network (IPv4 a) (Net4 (dotted 0 0 0 0) 8) \<longleftrightarrow> unat a div 2 ^ 24 = 0"
  "in_network (IPv4 a) (Net4 (dotted 172 16 0 0) 12) \<longleftrightarrow> unat a div 2 ^ 20 = 2753"
  "in_network (IPv4 a) (Net4 (dotted 192 168 0 0) 16) \<longleftrightarrow> unat a div 2 ^ 16 = 49320"
  "in_network (IPv4 a) (Net4 (dotted 169 254 0 0) 16) \<longleftrightarrow> unat a div 2 ^ 16 = 43518"
  by (subst net4_octets; simp add: dotted_def take_bit_eq_mod)+

lemma octets_of:
  assumes "(m :: nat) div 256 = a" "m mod 256 = b"
  shows "m = 256 * a + b"
  unfolding assms [symmetric] by (rule mult_div_mod_eq [symmetric])

lemma octet_arith:
  fixes m :: nat
  shows "m div 16 = 2753 \<longleftrightarrow> m div 256 = 172 \<and> 16 \<le> m mod 256 \<and> m mod 256 \<le> 31"
    "m = 49320 \<longleftrightarrow> m div 256 = 192 \<and> m mod 256 = 168"
    "m = 43518 \<longleftrightarrow> m div 256 = 169 \<and> m mod 256 = 254"
proof -
  obtain d r where m: "d = m div 256" "r = m mod 256" by simp
  then have e: "m = 256 * d + r" "r < 256" by simp_all
  then have "m div 16 = 16 * d + r div 16" by (simp add: div_add1_eq)
  moreover have "16 * d + k = 2753 \<longleftrightarrow> d = 172 \<and> k = 1" if "k < 16" for k :: nat
  proof -
    consider "d \<le> 171" | "d = 172" | "173 \<le> d" by linarith
    then show ?thesis using that by cases auto
  qed
  ultimately have "m div 16 = 2753 \<longleftrightarrow> d = 172 \<and> r div 16 = 1"
    using e(2) less_mult_imp_div_less [of r 16 16] by simp
  moreover have "r div 16 = 1 \<longleftrightarrow> 16 \<le> r \<and> r \<le> 31"
    using mult_div_mod_eq [of 16 r] mod_less_divisor [of 16 r] by (cases "r div 16") auto
  ultimately show "m div 16 = 2753 \<longleftrightarrow> m div 256 = 172 \<and> 16 \<le> m mod 256 \<and> m mod 256 \<le> 31"
    by (simp add: m)
  show "m = 49320 \<longleftrightarrow> m div 256 = 192 \<and> m mod 256 = 168" "m = 43518 \<longleftrightarrow> m div 256 = 169 \<and> m mod 256 = 254"
    by (auto dest: octets_of)
qed

lemma octet_ranges:
  fixes n :: nat
  shows "n div 2 ^ 20 = 2753 \<longleftrightarrow> n div 2 ^ 24 = 172 \<and> 16 \<le> n div 2 ^ 16 mod 256 \<and> n div 2 ^ 16 mod 256 \<le> 31"
    "n div 2 ^ 16 = 49320 \<longleftrightarrow> n div 2 ^ 24 = 192 \<and> n div 2 ^ 16 mod 256 = 168"
    "n div 2 ^ 16 = 43518 \<longleftrightarrow> n div 2 ^ 24 = 169 \<and> n div 2 ^ 16 mod 256 = 254"
proof -
  have *: "n div 2 ^ 24 = n div 2 ^ 16 div 256" "n div 2 ^ 20 = n div 2 ^ 16 div 16"
    by (simp_all add: div_mult2_eq [symmetric])
  show "n div 2 ^ 20 = 2753 \<longleftrightarrow> n div 2 ^ 24 = 172 \<and> 16 \<le> n div 2 ^ 16 mod 256 \<and> n div 2 ^ 16 mod 256 \<le> 31"
    "n div 2 ^ 16 = 49320 \<longleftrightarrow> n div 2 ^ 24 = 192 \<and> n div 2 ^ 16 mod 256 = 168"
    "n div 2 ^ 16 = 43518 \<longleftrightarrow> n div 2 ^ 24 = 169 \<and> n div 2 ^ 16 mod 256 = 254"
    unfolding * by (rule octet_arith)+
qed

lemma net6_ipv4 [simp]: "\<not> in_network (IPv4 a) (Net6 n p)"
  by simp

lemma private_ipv4_iff: "list_ex (in_network (IPv4 a)) blocked_ranges \<longleftrightarrow> private_ipv4 a"
  unfolding blocked_ranges_def private_ipv4_def Let_def list_ex_Nil_iff list_ex_Cons_iff net4_cases octet_ranges
  by (simp only: net6_ipv4 insert_iff empty_iff) blast

lemma accepted_not_private:
  assumes "validate_webhook_url bracket_ok (\<lambda>_ _. Resolved infos) env url = Inr ()" "IPv4 a \<in> set infos"
  shows "\<not> private_ipv4 a"
proof -
  have "list_all (\<lambda>ip. list_all (\<lambda>net. \<not> in_network ip net) blocked_ranges) infos"
    using assms(1) by (auto elim: validate_blocks)
  then show ?thesis
    using assms(2) by (auto simp: private_ipv4_iff [symmetric] list_all_iff list_ex_iff)
qed

text \<open>
  The loopback address written as an IPv4-mapped IPv6 address is in none of the ranges, nor is the
  unspecified IPv6 address.
\<close>

definition ipv4_mapped :: "32 word \<Rightarrow> ip_addr" where
  "ipv4_mapped a = IPv6 (push_bit 32 0xffff OR ucast a)"

lemma mapped_loopback_passes:
  "\<not> list_ex (in_network (ipv4_mapped (dotted 127 0 0 1))) blocked_ranges"
  "\<not> list_ex (in_network (IPv6 0)) blocked_ranges"
  by (simp_all add: blocked_ranges_def ipv4_mapped_def dotted_def mask_eq_exp_minus_1)

end
