(* ===== verification/Webhooks.thy ===== *)
theory Webhooks
imports Models Url_Validator Float_Order
begin

text \<open>
  \<open>api/services/webhooks.py\<close>: the webhooks of a company, the dispatch of events to them, and the
  retries of failed deliveries. Timestamps count microseconds. The HTTP client, the JSON encoder, the
  keyed digest and the random source are the fields of an environment; the client answers with a
  response, with an error the service catches, or with one it does not. The measured duration of a
  request is left out.
\<close>

section \<open>The environment\<close>

record http_request =
  rq_url :: string
  rq_content :: string
  rq_signature :: string
  rq_event :: string

datatype http_outcome = Response int string | Request_Failed string | Post_Raises exn

record web_env =
  env_post :: "timestamp \<Rightarrow> http_request \<Rightarrow> http_outcome"
  env_uniform :: "timestamp \<Rightarrow> flt"
  env_dumps :: "pydict \<Rightarrow> string"
  env_hmac :: "string \<Rightarrow> string \<Rightarrow> string"
  env_token :: "ident \<Rightarrow> string"

section \<open>Delays\<close>

definition retry_delays :: "int list" where
  "retry_delays = [1, 5, 30]"

text \<open>\<open>xs[i]\<close>: a negative index counts from the end.\<close>

definition py_index :: "'a list \<Rightarrow> int \<Rightarrow> 'a res" where
  "py_index xs i =
     (if 0 \<le> i \<and> i < int (length xs) then Inr (xs ! nat i)
      else if i < 0 \<and> - int (length xs) \<le> i then Inr (xs ! nat (int (length xs) + i))
      else Inl IndexError)"

text \<open>\<open>u\<close> is the draw of \<open>random.uniform(0, 0.1)\<close>.\<close>

definition retry_delay :: "int \<Rightarrow> flt \<Rightarrow> flt res" where
  "retry_delay attempt u =
     bind_r (py_index retry_delays (min attempt (int (length retry_delays) - 1))) (\<lambda>base.
     Inr (flt_of_int base * (1 + u)))"

text \<open>\<open>timedelta(seconds=x)\<close> in microseconds: whole seconds exactly, the rest rounded half to even.\<close>

definition timedelta_us :: "flt \<Rightarrow> int res" where
  "timedelta_us x =
     (case x of
        Fin q \<Rightarrow>
          (let whole = (if q < 0 then - \<lfloor>- q\<rfloor> else \<lfloor>q\<rfloor>)
           in Inr (round_half_even (of_int whole * 10 ^ 6 + rnd ((q - of_int whole) * 10 ^ 6))))
      | NaN \<Rightarrow> Inl (ValueError ''cannot convert float NaN to integer'')
      | _ \<Rightarrow> Inl OverflowError)"

text \<open>\<open>delay = _retry_delay(n)\<close>, then the time of the next attempt\<close>

definition schedule_retry :: "web_env \<Rightarrow> int \<Rightarrow> (db, timestamp) sres" where
  "schedule_retry env attempt =
     bind_s (get_s db_now) (\<lambda>t.
     bind_s (lift_s (retry_delay attempt (env_uniform env t))) (\<lambda>delay.
     bind_s utcnow (\<lambda>now.
     bind_s (lift_s (timedelta_us delay)) (\<lambda>us. return_s (now + us)))))"

section \<open>Webhooks of a company\<close>

definition event_names :: "string list" where
  "event_names = [''report.created'', ''data.uploaded'', ''estimate.completed'',
     ''supply_chain.link_created'', ''supply_chain.link_verified'', ''confidence.improved'']"

text \<open>\<open>validate\<close> is the check of the URL; the commit checks the unique constraint.\<close>

definition create_webhook ::
    "(string \<Rightarrow> unit res) \<Rightarrow> web_env \<Rightarrow> ident \<Rightarrow> string \<Rightarrow> string list \<Rightarrow> (db, webhook) sres" where
  "create_webhook validate env c url event_types =
     bind_s (lift_s (validate url)) (\<lambda>_.
     if filter (\<lambda>e. e \<notin> set event_names) event_types \<noteq> []
     then raise_s (ValueError ''Invalid event types'')
     else bind_s new_id (\<lambda>i.
       bind_s utcnow (\<lambda>now.
       let wh = \<lparr>wh_id = i, wh_company_id = c, wh_url = url, wh_event_types = event_types,
             wh_secret = env_token env i, wh_active = True, wh_created_at = now, wh_deleted_at = None\<rparr>
       in (\<lambda>s. if list_ex (\<lambda>w. wh_company_id w = c \<and> wh_url w = url) (webhooks s)
               then Inl IntegrityError
               else Inr (wh, s\<lparr>webhooks := webhooks s @ [wh]\<rparr>)))))"

definition live_webhooks :: "(webhook \<Rightarrow> bool) \<Rightarrow> db \<Rightarrow> webhook list" where
  "live_webhooks P s = filter (\<lambda>w. P w \<and> wh_deleted_at w = None) (webhooks s)"

definition list_webhooks ::
    "ident \<Rightarrow> nat option \<Rightarrow> nat option \<Rightarrow> db \<Rightarrow> webhook list \<times> nat" where
  "list_webhooks c limit offset s =
     (let base = live_webhooks (\<lambda>w. wh_company_id w = c) s;
          ordered = order_by_desc wh_created_at base;
          skipped = (case offset of None \<Rightarrow> ordered | Some n \<Rightarrow> drop n ordered)
      in (case limit of None \<Rightarrow> skipped | Some n \<Rightarrow> take n skipped, length base))"

definition find_webhook :: "ident \<Rightarrow> ident \<Rightarrow> db \<Rightarrow> webhook option res" where
  "find_webhook webhook_id c s =
     scalar_one_or_none (live_webhooks (\<lambda>w. wh_id w = webhook_id \<and> wh_company_id w = c) s)"

text \<open>The row is deleted, and its deliveries by the foreign key.\<close>

definition delete_webhook :: "ident \<Rightarrow> ident \<Rightarrow> (db, bool) sres" where
  "delete_webhook webhook_id c s =
     bind_s (lift_s (find_webhook webhook_id c s)) (\<lambda>found.
     if found = None then return_s False
     else bind_s (modify_s (\<lambda>s. s\<lparr>webhooks := filter (\<lambda>w. wh_id w \<noteq> webhook_id) (webhooks s),
         webhook_deliveries := filter (\<lambda>d. wd_webhook_id d \<noteq> webhook_id) (webhook_deliveries s)\<rparr>)) (\<lambda>_.
       return_s True)) s"

definition toggle_webhook :: "ident \<Rightarrow> ident \<Rightarrow> bool \<Rightarrow> (db, webhook option) sres" where
  "toggle_webhook webhook_id c active s =
     bind_s (lift_s (find_webhook webhook_id c s)) (\<lambda>found.
     case found of
       None \<Rightarrow> return_s None
     | Some w \<Rightarrow>
         bind_s (modify_s (\<lambda>s. s\<lparr>webhooks :=
           update_row wh_id webhook_id (\<lambda>w. w\<lparr>wh_active := active\<rparr>) (webhooks s)\<rparr>)) (\<lambda>_.
         return_s (Some (w\<lparr>wh_active := active\<rparr>)))) s"

section \<open>Dispatch\<close>

text \<open>
  A delivery that is not flushed yet: its columns with a default read as \<open>None\<close> until the insert
  fills them in.
\<close>

record new_delivery =
  nd_webhook_id :: ident
  nd_event_type :: string
  nd_payload :: pydict
  nd_status_code :: "int option"
  nd_response_body :: "string option"
  nd_success :: bool
  nd_error :: "string option"
  nd_retry_count :: "int option"
  nd_max_retries :: "int option"
  nd_next_retry_at :: "timestamp option"

datatype dispatch_status = Sent int | Refused int | Unsent string

record dispatch_result =
  ds_webhook_id :: ident
  ds_url :: string
  ds_event :: string
  ds_status :: dispatch_status

text \<open>\<open>a < b\<close> raises when either side is \<open>None\<close>.\<close>

fun less_or_raise :: "int option \<Rightarrow> int option \<Rightarrow> bool res" where
  "less_or_raise (Some a) (Some b) = Inr (a < b)"
| "less_or_raise _ _ = Inl TypeError"

definition signed_request :: "web_env \<Rightarrow> webhook \<Rightarrow> string \<Rightarrow> pydict \<Rightarrow> http_request" where
  "signed_request env wh event payload_dict =
     (let payload = env_dumps env payload_dict
      in \<lparr>rq_url = wh_url wh, rq_content = payload,
          rq_signature = ''sha256='' @ env_hmac env (wh_secret wh) payload, rq_event = event\<rparr>)"

text \<open>The schedule of the first retry, from the columns of the delivery not yet flushed.\<close>

definition schedule_first :: "web_env \<Rightarrow> new_delivery \<Rightarrow> (db, new_delivery) sres" where
  "schedule_first env d =
     bind_s (lift_s (less_or_raise (nd_retry_count d) (nd_max_retries d))) (\<lambda>more.
     if more then
       bind_s (schedule_retry env (case nd_retry_count d of Some n \<Rightarrow> n | None \<Rightarrow> 0)) (\<lambda>t.
       return_s (d\<lparr>nd_next_retry_at := Some t\<rparr>))
     else return_s d)"

definition dispatch_one ::
    "web_env \<Rightarrow> ident \<Rightarrow> string \<Rightarrow> pydict \<Rightarrow> webhook \<Rightarrow> (db, new_delivery \<times> dispatch_result) sres" where
  "dispatch_one env c event data wh =
     (let payload_dict = [(''event'', PStr event), (''company_id'', PStr (str_nat c)), (''data'', PDict data)];
          request = signed_request env wh event payload_dict;
          delivery = \<lparr>nd_webhook_id = wh_id wh, nd_event_type = event, nd_payload = payload_dict,
            nd_status_code = None, nd_response_body = None, nd_success = False, nd_error = None,
            nd_retry_count = None, nd_max_retries = None, nd_next_retry_at = None\<rparr>;
          result = (\<lambda>st. \<lparr>ds_webhook_id = wh_id wh, ds_url = wh_url wh, ds_event = event, ds_status = st\<rparr>)
      in bind_s utcnow (\<lambda>start.
         case env_post env start request of
           Response code text \<Rightarrow>
             (let delivery = delivery\<lparr>nd_status_code := Some code, nd_response_body := Some (take 2048 text),
                    nd_success := code < 400\<rparr>
              in if code < 400 then return_s (delivery, result (Sent code))
                 else bind_s (schedule_first env delivery) (\<lambda>delivery. return_s (delivery, result (Refused code))))
         | Request_Failed exc \<Rightarrow>
             bind_s (schedule_first env (delivery\<lparr>nd_success := False, nd_error := Some (take 2048 exc)\<rparr>)) (\<lambda>delivery.
             return_s (delivery, result (Unsent exc)))
         | Post_Raises e \<Rightarrow> raise_s e))"

text \<open>The insert of a delivery, with the defaults of its columns.\<close>

definition flush_delivery :: "new_delivery \<Rightarrow> (db, unit) sres" where
  "flush_delivery d =
     bind_s new_id (\<lambda>i.
     bind_s utcnow (\<lambda>now.
     modify_s (\<lambda>s. s\<lparr>webhook_deliveries := webhook_deliveries s @
       [\<lparr>wd_id = i, wd_webhook_id = nd_webhook_id d, wd_event_type = nd_event_type d, wd_payload = nd_payload d,
         wd_status_code = nd_status_code d, wd_response_body = nd_response_body d, wd_success = nd_success d,
         wd_error = nd_error d,
         wd_retry_count = (case nd_retry_count d of None \<Rightarrow> 0 | Some n \<Rightarrow> n),
         wd_max_retries = (case nd_max_retries d of None \<Rightarrow> 3 | Some n \<Rightarrow> n),
         wd_next_retry_at = nd_next_retry_at d, wd_created_at = now\<rparr>]\<rparr>)))"

fun flush_all :: "new_delivery list \<Rightarrow> (db, unit) sres" where
  "flush_all [] = return_s ()"
| "flush_all (d # ds) = bind_s (flush_delivery d) (\<lambda>_. flush_all ds)"

fun dispatch_all ::
    "web_env \<Rightarrow> ident \<Rightarrow> string \<Rightarrow> pydict \<Rightarrow> webhook list \<Rightarrow> (db, (new_delivery \<times> dispatch_result) list) sres" where
  "dispatch_all env c event data [] = return_s []"
| "dispatch_all env c event data (wh # whs) =
     (if \<not> wh_active wh \<or> event \<notin> set (wh_event_types wh) then dispatch_all env c event data whs
      else bind_s (dispatch_one env c event data wh) (\<lambda>r.
        bind_s (dispatch_all env c event data whs) (\<lambda>rs. return_s (r # rs))))"

definition dispatch_event ::
    "web_env \<Rightarrow> ident \<Rightarrow> string \<Rightarrow> pydict \<Rightarrow> (db, dispatch_result list) sres" where
  "dispatch_event env c event data s =
     bind_s (dispatch_all env c event data (fst (list_webhooks c None None s))) (\<lambda>rs.
     bind_s (flush_all (map fst rs)) (\<lambda>_.
     return_s (map snd rs))) s"

section \<open>Deliveries and retries\<close>

definition list_deliveries ::
    "ident \<Rightarrow> ident \<Rightarrow> nat \<Rightarrow> nat \<Rightarrow> db \<Rightarrow> (webhook_delivery list \<times> nat) res" where
  "list_deliveries webhook_id c limit offset s =
     bind_r (find_webhook webhook_id c s) (\<lambda>found.
     if found = None then Inr ([], 0)
     else Inr (page wd_created_at limit offset
       (filter (\<lambda>d. wd_webhook_id d = webhook_id) (webhook_deliveries s))))"

text \<open>One more attempt: the delivery after it, and whether the request failed without a response.\<close>

definition attempt_delivery ::
    "web_env \<Rightarrow> webhook \<Rightarrow> webhook_delivery \<Rightarrow> (db, webhook_delivery \<times> bool) sres" where
  "attempt_delivery env wh d =
     (let request = signed_request env wh (wd_event_type d) (wd_payload d);
          d = d\<lparr>wd_retry_count := wd_retry_count d + 1\<rparr>
      in bind_s utcnow (\<lambda>start.
         case env_post env start request of
           Response code text \<Rightarrow>
             return_s (d\<lparr>wd_status_code := Some code, wd_response_body := Some (take 2048 text),
               wd_success := code < 400, wd_error := None\<rparr>, False)
         | Request_Failed exc \<Rightarrow> return_s (d\<lparr>wd_error := Some (take 2048 exc)\<rparr>, True)
         | Post_Raises e \<Rightarrow> raise_s e))"

definition write_delivery :: "webhook_delivery \<Rightarrow> (db, unit) sres" where
  "write_delivery d = modify_s (\<lambda>s. s\<lparr>webhook_deliveries :=
     update_row wd_id (wd_id d) (\<lambda>_. d) (webhook_deliveries s)\<rparr>)"

definition reschedule :: "web_env \<Rightarrow> webhook_delivery \<Rightarrow> (db, timestamp option) sres" where
  "reschedule env d =
     (if wd_success d then return_s None
      else if wd_max_retries d \<le> wd_retry_count d then return_s None
      else bind_s (schedule_retry env (wd_retry_count d)) (\<lambda>t. return_s (Some t)))"

definition stop_retrying :: "webhook_delivery \<Rightarrow> (db, nat) sres" where
  "stop_retrying d = bind_s (write_delivery (d\<lparr>wd_next_retry_at := None\<rparr>)) (\<lambda>_. return_s 0)"

definition retry_once :: "web_env \<Rightarrow> webhook \<Rightarrow> webhook_delivery \<Rightarrow> (db, nat) sres" where
  "retry_once env wh d =
     bind_s (attempt_delivery env wh d) (\<lambda>(d, failed).
     bind_s (reschedule env d) (\<lambda>next.
     bind_s (write_delivery (d\<lparr>wd_next_retry_at := next\<rparr>)) (\<lambda>_. return_s 1)))"

definition process_one :: "web_env \<Rightarrow> webhook_delivery \<Rightarrow> (db, nat) sres" where
  "process_one env d s =
     bind_s (lift_s (scalar_one_or_none (live_webhooks (\<lambda>w. wh_id w = wd_webhook_id d) s))) (\<lambda>found.
     case found of
       None \<Rightarrow> stop_retrying d
     | Some wh \<Rightarrow> if \<not> wh_active wh then stop_retrying d else retry_once env wh d) s"

fun process_all :: "web_env \<Rightarrow> webhook_delivery list \<Rightarrow> (db, nat) sres" where
  "process_all env [] = return_s 0"
| "process_all env (d # ds) =
     bind_s (process_one env d) (\<lambda>n. bind_s (process_all env ds) (\<lambda>m. return_s (n + m)))"

text \<open>The query has no order; rows come in the order of the table.\<close>

definition due_deliveries :: "timestamp \<Rightarrow> db \<Rightarrow> webhook_delivery list" where
  "due_deliveries now s = take 50 (filter (\<lambda>d. \<not> wd_success d \<and>
     (case wd_next_retry_at d of None \<Rightarrow> False | Some t \<Rightarrow> t \<le> now)) (webhook_deliveries s))"

definition process_pending_retries :: "web_env \<Rightarrow> (db, nat) sres" where
  "process_pending_retries env =
     bind_s utcnow (\<lambda>now. bind_s (get_s (due_deliveries now)) (\<lambda>pending. process_all env pending))"

definition owned_deliveries :: "ident \<Rightarrow> ident \<Rightarrow> db \<Rightarrow> webhook_delivery list" where
  "owned_deliveries delivery_id c s = concat (map (\<lambda>d. map (\<lambda>_. d)
     (live_webhooks (\<lambda>w. wh_id w = wd_webhook_id d \<and> wh_company_id w = c) s))
     (filter (\<lambda>d. wd_id d = delivery_id) (webhook_deliveries s)))"

definition retry_delivery :: "web_env \<Rightarrow> ident \<Rightarrow> ident \<Rightarrow> (db, webhook_delivery option) sres" where
  "retry_delivery env delivery_id c s =
     bind_s (lift_s (scalar_one_or_none (owned_deliveries delivery_id c s))) (\<lambda>found.
     case found of
       None \<Rightarrow> return_s None
     | Some d \<Rightarrow>
         bind_s (lift_s (scalar_one_or_none (filter (\<lambda>w. wh_id w = wd_webhook_id d) (webhooks s)))) (\<lambda>wh.
         case wh of
           None \<Rightarrow> return_s None
         | Some wh \<Rightarrow>
             if \<not> wh_active wh then return_s None
             else bind_s (attempt_delivery env wh d) (\<lambda>(d, failed).
               let d = (if failed then d\<lparr>wd_success := False\<rparr> else d)
               in bind_s (if wd_success d then return_s None
                          else bind_s (schedule_retry env (wd_retry_count d)) (\<lambda>t. return_s (Some t))) (\<lambda>next.
                  let d = d\<lparr>wd_next_retry_at := next\<rparr>
                  in bind_s (write_delivery d) (\<lambda>_. return_s (Some d)))))) s"

section \<open>Laws of the deliveries\<close>

text \<open>
  What the webhook service promises: how long it waits before an attempt, which webhooks an event
  reaches, when a dispatch fails as a whole, and that automatic retries stop.
\<close>

section \<open>Delays\<close>

text \<open>The draws of \<open>random.uniform(0, 0.1)\<close>; the float 0.1 lies below one eighth.\<close>

definition jitter_ok :: "web_env \<Rightarrow> bool" where
  "jitter_ok env \<longleftrightarrow> (\<forall>t. between 0 (1/8) (env_uniform env t))"

definition base_delay :: "int \<Rightarrow> int" where
  "base_delay n = retry_delays ! nat (min n 2)"

lemma retry_delay_range:
  assumes "0 \<le> n" "between 0 (1/8) u"
  shows "\<exists>d. retry_delay n u = Inr d \<and> between (of_int (base_delay n)) (of_int (base_delay n) * (9/8)) d"
proof -
  have b: "base_delay n \<in> {1, 5, 30}"
  proof -
    have "nat (min n 2) \<in> {0, 1, 2}" using assms(1) by auto
    then show ?thesis by (auto simp: base_delay_def retry_delays_def)
  qed
  have "between 1 (9/8) (1 + u)"
    using assms(2) by (intro between_add [of 1 1 _ 0 "1/8"]) (simp_all add: rnd_def flt_eval Let_def)
  then obtain r where r: "1 + u = Fin r" "1 \<le> r" "r \<le> 9/8" by (auto simp: between_iff)
  have "between (of_int k) (of_int k * (9/8)) (flt_of_int k * (1 + u))" if "k \<in> {1, 5, 30}" for k
  proof -
    have "flt_of_int k = Fin (of_int k)"
      using that by (elim insertE emptyE) (simp_all add: flt_of_int_def flt_eval rnd_def Let_def)
    then have "flt_of_int k * (1 + u) = flt_of_rat (of_int k * r)" by (simp add: r(1) times_flt_def)
    moreover have "between (of_int k) (of_int k * (9/8)) (flt_of_rat (of_int k * r))"
      using that r(2,3) by (elim insertE emptyE; intro between_rounded) (simp_all add: rnd_def flt_eval Let_def)
    ultimately show ?thesis by simp
  qed
  then have "between (of_int (base_delay n)) (of_int (base_delay n) * (9/8)) (flt_of_int (base_delay n) * (1 + u))"
    using b by blast
  moreover have "retry_delay n u = Inr (flt_of_int (base_delay n) * (1 + u))"
    using assms(1) by (simp add: retry_delay_def py_index_def base_delay_def retry_delays_def)
  ultimately show ?thesis by blast
qed

lemma timedelta_us_lower:
  assumes "of_int a \<le> q" "0 \<le> a"
  shows "\<exists>us. timedelta_us (Fin q) = Inr us \<and> a * 10 ^ 6 \<le> us"
proof -
  have q: "0 \<le> q" using assms by (meson of_int_0_le_iff order_trans)
  have "0 \<le> rnd ((q - of_int \<lfloor>q\<rfloor>) * 10 ^ 6)" by (rule rnd_nonneg) simp
  then have "round_half_even (of_int (\<lfloor>q\<rfloor> * 10 ^ 6)) \<le> round_half_even (of_int \<lfloor>q\<rfloor> * 10 ^ 6 + rnd ((q - of_int \<lfloor>q\<rfloor>) * 10 ^ 6))"
    by (intro rhe_mono) simp
  then have "\<lfloor>q\<rfloor> * 10 ^ 6 \<le> round_half_even (of_int \<lfloor>q\<rfloor> * 10 ^ 6 + rnd ((q - of_int \<lfloor>q\<rfloor>) * 10 ^ 6))"
    unfolding rhe_of_int .
  moreover have "a * 10 ^ 6 \<le> \<lfloor>q\<rfloor> * 10 ^ 6" using assms(1) by (simp add: le_floor_iff)
  ultimately show ?thesis using q by (simp add: timedelta_us_def Let_def)
qed

text \<open>The next attempt is at least the base delay of the attempt away.\<close>

lemma schedule_retry_run:
  assumes "jitter_ok env" "0 \<le> n"
  shows "\<exists>t. schedule_retry env n s = Inr (t, s\<lparr>db_now := db_now s + 1\<rparr>) \<and> db_now s + base_delay n * 10 ^ 6 \<le> t"
proof -
  obtain d where d: "retry_delay n (env_uniform env (db_now s)) = Inr d"
    "between (of_int (base_delay n)) (of_int (base_delay n) * (9/8)) d"
    using retry_delay_range assms unfolding jitter_ok_def by blast
  then obtain q where q: "d = Fin q" "of_int (base_delay n) \<le> q" by (auto simp: between_iff)
  have "0 \<le> base_delay n"
  proof -
    have "nat (min n 2) \<in> {0, 1, 2}" using assms(2) by auto
    then show ?thesis by (auto simp: base_delay_def retry_delays_def)
  qed
  then obtain us where "timedelta_us (Fin q) = Inr us" "base_delay n * 10 ^ 6 \<le> us"
    using timedelta_us_lower q(2) by blast
  then show ?thesis using d q(1) by (simp add: schedule_retry_def bind_s_def)
qed

section \<open>Dispatch is all or nothing\<close>

abbreviation subscribed :: "string \<Rightarrow> webhook \<Rightarrow> bool" where
  "subscribed event wh \<equiv> wh_active wh \<and> event \<in> set (wh_event_types wh)"

text \<open>
  A failed request compares two columns of the new delivery that are still \<open>None\<close>, so a dispatch
  that returns has sent everything, and one failure loses the deliveries of all.
\<close>

lemma dispatch_one_run:
  assumes "dispatch_one env c event data wh s = Inr ((d, r), s')"
  shows "ds_webhook_id r = wh_id wh" "\<exists>code. ds_status r = Sent code \<and> code < 400" "nd_success d"
    "nd_webhook_id d = wh_id wh" "nd_next_retry_at d = None" "s' = s\<lparr>db_now := db_now s + 1\<rparr>"
  using assms
  by (auto simp: dispatch_one_def Let_def bind_s_Inr_iff schedule_first_def split: http_outcome.splits if_splits)

abbreviation sent_ok :: "new_delivery \<times> dispatch_result \<Rightarrow> bool" where
  "sent_ok p \<equiv> nd_success (fst p) \<and> nd_webhook_id (fst p) = ds_webhook_id (snd p) \<and>
     (\<exists>code. ds_status (snd p) = Sent code \<and> code < 400)"

lemma dispatch_all_run:
  "dispatch_all env c event data whs s = Inr (rs, s') \<Longrightarrow>
   map (\<lambda>r. ds_webhook_id (snd r)) rs = map wh_id (filter (subscribed event) whs) \<and>
   list_all sent_ok rs \<and> webhooks s' = webhooks s \<and> webhook_deliveries s' = webhook_deliveries s"
proof (induction whs arbitrary: s rs)
  case (Cons wh whs)
  show ?case
  proof (cases "subscribed event wh")
    case True
    then obtain d r s1 rs' where 1: "dispatch_one env c event data wh s = Inr ((d, r), s1)"
      "dispatch_all env c event data whs s1 = Inr (rs', s')" "rs = (d, r) # rs'"
      using Cons.prems by (auto simp: bind_s_Inr_iff)
    show ?thesis using dispatch_one_run [OF 1(1)] Cons.IH [OF 1(2)] True 1(3) by simp
  qed (use Cons in auto)
qed simp

lemma flush_all_run: "\<exists>s'. flush_all ds s = Inr ((), s') \<and>
    map (\<lambda>d. (wd_webhook_id d, wd_success d)) (webhook_deliveries s') =
    map (\<lambda>d. (wd_webhook_id d, wd_success d)) (webhook_deliveries s) @ map (\<lambda>d. (nd_webhook_id d, nd_success d)) ds"
proof (induction ds arbitrary: s)
  case (Cons d ds)
  obtain s1 where 1: "flush_delivery d s = Inr ((), s1)"
    "map (\<lambda>d. (wd_webhook_id d, wd_success d)) (webhook_deliveries s1) =
     map (\<lambda>d. (wd_webhook_id d, wd_success d)) (webhook_deliveries s) @ [(nd_webhook_id d, nd_success d)]"
    by (simp add: flush_delivery_def bind_s_def)
  then show ?case using Cons [of s1] by auto
qed simp

lemma dispatch_all_sent:
  assumes "dispatch_event env c event data s = Inr (results, s')"
  shows "map ds_webhook_id results = map wh_id (filter (subscribed event) (fst (list_webhooks c None None s)))"
    "list_all (\<lambda>r. \<exists>code. ds_status r = Sent code \<and> code < 400) results"
    "map (\<lambda>d. (wd_webhook_id d, wd_success d)) (webhook_deliveries s') =
     map (\<lambda>d. (wd_webhook_id d, wd_success d)) (webhook_deliveries s) @ map (\<lambda>r. (ds_webhook_id r, True)) results"
proof -
  obtain rs s1 where 1: "dispatch_all env c event data (fst (list_webhooks c None None s)) s = Inr (rs, s1)"
    "flush_all (map fst rs) s1 = Inr ((), s')" "results = map snd rs"
    using assms by (auto simp: dispatch_event_def bind_s_Inr_iff)
  note run = dispatch_all_run [OF 1(1)]
  show "map ds_webhook_id results = map wh_id (filter (subscribed event) (fst (list_webhooks c None None s)))"
    using run by (simp add: 1(3) comp_def)
  show "list_all (\<lambda>r. \<exists>code. ds_status r = Sent code \<and> code < 400) results"
    using run by (auto simp: 1(3) list_all_iff)
  have "map (\<lambda>d. (nd_webhook_id d, nd_success d)) (map fst rs) = map (\<lambda>r. (ds_webhook_id r, True)) results"
    using run by (auto simp: 1(3) list_all_iff)
  then show "map (\<lambda>d. (wd_webhook_id d, wd_success d)) (webhook_deliveries s') =
     map (\<lambda>d. (wd_webhook_id d, wd_success d)) (webhook_deliveries s) @ map (\<lambda>r. (ds_webhook_id r, True)) results"
    using flush_all_run [of "map fst rs" s1] run by (auto simp: 1(2))
qed

text \<open>The outcomes of a request that the service handles, and those it counts as failures.\<close>

definition handled :: "http_outcome \<Rightarrow> bool" where
  "handled out \<longleftrightarrow> (case out of Post_Raises _ \<Rightarrow> False | _ \<Rightarrow> True)"

definition failing :: "http_outcome \<Rightarrow> bool" where
  "failing out \<longleftrightarrow> (case out of Response code _ \<Rightarrow> 400 \<le> code | Request_Failed _ \<Rightarrow> True | Post_Raises _ \<Rightarrow> False)"

lemma dispatch_one_handled:
  assumes "\<And>t rq. handled (env_post env t rq)"
  shows "dispatch_one env c event data wh s = Inl TypeError \<or>
    (\<exists>r. dispatch_one env c event data wh s = Inr (r, s\<lparr>db_now := db_now s + 1\<rparr>))"
  using assms [of "db_now s" "signed_request env wh event
      [(''event'', PStr event), (''company_id'', PStr (str_nat c)), (''data'', PDict data)]"]
  by (auto simp: dispatch_one_def Let_def bind_s_def schedule_first_def handled_def split: http_outcome.splits)

lemma dispatch_one_failing:
  assumes "\<And>t rq. rq_url rq = wh_url wh \<Longrightarrow> failing (env_post env t rq)"
  shows "dispatch_one env c event data wh s = Inl TypeError"
proof -
  have "failing (env_post env (db_now s) (signed_request env wh event
      [(''event'', PStr event), (''company_id'', PStr (str_nat c)), (''data'', PDict data)]))"
    by (rule assms) (simp add: signed_request_def Let_def)
  then show ?thesis
    by (auto simp: dispatch_one_def Let_def bind_s_def schedule_first_def failing_def split: http_outcome.splits)
qed

lemma dispatch_all_failing:
  assumes "\<And>t rq. handled (env_post env t rq)" "wh \<in> set whs" "subscribed event wh"
    "\<And>t rq. rq_url rq = wh_url wh \<Longrightarrow> failing (env_post env t rq)"
  shows "dispatch_all env c event data whs s = Inl TypeError"
  using assms(2)
proof (induction whs arbitrary: s)
  case (Cons w whs)
  show ?case
  proof (cases "w = wh")
    case True
    then show ?thesis
      using assms(3) dispatch_one_failing [of wh env c event data s, OF assms(4)] by simp
  next
    case False
    then have "dispatch_all env c event data whs s' = Inl TypeError" for s' using Cons by simp
    then show ?thesis using dispatch_one_handled [of env c event data w s, OF assms(1)] by (auto simp: bind_s_def)
  qed
qed simp

lemma one_failure_loses_all:
  assumes "\<And>t rq. handled (env_post env t rq)" "wh \<in> set (webhooks s)" "wh_company_id wh = c" "wh_deleted_at wh = None"
    "subscribed event wh" "\<And>t rq. rq_url rq = wh_url wh \<Longrightarrow> failing (env_post env t rq)"
  shows "dispatch_event env c event data s = Inl TypeError"
proof -
  have "wh \<in> set (fst (list_webhooks c None None s))"
    using assms(2,3,4) by (simp add: list_webhooks_def live_webhooks_def Let_def)
  then show ?thesis
    using dispatch_all_failing [OF assms(1) _ assms(5,6)] by (simp add: dispatch_event_def)
qed

section \<open>Retries stop\<close>

text \<open>A retry is scheduled only for a failed delivery with attempts left.\<close>

definition delivery_ok :: "webhook_delivery \<Rightarrow> bool" where
  "delivery_ok d \<longleftrightarrow> 0 \<le> wd_retry_count d \<and>
     (wd_next_retry_at d \<noteq> None \<longrightarrow> \<not> wd_success d \<and> wd_retry_count d < wd_max_retries d)"

definition deliveries_ok :: "db \<Rightarrow> bool" where
  "deliveries_ok s \<longleftrightarrow> list_all delivery_ok (webhook_deliveries s)"

lemma write_delivery_ok: "deliveries_ok s \<Longrightarrow> delivery_ok d \<Longrightarrow> write_delivery d s = Inr (u, s') \<Longrightarrow> deliveries_ok s'"
  by (auto simp: write_delivery_def deliveries_ok_def list_all_iff update_row_def)

lemma attempt_run:
  assumes "attempt_delivery env wh d s = Inr ((d', failed), s')"
  shows "wd_id d' = wd_id d" "wd_retry_count d' = wd_retry_count d + 1" "wd_max_retries d' = wd_max_retries d"
    "failed \<Longrightarrow> wd_success d' = wd_success d" "s' = s\<lparr>db_now := db_now s + 1\<rparr>"
  using assms by (auto simp: attempt_delivery_def Let_def bind_s_Inr_iff split: http_outcome.splits)

lemma reschedule_run:
  "reschedule env d s = Inr (nxt, s') \<Longrightarrow>
   deliveries_ok s' = deliveries_ok s \<and> (nxt \<noteq> None \<longrightarrow> \<not> wd_success d \<and> wd_retry_count d < wd_max_retries d)"
  by (auto simp: reschedule_def schedule_retry_def bind_s_Inr_iff deliveries_ok_def split: if_splits)

lemma stop_retrying_ok:
  "deliveries_ok s \<Longrightarrow> delivery_ok d \<Longrightarrow> stop_retrying d s = Inr (n, s') \<Longrightarrow> deliveries_ok s' \<and> n = 0"
  by (auto simp: stop_retrying_def bind_s_Inr_iff elim!: write_delivery_ok [rotated 2]) (simp add: delivery_ok_def)

lemma retry_once_ok:
  assumes "deliveries_ok s" "delivery_ok d" "retry_once env wh d s = Inr (n, s')"
  shows "deliveries_ok s' \<and> n = 1"
proof -
  obtain d' failed s1 nxt s2 where 1: "attempt_delivery env wh d s = Inr ((d', failed), s1)"
    "reschedule env d' s1 = Inr (nxt, s2)" "write_delivery (d'\<lparr>wd_next_retry_at := nxt\<rparr>) s2 = Inr ((), s')" "n = 1"
    using assms(3) by (auto simp: retry_once_def bind_s_Inr_iff)
  note a = attempt_run [OF 1(1)] and r = reschedule_run [OF 1(2)]
  have "deliveries_ok s2" using r a(5) assms(1) by (simp add: deliveries_ok_def)
  moreover have "delivery_ok (d'\<lparr>wd_next_retry_at := nxt\<rparr>)" using r a(2) assms(2) by (auto simp: delivery_ok_def)
  ultimately show ?thesis using write_delivery_ok 1(3,4) by blast
qed

lemma process_one_ok:
  assumes "deliveries_ok s" "delivery_ok d" "process_one env d s = Inr (n, s')"
  shows "deliveries_ok s' \<and> n \<le> 1"
  using assms(3) stop_retrying_ok [OF assms(1,2)] retry_once_ok [OF assms(1,2)]
  by (fastforce simp: process_one_def bind_s_Inr_iff split: option.splits if_splits)

lemma process_all_ok:
  "deliveries_ok s \<Longrightarrow> list_all delivery_ok ds \<Longrightarrow> process_all env ds s = Inr (n, s') \<Longrightarrow>
   deliveries_ok s' \<and> n \<le> length ds"
proof (induction ds arbitrary: s n)
  case (Cons d ds)
  obtain k s1 m where 1: "process_one env d s = Inr (k, s1)" "process_all env ds s1 = Inr (m, s')" "n = k + m"
    using Cons.prems(3) by (auto simp: bind_s_Inr_iff)
  show ?case using process_one_ok [OF Cons.prems(1) _ 1(1)] Cons.IH [OF _ _ 1(2)] Cons.prems(2) 1(3) by auto
qed simp

text \<open>A pass over the due deliveries makes at most fifty attempts and keeps the schedule within its bound.\<close>

lemma process_pending_ok:
  assumes "deliveries_ok s" "process_pending_retries env s = Inr (n, s')"
  shows "deliveries_ok s' \<and> n \<le> 50"
proof -
  let ?s = "s\<lparr>db_now := db_now s + 1\<rparr>"
  have 1: "process_all env (due_deliveries (db_now s) ?s) ?s = Inr (n, s')"
    using assms(2) by (simp add: process_pending_retries_def)
  have "list_all delivery_ok (due_deliveries (db_now s) ?s)"
    using assms(1) by (auto simp: due_deliveries_def deliveries_ok_def list_all_iff dest: in_set_takeD)
  then show ?thesis
    using process_all_ok [OF _ _ 1] assms(1) by (fastforce simp: deliveries_ok_def due_deliveries_def)
qed

text \<open>The manual retry schedules the next attempt of a failure however many there were.\<close>

lemma retry_delivery_exceeds:
  assumes "owned_deliveries i c s = [d]" "filter (\<lambda>w. wh_id w = wd_webhook_id d) (webhooks s) = [wh]" "wh_active wh"
    "\<And>t rq. failing (env_post env t rq)" "jitter_ok env" "0 \<le> wd_retry_count d"
  shows "\<exists>d' s'. retry_delivery env i c s = Inr (Some d', s') \<and> \<not> wd_success d' \<and>
     wd_retry_count d' = wd_retry_count d + 1 \<and> wd_max_retries d' = wd_max_retries d \<and>
     (\<exists>t. wd_next_retry_at d' = Some t \<and> db_now s < t)"
proof -
  obtain d1 f where 1: "attempt_delivery env wh d s = Inr ((d1, f), s\<lparr>db_now := db_now s + 1\<rparr>)" "f \<or> \<not> wd_success d1"
    "wd_retry_count d1 = wd_retry_count d + 1" "wd_max_retries d1 = wd_max_retries d"
    using assms(4) [of "db_now s" "signed_request env wh (wd_event_type d) (wd_payload d)"]
    by (auto simp: attempt_delivery_def bind_s_def Let_def failing_def split: http_outcome.splits)
  define d2 where "d2 = (if f then d1\<lparr>wd_success := False\<rparr> else d1)"
  have 2: "\<not> wd_success d2" "wd_retry_count d2 = wd_retry_count d + 1" "wd_max_retries d2 = wd_max_retries d"
    using 1 by (auto simp: d2_def)
  obtain t where t: "schedule_retry env (wd_retry_count d + 1) (s\<lparr>db_now := db_now s + 1\<rparr>) =
      Inr (t, s\<lparr>db_now := db_now s + 2\<rparr>)" "db_now s + 1 + base_delay (wd_retry_count d + 1) * 10 ^ 6 \<le> t"
    using schedule_retry_run [OF assms(5), of "wd_retry_count d + 1" "s\<lparr>db_now := db_now s + 1\<rparr>"] assms(6)
    by (auto simp: add.assoc)
  have "0 \<le> base_delay (wd_retry_count d + 1)"
  proof -
    have "nat (min (wd_retry_count d + 1) 2) \<in> {0, 1, 2}" using assms(6) by auto
    then show ?thesis by (auto simp: base_delay_def retry_delays_def)
  qed
  then have "db_now s < t" using t(2) by simp
  then show ?thesis
    using assms(1,2,3) 1(1) 2 t(1)
    by (simp add: retry_delivery_def bind_s_def write_delivery_def Let_def flip: d2_def)
qed

end
