(* ===== verification/Sessions.thy ===== *)
theory Sessions
imports Models
begin

text \<open>
  The database session of one request (\<open>api/database.py\<close>, \<open>get_db\<close>) and the audit trail of
  \<open>api/services/audit.py\<close>. A session has the rows as the request sees them and the rows as last
  committed. A handler runs in a session and may raise after it has committed; when the request ends,
  what was not committed is lost. The clock and the supply of identifiers go on all the same.
\<close>

record session =
  ses_db :: db
  ses_saved :: db

type_synonym 'a req = "session \<Rightarrow> 'a res \<times> session"

definition return_q :: "'a \<Rightarrow> 'a req" where
  "return_q x = (\<lambda>ses. (Inr x, ses))"

definition raise_q :: "exn \<Rightarrow> 'a req" where
  "raise_q e = (\<lambda>ses. (Inl e, ses))"

definition bind_q :: "'a req \<Rightarrow> ('a \<Rightarrow> 'b req) \<Rightarrow> 'b req" where
  "bind_q m f = (\<lambda>ses. case m ses of (r, ses') \<Rightarrow> (case r of Inl e \<Rightarrow> (Inl e, ses') | Inr x \<Rightarrow> f x ses'))"

text \<open>A call of a service that does not commit; when it raises, its writes are undone.\<close>

definition serve :: "(db, 'a) sres \<Rightarrow> 'a req" where
  "serve m = (\<lambda>ses. case m (ses_db ses) of Inl e \<Rightarrow> (Inl e, ses) | Inr r \<Rightarrow> (Inr (fst r), ses\<lparr>ses_db := snd r\<rparr>))"

definition commit :: "unit req" where
  "commit = (\<lambda>ses. (Inr (), ses\<lparr>ses_saved := ses_db ses\<rparr>))"

definition end_session :: "session \<Rightarrow> db" where
  "end_session ses = (ses_saved ses)\<lparr>db_now := db_now (ses_db ses), db_next_id := db_next_id (ses_db ses)\<rparr>"

text \<open>A query, and a write of rows.\<close>

definition ask :: "(db \<Rightarrow> 'a res) \<Rightarrow> 'a req" where
  "ask f = serve (\<lambda>s. lift_s (f s) s)"

definition write_db :: "(db \<Rightarrow> db) \<Rightarrow> unit req" where
  "write_db f = serve (modify_s f)"

text \<open>An exception handler that raises another one, and the reply to a request whose body is not valid.\<close>

definition rethrow :: "(exn \<Rightarrow> exn) \<Rightarrow> 'a req \<Rightarrow> 'a req" where
  "rethrow h m = (\<lambda>ses. case m ses of (Inl e, ses') \<Rightarrow> (Inl (h e), ses') | r \<Rightarrow> r)"

definition check_body :: "bool \<Rightarrow> unit req" where
  "check_body ok = (if ok then return_q () else raise_q (HTTPException 422 ''Unprocessable Entity''))"

text \<open>\<open>async with async_session() as session: yield session\<close>\<close>

definition get_db :: "'a req \<Rightarrow> db \<Rightarrow> 'a res \<times> db" where
  "get_db m s = (case m \<lparr>ses_db = s, ses_saved = s\<rparr> of (r, ses) \<Rightarrow> (r, end_session ses))"

section \<open>Running a session\<close>

lemma return_q_apply [simp]: "return_q x ses = (Inr x, ses)"
  by (simp add: return_q_def)

lemma raise_q_apply [simp]: "raise_q e ses = (Inl e, ses)"
  by (simp add: raise_q_def)

lemma bind_q_Inl [simp]: "m ses = (Inl e, ses') \<Longrightarrow> bind_q m f ses = (Inl e, ses')"
  by (simp add: bind_q_def)

lemma bind_q_Inr [simp]: "m ses = (Inr x, ses') \<Longrightarrow> bind_q m f ses = f x ses'"
  by (simp add: bind_q_def)

lemma serve_Inl [simp]: "m (ses_db ses) = Inl e \<Longrightarrow> serve m ses = (Inl e, ses)"
  by (simp add: serve_def)

lemma serve_Inr [simp]: "m (ses_db ses) = Inr (x, s) \<Longrightarrow> serve m ses = (Inr x, ses\<lparr>ses_db := s\<rparr>)"
  by (simp add: serve_def)

lemma commit_apply [simp]: "commit ses = (Inr (), ses\<lparr>ses_saved := ses_db ses\<rparr>)"
  by (simp add: commit_def)

lemma bind_q_cases:
  assumes "bind_q m f ses = (r, ses')"
  obtains (raised) e where "m ses = (Inl e, ses')" "r = Inl e"
  | (went_on) x ses1 where "m ses = (Inr x, ses1)" "f x ses1 = (r, ses')"
  using assms by (cases "m ses") (auto simp: bind_q_def split: sum.splits)

lemma bind_q_Inr_iff: "bind_q m f ses = (Inr r, ses') \<longleftrightarrow> (\<exists>x ses1. m ses = (Inr x, ses1) \<and> f x ses1 = (Inr r, ses'))"
  by (cases "m ses") (auto simp: bind_q_def split: sum.splits)

lemma serve_Inr_iff: "serve m ses = (Inr x, ses') \<longleftrightarrow> (\<exists>s. m (ses_db ses) = Inr (x, s) \<and> ses' = ses\<lparr>ses_db := s\<rparr>)"
  by (auto simp: serve_def split: sum.splits)

lemma ask_apply [simp]: "f (ses_db ses) = Inr x \<Longrightarrow> ask f ses = (Inr x, ses)"
  by (simp add: ask_def serve_def)

lemma ask_Inr_iff: "ask f ses = (Inr x, ses') \<longleftrightarrow> f (ses_db ses) = Inr x \<and> ses' = ses"
  by (auto simp: ask_def serve_def split: sum.splits)

lemma rethrow_Inr_iff: "rethrow h m ses = (Inr x, ses') \<longleftrightarrow> m ses = (Inr x, ses')"
  by (auto simp: rethrow_def split: prod.splits sum.splits)

lemma rethrow_Inr [simp]: "m ses = (Inr x, ses') \<Longrightarrow> rethrow h m ses = (Inr x, ses')"
  by (simp add: rethrow_Inr_iff)

lemma rethrow_Inl [simp]: "m ses = (Inl e, ses') \<Longrightarrow> rethrow h m ses = (Inl (h e), ses')"
  by (simp add: rethrow_def)

lemma check_body_True [simp]: "check_body True ses = (Inr (), ses)"
  by (simp add: check_body_def)

lemma check_body_Inr_iff: "check_body ok ses = (Inr u, ses') \<longleftrightarrow> ok \<and> ses' = ses"
  by (auto simp: check_body_def)

lemma get_db_Inr_iff:
  "get_db m s = (Inr x, s') \<longleftrightarrow> (\<exists>ses. m \<lparr>ses_db = s, ses_saved = s\<rparr> = (Inr x, ses) \<and> s' = end_session ses)"
  by (auto simp: get_db_def split: prod.splits)

lemma end_session_simps [simp]:
  "users (end_session ses) = users (ses_saved ses)"
  "refresh_tokens (end_session ses) = refresh_tokens (ses_saved ses)"
  "revoked_tokens (end_session ses) = revoked_tokens (ses_saved ses)"
  "password_reset_tokens (end_session ses) = password_reset_tokens (ses_saved ses)"
  "mfa_secrets (end_session ses) = mfa_secrets (ses_saved ses)"
  "invitations (end_session ses) = invitations (ses_saved ses)"
  "audit_logs (end_session ses) = audit_logs (ses_saved ses)"
  "db_now (end_session ses) = db_now (ses_db ses)"
  "db_next_id (end_session ses) = db_next_id (ses_db ses)"
  by (simp_all add: end_session_def)

section \<open>The audit trail\<close>

text \<open>\<open>audit.record\<close>; a text that is not an identifier of a company is refused by the database.\<close>

definition record_audit ::
    "ident \<Rightarrow> ident \<Rightarrow> string \<Rightarrow> string \<Rightarrow> ident option \<Rightarrow> string option \<Rightarrow> (db, unit) sres" where
  "record_audit user_id company_id action resource_type resource_id detail =
     bind_s new_id (\<lambda>i.
     bind_s utcnow (\<lambda>now.
     modify_s (\<lambda>s. s\<lparr>audit_logs := audit_logs s @
       [\<lparr>au_id = i, au_user_id = Some user_id, au_company_id = Some company_id, au_action = action,
         au_resource_type = resource_type, au_resource_id = resource_id, au_detail = detail, au_created_at = now\<rparr>]\<rparr>)))"

record log_filter =
  lf_action :: "string option"
  lf_resource_type :: "string option"
  lf_user_id :: "ident option"
  lf_start_date :: "timestamp option"
  lf_end_date :: "timestamp option"

definition log_selected :: "ident \<Rightarrow> log_filter \<Rightarrow> audit_log \<Rightarrow> bool" where
  "log_selected company_id flt r \<longleftrightarrow> au_company_id r = Some company_id \<and>
     (case lf_action flt of None \<Rightarrow> True | Some a \<Rightarrow> au_action r = a) \<and>
     (case lf_resource_type flt of None \<Rightarrow> True | Some t \<Rightarrow> au_resource_type r = t) \<and>
     (case lf_user_id flt of None \<Rightarrow> True | Some u \<Rightarrow> au_user_id r = Some u) \<and>
     (case lf_start_date flt of None \<Rightarrow> True | Some t \<Rightarrow> t \<le> au_created_at r) \<and>
     (case lf_end_date flt of None \<Rightarrow> True | Some t \<Rightarrow> au_created_at r \<le> t)"

definition list_logs :: "ident \<Rightarrow> log_filter \<Rightarrow> nat \<Rightarrow> nat \<Rightarrow> db \<Rightarrow> audit_log list \<times> nat" where
  "list_logs company_id flt limit offset s =
     page au_created_at limit offset (filter (log_selected company_id flt) (audit_logs s))"

lemma record_audit_run [simp]: "record_audit u c a t i d s = Inr ((), s\<lparr>db_now := db_now s + 1, db_next_id := db_next_id s + 1,
    audit_logs := audit_logs s @ [\<lparr>au_id = db_next_id s, au_user_id = Some u, au_company_id = Some c, au_action = a,
      au_resource_type = t, au_resource_id = i, au_detail = d, au_created_at = db_now s\<rparr>]\<rparr>)"
  by (simp add: record_audit_def)

text \<open>No company sees another's log.\<close>

lemma list_logs_own:
  "r \<in> set (fst (list_logs c flt limit offset s)) \<Longrightarrow> au_company_id r = Some c"
  by (auto simp: list_logs_def page_def paginate_def log_selected_def dest!: in_set_takeD in_set_dropD)

end
