(* ===== verification/Auth_Tokens.thy ===== *)
theory Auth_Tokens
imports Sessions
begin

text \<open>
  \<open>api/auth.py\<close>: access tokens, the single-use refresh and password reset tokens, revocation and the
  check of credentials. Digests, bcrypt, the JWT library and the random source are the fields of an
  environment; a random token is drawn for a fresh identifier. Timestamps count microseconds, the
  expiry in a JWT counts seconds. Texts are ASCII.
\<close>

record jwt_claims =
  jc_sub :: "ident option"
  jc_company_id :: ident
  jc_exp :: int
  jc_type :: "string option"
  jc_jti :: "string option"
  jc_iss :: string

record auth_config =
  access_token_expire_minutes :: int
  mfa_pending_token_expire_minutes :: int
  max_failed_login_attempts :: int
  account_lockout_minutes :: int
  cookie_secure :: bool
  google_client_id :: string

text \<open>
  \<open>ae_jwt_decode now t\<close> is \<open>jwt.decode\<close> with the signature, the issuer, the expiry and the presence of
  \<open>exp\<close>, \<open>sub\<close> and \<open>iss\<close> checked at the time \<open>now\<close>.
\<close>

record auth_env =
  ae_config :: auth_config
  ae_sha256 :: "string \<Rightarrow> string"
  ae_token :: "ident \<Rightarrow> string"
  ae_bcrypt :: "ident \<Rightarrow> string \<Rightarrow> string"
  ae_bcrypt_verify :: "string \<Rightarrow> string \<Rightarrow> bool"
  ae_jwt_encode :: "jwt_claims \<Rightarrow> string"
  ae_jwt_decode :: "timestamp \<Rightarrow> string \<Rightarrow> jwt_claims res"

definition refresh_token_expire_days :: int where
  "refresh_token_expire_days = 30"

definition reset_token_expire_minutes :: int where
  "reset_token_expire_minutes = 15"

definition minutes_us :: "int \<Rightarrow> timestamp" where
  "minutes_us n = n * 60 * 1000000"

definition days_us :: "int \<Rightarrow> timestamp" where
  "days_us n = minutes_us (n * 24 * 60)"

definition jwt_issuer :: string where
  "jwt_issuer = ''carbonscope''"

section \<open>Passwords\<close>

text \<open>bcrypt reads at most 72 bytes.\<close>

definition truncate_password :: "string \<Rightarrow> string" where
  "truncate_password plain = take 72 plain"

definition hash_password :: "auth_env \<Rightarrow> string \<Rightarrow> (db, string) sres" where
  "hash_password env plain = bind_s new_id (\<lambda>salt. return_s (ae_bcrypt env salt (truncate_password plain)))"

definition verify_password :: "auth_env \<Rightarrow> string \<Rightarrow> string \<Rightarrow> bool" where
  "verify_password env plain hashed = ae_bcrypt_verify env (truncate_password plain) hashed"

section \<open>Access tokens\<close>

definition create_jwt :: "auth_env \<Rightarrow> string \<Rightarrow> int \<Rightarrow> ident \<Rightarrow> ident \<Rightarrow> (db, string) sres" where
  "create_jwt env kind minutes user_id company_id =
     bind_s utcnow (\<lambda>now.
     bind_s new_id (\<lambda>jti.
     return_s (ae_jwt_encode env \<lparr>jc_sub = Some user_id, jc_company_id = company_id,
       jc_exp = (now + minutes_us minutes) div 1000000, jc_type = Some kind,
       jc_jti = Some (ae_token env jti), jc_iss = jwt_issuer\<rparr>)))"

definition create_access_token :: "auth_env \<Rightarrow> ident \<Rightarrow> ident \<Rightarrow> (db, string) sres" where
  "create_access_token env user_id company_id =
     create_jwt env ''access'' (access_token_expire_minutes (ae_config env)) user_id company_id"

definition create_mfa_pending_token :: "auth_env \<Rightarrow> ident \<Rightarrow> ident \<Rightarrow> (db, string) sres" where
  "create_mfa_pending_token env user_id company_id =
     create_jwt env ''mfa_pending'' (mfa_pending_token_expire_minutes (ae_config env)) user_id company_id"

definition decode_access_token :: "auth_env \<Rightarrow> string \<Rightarrow> (db, jwt_claims) sres" where
  "decode_access_token env token = bind_s utcnow (\<lambda>now. lift_s (ae_jwt_decode env now token))"

definition revoke_access_token :: "string \<Rightarrow> ident \<Rightarrow> timestamp \<Rightarrow> (db, unit) sres" where
  "revoke_access_token jti user_id expires_at =
     bind_s new_id (\<lambda>i.
     bind_s utcnow (\<lambda>now.
     (\<lambda>s. if list_ex (\<lambda>r. rv_jti r = jti) (revoked_tokens s) then Inl IntegrityError
          else Inr ((), s\<lparr>revoked_tokens := revoked_tokens s @
            [\<lparr>rv_id = i, rv_jti = jti, rv_user_id = user_id, rv_revoked_at = now, rv_expires_at = expires_at\<rparr>]\<rparr>))))"

definition is_token_revoked :: "string \<Rightarrow> db \<Rightarrow> bool res" where
  "is_token_revoked jti s =
     bind_r (scalar_one_or_none (filter (\<lambda>r. rv_jti r = jti) (revoked_tokens s))) (\<lambda>m. Inr (m \<noteq> None))"

section \<open>Refresh tokens\<close>

definition create_refresh_token :: "auth_env \<Rightarrow> ident \<Rightarrow> (db, string) sres" where
  "create_refresh_token env user_id =
     bind_s new_id (\<lambda>k.
     bind_s utcnow (\<lambda>now.
     bind_s new_id (\<lambda>i.
     bind_s utcnow (\<lambda>created.
     bind_s (modify_s (\<lambda>s. s\<lparr>refresh_tokens := refresh_tokens s @
       [\<lparr>rt_id = i, rt_user_id = user_id, rt_token_hash = ae_sha256 env (ae_token env k),
         rt_expires_at = now + days_us refresh_token_expire_days, rt_created_at = created\<rparr>]\<rparr>)) (\<lambda>_.
     return_s (ae_token env k))))))"

definition delete_refresh_token :: "ident \<Rightarrow> (db, unit) sres" where
  "delete_refresh_token i = modify_s (\<lambda>s. s\<lparr>refresh_tokens := filter (\<lambda>r. rt_id r \<noteq> i) (refresh_tokens s)\<rparr>)"

text \<open>The user and the company of the token; the company of a user who is gone is the empty text, \<open>None\<close> here.\<close>

definition validate_refresh_token :: "auth_env \<Rightarrow> string \<Rightarrow> (db, (ident \<times> ident option) option) sres" where
  "validate_refresh_token env token s =
     bind_s (lift_s (scalar_one_or_none (filter (\<lambda>r. rt_token_hash r = ae_sha256 env token) (refresh_tokens s)))) (\<lambda>found.
     case found of
       None \<Rightarrow> return_s None
     | Some row \<Rightarrow>
         bind_s utcnow (\<lambda>now.
         if rt_expires_at row < now then
           bind_s (delete_refresh_token (rt_id row)) (\<lambda>_. return_s None)
         else
           bind_s (lift_s (scalar_one_or_none (filter (\<lambda>u. us_id u = rt_user_id row) (users s)))) (\<lambda>u.
           bind_s (delete_refresh_token (rt_id row)) (\<lambda>_.
           return_s (Some (rt_user_id row, map_option us_company_id u)))))) s"

definition revoke_refresh_tokens :: "ident \<Rightarrow> (db, nat) sres" where
  "revoke_refresh_tokens user_id s =
     Inr (length (filter (\<lambda>r. rt_user_id r = user_id) (refresh_tokens s)),
          s\<lparr>refresh_tokens := filter (\<lambda>r. rt_user_id r \<noteq> user_id) (refresh_tokens s)\<rparr>)"

section \<open>Password reset tokens\<close>

definition create_reset_token :: "auth_env \<Rightarrow> ident \<Rightarrow> string \<Rightarrow> (db, string) sres" where
  "create_reset_token env user_id email =
     bind_s new_id (\<lambda>k.
     bind_s utcnow (\<lambda>now.
     bind_s new_id (\<lambda>i.
     bind_s utcnow (\<lambda>created.
     bind_s (modify_s (\<lambda>s. s\<lparr>password_reset_tokens := password_reset_tokens s @
       [\<lparr>pr_id = i, pr_user_id = user_id, pr_email = email, pr_token_hash = ae_sha256 env (ae_token env k),
         pr_expires_at = now + minutes_us reset_token_expire_minutes, pr_created_at = created\<rparr>]\<rparr>)) (\<lambda>_.
     return_s (ae_token env k))))))"

definition delete_reset_token :: "ident \<Rightarrow> (db, unit) sres" where
  "delete_reset_token i =
     modify_s (\<lambda>s. s\<lparr>password_reset_tokens := filter (\<lambda>r. pr_id r \<noteq> i) (password_reset_tokens s)\<rparr>)"

definition validate_reset_token :: "auth_env \<Rightarrow> string \<Rightarrow> (db, (ident \<times> string) option) sres" where
  "validate_reset_token env token s =
     bind_s (lift_s (scalar_one_or_none
         (filter (\<lambda>r. pr_token_hash r = ae_sha256 env token) (password_reset_tokens s)))) (\<lambda>found.
     case found of
       None \<Rightarrow> return_s None
     | Some row \<Rightarrow>
         bind_s utcnow (\<lambda>now.
         bind_s (delete_reset_token (pr_id row)) (\<lambda>_.
         return_s (if pr_expires_at row < now then None else Some (pr_user_id row, pr_email row))))) s"

section \<open>Credentials\<close>

definition authenticate_user :: "auth_env \<Rightarrow> string \<Rightarrow> string \<Rightarrow> db \<Rightarrow> user option res" where
  "authenticate_user env email password s =
     bind_r (scalar_one_or_none (filter (\<lambda>u. us_email u = email) (users s))) (\<lambda>found.
     Inr (case found of
        None \<Rightarrow> None
      | Some u \<Rightarrow>
          if \<not> verify_password env password (us_hashed_password u) then None
          else if \<not> us_is_active u \<or> us_deleted_at u \<noteq> None then None
          else Some u))"

end
