(* ===== verification/Deps.thy ===== *)
theory Deps
imports Auth_Tokens Subscriptions
begin

text \<open>
  \<open>api/deps.py\<close>: who a request comes from, and the gates on plan, credits and role. The parts of a request
  the code reads are a record; \<open>hi_bearer\<close> is what the framework's bearer scheme extracts.
\<close>

record http_in =
  hi_method :: string
  hi_bearer :: "string option"
  hi_authorization :: string
  hi_csrf_header :: string
  hi_cookies :: "(string, string) dict"

text \<open>\<open>if creds and creds.credentials: ... else: cookie\<close>, with the empty text for no token\<close>

definition request_token :: "http_in \<Rightarrow> string \<times> bool" where
  "request_token rq =
     (case hi_bearer rq of
        Some t \<Rightarrow> if t \<noteq> [] then (t, False) else (dict_get (hi_cookies rq) ''access_token'' [], True)
      | None \<Rightarrow> (dict_get (hi_cookies rq) ''access_token'' [], True))"

definition csrf_ok :: "http_in \<Rightarrow> bool" where
  "csrf_ok rq =
     (let csrf_cookie = dict_get (hi_cookies rq) ''csrf_token'' []; csrf_header = hi_csrf_header rq
      in csrf_cookie \<noteq> [] \<and> csrf_header \<noteq> [] \<and> csrf_cookie = csrf_header)"

definition decode_or_401 :: "auth_env \<Rightarrow> string \<Rightarrow> (db, jwt_claims) sres" where
  "decode_or_401 env token s =
     (case decode_access_token env token s of
        Inl e \<Rightarrow> Inl (if e = PyJWTError then HTTPException 401 ''Invalid or expired token'' else e)
      | Inr r \<Rightarrow> Inr r)"

definition live_user :: "ident \<Rightarrow> db \<Rightarrow> user res" where
  "live_user user_id s =
     bind_r (scalar_one_or_none (filter (\<lambda>u. us_id u = user_id \<and> us_deleted_at u = None) (users s))) (\<lambda>found.
     case found of None \<Rightarrow> Inl (HTTPException 401 ''User not found'') | Some u \<Rightarrow> Inr u)"

definition get_current_user :: "auth_env \<Rightarrow> http_in \<Rightarrow> (db, user) sres" where
  "get_current_user env rq s =
     (case request_token rq of (token, from_cookie) \<Rightarrow>
      if token = [] then Inl (HTTPException 401 ''Not authenticated'')
      else if from_cookie \<and> hi_method rq \<notin> {''GET'', ''HEAD'', ''OPTIONS''} \<and> \<not> csrf_ok rq
      then Inl (HTTPException 403 ''CSRF validation failed'')
      else bind_s (decode_or_401 env token) (\<lambda>payload.
        if jc_type payload = Some ''mfa_pending'' then raise_s (HTTPException 403 ''MFA verification required'')
        else case jc_sub payload of
          None \<Rightarrow> raise_s (HTTPException 401 ''Invalid token payload'')
        | Some user_id \<Rightarrow>
            bind_s (lift_s (case jc_jti payload of
               None \<Rightarrow> Inr False
             | Some jti \<Rightarrow> if jti = [] then Inr False else is_token_revoked jti s)) (\<lambda>revoked.
            if revoked then raise_s (HTTPException 401 ''Token has been revoked'')
            else bind_s (lift_s (live_user user_id s)) (\<lambda>u.
              if \<not> us_is_active u then raise_s (HTTPException 403 ''Account is deactivated'')
              else return_s u))) s)"

definition get_mfa_pending_user :: "auth_env \<Rightarrow> http_in \<Rightarrow> (db, user) sres" where
  "get_mfa_pending_user env rq s =
     (case request_token rq of (token, from_cookie) \<Rightarrow>
      if token = [] then Inl (HTTPException 401 ''Not authenticated'')
      else bind_s (decode_or_401 env token) (\<lambda>payload.
        if jc_type payload \<noteq> Some ''mfa_pending'' then raise_s (HTTPException 400 ''Expected MFA pending token'')
        else case jc_sub payload of
          None \<Rightarrow> raise_s (HTTPException 401 ''Invalid token payload'')
        | Some user_id \<Rightarrow> lift_s (live_user user_id s)) s)"

section \<open>Gates\<close>

definition require_plan :: "auth_env \<Rightarrow> http_in \<Rightarrow> string \<Rightarrow> (db, user) sres" where
  "require_plan env rq feature =
     bind_s (get_current_user env rq) (\<lambda>u.
     bind_s (check_feature_access (us_company_id u) feature) (\<lambda>allowed.
     if allowed then return_s u
     else raise_s (HTTPException 403 (''Feature '' @ [CHR 0x27] @ feature @ [CHR 0x27] @
       '' requires a Pro or Enterprise plan. Upgrade at /billing/subscription''))))"

fun is_value_error :: "exn \<Rightarrow> bool" where
  "is_value_error (ValueError m) = True"
| "is_value_error (InsufficientCredits b c) = True"
| "is_value_error e = False"

text \<open>\<open>except ValueError: raise ...\<close>\<close>

definition value_error_as :: "exn \<Rightarrow> exn \<Rightarrow> exn" where
  "value_error_as e' e = (if is_value_error e then e' else e)"

definition require_credits :: "auth_env \<Rightarrow> http_in \<Rightarrow> string \<Rightarrow> (db, user) sres" where
  "require_credits env rq operation =
     bind_s (get_current_user env rq) (\<lambda>u.
     bind_s (\<lambda>s. case check_credit_balance (us_company_id u) operation s of
         Inl e \<Rightarrow> Inl (if is_value_error e then HTTPException 402 ''Insufficient credits for this operation'' else e)
       | Inr r \<Rightarrow> Inr r) (\<lambda>_.
     return_s u))"

definition require_admin :: "auth_env \<Rightarrow> http_in \<Rightarrow> (db, user) sres" where
  "require_admin env rq =
     bind_s (get_current_user env rq) (\<lambda>u.
     if us_role u \<noteq> Admin then raise_s (HTTPException 403 ''Admin access required'') else return_s u)"

section \<open>What the check of a request establishes\<close>

lemma decode_or_401_Inr: "decode_or_401 env token s = Inr (c, s') \<longleftrightarrow>
    ae_jwt_decode env (db_now s) token = Inr c \<and> s' = s\<lparr>db_now := db_now s + 1\<rparr>"
  by (auto simp: decode_or_401_def decode_access_token_def split: sum.splits)

lemma live_user_Inr: "live_user i s = Inr u \<Longrightarrow> u \<in> set (users s) \<and> us_id u = i \<and> us_deleted_at u = None"
  by (auto simp: live_user_def bind_r_Inr_iff scalar_one_or_none_Some dest!: filter_single split: option.splits)

lemma is_token_revoked_False: "is_token_revoked jti s = Inr False \<longleftrightarrow> jti \<notin> rv_jti ` set (revoked_tokens s)"
  by (auto simp: is_token_revoked_def bind_r_Inr_iff scalar_one_or_none_None filter_empty_conv)

lemma current_user_run:
  assumes "get_current_user env rq s = Inr (u, s')"
  obtains payload where "ae_jwt_decode env (db_now s) (fst (request_token rq)) = Inr payload"
    "jc_type payload \<noteq> Some ''mfa_pending''" "jc_sub payload = Some (us_id u)" "s' = s\<lparr>db_now := db_now s + 1\<rparr>"
    "\<And>jti. jc_jti payload = Some jti \<Longrightarrow> jti \<noteq> [] \<Longrightarrow> jti \<notin> rv_jti ` set (revoked_tokens s)"
    "u \<in> set (users s)" "us_deleted_at u = None" "us_is_active u"
    "snd (request_token rq) \<Longrightarrow> hi_method rq \<notin> {''GET'', ''HEAD'', ''OPTIONS''} \<Longrightarrow> csrf_ok rq"
proof -
  obtain token from_cookie where t: "request_token rq = (token, from_cookie)" by fastforce
  obtain payload i revoked where p: "ae_jwt_decode env (db_now s) token = Inr payload" "jc_type payload \<noteq> Some ''mfa_pending''"
    "jc_sub payload = Some i" "s' = s\<lparr>db_now := db_now s + 1\<rparr>" "live_user i s = Inr u" "us_is_active u"
    "(case jc_jti payload of None \<Rightarrow> Inr False | Some jti \<Rightarrow> if jti = [] then Inr False else is_token_revoked jti s) = Inr revoked"
    "\<not> revoked" and c: "from_cookie \<and> hi_method rq \<notin> {''GET'', ''HEAD'', ''OPTIONS''} \<Longrightarrow> csrf_ok rq"
    using assms unfolding get_current_user_def t
    by (auto simp: bind_s_Inr_iff decode_or_401_Inr split: if_splits option.splits)
  show thesis
    using that [of payload] p c live_user_Inr [OF p(5)] unfolding t
    by (auto simp: is_token_revoked_False split: option.splits if_splits)
qed

lemma mfa_pending_user_run:
  assumes "get_mfa_pending_user env rq s = Inr (u, s')"
  obtains payload where "ae_jwt_decode env (db_now s) (fst (request_token rq)) = Inr payload"
    "jc_type payload = Some ''mfa_pending''" "jc_sub payload = Some (us_id u)" "s' = s\<lparr>db_now := db_now s + 1\<rparr>"
    "u \<in> set (users s)" "us_deleted_at u = None"
proof -
  obtain token from_cookie where t: "request_token rq = (token, from_cookie)" by fastforce
  obtain payload i where p: "ae_jwt_decode env (db_now s) token = Inr payload" "jc_type payload = Some ''mfa_pending''"
    "jc_sub payload = Some i" "s' = s\<lparr>db_now := db_now s + 1\<rparr>" "live_user i s = Inr u"
    using assms unfolding get_mfa_pending_user_def t
    by (auto simp: bind_s_Inr_iff decode_or_401_Inr split: if_splits option.splits)
  show thesis
    using that [of payload] p live_user_Inr [OF p(5)] unfolding t by auto
qed

lemma revoked_token_refused:
  assumes "ae_jwt_decode env (db_now s) (fst (request_token rq)) = Inr payload" "jc_jti payload = Some jti" "jti \<noteq> []"
    "jti \<in> rv_jti ` set (revoked_tokens s)"
  shows "\<not> returns (get_current_user env rq s)"
proof
  assume "returns (get_current_user env rq s)"
  then obtain u s' where "get_current_user env rq s = Inr (u, s')" by (auto elim!: returnsE)
  then show False using assms by (elim current_user_run) auto
qed

end
