(* ===== verification/Mfa.thy ===== *)
theory Mfa
imports Auth_Tokens "HOL-Library.Word"
begin

unbundle bit_operations_syntax

text \<open>
  \<open>api/services/mfa.py\<close>: time-based one-time passwords. Base32 as the standard library has it, the
  truncation of RFC 4226 on words, the window of time steps, and the backup codes. HMAC-SHA1, the cipher
  of the stored secret and the random bytes are the fields of an environment. Time steps are seconds.
\<close>

type_synonym bytes = "8 word list"

record mfa_env =
  me_hmac_sha1 :: "bytes \<Rightarrow> bytes \<Rightarrow> bytes"
  me_encrypt :: "string \<Rightarrow> string"
  me_decrypt :: "string \<Rightarrow> string res"
  me_random :: "nat \<Rightarrow> nat \<Rightarrow> bytes"

section \<open>Base32\<close>

definition b32_alphabet :: string where
  "b32_alphabet = ''ABCDEFGHIJKLMNOPQRSTUVWXYZ234567''"

definition b32_char :: "nat \<Rightarrow> char" where
  "b32_char d = b32_alphabet ! d"

fun position :: "'a \<Rightarrow> 'a list \<Rightarrow> nat option" where
  "position x [] = None"
| "position x (y # ys) = (if y = x then Some 0 else map_option Suc (position x ys))"

definition b32_value :: "char \<Rightarrow> nat option" where
  "b32_value c = position c b32_alphabet"

text \<open>Big-endian digits: the value of a list of digits and the last \<open>k\<close> digits of a number.\<close>

definition be_value :: "nat \<Rightarrow> nat list \<Rightarrow> nat" where
  "be_value base ds = foldl (\<lambda>a d. a * base + d) 0 ds"

fun be_digits :: "nat \<Rightarrow> nat \<Rightarrow> nat \<Rightarrow> nat list" where
  "be_digits base 0 n = []"
| "be_digits base (Suc k) n = be_digits base k (n div base) @ [n mod base]"

text \<open>The characters of a group of one to five bytes, and the bytes of a group of characters.\<close>

definition b32_keep :: "nat \<Rightarrow> nat" where
  "b32_keep n = (if n = 1 then 2 else if n = 2 then 4 else if n = 3 then 5 else if n = 4 then 7 else 8)"

definition b32_group :: "bytes \<Rightarrow> string" where
  "b32_group g = map b32_char (take (b32_keep (length g))
     (be_digits 32 8 (be_value 256 (map unat g) * 256 ^ (5 - length g))))"

function b32_body :: "bytes \<Rightarrow> string" where
  "b32_body bs = (if bs = [] then [] else b32_group (take 5 bs) @ b32_body (drop 5 bs))"
  by pat_completeness auto

termination by (relation "measure length") auto

definition pad8 :: "string \<Rightarrow> string" where
  "pad8 s = s @ replicate ((8 - length s mod 8) mod 8) (CHR ''='')"

definition b32encode :: "bytes \<Rightarrow> string" where
  "b32encode bs = pad8 (b32_body bs)"

definition rstrip :: "char \<Rightarrow> string \<Rightarrow> string" where
  "rstrip c s = rev (dropWhile (\<lambda>x. x = c) (rev s))"

definition bytes_of_group :: "nat list \<Rightarrow> bytes" where
  "bytes_of_group q = map of_nat (take ((43 - 5 * (8 - length q)) div 8)
     (be_digits 256 5 (be_value 32 q * 32 ^ (8 - length q))))"

function bytes_of_digits :: "nat list \<Rightarrow> bytes" where
  "bytes_of_digits ds = (if ds = [] then [] else bytes_of_group (take 8 ds) @ bytes_of_digits (drop 8 ds))"
  by pat_completeness auto

termination by (relation "measure length") auto

fun values_of :: "string \<Rightarrow> nat list res" where
  "values_of [] = Inr []"
| "values_of (c # cs) =
     (case b32_value c of
        None \<Rightarrow> Inl (ValueError ''Non-base32 digit found'')
      | Some d \<Rightarrow> bind_r (values_of cs) (\<lambda>ds. Inr (d # ds)))"

definition b32decode :: "string \<Rightarrow> bytes res" where
  "b32decode s =
     (if length s mod 8 \<noteq> 0 then Inl (ValueError ''Incorrect padding'')
      else let body = rstrip (CHR ''='') s
           in bind_r (values_of body) (\<lambda>ds.
              if length s - length body \<notin> {0, 1, 3, 4, 6} then Inl (ValueError ''Incorrect padding'')
              else Inr (bytes_of_digits ds)))"

section \<open>One-time passwords\<close>

definition generate_totp_secret :: "mfa_env \<Rightarrow> nat \<Rightarrow> string" where
  "generate_totp_secret env i = rstrip (CHR ''='') (b32encode (me_random env i 20))"

text \<open>\<open>struct.pack(">Q", n)\<close> and \<open>struct.unpack(">I", bs)[0]\<close>\<close>

definition pack_u64 :: "nat \<Rightarrow> bytes" where
  "pack_u64 n = map of_nat (be_digits 256 8 n)"

definition unpack_u32 :: "bytes \<Rightarrow> 32 word" where
  "unpack_u32 bs = of_nat (be_value 256 (map unat bs))"

definition zfill :: "nat \<Rightarrow> string \<Rightarrow> string" where
  "zfill n s = replicate (n - length s) (CHR ''0'') @ s"

definition hotp :: "mfa_env \<Rightarrow> string \<Rightarrow> nat \<Rightarrow> string res" where
  "hotp env secret_b32 counter =
     bind_r (b32decode (pad8 (py_upper secret_b32))) (\<lambda>key.
     let h = me_hmac_sha1 env key (pack_u64 counter);
         offset = unat (last h AND 0x0F);
         code = unpack_u32 (take 4 (drop offset h)) AND 0x7FFFFFFF
     in Inr (zfill 6 (str_nat (unat code mod 10 ^ 6))))"

definition totp_step :: "timestamp \<Rightarrow> nat" where
  "totp_step now = nat (now div 1000000) div 30"

fun any_code :: "mfa_env \<Rightarrow> string \<Rightarrow> string \<Rightarrow> nat list \<Rightarrow> bool res" where
  "any_code env secret code [] = Inr False"
| "any_code env secret code (n # ns) =
     bind_r (hotp env secret n) (\<lambda>c. if c = code then Inr True else any_code env secret code ns)"

definition verify_totp :: "mfa_env \<Rightarrow> string \<Rightarrow> string \<Rightarrow> (db, bool) sres" where
  "verify_totp env secret code =
     bind_s utcnow (\<lambda>now.
     lift_s (any_code env secret code [totp_step now - 1, totp_step now, totp_step now + 1]))"

section \<open>Backup codes\<close>

definition hex_digit :: "nat \<Rightarrow> char" where
  "hex_digit d = ''0123456789abcdef'' ! d"

definition token_hex :: "bytes \<Rightarrow> string" where
  "token_hex bs = concat (map (\<lambda>b. [hex_digit (unat b div 16), hex_digit (unat b mod 16)]) bs)"

definition generate_backup_codes :: "mfa_env \<Rightarrow> nat \<Rightarrow> string list" where
  "generate_backup_codes env i = map (\<lambda>k. py_upper (token_hex (me_random env (i + k) 4))) [0..<8]"

definition hash_backup_code :: "(string \<Rightarrow> string) \<Rightarrow> string \<Rightarrow> string" where
  "hash_backup_code sha code = sha (py_upper code)"

section \<open>Base32 loses nothing\<close>

lemma be_digits_length [simp]: "length (be_digits base k n) = k"
  by (induction k arbitrary: n) auto

lemma be_value_snoc [simp]: "be_value base (ds @ [d]) = be_value base ds * base + d"
  by (simp add: be_value_def)

lemma be_value_Nil [simp]: "be_value base [] = 0"
  by (simp add: be_value_def)

lemma be_value_digits: "0 < base \<Longrightarrow> be_value base (be_digits base k n) = n mod base ^ k"
proof (induction k arbitrary: n)
  case (Suc k)
  then show ?case by (simp add: mod_mult2_eq mult.commute)
qed simp

lemma be_digits_take: "j \<le> k \<Longrightarrow> take j (be_digits base k n) = be_digits base j (n div base ^ (k - j))"
proof (induction k arbitrary: n)
  case (Suc k)
  show ?case
  proof (cases "j = Suc k")
    case False
    then have "j \<le> k" using Suc.prems by simp
    then have "Suc k - j = Suc (k - j)" by simp
    with \<open>j \<le> k\<close> show ?thesis using Suc.IH [OF \<open>j \<le> k\<close>, of "n div base"] by (simp add: div_mult2_eq mult.commute)
  qed simp
qed simp

lemma be_value_bound: "list_all (\<lambda>d. d < base) ds \<Longrightarrow> be_value base ds < base ^ length ds"
proof (induction ds rule: rev_induct)
  case (snoc d ds)
  then have "be_value base ds + 1 \<le> base ^ length ds" "d < base" by auto
  then have "be_value base ds * base + base \<le> base ^ length ds * base"
    by (metis add_mult_distrib mult_1 mult_le_mono1)
  with \<open>d < base\<close> show ?case by (simp add: mult.commute)
qed simp

lemma be_digits_value: "list_all (\<lambda>d. d < base) ds \<Longrightarrow> be_digits base (length ds) (be_value base ds) = ds"
  by (induction ds rule: rev_induct) auto

lemma be_digits_less: "0 < base \<Longrightarrow> list_all (\<lambda>d. d < base) (be_digits base k n)"
  by (induction k arbitrary: n) auto

lemma be_digits_mod: "0 < base \<Longrightarrow> be_digits base k (n mod base ^ k) = be_digits base k n"
  using be_digits_value [OF be_digits_less, of base k n] by (simp add: be_value_digits)

lemma unat_bytes_less: "list_all (\<lambda>d. d < 256) (map unat (bs :: bytes))"
  using unsigned_less [where ?'a = nat and ?'b = 8] by (auto simp: list_all_iff)

lemma of_nat_unat_map: "map of_nat (map unat bs) = (bs :: bytes)"
  by (simp add: comp_def)

text \<open>A group: what the characters keep of the number is what the bytes need.\<close>

lemma group_arith:
  assumes "n \<in> {1..5 :: nat}" "v < (256 :: nat) ^ n"
  shows "(v * 256 ^ (5 - n)) div 32 ^ (8 - b32_keep n) mod 32 ^ b32_keep n * 32 ^ (8 - b32_keep n) div 256 ^ (5 - n) = v"
proof -
  have cancel: "v * (d * m) div d * d div (d * m) = v" if "0 < d" "0 < m" for d m :: nat
    using that by (simp add: mult.left_commute [of v d m] mult.assoc)
  have le: "v * 256 ^ (5 - n) < 32 ^ 8"
  proof -
    have "v * 256 ^ (5 - n) < 256 ^ n * 256 ^ (5 - n)" using assms(2) by simp
    also have "\<dots> = 256 ^ 5" using assms(1) by (simp flip: power_add)
    finally show ?thesis by simp
  qed
  consider "n = 1" | "n = 2" | "n = 3" | "n = 4" | "n = 5" using assms(1) by force
  then show ?thesis
  proof cases
    case 1
    then show ?thesis using le cancel [of "32 ^ 6" 4] by (simp add: b32_keep_def)
  next
    case 2
    then show ?thesis using le cancel [of "32 ^ 4" 16] by (simp add: b32_keep_def)
  next
    case 3
    then show ?thesis using le cancel [of "32 ^ 3" 2] by (simp add: b32_keep_def)
  next
    case 4
    then show ?thesis using le cancel [of "32 ^ 1" 8] by (simp add: b32_keep_def)
  next
    case 5
    then show ?thesis using le by (simp add: b32_keep_def)
  qed
qed

lemma keep_le: "n \<in> {1..5} \<Longrightarrow> b32_keep n \<le> 8 \<and> (43 - 5 * (8 - b32_keep n)) div 8 = n \<and> 0 < b32_keep n"
  by (cases "n = 1"; cases "n = 2"; cases "n = 3"; cases "n = 4"; cases "n = 5") (auto simp: b32_keep_def)

lemma group_roundtrip:
  assumes "length g \<in> {1..5}"
  shows "bytes_of_group (take (b32_keep (length g)) (be_digits 32 8 (be_value 256 (map unat g) * 256 ^ (5 - length g)))) = g"
proof -
  define n v k where "n = length g" and "v = be_value 256 (map unat g)" and "k = b32_keep n"
  define q where "q = take k (be_digits 32 8 (v * 256 ^ (5 - n)))"
  have n: "n \<in> {1..5}" and k: "k \<le> 8" "(43 - 5 * (8 - k)) div 8 = n" using assms keep_le [of n] by (auto simp: n_def k_def)
  have v: "v < 256 ^ n" using be_value_bound [OF unat_bytes_less, of g] by (simp add: v_def n_def)
  have q: "q = be_digits 32 k (v * 256 ^ (5 - n) div 32 ^ (8 - k))" using k(1) by (simp add: q_def be_digits_take)
  have len: "length q = k" by (simp add: q)
  have "bytes_of_group q = map of_nat (be_digits 256 n (be_value 32 q * 32 ^ (8 - k) div 256 ^ (5 - n)))"
    using n by (simp add: bytes_of_group_def len k(2) be_digits_take)
  also have "be_value 32 q * 32 ^ (8 - k) div 256 ^ (5 - n) = v"
    using group_arith [OF n v] by (simp add: q be_value_digits k_def)
  also have "be_digits 256 n v = map unat g"
    using be_digits_value [OF unat_bytes_less, of g] by (simp add: v_def n_def)
  finally show ?thesis unfolding q_def v_def n_def k_def of_nat_unat_map .
qed

lemma b32_value_char: "d < 32 \<Longrightarrow> b32_value (b32_char d) = Some d"
proof -
  have "list_all (\<lambda>d. b32_value (b32_char d) = Some d) [0..<32]" by code_simp
  then show "d < 32 \<Longrightarrow> b32_value (b32_char d) = Some d" by (auto simp: list_all_iff)
qed

lemma values_of_chars: "list_all (\<lambda>d. d < 32) ds \<Longrightarrow> values_of (map b32_char ds) = Inr ds"
  by (induction ds) (auto simp: b32_value_char)

lemma b32_char_not_pad: "d < 32 \<Longrightarrow> b32_char d \<noteq> CHR ''=''"
proof -
  have "list_all (\<lambda>d. b32_char d \<noteq> CHR ''='') [0..<32]" by code_simp
  then show "d < 32 \<Longrightarrow> b32_char d \<noteq> CHR ''=''" by (auto simp: list_all_iff)
qed

text \<open>The digits of a text of bytes, group by group.\<close>

function b32_digits :: "bytes \<Rightarrow> nat list" where
  "b32_digits bs = (if bs = [] then [] else
     take (b32_keep (length (take 5 bs)))
       (be_digits 32 8 (be_value 256 (map unat (take 5 bs)) * 256 ^ (5 - length (take 5 bs)))) @ b32_digits (drop 5 bs))"
  by pat_completeness auto

termination by (relation "measure length") auto

declare b32_body.simps [simp del] b32_digits.simps [simp del] bytes_of_digits.simps [simp del]

lemma b32_body_digits: "b32_body bs = map b32_char (b32_digits bs)"
  by (induction bs rule: b32_digits.induct) (subst b32_digits.simps, subst b32_body.simps, simp add: b32_group_def)

lemma b32_digits_less: "list_all (\<lambda>d. d < 32) (b32_digits bs)"
proof (induction bs rule: b32_digits.induct)
  case (1 bs)
  have "list_all (\<lambda>d. d < 32) (take j (be_digits 32 8 m))" for j m
    using be_digits_less [of 32 8 m] by (auto simp: list_all_iff dest: in_set_takeD)
  with 1 show ?case by (subst b32_digits.simps) auto
qed

lemma b32_digits_length: "length (b32_digits bs) = length bs div 5 * 8 + (if length bs mod 5 = 0 then 0 else b32_keep (length bs mod 5))"
proof (induction bs rule: b32_digits.induct)
  case (1 bs)
  show ?case
  proof (cases "length bs < 5")
    case True
    then have "b32_digits (drop 5 bs) = []" by (simp add: b32_digits.simps [of "[]"])
    then show ?thesis using True keep_le [of "length bs"] by (subst b32_digits.simps) (auto simp: min_def Suc_le_eq)
  next
    case False
    then have "bs \<noteq> []" "min (length bs) 5 = 5" "length bs div 5 = Suc ((length bs - 5) div 5)"
      "(length bs - 5) mod 5 = length bs mod 5"
      by (auto simp: le_div_geq le_mod_geq)
    with 1 show ?thesis by (subst b32_digits.simps) (simp add: b32_keep_def)
  qed
qed

lemma decode_digits: "bytes_of_digits (b32_digits bs) = bs"
proof (induction bs rule: b32_digits.induct)
  case (1 bs)
  let ?g = "take 5 bs"
  let ?q = "take (b32_keep (length ?g)) (be_digits 32 8 (be_value 256 (map unat ?g) * 256 ^ (5 - length ?g)))"
  show ?case
  proof (cases "bs = []")
    case True
    then show ?thesis by (simp add: b32_digits.simps bytes_of_digits.simps)
  next
    case False
    then have g: "length ?g \<in> {1..5}" by (cases bs) auto
    have d: "b32_digits bs = ?q @ b32_digits (drop 5 bs)" using False by (subst b32_digits.simps) simp
    have "length ?q \<noteq> 0" using keep_le [OF g] by simp
    then have ne: "b32_digits bs \<noteq> []" unfolding d by (metis append_is_Nil_conv length_0_conv)
    have "take 8 (b32_digits bs) = ?q \<and> drop 8 (b32_digits bs) = b32_digits (drop 5 bs)"
    proof (cases "5 \<le> length bs")
      case True
      then show ?thesis by (simp add: d b32_keep_def min_def)
    next
      case short: False
      then have "b32_digits (drop 5 bs) = []" by (simp add: b32_digits.simps [of "[]"])
      then show ?thesis using keep_le [OF g] by (simp add: d)
    qed
    then have "bytes_of_digits (b32_digits bs) = bytes_of_group ?q @ bytes_of_digits (b32_digits (drop 5 bs))"
      using ne by (subst bytes_of_digits.simps) simp
    then show ?thesis using group_roundtrip [OF g] 1 [OF False] by simp
  qed
qed

lemma rstrip_pad: "list_all (\<lambda>x. x \<noteq> c) s \<Longrightarrow> rstrip c (s @ replicate n c) = s"
proof -
  assume s: "list_all (\<lambda>x. x \<noteq> c) s"
  have "rev s = [] \<or> hd (rev s) \<noteq> c" using s hd_in_set [of "rev s"] by (auto simp: list_all_iff)
  then have "dropWhile (\<lambda>x. x = c) (replicate n c @ rev s) = rev s"
    by (induction n) (auto intro: dropWhile_fix)
  then show ?thesis by (simp add: rstrip_def)
qed

lemma body_no_pad: "list_all (\<lambda>x. x \<noteq> CHR ''='') (b32_body bs)"
  using b32_digits_less [of bs] by (auto simp: b32_body_digits list_all_iff b32_char_not_pad)

lemma pad_count: "(8 - length (b32_body bs) mod 8) mod 8 \<in> {0, 1, 3, 4, 6}"
proof -
  define r where "r = length bs mod 5"
  have r: "r = 0 \<or> r = 1 \<or> r = 2 \<or> r = 3 \<or> r = 4" unfolding r_def by presburger
  have "length (b32_body bs) mod 8 = (if r = 0 then 0 else b32_keep r) mod 8"
    by (simp add: b32_body_digits b32_digits_length r_def)
  with r show ?thesis by (elim disjE) (simp_all add: b32_keep_def)
qed

lemma rstrip_encode: "rstrip (CHR ''='') (b32encode bs) = b32_body bs"
  unfolding b32encode_def pad8_def by (rule rstrip_pad [OF body_no_pad])

lemma decode_encode: "b32decode (b32encode bs) = Inr bs"
proof -
  let ?n = "(8 - length (b32_body bs) mod 8) mod 8"
  have len: "length (b32encode bs) = length (b32_body bs) + ?n" by (simp add: b32encode_def pad8_def)
  have "(m + (8 - m mod 8) mod 8) mod 8 = 0" for m :: nat
  proof -
    have "(m + (8 - m mod 8) mod 8) mod 8 = (m mod 8 + (8 - m mod 8)) mod 8" by (metis mod_add_left_eq mod_add_right_eq)
    also have "m mod 8 + (8 - m mod 8) = 8" using mod_less_divisor [of 8 m] by (simp del: mod_less_divisor)
    finally show ?thesis by simp
  qed
  then have "length (b32encode bs) mod 8 = 0" unfolding len .
  moreover have "length (b32encode bs) - length (b32_body bs) \<in> {0, 1, 3, 4, 6}"
    unfolding len using pad_count [of bs] by (simp only: add_diff_cancel_left')
  moreover have "values_of (b32_body bs) = Inr (b32_digits bs)"
    unfolding b32_body_digits by (rule values_of_chars [OF b32_digits_less])
  ultimately show ?thesis
    unfolding b32decode_def Let_def rstrip_encode by (simp only: not_True_eq_False if_False bind_r_simps decode_digits simp_thms)
qed

lemma upper_alphabet: "d < 32 \<Longrightarrow> upper_char (b32_char d) = b32_char d"
proof -
  have u: "map upper_char b32_alphabet = b32_alphabet" by (simp add: b32_alphabet_def upper_char_def)
  assume "d < 32"
  then have "d < length b32_alphabet" by (simp add: b32_alphabet_def)
  then show ?thesis using u by (metis b32_char_def nth_map)
qed

lemma upper_body [simp]: "py_upper (b32_body bs) = b32_body bs"
  using b32_digits_less [of bs] by (auto simp: b32_body_digits py_upper_def list_all_iff upper_alphabet)

text \<open>The key of a generated secret is the random bytes it was made of.\<close>

lemma secret_key: "b32decode (pad8 (py_upper (generate_totp_secret env i))) = Inr (me_random env i 20)"
  using decode_encode [of "me_random env i 20"]
  by (simp add: generate_totp_secret_def rstrip_encode) (simp add: b32encode_def)

section \<open>The codes\<close>

lemma str_nat_length: "n < 10 ^ Suc k \<Longrightarrow> length (str_nat n) \<le> Suc k"
proof (induction k arbitrary: n)
  case 0
  then show ?case by (subst str_nat.simps) simp
next
  case (Suc k)
  then have "n div 10 < 10 ^ Suc k" by (simp add: less_mult_imp_div_less)
  then have "length (str_nat (n div 10)) \<le> Suc k" by (rule Suc.IH)
  then show ?case by (subst str_nat.simps) simp
qed

definition is_digit :: "char \<Rightarrow> bool" where
  "is_digit c \<longleftrightarrow> 48 \<le> (of_char c :: nat) \<and> (of_char c :: nat) \<le> 57"

lemma str_nat_digits: "list_all is_digit (str_nat n)"
proof (induction n rule: str_nat.induct)
  case (1 n)
  have d: "is_digit (digit_char d)" if "d < 10" for d
    using that by (simp add: is_digit_def digit_char_def)
  show ?case using 1 d [of n] d [of "n mod 10"] by (subst str_nat.simps) auto
qed

lemma hotp_shape: "hotp env secret n = Inr c \<Longrightarrow> length c = 6 \<and> list_all is_digit c"
proof -
  assume "hotp env secret n = Inr c"
  then obtain m where c: "c = zfill 6 (str_nat m)" "m < 10 ^ 6"
    by (auto simp: hotp_def bind_r_Inr_iff Let_def)
  have "length (str_nat m) \<le> 6" using str_nat_length [of m 5] c(2) by simp
  moreover have "list_all is_digit (replicate k (CHR ''0''))" for k by (simp add: list_all_iff is_digit_def)
  ultimately show ?thesis using c str_nat_digits [of m] by (simp add: zfill_def)
qed

lemma any_code_iff:
  assumes "list_all (\<lambda>n. returns (hotp env secret n)) ns"
  shows "\<exists>b. any_code env secret code ns = Inr b \<and> (b \<longleftrightarrow> (\<exists>n \<in> set ns. hotp env secret n = Inr code))"
  using assms by (induction ns) (auto elim!: returnsE)

lemma any_code_True: "any_code env secret code ns = Inr True \<Longrightarrow> \<exists>n \<in> set ns. hotp env secret n = Inr code"
  by (induction ns) (auto simp: bind_r_Inr_iff split: if_splits)

lemma generated_secret_returns: "returns (hotp env (generate_totp_secret env i) n)"
  by (simp add: hotp_def secret_key Let_def)

lemma verify_totp_run: "verify_totp env secret code s = Inr (b, s') \<Longrightarrow> s' = s\<lparr>db_now := db_now s + 1\<rparr> \<and>
    any_code env secret code [totp_step (db_now s) - 1, totp_step (db_now s), totp_step (db_now s) + 1] = Inr b"
  by (auto simp: verify_totp_def simp del: any_code.simps)

text \<open>A code of the secret is accepted for its time step and the two next to it, and at no other time.\<close>

lemma code_window:
  assumes "verify_totp env secret code s = Inr (True, s')"
  shows "\<exists>n. hotp env secret n = Inr code \<and> n \<le> totp_step (db_now s) + 1 \<and> totp_step (db_now s) \<le> n + 1"
proof -
  have "any_code env secret code [totp_step (db_now s) - 1, totp_step (db_now s), totp_step (db_now s) + 1] = Inr True"
    using verify_totp_run [OF assms] by blast
  from any_code_True [OF this] show ?thesis by (auto intro: exI [of _ "totp_step (db_now s) - 1"])
qed

lemma own_code_accepted:
  assumes "hotp env (generate_totp_secret env i) (totp_step (db_now s)) = Inr code"
  shows "verify_totp env (generate_totp_secret env i) code s = Inr (True, s\<lparr>db_now := db_now s + 1\<rparr>)"
proof -
  let ?ns = "[totp_step (db_now s) - 1, totp_step (db_now s), totp_step (db_now s) + 1]"
  have "\<exists>b. any_code env (generate_totp_secret env i) code ?ns = Inr b \<and> (b \<longleftrightarrow> (\<exists>n \<in> set ?ns. hotp env (generate_totp_secret env i) n = Inr code))"
    by (rule any_code_iff) (simp add: generated_secret_returns)
  then have "any_code env (generate_totp_secret env i) code ?ns = Inr True" using assms by auto
  then show ?thesis by (simp add: verify_totp_def del: any_code.simps)
qed

end
