(* ===== verification/Auth_Routes.thy ===== *)
theory Auth_Routes
imports Deps Mfa
begin

text \<open>
  \<open>api/routes/auth_routes.py\<close> and \<open>api/routes/mfa_routes.py\<close>: the handlers of registration, login, profile,
  passwords, sessions and the second factor, each in a database session with its commits. The bodies come
  as the schemas leave them. Mail is sent after the last commit and its failure is only logged, so it is
  left out; so are rate limits by address.
\<close>

section \<open>Replies\<close>

record cookie =
  ck_key :: string
  ck_value :: string
  ck_httponly :: bool
  ck_secure :: bool
  ck_max_age :: int
  ck_path :: string

record auth_reply =
  rp_access_token :: string
  rp_refresh_token :: string
  rp_csrf_token :: "string option"
  rp_mfa_required :: bool
  rp_user :: "ident option"
  rp_cookies :: "cookie list"

definition set_auth_cookies :: "auth_env \<Rightarrow> string \<Rightarrow> string \<Rightarrow> string \<Rightarrow> cookie list" where
  "set_auth_cookies env access csrf refresh =
     (let secure = cookie_secure (ae_config env); age = access_token_expire_minutes (ae_config env) * 60
      in [\<lparr>ck_key = ''access_token'', ck_value = access, ck_httponly = True, ck_secure = secure, ck_max_age = age, ck_path = ''/''\<rparr>,
          \<lparr>ck_key = ''csrf_token'', ck_value = csrf, ck_httponly = False, ck_secure = secure, ck_max_age = age, ck_path = ''/''\<rparr>]
       @ (if refresh \<noteq> []
          then [\<lparr>ck_key = ''refresh_token'', ck_value = refresh, ck_httponly = True, ck_secure = secure,
                 ck_max_age = 30 * 24 * 60 * 60, ck_path = ''/api/v1/auth''\<rparr>]
          else []))"

section \<open>Queries and writes\<close>

definition user_by_email :: "string \<Rightarrow> db \<Rightarrow> user option res" where
  "user_by_email email s = scalar_one_or_none (filter (\<lambda>u. us_email u = email) (users s))"

definition live_user_by_email :: "string \<Rightarrow> db \<Rightarrow> user option res" where
  "live_user_by_email email s =
     scalar_one_or_none (filter (\<lambda>u. us_email u = email \<and> us_deleted_at u = None) (users s))"

definition update_user :: "ident \<Rightarrow> (user \<Rightarrow> user) \<Rightarrow> db \<Rightarrow> db" where
  "update_user i f s = s\<lparr>users := update_row us_id i f (users s)\<rparr>"

text \<open>The insert of a user; the unique constraint is on all rows, the deleted ones included.\<close>

definition insert_user :: "string \<Rightarrow> string \<Rightarrow> string \<Rightarrow> ident \<Rightarrow> user_role \<Rightarrow> (db, user) sres" where
  "insert_user email hashed full_name company_id role =
     bind_s new_id (\<lambda>i.
     bind_s utcnow (\<lambda>now.
     let u = \<lparr>us_id = i, us_email = email, us_hashed_password = hashed, us_full_name = full_name,
              us_company_id = company_id, us_role = role, us_is_active = True, us_deleted_at = None,
              us_last_login = None, us_failed_login_attempts = 0, us_locked_until = None, us_created_at = now\<rparr>
     in (\<lambda>s. if list_ex (\<lambda>v. us_email v = email) (users s) then Inl IntegrityError
             else Inr (u, s\<lparr>users := users s @ [u]\<rparr>))))"

definition insert_company :: "string \<Rightarrow> string \<Rightarrow> string \<Rightarrow> (db, ident) sres" where
  "insert_company name industry region =
     bind_s new_id (\<lambda>i.
     bind_s utcnow (\<lambda>now.
     bind_s (modify_s (\<lambda>s. s\<lparr>companies := companies s @
       [\<lparr>co_id = i, co_name = name, co_industry = industry, co_region = region, co_employee_count = None,
         co_revenue_usd = None, co_created_at = now, co_deleted_at = None\<rparr>]\<rparr>)) (\<lambda>_.
     return_s i)))"

definition enabled_secret :: "ident \<Rightarrow> db \<Rightarrow> mfa_secret option res" where
  "enabled_secret user_id s =
     scalar_one_or_none (filter (\<lambda>m. mf_user_id m = user_id \<and> mf_is_enabled m) (mfa_secrets s))"

definition random_hex :: "auth_env \<Rightarrow> (db, string) sres" where
  "random_hex env = bind_s new_id (\<lambda>k. return_s (ae_token env k))"

text \<open>The full tokens of a session, for the four handlers that end in one.\<close>

definition full_tokens :: "auth_env \<Rightarrow> ident \<Rightarrow> ident \<Rightarrow> string \<Rightarrow> string \<Rightarrow> ident option \<Rightarrow> auth_reply req" where
  "full_tokens env user_id company_id action resource shown =
     bind_q (serve (create_access_token env user_id company_id)) (\<lambda>access.
     bind_q (serve (create_refresh_token env user_id)) (\<lambda>refresh.
     bind_q (serve (random_hex env)) (\<lambda>csrf.
     bind_q (serve (record_audit user_id company_id action resource (Some user_id) None)) (\<lambda>_.
     bind_q commit (\<lambda>_.
     return_q \<lparr>rp_access_token = access, rp_refresh_token = refresh, rp_csrf_token = Some csrf,
       rp_mfa_required = False, rp_user = shown, rp_cookies = set_auth_cookies env access csrf refresh\<rparr>)))))"

section \<open>Registration and login\<close>

definition register ::
    "auth_env \<Rightarrow> string \<Rightarrow> string \<Rightarrow> string \<Rightarrow> string \<Rightarrow> string \<Rightarrow> string \<Rightarrow> user req" where
  "register env email password full_name company_name industry region =
     bind_q (ask (user_by_email email)) (\<lambda>existing.
     if existing \<noteq> None then raise_q (HTTPException 409 ''Email already registered'')
     else
       bind_q (serve (insert_company company_name industry region)) (\<lambda>c.
       bind_q (serve (hash_password env password)) (\<lambda>hashed.
       bind_q (serve (insert_user email hashed full_name c Admin)) (\<lambda>u.
       bind_q (serve (get_or_create_subscription c)) (\<lambda>_.
       bind_q commit (\<lambda>_.
       bind_q (serve (record_audit (us_id u) c ''register'' ''user'' (Some (us_id u)) None)) (\<lambda>_.
       bind_q commit (\<lambda>_.
       return_q u))))))))"

text \<open>A failed attempt is counted and committed before the error is raised.\<close>

definition count_failure :: "auth_env \<Rightarrow> user \<Rightarrow> unit req" where
  "count_failure env row =
     (let n = us_failed_login_attempts row + 1
      in bind_q (write_db (update_user (us_id row) (\<lambda>u. u\<lparr>us_failed_login_attempts := n\<rparr>))) (\<lambda>_.
         bind_q (if max_failed_login_attempts (ae_config env) \<le> n then
             bind_q (serve utcnow) (\<lambda>now. write_db (update_user (us_id row)
               (\<lambda>u. u\<lparr>us_locked_until := Some (now + minutes_us (account_lockout_minutes (ae_config env)))\<rparr>)))
           else return_q ()) (\<lambda>_.
         commit)))"

definition check_lock :: "user option \<Rightarrow> unit req" where
  "check_lock row =
     (case row of
        None \<Rightarrow> return_q ()
      | Some r \<Rightarrow>
          (case us_locked_until r of
             None \<Rightarrow> return_q ()
           | Some lock \<Rightarrow> bind_q (serve utcnow) (\<lambda>now.
               if now < lock then raise_q (HTTPException 429
                 ''Account temporarily locked due to too many failed attempts. Try again later.'')
               else return_q ())))"

definition login :: "auth_env \<Rightarrow> string \<Rightarrow> string \<Rightarrow> auth_reply req" where
  "login env email password =
     bind_q (ask (user_by_email email)) (\<lambda>row.
     bind_q (check_lock row) (\<lambda>_.
     bind_q (ask (authenticate_user env email password)) (\<lambda>found.
     case found of
       None \<Rightarrow>
         bind_q (case row of None \<Rightarrow> return_q () | Some r \<Rightarrow> count_failure env r) (\<lambda>_.
         raise_q (HTTPException 401 ''Invalid email or password''))
     | Some u \<Rightarrow>
         bind_q (serve utcnow) (\<lambda>now.
         bind_q (write_db (update_user (us_id u)
           (\<lambda>r. r\<lparr>us_failed_login_attempts := 0, us_locked_until := None, us_last_login := Some now\<rparr>))) (\<lambda>_.
         bind_q (ask (enabled_secret (us_id u))) (\<lambda>mfa.
         if mfa \<noteq> None then
           bind_q (serve (create_mfa_pending_token env (us_id u) (us_company_id u))) (\<lambda>pending.
           bind_q (serve (record_audit (us_id u) (us_company_id u) ''login_mfa_pending'' ''user'' (Some (us_id u)) None)) (\<lambda>_.
           bind_q commit (\<lambda>_.
           return_q \<lparr>rp_access_token = pending, rp_refresh_token = [], rp_csrf_token = None, rp_mfa_required = True,
             rp_user = None, rp_cookies = set_auth_cookies env pending [] []\<rparr>)))
         else full_tokens env (us_id u) (us_company_id u) ''login'' ''user'' (Some (us_id u))))))))"

section \<open>The current user\<close>

definition get_profile :: "auth_env \<Rightarrow> http_in \<Rightarrow> user req" where
  "get_profile env rq = serve (get_current_user env rq)"

text \<open>The fields of the body that were set; \<open>Some None\<close> is an explicit null, which the table refuses.\<close>

record profile_update =
  pu_full_name :: "string option option"
  pu_email :: "string option option"

definition updated_fields :: "profile_update \<Rightarrow> string" where
  "updated_fields body = ''Updated fields: '' @
     (case (pu_full_name body, pu_email body) of
        (None, None) \<Rightarrow> '''' | (Some n, None) \<Rightarrow> ''full_name'' | (None, Some e) \<Rightarrow> ''email''
      | (Some n, Some e) \<Rightarrow> ''full_name, email'')"

definition update_profile :: "auth_env \<Rightarrow> http_in \<Rightarrow> profile_update \<Rightarrow> user req" where
  "update_profile env rq body =
     bind_q (serve (get_current_user env rq)) (\<lambda>u.
     bind_q (case pu_email body of
         None \<Rightarrow> return_q ()
       | Some None \<Rightarrow> return_q ()
       | Some (Some e) \<Rightarrow>
           if e = us_email u then return_q ()
           else bind_q (ask (user_by_email e)) (\<lambda>existing.
             if existing \<noteq> None then raise_q (HTTPException 409 ''Email already in use'') else return_q ())) (\<lambda>_.
     if pu_full_name body = Some None \<or> pu_email body = Some None then raise_q IntegrityError
     else
       let u' = u\<lparr>us_full_name := (case pu_full_name body of Some (Some n) \<Rightarrow> n | _ \<Rightarrow> us_full_name u),
                  us_email := (case pu_email body of Some (Some e) \<Rightarrow> e | _ \<Rightarrow> us_email u)\<rparr>
       in bind_q (write_db (update_user (us_id u) (\<lambda>_. u'))) (\<lambda>_.
          bind_q (serve (record_audit (us_id u) (us_company_id u) ''update_profile'' ''user'' (Some (us_id u))
            (Some (updated_fields body)))) (\<lambda>_.
          bind_q commit (\<lambda>_.
          return_q u')))))"

definition change_password :: "auth_env \<Rightarrow> http_in \<Rightarrow> string \<Rightarrow> string \<Rightarrow> unit req" where
  "change_password env rq current_password new_password =
     bind_q (serve (get_current_user env rq)) (\<lambda>u.
     if \<not> verify_password env current_password (us_hashed_password u)
     then raise_q (HTTPException 400 ''Current password is incorrect'')
     else
       bind_q (serve (hash_password env new_password)) (\<lambda>hashed.
       bind_q (write_db (update_user (us_id u) (\<lambda>r. r\<lparr>us_hashed_password := hashed\<rparr>))) (\<lambda>_.
       bind_q (serve (revoke_refresh_tokens (us_id u))) (\<lambda>_.
       bind_q (serve (record_audit (us_id u) (us_company_id u) ''change_password'' ''user'' (Some (us_id u)) None)) (\<lambda>_.
       commit)))))"

definition delete_account :: "auth_env \<Rightarrow> http_in \<Rightarrow> unit req" where
  "delete_account env rq =
     bind_q (serve (get_current_user env rq)) (\<lambda>u.
     bind_q (serve utcnow) (\<lambda>now.
     bind_q (write_db (update_user (us_id u) (\<lambda>r. r\<lparr>us_is_active := False, us_deleted_at := Some now,
       us_email := ''deleted_'' @ str_nat (us_id u) @ ''@deleted.local'', us_full_name := ''Deleted User''\<rparr>))) (\<lambda>_.
     bind_q (serve (record_audit (us_id u) (us_company_id u) ''delete'' ''user'' (Some (us_id u)) None)) (\<lambda>_.
     commit))))"

section \<open>Sessions\<close>

definition refresh_session :: "auth_env \<Rightarrow> http_in \<Rightarrow> string \<Rightarrow> auth_reply req" where
  "refresh_session env rq body_token =
     (let token = (if body_token \<noteq> [] then body_token else dict_get (hi_cookies rq) ''refresh_token'' [])
      in if token = [] then raise_q (HTTPException 401 ''No refresh token provided'')
         else bind_q (serve (validate_refresh_token env token)) (\<lambda>data.
           case data of
             None \<Rightarrow> raise_q (HTTPException 401 ''Invalid or expired refresh token'')
           | Some (user_id, None) \<Rightarrow> raise_q IntegrityError
           | Some (user_id, Some c) \<Rightarrow> full_tokens env user_id c ''token_refresh'' ''auth'' None))"

text \<open>
  The token of the header, if it starts with the exact word \<open>Bearer\<close>, and of the cookie otherwise. A token
  has no space, so removing every \<open>Bearer \<close> from the header removes the first.
\<close>

definition logout_token :: "http_in \<Rightarrow> string" where
  "logout_token rq =
     (let h = hi_authorization rq; t = (if take 7 h = ''Bearer '' then drop 7 h else [])
      in if t \<noteq> [] then t else dict_get (hi_cookies rq) ''access_token'' [])"

definition logout :: "auth_env \<Rightarrow> http_in \<Rightarrow> unit req" where
  "logout env rq =
     bind_q (serve (get_current_user env rq)) (\<lambda>u.
     bind_q (if logout_token rq = [] then return_q ()
       else bind_q (serve (decode_access_token env (logout_token rq))) (\<lambda>payload.
         case jc_jti payload of
           None \<Rightarrow> return_q ()
         | Some jti \<Rightarrow>
             if jti = [] \<or> jc_exp payload = 0 then return_q ()
             else serve (revoke_access_token jti (us_id u) (jc_exp payload * 1000000)))) (\<lambda>_.
     bind_q (serve (revoke_refresh_tokens (us_id u))) (\<lambda>_.
     commit)))"

section \<open>Forgotten passwords\<close>

text \<open>The token goes out by mail; the model returns it to whoever reads the mail.\<close>

definition forgot_password :: "auth_env \<Rightarrow> string \<Rightarrow> string option req" where
  "forgot_password env email =
     bind_q (ask (live_user_by_email email)) (\<lambda>found.
     case found of
       None \<Rightarrow> return_q None
     | Some u \<Rightarrow>
         bind_q (serve (create_reset_token env (us_id u) (us_email u))) (\<lambda>token.
         bind_q commit (\<lambda>_.
         return_q (Some token))))"

definition reset_password :: "auth_env \<Rightarrow> string \<Rightarrow> string \<Rightarrow> unit req" where
  "reset_password env token new_password =
     bind_q (serve (validate_reset_token env token)) (\<lambda>data.
     case data of
       None \<Rightarrow> raise_q (HTTPException 400 ''Invalid or expired reset token'')
     | Some (user_id, email) \<Rightarrow>
         bind_q (ask (\<lambda>s. scalar_one_or_none (filter (\<lambda>u. us_id u = user_id \<and> us_deleted_at u = None) (users s)))) (\<lambda>found.
         case found of
           None \<Rightarrow> raise_q (HTTPException 404 ''User not found'')
         | Some u \<Rightarrow>
             bind_q (serve (hash_password env new_password)) (\<lambda>hashed.
             bind_q (write_db (update_user (us_id u) (\<lambda>r. r\<lparr>us_hashed_password := hashed\<rparr>))) (\<lambda>_.
             bind_q (serve (revoke_refresh_tokens (us_id u))) (\<lambda>_.
             commit)))))"

end
