(* ===== verification/Token_Laws.thy ===== *)
theory Token_Laws
imports Auth_Routes
begin

text \<open>
  Refresh tokens and password reset tokens have one contract: issuing stores the digest of a fresh random
  token, redeeming succeeds only for a stored digest and removes it. From the contract alone: in any
  sequence of issues and attempts to redeem, no token is redeemed more often than it was issued, and
  with collision-free digests and tokens at most once.
\<close>

datatype token_op = Issue ident | Redeem string

datatype 'a token_event = Issued string | Redeemed string 'a | Failed

fun token_step ::
    "(ident \<Rightarrow> (db, string) sres) \<Rightarrow> (string \<Rightarrow> (db, 'a option) sres) \<Rightarrow> token_op \<Rightarrow> db \<Rightarrow> 'a token_event \<times> db" where
  "token_step issue redeem (Issue u) s = (case issue u s of Inl e \<Rightarrow> (Failed, s) | Inr (t, s') \<Rightarrow> (Issued t, s'))"
| "token_step issue redeem (Redeem t) s =
     (case redeem t s of
        Inl e \<Rightarrow> (Failed, s)
      | Inr (r, s') \<Rightarrow> ((case r of None \<Rightarrow> Failed | Some x \<Rightarrow> Redeemed t x), s'))"

fun token_run ::
    "(ident \<Rightarrow> (db, string) sres) \<Rightarrow> (string \<Rightarrow> (db, 'a option) sres) \<Rightarrow> token_op list \<Rightarrow> db \<Rightarrow> 'a token_event list \<times> db" where
  "token_run issue redeem [] s = ([], s)"
| "token_run issue redeem (op # ops) s =
     (case token_step issue redeem op s of (e, s1) \<Rightarrow>
      case token_run issue redeem ops s1 of (es, s2) \<Rightarrow> (e # es, s2))"

definition redemptions :: "(string \<Rightarrow> string) \<Rightarrow> string \<Rightarrow> 'a token_event list \<Rightarrow> nat" where
  "redemptions digest d es = length (filter (\<lambda>e. case e of Redeemed t x \<Rightarrow> digest t = d | _ \<Rightarrow> False) es)"

definition issues :: "(string \<Rightarrow> string) \<Rightarrow> string \<Rightarrow> 'a token_event list \<Rightarrow> nat" where
  "issues digest d es = length (filter (\<lambda>e. case e of Issued t \<Rightarrow> digest t = d | _ \<Rightarrow> False) es)"

locale single_use_tokens =
  fixes issue :: "ident \<Rightarrow> (db, string) sres"
    and redeem :: "string \<Rightarrow> (db, 'a option) sres"
    and digest :: "string \<Rightarrow> string"
    and stored :: "string \<Rightarrow> db \<Rightarrow> nat"
    and token_of :: "nat \<Rightarrow> string"
  assumes issue_stores: "issue u s = Inr (t, s') \<Longrightarrow> stored d s' = stored d s + (if d = digest t then 1 else 0)"
    and issue_fresh: "issue u s = Inr (t, s') \<Longrightarrow> t = token_of (db_next_id s) \<and> db_next_id s < db_next_id s'"
    and redeem_shrinks: "redeem t s = Inr (r, s') \<Longrightarrow> stored d s' \<le> stored d s \<and> db_next_id s' = db_next_id s"
    and redeem_consumes: "redeem t s = Inr (Some x, s') \<Longrightarrow> 0 < stored (digest t) s \<and> stored (digest t) s' = 0"
begin

lemma step_balance:
  "token_step issue redeem op s = (e, s') \<Longrightarrow> redemptions digest d [e] + stored d s' \<le> issues digest d [e] + stored d s"
proof (cases op)
  case (Issue u)
  assume "token_step issue redeem op s = (e, s')"
  then show ?thesis using Issue issue_stores [of u s]
    by (auto simp: redemptions_def issues_def split: sum.splits prod.splits)
next
  case (Redeem t)
  assume st: "token_step issue redeem op s = (e, s')"
  show ?thesis
  proof (cases "redeem t s")
    case (Inl e')
    then show ?thesis using st Redeem by (simp add: redemptions_def issues_def)
  next
    case (Inr p)
    obtain r where p: "redeem t s = Inr (r, s')" "e = (case r of None \<Rightarrow> Failed | Some x \<Rightarrow> Redeemed t x)"
      using st Redeem Inr by (cases p) auto
    show ?thesis
      using p redeem_shrinks [OF p(1), of d] redeem_consumes [of t s _ s']
      by (cases r) (auto simp: redemptions_def issues_def)
  qed
qed

lemma run_balance: "token_run issue redeem ops s = (es, s') \<Longrightarrow> redemptions digest d es + stored d s' \<le> issues digest d es + stored d s"
proof (induction ops arbitrary: s es)
  case (Cons op ops)
  obtain e s1 where e: "token_step issue redeem op s = (e, s1)" by fastforce
  obtain es' where r: "token_run issue redeem ops s1 = (es', s')" "es = e # es'" using Cons.prems e by (auto split: prod.splits)
  have "redemptions digest d (e # es') = redemptions digest d [e] + redemptions digest d es'" "issues digest d (e # es') = issues digest d [e] + issues digest d es'"
    by (simp_all add: redemptions_def issues_def)
  then show ?case using step_balance [OF e, of d] Cons.IH [OF r(1)] unfolding r(2) by linarith
qed (simp add: redemptions_def issues_def)

lemma step_fresh:
  assumes "token_step issue redeem op s = (e, s')"
  shows "db_next_id s \<le> db_next_id s' \<and>
    (\<forall>t. e = Issued t \<longrightarrow> t = token_of (db_next_id s) \<and> db_next_id s < db_next_id s')"
proof (cases op)
  case (Issue u)
  show ?thesis
  proof (cases "issue u s")
    case (Inl e')
    then show ?thesis using assms Issue by auto
  next
    case (Inr p)
    then obtain t where t: "issue u s = Inr (t, s')" "e = Issued t" using assms Issue by (cases p) auto
    show ?thesis using issue_fresh [OF t(1)] t(2) by simp
  qed
next
  case (Redeem t)
  show ?thesis
  proof (cases "redeem t s")
    case (Inl e')
    then show ?thesis using assms Redeem by auto
  next
    case (Inr p)
    then obtain r where r: "redeem t s = Inr (r, s')" "e = (case r of None \<Rightarrow> Failed | Some x \<Rightarrow> Redeemed t x)"
      using assms Redeem by (cases p) auto
    show ?thesis using redeem_shrinks [OF r(1)] r(2) by (auto split: option.splits)
  qed
qed

text \<open>Random tokens do not repeat.\<close>

lemma issues_at_most_once:
  assumes "inj (\<lambda>k. digest (token_of k))"
  shows "token_run issue redeem ops s = (es, s') \<Longrightarrow> issues digest d es \<le> 1 \<and> (\<forall>k. d = digest (token_of k) \<longrightarrow> k < db_next_id s \<longrightarrow> issues digest d es = 0)"
proof (induction ops arbitrary: s es)
  case (Cons op ops)
  obtain e s1 where e: "token_step issue redeem op s = (e, s1)" by fastforce
  obtain es' where r: "token_run issue redeem ops s1 = (es', s')" "es = e # es'" using Cons.prems e by (auto split: prod.splits)
  note ih = Cons.IH [OF r(1)] and fresh = step_fresh [OF e]
  have split: "issues digest d es = issues digest d [e] + issues digest d es'" by (simp add: issues_def r(2))
  show ?case
  proof (cases "issues digest d [e] = 0")
    case True
    then have eq: "issues digest d es = issues digest d es'" using split by simp
    have "issues digest d es' = 0" if "d = digest (token_of k)" "k < db_next_id s" for k
    proof -
      have "k < db_next_id s1" using that(2) fresh by (meson less_le_trans)
      then show ?thesis by (rule ih [THEN conjunct2, rule_format, OF that(1)])
    qed
    with ih show ?thesis unfolding eq by blast
  next
    case False
    then obtain t where "e = Issued t" "digest t = d" by (cases e) (auto simp: issues_def split: if_splits)
    with fresh have d: "d = digest (token_of (db_next_id s))" "db_next_id s < db_next_id s1" by auto
    have "issues digest d es' = 0" by (rule ih [THEN conjunct2, rule_format, OF d])
    moreover have "issues digest d [e] \<le> 1" by (simp add: issues_def split: token_event.split)
    moreover have "\<not> k < db_next_id s" if "d = digest (token_of k)" for k
      using injD [OF assms, of "db_next_id s" k] that d(1) by simp
    ultimately show ?thesis unfolding split by fastforce
  qed
qed (simp add: issues_def)

lemma redeemed_at_most_once:
  assumes "inj (\<lambda>k. digest (token_of k))" "stored d s = 0" "token_run issue redeem ops s = (es, s')"
  shows "redemptions digest d es \<le> 1"
  using run_balance [OF assms(3), of d] issues_at_most_once [OF assms(1,3), of d] assms(2) by linarith

end

section \<open>The two providers\<close>

definition refresh_stored :: "string \<Rightarrow> db \<Rightarrow> nat" where
  "refresh_stored d s = length (filter (\<lambda>r. rt_token_hash r = d) (refresh_tokens s))"

definition reset_stored :: "string \<Rightarrow> db \<Rightarrow> nat" where
  "reset_stored d s = length (filter (\<lambda>r. pr_token_hash r = d) (password_reset_tokens s))"

lemma create_refresh_run: "create_refresh_token env u s = Inr (t, s') \<longleftrightarrow> t = ae_token env (db_next_id s) \<and>
    s' = s\<lparr>db_now := db_now s + 2, db_next_id := db_next_id s + 2, refresh_tokens := refresh_tokens s @
      [\<lparr>rt_id = db_next_id s + 1, rt_user_id = u, rt_token_hash = ae_sha256 env (ae_token env (db_next_id s)),
        rt_expires_at = db_now s + days_us refresh_token_expire_days, rt_created_at = db_now s + 1\<rparr>]\<rparr>"
  by (auto simp: create_refresh_token_def)

lemma create_reset_run: "create_reset_token env u email s = Inr (t, s') \<longleftrightarrow> t = ae_token env (db_next_id s) \<and>
    s' = s\<lparr>db_now := db_now s + 2, db_next_id := db_next_id s + 2, password_reset_tokens := password_reset_tokens s @
      [\<lparr>pr_id = db_next_id s + 1, pr_user_id = u, pr_email = email, pr_token_hash = ae_sha256 env (ae_token env (db_next_id s)),
        pr_expires_at = db_now s + minutes_us reset_token_expire_minutes, pr_created_at = db_now s + 1\<rparr>]\<rparr>"
  by (auto simp: create_reset_token_def)

lemma filter_filter_le: "length (filter P (filter Q xs)) \<le> length (filter P xs)"
  by (induction xs) auto

lemma filter_removed: "filter P xs = [r] \<Longrightarrow> filter P (filter (\<lambda>x. k x \<noteq> k r) xs) = []"
proof -
  assume r: "filter P xs = [r]"
  have "filter P (filter (\<lambda>x. k x \<noteq> k r) xs) = filter (\<lambda>x. k x \<noteq> k r) (filter P xs)"
    by (simp add: conj_commute)
  then show ?thesis by (simp add: r)
qed

lemma validate_refresh_cases:
  assumes "validate_refresh_token env t s = Inr (r, s')"
  obtains (none) "r = None" "refresh_tokens s' = refresh_tokens s" "db_next_id s' = db_next_id s"
  | (row) row where "filter (\<lambda>r. rt_token_hash r = ae_sha256 env t) (refresh_tokens s) = [row]"
      "refresh_tokens s' = filter (\<lambda>r. rt_id r \<noteq> rt_id row) (refresh_tokens s)" "db_next_id s' = db_next_id s"
      "r = None \<longleftrightarrow> rt_expires_at row < db_now s" "\<And>x. r = Some x \<Longrightarrow> fst x = rt_user_id row"
proof -
  obtain found where f: "scalar_one_or_none (filter (\<lambda>r. rt_token_hash r = ae_sha256 env t) (refresh_tokens s)) = Inr found"
    using assms by (auto simp: validate_refresh_token_def bind_s_Inr_iff)
  show thesis
  proof (cases found)
    case None
    then show ?thesis using none assms f by (simp add: validate_refresh_token_def)
  next
    case (Some row)
    then have "filter (\<lambda>r. rt_token_hash r = ae_sha256 env t) (refresh_tokens s) = [row]"
      using f by (simp add: scalar_one_or_none_Some)
    then show ?thesis
      using row [of row] assms
      by (auto simp: validate_refresh_token_def delete_refresh_token_def bind_s_Inr_iff split: if_splits)
  qed
qed

lemma validate_reset_cases:
  assumes "validate_reset_token env t s = Inr (r, s')"
  obtains (none) "r = None" "password_reset_tokens s' = password_reset_tokens s" "db_next_id s' = db_next_id s"
  | (row) row where "filter (\<lambda>r. pr_token_hash r = ae_sha256 env t) (password_reset_tokens s) = [row]"
      "password_reset_tokens s' = filter (\<lambda>r. pr_id r \<noteq> pr_id row) (password_reset_tokens s)" "db_next_id s' = db_next_id s"
      "r = None \<longleftrightarrow> pr_expires_at row < db_now s"
proof -
  obtain found where f: "scalar_one_or_none (filter (\<lambda>r. pr_token_hash r = ae_sha256 env t) (password_reset_tokens s)) = Inr found"
    using assms by (auto simp: validate_reset_token_def bind_s_Inr_iff)
  show thesis
  proof (cases found)
    case None
    then show ?thesis using none assms f by (simp add: validate_reset_token_def)
  next
    case (Some row)
    then have "filter (\<lambda>r. pr_token_hash r = ae_sha256 env t) (password_reset_tokens s) = [row]"
      using f by (simp add: scalar_one_or_none_Some)
    then show ?thesis
      using row [of row] assms
      by (auto simp: validate_reset_token_def delete_reset_token_def split: if_splits)
  qed
qed

interpretation refresh: single_use_tokens "create_refresh_token env" "validate_refresh_token env" "ae_sha256 env"
  refresh_stored "ae_token env"
proof unfold_locales
  show "refresh_stored d s' = refresh_stored d s + (if d = ae_sha256 env t then 1 else 0)"
    if "create_refresh_token env u s = Inr (t, s')" for u s t s' d
    using that by (auto simp: create_refresh_run refresh_stored_def)
  show "t = ae_token env (db_next_id s) \<and> db_next_id s < db_next_id s'"
    if "create_refresh_token env u s = Inr (t, s')" for u s t s'
    using that by (auto simp: create_refresh_run)
  show "refresh_stored d s' \<le> refresh_stored d s \<and> db_next_id s' = db_next_id s"
    if "validate_refresh_token env t s = Inr (r, s')" for t s r s' d
    using that by (elim validate_refresh_cases) (simp_all add: refresh_stored_def filter_filter_le del: filter_filter)
  show "0 < refresh_stored (ae_sha256 env t) s \<and> refresh_stored (ae_sha256 env t) s' = 0"
    if "validate_refresh_token env t s = Inr (Some x, s')" for t s x s'
    using that
    by (elim validate_refresh_cases) (simp_all add: refresh_stored_def filter_removed [where k = rt_id] del: filter_filter)
qed

interpretation reset: single_use_tokens "\<lambda>u. create_reset_token env u email" "validate_reset_token env" "ae_sha256 env"
  reset_stored "ae_token env"
proof unfold_locales
  show "reset_stored d s' = reset_stored d s + (if d = ae_sha256 env t then 1 else 0)"
    if "create_reset_token env u email s = Inr (t, s')" for u s t s' d
    using that by (auto simp: create_reset_run reset_stored_def)
  show "t = ae_token env (db_next_id s) \<and> db_next_id s < db_next_id s'"
    if "create_reset_token env u email s = Inr (t, s')" for u s t s'
    using that by (auto simp: create_reset_run)
  show "reset_stored d s' \<le> reset_stored d s \<and> db_next_id s' = db_next_id s"
    if "validate_reset_token env t s = Inr (r, s')" for t s r s' d
    using that by (elim validate_reset_cases) (simp_all add: reset_stored_def filter_filter_le del: filter_filter)
  show "0 < reset_stored (ae_sha256 env t) s \<and> reset_stored (ae_sha256 env t) s' = 0"
    if "validate_reset_token env t s = Inr (Some x, s')" for t s x s'
    using that
    by (elim validate_reset_cases) (simp_all add: reset_stored_def filter_removed [where k = pr_id] del: filter_filter)
qed

end
