(* ===== verification/Second_Factor.thy ===== *)
theory Second_Factor
imports Auth_Routes
begin

text \<open>
  \<open>api/routes/mfa_routes.py\<close>, the enrolment and use of the second factor, and \<open>google_verify\<close> of
  \<open>api/routes/auth_routes.py\<close>, the sign-in with a Google token. The link for the authenticator is left out
  of the reply to \<open>setup\<close>: it only formats the secret and the address.
\<close>

definition secret_of :: "ident \<Rightarrow> db \<Rightarrow> mfa_secret option res" where
  "secret_of user_id s = scalar_one_or_none (filter (\<lambda>m. mf_user_id m = user_id) (mfa_secrets s))"

definition mfa_status :: "auth_env \<Rightarrow> http_in \<Rightarrow> bool req" where
  "mfa_status env rq =
     bind_q (serve (get_current_user env rq)) (\<lambda>u.
     bind_q (ask (secret_of (us_id u))) (\<lambda>row.
     return_q (case row of None \<Rightarrow> False | Some m \<Rightarrow> mf_is_enabled m)))"

definition insert_secret :: "ident \<Rightarrow> string \<Rightarrow> string list \<Rightarrow> (db, unit) sres" where
  "insert_secret user_id encrypted codes =
     bind_s new_id (\<lambda>i.
     bind_s utcnow (\<lambda>now.
     modify_s (\<lambda>s. s\<lparr>mfa_secrets := mfa_secrets s @
       [\<lparr>mf_id = i, mf_user_id = user_id, mf_totp_secret = encrypted, mf_is_enabled = False,
         mf_backup_codes = Some codes, mf_created_at = now\<rparr>]\<rparr>)))"

text \<open>The reply is the secret and the backup codes.\<close>

definition setup_mfa :: "auth_env \<Rightarrow> mfa_env \<Rightarrow> http_in \<Rightarrow> (string \<times> string list) req" where
  "setup_mfa env menv rq =
     bind_q (serve (get_current_user env rq)) (\<lambda>u.
     bind_q (ask (secret_of (us_id u))) (\<lambda>existing.
     if (case existing of None \<Rightarrow> False | Some m \<Rightarrow> mf_is_enabled m)
     then raise_q (HTTPException 409 ''MFA is already enabled. Disable it first to reconfigure.'')
     else
       bind_q (serve new_id) (\<lambda>k.
       let secret = generate_totp_secret menv k;
           backup_codes = generate_backup_codes menv k;
           hashed_codes = map (hash_backup_code (ae_sha256 env)) backup_codes;
           encrypted = me_encrypt menv secret
       in bind_q (case existing of
            Some m \<Rightarrow> write_db (\<lambda>s. s\<lparr>mfa_secrets := update_row mf_id (mf_id m)
              (\<lambda>r. r\<lparr>mf_totp_secret := encrypted, mf_backup_codes := Some hashed_codes, mf_is_enabled := False\<rparr>)
              (mfa_secrets s)\<rparr>)
          | None \<Rightarrow> serve (insert_secret (us_id u) encrypted hashed_codes)) (\<lambda>_.
          bind_q (serve (record_audit (us_id u) (us_company_id u) ''mfa_setup'' ''mfa'' (Some (us_id u)) None)) (\<lambda>_.
          bind_q commit (\<lambda>_.
          return_q (secret, backup_codes)))))))"

text \<open>The check of a code against the stored secret.\<close>

definition check_code :: "mfa_env \<Rightarrow> mfa_secret \<Rightarrow> string \<Rightarrow> unit req" where
  "check_code menv row code =
     bind_q (serve (lift_s (me_decrypt menv (mf_totp_secret row)))) (\<lambda>secret.
     bind_q (serve (verify_totp menv secret code)) (\<lambda>good.
     if good then return_q () else raise_q (HTTPException 401 ''Invalid TOTP code'')))"

definition verify_and_enable_mfa :: "auth_env \<Rightarrow> mfa_env \<Rightarrow> http_in \<Rightarrow> string \<Rightarrow> bool req" where
  "verify_and_enable_mfa env menv rq code =
     bind_q (serve (get_current_user env rq)) (\<lambda>u.
     bind_q (ask (secret_of (us_id u))) (\<lambda>found.
     case found of
       None \<Rightarrow> raise_q (HTTPException 400 ''Call /setup first'')
     | Some m \<Rightarrow>
         bind_q (check_code menv m code) (\<lambda>_.
         bind_q (write_db (\<lambda>s. s\<lparr>mfa_secrets := update_row mf_id (mf_id m) (\<lambda>r. r\<lparr>mf_is_enabled := True\<rparr>) (mfa_secrets s)\<rparr>)) (\<lambda>_.
         bind_q (serve (record_audit (us_id u) (us_company_id u) ''mfa_enabled'' ''mfa'' (Some (us_id u)) None)) (\<lambda>_.
         bind_q commit (\<lambda>_.
         return_q True))))))"

definition validate_totp :: "auth_env \<Rightarrow> mfa_env \<Rightarrow> http_in \<Rightarrow> string \<Rightarrow> auth_reply req" where
  "validate_totp env menv rq code =
     bind_q (serve (get_mfa_pending_user env rq)) (\<lambda>u.
     bind_q (ask (enabled_secret (us_id u))) (\<lambda>found.
     case found of
       None \<Rightarrow> raise_q (HTTPException 400 ''MFA is not enabled'')
     | Some m \<Rightarrow>
         bind_q (check_code menv m code) (\<lambda>_.
         full_tokens env (us_id u) (us_company_id u) ''login_mfa_verified'' ''user'' None)))"

definition disable_mfa :: "auth_env \<Rightarrow> mfa_env \<Rightarrow> http_in \<Rightarrow> string \<Rightarrow> unit req" where
  "disable_mfa env menv rq code =
     bind_q (serve (get_current_user env rq)) (\<lambda>u.
     bind_q (ask (enabled_secret (us_id u))) (\<lambda>found.
     case found of
       None \<Rightarrow> raise_q (HTTPException 400 ''MFA is not enabled'')
     | Some m \<Rightarrow>
         bind_q (check_code menv m code) (\<lambda>_.
         bind_q (write_db (\<lambda>s. s\<lparr>mfa_secrets := filter (\<lambda>r. mf_id r \<noteq> mf_id m) (mfa_secrets s)\<rparr>)) (\<lambda>_.
         bind_q (serve (record_audit (us_id u) (us_company_id u) ''mfa_disabled'' ''mfa'' (Some (us_id u)) None)) (\<lambda>_.
         commit)))))"

section \<open>Sign-in with Google\<close>

text \<open>The answer of Google's token endpoint: no answer, a status that is not 200, or the claims.\<close>

record google_info =
  gi_aud :: string
  gi_email :: string
  gi_email_verified :: string
  gi_name :: string

datatype google_answer = Unreachable | Refused_Token | Token_Info google_info

definition google_register :: "auth_env \<Rightarrow> string \<Rightarrow> string \<Rightarrow> user req" where
  "google_register env email full_name =
     bind_q (serve (insert_company (full_name @ [CHR 0x27] @ ''s Company'') ''technology'' ''US'')) (\<lambda>c.
     bind_q (serve (random_hex env)) (\<lambda>password.
     bind_q (serve (hash_password env password)) (\<lambda>hashed.
     bind_q (serve (insert_user email hashed full_name c Admin)) (\<lambda>u.
     bind_q (serve (get_or_create_subscription c)) (\<lambda>_.
     bind_q commit (\<lambda>_.
     bind_q (serve (record_audit (us_id u) c ''register_google'' ''user'' (Some (us_id u)) None)) (\<lambda>_.
     bind_q commit (\<lambda>_.
     return_q u))))))))"

definition google_verify :: "auth_env \<Rightarrow> google_answer \<Rightarrow> auth_reply req" where
  "google_verify env answer =
     (if google_client_id (ae_config env) = []
      then raise_q (HTTPException 503 ''Google sign-in is not configured on this server.'')
      else case answer of
        Unreachable \<Rightarrow> raise_q (HTTPException 502 ''Could not reach Google.'')
      | Refused_Token \<Rightarrow> raise_q (HTTPException 401 ''Invalid Google token.'')
      | Token_Info info \<Rightarrow>
          if gi_aud info \<noteq> google_client_id (ae_config env)
          then raise_q (HTTPException 401 ''Token audience mismatch.'')
          else
            let email = gi_email info;
                full_name = (if gi_name info \<noteq> [] then gi_name info else takeWhile (\<lambda>c. c \<noteq> CHR ''@'') email)
            in if email = [] \<or> gi_email_verified info \<noteq> ''true''
               then raise_q (HTTPException 401 ''Google account has no verified email.'')
               else
                 bind_q (ask (live_user_by_email email)) (\<lambda>found.
                 bind_q (case found of Some u \<Rightarrow> return_q u | None \<Rightarrow> google_register env email full_name) (\<lambda>u.
                 if \<not> us_is_active u then raise_q (HTTPException 403 ''This account has been deactivated.'')
                 else
                   bind_q (serve utcnow) (\<lambda>now.
                   bind_q (write_db (update_user (us_id u) (\<lambda>r. r\<lparr>us_last_login := Some now\<rparr>))) (\<lambda>_.
                   full_tokens env (us_id u) (us_company_id u) ''login_google'' ''user'' (Some (us_id u)))))))"

end
