(* ===== verification/Team.thy ===== *)
theory Team
imports Auth_Routes
begin

text \<open>
  \<open>api/routes/team_routes.py\<close>: invitations and the members of a company. The handlers that record an audit
  entry after their commit do not commit again.
\<close>

definition invite_expire_days :: int where
  "invite_expire_days = 7"

fun role_name :: "user_role \<Rightarrow> string" where
  "role_name Admin = ''admin''"
| "role_name Member = ''member''"

definition pending_invitation :: "ident \<Rightarrow> timestamp \<Rightarrow> invitation \<Rightarrow> bool" where
  "pending_invitation c now i \<longleftrightarrow> iv_company_id i = c \<and> iv_accepted_at i = None \<and> now < iv_expires_at i"

definition insert_invitation ::
    "auth_env \<Rightarrow> ident \<Rightarrow> string \<Rightarrow> user_role \<Rightarrow> ident \<Rightarrow> (db, invitation \<times> string) sres" where
  "insert_invitation env c email role by =
     bind_s new_id (\<lambda>k.
     bind_s utcnow (\<lambda>now.
     bind_s new_id (\<lambda>i.
     bind_s utcnow (\<lambda>created.
     let invited = \<lparr>iv_id = i, iv_company_id = c, iv_email = email, iv_role = role, iv_invited_by = by,
           iv_token_hash = ae_sha256 env (ae_token env k), iv_expires_at = now + days_us invite_expire_days,
           iv_accepted_at = None, iv_created_at = created\<rparr>
     in bind_s (modify_s (\<lambda>s. s\<lparr>invitations := invitations s @ [invited]\<rparr>)) (\<lambda>_.
        return_s (invited, ae_token env k))))))"

text \<open>The reply is the invitation; the token itself is sent to nobody.\<close>

definition invite_member :: "auth_env \<Rightarrow> http_in \<Rightarrow> string \<Rightarrow> user_role \<Rightarrow> invitation req" where
  "invite_member env rq email role =
     bind_q (serve (require_admin env rq)) (\<lambda>u.
     bind_q (ask (\<lambda>s. scalar_one_or_none (filter (\<lambda>v. us_email v = email \<and> us_company_id v = us_company_id u \<and>
         us_deleted_at v = None) (users s)))) (\<lambda>existing.
     if existing \<noteq> None then raise_q (HTTPException 409 ''User is already a member of this company'')
     else
       bind_q (serve utcnow) (\<lambda>now.
       bind_q (ask (\<lambda>s. scalar_one_or_none (filter (\<lambda>i. iv_email i = email \<and> pending_invitation (us_company_id u) now i)
           (invitations s)))) (\<lambda>pending.
       if pending \<noteq> None then raise_q (HTTPException 409 ''A pending invitation already exists for this email'')
       else
         bind_q (serve (insert_invitation env (us_company_id u) email role (us_id u))) (\<lambda>(invited, token).
         bind_q commit (\<lambda>_.
         bind_q (serve (record_audit (us_id u) (us_company_id u) ''invite'' ''team_member'' (Some (iv_id invited))
           (Some (''Invited '' @ email @ '' as '' @ role_name role)))) (\<lambda>_.
         return_q invited)))))))"

definition accept_invite :: "auth_env \<Rightarrow> string \<Rightarrow> string \<Rightarrow> string \<Rightarrow> user req" where
  "accept_invite env token full_name password =
     bind_q (ask (\<lambda>s. scalar_one_or_none (filter (\<lambda>i. iv_token_hash i = ae_sha256 env token \<and> iv_accepted_at i = None)
         (invitations s)))) (\<lambda>found.
     case found of
       None \<Rightarrow> raise_q (HTTPException 404 ''Invalid or expired invitation'')
     | Some invited \<Rightarrow>
         bind_q (serve utcnow) (\<lambda>now.
         if iv_expires_at invited < now then raise_q (HTTPException 410 ''Invitation has expired'')
         else
           bind_q (ask (live_user_by_email (iv_email invited))) (\<lambda>existing.
           if existing \<noteq> None then raise_q (HTTPException 409 ''A user with this email already exists'')
           else
             bind_q (serve (hash_password env password)) (\<lambda>hashed.
             bind_q (serve utcnow) (\<lambda>accepted.
             bind_q (serve (insert_user (iv_email invited) hashed full_name (iv_company_id invited) (iv_role invited))) (\<lambda>u.
             bind_q (write_db (\<lambda>s. s\<lparr>invitations := update_row iv_id (iv_id invited)
               (\<lambda>i. i\<lparr>iv_accepted_at := Some accepted\<rparr>) (invitations s)\<rparr>)) (\<lambda>_.
             bind_q commit (\<lambda>_.
             bind_q (serve (record_audit (us_id u) (iv_company_id invited) ''accept_invite'' ''team_member'' (Some (us_id u)) None)) (\<lambda>_.
             return_q u)))))))))"

definition list_members :: "auth_env \<Rightarrow> http_in \<Rightarrow> nat \<Rightarrow> nat \<Rightarrow> (user list \<times> nat) req" where
  "list_members env rq limit offset =
     bind_q (serve (get_current_user env rq)) (\<lambda>u.
     ask (\<lambda>s. let rows = filter (\<lambda>v. us_company_id v = us_company_id u \<and> us_deleted_at v = None) (users s)
              in Inr (paginate limit offset (sort_key us_created_at rows), length rows)))"

definition list_invitations :: "auth_env \<Rightarrow> http_in \<Rightarrow> nat \<Rightarrow> nat \<Rightarrow> (invitation list \<times> nat) req" where
  "list_invitations env rq limit offset =
     bind_q (serve (require_admin env rq)) (\<lambda>u.
     bind_q (serve utcnow) (\<lambda>now.
     ask (\<lambda>s. Inr (page iv_created_at limit offset
       (filter (pending_invitation (us_company_id u) now) (invitations s))))))"

definition find_member :: "user \<Rightarrow> ident \<Rightarrow> db \<Rightarrow> user option res" where
  "find_member u member_id s = scalar_one_or_none
     (filter (\<lambda>v. us_id v = member_id \<and> us_company_id v = us_company_id u \<and> us_deleted_at v = None) (users s))"

definition update_member_role :: "auth_env \<Rightarrow> http_in \<Rightarrow> ident \<Rightarrow> user_role \<Rightarrow> user req" where
  "update_member_role env rq member_id role =
     bind_q (serve (require_admin env rq)) (\<lambda>u.
     if member_id = us_id u then raise_q (HTTPException 400 ''Cannot change your own role'')
     else
       bind_q (ask (find_member u member_id)) (\<lambda>found.
       case found of
         None \<Rightarrow> raise_q (HTTPException 404 ''Member not found'')
       | Some target \<Rightarrow>
           bind_q (write_db (update_user member_id (\<lambda>r. r\<lparr>us_role := role\<rparr>))) (\<lambda>_.
           bind_q commit (\<lambda>_.
           bind_q (serve (record_audit (us_id u) (us_company_id u) ''update_role'' ''team_member'' (Some member_id)
             (Some (''Role changed to '' @ role_name role)))) (\<lambda>_.
           return_q (target\<lparr>us_role := role\<rparr>))))))"

definition remove_member :: "auth_env \<Rightarrow> http_in \<Rightarrow> ident \<Rightarrow> unit req" where
  "remove_member env rq member_id =
     bind_q (serve (require_admin env rq)) (\<lambda>u.
     if member_id = us_id u then raise_q (HTTPException 400 ''Cannot remove yourself'')
     else
       bind_q (ask (find_member u member_id)) (\<lambda>found.
       case found of
         None \<Rightarrow> raise_q (HTTPException 404 ''Member not found'')
       | Some target \<Rightarrow>
           bind_q (serve utcnow) (\<lambda>now.
           bind_q (serve (random_hex env)) (\<lambda>suffix.
           bind_q (write_db (update_user member_id (\<lambda>r. r\<lparr>us_is_active := False, us_deleted_at := Some now,
             us_email := ''removed_'' @ str_nat member_id @ ''_'' @ suffix @ ''@removed.local'', us_full_name := ''Removed User''\<rparr>))) (\<lambda>_.
           bind_q commit (\<lambda>_.
           serve (record_audit (us_id u) (us_company_id u) ''remove'' ''team_member'' (Some member_id) None)))))))"

end
