(* ===== verification/Gdpr.thy ===== *)
theory Gdpr
imports Auth_Routes
begin

text \<open>
  \<open>gdpr_hard_delete\<close> of \<open>api/routes/auth_routes.py\<close>: the purge of a soft-deleted user. The deletes follow the
  foreign keys of \<open>api/models.py\<close>: a cascade deletes the rows that refer to a deleted row, a key without
  one refuses the delete. The source skips the models without a column \<open>company_id\<close>, the listings and the
  supply chain links.
\<close>

definition delete_portfolios :: "ident \<Rightarrow> (db, unit) sres" where
  "delete_portfolios c = modify_s (\<lambda>s. let gone = map fp_id (filter (\<lambda>p. fp_company_id p = c) (financed_portfolios s))
     in s\<lparr>financed_portfolios := filter (\<lambda>p. fp_company_id p \<noteq> c) (financed_portfolios s),
          financed_assets := filter (\<lambda>a. fa_portfolio_id a \<notin> set gone) (financed_assets s)\<rparr>)"

definition delete_scenarios :: "ident \<Rightarrow> (db, unit) sres" where
  "delete_scenarios c = modify_s (\<lambda>s. s\<lparr>scenarios := filter (\<lambda>r. sn_company_id r \<noteq> c) (scenarios s)\<rparr>)"

definition delete_questionnaires :: "ident \<Rightarrow> (db, unit) sres" where
  "delete_questionnaires c = modify_s (\<lambda>s. let gone = map qn_id (filter (\<lambda>q. qn_company_id q = c) (questionnaires s))
     in s\<lparr>questionnaires := filter (\<lambda>q. qn_company_id q \<noteq> c) (questionnaires s),
          questions := filter (\<lambda>q. qq_questionnaire_id q \<notin> set gone) (questions s)\<rparr>)"

definition delete_webhooks :: "ident \<Rightarrow> (db, unit) sres" where
  "delete_webhooks c = modify_s (\<lambda>s. let gone = map wh_id (filter (\<lambda>w. wh_company_id w = c) (webhooks s))
     in s\<lparr>webhooks := filter (\<lambda>w. wh_company_id w \<noteq> c) (webhooks s),
          webhook_deliveries := filter (\<lambda>d. wd_webhook_id d \<notin> set gone) (webhook_deliveries s)\<rparr>)"

definition delete_subscriptions :: "ident \<Rightarrow> (db, unit) sres" where
  "delete_subscriptions c = modify_s (\<lambda>s. s\<lparr>subscriptions := filter (\<lambda>r. sub_company_id r \<noteq> c) (subscriptions s)\<rparr>)"

text \<open>A review or a scenario that is left and refers to a report refuses its delete.\<close>

definition delete_reports :: "ident \<Rightarrow> (db, unit) sres" where
  "delete_reports c s =
     (let gone = map er_id (filter (\<lambda>r. er_company_id r = c) (emission_reports s))
      in if list_ex (\<lambda>v. dr_report_id v \<in> set gone) (data_reviews s) \<or>
            list_ex (\<lambda>n. sn_base_report_id n \<in> Some ` set gone) (scenarios s)
         then Inl IntegrityError
         else Inr ((), s\<lparr>emission_reports := filter (\<lambda>r. er_company_id r \<noteq> c) (emission_reports s)\<rparr>))"

definition delete_uploads :: "ident \<Rightarrow> (db, unit) sres" where
  "delete_uploads c = modify_s (\<lambda>s. let gone = map du_id (filter (\<lambda>r. du_company_id r = c) (data_uploads s))
     in s\<lparr>data_uploads := filter (\<lambda>r. du_company_id r \<noteq> c) (data_uploads s),
          emission_reports := map (\<lambda>r. if er_data_upload_id r \<in> Some ` set gone then r\<lparr>er_data_upload_id := None\<rparr> else r)
            (emission_reports s)\<rparr>)"

definition delete_company_data :: "ident \<Rightarrow> (db, unit) sres" where
  "delete_company_data c =
     bind_s (delete_portfolios c) (\<lambda>_.
     bind_s (delete_scenarios c) (\<lambda>_.
     bind_s (delete_questionnaires c) (\<lambda>_.
     bind_s (delete_webhooks c) (\<lambda>_.
     bind_s (delete_subscriptions c) (\<lambda>_.
     bind_s (delete_reports c) (\<lambda>_.
     delete_uploads c))))))"

definition delete_secrets :: "ident \<Rightarrow> (db, unit) sres" where
  "delete_secrets i = modify_s (\<lambda>s. s\<lparr>mfa_secrets := filter (\<lambda>m. mf_user_id m \<noteq> i) (mfa_secrets s)\<rparr>)"

definition delete_user_row :: "ident \<Rightarrow> (db, unit) sres" where
  "delete_user_row i s =
     (if list_ex (\<lambda>v. dr_submitted_by v = Some i \<or> dr_reviewed_by v = Some i) (data_reviews s) \<or>
         list_ex (\<lambda>v. iv_invited_by v = i) (invitations s)
      then Inl IntegrityError
      else Inr ((), s\<lparr>users := filter (\<lambda>u. us_id u \<noteq> i) (users s),
        refresh_tokens := filter (\<lambda>r. rt_user_id r \<noteq> i) (refresh_tokens s),
        revoked_tokens := filter (\<lambda>r. rv_user_id r \<noteq> i) (revoked_tokens s),
        password_reset_tokens := filter (\<lambda>r. pr_user_id r \<noteq> i) (password_reset_tokens s),
        audit_logs := map (\<lambda>a. if au_user_id a = Some i then a\<lparr>au_user_id := None\<rparr> else a) (audit_logs s)\<rparr>))"

definition has_other_users :: "user \<Rightarrow> db \<Rightarrow> bool" where
  "has_other_users target s \<longleftrightarrow> list_ex (\<lambda>u. us_company_id u = us_company_id target \<and> us_id u \<noteq> us_id target \<and>
     us_deleted_at u = None) (users s)"

definition gdpr_hard_delete :: "auth_env \<Rightarrow> http_in \<Rightarrow> ident \<Rightarrow> unit req" where
  "gdpr_hard_delete env rq user_id =
     bind_q (serve (require_admin env rq)) (\<lambda>admin.
     bind_q (ask (\<lambda>s. scalar_one_or_none (filter (\<lambda>u. us_id u = user_id \<and> us_deleted_at u \<noteq> None) (users s)))) (\<lambda>found.
     case found of
       None \<Rightarrow> raise_q (HTTPException 404 ''Soft-deleted user not found'')
     | Some target \<Rightarrow>
         bind_q (ask (\<lambda>s. Inr (has_other_users target s))) (\<lambda>others.
         bind_q (if others then return_q () else serve (delete_company_data (us_company_id target))) (\<lambda>_.
         bind_q (serve (delete_secrets user_id)) (\<lambda>_.
         bind_q (serve (delete_user_row user_id)) (\<lambda>_.
         bind_q (serve (record_audit (us_id admin) (us_company_id admin) ''gdpr_hard_delete'' ''user'' (Some user_id) None)) (\<lambda>_.
         commit)))))))"

section \<open>What a purge does\<close>

lemma delete_company_data_run:
  assumes "delete_company_data c s = Inr (x, s')"
  shows "users s' = users s" "data_listings s' = data_listings s" "supply_chain_links s' = supply_chain_links s"
    "c \<notin> er_company_id ` set (emission_reports s')" "c \<notin> sub_company_id ` set (subscriptions s')"
    "c \<notin> du_company_id ` set (data_uploads s')" "c \<notin> sn_company_id ` set (scenarios s')"
    "invitations s' = invitations s" "data_reviews s' = data_reviews s"
proof -
  obtain s1 s2 where s1: "delete_reports c s1 = Inr ((), s2)" "delete_uploads c s2 = Inr ((), s')"
    and f: "users s1 = users s" "data_listings s1 = data_listings s" "supply_chain_links s1 = supply_chain_links s"
      "invitations s1 = invitations s" "data_reviews s1 = data_reviews s" "c \<notin> sub_company_id ` set (subscriptions s1)"
      "c \<notin> sn_company_id ` set (scenarios s1)"
  proof -
    let ?f = "\<lambda>s1. users s1 = users s \<and> data_listings s1 = data_listings s \<and> supply_chain_links s1 = supply_chain_links s \<and>
      invitations s1 = invitations s \<and> data_reviews s1 = data_reviews s \<and> c \<notin> sub_company_id ` set (subscriptions s1) \<and>
      c \<notin> sn_company_id ` set (scenarios s1)"
    have found: "bind_s (delete_reports c) (\<lambda>_. delete_uploads c) s1 = Inr (x, s') \<Longrightarrow> ?f s1 \<Longrightarrow> thesis" for s1
      using that by (auto simp: bind_s_Inr_iff)
    show thesis
      by (rule found) (use assms in \<open>simp add: delete_company_data_def delete_portfolios_def delete_scenarios_def delete_questionnaires_def
          delete_webhooks_def delete_subscriptions_def Let_def\<close>, auto)
  qed
  have g: "users s2 = users s1" "data_listings s2 = data_listings s1" "supply_chain_links s2 = supply_chain_links s1"
    "invitations s2 = invitations s1" "data_reviews s2 = data_reviews s1" "subscriptions s2 = subscriptions s1"
    "scenarios s2 = scenarios s1" "c \<notin> er_company_id ` set (emission_reports s2)"
    using s1(1) by (auto simp: delete_reports_def Let_def split: if_splits)
  have h: "users s' = users s2" "data_listings s' = data_listings s2" "supply_chain_links s' = supply_chain_links s2"
    "invitations s' = invitations s2" "data_reviews s' = data_reviews s2" "subscriptions s' = subscriptions s2"
    "scenarios s' = scenarios s2" "c \<notin> du_company_id ` set (data_uploads s')"
    using s1(2) by (auto simp: delete_uploads_def Let_def)
  have "map er_company_id (emission_reports s') = map er_company_id (emission_reports s2)"
    using s1(2) by (auto simp: delete_uploads_def Let_def)
  then have e: "er_company_id ` set (emission_reports s') = er_company_id ` set (emission_reports s2)"
    by (metis set_map)
  show "users s' = users s" "data_listings s' = data_listings s" "supply_chain_links s' = supply_chain_links s"
    "c \<notin> er_company_id ` set (emission_reports s')" "c \<notin> sub_company_id ` set (subscriptions s')"
    "c \<notin> du_company_id ` set (data_uploads s')" "c \<notin> sn_company_id ` set (scenarios s')"
    "invitations s' = invitations s" "data_reviews s' = data_reviews s"
    using f g h e by simp_all
qed

lemma delete_company_data_returns:
  assumes "list_all (\<lambda>v. dr_company_id v = c \<longrightarrow> False) (data_reviews s)"
    "list_all (\<lambda>v. \<forall>r \<in> set (emission_reports s). dr_report_id v = er_id r \<longrightarrow> dr_company_id v = er_company_id r) (data_reviews s)"
    "list_all (\<lambda>n. \<forall>r \<in> set (emission_reports s). sn_base_report_id n = Some (er_id r) \<longrightarrow> sn_company_id n = er_company_id r) (scenarios s)"
  shows "\<exists>s'. delete_company_data c s = Inr ((), s')"
proof -
  have "\<not> list_ex (\<lambda>v. dr_report_id v \<in> er_id ` {r \<in> set (emission_reports s). er_company_id r = c}) (data_reviews s)"
    using assms(1,2) by (fastforce simp: list_all_iff list_ex_iff)
  moreover have "\<not> list_ex (\<lambda>n. sn_base_report_id n \<in> Some ` er_id ` {r \<in> set (emission_reports s). er_company_id r = c})
      (filter (\<lambda>r. sn_company_id r \<noteq> c) (scenarios s))"
    using assms(3) by (fastforce simp: list_all_iff list_ex_iff)
  ultimately show ?thesis
    by (simp add: delete_company_data_def delete_portfolios_def delete_scenarios_def delete_questionnaires_def
        delete_webhooks_def delete_subscriptions_def delete_reports_def delete_uploads_def Let_def bind_s_def image_image)
qed

end
