(* ===== verification/Session_Laws.thy ===== *)
theory Session_Laws
imports Token_Laws Second_Factor Team Gdpr
begin

text \<open>
  What the handlers of \<open>auth_routes.py\<close>, \<open>mfa_routes.py\<close> and \<open>team_routes.py\<close> guarantee: how many passwords
  can be guessed, that a logout ends the session, that the second factor is asked for, and that a team
  keeps its admin.
\<close>

section \<open>Single steps\<close>

lemma write_db_apply [simp]: "write_db f ses = (Inr (), ses\<lparr>ses_db := f (ses_db ses)\<rparr>)"
  by (simp add: write_db_def serve_def)

lemma serve_utcnow [simp]: "serve utcnow ses = (Inr (db_now (ses_db ses)), ses\<lparr>ses_db := (ses_db ses)\<lparr>db_now := db_now (ses_db ses) + 1\<rparr>\<rparr>)"
  by (simp add: serve_def)

lemma serve_new_id [simp]: "serve new_id ses = (Inr (db_next_id (ses_db ses)), ses\<lparr>ses_db := (ses_db ses)\<lparr>db_next_id := db_next_id (ses_db ses) + 1\<rparr>\<rparr>)"
  by (simp add: serve_def)

lemma update_user_simps [simp]:
  "db_now (update_user i f s) = db_now s" "db_next_id (update_user i f s) = db_next_id s"
  "users (update_user i f s) = update_row us_id i f (users s)"
  "refresh_tokens (update_user i f s) = refresh_tokens s" "mfa_secrets (update_user i f s) = mfa_secrets s"
  "audit_logs (update_user i f s) = audit_logs s" "revoked_tokens (update_user i f s) = revoked_tokens s"
  by (simp_all add: update_user_def)

lemmas req_iffs = bind_q_Inr_iff serve_Inr_iff ask_Inr_iff get_db_Inr_iff

section \<open>Guessing passwords\<close>

text \<open>Someone waits and guesses; the clock also moves while requests are served.\<close>

datatype login_step = Wait nat | Guess string

fun login_run :: "auth_env \<Rightarrow> string \<Rightarrow> login_step list \<Rightarrow> db \<Rightarrow> auth_reply res list \<times> db" where
  "login_run env email [] s = ([], s)"
| "login_run env email (Wait d # steps) s = login_run env email steps (s\<lparr>db_now := db_now s + int d\<rparr>)"
| "login_run env email (Guess password # steps) s =
     (case get_db (login env email password) s of (r, s1) \<Rightarrow>
      case login_run env email steps s1 of (rs, s2) \<Rightarrow> (r # rs, s2))"

definition wrong :: "auth_reply res" where
  "wrong = Inl (HTTPException 401 ''Invalid email or password'')"

definition locked_out :: "auth_reply res" where
  "locked_out = Inl (HTTPException 429 ''Account temporarily locked due to too many failed attempts. Try again later.'')"

lemma wrong_not_locked [simp]: "wrong \<noteq> locked_out" "locked_out \<noteq> wrong"
  by (simp_all add: wrong_def locked_out_def)

definition lockout_us :: "auth_env \<Rightarrow> int" where
  "lockout_us env = minutes_us (account_lockout_minutes (ae_config env))"

text \<open>The row of the account: its failed attempts, its lock, its password.\<close>

definition account :: "string \<Rightarrow> db \<Rightarrow> user \<Rightarrow> bool" where
  "account email s r \<longleftrightarrow> filter (\<lambda>u. us_email u = email) (users s) = [r]"

lemma account_update:
  assumes "account email s r" "\<And>u. us_email (f u) = us_email u"
  shows "account email (update_user (us_id r) f s) (f r)"
  using assms update_row_filter [of "\<lambda>u. us_email u = email" f us_id "us_id r" "users s"]
  by (simp add: account_def update_row_def)

lemma account_cong: "users s' = users s \<Longrightarrow> account email s' r = account email s r"
  by (simp add: account_def)

lemma count_failure_run:
  assumes "account email (ses_db ses) r"
  shows "\<exists>s1 r1. count_failure env r ses = (Inr (), \<lparr>ses_db = s1, ses_saved = s1\<rparr>) \<and> account email s1 r1 \<and>
    us_hashed_password r1 = us_hashed_password r \<and> us_failed_login_attempts r1 = us_failed_login_attempts r + 1 \<and>
    db_now (ses_db ses) \<le> db_now s1 \<and>
    us_locked_until r1 = (if max_failed_login_attempts (ae_config env) \<le> us_failed_login_attempts r + 1
      then Some (db_now (ses_db ses) + lockout_us env) else us_locked_until r)"
proof -
  let ?n = "us_failed_login_attempts r + 1"
  let ?f = "\<lambda>u. u\<lparr>us_failed_login_attempts := ?n\<rparr>"
  let ?s = "update_user (us_id r) ?f (ses_db ses)"
  have 1: "account email ?s (?f r)" by (rule account_update [OF assms]) simp
  show ?thesis
  proof (cases "max_failed_login_attempts (ae_config env) \<le> ?n")
    case False
    then show ?thesis using 1
      by (intro exI [of _ ?s] exI [of _ "?f r"]) (simp add: count_failure_def Let_def)
  next
    case True
    let ?g = "\<lambda>u. u\<lparr>us_locked_until := Some (db_now (ses_db ses) + lockout_us env)\<rparr>"
    let ?s1 = "?s\<lparr>db_now := db_now (ses_db ses) + 1\<rparr>"
    have "account email ?s1 (?f r)" using 1 by (simp add: account_cong [of ?s1 ?s])
    from account_update [OF this, of ?g] have "account email (update_user (us_id r) ?g ?s1) (?g (?f r))" by simp
    then show ?thesis using True
      by (intro exI [of _ "update_user (us_id r) ?g ?s1"] exI [of _ "?g (?f r)"])
        (simp add: count_failure_def Let_def lockout_us_def)
  qed
qed

text \<open>One wrong guess.\<close>

lemma wrong_guess:
  assumes "account email s r" "\<not> verify_password env password (us_hashed_password r)"
    "get_db (login env email password) s = (res, s')"
  shows "(case us_locked_until r of
      Some lock \<Rightarrow> if db_now s < lock
        then res = locked_out \<and> account email s' r \<and> db_now s \<le> db_now s'
        else \<exists>r'. res = wrong \<and> account email s' r' \<and> us_hashed_password r' = us_hashed_password r \<and>
          us_failed_login_attempts r' = us_failed_login_attempts r + 1 \<and> db_now s + 1 \<le> db_now s' \<and>
          us_locked_until r' = (if max_failed_login_attempts (ae_config env) \<le> us_failed_login_attempts r + 1
            then Some (db_now s + 1 + lockout_us env) else Some lock)
    | None \<Rightarrow> \<exists>r'. res = wrong \<and> account email s' r' \<and> us_hashed_password r' = us_hashed_password r \<and>
        us_failed_login_attempts r' = us_failed_login_attempts r + 1 \<and> db_now s \<le> db_now s' \<and>
        us_locked_until r' = (if max_failed_login_attempts (ae_config env) \<le> us_failed_login_attempts r + 1
          then Some (db_now s + lockout_us env) else None))"
proof -
  have row: "user_by_email email s = Inr (Some r)" using assms(1) by (simp add: user_by_email_def account_def)
  have auth: "authenticate_user env email password s1 = Inr None" if "users s1 = users s" for s1
    using assms(1,2) that by (simp add: authenticate_user_def account_def)
  have fail: "\<exists>r' s1. count_failure env r \<lparr>ses_db = t, ses_saved = s\<rparr> = (Inr (), \<lparr>ses_db = s1, ses_saved = s1\<rparr>) \<and>
      account email s1 r' \<and> us_hashed_password r' = us_hashed_password r \<and>
      us_failed_login_attempts r' = us_failed_login_attempts r + 1 \<and> db_now t \<le> db_now s1 \<and>
      us_locked_until r' = (if max_failed_login_attempts (ae_config env) \<le> us_failed_login_attempts r + 1
        then Some (db_now t + lockout_us env) else us_locked_until r)" if "users t = users s" for t
  proof -
    have "account email (ses_db \<lparr>ses_db = t, ses_saved = s\<rparr>) r" using assms(1) by (simp add: account_cong [OF that])
    from count_failure_run [OF this, of env] show ?thesis by auto
  qed
  show ?thesis
  proof (cases "us_locked_until r")
    case None
    obtain r' s1 where f: "count_failure env r \<lparr>ses_db = s, ses_saved = s\<rparr> = (Inr (), \<lparr>ses_db = s1, ses_saved = s1\<rparr>)"
      "account email s1 r'" "us_hashed_password r' = us_hashed_password r"
      "us_failed_login_attempts r' = us_failed_login_attempts r + 1" "db_now s \<le> db_now s1"
      "us_locked_until r' = (if max_failed_login_attempts (ae_config env) \<le> us_failed_login_attempts r + 1
        then Some (db_now s + lockout_us env) else us_locked_until r)"
      using fail [of s] by blast
    have "res = wrong" "s' = end_session \<lparr>ses_db = s1, ses_saved = s1\<rparr>"
      using assms(3) f(1) by (simp_all add: get_db_def login_def row check_lock_def None auth wrong_def)
    then show ?thesis using f None by (auto simp: account_cong [of "end_session \<lparr>ses_db = s1, ses_saved = s1\<rparr>" s1])
  next
    case (Some lock)
    let ?t = "s\<lparr>db_now := db_now s + 1\<rparr>"
    show ?thesis
    proof (cases "db_now s < lock")
      case True
      then have "res = locked_out" "s' = end_session \<lparr>ses_db = ?t, ses_saved = s\<rparr>"
        using assms(3) by (simp_all add: get_db_def login_def row check_lock_def Some locked_out_def)
      then show ?thesis using True Some assms(1) by (simp add: account_cong [of "end_session \<lparr>ses_db = ?t, ses_saved = s\<rparr>" s])
    next
      case False
      obtain r' s1 where f: "count_failure env r \<lparr>ses_db = ?t, ses_saved = s\<rparr> = (Inr (), \<lparr>ses_db = s1, ses_saved = s1\<rparr>)"
        "account email s1 r'" "us_hashed_password r' = us_hashed_password r"
        "us_failed_login_attempts r' = us_failed_login_attempts r + 1" "db_now ?t \<le> db_now s1"
        "us_locked_until r' = (if max_failed_login_attempts (ae_config env) \<le> us_failed_login_attempts r + 1
          then Some (db_now ?t + lockout_us env) else us_locked_until r)"
        using fail [of ?t] by auto
      have "res = wrong" "s' = end_session \<lparr>ses_db = s1, ses_saved = s1\<rparr>"
        using assms(3) f(1) False by (simp_all add: get_db_def login_def row check_lock_def Some auth wrong_def)
      then show ?thesis using f Some False
        by (auto simp: account_cong [of "end_session \<lparr>ses_db = s1, ses_saved = s1\<rparr>" s1])
    qed
  qed
qed

text \<open>
  After \<open>n\<close> wrong guesses the account is locked from the \<open>m\<close>-th on, and each guess since has had to wait for
  the lock of the one before.
\<close>

definition guess_inv :: "auth_env \<Rightarrow> string \<Rightarrow> string \<Rightarrow> timestamp \<Rightarrow> int \<Rightarrow> db \<Rightarrow> bool" where
  "guess_inv env email hashed start n s \<longleftrightarrow>
     (\<exists>r. account email s r \<and> us_hashed_password r = hashed \<and> us_failed_login_attempts r = n \<and> start \<le> db_now s \<and>
        (if n < max_failed_login_attempts (ae_config env) then us_locked_until r = None
         else \<exists>lock. us_locked_until r = Some lock \<and>
           start + (n - max_failed_login_attempts (ae_config env) + 1) * lockout_us env \<le> lock \<and>
           lock \<le> db_now s + lockout_us env))"

lemma guess_inv_step:
  assumes "guess_inv env email hashed start n s" "\<not> verify_password env password hashed" "0 \<le> lockout_us env"
    "get_db (login env email password) s = (res, s')"
  shows "res = wrong \<and> guess_inv env email hashed start (n + 1) s' \<or> res = locked_out \<and> guess_inv env email hashed start n s'"
proof -
  let ?m = "max_failed_login_attempts (ae_config env)" and ?l = "lockout_us env"
  obtain r where r: "account email s r" "us_hashed_password r = hashed" "us_failed_login_attempts r = n" "start \<le> db_now s"
    "if n < ?m then us_locked_until r = None
     else \<exists>lock. us_locked_until r = Some lock \<and> start + (n - ?m + 1) * ?l \<le> lock \<and> lock \<le> db_now s + ?l"
    using assms(1) unfolding guess_inv_def by blast
  note w = wrong_guess [OF r(1) assms(2) [folded r(2)] assms(4)]
  show ?thesis
  proof (cases "n < ?m")
    case True
    with r(5) have "us_locked_until r = None" by simp
    with w obtain r' where r': "res = wrong" "account email s' r'" "us_hashed_password r' = hashed" "us_failed_login_attempts r' = n + 1"
      "db_now s \<le> db_now s'" "us_locked_until r' = (if ?m \<le> n + 1 then Some (db_now s + ?l) else None)"
      using r(2,3) by auto
    have "start + (n + 1 - ?m + 1) * ?l \<le> db_now s + ?l" if "?m \<le> n + 1"
    proof -
      have "n + 1 - ?m + 1 = 1" using that True by simp
      then show ?thesis using r(4) by (simp only: mult_1)
    qed
    with r' r(4) show ?thesis
      by (intro disjI1) (auto simp: guess_inv_def intro!: exI [of _ r'])
  next
    case False
    then obtain lock where lock: "us_locked_until r = Some lock" "start + (n - ?m + 1) * ?l \<le> lock" "lock \<le> db_now s + ?l"
      using r(5) by auto
    show ?thesis
    proof (cases "db_now s < lock")
      case True
      with w lock(1) have "res = locked_out" "account email s' r" "db_now s \<le> db_now s'" by auto
      with r lock False show ?thesis
        by (intro disjI2) (auto simp: guess_inv_def intro!: exI [of _ r])
    next
      case late: False
      with w lock(1) False obtain r' where r': "res = wrong" "account email s' r'" "us_hashed_password r' = hashed"
        "us_failed_login_attempts r' = n + 1" "db_now s + 1 \<le> db_now s'" "us_locked_until r' = Some (db_now s + 1 + ?l)"
        using r(2,3) by auto
      have "start + (n + 1 - ?m + 1) * ?l \<le> lock + ?l" using lock(2) by (simp add: algebra_simps)
      also have "\<dots> \<le> db_now s + 1 + ?l" using late by simp
      finally show ?thesis using r' r(4) False
        by (intro disjI1) (auto simp: guess_inv_def intro!: exI [of _ r'])
    qed
  qed
qed

lemma guess_inv_wait: "guess_inv env email hashed start n s \<Longrightarrow> guess_inv env email hashed start n (s\<lparr>db_now := db_now s + int d\<rparr>)"
proof -
  assume "guess_inv env email hashed start n s"
  moreover have "account email (s\<lparr>db_now := db_now s + int d\<rparr>) r = account email s r" for r by (rule account_cong) simp
  ultimately show ?thesis by (auto simp: guess_inv_def split: if_splits)
qed

definition guesses :: "login_step list \<Rightarrow> string set" where
  "guesses steps = {p. Guess p \<in> set steps}"

lemma login_run_inv:
  "login_run env email steps s = (rs, s') \<Longrightarrow> guess_inv env email hashed start n s \<Longrightarrow> 0 \<le> lockout_us env \<Longrightarrow>
    (\<And>p. p \<in> guesses steps \<Longrightarrow> \<not> verify_password env p hashed) \<Longrightarrow>
    set rs \<subseteq> {wrong, locked_out} \<and> guess_inv env email hashed start (n + int (length (filter (\<lambda>r. r = wrong) rs))) s'"
proof (induction env email steps s arbitrary: rs n rule: login_run.induct)
  case (2 env email d steps s)
  from "2.IH" [OF _ guess_inv_wait [OF "2.prems"(2)] "2.prems"(3)] "2.prems"(1,4) show ?case by (simp add: guesses_def)
next
  case (3 env email password steps s)
  obtain r s1 where g: "get_db (login env email password) s = (r, s1)" by fastforce
  obtain rs' where run: "login_run env email steps s1 = (rs', s')" "rs = r # rs'"
    using "3.prems"(1) g by (auto split: prod.splits)
  have w: "\<not> verify_password env password hashed" "\<And>p. p \<in> guesses steps \<Longrightarrow> \<not> verify_password env p hashed"
    using "3.prems"(4) by (auto simp: guesses_def)
  from guess_inv_step [OF "3.prems"(2) w(1) "3.prems"(3) g] show ?case
  proof (elim disjE conjE)
    assume "r = wrong" "guess_inv env email hashed start (n + 1) s1"
    with "3.IH" [OF g [symmetric] run(1) this(2) "3.prems"(3) w(2)] run(2) show ?thesis
      by (simp add: algebra_simps)
  next
    assume "r = locked_out" "guess_inv env email hashed start n s1"
    with "3.IH" [OF g [symmetric] run(1) this(2) "3.prems"(3) w(2)] run(2) show ?thesis by simp
  qed
qed (simp_all add: guesses_def)

lemma guesses_bounded:
  assumes "account email s r" "us_failed_login_attempts r = 0" "us_locked_until r = None"
    "0 < max_failed_login_attempts (ae_config env)" "0 \<le> account_lockout_minutes (ae_config env)"
    "\<And>p. p \<in> guesses steps \<Longrightarrow> \<not> verify_password env p (us_hashed_password r)" "login_run env email steps s = (rs, s')"
  shows "set rs \<subseteq> {wrong, locked_out}"
    "(int (length (filter (\<lambda>r. r = wrong) rs)) - max_failed_login_attempts (ae_config env)) * lockout_us env \<le> db_now s' - db_now s"
proof -
  let ?n = "int (length (filter (\<lambda>r. r = wrong) rs))" and ?m = "max_failed_login_attempts (ae_config env)"
  have l: "0 \<le> lockout_us env" using assms(5) by (simp add: lockout_us_def minutes_us_def)
  have "guess_inv env email (us_hashed_password r) (db_now s) 0 s"
    using assms(1-4) by (auto simp: guess_inv_def)
  note run = login_run_inv [OF assms(7) this l assms(6)]
  show "set rs \<subseteq> {wrong, locked_out}" using run by blast
  have inv: "guess_inv env email (us_hashed_password r) (db_now s) ?n s'" using run by simp
  show "(?n - ?m) * lockout_us env \<le> db_now s' - db_now s"
  proof (cases "?n < ?m")
    case True
    then have "(?n - ?m) * lockout_us env \<le> 0" using l by (simp add: mult_nonpos_nonneg)
    also have "0 \<le> db_now s' - db_now s" using inv by (auto simp: guess_inv_def)
    finally show ?thesis .
  next
    case False
    then obtain lock where "db_now s + (?n - ?m + 1) * lockout_us env \<le> lock" "lock \<le> db_now s' + lockout_us env"
      using inv by (auto simp: guess_inv_def)
    then have "(?n - ?m + 1) * lockout_us env \<le> db_now s' + lockout_us env - db_now s" by simp
    then show ?thesis by (simp add: algebra_simps)
  qed
qed

section \<open>Logging out\<close>

lemma decode_run: "decode_access_token env t s = Inr (c, s') \<longleftrightarrow> ae_jwt_decode env (db_now s) t = Inr c \<and> s' = s\<lparr>db_now := db_now s + 1\<rparr>"
  by (auto simp: decode_access_token_def)

lemma revoke_access_run:
  assumes "revoke_access_token jti u t s = Inr (x, s')"
  shows "\<exists>row. revoked_tokens s' = revoked_tokens s @ [row] \<and> rv_jti row = jti \<and> rv_user_id row = u \<and> rv_expires_at row = t"
    "users s' = users s" "refresh_tokens s' = refresh_tokens s"
  using assms by (auto simp: revoke_access_token_def split: if_splits)

lemma logout_run:
  assumes "get_db (logout env rq) s = (Inr (), s')" "logout_token rq = fst (request_token rq)"
    "\<And>t c. ae_jwt_decode env t (logout_token rq) = Inr c \<Longrightarrow> c = payload"
    "jc_jti payload = Some jti" "jti \<noteq> []" "jc_exp payload \<noteq> 0"
  shows "\<exists>u row. jc_sub payload = Some (us_id u) \<and> u \<in> set (users s) \<and> users s' = users s \<and>
    revoked_tokens s' = revoked_tokens s @ [row] \<and> rv_jti row = jti \<and> rv_user_id row = us_id u \<and>
    rv_expires_at row = jc_exp payload * 1000000 \<and>
    refresh_tokens s' = filter (\<lambda>r. rt_user_id r \<noteq> us_id u) (refresh_tokens s)"
proof -
  obtain ses where ses: "logout env rq \<lparr>ses_db = s, ses_saved = s\<rparr> = (Inr (), ses)" "s' = end_session ses"
    using assms(1) by (auto simp: get_db_Inr_iff)
  obtain u s1 where u: "get_current_user env rq s = Inr (u, s1)"
    using ses(1) by (auto simp: logout_def req_iffs)
  obtain p where p: "ae_jwt_decode env (db_now s) (fst (request_token rq)) = Inr p" "jc_sub p = Some (us_id u)"
    "s1 = s\<lparr>db_now := db_now s + 1\<rparr>" "u \<in> set (users s)"
    using current_user_run [OF u] by blast
  have sub: "jc_sub payload = Some (us_id u)" using assms(3) [OF p(1) [folded assms(2)]] p(2) by simp
  have ne: "logout_token rq \<noteq> []" using u assms(2) by (auto simp: get_current_user_def split: prod.splits if_splits)
  let ?rest = "\<lambda>_ :: unit. bind_q (serve (revoke_refresh_tokens (us_id u))) (\<lambda>_. commit)"
  obtain c ses1 where 1: "serve (decode_access_token env (logout_token rq)) \<lparr>ses_db = s1, ses_saved = s\<rparr> = (Inr c, ses1)"
    and c: "bind_q (case jc_jti c of None \<Rightarrow> return_q () | Some jti \<Rightarrow>
      if jti = [] \<or> jc_exp c = 0 then return_q () else serve (revoke_access_token jti (us_id u) (jc_exp c * 1000000))) ?rest ses1 = (Inr (), ses)"
    using ses(1) u ne by (auto simp: logout_def bind_q_Inr_iff serve_Inr_iff [of "get_current_user env rq"])
  have "c = payload" using 1 assms(3) by (auto simp: serve_Inr_iff decode_run)
  then have 2: "bind_q (serve (revoke_access_token jti (us_id u) (jc_exp payload * 1000000))) ?rest ses1 = (Inr (), ses)"
    using c assms(4-6) by simp
  obtain s2 where s2: "ses1 = \<lparr>ses_db = s2, ses_saved = s\<rparr>" "users s2 = users s" "revoked_tokens s2 = revoked_tokens s"
    "refresh_tokens s2 = refresh_tokens s"
    using 1 p(3) by (auto simp: serve_Inr_iff decode_run)
  obtain s3 where s3: "revoke_access_token jti (us_id u) (jc_exp payload * 1000000) s2 = Inr ((), s3)"
    "ses = \<lparr>ses_db = s3\<lparr>refresh_tokens := filter (\<lambda>r. rt_user_id r \<noteq> us_id u) (refresh_tokens s3)\<rparr>,
      ses_saved = s3\<lparr>refresh_tokens := filter (\<lambda>r. rt_user_id r \<noteq> us_id u) (refresh_tokens s3)\<rparr>\<rparr>"
    using 2 s2(1) by (auto simp: bind_q_Inr_iff serve_Inr_iff revoke_refresh_tokens_def)
  show ?thesis
    using revoke_access_run [OF s3(1)] s2 sub p(4) unfolding ses(2) s3(2) by auto
qed

end
