(* ===== verification/Factor_Laws.thy ===== *)
theory Factor_Laws
imports Session_Laws
begin

text \<open>
  The second factor, the sign-in with Google, the team and the purge: which tokens a handler gives out, who
  can get them, and whom an admin can affect.
\<close>

section \<open>Full tokens\<close>

lemma full_tokens_run:
  "\<exists>reply ses'. full_tokens env u c action resource shown ses = (Inr reply, ses') \<and> ses_db ses' = ses_saved ses' \<and>
     \<not> rp_mfa_required reply \<and> rp_refresh_token reply = ae_token env (db_next_id (ses_db ses) + 1) \<and>
     rp_user reply = shown \<and> users (ses_saved ses') = users (ses_db ses) \<and>
     mfa_secrets (ses_saved ses') = mfa_secrets (ses_db ses) \<and>
     (\<exists>row. refresh_tokens (ses_saved ses') = refresh_tokens (ses_db ses) @ [row] \<and> rt_user_id row = u \<and>
        rt_token_hash row = ae_sha256 env (rp_refresh_token reply))"
  by (simp add: full_tokens_def create_access_token_def create_jwt_def serve_def random_hex_def
      create_refresh_token_def)

section \<open>Login\<close>

lemma check_lock_run:
  assumes "check_lock row ses = (Inr x, ses')"
  shows "\<exists>t. ses' = ses\<lparr>ses_db := (ses_db ses)\<lparr>db_now := t\<rparr>\<rparr>"
  using assms
  by (auto simp: check_lock_def bind_q_Inr_iff split: option.splits if_splits intro: exI [of _ "db_now (ses_db ses)"])

lemma authenticate_Some:
  assumes "authenticate_user env email password s = Inr (Some u)"
  shows "filter (\<lambda>v. us_email v = email) (users s) = [u] \<and> verify_password env password (us_hashed_password u) \<and>
    us_is_active u \<and> us_deleted_at u = None"
proof -
  obtain m where m: "scalar_one_or_none (filter (\<lambda>v. us_email v = email) (users s)) = Inr m"
    using assms by (auto simp: authenticate_user_def bind_r_Inr_iff)
  show ?thesis
  proof (cases m)
    case None
    then show ?thesis using assms m by (simp add: authenticate_user_def)
  next
    case (Some v)
    then have "filter (\<lambda>v. us_email v = email) (users s) = [v]" using m by (simp add: scalar_one_or_none_Some)
    then show ?thesis using assms by (simp add: authenticate_user_def split: if_splits)
  qed
qed

lemma login_run_success:
  assumes "get_db (login env email password) s = (Inr reply, s')"
  obtains u where "filter (\<lambda>v. us_email v = email) (users s) = [u]" "verify_password env password (us_hashed_password u)"
    "us_is_active u" "us_deleted_at u = None"
    "\<And>m. m \<in> set (mfa_secrets s) \<Longrightarrow> mf_user_id m = us_id u \<Longrightarrow> mf_is_enabled m \<Longrightarrow>
       rp_mfa_required reply \<and> rp_refresh_token reply = [] \<and> refresh_tokens s' = refresh_tokens s \<and>
       (\<exists>c. rp_access_token reply = ae_jwt_encode env c \<and> jc_type c = Some ''mfa_pending'' \<and> jc_sub c = Some (us_id u))"
proof -
  obtain ses where run: "login env email password \<lparr>ses_db = s, ses_saved = s\<rparr> = (Inr reply, ses)" "s' = end_session ses"
    using assms by (auto simp: get_db_Inr_iff)
  obtain row ses1 found where row: "user_by_email email s = Inr row"
    and lock1: "check_lock row \<lparr>ses_db = s, ses_saved = s\<rparr> = (Inr (), ses1)"
    and found1: "authenticate_user env email password (ses_db ses1) = Inr found"
    using run(1) by (auto simp: login_def bind_q_Inr_iff ask_Inr_iff)
  obtain t where t: "ses1 = \<lparr>ses_db = s\<lparr>db_now := t\<rparr>, ses_saved = s\<rparr>" using check_lock_run [OF lock1] by auto
  note lock = lock1 [unfolded t] and found = found1 [unfolded t, simplified]
  obtain u where u: "found = Some u"
    using run(1) row lock found by (cases found) (auto simp: login_def bind_q_Inr_iff ask_Inr_iff)
  have cred: "filter (\<lambda>v. us_email v = email) (users s) = [u]" "verify_password env password (us_hashed_password u)"
    "us_is_active u" "us_deleted_at u = None"
    using authenticate_Some [of env email password "s\<lparr>db_now := t\<rparr>" u] found u by simp_all
  let ?f = "\<lambda>r. r\<lparr>us_failed_login_attempts := 0, us_locked_until := None, us_last_login := Some t\<rparr>"
  let ?s = "update_user (us_id u) ?f (s\<lparr>db_now := t + 1\<rparr>)"
  obtain mfa where mfa: "enabled_secret (us_id u) ?s = Inr mfa"
    using run(1) row lock found u by (auto simp: login_def bind_q_Inr_iff ask_Inr_iff)
  have "rp_mfa_required reply \<and> rp_refresh_token reply = [] \<and> refresh_tokens s' = refresh_tokens s \<and>
      (\<exists>c. rp_access_token reply = ae_jwt_encode env c \<and> jc_type c = Some ''mfa_pending'' \<and> jc_sub c = Some (us_id u))"
    if m: "m \<in> set (mfa_secrets s)" "mf_user_id m = us_id u" "mf_is_enabled m" for m
  proof -
    have "filter (\<lambda>m. mf_user_id m = us_id u \<and> mf_is_enabled m) (mfa_secrets s) \<noteq> []"
      using m by (auto simp: filter_empty_conv)
    then have "mfa \<noteq> None" using mfa by (cases mfa) (auto simp: enabled_secret_def scalar_one_or_none_None)
    then show ?thesis
      using run(1) row lock found u mfa unfolding run(2)
      by (auto simp: login_def bind_q_Inr_iff ask_Inr_iff serve_Inr_iff create_mfa_pending_token_def create_jwt_def)
  qed
  then show thesis using that cred by blast
qed

text \<open>What \<open>jwt.decode\<close> returns for an encoded token are its claims.\<close>

definition jwt_faithful :: "auth_env \<Rightarrow> bool" where
  "jwt_faithful env \<longleftrightarrow> (\<forall>t c d. ae_jwt_decode env t (ae_jwt_encode env c) = Inr d \<longrightarrow> d = c)"

lemma pending_token_refused:
  assumes "jwt_faithful env" "fst (request_token rq) = ae_jwt_encode env c" "jc_type c = Some ''mfa_pending''"
  shows "\<not> returns (get_current_user env rq s)"
proof
  assume "returns (get_current_user env rq s)"
  then obtain u s1 where r: "get_current_user env rq s = Inr (u, s1)" by (auto elim!: returnsE)
  obtain p where "ae_jwt_decode env (db_now s) (fst (request_token rq)) = Inr p" "jc_type p \<noteq> Some ''mfa_pending''"
    by (rule current_user_run [OF r])
  moreover from this(1) have "p = c" using assms(1) unfolding assms(2) jwt_faithful_def by blast
  ultimately show False using assms(3) by simp
qed

lemma check_code_run:
  assumes "check_code menv m code ses = (Inr x, ses')"
  shows "\<exists>secret n. me_decrypt menv (mf_totp_secret m) = Inr secret \<and> hotp menv secret n = Inr code \<and>
    n \<le> totp_step (db_now (ses_db ses)) + 1 \<and> totp_step (db_now (ses_db ses)) \<le> n + 1"
proof -
  obtain secret good ses1 where "me_decrypt menv (mf_totp_secret m) = Inr secret"
    "serve (verify_totp menv secret code) ses = (Inr good, ses1)" "good"
    using assms by (auto simp: check_code_def bind_q_Inr_iff serve_Inr_iff [of "lift_s m" for m] split: if_splits)
  then show ?thesis using code_window by (fastforce simp: serve_Inr_iff)
qed

lemma validate_totp_run:
  assumes "get_db (validate_totp env menv rq code) s = (Inr reply, s')"
  obtains u m secret n where "get_mfa_pending_user env rq s = Inr (u, s\<lparr>db_now := db_now s + 1\<rparr>)" "m \<in> set (mfa_secrets s)"
    "mf_user_id m = us_id u" "mf_is_enabled m" "me_decrypt menv (mf_totp_secret m) = Inr secret"
    "hotp menv secret n = Inr code" "n \<le> totp_step (db_now s + 1) + 1" "totp_step (db_now s + 1) \<le> n + 1"
proof -
  obtain ses where run: "validate_totp env menv rq code \<lparr>ses_db = s, ses_saved = s\<rparr> = (Inr reply, ses)"
    using assms by (auto simp: get_db_Inr_iff)
  obtain u s1 where u: "get_mfa_pending_user env rq s = Inr (u, s1)"
    using run by (auto simp: validate_totp_def bind_q_Inr_iff serve_Inr_iff)
  have s1: "s1 = s\<lparr>db_now := db_now s + 1\<rparr>" using mfa_pending_user_run [OF u] by blast
  obtain found where f: "enabled_secret (us_id u) s1 = Inr found"
    using run u by (auto simp: validate_totp_def bind_q_Inr_iff serve_Inr_iff ask_Inr_iff)
  obtain m where m: "found = Some m" using run u f
    by (cases found) (auto simp: validate_totp_def bind_q_Inr_iff serve_Inr_iff ask_Inr_iff)
  then obtain ses1 where c: "check_code menv m code \<lparr>ses_db = s1, ses_saved = s\<rparr> = (Inr (), ses1)"
    using run u f by (auto simp: validate_totp_def bind_q_Inr_iff serve_Inr_iff [of "get_mfa_pending_user env rq"] ask_Inr_iff)
  have "m \<in> set (mfa_secrets s) \<and> mf_user_id m = us_id u \<and> mf_is_enabled m"
    using f m s1 by (auto simp: enabled_secret_def scalar_one_or_none_Some dest!: filter_single)
  then show thesis using that [of u m] u s1 check_code_run [OF c] by auto
qed

section \<open>Sign-in with Google\<close>

lemma google_verify_run:
  assumes "google_client_id (ae_config env) \<noteq> []" "gi_aud info = google_client_id (ae_config env)" "gi_email info \<noteq> []"
    "gi_email_verified info = ''true''"
    "filter (\<lambda>u. us_email u = gi_email info \<and> us_deleted_at u = None) (users s) = [u]" "us_is_active u"
  shows "\<exists>reply s'. get_db (google_verify env (Token_Info info)) s = (Inr reply, s') \<and> \<not> rp_mfa_required reply \<and>
    rp_user reply = Some (us_id u) \<and>
    (\<exists>row. refresh_tokens s' = refresh_tokens s @ [row] \<and> rt_user_id row = us_id u \<and>
       rt_token_hash row = ae_sha256 env (rp_refresh_token reply))"
proof -
  have found: "live_user_by_email (gi_email info) s = Inr (Some u)" using assms(5) by (simp add: live_user_by_email_def)
  let ?ses = "\<lparr>ses_db = update_user (us_id u) (\<lambda>r. r\<lparr>us_last_login := Some (db_now s)\<rparr>) (s\<lparr>db_now := db_now s + 1\<rparr>), ses_saved = s\<rparr>"
  obtain reply ses' where f: "full_tokens env (us_id u) (us_company_id u) ''login_google'' ''user'' (Some (us_id u)) ?ses =
      (Inr reply, ses')" "\<not> rp_mfa_required reply" "rp_user reply = Some (us_id u)"
    "\<exists>row. refresh_tokens (ses_saved ses') = refresh_tokens s @ [row] \<and> rt_user_id row = us_id u \<and>
       rt_token_hash row = ae_sha256 env (rp_refresh_token reply)"
    using full_tokens_run [of env "us_id u" "us_company_id u" "''login_google''" "''user''" "Some (us_id u)" ?ses] by auto
  have "get_db (google_verify env (Token_Info info)) s = (Inr reply, end_session ses')"
    using assms(1-4,6) f(1) by (simp add: get_db_def google_verify_def found Let_def)
  then show ?thesis using f(2-4) by simp
qed

section \<open>The team\<close>

text \<open>What an operation leaves when it ends, whether it raised or not.\<close>

definition keeps_others :: "ident \<Rightarrow> db \<Rightarrow> db \<Rightarrow> bool" where
  "keeps_others c s s' \<longleftrightarrow>
     filter (\<lambda>u. us_company_id u \<noteq> c) (users s') = filter (\<lambda>u. us_company_id u \<noteq> c) (users s)"

lemma require_admin_Inr: "require_admin env rq s = Inr (u, s') \<longleftrightarrow> get_current_user env rq s = Inr (u, s') \<and> us_role u = Admin"
  by (auto simp: require_admin_def bind_s_Inr_iff)

lemma update_row_other:
  assumes "distinct (map us_id rows)" "t \<in> set rows" "us_company_id t = c" "\<And>u. us_company_id (f u) = us_company_id u"
  shows "filter (\<lambda>u. us_company_id u \<noteq> c) (update_row us_id (us_id t) f rows) = filter (\<lambda>u. us_company_id u \<noteq> c) rows"
proof -
  have "filter (\<lambda>u. us_company_id u \<noteq> c) (update_row us_id (us_id t) f rows) =
      update_row us_id (us_id t) f (filter (\<lambda>u. us_company_id u \<noteq> c) rows)"
    by (rule update_row_filter) (simp add: assms(4))
  also have "\<dots> = filter (\<lambda>u. us_company_id u \<noteq> c) rows"
    using assms(2,3) inj_onD [OF conjunct2 [OF assms(1) [unfolded distinct_map]]] unfolding update_row_def
    by (intro map_idI) auto
  finally show ?thesis .
qed

lemma find_member_Some: "find_member u i s = Inr (Some t) \<Longrightarrow>
    t \<in> set (users s) \<and> us_id t = i \<and> us_company_id t = us_company_id u \<and> us_deleted_at t = None"
  by (auto simp: find_member_def scalar_one_or_none_Some dest!: filter_single)

text \<open>A change of one member: nothing, or an update of another member's row.\<close>

definition member_change :: "user \<Rightarrow> db \<Rightarrow> db \<Rightarrow> bool" where
  "member_change u s s' \<longleftrightarrow> audit_logs s' = audit_logs s \<and>
     (users s' = users s \<or> (\<exists>t f. t \<in> set (users s) \<and> us_id t \<noteq> us_id u \<and> us_company_id t = us_company_id u \<and>
        (\<forall>v. us_company_id (f v) = us_company_id v \<and> us_id (f v) = us_id v) \<and>
        users s' = update_row us_id (us_id t) f (users s)))"

lemma member_change_keeps:
  assumes "member_change u s s'" "u \<in> set (users s)" "distinct (map us_id (users s))"
  shows "u \<in> set (users s') \<and> keeps_others (us_company_id u) s s' \<and> audit_logs s' = audit_logs s"
proof -
  consider "users s' = users s" | t f where "t \<in> set (users s)" "us_id t \<noteq> us_id u" "us_company_id t = us_company_id u"
    "\<forall>v. us_company_id (f v) = us_company_id v \<and> us_id (f v) = us_id v" "users s' = update_row us_id (us_id t) f (users s)"
    using assms(1) unfolding member_change_def by blast
  then have "u \<in> set (users s') \<and> keeps_others (us_company_id u) s s'"
  proof cases
    case 1
    then show ?thesis using assms(2) by (simp add: keeps_others_def)
  next
    case 2
    have "u \<in> set (users s')" using 2(2) assms(2) by (force simp: 2(5) update_row_def)
    moreover have "keeps_others (us_company_id u) s s'"
      unfolding keeps_others_def 2(5) by (rule update_row_other [OF assms(3) 2(1,3)]) (simp add: 2(4))
    ultimately show ?thesis by blast
  qed
  with assms(1) show ?thesis by (simp add: member_change_def)
qed

lemma refused_request [simp]: "require_admin env rq s = Inl e \<Longrightarrow> get_db (bind_q (serve (require_admin env rq)) f) s = (Inl e, end_session \<lparr>ses_db = s, ses_saved = s\<rparr>)"
  by (simp add: get_db_def)

lemma admin_request:
  assumes "get_current_user env rq s = Inr (u, s1)" "us_role u = Admin"
  shows "get_db (bind_q (serve (require_admin env rq)) f) s =
    (case f u \<lparr>ses_db = s\<lparr>db_now := db_now s + 1\<rparr>, ses_saved = s\<rparr> of (r, ses) \<Rightarrow> (r, end_session ses))"
proof -
  have "s1 = s\<lparr>db_now := db_now s + 1\<rparr>" by (rule current_user_run [OF assms(1)])
  then show ?thesis using assms by (simp add: get_db_def require_admin_def)
qed

lemma find_member_clock [simp]: "find_member u i (s\<lparr>db_now := t\<rparr>) = find_member u i s"
  by (simp add: find_member_def)

lemma update_role_change:
  assumes "get_current_user env rq s = Inr (u, s1)" "us_role u = Admin" "get_db (update_member_role env rq i role) s = (r, s')"
  shows "member_change u s s'"
proof -
  note run = assms(3) [unfolded update_member_role_def admin_request [OF assms(1,2)]]
  show ?thesis
  proof (cases "i = us_id u")
    case True
    then show ?thesis using run by (auto simp: member_change_def)
  next
    case False
    show ?thesis
    proof (cases "find_member u i s")
      case (Inl e)
      then show ?thesis using run False by (auto simp: member_change_def ask_def serve_def)
    next
      case (Inr found)
      show ?thesis
      proof (cases found)
        case None
        then show ?thesis using run False Inr by (auto simp: member_change_def)
      next
        case (Some t)
        then show ?thesis
          using run False Inr find_member_Some [of u i s t]
          by (auto simp: member_change_def intro!: exI [of _ t] exI [of _ "\<lambda>r. r\<lparr>us_role := role\<rparr>"])
      qed
    qed
  qed
qed

lemma remove_member_change:
  assumes "get_current_user env rq s = Inr (u, s1)" "us_role u = Admin" "get_db (remove_member env rq i) s = (r, s')"
  shows "member_change u s s'"
proof -
  note run = assms(3) [unfolded remove_member_def admin_request [OF assms(1,2)]]
  show ?thesis
  proof (cases "i = us_id u")
    case True
    then show ?thesis using run by (auto simp: member_change_def)
  next
    case False
    show ?thesis
    proof (cases "find_member u i s")
      case (Inl e)
      then show ?thesis using run False by (auto simp: member_change_def ask_def serve_def)
    next
      case (Inr found)
      show ?thesis
      proof (cases found)
        case None
        then show ?thesis using run False Inr by (auto simp: member_change_def)
      next
        case (Some t)
        let ?e = "''removed_'' @ str_nat i @ ''_'' @ ae_token env (db_next_id s) @ ''@removed.local''"
        show ?thesis
          using run False Inr Some find_member_Some [of u i s t]
          by (auto simp: member_change_def random_hex_def serve_def intro!: exI [of _ t]
              exI [of _ "\<lambda>r. r\<lparr>us_is_active := False, us_deleted_at := Some (db_now s + 1), us_email := ?e, us_full_name := ''Removed User''\<rparr>"])
      qed
    qed
  qed
qed

lemma invite_member_change:
  assumes "get_current_user env rq s = Inr (u, s1)" "us_role u = Admin" "get_db (invite_member env rq email role) s = (r, s')"
  shows "member_change u s s'"
proof -
  note run = assms(3) [unfolded invite_member_def admin_request [OF assms(1,2)]]
  show ?thesis
    using run
    by (auto simp: member_change_def bind_q_def ask_def serve_def insert_invitation_def Let_def commit_def
        split: sum.splits if_splits prod.splits)
qed

text \<open>An accepted invitation makes exactly the member it names, and is used up.\<close>

definition open_invitation :: "auth_env \<Rightarrow> string \<Rightarrow> invitation \<Rightarrow> bool" where
  "open_invitation env token i \<longleftrightarrow> iv_token_hash i = ae_sha256 env token \<and> iv_accepted_at i = None"

lemma update_used_up:
  assumes "filter P xs = [i]" "\<And>r. \<not> P (f r)"
  shows "filter P (update_row k (k i) f xs) = []"
proof -
  have "r = i" if "r \<in> set xs" "P r" for r
  proof -
    have "r \<in> set (filter P xs)" using that by simp
    then show ?thesis using assms(1) by simp
  qed
  then show ?thesis using assms(2) by (auto simp: update_row_def filter_empty_conv)
qed

lemma accept_invite_run:
  assumes "get_db (accept_invite env token name password) s = (Inr u, s')"
  obtains i where "filter (open_invitation env token) (invitations s) = [i]" "us_company_id u = iv_company_id i"
    "us_role u = iv_role i" "us_email u = iv_email i" "users s' = users s @ [u]"
    "filter (open_invitation env token) (invitations s') = []" "audit_logs s' = audit_logs s" "db_now s \<le> iv_expires_at i"
proof -
  let ?q = "\<lambda>s. scalar_one_or_none (filter (\<lambda>i. iv_token_hash i = ae_sha256 env token \<and> iv_accepted_at i = None) (invitations s))"
  obtain ses where run: "accept_invite env token name password \<lparr>ses_db = s, ses_saved = s\<rparr> = (Inr u, ses)" "s' = end_session ses"
    using assms by (auto simp: get_db_Inr_iff)
  obtain found where f: "?q s = Inr found"
    using run(1) by (auto simp: accept_invite_def bind_q_Inr_iff ask_Inr_iff)
  obtain i where i: "found = Some i" using run(1) f by (cases found) (auto simp: accept_invite_def bind_q_Inr_iff ask_Inr_iff)
  have one: "filter (open_invitation env token) (invitations s) = [i]"
    using f i by (simp add: scalar_one_or_none_Some open_invitation_def [abs_def])
  have r: "us_company_id u = iv_company_id i \<and> us_role u = iv_role i \<and> us_email u = iv_email i \<and> users s' = users s @ [u] \<and>
      (\<exists>t. invitations s' = update_row iv_id (iv_id i) (\<lambda>i. i\<lparr>iv_accepted_at := Some t\<rparr>) (invitations s)) \<and>
      audit_logs s' = audit_logs s \<and> db_now s \<le> iv_expires_at i"
    using run(1) f i unfolding run(2)
    by (auto simp: accept_invite_def bind_q_Inr_iff ask_Inr_iff serve_Inr_iff hash_password_def insert_user_def Let_def
        split: if_splits)
  then obtain t where "invitations s' = update_row iv_id (iv_id i) (\<lambda>i. i\<lparr>iv_accepted_at := Some t\<rparr>) (invitations s)" by blast
  then have "filter (open_invitation env token) (invitations s') = []"
    using update_used_up [OF one, of "\<lambda>i. i\<lparr>iv_accepted_at := Some t\<rparr>" iv_id] by (simp add: open_invitation_def)
  then show thesis using that [of i] one r by blast
qed

section \<open>The purge\<close>

lemma purge_run:
  assumes "get_current_user env rq s = Inr (u, s1)" "us_role u = Admin"
    "filter (\<lambda>v. us_id v = i \<and> us_deleted_at v \<noteq> None) (users s) = [t]" "\<not> has_other_users t s"
    "list_all (\<lambda>v. dr_company_id v = us_company_id t \<longrightarrow> False) (data_reviews s)"
    "list_all (\<lambda>v. \<forall>r \<in> set (emission_reports s). dr_report_id v = er_id r \<longrightarrow> dr_company_id v = er_company_id r) (data_reviews s)"
    "list_all (\<lambda>n. \<forall>r \<in> set (emission_reports s). sn_base_report_id n = Some (er_id r) \<longrightarrow> sn_company_id n = er_company_id r) (scenarios s)"
    "list_all (\<lambda>v. dr_submitted_by v \<noteq> Some i \<and> dr_reviewed_by v \<noteq> Some i) (data_reviews s)"
    "list_all (\<lambda>v. iv_invited_by v \<noteq> i) (invitations s)"
  shows "\<exists>s'. get_db (gdpr_hard_delete env rq i) s = (Inr (), s') \<and> i \<notin> us_id ` set (users s') \<and>
    us_company_id t \<notin> er_company_id ` set (emission_reports s') \<and> us_company_id t \<notin> sub_company_id ` set (subscriptions s') \<and>
    us_company_id t \<notin> du_company_id ` set (data_uploads s') \<and>
    data_listings s' = data_listings s \<and> supply_chain_links s' = supply_chain_links s"
proof -
  let ?s = "s\<lparr>db_now := db_now s + 1\<rparr>" and ?c = "us_company_id t"
  obtain s2 where s2: "delete_company_data ?c ?s = Inr ((), s2)"
    using delete_company_data_returns [of ?c ?s] assms(5-7) by auto
  note eff = delete_company_data_run [OF s2]
  have nor: "\<not> list_ex (\<lambda>v. dr_submitted_by v = Some i \<or> dr_reviewed_by v = Some i) (data_reviews s)"
    "\<not> list_ex (\<lambda>v. iv_invited_by v = i) (invitations s)"
    using assms(8,9) by (auto simp: list_all_iff list_ex_iff)
  have ask1: "scalar_one_or_none (filter (\<lambda>u. us_id u = i \<and> us_deleted_at u \<noteq> None) (users ?s)) = Inr (Some t)"
    using assms(3) by simp
  have others: "\<not> has_other_users t ?s" using assms(4) by (simp add: has_other_users_def)
  let ?s3 = "s2\<lparr>mfa_secrets := filter (\<lambda>m. mf_user_id m \<noteq> i) (mfa_secrets s2)\<rparr>"
  obtain s4 where s4: "delete_user_row i ?s3 = Inr ((), s4)"
    using nor eff(8,9) by (simp add: delete_user_row_def)
  have e4: "users s4 = filter (\<lambda>u. us_id u \<noteq> i) (users s2)" "emission_reports s4 = emission_reports s2"
    "subscriptions s4 = subscriptions s2" "data_uploads s4 = data_uploads s2" "data_listings s4 = data_listings s2"
    "supply_chain_links s4 = supply_chain_links s2"
    using s4 by (auto simp: delete_user_row_def split: if_splits)
  show ?thesis
    unfolding gdpr_hard_delete_def admin_request [OF assms(1,2)]
    using ask1 others s2 s4 e4 eff
    by (auto simp: serve_def delete_secrets_def end_session_def)
qed

end
