(* ===== verification/Local_Estimate.thy ===== *)
theory Local_Estimate
imports Miner_Laws
begin

text \<open>
  \<open>estimate_emissions_local\<close> of \<open>api/services/subnet_bridge.py\<close>: the estimate without the network. It
  repeats the miner's computation with details, remarks and a confidence of its own; the figures are those
  of the miner. The industry and the region of a questionnaire are strings.
\<close>

record estimation =
  et_emissions :: pydict
  et_breakdown :: "pydict option"
  et_confidence :: "flt option"
  et_sources :: "remark list option"
  et_assumptions :: "remark list option"
  et_methodology_version :: "string option"
  et_miner_scores :: "pydict option"
  et_agreement_pct :: "flt option"

section \<open>The three scopes\<close>

text \<open>
  The data need not have been validated. A fuel or a vehicle type that is null or a number is a key that no
  table has, for which the calculators fall back on the default; a list or a dictionary is no key at all. A
  refrigerant that no table has counts as HFC-134a.
\<close>

definition key_or :: "pydict \<Rightarrow> string \<Rightarrow> string \<Rightarrow> string res" where
  "key_or data k dflt =
     (case map_of data k of
        Some (PStr s) \<Rightarrow> Inr s | Some (PList _) \<Rightarrow> Inl TypeError | Some (PDict _) \<Rightarrow> Inl TypeError | _ \<Rightarrow> Inr dflt)"

definition fugitive_of :: "emission_data \<Rightarrow> pyval \<Rightarrow> flt \<Rightarrow> flt res" where
  "fugitive_of D ref_type kg =
     (case ref_type of
        PStr s \<Rightarrow> Inr (calc_fugitive_emissions D s kg)
      | PList _ \<Rightarrow> Inl TypeError | PDict _ \<Rightarrow> Inl TypeError
      | _ \<Rightarrow> Inr (if kg \<le> 0 then 0 else py_round (kg * Fin 1530) 2))"

definition local_scope1 :: "emission_data \<Rightarrow> pydict \<Rightarrow> (flt \<times> (string, flt) dict) res" where
  "local_scope1 D data =
     bind_r (num_or_zero data ''fuel_use_liters'') (\<lambda>fuel.
     bind_r (if 0 < fuel then
         bind_r (key_or data ''fuel_type'' ''diesel'') (\<lambda>fuel_type.
         bind_r (calc_stationary_combustion D fuel_type fuel ''liters'') (\<lambda>val.
         Inr (0 + val, [(''stationary_combustion'', val)])))
       else Inr (0, [])) (\<lambda>(s1, detail).
     bind_r (num_or_zero data ''natural_gas_m3'') (\<lambda>ng.
     bind_r (if 0 < ng then
         bind_r (calc_stationary_combustion D ''natural_gas'' ng ''m3'') (\<lambda>val.
         Inr (s1 + val, dict_set ''natural_gas'' val detail))
       else Inr (s1, detail)) (\<lambda>(s1, detail).
     bind_r (num_or_zero data ''vehicle_km'') (\<lambda>vkm.
     bind_r (if 0 < vkm then
         bind_r (key_or data ''vehicle_type'' ''heavy_truck_diesel'') (\<lambda>vtype.
         bind_r (calc_mobile_combustion D vtype vkm 0) (\<lambda>val.
         Inr (s1 + val, dict_set ''mobile_combustion'' val detail)))
       else Inr (s1, detail)) (\<lambda>(s1, detail).
     case map_of data ''refrigerant_type'' of
       None \<Rightarrow> Inr (s1, detail)
     | Some ref_type \<Rightarrow>
         if truthy ref_type then
           bind_r (num_or_zero data ''refrigerant_kg_leaked'') (\<lambda>ref_kg.
           if 0 < ref_kg then
             bind_r (fugitive_of D ref_type ref_kg) (\<lambda>val.
             Inr (s1 + val, dict_set ''fugitive_emissions'' val detail))
           else Inr (s1, detail))
         else Inr (s1, detail)))))))"

definition local_scope2 :: "emission_data \<Rightarrow> pydict \<Rightarrow> string \<Rightarrow> pydict \<Rightarrow> (flt \<times> (string, flt) dict) res" where
  "local_scope2 D data region ctx =
     bind_r (num_or_zero data ''electricity_kwh'') (\<lambda>elec.
     let factor_override = dict_get ctx ''grid_factor_override'' PNone
     in bind_r (if 0 < elec then calc_location_based D elec region else Inr 0) (\<lambda>s2_loc.
        bind_r (if 0 < elec then
            bind_r (num_or_zero data ''rec_kwh'') (calc_market_based D elec region factor_override)
          else Inr 0) (\<lambda>s2_mkt.
        Inr (s2_loc, [(''location_based'', s2_loc), (''market_based'', s2_mkt)]))))"

definition local_activity :: "emission_data \<Rightarrow> pydict \<Rightarrow> string \<Rightarrow> string \<Rightarrow> (string, flt) dict res" where
  "local_activity D data industry region =
     bind_r (num_or_zero data ''supplier_spend_usd'') (\<lambda>spend.
     bind_r (if 0 < spend then
         bind_r (calc_cat1_purchased_goods D spend industry) (\<lambda>val. Inr [(''cat1_purchased_goods'', val)])
       else Inr []) (\<lambda>detail.
     bind_r (num_or_zero data ''shipping_ton_km'') (\<lambda>tkm.
     bind_r (if 0 < tkm then
         bind_r (calc_cat4_transport D tkm ''road'') (\<lambda>val. Inr (dict_set ''cat4_upstream_transport'' val detail))
       else Inr detail) (\<lambda>detail.
     bind_r (num_or_zero data ''waste_kg'') (\<lambda>waste.
     let detail = (if 0 < waste then dict_set ''cat5_waste'' (calc_cat5_waste waste ''landfill'') detail else detail)
     in bind_r (num_or_zero data ''business_travel_usd'') (\<lambda>travel.
     bind_r (num_or_zero data ''employee_count'') (\<lambda>emps.
     let detail = (if 0 < travel \<or> 0 < emps
                   then dict_set ''cat6_business_travel'' (calc_cat6_business_travel D emps industry travel) detail
                   else detail);
         detail = (if 0 < emps then dict_set ''cat7_commuting'' (calc_cat7_commuting D emps region) detail else detail)
     in Inr detail)))))))"

definition local_scope3 :: "emission_data \<Rightarrow> pydict \<Rightarrow> string \<Rightarrow> string \<Rightarrow> (string, flt) dict res" where
  "local_scope3 D data industry region =
     bind_r (local_activity D data industry region) (\<lambda>detail. fill_industry_defaults D detail industry data)"

section \<open>The whole estimate\<close>

text \<open>\<open>d.get(k) or 0\<close> compared with zero\<close>

definition absent :: "pydict \<Rightarrow> string \<Rightarrow> bool" where
  "absent data k = eq_zero (get_or_zero data k)"

definition local_assumptions :: "pydict \<Rightarrow> remark list" where
  "local_assumptions data =
     (if absent data ''natural_gas_m3'' \<and> absent data ''fuel_use_liters'' \<and> absent data ''vehicle_km''
      then [Text ''No direct fuel/vehicle data - Scope 1 is zero or estimated from defaults''] else [])
     @ (if absent data ''electricity_kwh'' then [Text ''No electricity data - Scope 2 is zero''] else [])
     @ (if absent data ''supplier_spend_usd''
        then [Text ''No supplier spend data - Scope 3 Cat 1 estimated from industry defaults''] else [])"

definition estimate_emissions_local :: "emission_data \<Rightarrow> pydict \<Rightarrow> pydict option \<Rightarrow> estimation res" where
  "estimate_emissions_local D questionnaire ctx0 =
     bind_r (case map_of questionnaire ''provided_data'' of None \<Rightarrow> Inr [] | Some (PDict d) \<Rightarrow> Inr d | Some _ \<Rightarrow> Inl AttributeError) (\<lambda>data.
     bind_r (str_or questionnaire ''industry'' ''manufacturing'') (\<lambda>industry.
     bind_r (str_or questionnaire ''region'' ''US'') (\<lambda>region.
     let ctx = (case ctx0 of None \<Rightarrow> [] | Some d \<Rightarrow> d)
     in bind_r (local_scope1 D data) (\<lambda>(s1, s1_detail).
        bind_r (local_scope2 D data region ctx) (\<lambda>(s2, s2_detail).
        bind_r (local_scope3 D data industry region) (\<lambda>s3_detail.
        let s3 = py_sum (dict_values s3_detail);
            confidence = calc_data_completeness data industry
        in Inr \<lparr>et_emissions = totals (py_round s1 2) (py_round s2 2) (py_round s3 2) (py_round (s1 + s2 + s3) 2),
             et_breakdown = Some [(''scope1_detail'', num_dict s1_detail), (''scope2_detail'', num_dict s2_detail),
               (''scope3_detail'', num_dict s3_detail)],
             et_confidence = Some (py_round confidence 4),
             et_sources = Some [Text ''EPA Emission Factors'', Text ''eGRID / IEA Grid Factors'', Text ''Industry Averages Database''],
             et_assumptions = Some (local_assumptions data), et_methodology_version = Some ''ghg_protocol_v2025'',
             et_miner_scores = None, et_agreement_pct = None\<rparr>))))))"

section \<open>The figures are the miner's\<close>

definition map_r :: "('a \<Rightarrow> 'b) \<Rightarrow> 'a res \<Rightarrow> 'b res" where
  "map_r f m = bind_r m (\<lambda>x. Inr (f x))"

lemma map_r_simps [simp]: "map_r f (Inl e) = Inl e" "map_r f (Inr x) = Inr (f x)"
  by (simp_all add: map_r_def)

text \<open>Two computations agree on a part of their results, step by step.\<close>

lemma agree_same: "(\<And>x. map_r f (k x) = map_r g (h x)) \<Longrightarrow> map_r f (bind_r m k) = map_r g (bind_r m h)"
  by (cases m) simp_all

lemma agree_step:
  "map_r p m = map_r q n \<Longrightarrow> (\<And>x y. p x = q y \<Longrightarrow> map_r f (k x) = map_r g (h y)) \<Longrightarrow>
    map_r f (bind_r m k) = map_r g (bind_r n h)"
  by (cases m; cases n) auto

lemma agree_if: "(b \<Longrightarrow> map_r f x = map_r g x') \<Longrightarrow> (\<not> b \<Longrightarrow> map_r f y = map_r g y') \<Longrightarrow>
    map_r f (if b then x else y) = map_r g (if b then x' else y')"
  by simp

lemmas agree_total = agree_step [where p = fst and q = es_total]

lemma key_or_validated: "returns (str_or data k d) \<Longrightarrow> key_or data k d = str_or data k d"
  by (auto simp: str_or_def key_or_def split: option.splits pyval.splits)

lemma scope1_agrees:
  assumes "validated data"
  shows "map_r fst (local_scope1 D data) = map_r es_total (estimate_scope1 D data assumptions sources)"
proof -
  have k: "key_or data ''fuel_type'' d = str_or data ''fuel_type'' d" "key_or data ''vehicle_type'' d = str_or data ''vehicle_type'' d" for d
    using validated_str_or [OF assms] by (auto simp: provided_schema_def intro!: key_or_validated)
  show ?thesis
    unfolding local_scope1_def estimate_scope1_def case_prod_beta k
    apply (rule agree_same, rule agree_total, (intro agree_if agree_same; simp), rule agree_same, rule agree_total)
     apply (intro agree_if agree_same; simp)
    apply (rule agree_same, rule agree_total)
     apply (intro agree_if agree_same; simp)
    apply (rule disjE [OF validated_refrigerant [OF assms]])
     apply simp
    apply (elim exE)
    apply (simp only: option.case pyval.case Let_def truthy.simps fugitive_of_def bind_r_simps)
    apply (simp split: if_split)
    apply (intro impI agree_same agree_if)
    apply simp_all
    done
qed

lemma scope2_agrees:
  assumes "validated data"
  shows "map_r fst (local_scope2 D data region ctx) = map_r es_total (estimate_scope2 D data region ctx assumptions sources)"
proof -
  obtain x where "num_or_zero data ''rec_kwh'' = Inr x"
    using validated_num_or_zero [OF assms, of "''rec_kwh''"] by (fastforce simp: provided_schema_def elim: returnsE)
  then show ?thesis
    unfolding local_scope2_def estimate_scope2_def
    by (intro agree_same) (simp add: Let_def map_r_def bind_r_def split: sum.split)
qed

text \<open>The third scope keeps the same details.\<close>

lemmas agree_detail = agree_step [where p = id and q = fst]

lemma activity_agrees:
  "map_r id (local_activity D data industry region) = map_r es_detail (scope3_activity D data industry region assumptions sources)"
  unfolding local_activity_def scope3_activity_def case_prod_beta
  by (rule agree_same, rule agree_detail, simp add: agree_same agree_if, rule agree_same, rule agree_detail,
      simp add: agree_same agree_if, unfold Let_def, intro agree_same) simp

lemma scope3_agrees:
  "map_r id (local_scope3 D data industry region) = map_r es_detail (estimate_scope3_all D data industry region assumptions sources)"
  unfolding local_scope3_def estimate_scope3_all_def
  by (rule agree_step [where p = id and q = es_detail, OF activity_agrees]) (simp add: Let_def map_r_def bind_r_def split: sum.split)

lemma scope3_total:
  "estimate_scope3_all D data industry region assumptions sources = Inr e \<Longrightarrow> es_total e = py_sum (dict_values (es_detail e))"
  by (auto simp: estimate_scope3_all_def bind_r_Inr_iff Let_def)

text \<open>On a questionnaire the miner accepts, the local estimate has the miner's figures, or the miner's error.\<close>

lemma agree_res: "map_r p m = map_r q n \<Longrightarrow> (\<exists>e. m = Inl e \<and> n = Inl e) \<or> (\<exists>x y. m = Inr x \<and> n = Inr y \<and> p x = q y)"
  by (cases m; cases n) auto

lemma local_is_miner:
  assumes "validate_questionnaire P (syn_questionnaire syn) = Inr (data, industry, region)"
  shows "map_r (\<lambda>e. Some (et_emissions e)) (estimate_emissions_local D
      [(''provided_data'', PDict data), (''industry'', PStr industry), (''region'', PStr region)] (Some (syn_context syn))) =
    map_r syn_emissions (estimate_synapse D P sha256 dumps syn)"
proof -
  have v: "validated data" by (rule validated_questionnaire [OF assms])
  have 1: "map_r fst (local_scope1 D data) = map_r es_total (estimate_scope1 D data [] [])" by (rule scope1_agrees [OF v])
  have 2: "map_r fst (local_scope2 D data region ctx) = map_r es_total (estimate_scope2 D data region ctx a s)" for ctx a s
    by (rule scope2_agrees [OF v])
  have 3: "map_r id (local_scope3 D data industry region) = map_r es_detail (estimate_scope3_all D data industry region a s)" for a s
    by (rule scope3_agrees)
  note local = estimate_emissions_local_def Let_def str_or_def and miner = estimate_synapse_def assms Let_def
  from agree_res [OF 1] show ?thesis
  proof (elim disjE exE conjE)
    fix x e1 assume x: "local_scope1 D data = Inr x" "estimate_scope1 D data [] [] = Inr e1" "fst x = es_total e1"
    from agree_res [OF 2 [of "syn_context syn" "es_assumptions e1" "es_sources e1"]] show ?thesis
    proof (elim disjE exE conjE)
      fix y e2 assume y: "local_scope2 D data region (syn_context syn) = Inr y"
        "estimate_scope2 D data region (syn_context syn) (es_assumptions e1) (es_sources e1) = Inr e2" "fst y = es_total e2"
      from agree_res [OF 3 [of "es_assumptions e2" "es_sources e2"]] show ?thesis
      proof (elim disjE exE conjE)
        fix z e3 assume z: "local_scope3 D data industry region = Inr z"
          "estimate_scope3_all D data industry region (es_assumptions e2) (es_sources e2) = Inr e3" "id z = es_detail e3"
        have "es_total e3 = py_sum (dict_values z)" using scope3_total [OF z(2)] z(3) by simp
        then show ?thesis using x y z by (simp add: local miner case_prod_beta)
      qed (use x y in \<open>simp add: local miner case_prod_beta\<close>)
    qed (use x in \<open>simp add: local miner case_prod_beta\<close>)
  qed (simp add: local miner)
qed

end
