(* ===== verification/Subnet_Bridge.thy ===== *)
theory Subnet_Bridge
imports Local_Estimate Validator
begin

text \<open>
  \<open>api/services/subnet_bridge.py\<close>: the circuit breakers of the bridge to the subnet, the query of the
  miners and the selection of a response by consensus. The breakers are module globals, so a call that
  raises keeps what it did to them. The clock counts seconds and advances at every reading; the network is
  a parameter. The totals of the responses are compared as Python compares numbers; with a NaN among them
  the order Python's sort gives is left out of the model.
\<close>

record bridge =
  br_clock :: int
  br_miners :: "(nat, nat \<times> int) dict"
  br_failures :: nat
  br_opened_at :: int

type_synonym 'a brq = "bridge \<Rightarrow> 'a res \<times> bridge"

definition per_miner_failure_threshold :: nat where
  "per_miner_failure_threshold = 3"

definition per_miner_recovery_timeout :: int where
  "per_miner_recovery_timeout = 120"

definition global_failure_threshold :: nat where
  "global_failure_threshold = 5"

definition global_recovery_timeout :: int where
  "global_recovery_timeout = 60"

definition monotonic :: "bridge \<Rightarrow> int \<times> bridge" where
  "monotonic b = (br_clock b, b\<lparr>br_clock := br_clock b + 1\<rparr>)"

section \<open>The breaker of a miner\<close>

definition miner_success :: "nat \<Rightarrow> bridge \<Rightarrow> bridge" where
  "miner_success uid b = b\<lparr>br_miners := dict_del uid (br_miners b)\<rparr>"

definition miner_failure :: "nat \<Rightarrow> bridge \<Rightarrow> bridge" where
  "miner_failure uid b =
     (let (failures, opened_at) = dict_get (br_miners b) uid (0, 0); n = failures + 1
      in if per_miner_failure_threshold \<le> n
         then case monotonic b of (now, b1) \<Rightarrow> b1\<lparr>br_miners := dict_set uid (n, now) (br_miners b1)\<rparr>
         else b\<lparr>br_miners := dict_set uid (n, opened_at) (br_miners b)\<rparr>)"

definition miner_is_open :: "nat \<Rightarrow> bridge \<Rightarrow> bool \<times> bridge" where
  "miner_is_open uid b =
     (case map_of (br_miners b) uid of
        None \<Rightarrow> (False, b)
      | Some (failures, opened_at) \<Rightarrow>
          if failures < per_miner_failure_threshold then (False, b)
          else case monotonic b of (now, b1) \<Rightarrow> (now - opened_at < per_miner_recovery_timeout, b1))"

section \<open>The global breaker\<close>

definition global_reset :: "bridge \<Rightarrow> bridge" where
  "global_reset b = b\<lparr>br_failures := 0, br_opened_at := 0\<rparr>"

definition global_failure :: "bridge \<Rightarrow> bridge" where
  "global_failure b =
     (let b = b\<lparr>br_failures := br_failures b + 1\<rparr>
      in if global_failure_threshold \<le> br_failures b
         then case monotonic b of (now, b1) \<Rightarrow> b1\<lparr>br_opened_at := now\<rparr>
         else b)"

definition global_is_open :: "bridge \<Rightarrow> bool \<times> bridge" where
  "global_is_open b =
     (if br_failures b < global_failure_threshold then (False, b)
      else case monotonic b of (now, b1) \<Rightarrow>
        if global_recovery_timeout \<le> now - br_opened_at b1 then (False, global_reset b1) else (True, b1))"

section \<open>Selection\<close>

text \<open>A valid response with the miner it came from and its score.\<close>

type_synonym scored = "nat \<times> carbon_synapse \<times> score_result"

definition total_of :: "scored \<Rightarrow> flt res" where
  "total_of r = (case syn_emissions (fst (snd r)) of None \<Rightarrow> Inl AttributeError | Some e \<Rightarrow> get_num e ''total'')"

definition final_of :: "scored \<Rightarrow> flt" where
  "final_of r = sr_final (snd (snd r))"

fun mapM_r :: "('a \<Rightarrow> 'b res) \<Rightarrow> 'a list \<Rightarrow> 'b list res" where
  "mapM_r f [] = Inr []"
| "mapM_r f (x # xs) = bind_r (f x) (\<lambda>y. bind_r (mapM_r f xs) (\<lambda>ys. Inr (y # ys)))"

text \<open>\<open>sorted\<close> and \<open>statistics.median\<close>\<close>

fun insert_flt :: "flt \<Rightarrow> flt list \<Rightarrow> flt list" where
  "insert_flt x [] = [x]"
| "insert_flt x (y # ys) = (if x < y then x # y # ys else y # insert_flt x ys)"

definition sort_flt :: "flt list \<Rightarrow> flt list" where
  "sort_flt xs = foldl (\<lambda>ys x. insert_flt x ys) [] xs"

definition median :: "flt list \<Rightarrow> flt" where
  "median xs =
     (let ys = sort_flt xs; n = length ys
      in if n mod 2 = 1 then ys ! (n div 2) else (ys ! (n div 2 - 1) + ys ! (n div 2)) / Fin 2)"

text \<open>\<open>min\<close> and \<open>max\<close> with a key: the first of the best.\<close>

fun min_by :: "('a \<Rightarrow> flt) \<Rightarrow> 'a \<Rightarrow> 'a list \<Rightarrow> 'a" where
  "min_by key best [] = best"
| "min_by key best (x # xs) = min_by key (if key x < key best then x else best) xs"

fun max_by :: "('a \<Rightarrow> flt) \<Rightarrow> 'a \<Rightarrow> 'a list \<Rightarrow> 'a" where
  "max_by key best [] = best"
| "max_by key best (x # xs) = max_by key (if key best < key x then x else best) xs"

definition min_quality :: flt where
  "min_quality = lit (3/10)"

text \<open>Every total has been read for the median, so the key reads it again without an error.\<close>

definition total_or_zero :: "scored \<Rightarrow> flt" where
  "total_or_zero r = (case total_of r of Inl e \<Rightarrow> 0 | Inr x \<Rightarrow> x)"

definition select_by_consensus :: "scored list \<Rightarrow> scored res" where
  "select_by_consensus responses =
     bind_r (mapM_r total_of responses) (\<lambda>ts.
     let median_total = median ts;
         quality = filter (\<lambda>r. min_quality \<le> final_of r) responses;
         quality = (if quality = [] then responses else quality)
     in Inr (min_by (\<lambda>r. \<bar>total_or_zero r - median_total\<bar>) (hd quality) (tl quality)))"

text \<open>The share of the responses within a fifth of the selected total.\<close>

definition agreement :: "flt \<Rightarrow> scored list \<Rightarrow> flt res" where
  "agreement selected_total responses =
     (if \<not> feq selected_total 0 \<and> 1 < length responses then
        let tolerance = selected_total * lit (2/10)
        in bind_r (mapM_r total_of responses) (\<lambda>ts.
           let agreeing = length (filter (\<lambda>t. \<bar>t - selected_total\<bar> \<le> tolerance) ts)
           in Inr (py_round (flt_of_int (int agreeing) / flt_of_int (int (length responses)) * Fin 100) 1))
      else Inr (Fin 100))"

section \<open>The query\<close>

text \<open>The axons are numbered by their place in the list of active miners.\<close>

fun open_axons :: "nat list \<Rightarrow> bridge \<Rightarrow> nat list \<times> bridge" where
  "open_axons [] b = ([], b)"
| "open_axons (uid # uids) b =
     (case miner_is_open uid b of (is_open, b1) \<Rightarrow>
      case open_axons uids b1 of (rest, b2) \<Rightarrow> ((if is_open then rest else uid # rest), b2))"

definition scores_dict :: "score_result \<Rightarrow> pyval" where
  "scores_dict r = PDict [(''accuracy'', PNum (sr_accuracy r)), (''compliance'', PNum (sr_compliance r)),
     (''completeness'', PNum (sr_completeness r)), (''anti_hallucination'', PNum (sr_anti_hallucination r)),
     (''benchmark'', PNum (sr_benchmark r)), (''penalty'', PNum (sr_penalty r)), (''final'', PNum (sr_final r))]"

definition bad_response :: "response \<Rightarrow> bool" where
  "bad_response r \<longleftrightarrow> \<not> is_success r \<or> syn_emissions (resp r) = None \<or>
     (case syn_confidence (resp r) of None \<Rightarrow> False | Some c \<Rightarrow> c < 0)"

text \<open>
  Data that is no dictionary, the JSON null, first fails in the compliance check, after the arithmetic on
  the figures.
\<close>

definition data_is_dict :: "pydict \<Rightarrow> bool" where
  "data_is_dict q = (case map_of q ''provided_data'' of Some (PDict d) \<Rightarrow> True | None \<Rightarrow> True | Some v \<Rightarrow> False)"

definition score_of :: "industry_data \<Rightarrow> pydict \<Rightarrow> string \<Rightarrow> carbon_synapse \<Rightarrow> score_result res" where
  "score_of inds q industry syn =
     (let ems = (case syn_emissions syn of None \<Rightarrow> [] | Some e \<Rightarrow> e)
      in if data_is_dict q
         then score_response inds ems (syn_breakdown syn) (syn_confidence syn) (syn_sources syn) (syn_assumptions syn)
           (questionnaire_of q) None industry
         else bind_r (mapM_r (get_num ems) [''scope1'', ''scope2'', ''scope3'', ''total'']) (\<lambda>_. Inl AttributeError))"

fun score_all :: "industry_data \<Rightarrow> pydict \<Rightarrow> string \<Rightarrow> (nat \<times> response) list \<Rightarrow> scored list brq" where
  "score_all inds q industry [] b = (Inr [], b)"
| "score_all inds q industry ((uid, r) # rs) b =
     (if bad_response r then score_all inds q industry rs (miner_failure uid b)
      else let b1 = miner_success uid b
           in case score_of inds q industry (resp r) of
                Inl e \<Rightarrow> (Inl e, b1)
              | Inr result \<Rightarrow>
                  (case score_all inds q industry rs b1 of
                     (Inl e, b2) \<Rightarrow> (Inl e, b2)
                   | (Inr rest, b2) \<Rightarrow> (Inr ((uid, resp r, result) # rest), b2)))"

definition selected_estimation :: "scored list \<Rightarrow> estimation res" where
  "selected_estimation valid =
     (if valid = [] then Inl (RuntimeError ''No valid responses received from miners'')
      else bind_r (if 3 \<le> length valid then select_by_consensus valid else Inr (max_by final_of (hd valid) (tl valid))) (\<lambda>selected.
        case syn_emissions (fst (snd selected)) of
          None \<Rightarrow> Inl AttributeError
        | Some ems \<Rightarrow>
            bind_r (if ems = [] then Inr 0 else total_of selected) (\<lambda>selected_total.
            bind_r (agreement selected_total valid) (\<lambda>agreement_pct.
            let best = fst (snd selected)
            in Inr \<lparr>et_emissions = ems, et_breakdown = syn_breakdown best, et_confidence = syn_confidence best,
                 et_sources = syn_sources best, et_assumptions = syn_assumptions best,
                 et_methodology_version = syn_methodology_version best,
                 et_miner_scores = Some (map (\<lambda>(uid, syn, result). (str_nat uid, scores_dict result)) valid),
                 et_agreement_pct = Some agreement_pct\<rparr>))))"

text \<open>
  \<open>axons\<close> is the number of active miners after the metagraph was synchronised, \<open>query\<close> what the
  dendrite returns for the asked miners.
\<close>

record subnet_env =
  sn_axons :: nat
  sn_query :: "nat list \<Rightarrow> carbon_synapse \<Rightarrow> response list"
  sn_industries :: industry_data

definition request_synapse :: "pydict \<Rightarrow> pydict option \<Rightarrow> carbon_synapse" where
  "request_synapse questionnaire ctx =
     \<lparr>syn_protocol_version = 2, syn_questionnaire = questionnaire, syn_context = (case ctx of None \<Rightarrow> [] | Some d \<Rightarrow> d),
      syn_emissions = None, syn_breakdown = None, syn_confidence = None, syn_data_completeness = None,
      syn_sources = None, syn_assumptions = None, syn_methodology_version = None, syn_request_hash = None\<rparr>"

definition do_subnet_query :: "subnet_env \<Rightarrow> pydict \<Rightarrow> pydict option \<Rightarrow> estimation brq" where
  "do_subnet_query env questionnaire ctx b =
     (if sn_axons env = 0 then (Inl (RuntimeError ''No active miners found on the subnet''), b)
      else case open_axons [0..<sn_axons env] b of (uids, b1) \<Rightarrow>
        if uids = [] then (Inl (RuntimeError ''All miners have open circuit breakers''), b1)
        else let q = questionnaire;
                 industry = (case q_industry (questionnaire_of questionnaire) of Some i \<Rightarrow> i | None \<Rightarrow> ''manufacturing'');
                 responses = sn_query env uids (request_synapse questionnaire ctx)
             in case score_all (sn_industries env) q industry (zip uids responses) b1 of
                  (Inl e, b2) \<Rightarrow> (Inl e, b2)
                | (Inr valid, b2) \<Rightarrow> (selected_estimation valid, b2))"

fun is_runtime_error :: "exn \<Rightarrow> bool" where
  "is_runtime_error (RuntimeError _) = True"
| "is_runtime_error _ = False"

definition estimate_emissions :: "subnet_env \<Rightarrow> pydict \<Rightarrow> pydict option \<Rightarrow> estimation brq" where
  "estimate_emissions env questionnaire ctx b =
     (case global_is_open b of (is_open, b1) \<Rightarrow>
      if is_open then (Inl (RuntimeError ''Circuit breaker open - subnet temporarily unavailable''), b1)
      else case do_subnet_query env questionnaire ctx b1 of
             (Inr result, b2) \<Rightarrow> (Inr result, global_reset b2)
           | (Inl e, b2) \<Rightarrow> (Inl e, if is_runtime_error e then global_failure b2 else b2))"

end
