(* ===== verification/Bridge_Laws.thy ===== *)
theory Bridge_Laws
imports Subnet_Bridge "HOL-Library.Multiset"
begin

text \<open>
  The selection by consensus: the median of the totals is where the majority is, and the selected response
  is a candidate of the required quality nearest to it. The breakers: a miner that failed three times in a
  row is left alone until its timeout, and the bridge that failed five times does not ask at all.
\<close>

section \<open>Sorting\<close>

lemma mset_insert_flt [simp]: "mset (insert_flt x ys) = add_mset x (mset ys)"
  by (induction x ys rule: insert_flt.induct) auto

lemma mset_sort_flt [simp]: "mset (sort_flt xs) = mset xs"
proof -
  have "mset (foldl (\<lambda>ys x. insert_flt x ys) ys xs) = mset ys + mset xs" for ys
    by (induction xs arbitrary: ys) auto
  then show ?thesis by (simp add: sort_flt_def)
qed

lemma set_sort_flt [simp]: "set (sort_flt xs) = set xs"
  by (rule mset_eq_setD) simp

lemma length_sort_flt [simp]: "length (sort_flt xs) = length xs"
  by (rule mset_eq_length) simp

lemma flt_linear: "(x :: flt) \<noteq> NaN \<Longrightarrow> y \<noteq> NaN \<Longrightarrow> \<not> x < y \<Longrightarrow> y \<le> x"
  by (cases x; cases y) auto

lemma set_insert_flt [simp]: "set (insert_flt x ys) = insert x (set ys)"
  by (induction x ys rule: insert_flt.induct) auto

lemma insert_flt_sorted:
  "sorted_wrt (\<le>) ys \<Longrightarrow> x \<noteq> NaN \<Longrightarrow> NaN \<notin> set ys \<Longrightarrow> sorted_wrt (\<le>) (insert_flt x ys)"
proof (induction x ys rule: insert_flt.induct)
  case (2 x y ys)
  show ?case
  proof (cases "x < y")
    case True
    then have "x \<le> y" by (rule flt_less_imp_le)
    then show ?thesis using 2 True flt_le_trans [of x y] by auto
  next
    case False
    then have "y \<le> x" using 2 flt_linear [of x y] by auto
    then show ?thesis using 2 False by auto
  qed
qed simp

lemma sort_flt_sorted: "NaN \<notin> set xs \<Longrightarrow> sorted_wrt (\<le>) (sort_flt xs)"
proof -
  have "sorted_wrt (\<le>) ys \<Longrightarrow> NaN \<notin> set ys \<Longrightarrow> NaN \<notin> set xs \<Longrightarrow> sorted_wrt (\<le>) (foldl (\<lambda>ys x. insert_flt x ys) ys xs)" for ys
    by (induction xs arbitrary: ys) (auto simp: insert_flt_sorted)
  then show "NaN \<notin> set xs \<Longrightarrow> ?thesis" by (simp add: sort_flt_def)
qed

section \<open>The middle of a sorted list\<close>

lemma majority_at:
  assumes "sorted_wrt R ys" "k < length ys" "length ys < 2 * length (filter P ys)"
    "length ys \<le> 2 * (k + 1)" "2 * k \<le> length ys"
    "\<And>x y z. P x \<Longrightarrow> R x y \<Longrightarrow> R y z \<Longrightarrow> P z \<Longrightarrow> P y"
  shows "P (ys ! k)"
proof (rule ccontr)
  assume no: "\<not> P (ys ! k)"
  let ?I = "{i. i < length ys \<and> P (ys ! i)}"
  have count: "length (filter P ys) = card ?I" by (simp add: length_filter_conv_card)
  have "?I \<subseteq> {..<k} \<or> ?I \<subseteq> {k<..<length ys}"
  proof (rule ccontr)
    assume "\<not> (?I \<subseteq> {..<k} \<or> ?I \<subseteq> {k<..<length ys})"
    then have "\<not> ?I \<subseteq> {..<k}" "\<not> ?I \<subseteq> {k<..<length ys}" by blast+
    then obtain i j where ij: "i \<in> ?I" "\<not> i < k" "j \<in> ?I" "\<not> k < j" by (auto simp: subset_iff)
    then have "i \<noteq> k" "j \<noteq> k" using no by auto
    then have "k < i" "j < k" using ij by auto
    then have "R (ys ! j) (ys ! k)" "R (ys ! k) (ys ! i)"
      using sorted_wrt_nth_less [OF assms(1)] ij assms(2) by auto
    then show False using assms(6) [of "ys ! j" "ys ! k" "ys ! i"] ij no by auto
  qed
  then have "card ?I \<le> max k (length ys - (k + 1))"
  proof
    assume "?I \<subseteq> {..<k}"
    then have "card ?I \<le> card {..<k}" by (intro card_mono) auto
    then show ?thesis by simp
  next
    assume "?I \<subseteq> {k<..<length ys}"
    then have "card ?I \<le> card {k<..<length ys}" by (intro card_mono) auto
    then show ?thesis by simp
  qed
  then show False using count assms(2-5) by (simp add: max_def split: if_splits)
qed

lemma rnd_small_int:
  assumes "\<bar>a :: int\<bar> \<le> 10 ^ 15"
  shows "rnd (of_int a) = of_int a" "rnd (2 * of_int a) = 2 * of_int a"
    "\<bar>of_int a :: rat\<bar> \<le> 10 ^ 18" "\<bar>2 * of_int a :: rat\<bar> \<le> 10 ^ 18"
proof -
  have "rnd (of_int a) = of_int a" "rnd (of_int (2 * a)) = of_int (2 * a)" using assms by (intro rnd_of_int; simp)+
  then show "rnd (of_int a) = of_int a" "rnd (2 * of_int a) = 2 * of_int a" by simp_all
  have "of_int \<bar>a\<bar> \<le> (of_int (10 ^ 15) :: rat)" using assms by (simp only: of_int_le_iff)
  then show "\<bar>of_int a :: rat\<bar> \<le> 10 ^ 18" "\<bar>2 * of_int a :: rat\<bar> \<le> 10 ^ 18" by simp_all
qed

text \<open>Where more than half of the totals are, the median is.\<close>

lemma median_majority:
  assumes "length xs < 2 * length (filter (between (of_int a) (of_int b)) xs)" "NaN \<notin> set xs"
    "\<bar>a\<bar> \<le> 10 ^ 15" "\<bar>b\<bar> \<le> 10 ^ 15"
  shows "between (of_int a) (of_int b) (median xs)"
proof -
  let ?ys = "sort_flt xs" and ?P = "between (of_int a) (of_int b)"
  note sorted = sort_flt_sorted [OF assms(2)]
  have len: "length (filter ?P ?ys) = length (filter ?P xs)"
    by (metis mset_filter mset_sort_flt size_mset)
  have ne: "0 < length ?ys" using assms(1) by (cases xs) auto
  have convex: "?P x \<Longrightarrow> x \<le> y \<Longrightarrow> y \<le> z \<Longrightarrow> ?P z \<Longrightarrow> ?P y" for x y z
    by (cases x; cases y; cases z) auto
  have mid: "?P (?ys ! k)" if "k < length ?ys" "length ?ys \<le> 2 * (k + 1)" "2 * k \<le> length ?ys" for k
  proof (rule majority_at [OF sorted that(1) _ that(2,3)])
    show "length ?ys < 2 * length (filter ?P ?ys)" using assms(1) len by simp
  qed (rule convex)
  note a = rnd_small_int [OF assms(3)] and b = rnd_small_int [OF assms(4)]
  show ?thesis
  proof (cases "length ?ys mod 2 = 1")
    case True
    have "length ?ys div 2 < length ?ys" "length ?ys \<le> 2 * (length ?ys div 2 + 1)" "2 * (length ?ys div 2) \<le> length ?ys"
      using ne by presburger+
    from mid [OF this] show ?thesis using True by (simp add: median_def Let_def)
  next
    case False
    let ?k = "length ?ys div 2"
    have "?k - 1 < length ?ys" "length ?ys \<le> 2 * (?k - 1 + 1)" "2 * (?k - 1) \<le> length ?ys"
      "?k < length ?ys" "length ?ys \<le> 2 * (?k + 1)" "2 * ?k \<le> length ?ys"
      using ne False by presburger+
    note 1 = mid [OF this(1-3)] and 2 = mid [OF this(4-6)]
    have "between (2 * of_int a) (2 * of_int b) (?ys ! (?k - 1) + ?ys ! ?k)"
      by (rule between_add [OF 1 2 _ _ a(2) b(2) a(4) b(4)]) simp_all
    then obtain r where r: "?ys ! (?k - 1) + ?ys ! ?k = Fin r" "2 * of_int a \<le> r" "r \<le> 2 * of_int b"
      by (auto simp: between_iff)
    have "?P (flt_of_rat (r / 2))" by (rule between_rounded [OF _ _ a(1) b(1) a(3) b(3)]) (use r in simp_all)
    then have "?P ((?ys ! (?k - 1) + ?ys ! ?k) / Fin 2)" unfolding r(1) by (simp add: divide_flt_def flt_0_1)
    then show ?thesis using False by (simp add: median_def Let_def)
  qed
qed

section \<open>The nearest candidate\<close>

lemma min_by_in: "min_by key b xs \<in> insert b (set xs)"
  by (induction key b xs rule: min_by.induct) auto

lemma min_by_least:
  "(\<And>x. x \<in> insert b (set xs) \<Longrightarrow> key x \<noteq> NaN) \<Longrightarrow> x \<in> insert b (set xs) \<Longrightarrow> key (min_by key b xs) \<le> key x"
proof (induction key b xs arbitrary: x rule: min_by.induct)
  case (1 key best)
  then show ?case by (simp add: flt_le_refl)
next
  case (2 key best y xs)
  let ?b = "if key y < key best then y else best"
  have nan: "key best \<noteq> NaN" "key y \<noteq> NaN" using "2.prems"(1) by auto
  have b: "key ?b \<le> key best" "key ?b \<le> key y"
    using nan flt_le_refl flt_less_imp_le flt_linear [of "key y" "key best"] by auto
  have ih: "key (min_by key ?b xs) \<le> key z" if "z \<in> insert ?b (set xs)" for z
    by (rule "2.IH") (use "2.prems"(1) that in auto)
  have "key (min_by key ?b xs) \<le> key ?b" by (rule ih) simp
  then have "key (min_by key ?b xs) \<le> key x"
    using "2.prems"(2) ih [of x] flt_le_trans [OF _ b(1)] flt_le_trans [OF _ b(2)] by auto
  then show ?case by simp
qed

lemma mapM_r_Inr: "mapM_r f xs = Inr ys \<Longrightarrow> length ys = length xs \<and> (\<forall>i < length xs. f (xs ! i) = Inr (ys ! i))"
proof (induction xs arbitrary: ys)
  case (Cons x xs)
  then obtain y zs where "f x = Inr y" "mapM_r f xs = Inr zs" "ys = y # zs" by (auto simp: bind_r_Inr_iff)
  then show ?case using Cons.IH [of zs] by (auto simp: nth_Cons split: nat.splits)
qed simp

lemma mapM_r_map: "mapM_r f xs = Inr ys \<Longrightarrow> ys = map (\<lambda>x. case f x of Inl e \<Rightarrow> d | Inr y \<Rightarrow> y) xs"
  by (induction xs arbitrary: ys) (auto simp: bind_r_Inr_iff)

lemma total_or_zero_map: "mapM_r total_of rs = Inr ts \<Longrightarrow> ts = map total_or_zero rs"
  using mapM_r_map [of total_of rs ts 0] by (simp add: total_or_zero_def [abs_def])

definition candidates :: "scored list \<Rightarrow> scored list" where
  "candidates rs = (let good = filter (\<lambda>r. min_quality \<le> final_of r) rs in if good = [] then rs else good)"

lemma candidates_subset: "set (candidates rs) \<subseteq> set rs"
  by (auto simp: candidates_def Let_def)

lemma candidates_empty [simp]: "candidates rs = [] \<longleftrightarrow> rs = []"
  by (auto simp: candidates_def Let_def)

lemma selected_candidate:
  assumes "select_by_consensus rs = Inr r" "rs \<noteq> []"
  shows "r \<in> set (candidates rs)"
    "mapM_r total_of rs = Inr (map total_or_zero rs)"
    "(\<And>c. c \<in> set (candidates rs) \<Longrightarrow> \<bar>total_or_zero c - median (map total_or_zero rs)\<bar> \<noteq> NaN) \<Longrightarrow> c \<in> set (candidates rs) \<Longrightarrow>
      \<bar>total_or_zero r - median (map total_or_zero rs)\<bar> \<le> \<bar>total_or_zero c - median (map total_or_zero rs)\<bar>"
proof -
  obtain ts where ts: "mapM_r total_of rs = Inr ts" using assms(1) by (auto simp: select_by_consensus_def bind_r_Inr_iff)
  note eq = total_or_zero_map [OF ts]
  let ?key = "\<lambda>r. \<bar>total_or_zero r - median (map total_or_zero rs)\<bar>" and ?cs = "candidates rs"
  have ne: "?cs \<noteq> []" using assms(2) by simp
  have r: "r = min_by ?key (hd ?cs) (tl ?cs)"
    using assms(1) ts eq by (simp add: select_by_consensus_def candidates_def Let_def)
  have set: "insert (hd ?cs) (set (tl ?cs)) = set ?cs" using ne by (cases ?cs) auto
  show "mapM_r total_of rs = Inr (map total_or_zero rs)" using ts eq by simp
  show "r \<in> set ?cs" using min_by_in [of ?key "hd ?cs" "tl ?cs"] unfolding r set .
  show "?key r \<le> ?key c" if "\<And>c. c \<in> set ?cs \<Longrightarrow> ?key c \<noteq> NaN" "c \<in> set ?cs"
    unfolding r by (rule min_by_least) (use that set in auto)
qed

text \<open>
  The estimate of three or more responses, most of which have totals in a small interval: a candidate's
  emissions, and no further from the median than the interval is wide when a candidate lies inside it.
\<close>

lemma distance_range:
  assumes "between (of_int a) (of_int b) x" "between (of_int a) (of_int b) y" "\<bar>a\<bar> \<le> 10 ^ 14" "\<bar>b\<bar> \<le> 10 ^ 14"
  shows "between 0 (of_int (b - a)) \<bar>x - y\<bar>"
proof -
  let ?d = "of_int (b - a) :: rat"
  have "\<bar>b - a\<bar> \<le> 10 ^ 15" "\<bar>a - b\<bar> \<le> 10 ^ 15" using assms(3,4) by auto
  note d = rnd_small_int(1,3) [OF this(1)] and m = rnd_small_int(1,3) [OF this(2)]
  have "between (of_int (a - b)) ?d (x - y)"
    by (rule between_diff [OF assms(1,2) _ _ m(1) d(1) m(2) d(2)]) simp_all
  then obtain r where "x - y = Fin r" "of_int (a - b) \<le> r" "r \<le> ?d" by (auto simp: between_iff)
  then show ?thesis by (auto simp: abs_flt_def flt_ops)
qed

lemma distance_not_NaN: "is_fin m \<Longrightarrow> x \<noteq> NaN \<Longrightarrow> \<bar>x - m\<bar> \<noteq> NaN"
  by (cases x; cases m) (auto simp: flt_ops flt_of_rat_def Let_def)

lemma consensus_estimate:
  fixes a b :: int
  assumes "selected_estimation rs = Inr est" "3 \<le> length rs" "NaN \<notin> set (map total_or_zero rs)"
    "length rs < 2 * length (filter (\<lambda>r. between (of_int a) (of_int b) (total_or_zero r)) rs)"
    "\<bar>a\<bar> \<le> 10 ^ 14" "\<bar>b\<bar> \<le> 10 ^ 14"
  defines "m \<equiv> median (map total_or_zero rs)"
  shows "between (of_int a) (of_int b) m \<and>
    (\<exists>r \<in> set (candidates rs). syn_emissions (fst (snd r)) = Some (et_emissions est) \<and>
       (\<forall>c \<in> set (candidates rs). \<bar>total_or_zero r - m\<bar> \<le> \<bar>total_or_zero c - m\<bar> \<and>
          (between (of_int a) (of_int b) (total_or_zero c) \<longrightarrow> \<bar>total_or_zero r - m\<bar> \<le> Fin (of_int (b - a)))))"
proof -
  let ?I = "between (of_int a) (of_int b)"
  have m: "?I m" unfolding m_def
    by (rule median_majority) (use assms(3-6) in \<open>auto simp: filter_map comp_def\<close>)
  have ne: "rs \<noteq> []" using assms(2) by auto
  obtain r where r: "select_by_consensus rs = Inr r" "syn_emissions (fst (snd r)) = Some (et_emissions est)"
    using assms(1,2) ne by (auto simp: selected_estimation_def bind_r_Inr_iff Let_def split: option.splits)
  note in_rs = subsetD [OF candidates_subset [of rs]]
  have nan: "\<bar>total_or_zero c - m\<bar> \<noteq> NaN" if "c \<in> set (candidates rs)" for c
    by (rule distance_not_NaN [OF between_is_fin [OF m]]) (use in_rs [OF that] assms(3) in force)
  note near = selected_candidate(3) [OF r(1) ne, folded m_def, OF nan]
  have "\<bar>total_or_zero r - m\<bar> \<le> Fin (of_int (b - a))"
    if c: "c \<in> set (candidates rs)" "?I (total_or_zero c)" for c
  proof -
    have "between 0 (of_int (b - a)) \<bar>total_or_zero c - m\<bar>" by (rule distance_range [OF c(2) m assms(5,6)])
    then obtain q where "\<bar>total_or_zero c - m\<bar> = Fin q" "q \<le> of_int (b - a)" by (auto simp: between_iff)
    then show ?thesis using near [OF _ c(1)] flt_le_trans [of "\<bar>total_or_zero r - m\<bar>" "Fin q" "Fin (of_int (b - a))"] by simp
  qed
  then show ?thesis using m r(2) selected_candidate(1) [OF r(1) ne] near by blast
qed

section \<open>The breakers\<close>

lemma miner_failure_run:
  "map_of (br_miners (miner_failure uid b)) uid = Some (n, t) \<Longrightarrow>
    n = fst (dict_get (br_miners b) uid (0, 0)) + 1 \<and> (per_miner_failure_threshold \<le> n \<longrightarrow> t = br_clock b)"
  by (auto simp: miner_failure_def monotonic_def Let_def split: prod.splits if_splits)

lemma miner_is_open_run:
  "miner_is_open uid b = (q, b') \<Longrightarrow> br_miners b' = br_miners b \<and> br_clock b \<le> br_clock b' \<and>
    (q \<longleftrightarrow> (case map_of (br_miners b) uid of None \<Rightarrow> False
       | Some (n, t) \<Rightarrow> per_miner_failure_threshold \<le> n \<and> br_clock b - t < per_miner_recovery_timeout))"
  by (auto simp: miner_is_open_def monotonic_def split: option.splits if_splits)

text \<open>Who is asked: those whose breaker is closed, or has been open for its timeout.\<close>

lemma open_axons_run:
  "open_axons uids b = (asked, b') \<Longrightarrow> br_miners b' = br_miners b \<and> br_clock b \<le> br_clock b' \<and>
    set asked \<subseteq> set uids \<and>
    (\<forall>uid \<in> set asked. \<forall>n t. map_of (br_miners b) uid = Some (n, t) \<longrightarrow>
       n < per_miner_failure_threshold \<or> t + per_miner_recovery_timeout \<le> br_clock b')"
proof (induction uids arbitrary: asked b b')
  case (Cons uid uids)
  obtain q b1 where 1: "miner_is_open uid b = (q, b1)" by fastforce
  obtain rest where 2: "open_axons uids b1 = (rest, b')" "asked = (if q then rest else uid # rest)"
    using Cons.prems 1 by (auto split: prod.splits)
  note m = miner_is_open_run [OF 1] and ih = Cons.IH [OF 2(1)]
  have "n < per_miner_failure_threshold \<or> t + per_miner_recovery_timeout \<le> br_clock b'"
    if "\<not> q" "map_of (br_miners b) uid = Some (n, t)" for n t
    using m ih that by auto
  then show ?case using m ih 2(2) by auto
qed simp

text \<open>The query leaves the breaker of the bridge alone.\<close>

lemma miner_steps [simp]:
  "br_failures (miner_success uid b) = br_failures b" "br_opened_at (miner_success uid b) = br_opened_at b"
  "br_failures (miner_failure uid b) = br_failures b" "br_opened_at (miner_failure uid b) = br_opened_at b"
  by (auto simp: miner_success_def miner_failure_def monotonic_def Let_def split: prod.splits)

lemma score_all_bridge:
  "score_all inds q industry rs b = (r, b') \<Longrightarrow> br_failures b' = br_failures b \<and> br_opened_at b' = br_opened_at b"
proof (induction inds q industry rs b arbitrary: r b' rule: score_all.induct)
  case (2 inds q industry uid resp rs b)
  then show ?case by (fastforce simp: Let_def split: if_splits sum.splits prod.splits)
qed simp

lemma open_axons_bridge: "open_axons uids b = (asked, b') \<Longrightarrow> br_failures b' = br_failures b \<and> br_opened_at b' = br_opened_at b"
proof (induction uids arbitrary: asked b b')
  case (Cons uid uids)
  then show ?case by (fastforce simp: miner_is_open_def monotonic_def split: prod.splits option.splits if_splits)
qed simp

lemma do_subnet_query_bridge:
  "do_subnet_query env questionnaire ctx b = (r, b') \<Longrightarrow> br_failures b' = br_failures b \<and> br_opened_at b' = br_opened_at b"
  by (auto simp: do_subnet_query_def Let_def split: if_splits prod.splits sum.splits dest!: open_axons_bridge score_all_bridge)

text \<open>The fifth failure in a row closes the bridge to everybody for its timeout.\<close>

lemma fifth_failure_opens:
  assumes "estimate_emissions env questionnaire ctx b = (Inl e, b1)" "is_runtime_error e" "br_failures b + 1 = global_failure_threshold"
    "t - br_clock b1 < global_recovery_timeout - 1"
  shows "estimate_emissions env' questionnaire' ctx' (b1\<lparr>br_clock := t\<rparr>) =
    (Inl (RuntimeError ''Circuit breaker open - subnet temporarily unavailable''), b1\<lparr>br_clock := t + 1\<rparr>)"
proof -
  have "global_is_open b = (False, b)" using assms(3) by (simp add: global_is_open_def)
  then obtain b2 where q: "do_subnet_query env questionnaire ctx b = (Inl e, b2)" "b1 = global_failure b2"
    using assms(1,2) by (auto simp: estimate_emissions_def split: prod.splits sum.splits)
  have "br_failures b2 = br_failures b" using do_subnet_query_bridge [OF q(1)] by simp
  then have "br_failures b1 = global_failure_threshold \<and> br_opened_at b1 = br_clock b1 - 1"
    using q(2) assms(3) by (simp add: global_failure_def monotonic_def Let_def)
  then show ?thesis using assms(4) by (simp add: estimate_emissions_def global_is_open_def monotonic_def)
qed

end
