(* ===== verification/Carbon.thy ===== *)
theory Carbon
imports Subnet_Bridge Sessions Subscriptions Webhooks
begin

text \<open>
  \<open>api/services/carbon.py\<close>: the creation of an estimate, paid and recorded in one transaction, and the
  reports made from it. Serialisers of the exports and of the PDF are parameters.
\<close>

section \<open>Queries\<close>

definition get_company_row :: "ident \<Rightarrow> db \<Rightarrow> company res" where
  "get_company_row c s = scalar_one (filter (\<lambda>r. co_id r = c \<and> co_deleted_at r = None) (companies s))"

definition live_reports :: "ident \<Rightarrow> db \<Rightarrow> emission_report list" where
  "live_reports c s = filter (\<lambda>r. er_company_id r = c \<and> er_deleted_at r = None) (emission_reports s)"

definition get_report :: "ident \<Rightarrow> ident \<Rightarrow> db \<Rightarrow> emission_report res" where
  "get_report report_id c s =
     bind_r (scalar_one_or_none (filter (\<lambda>r. er_id r = report_id) (live_reports c s))) (\<lambda>found.
     case found of None \<Rightarrow> Inl (ServiceError ''Report not found'' 404) | Some r \<Rightarrow> Inr r)"

definition find_upload :: "ident \<Rightarrow> ident \<Rightarrow> db \<Rightarrow> data_upload res" where
  "find_upload upload_id c s =
     bind_r (scalar_one_or_none (filter (\<lambda>u. du_id u = upload_id \<and> du_company_id u = c \<and> du_deleted_at u = None) (data_uploads s))) (\<lambda>found.
     case found of None \<Rightarrow> Inl (ServiceError ''Data upload not found'' 404) | Some u \<Rightarrow> Inr u)"

section \<open>The estimate\<close>

text \<open>The data of the upload, with the numbers of the company where they are missing.\<close>

definition enrich :: "string \<Rightarrow> flt option \<Rightarrow> pydict option \<Rightarrow> pydict option res" where
  "enrich k v data =
     (case v of
        None \<Rightarrow> Inr data
      | Some x \<Rightarrow>
          if feq x 0 then Inr data
          else case data of
            None \<Rightarrow> Inl AttributeError
          | Some d \<Rightarrow>
              Inr (Some (if \<not> (case map_of d k of None \<Rightarrow> False | Some w \<Rightarrow> truthy w) then dict_set k (PNum x) d else d)))"

definition make_questionnaire :: "company \<Rightarrow> data_upload \<Rightarrow> pydict res" where
  "make_questionnaire co upload =
     bind_r (enrich ''employee_count'' (map_option flt_of_int (co_employee_count co)) (du_provided_data upload)) (\<lambda>data.
     bind_r (enrich ''revenue_usd'' (co_revenue_usd co) data) (\<lambda>data.
     Inr [(''company'', PStr (co_name co)), (''industry'', PStr (co_industry co)), (''services_used'', PList []),
       (''provided_data'', case data of None \<Rightarrow> PNone | Some d \<Rightarrow> PDict d), (''region'', PStr (co_region co)),
       (''year'', PNum (flt_of_int (du_year upload)))]))"

record estimate_env =
  en_subnet_mode :: bool
  en_subnet :: subnet_env
  en_data :: emission_data
  en_web :: web_env

text \<open>A \<open>RuntimeError\<close> of the subnet falls back to the local estimate.\<close>

definition run_estimation :: "estimate_env \<Rightarrow> pydict \<Rightarrow> estimation brq" where
  "run_estimation env questionnaire b =
     (if en_subnet_mode env then
        case estimate_emissions (en_subnet env) questionnaire None b of
          (Inr est, b1) \<Rightarrow> (Inr est, b1)
        | (Inl e, b1) \<Rightarrow>
            (if is_runtime_error e then estimate_emissions_local (en_data env) questionnaire None else Inl e, b1)
      else (estimate_emissions_local (en_data env) questionnaire None, b))"

definition well_shaped :: "estimation \<Rightarrow> bool" where
  "well_shaped est \<longleftrightarrow> list_all (\<lambda>k. map_of (et_emissions est) k \<noteq> None) [''scope1'', ''scope2'', ''scope3'', ''total'']"

text \<open>
  A column of a float: \<open>None\<close> on a new row takes the default of the column, and the driver refuses what
  is not a number.
\<close>

fun float_column :: "pyval option \<Rightarrow> flt res" where
  "float_column None = Inr 0"
| "float_column (Some PNone) = Inr 0"
| "float_column (Some (PNum x)) = Inr x"
| "float_column (Some v) = Inl TypeError"

text \<open>The insert of a report with the check constraints of the table; for the database NaN is not negative.\<close>

definition insert_report :: "ident \<Rightarrow> data_upload \<Rightarrow> estimation \<Rightarrow> (db, emission_report) sres" where
  "insert_report c upload est =
     bind_s (lift_s (float_column (map_of (et_emissions est) ''scope1''))) (\<lambda>scope1.
     bind_s (lift_s (float_column (map_of (et_emissions est) ''scope2''))) (\<lambda>scope2.
     bind_s (lift_s (float_column (map_of (et_emissions est) ''scope3''))) (\<lambda>scope3.
     bind_s (lift_s (float_column (map_of (et_emissions est) ''total''))) (\<lambda>sum_all.
     bind_s new_id (\<lambda>i.
     bind_s utcnow (\<lambda>now.
     let confidence = (case et_confidence est of None \<Rightarrow> 0 | Some x \<Rightarrow> x);
         r = \<lparr>er_id = i, er_company_id = c, er_data_upload_id = Some (du_id upload), er_year = du_year upload,
              er_scope1 = scope1, er_scope2 = scope2, er_scope3 = scope3, er_total = sum_all,
              er_breakdown = et_breakdown est, er_confidence = confidence, er_sources = et_sources est,
              er_assumptions = et_assumptions est,
              er_methodology_version = (case et_methodology_version est of None \<Rightarrow> ''ghg_protocol_v2025'' | Some m \<Rightarrow> m),
              er_miner_scores = et_miner_scores est, er_notes = None, er_created_at = now, er_deleted_at = None\<rparr>
     in if scope1 < 0 \<or> scope2 < 0 \<or> scope3 < 0 \<or> \<not> (0 \<le> confidence \<and> confidence \<le> 1) then raise_s IntegrityError
        else bind_s (modify_s (\<lambda>s. s\<lparr>emission_reports := emission_reports s @ [r]\<rparr>)) (\<lambda>_. return_s r)))))))"

text \<open>Up to the commit: report, credits and audit entry.\<close>

definition store_estimate :: "ident \<Rightarrow> ident \<Rightarrow> data_upload \<Rightarrow> estimation \<Rightarrow> emission_report req" where
  "store_estimate c user_id upload est =
     (if \<not> well_shaped est then raise_q (ValueError ''Estimation returned malformed result - missing required emission fields'')
      else bind_q (serve (insert_report c upload est)) (\<lambda>r.
        bind_q (serve (deduct_operation_credits c ''estimate'')) (\<lambda>_.
        bind_q (serve (record_audit user_id c ''create'' ''emission_report'' (Some (er_id r)) None)) (\<lambda>_.
        bind_q commit (\<lambda>_.
        return_q r)))))"

text \<open>A dispatch of webhooks inside a request: it commits at its end.\<close>

definition dispatch :: "web_env \<Rightarrow> ident \<Rightarrow> string \<Rightarrow> pydict \<Rightarrow> unit req" where
  "dispatch env c event data = bind_q (serve (dispatch_event env c event data)) (\<lambda>_. commit)"

definition prior_confidence :: "emission_report \<Rightarrow> db \<Rightarrow> flt option res" where
  "prior_confidence r s =
     bind_r (scalar_one_or_none (take 1 (order_by_desc er_created_at
       (filter (\<lambda>p. er_year p = er_year r \<and> er_id p \<noteq> er_id r) (live_reports (er_company_id r) s))))) (\<lambda>found.
     Inr (map_option er_confidence found))"

definition announce_estimate :: "web_env \<Rightarrow> emission_report \<Rightarrow> unit req" where
  "announce_estimate env r =
     (let ref = [(''report_id'', PStr (str_nat (er_id r))), (''year'', PNum (flt_of_int (er_year r)))]
      in bind_q (dispatch env (er_company_id r) ''report.created'' (ref @ [(''total'', PNum (er_total r))])) (\<lambda>_.
         bind_q (dispatch env (er_company_id r) ''estimate.completed''
           (ref @ [(''total'', PNum (er_total r)), (''confidence'', PNum (er_confidence r))])) (\<lambda>_.
         bind_q (ask (prior_confidence r)) (\<lambda>prior.
         case prior of
           None \<Rightarrow> return_q ()
         | Some p \<Rightarrow>
             if p < er_confidence r then
               dispatch env (er_company_id r) ''confidence.improved''
                 (ref @ [(''old_confidence'', PNum (py_round p 4)), (''new_confidence'', PNum (py_round (er_confidence r) 4)),
                   (''improvement'', PNum (py_round (er_confidence r - p) 4))])
             else return_q ()))))"

definition create_estimate ::
    "estimate_env \<Rightarrow> ident \<Rightarrow> ident \<Rightarrow> ident \<Rightarrow> bridge \<Rightarrow> session \<Rightarrow> (emission_report res \<times> session) \<times> bridge" where
  "create_estimate env upload_id c user_id b ses =
     (case bind_q (ask (find_upload upload_id c)) (\<lambda>upload.
           bind_q (ask (get_company_row c)) (\<lambda>co.
           bind_q (ask (\<lambda>s. make_questionnaire co upload)) (\<lambda>questionnaire.
           return_q (upload, questionnaire)))) ses of
        (Inl e, ses1) \<Rightarrow> ((Inl e, ses1), b)
      | (Inr (upload, questionnaire), ses1) \<Rightarrow>
          (case run_estimation env questionnaire b of
             (Inl e, b1) \<Rightarrow> ((Inl e, ses1), b1)
           | (Inr est, b1) \<Rightarrow>
               (bind_q (store_estimate c user_id upload est) (\<lambda>r.
                bind_q (announce_estimate (en_web env) r) (\<lambda>_.
                return_q r)) ses1, b1)))"

section \<open>Reports\<close>

datatype report_sort = By_Created_At | By_Year | By_Total | By_Confidence

text \<open>The order of the database on floats: NaN above everything.\<close>

definition db_le :: "flt \<Rightarrow> flt \<Rightarrow> bool" where
  "db_le x y \<longleftrightarrow> y = NaN \<or> x \<le> y"

fun report_le :: "report_sort \<Rightarrow> emission_report \<Rightarrow> emission_report \<Rightarrow> bool" where
  "report_le By_Created_At r q = (er_created_at r \<le> er_created_at q)"
| "report_le By_Year r q = (er_year r \<le> er_year q)"
| "report_le By_Total r q = db_le (er_total r) (er_total q)"
| "report_le By_Confidence r q = db_le (er_confidence r) (er_confidence q)"

fun insert_by :: "('a \<Rightarrow> 'a \<Rightarrow> bool) \<Rightarrow> 'a \<Rightarrow> 'a list \<Rightarrow> 'a list" where
  "insert_by le x [] = [x]"
| "insert_by le x (y # ys) = (if le x y then x # y # ys else y # insert_by le x ys)"

definition sort_by :: "('a \<Rightarrow> 'a \<Rightarrow> bool) \<Rightarrow> 'a list \<Rightarrow> 'a list" where
  "sort_by le xs = foldr (insert_by le) xs []"

definition list_reports ::
    "ident \<Rightarrow> int option \<Rightarrow> flt option \<Rightarrow> report_sort \<Rightarrow> bool \<Rightarrow> nat \<Rightarrow> nat \<Rightarrow> db \<Rightarrow> emission_report list \<times> nat" where
  "list_reports c year confidence_min sort_col ascending limit offset s =
     (let rows = filter (\<lambda>r. (case year of None \<Rightarrow> True | Some y \<Rightarrow> er_year r = y) \<and>
            (case confidence_min of None \<Rightarrow> True | Some m \<Rightarrow> db_le m (er_confidence r))) (live_reports c s);
          le = (if ascending then report_le sort_col else (\<lambda>r q. report_le sort_col q r))
      in (paginate limit offset (sort_by le rows), length rows))"

text \<open>The fields of an update that were set.\<close>

record report_update =
  ru_year :: "int option option"
  ru_notes :: "string option option"

definition update_report :: "ident \<Rightarrow> ident \<Rightarrow> ident \<Rightarrow> report_update \<Rightarrow> emission_report req" where
  "update_report report_id c user_id body =
     bind_q (ask (get_report report_id c)) (\<lambda>r.
     if ru_year body = Some None then raise_q IntegrityError
     else
       let r' = r\<lparr>er_year := (case ru_year body of Some (Some y) \<Rightarrow> y | _ \<Rightarrow> er_year r),
                  er_notes := (case ru_notes body of Some n \<Rightarrow> n | None \<Rightarrow> er_notes r)\<rparr>
       in bind_q (serve (modify_s (\<lambda>s. s\<lparr>emission_reports := update_row er_id (er_id r) (\<lambda>_. r') (emission_reports s)\<rparr>))) (\<lambda>_.
          bind_q (serve (record_audit user_id c ''update'' ''emission_report'' (Some report_id) None)) (\<lambda>_.
          bind_q commit (\<lambda>_.
          return_q r'))))"

definition delete_report :: "ident \<Rightarrow> ident \<Rightarrow> ident \<Rightarrow> unit req" where
  "delete_report report_id c user_id =
     bind_q (ask (get_report report_id c)) (\<lambda>r.
     bind_q (serve utcnow) (\<lambda>now.
     bind_q (serve (modify_s (\<lambda>s. s\<lparr>emission_reports :=
       update_row er_id (er_id r) (\<lambda>r. r\<lparr>er_deleted_at := Some now\<rparr>) (emission_reports s)\<rparr>))) (\<lambda>_.
     bind_q (serve (record_audit user_id c ''delete'' ''emission_report'' (Some report_id) None)) (\<lambda>_.
     commit))))"

section \<open>Export\<close>

text \<open>A cell of a row: numbers and missing values are written as they are.\<close>

definition dangerous :: "char \<Rightarrow> bool" where
  "dangerous c \<longleftrightarrow> c \<in> {CHR ''='', CHR ''+'', CHR ''-'', CHR ''@'', CHR 0x09, CHR 0x0D}"

fun sanitize_csv :: "pyval \<Rightarrow> pyval" where
  "sanitize_csv (PStr s) = (case s of [] \<Rightarrow> PStr [] | ch # _ \<Rightarrow> if dangerous ch then PStr (CHR 0x27 # s) else PStr s)"
| "sanitize_csv v = v"

definition exported_reports :: "ident \<Rightarrow> int option \<Rightarrow> db \<Rightarrow> emission_report list" where
  "exported_reports c year s =
     sort_by (\<lambda>r q. er_year q \<le> er_year r)
       (filter (\<lambda>r. case year of None \<Rightarrow> True | Some y \<Rightarrow> er_year r = y) (live_reports c s))"

definition report_values :: "(timestamp \<Rightarrow> string) \<Rightarrow> emission_report \<Rightarrow> pydict" where
  "report_values isoformat r =
     [(''id'', PStr (str_nat (er_id r))), (''year'', PNum (flt_of_int (er_year r))), (''scope1'', PNum (er_scope1 r)),
      (''scope2'', PNum (er_scope2 r)), (''scope3'', PNum (er_scope3 r)), (''total'', PNum (er_total r)),
      (''confidence'', PNum (er_confidence r)), (''methodology_version'', PStr (er_methodology_version r)),
      (''created_at'', PStr (isoformat (er_created_at r)))]"

definition csv_header :: "pyval list" where
  "csv_header = map PStr [''id'', ''year'', ''scope1'', ''scope2'', ''scope3'', ''total'', ''confidence'', ''methodology_version'', ''created_at'']"

definition csv_row :: "(timestamp \<Rightarrow> string) \<Rightarrow> emission_report \<Rightarrow> pyval list" where
  "csv_row isoformat r =
     [sanitize_csv (PStr (str_nat (er_id r))), PNum (flt_of_int (er_year r)), PNum (er_scope1 r), PNum (er_scope2 r),
      PNum (er_scope3 r), PNum (er_total r), PNum (er_confidence r), sanitize_csv (PStr (er_methodology_version r)),
      PStr (isoformat (er_created_at r))]"

record export_env =
  ex_isoformat :: "timestamp \<Rightarrow> string"
  ex_csv :: "pyval list list \<Rightarrow> string"
  ex_json :: "pydict list \<Rightarrow> string"
  ex_parquet :: "(pydict list \<Rightarrow> string) option"

text \<open>The content, its type and its name; the parquet writer may be missing.\<close>

definition export_reports :: "export_env \<Rightarrow> ident \<Rightarrow> string \<Rightarrow> int option \<Rightarrow> db \<Rightarrow> (string \<times> string \<times> string) res" where
  "export_reports env c fmt year s =
     (let reports = exported_reports c year s
      in if fmt = ''json'' then
           Inr (ex_json env (map (report_values (ex_isoformat env)) reports), ''application/json'', ''reports.json'')
         else if fmt = ''parquet'' then
           (case ex_parquet env of
              None \<Rightarrow> Inl TypeError
            | Some write_table \<Rightarrow>
                Inr (write_table (map (report_values (ex_isoformat env)) reports), ''application/octet-stream'', ''reports.parquet''))
         else Inr (ex_csv env (csv_header # map (csv_row (ex_isoformat env)) reports), ''text/csv'', ''reports.csv''))"

definition export_report_pdf :: "(company \<Rightarrow> emission_report \<Rightarrow> string) \<Rightarrow> ident \<Rightarrow> ident \<Rightarrow> (string \<times> int) req" where
  "export_report_pdf generate report_id c =
     bind_q (ask (get_report report_id c)) (\<lambda>r.
     bind_q (ask (get_company_row c)) (\<lambda>co.
     bind_q (serve (deduct_operation_credits c ''pdf_export'')) (\<lambda>_.
     bind_q commit (\<lambda>_.
     return_q (generate co r, er_year r)))))"

section \<open>Dashboard\<close>

record dashboard =
  da_company :: company
  da_latest :: "emission_report option"
  da_reports_count :: nat
  da_uploads_count :: nat
  da_yoy :: "emission_report list"

text \<open>The latest report of each year, by year.\<close>

definition latest_of_year :: "emission_report list \<Rightarrow> int \<Rightarrow> emission_report" where
  "latest_of_year rows y = hd (order_by_desc er_created_at (filter (\<lambda>r. er_year r = y) rows))"

definition year_over_year :: "emission_report list \<Rightarrow> emission_report list" where
  "year_over_year rows = map (latest_of_year rows) (sorted_list_of_set (er_year ` set rows))"

definition get_dashboard :: "ident \<Rightarrow> db \<Rightarrow> dashboard res" where
  "get_dashboard c s =
     bind_r (get_company_row c s) (\<lambda>co.
     let rows = live_reports c s
     in bind_r (scalar_one_or_none (take 1 (order_by_desc er_created_at rows))) (\<lambda>latest.
        Inr \<lparr>da_company = co, da_latest = latest, da_reports_count = length rows,
          da_uploads_count = length (filter (\<lambda>u. du_company_id u = c \<and> du_deleted_at u = None) (data_uploads s)),
          da_yoy = year_over_year rows\<rparr>))"

end
