(* ===== verification/Carbon_Laws.thy ===== *)
theory Carbon_Laws
imports Carbon Webhooks Subscriptions
begin

text \<open>
  What creating an estimate does to the database: the report, its charge and its audit entry are stored
  together or not at all, and the announcements after that only add deliveries.
\<close>

section \<open>Announcements\<close>

text \<open>Two states that differ at most in the clock, the identifiers and the deliveries of webhooks.\<close>

definition only_hooks :: "db \<Rightarrow> db \<Rightarrow> bool" where
  "only_hooks s s' \<longleftrightarrow>
     s'\<lparr>db_now := 0, db_next_id := 0, webhook_deliveries := []\<rparr> = s\<lparr>db_now := 0, db_next_id := 0, webhook_deliveries := []\<rparr>"

lemma only_hooks_refl [simp]: "only_hooks s s"
  by (simp add: only_hooks_def)

lemma only_hooks_trans: "only_hooks s t \<Longrightarrow> only_hooks t u \<Longrightarrow> only_hooks s u"
  by (simp add: only_hooks_def)

lemma only_hooks_clock [simp]: "only_hooks s (s\<lparr>db_now := n\<rparr>)"
  by (simp add: only_hooks_def)

lemma only_hooks_tables:
  assumes "only_hooks s s'"
  shows "emission_reports s' = emission_reports s" "credit_ledger s' = credit_ledger s" "audit_logs s' = audit_logs s"
    "data_uploads s' = data_uploads s" "companies s' = companies s" "webhooks s' = webhooks s"
  using assms by (cases s; cases s'; simp add: only_hooks_def)+

lemma flush_all_hooks: "flush_all ds s = Inr (u, s') \<Longrightarrow> only_hooks s s'"
proof (induction ds arbitrary: s)
  case (Cons d ds)
  then obtain s1 where 1: "flush_delivery d s = Inr ((), s1)" "flush_all ds s1 = Inr (u, s')" by (auto simp: bind_s_Inr_iff)
  have "only_hooks s s1" using 1(1) by (auto simp: flush_delivery_def bind_s_Inr_iff only_hooks_def)
  then show ?case using Cons.IH [OF 1(2)] only_hooks_trans by blast
qed simp

lemma dispatch_all_hooks: "dispatch_all env c event data whs s = Inr (rs, s') \<Longrightarrow> only_hooks s s'"
proof (induction whs arbitrary: s rs)
  case (Cons wh whs)
  show ?case
  proof (cases "subscribed event wh")
    case True
    then obtain r s1 rs' where 1: "dispatch_one env c event data wh s = Inr (r, s1)"
      "dispatch_all env c event data whs s1 = Inr (rs', s')"
      using Cons.prems by (auto simp: bind_s_Inr_iff)
    obtain d q where "r = (d, q)" by fastforce
    then have "s1 = s\<lparr>db_now := db_now s + 1\<rparr>" using dispatch_one_run(6) 1(1) by simp
    then show ?thesis using Cons.IH [OF 1(2)] only_hooks_trans [of s s1 s'] by simp
  qed (use Cons in auto)
qed simp

lemma dispatch_event_hooks:
  assumes "dispatch_event env c event data s = Inr (results, s')"
  shows "only_hooks s s'"
proof -
  obtain rs s1 where 1: "dispatch_all env c event data (fst (list_webhooks c None None s)) s = Inr (rs, s1)"
    "flush_all (map fst rs) s1 = Inr ((), s')"
    using assms by (auto simp: dispatch_event_def bind_s_Inr_iff)
  show ?thesis by (rule only_hooks_trans [OF dispatch_all_hooks [OF 1(1)] flush_all_hooks [OF 1(2)]])
qed

text \<open>A session between two commits that only announces.\<close>

definition announcing :: "'a req \<Rightarrow> bool" where
  "announcing m \<longleftrightarrow> (\<forall>ses :: session. ses_saved ses = ses_db ses \<longrightarrow>
     only_hooks (ses_saved ses) (ses_saved (snd (m ses))) \<and> ses_saved (snd (m ses)) = ses_db (snd (m ses)))"

lemma announcing_return: "announcing (return_q x)"
  by (simp add: announcing_def)

lemma announcing_ask: "announcing (ask f)"
  by (auto simp: announcing_def ask_def serve_def split: sum.split)

lemma announcing_bind:
  assumes "announcing m" "\<And>x. announcing (f x)"
  shows "announcing (bind_q m f)"
  unfolding announcing_def
proof (intro allI impI)
  fix ses :: session assume "ses_saved ses = ses_db ses"
  with assms(1) have 1: "only_hooks (ses_saved ses) (ses_saved (snd (m ses)))" "ses_saved (snd (m ses)) = ses_db (snd (m ses))"
    unfolding announcing_def by blast+
  show "only_hooks (ses_saved ses) (ses_saved (snd (bind_q m f ses))) \<and> ses_saved (snd (bind_q m f ses)) = ses_db (snd (bind_q m f ses))"
  proof (cases "m ses")
    case (Pair r ses1)
    show ?thesis
    proof (cases r)
      case (Inl e) then show ?thesis using Pair 1 by simp
    next
      case (Inr x)
      then show ?thesis using Pair 1 assms(2) [of x] only_hooks_trans by (fastforce simp: announcing_def)
    qed
  qed
qed

lemma announcing_if: "announcing x \<Longrightarrow> announcing y \<Longrightarrow> announcing (if b then x else y)"
  by simp

lemma announcing_dispatch: "announcing (dispatch env c event data)"
  unfolding announcing_def
proof (intro allI impI)
  fix ses :: session assume eq: "ses_saved ses = ses_db ses"
  show "only_hooks (ses_saved ses) (ses_saved (snd (dispatch env c event data ses))) \<and>
    ses_saved (snd (dispatch env c event data ses)) = ses_db (snd (dispatch env c event data ses))"
  proof (cases "dispatch_event env c event data (ses_db ses)")
    case (Inl e) then show ?thesis using eq by (simp add: dispatch_def)
  next
    case (Inr r)
    obtain results s' where "r = (results, s')" by fastforce
    then show ?thesis using Inr eq dispatch_event_hooks by (simp add: dispatch_def)
  qed
qed

lemma announcing_estimate: "announcing (announce_estimate env r)"
  unfolding announce_estimate_def Let_def
  by (intro announcing_bind announcing_dispatch announcing_ask) (auto split: option.split intro: announcing_dispatch announcing_return)

section \<open>The booking of an estimate\<close>

text \<open>Exactly one report, one charge of ten credits and one audit entry that names the report.\<close>

definition booked :: "ident \<Rightarrow> ident \<Rightarrow> emission_report \<Rightarrow> db \<Rightarrow> db \<Rightarrow> bool" where
  "booked c user_id r s s' \<longleftrightarrow> er_company_id r = c \<and> emission_reports s' = emission_reports s @ [r] \<and>
     (\<exists>e. credit_ledger s' = credit_ledger s @ [e] \<and> cl_company_id e = c \<and> cl_amount e = - 10 \<and>
        cl_balance_after e = balance_of s c - 10 \<and> 10 \<le> balance_of s c) \<and>
     (\<exists>a. audit_logs s' = audit_logs s @ [a] \<and> au_user_id a = Some user_id \<and> au_company_id a = Some c \<and>
        au_action a = ''create'' \<and> au_resource_id a = Some (er_id r))"

definition unbooked :: "db \<Rightarrow> db \<Rightarrow> bool" where
  "unbooked s s' \<longleftrightarrow> emission_reports s' = emission_reports s \<and> credit_ledger s' = credit_ledger s \<and> audit_logs s' = audit_logs s"

lemma insert_report_run:
  assumes "insert_report c upload est s = Inr (r, s')"
  shows "er_company_id r = c" "er_year r = du_year upload" "er_data_upload_id r = Some (du_id upload)"
    "s' = s\<lparr>db_now := db_now s + 1, db_next_id := Suc (db_next_id s), emission_reports := emission_reports s @ [r]\<rparr>"
  using assms by (auto simp: insert_report_def bind_s_Inr_iff Let_def split: if_splits)

lemma estimate_charge_run:
  assumes "deduct_operation_credits c ''estimate'' s = Inr (u, s')" "ledger_ok s"
  shows "\<exists>e. s' = s\<lparr>db_now := db_now s + 1, db_next_id := Suc (db_next_id s), credit_ledger := credit_ledger s @ [e]\<rparr> \<and>
    cl_company_id e = c \<and> cl_amount e = - 10 \<and> cl_balance_after e = balance_of s c - 10 \<and> 10 \<le> balance_of s c"
  using assms(1) get_balance_refines(2) [OF assms(2)]
  by (intro exI [of _ "last (credit_ledger s')"])
    (auto simp: deduct_operation_credits_def operation_cost_def dict_get_def credit_costs_def bind_s_Inr_iff
      deduct_credits_def insert_entry_def Let_def split: if_splits)

lemma store_estimate_run:
  assumes "store_estimate c user_id upload est ses = (x, ses')" "ledger_ok (ses_db ses)"
  shows "(\<exists>e. x = Inl e \<and> ses_saved ses' = ses_saved ses) \<or>
    (\<exists>r. x = Inr r \<and> ses_saved ses' = ses_db ses' \<and> booked c user_id r (ses_db ses) (ses_db ses'))"
proof (cases x)
  case (Inl e)
  then show ?thesis using assms(1)
    by (auto simp: store_estimate_def bind_q_def serve_def split: if_splits sum.splits prod.splits)
next
  case (Inr r)
  then obtain s1 s2 where 1: "insert_report c upload est (ses_db ses) = Inr (r, s1)"
    "deduct_operation_credits c ''estimate'' s1 = Inr ((), s2)"
    and ses': "ses_saved ses' = ses_db ses'" "\<exists>s3. record_audit user_id c ''create'' ''emission_report'' (Some (er_id r)) None s2 = Inr ((), s3) \<and> ses_db ses' = s3"
    using assms(1) by (auto simp: store_estimate_def bind_q_Inr_iff serve_Inr_iff simp del: record_audit_run split: if_splits)
  note i = insert_report_run [OF 1(1)]
  have "balance_of s1 c = balance_of (ses_db ses) c" "ledger_ok s1"
    using assms(2) by (auto simp: i(4) balance_of_def ledger_ok_def company_ledger_def list_all_iff less_imp_le)
  then show ?thesis using estimate_charge_run [OF 1(2)] ses' i(1) Inr by (auto simp: booked_def i(4))
qed

lemma store_estimate_webhooks:
  assumes "store_estimate c user_id upload est ses = (Inr r, ses')"
  shows "webhooks (ses_db ses') = webhooks (ses_db ses)"
  using assms
  by (auto simp: store_estimate_def bind_q_Inr_iff serve_Inr_iff deduct_operation_credits_def operation_cost_def dict_get_def
      credit_costs_def bind_s_Inr_iff deduct_credits_def insert_entry_def get_balance_for_update_def Let_def
      dest!: insert_report_run(4) split: if_splits)

lemma booked_hooks: "booked c user_id r s t \<Longrightarrow> only_hooks t t' \<Longrightarrow> booked c user_id r s t'"
  by (simp add: booked_def only_hooks_tables)

lemma query_saved: "ask f ses = (x, ses') \<Longrightarrow> ses' = ses"
  by (auto simp: ask_def serve_def split: sum.splits)

text \<open>What a request does before it books: nothing.\<close>

lemma create_estimate_cases:
  assumes "create_estimate env upload_id c user_id b ses = ((x, ses'), b')"
  obtains (refused) e where "x = Inl e" "ses' = ses"
  | (booking) upload est where "bind_q (store_estimate c user_id upload est) (\<lambda>r. bind_q (announce_estimate (en_web env) r) (\<lambda>_.
      return_q r)) ses = (x, ses')"
proof -
  let ?prepare = "bind_q (ask (find_upload upload_id c)) (\<lambda>upload. bind_q (ask (get_company_row c)) (\<lambda>co.
    bind_q (ask (\<lambda>s. make_questionnaire co upload)) (\<lambda>questionnaire. return_q (upload, questionnaire))))"
  obtain p ses1 where p: "?prepare ses = (p, ses1)" by fastforce
  have eq: "ses1 = ses" using p by (elim bind_q_cases) (auto dest!: query_saved)
  show thesis
    using assms p [unfolded eq] refused booking by (auto simp: create_estimate_def split: sum.splits prod.splits)
qed

text \<open>Whatever happens, the three tables go together, and a report that is returned is the stored one.\<close>

lemma create_estimate_run:
  assumes "create_estimate env upload_id c user_id b ses = ((x, ses'), b')" "ses_saved ses = ses_db ses" "ledger_ok (ses_db ses)"
  shows "(\<exists>e. x = Inl e \<and> ses_saved ses' = ses_saved ses) \<or>
    (\<exists>r. booked c user_id r (ses_saved ses) (ses_saved ses') \<and> (\<forall>q. x = Inr q \<longrightarrow> q = r))"
  using assms(1)
proof (cases rule: create_estimate_cases)
  case (booking upload est)
  obtain y ses2 where y: "store_estimate c user_id upload est ses = (y, ses2)" by fastforce
  from store_estimate_run [OF y assms(3)] show ?thesis
  proof (elim disjE exE conjE)
    fix r assume r: "y = Inr r" "ses_saved ses2 = ses_db ses2" "booked c user_id r (ses_db ses) (ses_db ses2)"
    obtain z ses3 where z: "announce_estimate (en_web env) r ses2 = (z, ses3)" by fastforce
    have "only_hooks (ses_saved ses2) (ses_saved ses3)"
      using announcing_estimate [of "en_web env" r] r(2) z unfolding announcing_def by (metis snd_conv)
    then have "booked c user_id r (ses_saved ses) (ses_saved ses3)" using r booked_hooks assms(2) by metis
    moreover have "ses' = ses3 \<and> (\<forall>q. x = Inr q \<longrightarrow> q = r)"
      using booking y r(1) z by (cases z) auto
    ultimately show ?thesis by blast
  qed (use booking y in auto)
qed auto

text \<open>A webhook that fails makes the request fail although everything is booked.\<close>

lemma announce_fails:
  assumes "\<And>t rq. handled (env_post env t rq)" "wh \<in> set (webhooks (ses_db ses))" "wh_company_id wh = er_company_id r"
    "wh_deleted_at wh = None" "subscribed ''report.created'' wh" "\<And>t rq. rq_url rq = wh_url wh \<Longrightarrow> failing (env_post env t rq)"
  shows "announce_estimate env r ses = (Inl TypeError, ses)"
proof -
  have "dispatch env (er_company_id r) ''report.created'' data ses = (Inl TypeError, ses)" for data
    using one_failure_loses_all [of env wh "ses_db ses", OF assms(1,2) refl assms(4-6)] unfolding assms(3)
    by (simp add: dispatch_def)
  then show ?thesis by (simp add: announce_estimate_def Let_def)
qed

lemma failing_webhook_run:
  assumes "create_estimate env upload_id c user_id b ses = ((x, ses'), b')" "ses_saved ses = ses_db ses" "ledger_ok (ses_db ses)"
    "\<And>t rq. handled (env_post (en_web env) t rq)" "wh \<in> set (webhooks (ses_db ses))" "wh_company_id wh = c"
    "wh_deleted_at wh = None" "subscribed ''report.created'' wh" "\<And>t rq. rq_url rq = wh_url wh \<Longrightarrow> failing (env_post (en_web env) t rq)"
  shows "(\<exists>e. x = Inl e \<and> ses_saved ses' = ses_saved ses) \<or> x = Inl TypeError \<and> (\<exists>r. booked c user_id r (ses_saved ses) (ses_saved ses'))"
  using assms(1)
proof (cases rule: create_estimate_cases)
  case (booking upload est)
  obtain y ses2 where y: "store_estimate c user_id upload est ses = (y, ses2)" by fastforce
  from store_estimate_run [OF y assms(3)] show ?thesis
  proof (elim disjE exE conjE)
    fix r assume r: "y = Inr r" "ses_saved ses2 = ses_db ses2" "booked c user_id r (ses_db ses) (ses_db ses2)"
    have "webhooks (ses_db ses2) = webhooks (ses_db ses)" using y r(1) store_estimate_webhooks by blast
    then have "announce_estimate (en_web env) r ses2 = (Inl TypeError, ses2)"
      using assms(4-9) r(3) by (intro announce_fails [where wh = wh]) (simp_all add: booked_def)
    then show ?thesis using booking y r assms(2) by auto
  qed (use booking y in auto)
qed auto

end
