(* ===== verification/Samples.thy ===== *)
theory Samples
imports Miner_Laws Validator_Laws Rate_Limiter Loader Score_Store Marketplace Reviews Supply_Chain Alerts Benchmarks Pcaf Webhooks Subscriptions Factor_Laws Token_Laws Team Gdpr Second_Factor Bridge_Laws Carbon_Laws
begin

text \<open>
  Concrete inputs of the subnet side on which the properties are applied: a small set of emission
  factors, a questionnaire, a validator configuration and a run of the rate limiter.
\<close>

definition sample_profile :: industry_profile where
  "sample_profile = \<lparr>typical_scope_split = [(''scope1_pct'', Fin (1/4)), (''scope2_pct'', Fin (1/4)), (''scope3_pct'', Fin (1/2))],
     spend_factor_kgco2e_per_1000usd = Some (Fin 4), avg_tco2e_per_million_usd_revenue = Some (Fin 8),
     avg_tco2e_per_employee = None, scope3_materiality = [(''cat1_purchased_goods'', Fin (3/4)), (''cat5_waste'', Fin (1/4))]\<rparr>"

definition sample_data :: emission_data where
  "sample_data = \<lparr>fuels = [(''diesel'', Fin 2)],
     vehicle_types = [(''heavy_truck_diesel'', \<lparr>vt_fuel_type = Some ''diesel'', kgco2e_per_km = Fin 1\<rparr>)],
     subregions = [(''RFCE'', Fin 300)], state_to_subregion = [(''PA'', ''RFCE'')], countries = [(''FR'', Fin 50)],
     regional_averages = [], global_average = Fin 400, freight = [(''road'', [(''kgco2e_per_ton_km'', PNum (Fin (1/8)))])],
     industries = [(''manufacturing'', sample_profile)], business_travel_averages = [], commuting_averages = [],
     gwp_100yr = [(''CO2'', 1)], common_refrigerants = []\<rparr>"

definition sample_pydantic :: pydantic where
  "sample_pydantic = \<lparr>
     pyd_float = (\<lambda>hi v. case v of PNum x \<Rightarrow> if 0 \<le> x \<and> x \<le> Fin hi then Some x else None | _ \<Rightarrow> None),
     pyd_int = (\<lambda>lo hi v. case v of PNum (Fin q) \<Rightarrow> if of_int lo \<le> q \<and> q \<le> of_int hi then Some \<lfloor>q\<rfloor> else None | _ \<Rightarrow> None)\<rparr>"

definition sample_request :: carbon_synapse where
  "sample_request = query_synapse \<lparr>tc_questionnaire =
     [(''company'', PStr ''acme''), (''region'', PStr ''FR''), (''provided_data'', PDict [(''electricity_kwh'', PNum (Fin 1000))])],
     tc_context = [], tc_ground_truth = None\<rparr>"

definition sample_config :: validator_config where
  "sample_config = \<lparr>ema_alpha = Fin (1/8), query_interval = 60, circuit_breaker_max_failures = 3,
     circuit_breaker_base_backoff = 2, circuit_breaker_max_backoff = 60, skip_zero_after = 10\<rparr>"

definition sample_validator :: validator where
  "sample_validator = init_validator sample_config [(0, Fin (1/2)), (1, Fin (1/4))]"

definition sample_round :: round_env where
  "sample_round = \<lparr>env_permit = [False, False], env_active = [True, True], env_n = 2, env_sample = (\<lambda>xs k. take k xs),
     env_draw = 1, env_synthetic = \<lparr>tc_questionnaire = [], tc_context = [], tc_ground_truth = None\<rparr>,
     env_attempt = (\<lambda>uids syn k. Some (map (\<lambda>_. \<lparr>is_success = True, resp = sample_request\<rparr>) uids)),
     env_jitter = (\<lambda>_. 0), env_chain = Some (100, 10), env_submit = (\<lambda>_ _ _. Some 100)\<rparr>"

definition sample_limits :: limiter_config where
  "sample_limits = \<lparr>rate_limit_max = 2, rate_limit_window = 60\<rparr>"

definition sample_graph :: metagraph where
  "sample_graph = \<lparr>hotkeys = [''v''], validator_permit = [True]\<rparr>"

lemma sample_complete: "datasets_complete sample_data"
  by (simp add: datasets_complete_def sample_data_def sample_profile_def)

lemma sample_grid: "grid_ok sample_data"
  by (simp add: grid_ok_def nonneg_table_def sample_data_def flt_0_1)

lemma sample_scores: "scores_ok sample_validator"
  by (simp add: scores_ok_def sample_validator_def init_validator_def)

lemma sample_limiter_run: "limiter_run sample_limits sample_graph [(''v'', 0), (''v'', 1)] 1 [(''v'', [0, 1])]"
proof -
  have 0: "limiter_run sample_limits sample_graph [] 0 []" by (rule limiter_run.start)
  have "blacklist sample_limits sample_graph ''v'' 0 [] = Inr ((False, ''''), [(''v'', [0])])"
    by (simp add: blacklist_def sample_graph_def sample_limits_def list_item_def rate_limit_def touch_def Let_def dict_get_def)
  from limiter_run.accepted [OF 0 order_refl this] have 1: "limiter_run sample_limits sample_graph [(''v'', 0)] 0 [(''v'', [0])]"
    by simp
  have "blacklist sample_limits sample_graph ''v'' 1 [(''v'', [0])] = Inr ((False, ''''), [(''v'', [0, 1])])"
    by (simp add: blacklist_def sample_graph_def sample_limits_def list_item_def rate_limit_def touch_def Let_def dict_get_def dict_del_def)
  from limiter_run.accepted [OF 1 _ this] show ?thesis by simp
qed

text \<open>When every attempt fails, the failures in a row go on.\<close>

lemma failures_go_on: "\<exists>v' pause. failed_queries cfg n v v' pause"
proof (induction n)
  case (Suc n)
  then obtain v1 pause where 1: "failed_queries cfg n v v1 pause" by blast
  have "\<exists>p v2. query_miners cfg (\<lambda>k. None :: response list option) (\<lambda>k. 0) v1 = (None, [1/2, 1, 2] @ [p], v2)"
    by (cases "circuit_breaker_max_failures cfg \<le> v_consecutive_failures v1 + 1")
      (simp_all add: query_miners_def Let_def del: append.simps)
  then obtain p v2 where "query_miners cfg (\<lambda>k. None :: response list option) (\<lambda>k. 0) v1 = (None, [1/2, 1, 2] @ [p], v2)"
    by blast
  from failed_queries.more [OF 1 this] show ?case by blast
qed (blast intro: failed_queries.none)

section \<open>The platform\<close>

text \<open>
  A small database on which the properties of the services are applied: two companies, a seller and a
  buyer with credits, one listing, a supply chain link, a subscription and a webhook.
\<close>

definition sample_entry :: credit_entry where
  "sample_entry = \<lparr>cl_id = 5, cl_company_id = 2, cl_amount = 500, cl_reason = Manual_Grant, cl_balance_after = 500, cl_created_at = 3\<rparr>"

definition sample_subscription :: subscription where
  "sample_subscription = \<lparr>sub_id = 6, sub_company_id = 2, sub_plan = Free, sub_status = Sub_Active,
     sub_stripe_customer_id = None, sub_stripe_subscription_id = None, sub_created_at = 2, sub_deleted_at = None\<rparr>"

definition sample_listing :: data_listing where
  "sample_listing = \<lparr>dl_id = 7, dl_seller_company_id = 1, dl_title = ''steel'', dl_description = None,
     dl_data_type = Listing_Emission_Report, dl_industry = ''manufacturing'', dl_region = ''FR'', dl_year = 2025,
     dl_price_credits = 200, dl_anonymized_data = [], dl_status = Listing_Active, dl_created_at = 4, dl_deleted_at = None\<rparr>"

definition sample_link :: supply_chain_link where
  "sample_link = \<lparr>scl_id = 8, scl_buyer_company_id = 1, scl_supplier_company_id = 2, scl_spend_usd = Some (Fin 1000),
     scl_category = ''purchased_goods'', scl_status = Link_Verified, scl_notes = None, scl_created_at = 5, scl_deleted_at = None\<rparr>"

definition sample_webhook :: webhook where
  "sample_webhook = \<lparr>wh_id = 9, wh_company_id = 1, wh_url = ''https://hooks.example/in'', wh_event_types = [''report.created''],
     wh_secret = ''s'', wh_active = True, wh_created_at = 6, wh_deleted_at = None\<rparr>"

definition sample_delivery :: webhook_delivery where
  "sample_delivery = \<lparr>wd_id = 10, wd_webhook_id = 9, wd_event_type = ''report.created'', wd_payload = [],
     wd_status_code = Some 500, wd_response_body = None, wd_success = False, wd_error = None, wd_retry_count = 3,
     wd_max_retries = 3, wd_next_retry_at = None, wd_created_at = 7\<rparr>"

definition sample_review :: data_review where
  "sample_review = \<lparr>dr_id = 11, dr_report_id = 12, dr_company_id = 1, dr_status = Draft, dr_submitted_by = None,
     dr_reviewed_by = None, dr_submitted_at = None, dr_reviewed_at = None, dr_review_notes = None, dr_created_at = 8\<rparr>"

definition sample_report :: emission_report where
  "sample_report = \<lparr>er_id = 12, er_company_id = 2, er_data_upload_id = None, er_year = 2025, er_scope1 = Fin 10, er_scope2 = Fin 20,
     er_scope3 = Fin 30, er_total = Fin 60, er_breakdown = None, er_confidence = Fin (1/2), er_sources = None,
     er_assumptions = None, er_methodology_version = ''v'', er_miner_scores = None, er_notes = None,
     er_created_at = 8, er_deleted_at = None\<rparr>"

definition sample_db :: db where
  "sample_db = empty_db\<lparr>db_now := 20, db_next_id := 20, credit_ledger := [sample_entry], subscriptions := [sample_subscription],
     data_listings := [sample_listing], supply_chain_links := [sample_link], webhooks := [sample_webhook],
     webhook_deliveries := [sample_delivery], data_reviews := [sample_review], emission_reports := [sample_report]\<rparr>"

text \<open>A client that never gets an answer, and draws no jitter.\<close>

definition sample_web :: web_env where
  "sample_web = \<lparr>env_post = (\<lambda>_ _. Request_Failed ''timeout''), env_uniform = (\<lambda>_. 0), env_dumps = (\<lambda>_. ''{}''),
     env_hmac = (\<lambda>k m. k @ m), env_token = (\<lambda>i. ''token'')\<rparr>"

lemmas sample_rows = sample_entry_def sample_subscription_def sample_listing_def sample_link_def sample_webhook_def
  sample_delivery_def sample_review_def sample_report_def

lemma sample_ledger: "ledger_ok sample_db"
  by (auto simp: ledger_ok_def sample_db_def company_ledger_def sample_rows)

lemma sample_balance: "balance_of sample_db c = (if c = 2 then 500 else 0)"
  by (simp add: balance_of_def sample_db_def company_ledger_def sample_rows)

lemma sample_subscriptions: "subscriptions_ok sample_db" "active_subscriptions 2 sample_db = [sample_subscription]"
  by (simp_all add: subscriptions_ok_def active_subscriptions_def sample_db_def sample_rows)

lemma sample_market: "market_ok sample_db"
  using sample_ledger by (simp add: market_ok_def) (simp add: sample_db_def empty_db_def)

lemma sample_links: "links_ok sample_db"
  by (simp add: links_ok_def sample_db_def sample_rows)

lemma sample_reviews: "reviews_ok sample_db"
  by (auto simp: reviews_ok_def sample_db_def sample_review_def intro!: review_reachable.created)

lemma sample_reports: "reports_ok sample_db"
  by (simp add: reports_ok_def sample_db_def)

lemma sample_deliveries: "deliveries_ok sample_db"
  by (simp add: deliveries_ok_def delivery_ok_def sample_db_def sample_rows)

lemma sample_find_listing: "find_listing 7 sample_db = Inr (Some sample_listing)"
  by (simp add: find_listing_def is_active_listing_def sample_db_def sample_rows)

lemma sample_no_purchases: "purchases_of 7 b sample_db = []"
  by (simp add: purchases_of_def sample_db_def empty_db_def)

lemma sample_find_link: "find_link 8 1 sample_db = Inr (Some sample_link)"
  by (simp add: find_link_def live_links_def sample_db_def sample_rows)

lemma sample_jitter: "jitter_ok sample_web"
  by (simp add: jitter_ok_def sample_web_def)

section \<open>Access\<close>

text \<open>
  A small company with an admin, a member and a former member of another company, and an environment of
  digests and tokens in which both the laws of the JWT library and those of the random source hold.
\<close>

definition sample_auth_config :: auth_config where
  "sample_auth_config = \<lparr>access_token_expire_minutes = 60, mfa_pending_token_expire_minutes = 5, max_failed_login_attempts = 5,
     account_lockout_minutes = 15, cookie_secure = True, google_client_id = ''client''\<rparr>"

definition admin_claims :: jwt_claims where
  "admin_claims = \<lparr>jc_sub = Some 1, jc_company_id = 10, jc_exp = 99, jc_type = Some ''access'', jc_jti = Some ''j'', jc_iss = jwt_issuer\<rparr>"

definition pending_claims :: jwt_claims where
  "pending_claims = \<lparr>jc_sub = Some 1, jc_company_id = 10, jc_exp = 99, jc_type = Some ''mfa_pending'', jc_jti = Some ''p'', jc_iss = jwt_issuer\<rparr>"

definition sample_encode :: "jwt_claims \<Rightarrow> string" where
  "sample_encode c = (if c = admin_claims then ''a'' else if c = pending_claims then ''p'' else ''other'')"

definition sample_decode :: "timestamp \<Rightarrow> string \<Rightarrow> jwt_claims res" where
  "sample_decode now t = (if t = ''a'' then Inr admin_claims else if t = ''p'' then Inr pending_claims else Inl PyJWTError)"

definition sample_auth :: auth_env where
  "sample_auth = \<lparr>ae_config = sample_auth_config, ae_sha256 = (\<lambda>t. CHR ''h'' # t), ae_token = (\<lambda>k. replicate (Suc k) (CHR ''x'')),
     ae_bcrypt = (\<lambda>salt p. p), ae_bcrypt_verify = (\<lambda>p h. p = h), ae_jwt_encode = sample_encode, ae_jwt_decode = sample_decode\<rparr>"

definition sample_user :: "ident \<Rightarrow> string \<Rightarrow> ident \<Rightarrow> user_role \<Rightarrow> timestamp option \<Rightarrow> user" where
  "sample_user i email c role deleted = \<lparr>us_id = i, us_email = email, us_hashed_password = ''secret'', us_full_name = ''N'',
     us_company_id = c, us_role = role, us_is_active = deleted = None, us_deleted_at = deleted, us_last_login = None,
     us_failed_login_attempts = 0, us_locked_until = None, us_created_at = 0\<rparr>"

definition sample_admin :: user where
  "sample_admin = sample_user 1 ''admin'' 10 Admin None"

definition former_user :: user where
  "former_user = sample_user 3 ''gone'' 20 Admin (Some 2)"

definition sample_secret :: mfa_secret where
  "sample_secret = \<lparr>mf_id = 30, mf_user_id = 1, mf_totp_secret = ''enc'', mf_is_enabled = True, mf_backup_codes = None, mf_created_at = 0\<rparr>"

definition sample_invitation :: invitation where
  "sample_invitation = \<lparr>iv_id = 31, iv_company_id = 10, iv_email = ''new'', iv_role = Member, iv_invited_by = 1, iv_token_hash = ''hinvite'',
     iv_expires_at = 1000, iv_accepted_at = None, iv_created_at = 0\<rparr>"

definition access_db :: db where
  "access_db = empty_db\<lparr>db_now := 100, db_next_id := 100,
     users := [sample_admin, sample_user 2 ''member'' 10 Member None, former_user],
     mfa_secrets := [sample_secret], invitations := [sample_invitation]\<rparr>"

text \<open>A request with the token of the admin in its header.\<close>

definition admin_request_in :: http_in where
  "admin_request_in = \<lparr>hi_method = ''POST'', hi_bearer = Some ''a'', hi_authorization = ''Bearer a'', hi_csrf_header = [], hi_cookies = []\<rparr>"

definition pending_request_in :: http_in where
  "pending_request_in = admin_request_in\<lparr>hi_bearer := Some ''p'', hi_authorization := ''Bearer p''\<rparr>"

definition sample_google :: google_info where
  "sample_google = \<lparr>gi_aud = ''client'', gi_email = ''admin'', gi_email_verified = ''true'', gi_name = ''N''\<rparr>"

lemmas access_sample_defs = sample_auth_def sample_auth_config_def access_db_def sample_user_def sample_admin_def
  former_user_def sample_secret_def sample_invitation_def empty_db_def

lemma admin_token: "request_token admin_request_in = (''a'', False)" "request_token pending_request_in = (''p'', False)"
  "logout_token admin_request_in = ''a''"
  by (simp_all add: request_token_def admin_request_in_def pending_request_in_def logout_token_def)

lemma sample_decodes [simp]: "ae_jwt_decode sample_auth t ''a'' = Inr admin_claims" "ae_jwt_decode sample_auth t ''p'' = Inr pending_claims"
  by (simp_all add: sample_auth_def sample_decode_def)

lemma sample_faithful: "jwt_faithful sample_auth"
  by (simp add: jwt_faithful_def sample_auth_def sample_encode_def sample_decode_def admin_claims_def pending_claims_def)

lemma sample_rows_of_db: "is_token_revoked ''j'' access_db = Inr False" "live_user 1 access_db = Inr sample_admin"
  "live_user 1 (access_db\<lparr>db_now := t\<rparr>) = Inr sample_admin"
  "us_is_active sample_admin" "us_id sample_admin = 1" "us_role sample_admin = Admin" "us_company_id sample_admin = 10"
  "db_now access_db = 100" "db_next_id access_db = 100"
  by (simp_all add: is_token_revoked_def live_user_def access_sample_defs)

lemma sample_admin_request: "get_current_user sample_auth admin_request_in access_db = Inr (sample_admin, access_db\<lparr>db_now := 101\<rparr>)"
  by (simp add: get_current_user_def admin_token decode_or_401_def decode_access_token_def admin_claims_def sample_rows_of_db
      bind_s_def del: One_nat_def)

text \<open>A second factor whose code is always six zeros.\<close>

definition sample_mfa :: mfa_env where
  "sample_mfa = \<lparr>me_hmac_sha1 = (\<lambda>k m. replicate 20 0), me_encrypt = id, me_decrypt = (\<lambda>t. Inr ''AAAAAAAA''),
     me_random = (\<lambda>k n. replicate n 0)\<rparr>"

lemma sample_hotp: "hotp sample_mfa ''AAAAAAAA'' n = Inr ''000000''"
proof -
  have "b32decode (pad8 (py_upper ''AAAAAAAA'')) = Inr (replicate 5 0)" by code_simp
  moreover have "unpack_u32 (take 4 (drop 0 (replicate 20 0))) AND 0x7FFFFFFF = 0" by code_simp
  moreover have "zfill 6 (str_nat 0) = ''000000''" by code_simp
  ultimately show ?thesis by (simp add: hotp_def sample_mfa_def)
qed

lemma sample_pending_user:
  "get_mfa_pending_user sample_auth pending_request_in access_db = Inr (sample_admin, access_db\<lparr>db_now := 101\<rparr>)"
  by (simp add: get_mfa_pending_user_def admin_token decode_or_401_def decode_access_token_def pending_claims_def sample_rows_of_db
      bind_s_def del: One_nat_def)

lemma sample_enabled: "enabled_secret 1 (access_db\<lparr>db_now := t\<rparr>) = Inr (Some sample_secret)"
  by (simp add: enabled_secret_def access_sample_defs)

lemma sample_validates:
  obtains full t' where "get_db (validate_totp sample_auth sample_mfa pending_request_in ''000000'') access_db = (Inr full, t')"
proof -
  have code: "check_code sample_mfa sample_secret ''000000'' \<lparr>ses_db = access_db\<lparr>db_now := 101\<rparr>, ses_saved = access_db\<rparr> =
      (Inr (), \<lparr>ses_db = access_db\<lparr>db_now := 102\<rparr>, ses_saved = access_db\<rparr>)"
  proof -
    have "me_decrypt sample_mfa t = Inr ''AAAAAAAA''" for t by (simp add: sample_mfa_def)
    then show ?thesis by (simp add: check_code_def serve_def verify_totp_def sample_hotp bind_s_def bind_q_def sample_rows_of_db)
  qed
  obtain full ses where f: "full_tokens sample_auth 1 10 ''login_mfa_verified'' ''user'' None
      \<lparr>ses_db = access_db\<lparr>db_now := 102\<rparr>, ses_saved = access_db\<rparr> = (Inr full, ses)"
    using full_tokens_run by blast
  have "get_db (validate_totp sample_auth sample_mfa pending_request_in ''000000'') access_db = (Inr full, end_session ses)"
    by (simp add: get_db_def validate_totp_def sample_pending_user sample_rows_of_db sample_enabled code serve_def ask_def f
        del: One_nat_def)
  then show thesis by (rule that)
qed

section \<open>Estimates\<close>

text \<open>
  A company with an upload, an environment that estimates locally, and three scored responses of miners.
\<close>

definition estimate_company :: company where
  "estimate_company = \<lparr>co_id = 2, co_name = ''acme'', co_industry = ''other'', co_region = ''FR'', co_employee_count = None,
     co_revenue_usd = None, co_created_at = 1, co_deleted_at = None\<rparr>"

definition estimate_upload :: data_upload where
  "estimate_upload = \<lparr>du_id = 13, du_company_id = 2, du_year = 2025, du_provided_data = Some [], du_notes = None,
     du_created_at = 9, du_deleted_at = None\<rparr>"

definition estimate_hook :: webhook where
  "estimate_hook = sample_webhook\<lparr>wh_company_id := 2\<rparr>"

definition estimate_db :: db where
  "estimate_db = sample_db\<lparr>companies := [estimate_company], data_uploads := [estimate_upload]\<rparr>"

definition hooked_db :: db where
  "hooked_db = estimate_db\<lparr>webhooks := [estimate_hook]\<rparr>"

definition local_env :: estimate_env where
  "local_env = \<lparr>en_subnet_mode = False, en_subnet = \<lparr>sn_axons = 0, sn_query = (\<lambda>_ _. []), sn_industries = []\<rparr>,
     en_data = sample_data, en_web = sample_web\<rparr>"

definition fresh_bridge :: bridge where
  "fresh_bridge = \<lparr>br_clock = 100, br_miners = [], br_failures = 0, br_opened_at = 0\<rparr>"

definition sample_answer :: "nat \<Rightarrow> rat \<Rightarrow> scored" where
  "sample_answer uid t = (uid, sample_request\<lparr>syn_emissions := Some [(''total'', PNum (Fin t))]\<rparr>,
     \<lparr>sr_accuracy = Fin (1/2), sr_compliance = 1, sr_completeness = 1, sr_anti_hallucination = 1, sr_benchmark = 1,
      sr_penalty = 0, sr_final = Fin (1/2)\<rparr>)"

definition sample_answers :: "scored list" where
  "sample_answers = [sample_answer 0 1000000, sample_answer 1 100, sample_answer 2 102]"

lemma sample_totals: "mapM_r total_of sample_answers = Inr [Fin 1000000, Fin 100, Fin 102]"
  "map total_or_zero sample_answers = [Fin 1000000, Fin 100, Fin 102]"
  by code_simp+

lemma sample_selected: "\<exists>est. selected_estimation sample_answers = Inr est"
proof -
  have len: "sample_answers \<noteq> []" "length sample_answers = 3" by (simp_all add: sample_answers_def)
  obtain r where r: "select_by_consensus sample_answers = Inr r"
    unfolding select_by_consensus_def sample_totals bind_r_simps Let_def by blast
  have "r \<in> set sample_answers" using selected_candidate(1) [OF r len(1)] candidates_subset by blast
  then obtain u t where u: "r = sample_answer u t" by (auto simp: sample_answers_def)
  have tot: "total_of (sample_answer u t) = Inr (Fin t)" by (simp add: sample_answer_def total_of_def get_num_def dict_get_def)
  have ems: "syn_emissions (fst (snd (sample_answer u t))) = Some [(''total'', PNum (Fin t))]" by (simp add: sample_answer_def)
  obtain x where "agreement (Fin t) sample_answers = Inr x"
    unfolding agreement_def sample_totals bind_r_simps Let_def by (metis (full_types))
  then show ?thesis using len by (simp add: selected_estimation_def r u tot ems Let_def)
qed

text \<open>An upload without data has the estimate zero.\<close>

lemma empty_estimate:
  "\<exists>q est c. make_questionnaire estimate_company estimate_upload = Inr q \<and>
     run_estimation local_env q fresh_bridge = (Inr est, fresh_bridge) \<and>
     et_emissions est = totals 0 0 0 0 \<and> et_confidence est = Some c \<and> between 0 1 c"
proof -
  have q: "make_questionnaire estimate_company estimate_upload =
      Inr [(''company'', PStr ''acme''), (''industry'', PStr ''other''), (''services_used'', PList []),
       (''provided_data'', PDict []), (''region'', PStr ''FR''), (''year'', PNum (flt_of_int 2025))]"
    by (simp add: make_questionnaire_def estimate_company_def estimate_upload_def enrich_def)
  have n: "num_or_zero [] k = Inr 0" for k by (simp add: num_or_zero_def get_or_zero_def flt_0_1)
  have "fill_industry_defaults sample_data [] ''other'' [] = Inr []" by code_simp
  moreover have "local_activity sample_data [] ''other'' ''FR'' = Inr []"
    unfolding local_activity_def n bind_r_simps by code_simp
  ultimately have s3: "local_scope3 sample_data [] ''other'' ''FR'' = Inr []" by (simp add: local_scope3_def)
  have s1: "local_scope1 sample_data [] = Inr (0, [])" unfolding local_scope1_def n bind_r_simps by code_simp
  have s2: "local_scope2 sample_data [] ''FR'' [] = Inr (0, [(''location_based'', 0), (''market_based'', 0)])"
    unfolding local_scope2_def n bind_r_simps by code_simp
  have z: "(0 :: flt) + 0 = 0" "py_round 0 2 = 0"
    by (simp_all add: flt_0_1 plus_flt_def flt_of_rat_def rnd_def round_half_even_def)
  then have "py_sum [] = 0" by (simp add: py_sum_def)
  with z show ?thesis
    unfolding run_estimation_def local_env_def q estimate_emissions_local_def str_or_def
    by (simp add: s1 s2 s3 Let_def round_in_unit completeness_range)
qed

lemma sample_upload: "companies s = [estimate_company] \<Longrightarrow> data_uploads s = [estimate_upload] \<Longrightarrow>
    find_upload 13 2 s = Inr estimate_upload \<and> get_company_row 2 s = Inr estimate_company"
  by (simp add: find_upload_def get_company_row_def scalar_one_def estimate_upload_def estimate_company_def)

lemma estimate_ledger: "ledger_ok estimate_db"
  using sample_ledger by (simp add: ledger_ok_def estimate_db_def company_ledger_def)

lemma hooked_ledger: "ledger_ok hooked_db"
  using sample_ledger by (simp add: ledger_ok_def hooked_db_def estimate_db_def company_ledger_def)

text \<open>A database with the company, its upload and 500 credits books the empty estimate.\<close>

lemma estimate_books:
  assumes "companies s = [estimate_company]" "data_uploads s = [estimate_upload]" "ledger_ok s" "balance_of s 2 = 500"
    "ses = \<lparr>ses_db = s, ses_saved = s\<rparr>"
  shows "\<exists>r ses1. create_estimate local_env 13 2 1 fresh_bridge ses =
      (bind_q (announce_estimate sample_web r) (\<lambda>_. return_q r) ses1, fresh_bridge) \<and>
    ses_saved ses1 = ses_db ses1 \<and> booked 2 1 r s (ses_db ses1) \<and> webhooks (ses_db ses1) = webhooks s"
proof -
  obtain qn est k where qn: "make_questionnaire estimate_company estimate_upload = Inr qn"
    and est: "run_estimation local_env qn fresh_bridge = (Inr est, fresh_bridge)"
    "et_emissions est = totals 0 0 0 0" "et_confidence est = Some k" "between 0 1 k"
    using empty_estimate by blast
  have q: "ask (find_upload 13 2) ses = (Inr estimate_upload, ses)" "ask (get_company_row 2) ses = (Inr estimate_company, ses)"
    using sample_upload [OF assms(1,2)] assms(5) by (simp_all add: ask_def serve_def)
  have k: "0 \<le> k" "k \<le> 1" using est(4) by (auto simp: between_iff flt_0_1)
  obtain r s1 where r: "insert_report 2 estimate_upload est s = Inr (r, s1)"
    using k by (simp add: insert_report_def est(2,3) totals_def bind_s_def flt_0_1 Let_def)
  note i = insert_report_run [OF r]
  have s1: "ledger_ok s1" "balance_of s1 2 = 500"
    using assms(3,4) by (auto simp: i(4) balance_of_def ledger_ok_def company_ledger_def list_all_iff less_imp_le)
  obtain s2 where s2: "deduct_operation_credits 2 ''estimate'' s1 = Inr ((), s2)"
  proof -
    obtain reason where "usage_reason ''estimate'' = Inr reason" by (simp add: usage_reason_def credit_reason_names_def)
    moreover obtain e t where "deduct_credits 2 10 reason s1 = Inr (e, t)"
      using deduct_effect [OF s1(1), of 10 2 reason] s1(2) by auto
    ultimately show thesis using that
      by (simp add: deduct_operation_credits_def operation_cost_def dict_get_def credit_costs_def bind_s_def)
  qed
  have "well_shaped est" by (simp add: well_shaped_def est(2) totals_def)
  then obtain ses1 where st: "store_estimate 2 1 estimate_upload est ses = (Inr r, ses1)"
    using r s2 assms(5) by (simp add: store_estimate_def bind_q_def serve_def)
  have "create_estimate local_env 13 2 1 fresh_bridge ses =
      (bind_q (announce_estimate sample_web r) (\<lambda>_. return_q r) ses1, fresh_bridge)"
    using q qn est(1) st by (simp add: create_estimate_def bind_q_def ask_def serve_def local_env_def)
  then show ?thesis
    using store_estimate_run [OF st] store_estimate_webhooks [OF st] assms(3,5) by auto
qed

lemma estimate_rows:
  "companies estimate_db = [estimate_company]" "data_uploads estimate_db = [estimate_upload]" "balance_of estimate_db 2 = 500"
  "companies hooked_db = [estimate_company]" "data_uploads hooked_db = [estimate_upload]" "balance_of hooked_db 2 = 500"
  using sample_balance [of 2]
  by (simp_all add: hooked_db_def estimate_db_def balance_of_def company_ledger_def)

text \<open>Without a webhook of the company the announcements go through.\<close>

lemma quiet_dispatch:
  assumes "webhooks (ses_db ses) = [sample_webhook]"
  shows "dispatch sample_web 2 event data ses = (Inr (), ses\<lparr>ses_saved := ses_db ses\<rparr>)"
  using assms by (simp add: dispatch_def dispatch_event_def list_webhooks_def live_webhooks_def sample_webhook_def
      order_by_desc_def bind_s_def serve_def bind_q_def)

lemma estimate_succeeds:
  assumes "create_estimate local_env 13 2 1 fresh_bridge \<lparr>ses_db = estimate_db, ses_saved = estimate_db\<rparr> = ((x, ses), b')"
  shows "\<not> isl x"
proof -
  obtain r ses1 where r: "create_estimate local_env 13 2 1 fresh_bridge \<lparr>ses_db = estimate_db, ses_saved = estimate_db\<rparr> =
      (bind_q (announce_estimate sample_web r) (\<lambda>_. return_q r) ses1, fresh_bridge)"
    "ses_saved ses1 = ses_db ses1" "booked 2 1 r estimate_db (ses_db ses1)" "webhooks (ses_db ses1) = webhooks estimate_db"
    using estimate_books [OF estimate_rows(1,2) estimate_ledger estimate_rows(3) refl] by blast
  have w: "webhooks (ses_db ses1) = [sample_webhook]" using r(4) by (simp add: estimate_db_def sample_db_def)
  have c: "er_company_id r = 2" using r(3) by (simp add: booked_def)
  have p: "\<exists>p. prior_confidence r (ses_db ses1) = Inr p"
    by (cases "order_by_desc er_created_at (filter (\<lambda>p. er_year p = er_year r \<and> er_id p \<noteq> er_id r)
        (live_reports (er_company_id r) (ses_db ses1)))")
      (simp_all add: prior_confidence_def scalar_one_or_none_def)
  then obtain p where p: "prior_confidence r (ses_db ses1) = Inr p" by blast
  have "ses1\<lparr>ses_saved := ses_db ses1\<rparr> = ses1" using r(2) by (cases ses1) simp
  then have d: "dispatch sample_web 2 event data ses1 = (Inr (), ses1)" for event data
    using quiet_dispatch [OF w] by simp
  have q: "ask (prior_confidence r) ses1 = (Inr p, ses1)" using p by (simp add: ask_def serve_def)
  have "announce_estimate sample_web r ses1 = (Inr (), ses1)"
    by (cases p) (simp_all add: announce_estimate_def c d q Let_def)
  then show ?thesis using assms r(1) by auto
qed

lemma hooked_estimate_books:
  assumes "create_estimate local_env 13 2 1 fresh_bridge \<lparr>ses_db = hooked_db, ses_saved = hooked_db\<rparr> = ((x, ses), b')"
  shows "\<not> unbooked hooked_db (end_session ses)"
proof -
  obtain r ses1 where r: "create_estimate local_env 13 2 1 fresh_bridge \<lparr>ses_db = hooked_db, ses_saved = hooked_db\<rparr> =
      (bind_q (announce_estimate sample_web r) (\<lambda>_. return_q r) ses1, fresh_bridge)"
    "ses_saved ses1 = ses_db ses1" "booked 2 1 r hooked_db (ses_db ses1)"
    using estimate_books [OF estimate_rows(4,5) hooked_ledger estimate_rows(6) refl] by blast
  obtain z ses3 where z: "announce_estimate sample_web r ses1 = (z, ses3)" by fastforce
  have "only_hooks (ses_db ses1) (ses_saved ses3)"
    using announcing_estimate [of sample_web r] r(2) z unfolding announcing_def by (metis snd_conv)
  then have "booked 2 1 r hooked_db (ses_saved ses3)" using r(3) booked_hooks by blast
  moreover have "ses = ses3" using assms r(1) z by (cases z) auto
  ultimately show ?thesis by (simp add: unbooked_def booked_def end_session_def)
qed

end
