(* ===== verification/Test_Cases.thy ===== *)
theory Test_Cases
imports Subnet_Bridge
begin

text \<open>
  \<open>carbonscope/test_cases/generator.py\<close>: the curated questionnaires, the generator of synthetic ones and the
  reference computation of their ground truth. The descriptions of the curated cases, which nothing reads, are
  left out. \<open>random\<close> is a source of draws: the \<open>k\<close>-th call of \<open>random()\<close> and of \<open>_randbelow(n)\<close>, from which the
  other functions of the module are computed.
\<close>

record named_case = test_case +
  nc_id :: string

section \<open>Curated cases\<close>

definition curated_case :: "string \<Rightarrow> string \<Rightarrow> string \<Rightarrow> string list \<Rightarrow> pydict \<Rightarrow> string \<Rightarrow> named_case" where
  "curated_case i company industry services data region =
     \<lparr>tc_questionnaire =
        [(''company'', PStr company), (''industry'', PStr industry), (''services_used'', PList (map PStr services)),
         (''provided_data'', PDict data), (''region'', PStr region), (''year'', PNum (Fin 2025))],
      tc_context = [(''methodology'', PStr ''ghg_protocol'')], tc_ground_truth = None, nc_id = i\<rparr>"

definition CURATED_CASES :: "named_case list" where
  "CURATED_CASES =
    [curated_case ''logistics_provider_x'' ''Logistics Provider X'' ''transportation'' [''freight shipping'', ''warehousing'']
       [(''fuel_use_liters'', PNum (Fin 1887000)), (''fuel_type'', PStr ''diesel''), (''electricity_kwh'', PNum (Fin 1200000)),
        (''employee_count'', PNum (Fin 500)), (''revenue_usd'', PNum (Fin 50000000)), (''vehicle_km'', PNum (Fin 2000000))] ''US'',
     curated_case ''us_manufacturer'' ''MidWest Manufacturing Co'' ''manufacturing'' [''industrial manufacturing'', ''assembly'']
       [(''natural_gas_m3'', PNum (Fin 500000)), (''electricity_kwh'', PNum (Fin 5000000)), (''employee_count'', PNum (Fin 200)),
        (''revenue_usd'', PNum (Fin 30000000)), (''supplier_spend_usd'', PNum (Fin 10000000)),
        (''shipping_ton_km'', PNum (Fin 500000))] ''RFCW'',
     curated_case ''tech_saas'' ''CloudTech Inc'' ''technology'' [''cloud services'', ''software development'']
       [(''electricity_kwh'', PNum (Fin 200000)), (''employee_count'', PNum (Fin 50)), (''revenue_usd'', PNum (Fin 10000000)),
        (''supplier_spend_usd'', PNum (Fin 500000)), (''business_travel_usd'', PNum (Fin 200000)),
        (''office_sqm'', PNum (Fin 1000))] ''CAMX'',
     curated_case ''minimal_data_retail'' ''RetailCo'' ''retail'' [''retail sales'']
       [(''revenue_usd'', PNum (Fin 50000000))] ''US'',
     curated_case ''inconsistent_data'' ''InconsistentCo'' ''transportation'' [''freight shipping'']
       [(''fuel_use_liters'', PNum (Fin 0)), (''vehicle_km'', PNum (Fin 500000)), (''electricity_kwh'', PNum (Fin 100000)),
        (''employee_count'', PNum (Fin 30))] ''DE'',
     curated_case ''financial_services_heavy_s3'' ''Global Finance Corp'' ''financial_services''
       [''commercial banking'', ''investment management'']
       [(''electricity_kwh'', PNum (Fin 800000)), (''employee_count'', PNum (Fin 2000)), (''revenue_usd'', PNum (Fin 500000000)),
        (''supplier_spend_usd'', PNum (Fin 15000000)), (''business_travel_usd'', PNum (Fin 5000000)),
        (''office_sqm'', PNum (Fin 20000))] ''GB'',
     curated_case ''zero_emission_renewable'' ''GreenEnergy Startup'' ''technology'' [''software development'']
       [(''electricity_kwh'', PNum (Fin 50000)), (''rec_kwh'', PNum (Fin 50000)), (''employee_count'', PNum (Fin 10)),
        (''revenue_usd'', PNum (Fin 2000000)), (''office_sqm'', PNum (Fin 200))] ''CAMX'',
     curated_case ''mega_corp_extreme_scale'' ''MegaCorp Industries'' ''manufacturing'' [''heavy manufacturing'', ''global logistics'']
       [(''fuel_use_liters'', PNum (Fin 50000000)), (''fuel_type'', PStr ''diesel''), (''natural_gas_m3'', PNum (Fin 20000000)),
        (''electricity_kwh'', PNum (Fin 200000000)), (''vehicle_km'', PNum (Fin 30000000)), (''employee_count'', PNum (Fin 50000)),
        (''revenue_usd'', PNum (Fin 5000000000)), (''supplier_spend_usd'', PNum (Fin 2000000000)),
        (''shipping_ton_km'', PNum (Fin 500000000)), (''waste_kg'', PNum (Fin 10000000)),
        (''business_travel_usd'', PNum (Fin 50000000))] ''US'',
     curated_case ''construction_mixed_fleet'' ''BuildRight Construction'' ''construction''
       [''commercial construction'', ''site development'']
       [(''fuel_use_liters'', PNum (Fin 200000)), (''fuel_type'', PStr ''diesel''), (''vehicle_km'', PNum (Fin 800000)),
        (''vehicle_type'', PStr ''heavy_truck_diesel''), (''electricity_kwh'', PNum (Fin 500000)), (''employee_count'', PNum (Fin 300)),
        (''revenue_usd'', PNum (Fin 80000000)), (''supplier_spend_usd'', PNum (Fin 40000000)), (''waste_kg'', PNum (Fin 500000)),
        (''refrigerant_type'', PStr ''R-410A''), (''refrigerant_kg_leaked'', PNum (Fin 50))] ''US'']"

section \<open>Ground truth\<close>

definition truth_scope1 :: "emission_data \<Rightarrow> pydict \<Rightarrow> flt res" where
  "truth_scope1 D data =
     bind_r (num_or_zero data ''fuel_use_liters'') (\<lambda>fuel.
     bind_r (if 0 < fuel then
         bind_r (key_or data ''fuel_type'' ''diesel'') (\<lambda>fuel_type.
         bind_r (calc_stationary_combustion D fuel_type fuel ''liters'') (\<lambda>val. Inr (0 + val)))
       else Inr 0) (\<lambda>s1.
     bind_r (num_or_zero data ''natural_gas_m3'') (\<lambda>ng.
     bind_r (if 0 < ng then
         bind_r (calc_stationary_combustion D ''natural_gas'' ng ''m3'') (\<lambda>val. Inr (s1 + val))
       else Inr s1) (\<lambda>s1.
     bind_r (num_or_zero data ''vehicle_km'') (\<lambda>vkm.
     bind_r (if 0 < vkm then
         bind_r (key_or data ''vehicle_type'' ''heavy_truck_diesel'') (\<lambda>vtype.
         bind_r (calc_mobile_combustion D vtype vkm 0) (\<lambda>val. Inr (s1 + val)))
       else Inr s1) (\<lambda>s1.
     case map_of data ''refrigerant_type'' of
       None \<Rightarrow> Inr s1
     | Some ref_type \<Rightarrow>
         if truthy ref_type then
           bind_r (num_or_zero data ''refrigerant_kg_leaked'') (\<lambda>ref_kg.
           if 0 < ref_kg then bind_r (fugitive_of D ref_type ref_kg) (\<lambda>val. Inr (s1 + val)) else Inr s1)
         else Inr s1))))))"

definition truth_scope2 :: "emission_data \<Rightarrow> pydict \<Rightarrow> string \<Rightarrow> flt res" where
  "truth_scope2 D data region =
     bind_r (num_or_zero data ''electricity_kwh'') (\<lambda>elec. if 0 < elec then calc_location_based D elec region else Inr 0)"

text \<open>Waste is not among the categories.\<close>

definition truth_activity :: "emission_data \<Rightarrow> pydict \<Rightarrow> string \<Rightarrow> string \<Rightarrow> (string, flt) dict res" where
  "truth_activity D data industry region =
     bind_r (num_or_zero data ''supplier_spend_usd'') (\<lambda>spend.
     bind_r (if 0 < spend then
         bind_r (calc_cat1_purchased_goods D spend industry) (\<lambda>val. Inr [(''cat1_purchased_goods'', val)])
       else Inr []) (\<lambda>detail.
     bind_r (num_or_zero data ''shipping_ton_km'') (\<lambda>tkm.
     bind_r (if 0 < tkm then
         bind_r (calc_cat4_transport D tkm ''road'') (\<lambda>val. Inr (dict_set ''cat4_upstream_transport'' val detail))
       else Inr detail) (\<lambda>detail.
     bind_r (num_or_zero data ''business_travel_usd'') (\<lambda>travel.
     bind_r (num_or_zero data ''employee_count'') (\<lambda>emps.
     let detail = (if 0 < travel \<or> 0 < emps
                   then dict_set ''cat6_business_travel'' (calc_cat6_business_travel D emps industry travel) detail
                   else detail);
         detail = (if 0 < emps then dict_set ''cat7_commuting'' (calc_cat7_commuting D emps region) detail else detail)
     in Inr detail))))))"

definition truth_scope3 :: "emission_data \<Rightarrow> pydict \<Rightarrow> string \<Rightarrow> string \<Rightarrow> (string, flt) dict res" where
  "truth_scope3 D data industry region =
     bind_r (truth_activity D data industry region) (\<lambda>detail. fill_industry_defaults D detail industry data)"

definition compute_ground_truth :: "emission_data \<Rightarrow> 'a test_case_scheme \<Rightarrow> (string, flt) dict res" where
  "compute_ground_truth D c =
     (let q = tc_questionnaire c
      in bind_r (case map_of q ''provided_data'' of None \<Rightarrow> Inr [] | Some (PDict d) \<Rightarrow> Inr d | Some _ \<Rightarrow> Inl AttributeError) (\<lambda>data.
         bind_r (str_or q ''industry'' ''manufacturing'') (\<lambda>industry.
         bind_r (str_or q ''region'' ''US'') (\<lambda>region.
         bind_r (truth_scope1 D data) (\<lambda>s1.
         bind_r (truth_scope2 D data region) (\<lambda>s2.
         bind_r (truth_scope3 D data industry region) (\<lambda>s3_detail.
         let s3 = py_sum (dict_values s3_detail)
         in Inr [(''scope1'', py_round s1 2), (''scope2'', py_round s2 2), (''scope3'', py_round s3 2),
                 (''total'', py_round (s1 + s2 + s3) 2)])))))))"

definition enriched :: "emission_data \<Rightarrow> named_case \<Rightarrow> named_case res" where
  "enriched D c = bind_r (compute_ground_truth D c) (\<lambda>gt. Inr (c\<lparr>tc_ground_truth := Some gt\<rparr>))"

definition get_curated_cases :: "emission_data \<Rightarrow> named_case list res" where
  "get_curated_cases D = mapM_r (enriched D) CURATED_CASES"

definition get_case_by_id :: "emission_data \<Rightarrow> string \<Rightarrow> named_case option res" where
  "get_case_by_id D case_id = bind_r (get_curated_cases D) (\<lambda>cases. Inr (find (\<lambda>c. nc_id c = case_id) cases))"

section \<open>Random draws\<close>

record random_source =
  rn_random :: "nat \<Rightarrow> flt"
  rn_below :: "nat \<Rightarrow> nat \<Rightarrow> nat"

type_synonym 'a drawn = "(nat, 'a) sres"

definition random_unit :: "random_source \<Rightarrow> flt drawn" where
  "random_unit g = (\<lambda>k. Inr (rn_random g k, Suc k))"

definition randbelow :: "random_source \<Rightarrow> nat \<Rightarrow> nat drawn" where
  "randbelow g n = (\<lambda>k. Inr (rn_below g k n, Suc k))"

definition uniform :: "random_source \<Rightarrow> int \<Rightarrow> int \<Rightarrow> flt drawn" where
  "uniform g a b = bind_s (random_unit g) (\<lambda>u. return_s (flt_of_int a + flt_of_int (b - a) * u))"

definition randint :: "random_source \<Rightarrow> int \<Rightarrow> int \<Rightarrow> int drawn" where
  "randint g a b = bind_s (randbelow g (nat (b - a + 1))) (\<lambda>j. return_s (a + int j))"

definition choice :: "random_source \<Rightarrow> 'a list \<Rightarrow> 'a drawn" where
  "choice g xs = bind_s (randbelow g (length xs)) (\<lambda>j. return_s (xs ! j))"

text \<open>\<open>random.sample\<close> keeps a pool when the population is small: the last element takes the place of the one drawn.\<close>

primrec draw_pool :: "random_source \<Rightarrow> nat \<Rightarrow> 'a list \<Rightarrow> 'a list drawn" where
  "draw_pool g 0 pool = return_s []"
| "draw_pool g (Suc m) pool =
     bind_s (randbelow g (length pool)) (\<lambda>j.
     bind_s (draw_pool g m (butlast (pool[j := last pool]))) (\<lambda>rest. return_s (pool ! j # rest)))"

definition random_sample :: "random_source \<Rightarrow> 'a list \<Rightarrow> int \<Rightarrow> 'a list drawn" where
  "random_sample g population k =
     (if k < 0 \<or> int (length population) < k
      then raise_s (ValueError ''Sample larger than population or is negative'')
      else draw_pool g (nat k) population)"

text \<open>\<open>int(x)\<close> of a float\<close>

fun int_of_flt :: "flt \<Rightarrow> int res" where
  "int_of_flt (Fin x) = Inr (if 0 \<le> x then \<lfloor>x\<rfloor> else \<lceil>x\<rceil>)"
| "int_of_flt NaN = Inl (ValueError ''cannot convert float NaN to integer'')"
| "int_of_flt _ = Inl OverflowError"

section \<open>Synthetic cases\<close>

definition synthetic_industries :: "string list" where
  "synthetic_industries =
    [''manufacturing'', ''transportation'', ''technology'', ''retail'', ''energy'', ''financial_services'',
     ''construction'', ''food_beverage'']"

definition synthetic_regions :: "string list" where
  "synthetic_regions = [''US'', ''GB'', ''DE'', ''FR'', ''IN'', ''CN'', ''JP'', ''AU'', ''BR'', ''CA'']"

definition all_fields :: "random_source \<Rightarrow> pydict drawn" where
  "all_fields g =
     bind_s (uniform g 1000 500000) (\<lambda>fuel_use_liters.
     bind_s (choice g [''diesel'', ''gasoline'', ''natural_gas'']) (\<lambda>fuel_type.
     bind_s (uniform g 1000 200000) (\<lambda>natural_gas_m3.
     bind_s (uniform g 50000 5000000) (\<lambda>electricity_kwh.
     bind_s (uniform g 10000 2000000) (\<lambda>vehicle_km.
     bind_s (randint g 10 5000) (\<lambda>employee_count.
     bind_s (uniform g 1000000 100000000) (\<lambda>revenue_usd.
     bind_s (uniform g 100000 20000000) (\<lambda>supplier_spend_usd.
     bind_s (uniform g 10000 1000000) (\<lambda>shipping_ton_km.
     bind_s (uniform g 100 50000) (\<lambda>office_sqm.
     return_s
       [(''fuel_use_liters'', PNum fuel_use_liters), (''fuel_type'', PStr fuel_type),
        (''natural_gas_m3'', PNum natural_gas_m3), (''electricity_kwh'', PNum electricity_kwh),
        (''vehicle_km'', PNum vehicle_km), (''employee_count'', PNum (flt_of_int employee_count)),
        (''revenue_usd'', PNum revenue_usd), (''supplier_spend_usd'', PNum supplier_spend_usd),
        (''shipping_ton_km'', PNum shipping_ton_km), (''office_sqm'', PNum office_sqm)]))))))))))"

text \<open>The fields kept, with a fuel type whenever there is fuel\<close>

definition with_fuel_type :: "pydict \<Rightarrow> pydict" where
  "with_fuel_type d =
     (if map_of d ''fuel_use_liters'' \<noteq> None \<and> map_of d ''fuel_type'' = None
      then dict_set ''fuel_type'' (PStr ''diesel'') d else d)"

definition kept_fields :: "pydict \<Rightarrow> string list \<Rightarrow> pydict" where
  "kept_fields d kept = with_fuel_type (map (\<lambda>k. (k, dict_get d k PNone)) kept)"

definition generate_synthetic_query :: "emission_data \<Rightarrow> random_source \<Rightarrow> flt \<Rightarrow> named_case drawn" where
  "generate_synthetic_query D g completeness_level =
     bind_s (choice g synthetic_industries) (\<lambda>industry.
     bind_s (choice g synthetic_regions) (\<lambda>region.
     bind_s (all_fields g) (\<lambda>d.
     bind_s (lift_s (int_of_flt (flt_of_int (int (length d)) * completeness_level))) (\<lambda>n.
     bind_s (random_sample g (dict_keys d) (max 1 n)) (\<lambda>kept.
     bind_s (randint g 1000 9999) (\<lambda>company.
     bind_s (randint g 10000 99999) (\<lambda>number.
     let c = \<lparr>tc_questionnaire =
            [(''company'', PStr (''Synthetic-'' @ str_int company)), (''industry'', PStr industry),
             (''services_used'', PList [PStr (industry @ '' operations'')]),
             (''provided_data'', PDict (kept_fields d kept)), (''region'', PStr region), (''year'', PNum (Fin 2025))],
          tc_context = [(''methodology'', PStr ''ghg_protocol'')], tc_ground_truth = None,
          nc_id = ''synthetic_'' @ str_int number\<rparr>
     in lift_s (enriched D c))))))))"

end
