(* ===== verification/Test_Case_Laws.thy ===== *)
theory Test_Case_Laws
imports Test_Cases
begin

text \<open>
  The ground truth of a test case is the answer of a miner that estimates as the reference does: the reference
  reads the data as they are, the miner after validation, and both find the same figures when no waste is
  reported. The cases the generator makes are such cases, whatever the draws.
\<close>

section \<open>The reference and the local estimate\<close>

lemma map_r_id [simp]: "map_r id m = m"
  by (cases m) simp_all

lemmas agree_truth = agree_step [where p = id and q = fst]

lemma truth_scope1_local: "truth_scope1 D data = map_r fst (local_scope1 D data)"
proof -
  have "map_r id (truth_scope1 D data) = map_r fst (local_scope1 D data)"
    unfolding truth_scope1_def local_scope1_def case_prod_beta
    apply (rule agree_same, rule agree_truth, (intro agree_if agree_same; simp), rule agree_same, rule agree_truth)
     apply (intro agree_if agree_same; simp)
    apply (rule agree_same, rule agree_truth)
     apply (intro agree_if agree_same; simp)
    apply (cases "map_of data ''refrigerant_type''")
     apply simp
    apply (simp only: option.case)
    apply (intro agree_if agree_same; simp)
    done
  then show ?thesis by simp
qed

lemma truth_scope2_local: "local_scope2 D data region ctx = Inr r \<Longrightarrow> truth_scope2 D data region = Inr (fst r)"
  unfolding local_scope2_def truth_scope2_def Let_def by (fastforce simp: bind_r_Inr_iff split del: if_split)

lemma truth_activity_local:
  assumes "num_or_zero data ''waste_kg'' = Inr w" "(0 < w) = False"
  shows "truth_activity D data industry region = local_activity D data industry region"
  unfolding truth_activity_def local_activity_def assms bind_r_simps Let_def if_False by (rule refl)

section \<open>Raw and validated data\<close>

definition numeric_keys :: "string list" where
  "numeric_keys = map fst (filter (num_kind \<circ> snd) provided_schema)"

definition same_data :: "pydict \<Rightarrow> pydict \<Rightarrow> bool" where
  "same_data d d' \<longleftrightarrow> (\<forall>k \<in> set (''refrigerant_type'' # numeric_keys). get_or_zero d k = get_or_zero d' k) \<and>
     key_or d ''fuel_type'' ''diesel'' = key_or d' ''fuel_type'' ''diesel'' \<and>
     key_or d ''vehicle_type'' ''heavy_truck_diesel'' = key_or d' ''vehicle_type'' ''heavy_truck_diesel''"

lemma same_data_get: "same_data d d' \<Longrightarrow> k \<in> set (''refrigerant_type'' # numeric_keys) \<Longrightarrow> get_or_zero d k = get_or_zero d' k"
  unfolding same_data_def by blast

lemma same_data_num: "same_data d d' \<Longrightarrow> k \<in> set numeric_keys \<Longrightarrow> num_or_zero d k = num_or_zero d' k"
  using same_data_get [of d d' k] by (simp add: num_or_zero_def)

lemma case_truthy: "(case map_of d k of None \<Rightarrow> a | Some v \<Rightarrow> if truthy v then f v else a) =
    (if truthy (get_or_zero d k) then f (get_or_zero d k) else a)"
  by (auto simp: get_or_zero_def feq_def flt_0_1 split: option.splits)

lemma numeric_keys_eq: "numeric_keys = [''fuel_use_liters'', ''natural_gas_m3'', ''electricity_kwh'', ''vehicle_km'',
    ''employee_count'', ''revenue_usd'', ''supplier_spend_usd'', ''shipping_ton_km'', ''office_sqm'', ''business_travel_usd'',
    ''waste_kg'', ''refrigerant_kg_leaked'', ''rec_kwh'']"
  by (simp add: numeric_keys_def provided_schema_def)

lemma same_truth:
  assumes "same_data d d'"
  shows "truth_scope1 D d = truth_scope1 D d'" "truth_scope2 D d region = truth_scope2 D d' region"
    "truth_scope3 D d industry region = truth_scope3 D d' industry region"
proof -
  have n: "num_or_zero d ''fuel_use_liters'' = num_or_zero d' ''fuel_use_liters''"
    "num_or_zero d ''natural_gas_m3'' = num_or_zero d' ''natural_gas_m3''" "num_or_zero d ''vehicle_km'' = num_or_zero d' ''vehicle_km''"
    "num_or_zero d ''refrigerant_kg_leaked'' = num_or_zero d' ''refrigerant_kg_leaked''"
    "num_or_zero d ''electricity_kwh'' = num_or_zero d' ''electricity_kwh''"
    "num_or_zero d ''supplier_spend_usd'' = num_or_zero d' ''supplier_spend_usd''"
    "num_or_zero d ''shipping_ton_km'' = num_or_zero d' ''shipping_ton_km''"
    "num_or_zero d ''business_travel_usd'' = num_or_zero d' ''business_travel_usd''"
    "num_or_zero d ''employee_count'' = num_or_zero d' ''employee_count''"
    by (rule same_data_num [OF assms], simp add: numeric_keys_eq)+
  have g: "get_or_zero d k = get_or_zero d' k" if "k \<in> set (''refrigerant_type'' # numeric_keys)" for k
    using same_data_get [OF assms that] .
  have g: "get_or_zero d ''refrigerant_type'' = get_or_zero d' ''refrigerant_type''"
    "get_or_zero d ''revenue_usd'' = get_or_zero d' ''revenue_usd''" "get_or_zero d ''employee_count'' = get_or_zero d' ''employee_count''"
    by (rule g, simp add: numeric_keys_eq)+
  have k: "key_or d ''fuel_type'' ''diesel'' = key_or d' ''fuel_type'' ''diesel''"
    "key_or d ''vehicle_type'' ''heavy_truck_diesel'' = key_or d' ''vehicle_type'' ''heavy_truck_diesel''"
    using assms by (simp_all add: same_data_def)
  show "truth_scope1 D d = truth_scope1 D d'" unfolding truth_scope1_def case_truthy n g k by (rule refl)
  show "truth_scope2 D d region = truth_scope2 D d' region" unfolding truth_scope2_def n by (rule refl)
  have "truth_activity D d industry region = truth_activity D d' industry region" unfolding truth_activity_def n by (rule refl)
  moreover have "fill_industry_defaults D detail industry d = fill_industry_defaults D detail industry d'" for detail
    unfolding fill_industry_defaults_def estimate_scope3_def g by (rule refl)
  ultimately show "truth_scope3 D d industry region = truth_scope3 D d' industry region" by (simp add: truth_scope3_def)
qed

section \<open>Questionnaires that pass validation unchanged\<close>

text \<open>Pydantic takes numbers within the bounds of a field as they are and refuses a number beyond them.\<close>

definition pydantic_ok :: "pydantic \<Rightarrow> bool" where
  "pydantic_ok P \<longleftrightarrow> (\<forall>hi r. pyd_float P hi (PNum (Fin r)) = (if 0 \<le> r \<and> r \<le> hi then Some (Fin r) else None)) \<and>
     (\<forall>lo hi n. lo \<le> n \<and> n \<le> hi \<and> \<bar>n\<bar> \<le> 2 ^ 53 \<longrightarrow> pyd_int P lo hi (PNum (flt_of_int n)) = Some n)"

fun fits :: "field_kind \<Rightarrow> pyval \<Rightarrow> bool" where
  "fits (Float_Field hi) v \<longleftrightarrow> (\<exists>r. v = PNum (Fin r) \<and> 0 \<le> r \<and> r \<le> hi)"
| "fits (Int_Field hi) v \<longleftrightarrow> (\<exists>n. v = PNum (flt_of_int n) \<and> 0 \<le> n \<and> n \<le> hi \<and> \<bar>n\<bar> \<le> 2 ^ 53)"
| "fits Fuel_Type_Field v \<longleftrightarrow> (\<exists>s \<in> set valid_fuel_types. v = PStr s)"
| "fits (Str_Field d) v \<longleftrightarrow> (\<exists>s. v = PStr s)"
| "fits Opt_Str_Field v \<longleftrightarrow> (\<exists>s. v = PStr s)"

definition fitting :: "pydict \<Rightarrow> bool" where
  "fitting d \<longleftrightarrow> (\<forall>(k, v) \<in> set d. \<exists>kind. map_of provided_schema k = Some kind \<and> fits kind v)"

lemma valid_fuel_lower: "s \<in> set valid_fuel_types \<Longrightarrow> py_lower s = s"
  by (auto simp: valid_fuel_types_def py_lower_def lower_char_def Let_def)

lemma valid_industry_lower: "s \<in> set valid_industries \<Longrightarrow> py_lower s = s"
  by (auto simp: valid_industries_def py_lower_def lower_char_def Let_def)

lemma fits_valid: "pydantic_ok P \<Longrightarrow> fits kind v \<Longrightarrow> validate_field P kind (Some v) = Inr v"
  by (cases kind) (auto simp: validate_field_def pydantic_ok_def res_of_option_def validate_fuel_type_def valid_fuel_lower)

lemma fitting_kind:
  assumes "fitting d" "map_of d k = Some v" "map_of provided_schema k = Some kind"
  shows "fits kind v"
  using assms(1,3) map_of_SomeD [OF assms(2)] by (fastforce simp: fitting_def)

lemma default_valid: "returns (validate_field P kind None)"
  by (cases kind) (simp_all add: validate_field_def)

lemma validate_fields_returns:
  "(\<And>f kind. (f, kind) \<in> set schema \<Longrightarrow> returns (validate_field P kind (map_of raw f))) \<Longrightarrow> returns (validate_fields P schema raw)"
  by (induction schema) (auto intro!: returns_intros)

lemma schema_distinct: "distinct (map fst provided_schema)"
  by (simp add: provided_schema_def)

lemma fitting_validates:
  assumes "pydantic_ok P" "fitting raw"
  shows "\<exists>data. validate_provided P raw = Inr data"
proof -
  have "returns (validate_field P kind (map_of raw f))" if "(f, kind) \<in> set provided_schema" for f kind
  proof (cases "map_of raw f")
    case (Some v)
    have "map_of provided_schema f = Some kind" using that schema_distinct by simp
    from fits_valid [OF assms(1) fitting_kind [OF assms(2) Some this]] show ?thesis by (simp add: Some)
  qed (simp add: default_valid)
  then have "returns (validate_fields P provided_schema raw)" by (rule validate_fields_returns)
  then show ?thesis by (auto simp: validate_provided_def elim: returnsE)
qed

text \<open>A default stands for a field that is missing.\<close>

lemma validated_same:
  assumes "pydantic_ok P" "fitting raw" "validate_provided P raw = Inr data" "map_of provided_schema f = Some kind"
  shows "map_of data f = map_of raw f \<or> map_of raw f = None \<and> (\<exists>v. map_of data f = Some v \<and> validate_field P kind None = Inr v)"
proof (cases "map_of raw f")
  case (Some v)
  from validate_provided_get [OF assms(3,4)] show ?thesis
    using fits_valid [OF assms(1) fitting_kind [OF assms(2) Some assms(4)]] Some by auto
qed (use validate_provided_get [OF assms(3,4)] in auto)

lemma fitting_same_data:
  assumes "pydantic_ok P" "fitting raw" "validate_provided P raw = Inr data"
  shows "same_data raw data"
proof -
  note same = validated_same [OF assms]
  have g: "get_or_zero raw f = get_or_zero data f" if "map_of provided_schema f = Some kind" "num_kind kind \<or> kind = Opt_Str_Field" for f kind
    using same [OF that(1)] that(2)
    by (cases kind) (auto simp: get_or_zero_def validate_field_def feq_def flt_0_1)
  have k: "key_or raw f d = key_or data f d"
    if "map_of provided_schema f = Some kind" "validate_field P kind None = Inr (PStr d)" for f kind d
    using same [OF that(1)] that(2) by (auto simp: key_or_def)
  have "key_or raw ''fuel_type'' ''diesel'' = key_or data ''fuel_type'' ''diesel''"
    by (rule k [of _ Fuel_Type_Field]) (simp_all add: provided_schema_def validate_field_def)
  moreover have "key_or raw ''vehicle_type'' ''heavy_truck_diesel'' = key_or data ''vehicle_type'' ''heavy_truck_diesel''"
    by (rule k [of _ "Str_Field ''heavy_truck_diesel''"]) (simp_all add: provided_schema_def validate_field_def)
  moreover have "get_or_zero raw f = get_or_zero data f" if "f \<in> set (''refrigerant_type'' # numeric_keys)" for f
  proof (cases "f = ''refrigerant_type''")
    case True
    show ?thesis by (rule g [of _ Opt_Str_Field]) (simp_all add: True provided_schema_def)
  next
    case False
    then have "f \<in> set numeric_keys" using that by simp
    then obtain kind where "(f, kind) \<in> set provided_schema" "num_kind kind" by (auto simp: numeric_keys_def)
    then show ?thesis using schema_distinct by (intro g [of _ kind]) simp_all
  qed
  ultimately show ?thesis unfolding same_data_def by blast
qed

section \<open>The answer of the reference miner\<close>

definition sound_case :: "'a test_case_scheme \<Rightarrow> pydict \<Rightarrow> string \<Rightarrow> string \<Rightarrow> bool" where
  "sound_case c data industry region \<longleftrightarrow>
     (let q = tc_questionnaire c
      in map_of q ''provided_data'' = Some (PDict data) \<and> map_of q ''industry'' = Some (PStr industry) \<and>
         map_of q ''region'' = Some (PStr region) \<and> (\<exists>s. map_of q ''company'' = Some (PStr s)) \<and>
         (\<exists>ss. map_of q ''services_used'' = Some (PList (map PStr ss))) \<and> map_of q ''year'' = Some (PNum (Fin 2025))) \<and>
     industry \<in> set valid_industries \<and> fitting data \<and> tc_context c = [(''methodology'', PStr ''ghg_protocol'')]"

lemma flt_of_int_small: "\<bar>n\<bar> \<le> 2 ^ 53 \<Longrightarrow> flt_of_int n = Fin (of_int n)"
proof -
  assume n: "\<bar>n\<bar> \<le> 2 ^ 53"
  then have "\<bar>of_int n :: rat\<bar> \<le> 2 ^ 53" by (metis of_int_abs of_int_le_iff of_int_numeral of_int_power)
  then have "\<bar>of_int n :: rat\<bar> \<le> 1000000000000000000" by simp
  then show ?thesis using n by (simp add: flt_of_int_def flt_of_rat_small)
qed

lemma sound_validates:
  assumes "pydantic_ok P" "sound_case c data industry region"
  shows "\<exists>data'. validate_questionnaire P (tc_questionnaire c) = Inr (data', industry, region) \<and> same_data data data'"
proof -
  have f: "fitting data" using assms(2) by (simp add: sound_case_def)
  obtain data' where d: "validate_provided P data = Inr data'" using fitting_validates [OF assms(1) f] by blast
  have "\<forall>lo hi n. lo \<le> n \<and> n \<le> hi \<and> \<bar>n\<bar> \<le> 2 ^ 53 \<longrightarrow> pyd_int P lo hi (PNum (flt_of_int n)) = Some n"
    using assms(1) by (simp add: pydantic_ok_def)
  from this [rule_format, of 1990 2025 2100] have y: "pyd_int P 1990 2100 (PNum (Fin 2025)) = Some 2025"
    using flt_of_int_small [of 2025] by simp
  obtain company services where q: "map_of (tc_questionnaire c) ''provided_data'' = Some (PDict data)"
    "map_of (tc_questionnaire c) ''industry'' = Some (PStr industry)" "map_of (tc_questionnaire c) ''region'' = Some (PStr region)"
    "map_of (tc_questionnaire c) ''company'' = Some (PStr company)" "map_of (tc_questionnaire c) ''services_used'' = Some (PList (map PStr services))"
    "map_of (tc_questionnaire c) ''year'' = Some (PNum (Fin 2025))" and i: "industry \<in> set valid_industries"
    using assms(2) unfolding sound_case_def Let_def by blast
  have "list_all is_str (map PStr services)" by (induction services) simp_all
  then have "validate_questionnaire P (tc_questionnaire c) = Inr (data', industry, region)"
    by (simp add: validate_questionnaire_def q i read_str_def read_industry_def validate_industry_def valid_industry_lower
        read_services_def read_provided_def read_year_def d y res_of_option_def)
  then show ?thesis using fitting_same_data [OF assms(1) f d] by blast
qed

lemma figures_of_local:
  assumes "estimate_emissions_local D [(''provided_data'', PDict data), (''industry'', PStr industry), (''region'', PStr region)] ctx = Inr e"
    "num_or_zero data ''waste_kg'' = Inr w" "(0 < w) = False" "same_data raw data"
    "map_of (tc_questionnaire c) ''provided_data'' = Some (PDict raw)" "map_of (tc_questionnaire c) ''industry'' = Some (PStr industry)"
    "map_of (tc_questionnaire c) ''region'' = Some (PStr region)"
  shows "\<exists>gt. compute_ground_truth D c = Inr gt \<and> et_emissions e = map (\<lambda>(k, x). (k, PNum x)) gt \<and>
    map fst gt = [''scope1'', ''scope2'', ''scope3'', ''total'']"
proof -
  let ?ctx = "case ctx of None \<Rightarrow> [] | Some d \<Rightarrow> d"
  obtain x y z where l: "local_scope1 D data = Inr x" "local_scope2 D data region ?ctx = Inr y" "local_scope3 D data industry region = Inr z"
    and e: "et_emissions e = totals (py_round (fst x) 2) (py_round (fst y) 2) (py_round (py_sum (dict_values z)) 2)
      (py_round (fst x + fst y + py_sum (dict_values z)) 2)"
    using assms(1) by (auto simp: estimate_emissions_local_def bind_r_Inr_iff Let_def str_or_def)
  have t: "truth_scope1 D raw = Inr (fst x)" "truth_scope2 D raw region = Inr (fst y)" "truth_scope3 D raw industry region = Inr z"
    using l truth_scope2_local [OF l(2)] truth_activity_local [OF assms(2,3)]
    unfolding same_truth [OF assms(4)] by (simp_all add: truth_scope1_local truth_scope3_def local_scope3_def)
  show ?thesis using e by (simp add: compute_ground_truth_def assms(5-7) t str_or_def Let_def totals_def)
qed

lemma sound_truth:
  assumes "datasets_complete D" "pydantic_ok P" "sound_case c data industry region" "map_of data ''waste_kg'' = None"
    "tc_questionnaire q = tc_questionnaire c" "tc_context q = tc_context c"
  shows "\<exists>gt. compute_ground_truth D c = Inr gt \<and> map fst gt = [''scope1'', ''scope2'', ''scope3'', ''total''] \<and>
    syn_emissions (forward D P sha256 dumps (query_synapse q)) = Some (map (\<lambda>(k, x). (k, PNum x)) gt)"
proof -
  let ?syn = "query_synapse q"
  obtain data' where d: "validate_questionnaire P (tc_questionnaire c) = Inr (data', industry, region)" "same_data data data'"
    using sound_validates [OF assms(2,3)] by blast
  have v: "validate_questionnaire P (syn_questionnaire ?syn) = Inr (data', industry, region)"
    using d(1) assms(5) by (simp add: query_synapse_def)
  have ctx: "dict_get (syn_context ?syn) ''grid_factor_override'' PNone = PNone"
    using assms(3,6) by (simp add: query_synapse_def sound_case_def dict_get_def)
  obtain syn' where s: "estimate_synapse D P sha256 dumps ?syn = Inr syn'"
    using valid_is_answered [OF assms(1) v, of sha256 dumps] ctx by (auto elim: returnsE)
  obtain e where e: "estimate_emissions_local D [(''provided_data'', PDict data'), (''industry'', PStr industry), (''region'', PStr region)]
      (Some (syn_context ?syn)) = Inr e" "Some (et_emissions e) = syn_emissions syn'"
    using local_is_miner [OF v, of D sha256 dumps] unfolding s map_r_simps by (auto simp: map_r_def bind_r_Inr_iff)
  have "num_or_zero data' ''waste_kg'' = Inr 0"
    using same_data_num [OF d(2), of "''waste_kg''"] assms(4) by (simp add: numeric_keys_eq num_or_zero_def get_or_zero_def)
  moreover have "((0 :: flt) < 0) = False" by (simp add: flt_0_1 less_flt_def)
  ultimately obtain gt where "compute_ground_truth D c = Inr gt" "et_emissions e = map (\<lambda>(k, x). (k, PNum x)) gt"
      "map fst gt = [''scope1'', ''scope2'', ''scope3'', ''total'']"
    using figures_of_local [OF e(1) _ _ d(2), of 0 c] assms(3) by (auto simp: sound_case_def Let_def)
  then show ?thesis using s e(2) by (simp add: forward_def)
qed

text \<open>Such an answer has full accuracy when its figures are finite and not negative.\<close>

lemma exact_accuracy:
  assumes "map fst gt = [''scope1'', ''scope2'', ''scope3'', ''total'']" "set (dict_values gt) \<subseteq> {x. \<exists>r \<ge> 0. x = Fin r}"
  shows "calc_accuracy_score (map (\<lambda>(k, x). (k, PNum x)) gt) gt = Inr 1"
proof (rule accuracy_exact)
  obtain a b c d where g: "gt = [(''scope1'', a), (''scope2'', b), (''scope3'', c), (''total'', d)]"
    using assms(1) by (auto simp: map_eq_Cons_conv)
  fix scope assume "scope \<in> {''scope1'', ''scope2'', ''scope3''}"
  then show "\<exists>g \<ge> 0. dict_get (map (\<lambda>(k, x). (k, PNum x)) gt) scope (PNum 0) = PNum (Fin g) \<and> dict_get gt scope 0 = Fin g"
    using assms(2) by (auto simp: g dict_get_def)
qed

section \<open>The draws\<close>

definition draws_ok :: "random_source \<Rightarrow> bool" where
  "draws_ok g \<longleftrightarrow> (\<forall>k. between 0 1 (rn_random g k)) \<and> (\<forall>k n. 0 < n \<longrightarrow> rn_below g k n < n)"

lemma randbelow_run:
  assumes "draws_ok g" "0 < n"
  obtains j where "randbelow g n k = Inr (j, Suc k)" "j < n"
  using assms by (auto simp: randbelow_def draws_ok_def)

lemma uniform_run:
  assumes "draws_ok g" "0 \<le> a" "a \<le> b" "b \<le> 2 ^ 53"
  obtains x where "uniform g a b k = Inr (x, Suc k)" "between (of_int a) (of_int b) x"
proof -
  have big: "\<bar>of_int n :: rat\<bar> \<le> 10 ^ 18" if "\<bar>n\<bar> \<le> 2 ^ 53" for n :: int
  proof -
    have "\<bar>of_int n :: rat\<bar> \<le> of_int (2 ^ 53)" using that unfolding of_int_abs [symmetric] of_int_le_iff .
    then show ?thesis by simp
  qed
  let ?u = "rn_random g k"
  have s: "\<bar>a\<bar> \<le> 2 ^ 53" "\<bar>b - a\<bar> \<le> 2 ^ 53" "\<bar>b\<bar> \<le> 2 ^ 53" using assms by auto
  have u: "between 0 1 ?u" using assms(1) by (simp add: draws_ok_def)
  have "between 0 (of_int (b - a)) (flt_of_int (b - a))" using assms(3) by (simp add: flt_of_int_small [OF s(2)])
  then have m: "between 0 (of_int (b - a)) (flt_of_int (b - a) * ?u)"
    by (rule between_mult_nonneg [OF _ u]) (use rnd_of_int [OF s(2)] big [OF s(2)] in \<open>simp_all del: rnd_of_int\<close>)
  have "between (of_int a) (of_int b) (flt_of_int a + flt_of_int (b - a) * ?u)"
    by (rule between_add [OF _ m, of "of_int a" "of_int a"])
      (use s big rnd_of_int in \<open>simp_all add: flt_of_int_small del: rnd_of_int\<close>)
  then show ?thesis by (intro that) (simp_all add: uniform_def random_unit_def bind_s_def)
qed

lemma randint_run:
  assumes "draws_ok g" "a \<le> b"
  obtains n where "randint g a b k = Inr (n, Suc k)" "a \<le> n" "n \<le> b"
proof -
  have "0 < nat (b - a + 1)" using assms(2) by simp
  from randbelow_run [OF assms(1) this, of k] obtain j where "randbelow g (nat (b - a + 1)) k = Inr (j, Suc k)" "j < nat (b - a + 1)" .
  then show ?thesis by (intro that [of "a + int j"]) (auto simp: randint_def bind_s_def)
qed

lemma choice_run:
  assumes "draws_ok g" "xs \<noteq> []"
  obtains x where "choice g xs k = Inr (x, Suc k)" "x \<in> set xs"
proof -
  have "0 < length xs" using assms(2) by simp
  from randbelow_run [OF assms(1) this, of k] obtain j where "randbelow g (length xs) k = Inr (j, Suc k)" "j < length xs" .
  then show ?thesis by (intro that [of "xs ! j"]) (simp_all add: choice_def bind_s_def)
qed

text \<open>Taking an element out of the pool\<close>

lemma pool_without:
  assumes "j < length xs" "distinct xs"
  shows "distinct (butlast (xs[j := last xs]))" "set (butlast (xs[j := last xs])) = set xs - {xs ! j}"
proof -
  have ne: "xs \<noteq> []" using assms(1) by auto
  obtain ys y where xs: "xs = ys @ [y]" using ne by (cases xs rule: rev_cases) auto
  show "distinct (butlast (xs[j := last xs]))"
    using assms(2) by (auto simp: xs list_update_append butlast_append distinct_list_update split: nat.splits)
  show "set (butlast (xs[j := last xs])) = set xs - {xs ! j}"
  proof (cases "j < length ys")
    case True
    then have "set (ys[j := y]) = insert y (set ys - {ys ! j})" using assms(2) by (simp add: xs set_update_distinct)
    then show ?thesis using True assms(2) by (auto simp: xs list_update_append nth_append)
  qed (use assms in \<open>auto simp: xs list_update_append nth_append split: nat.splits\<close>)
qed

lemma draw_pool_run:
  assumes "draws_ok g" "m \<le> length pool" "distinct pool"
  shows "\<exists>xs. draw_pool g m pool k = Inr (xs, k + m) \<and> length xs = m \<and> distinct xs \<and> set xs \<subseteq> set pool"
  using assms(2,3)
proof (induction m arbitrary: pool k)
  case (Suc m)
  have "0 < length pool" using Suc.prems(1) by linarith
  from randbelow_run [OF assms(1) this, of k] obtain j where j: "randbelow g (length pool) k = Inr (j, Suc k)" "j < length pool" .
  let ?p = "butlast (pool[j := last pool])"
  have "m \<le> length ?p" using Suc.prems(1) by simp
  from Suc.IH [OF this pool_without(1) [OF j(2) Suc.prems(2)], of "Suc k"]
  obtain xs where xs: "draw_pool g m ?p (Suc k) = Inr (xs, Suc k + m)" "length xs = m" "distinct xs" "set xs \<subseteq> set ?p" by blast
  have "pool ! j \<notin> set xs" "insert (pool ! j) (set xs) \<subseteq> set pool"
    using xs(4) pool_without(2) [OF j(2) Suc.prems(2)] nth_mem [OF j(2)] by auto
  then show ?case using xs j(1) by (intro exI [of _ "pool ! j # xs"]) (simp add: bind_s_def)
qed simp

section \<open>The cases the generator makes\<close>

definition field_names :: "string list" where
  "field_names = [''fuel_use_liters'', ''fuel_type'', ''natural_gas_m3'', ''electricity_kwh'', ''vehicle_km'', ''employee_count'',
     ''revenue_usd'', ''supplier_spend_usd'', ''shipping_ton_km'', ''office_sqm'']"

lemma between_fits: "between l u x \<Longrightarrow> 0 \<le> l \<Longrightarrow> u \<le> hi \<Longrightarrow> fits (Float_Field hi) (PNum x)"
  by (auto simp: between_iff flt_0_1)

lemma all_fields_run:
  assumes "draws_ok g"
  obtains d k' where "all_fields g k = Inr (d, k')" "map fst d = field_names" "fitting d"
proof -
  have u: "\<exists>x k'. uniform g a b k = Inr (x, k') \<and> between (of_int a) (of_int b) x" if "0 \<le> a" "a \<le> b" "b \<le> 2 ^ 53" for a b k
    by (rule uniform_run [OF assms that, of k]) blast
  have n: "\<exists>m k'. randint g 10 5000 k = Inr (m, k') \<and> 10 \<le> m \<and> m \<le> 5000" for k
    by (rule randint_run [OF assms, of 10 5000 k]) (simp, blast)
  from u [of 1000 500000 k] obtain fuel k1 where 1: "uniform g 1000 500000 k = Inr (fuel, k1)" "between 1000 500000 fuel" by auto
  have "[''diesel'', ''gasoline'', ''natural_gas''] \<noteq> []" by simp
  from choice_run [OF assms this, where k = k1] obtain ft where
    2: "choice g [''diesel'', ''gasoline'', ''natural_gas''] k1 = Inr (ft, Suc k1)" "ft \<in> set [''diesel'', ''gasoline'', ''natural_gas'']" .
  from u [of 1000 200000 "Suc k1"] obtain ng k3 where 3: "uniform g 1000 200000 (Suc k1) = Inr (ng, k3)" "between 1000 200000 ng" by auto
  from u [of 50000 5000000 k3] obtain el k4 where 4: "uniform g 50000 5000000 k3 = Inr (el, k4)" "between 50000 5000000 el" by auto
  from u [of 10000 2000000 k4] obtain vk k5 where 5: "uniform g 10000 2000000 k4 = Inr (vk, k5)" "between 10000 2000000 vk" by auto
  from n [of k5] obtain em k6 where 6: "randint g 10 5000 k5 = Inr (em, k6)" "10 \<le> em" "em \<le> 5000" by auto
  from u [of 1000000 100000000 k6] obtain re k7 where
    7: "uniform g 1000000 100000000 k6 = Inr (re, k7)" "between 1000000 100000000 re" by auto
  from u [of 100000 20000000 k7] obtain sp k8 where 8: "uniform g 100000 20000000 k7 = Inr (sp, k8)" "between 100000 20000000 sp" by auto
  from u [of 10000 1000000 k8] obtain sh k9 where 9: "uniform g 10000 1000000 k8 = Inr (sh, k9)" "between 10000 1000000 sh" by auto
  from u [of 100 50000 k9] obtain sqm k10 where 10: "uniform g 100 50000 k9 = Inr (sqm, k10)" "between 100 50000 sqm" by auto
  let ?d = "[(''fuel_use_liters'', PNum fuel), (''fuel_type'', PStr ft), (''natural_gas_m3'', PNum ng), (''electricity_kwh'', PNum el),
    (''vehicle_km'', PNum vk), (''employee_count'', PNum (flt_of_int em)), (''revenue_usd'', PNum re), (''supplier_spend_usd'', PNum sp),
    (''shipping_ton_km'', PNum sh), (''office_sqm'', PNum sqm)]"
  have run: "all_fields g k = Inr (?d, k10)"
    unfolding all_fields_def by (simp add: bind_s_def 1 2 3 4 5 6 7 8 9 10)
  have e: "fits (Int_Field 1000000) (PNum (flt_of_int em))" using 6 by auto
  have t: "fits Fuel_Type_Field (PStr ft)" using 2(2) by (auto simp: valid_fuel_types_def)
  note f = between_fits [OF 1(2)] between_fits [OF 3(2)] between_fits [OF 4(2)] between_fits [OF 5(2)] between_fits [OF 7(2)]
    between_fits [OF 8(2)] between_fits [OF 9(2)] between_fits [OF 10(2)]
  have "fitting ?d"
    unfolding fitting_def provided_schema_def by (simp del: fits.simps add: e t f)
  then show thesis by (intro that [OF run]) (simp_all add: field_names_def)
qed

lemma dict_set_new: "map_of d k = None \<Longrightarrow> dict_set k v d = d @ [(k, v)]"
  by (induction k v d rule: dict_set.induct) (auto split: if_splits)

lemma kept_fits:
  assumes "fitting d" "set kept \<subseteq> set (dict_keys d)"
  shows "fitting (kept_fields d kept)"
proof -
  let ?k = "map (\<lambda>k. (k, dict_get d k PNone)) kept"
  have k: "fitting ?k"
    unfolding fitting_def
  proof (clarsimp)
    fix k assume "k \<in> set kept"
    then have "k \<in> fst ` set d" using assms(2) by auto
    then obtain v where v: "map_of d k = Some v" by (metis map_of_eq_None_iff not_None_eq)
    show "\<exists>kind. map_of provided_schema k = Some kind \<and> fits kind (dict_get d k PNone)"
      using assms(1) map_of_SomeD [OF v] by (auto simp: fitting_def dict_get_def v)
  qed
  show ?thesis
  proof (cases "map_of ?k ''fuel_use_liters'' \<noteq> None \<and> map_of ?k ''fuel_type'' = None")
    case True
    have "set (dict_set ''fuel_type'' (PStr ''diesel'') ?k) = insert (''fuel_type'', PStr ''diesel'') (set ?k)"
      using dict_set_new [of ?k "''fuel_type''"] True by simp
    moreover have "map_of provided_schema ''fuel_type'' = Some Fuel_Type_Field" "fits Fuel_Type_Field (PStr ''diesel'')"
      by (simp_all add: provided_schema_def valid_fuel_types_def)
    ultimately show ?thesis
      using k True unfolding kept_fields_def with_fuel_type_def fitting_def by (auto simp del: fits.simps)
  next
    case False
    then show ?thesis using k unfolding kept_fields_def with_fuel_type_def by (simp only: if_False)
  qed
qed

lemma kept_named:
  assumes "set kept \<subseteq> set field_names" "kept \<noteq> []"
  shows "map_of (kept_fields d kept) ''waste_kg'' = None" "kept_fields d kept \<noteq> []"
    "map_of (kept_fields d kept) ''fuel_use_liters'' \<noteq> None \<longrightarrow> map_of (kept_fields d kept) ''fuel_type'' \<noteq> None"
proof -
  have "''waste_kg'' \<notin> set kept" using assms(1) by (auto simp: field_names_def)
  then show "map_of (kept_fields d kept) ''waste_kg'' = None"
    by (auto simp: kept_fields_def with_fuel_type_def map_of_dict_set map_of_eq_None_iff)
  show "kept_fields d kept \<noteq> []"
    using assms(2) dict_set_new [of "map (\<lambda>k. (k, dict_get d k PNone)) kept" "''fuel_type''"]
    by (auto simp: kept_fields_def with_fuel_type_def)
  show "map_of (kept_fields d kept) ''fuel_use_liters'' \<noteq> None \<longrightarrow> map_of (kept_fields d kept) ''fuel_type'' \<noteq> None"
    by (simp add: kept_fields_def with_fuel_type_def map_of_dict_set)
qed

lemma tenth_of:
  assumes "between 0 1 level"
  shows "\<exists>n. int_of_flt (flt_of_int 10 * level) = Inr n \<and> 0 \<le> n \<and> n \<le> 10"
proof -
  have "flt_of_int 10 = Fin 10" using flt_of_int_small [of 10] by simp
  then have "between 0 10 (flt_of_int 10 * level)"
    by (intro between_mult_nonneg [OF _ assms, of 10]) (use rnd_of_int [of 10] in \<open>simp_all del: rnd_of_int\<close>)
  then obtain r where r: "flt_of_int 10 * level = Fin r" "0 \<le> r" "r \<le> 10" by (auto simp: between_iff)
  have "\<lfloor>r\<rfloor> \<le> 10" using floor_mono [OF r(3)] by simp
  then show ?thesis using r by simp
qed

lemma sample_run:
  assumes "draws_ok g" "0 \<le> m" "m \<le> int (length population)" "distinct population"
  shows "\<exists>xs k'. random_sample g population m k = Inr (xs, k') \<and> int (length xs) = m \<and> distinct xs \<and> set xs \<subseteq> set population"
proof -
  have "nat m \<le> length population" using assms(3) by linarith
  then obtain xs where xs: "draw_pool g (nat m) population k = Inr (xs, k + nat m)" "length xs = nat m" "distinct xs"
      "set xs \<subseteq> set population"
    using draw_pool_run [OF assms(1) _ assms(4), of "nat m" k] by blast
  have "random_sample g population m k = Inr (xs, k + nat m)" using xs(1) assms(2,3) by (simp add: random_sample_def)
  moreover have "int (length xs) = m" using xs(2) assms(2) by simp
  ultimately show ?thesis using xs(3,4) by blast
qed

lemma field_names_facts: "distinct field_names" "length field_names = 10"
  by (simp_all add: field_names_def)

text \<open>The generator returns a case that passes validation, with its ground truth.\<close>

lemma synthetic_run:
  assumes "datasets_complete D" "pydantic_ok P" "draws_ok g" "between 0 1 level"
  obtains c k' data industry region where "generate_synthetic_query D g level k = Inr (c, k')" "sound_case c data industry region"
    "map_of data ''waste_kg'' = None" "data \<noteq> []" "map_of data ''fuel_use_liters'' \<noteq> None \<longrightarrow> map_of data ''fuel_type'' \<noteq> None"
    "compute_ground_truth D c = Inr (the (tc_ground_truth c))" "tc_ground_truth c \<noteq> None"
proof -
  have "synthetic_industries \<noteq> []" "synthetic_regions \<noteq> []" by (simp_all add: synthetic_industries_def synthetic_regions_def)
  then obtain industry region k1 where 1: "choice g synthetic_industries k = Inr (industry, Suc k)" "industry \<in> set synthetic_industries"
    and 2: "choice g synthetic_regions (Suc k) = Inr (region, k1)"
    using choice_run [OF assms(3)] by metis
  obtain d k2 where 3: "all_fields g k1 = Inr (d, k2)" "map fst d = field_names" "fitting d"
    using all_fields_run [OF assms(3)] by metis
  have l: "length d = 10" using arg_cong [OF 3(2), of length] by (simp add: field_names_facts)
  obtain n where 4: "int_of_flt (flt_of_int (int (length d)) * level) = Inr n" "0 \<le> n" "n \<le> 10"
    using tenth_of [OF assms(4)] by (auto simp: l)
  have "0 \<le> max 1 n" "max 1 n \<le> int (length field_names)" using 4 by (simp_all add: field_names_facts)
  then obtain kept k3 where 5: "random_sample g field_names (max 1 n) k2 = Inr (kept, k3)" "int (length kept) = max 1 n" "set kept \<subseteq> set field_names"
    using sample_run [OF assms(3) _ _ field_names_facts(1), of "max 1 n" k2] by blast
  have n: "\<exists>m k'. randint g a b k = Inr (m, k')" if "a \<le> b" for a b k
    by (rule randint_run [OF assms(3) that, of k]) blast
  obtain company k4 where 6: "randint g 1000 9999 k3 = Inr (company, k4)" using n [of 1000 9999 k3] by auto
  obtain number k5 where 7: "randint g 10000 99999 k4 = Inr (number, k5)" using n [of 10000 99999 k4] by auto
  let ?data = "kept_fields d kept"
  let ?c = "\<lparr>tc_questionnaire =
      [(''company'', PStr (''Synthetic-'' @ str_int company)), (''industry'', PStr industry),
       (''services_used'', PList [PStr (industry @ '' operations'')]), (''provided_data'', PDict ?data),
       (''region'', PStr region), (''year'', PNum (Fin 2025))],
      tc_context = [(''methodology'', PStr ''ghg_protocol'')], tc_ground_truth = None, nc_id = ''synthetic_'' @ str_int number\<rparr>"
  have "kept \<noteq> []" using 5(2) by auto
  note kept = kept_named [OF 5(3) this, of d]
  have "fitting ?data" by (rule kept_fits [OF 3(3)]) (simp add: 3(2) 5(3))
  moreover have "industry \<in> set valid_industries" using 1(2) by (auto simp: synthetic_industries_def valid_industries_def)
  moreover have "\<exists>ss. [PStr (industry @ '' operations'')] = map PStr ss" by (rule exI [of _ "[industry @ '' operations'']"]) simp
  ultimately have sound: "sound_case ?c ?data industry region" by (simp add: sound_case_def)
  obtain gt where gt: "compute_ground_truth D ?c = Inr gt" using sound_truth [OF assms(1,2) sound kept(1), of "test_case.truncate ?c"]
    by (auto simp: test_case.defs)
  let ?e = "?c\<lparr>tc_ground_truth := Some gt\<rparr>"
  have run: "generate_synthetic_query D g level k = Inr (?e, k5)"
    unfolding generate_synthetic_query_def using gt by (simp add: bind_s_def 1 2 3 4 5 6 7 enriched_def)
  have "sound_case ?e ?data industry region" using sound by (simp add: sound_case_def)
  moreover have "compute_ground_truth D ?e = Inr (the (tc_ground_truth ?e))" using gt by (simp add: compute_ground_truth_def)
  moreover have "tc_ground_truth ?e \<noteq> None" by simp
  ultimately show thesis by (rule that [OF run _ kept(1,2,3)])
qed

section \<open>The curated cases\<close>

lemma numeral_fits: "(numeral n :: int) \<le> hi \<Longrightarrow> (numeral n :: int) \<le> 2 ^ 53 \<Longrightarrow> fits (Int_Field hi) (PNum (Fin (numeral n)))"
  using flt_of_int_small [of "numeral n"] by (auto intro!: exI [of _ "numeral n"])

lemma curated_sound:
  "industry \<in> set valid_industries \<Longrightarrow> fitting data \<Longrightarrow> sound_case (curated_case i company industry services data region) data industry region"
  by (auto simp: sound_case_def curated_case_def)

text \<open>The one case with more fuel than the miner accepts, and the two that report waste\<close>

definition oversized :: string where
  "oversized = ''mega_corp_extreme_scale''"

definition reports_waste :: "string list" where
  "reports_waste = [oversized, ''construction_mixed_fleet'']"

definition curated_ok :: "named_case \<Rightarrow> bool" where
  "curated_ok c \<longleftrightarrow> (\<exists>data industry region. sound_case c data industry region \<and> (nc_id c \<notin> set reports_waste \<longrightarrow> map_of data ''waste_kg'' = None))"

lemma curated_case_ok:
  "industry \<in> set valid_industries \<Longrightarrow> fitting data \<Longrightarrow> (i \<notin> set reports_waste \<Longrightarrow> map_of data ''waste_kg'' = None) \<Longrightarrow>
    curated_ok (curated_case i company industry services data region)"
  unfolding curated_ok_def by (intro exI conjI, erule (1) curated_sound) (simp add: curated_case_def)

lemma fitting_Cons: "fitting ((k, v) # d) \<longleftrightarrow> (\<exists>kind. map_of provided_schema k = Some kind \<and> fits kind v) \<and> fitting d"
  by (simp add: fitting_def)

lemma fitting_Nil: "fitting []"
  by (simp add: fitting_def)

lemma float_fits: "0 \<le> r \<Longrightarrow> r \<le> hi \<Longrightarrow> fits (Float_Field hi) (PNum (Fin r))"
  by simp

lemma string_fits: "fits (Str_Field d) (PStr s)" "fits Opt_Str_Field (PStr s)" "fits Fuel_Type_Field (PStr ''diesel'')"
  by (simp_all add: valid_fuel_types_def)

lemma curated_id [simp]: "nc_id (curated_case i company industry services data region) = i"
  by (simp add: curated_case_def)

lemma curated_cases_ok: "list_all curated_ok (filter (\<lambda>c. nc_id c \<noteq> oversized) CURATED_CASES)"
  unfolding CURATED_CASES_def oversized_def
  apply simp
  apply (intro conjI; rule curated_case_ok)
  apply (simp_all add: valid_industries_def fitting_Cons fitting_Nil provided_schema_def float_fits numeral_fits string_fits
      reports_waste_def oversized_def del: fits.simps)
  done

section \<open>The reference always answers\<close>

definition typed :: "pydict \<Rightarrow> bool" where
  "typed d \<longleftrightarrow> list_all (\<lambda>k. returns (num_or_zero d k)) numeric_keys \<and>
     (\<forall>v \<in> {map_of d ''fuel_type'', map_of d ''vehicle_type'', map_of d ''refrigerant_type''}. v = None \<or> (\<exists>s. v = Some (PStr s)))"

lemma typed_key: "map_of d k = None \<or> (\<exists>s. map_of d k = Some (PStr s)) \<Longrightarrow> returns (key_or d k dflt)"
  by (auto simp: key_or_def)

lemma typed_truth:
  assumes "datasets_complete D" "typed d"
  shows "returns (truth_scope1 D d)" "returns (truth_scope2 D d region)" "returns (truth_scope3 D d industry region)"
proof -
  have n: "returns (num_or_zero d k)" if "k \<in> set numeric_keys" for k
    using assms(2) that by (simp add: typed_def list_all_iff)
  have n: "returns (num_or_zero d ''fuel_use_liters'')" "returns (num_or_zero d ''natural_gas_m3'')" "returns (num_or_zero d ''vehicle_km'')"
    "returns (num_or_zero d ''refrigerant_kg_leaked'')" "returns (num_or_zero d ''electricity_kwh'')"
    "returns (num_or_zero d ''supplier_spend_usd'')" "returns (num_or_zero d ''shipping_ton_km'')"
    "returns (num_or_zero d ''business_travel_usd'')" "returns (num_or_zero d ''employee_count'')" "returns (num_or_zero d ''revenue_usd'')"
    by (rule n, simp add: numeric_keys_eq)+
  have k: "returns (key_or d ''fuel_type'' x)" "returns (key_or d ''vehicle_type'' x)" for x
    using assms(2) by (simp_all add: typed_def typed_key)
  consider (none) "map_of d ''refrigerant_type'' = None" | (str) r where "map_of d ''refrigerant_type'' = Some (PStr r)"
    using assms(2) by (auto simp: typed_def)
  then show "returns (truth_scope1 D d)"
    unfolding truth_scope1_def
    by cases (simp only: option.case fugitive_of_def pyval.case; intro returns_intros n k assms)+
  show "returns (truth_scope2 D d region)"
    unfolding truth_scope2_def by (intro returns_intros n assms)
  have "returns (truth_activity D d industry region)"
    unfolding truth_activity_def Let_def by (intro returns_intros n assms)
  moreover have "returns (fill_industry_defaults D detail industry d)" for detail
    using assms(1) n(9,10) unfolding fill_industry_defaults_def estimate_scope3_def Let_def num_or_zero_def
    by (intro returns_intros) (auto dest: profile_split)
  ultimately show "returns (truth_scope3 D d industry region)"
    unfolding truth_scope3_def by (rule returns_bind)
qed

lemma typed_ground_truth:
  assumes "datasets_complete D" "typed data"
  shows "returns (compute_ground_truth D (curated_case i company industry services data region))"
proof -
  have c: "tc_questionnaire (curated_case i company industry services data region) =
      [(''company'', PStr company), (''industry'', PStr industry), (''services_used'', PList (map PStr services)),
       (''provided_data'', PDict data), (''region'', PStr region), (''year'', PNum (Fin 2025))]"
    by (simp add: curated_case_def)
  show ?thesis
    unfolding compute_ground_truth_def c Let_def str_or_def using typed_truth [OF assms] by (auto intro!: returns_intros)
qed

lemma curated_truth: "datasets_complete D \<Longrightarrow> list_all (\<lambda>c. returns (compute_ground_truth D c)) CURATED_CASES"
  unfolding CURATED_CASES_def list.pred_inject(2)
  by (intro conjI list.pred_inject(1); rule typed_ground_truth)
    (simp_all add: typed_def numeric_keys_eq num_or_zero_def get_or_zero_def)

section \<open>The list of curated cases\<close>

definition with_truth :: "emission_data \<Rightarrow> named_case \<Rightarrow> named_case" where
  "with_truth D c = c\<lparr>tc_ground_truth := Some (projr (compute_ground_truth D c))\<rparr>"

lemma with_truth_simps [simp]: "nc_id (with_truth D c) = nc_id c" "tc_questionnaire (with_truth D c) = tc_questionnaire c"
  "tc_context (with_truth D c) = tc_context c"
  by (simp_all add: with_truth_def)

lemma enriched_all:
  "list_all (\<lambda>c. returns (compute_ground_truth D c)) cs \<Longrightarrow> mapM_r (enriched D) cs = Inr (map (with_truth D) cs)"
  by (induction cs) (auto simp: enriched_def with_truth_def elim: returnsE)

lemma curated_cases_run: "datasets_complete D \<Longrightarrow> get_curated_cases D = Inr (map (with_truth D) CURATED_CASES)"
  unfolding get_curated_cases_def by (intro enriched_all curated_truth)

lemma curated_ids_distinct: "distinct (map nc_id CURATED_CASES)"
  by (simp add: CURATED_CASES_def)

lemma find_by_key: "distinct (map f xs) \<Longrightarrow> x \<in> set xs \<Longrightarrow> find (\<lambda>y. f y = f x) xs = Some x"
  by (induction xs) (auto simp: image_iff)

lemma case_found:
  assumes "datasets_complete D" "c \<in> set (map (with_truth D) CURATED_CASES)"
  shows "get_case_by_id D (nc_id c) = Inr (Some c)"
proof -
  have "map nc_id (map (with_truth D) CURATED_CASES) = map nc_id CURATED_CASES" by (simp add: comp_def)
  then have "distinct (map nc_id (map (with_truth D) CURATED_CASES))" using curated_ids_distinct by metis
  from find_by_key [OF this assms(2)] show ?thesis by (simp add: get_case_by_id_def curated_cases_run [OF assms(1)])
qed

text \<open>What the miner answers\<close>

lemma curated_exact:
  assumes "datasets_complete D" "pydantic_ok P" "c \<in> set CURATED_CASES" "nc_id c \<notin> set reports_waste"
  shows "syn_emissions (forward D P sha256 dumps (query_synapse (test_case.truncate (with_truth D c)))) =
    Some (map (\<lambda>(k, x). (k, PNum x)) (the (tc_ground_truth (with_truth D c))))"
proof -
  have "nc_id c \<noteq> oversized" using assms(4) by (auto simp: reports_waste_def)
  then have "curated_ok c" using curated_cases_ok assms(3) by (auto simp: list_all_iff)
  then obtain data industry region where sound: "sound_case c data industry region" "map_of data ''waste_kg'' = None"
    using assms(4) unfolding curated_ok_def by blast
  from sound_truth [OF assms(1,2) sound, of "test_case.truncate (with_truth D c)" sha256 dumps]
  show ?thesis by (auto simp: test_case.defs with_truth_def)
qed

lemma oversized_invalid:
  assumes "pydantic_ok P"
  shows "list_all (\<lambda>c. nc_id c = oversized \<longrightarrow> validate_questionnaire P (tc_questionnaire c) = Inl (ValueError ''ValidationError'')) CURATED_CASES"
proof -
  have "pyd_float P 10000000 (PNum (Fin 50000000)) = None" using assms by (simp add: pydantic_ok_def)
  then have v: "validate_provided P [(''fuel_use_liters'', PNum (Fin 50000000)), (''fuel_type'', PStr ''diesel''),
      (''natural_gas_m3'', PNum (Fin 20000000)), (''electricity_kwh'', PNum (Fin 200000000)), (''vehicle_km'', PNum (Fin 30000000)),
      (''employee_count'', PNum (Fin 50000)), (''revenue_usd'', PNum (Fin 5000000000)), (''supplier_spend_usd'', PNum (Fin 2000000000)),
      (''shipping_ton_km'', PNum (Fin 500000000)), (''waste_kg'', PNum (Fin 10000000)), (''business_travel_usd'', PNum (Fin 50000000))] =
      Inl (ValueError ''ValidationError'')"
    by (simp add: validate_provided_def provided_schema_def validate_field_def res_of_option_def validation_error_def)
  have "validate_industry ''manufacturing'' = Inr ''manufacturing''"
    using valid_industry_lower [of "''manufacturing''"] by (simp add: validate_industry_def valid_industries_def)
  with v show ?thesis
    unfolding CURATED_CASES_def list.pred_inject(2)
    by (intro conjI list.pred_inject(1))
      (simp_all add: oversized_def curated_case_def validate_questionnaire_def read_str_def read_industry_def read_services_def read_provided_def)
qed

lemma oversized_refused:
  assumes "pydantic_ok P" "c \<in> set CURATED_CASES" "nc_id c = oversized" "tc_questionnaire q = tc_questionnaire c"
  shows "syn_confidence (forward D P sha256 dumps (query_synapse q)) = Some (Fin (- 1)) \<and>
    syn_emissions (forward D P sha256 dumps (query_synapse q)) = Some (totals 0 0 0 0)"
proof -
  have "validate_questionnaire P (tc_questionnaire q) = Inl (ValueError ''ValidationError'')"
    using oversized_invalid [OF assms(1)] assms(2-4) by (auto simp: list_all_iff)
  then show ?thesis by (simp add: forward_def estimate_synapse_def query_synapse_def failed_synapse_def)
qed

end
