(* ===== verification/Subnet_Properties.thy ===== *)
theory Subnet_Properties
imports Samples Test_Case_Laws
begin

lemma sample_pydantic_ok: "pydantic_ok sample_pydantic"
  by (auto simp: pydantic_ok_def sample_pydantic_def flt_0_1 flt_of_int_small)

text \<open>The properties of the subnet side: scoring, estimation, the validator's loop, the rate limiter.\<close>




text \<open>
  C6. The circuit breaker: after \<open>n\<close> failed queries in a row the validator has slept its polling
  interval while the breaker was closed, and from the threshold on a pause that doubles from the
  base and is capped at the maximum.
\<close>

theorem breaker_doubles_and_is_capped:
  assumes "failed_queries cfg n v v' pause" "circuit_breaker_max_failures cfg = int m" "0 < m"
    "0 \<le> circuit_breaker_base_backoff cfg" "circuit_breaker_base_backoff cfg \<le> circuit_breaker_max_backoff cfg"
    "v_consecutive_failures v = 0" "v_backoff_seconds v = circuit_breaker_base_backoff cfg"
  shows "v_consecutive_failures v' = int n \<and>
    (0 < n \<longrightarrow> pause = (if n < m then query_interval cfg
       else min (circuit_breaker_base_backoff cfg * 2 ^ (n - m)) (circuit_breaker_max_backoff cfg)))"
  using breaker_backoff [OF assms] by blast

theorem breaker_doubles_and_is_capped_witness:
  "\<exists>v' pause. failed_queries sample_config 4 sample_validator v' pause \<and> v_consecutive_failures v' = 4 \<and> pause = 4"
proof -
  obtain v' pause where f: "failed_queries sample_config 4 sample_validator v' pause" using failures_go_on by blast
  show ?thesis
    using breaker_doubles_and_is_capped [OF f, of 3] f
    by (auto simp: sample_config_def sample_validator_def init_validator_def min_def)
qed

text \<open>
  C7. The rate limiter: however requests interleave, no hotkey has more than the configured number
  of accepted requests in any window that ends at any time, as long as the registered hotkeys fit
  the tracking bound.
\<close>

theorem limiter_window_bound:
  assumes "limiter_run cfg mg hist prev st" "length (hotkeys mg) \<le> max_tracked_hotkeys"
  shows "in_window (rate_limit_window cfg) s (accepted_by c hist) \<le> rate_limit_max cfg"
  using window_bound [OF assms] .

theorem limiter_window_bound_witness:
  "in_window 60 1 (accepted_by ''v'' [(''v'', 0), (''v'', 1)]) \<le> 2"
  using limiter_window_bound [OF sample_limiter_run, of 1 "''v''"]
  by (simp add: sample_graph_def sample_limits_def max_tracked_hotkeys_def)

text \<open>
  The limiter's memory: every reachable state tracks at most a thousand hotkeys, each once and
  with at most the configured number of times.
\<close>

theorem limiter_memory_bound:
  assumes "limiter_run cfg mg hist prev st"
  shows "dict_ok st \<and> length st \<le> max_tracked_hotkeys \<and> list_all (\<lambda>ts. length ts \<le> rate_limit_max cfg) (dict_values st)"
  using reached_ok [OF assms] by (simp add: limiter_ok_def)

theorem limiter_memory_bound_witness:
  "dict_ok [(''v'', [0, 1 :: rat])] \<and> length [(''v'', [0, 1 :: rat])] \<le> max_tracked_hotkeys \<and>
   list_all (\<lambda>ts. length ts \<le> rate_limit_max sample_limits) (dict_values [(''v'', [0, 1 :: rat])])"
  by (rule limiter_memory_bound [OF sample_limiter_run])

text \<open>
  C8. A valid questionnaire is always answered: with complete datasets and a numeric override of the
  grid factor, the miner returns an estimate with a confidence in the unit interval, never an error code.
\<close>

theorem valid_questionnaire_is_answered:
  assumes "datasets_complete D" "validate_questionnaire P (syn_questionnaire syn) = Inr v"
    "dict_get (syn_context syn) ''grid_factor_override'' PNone = PNone \<or>
     returns (as_num (dict_get (syn_context syn) ''grid_factor_override'' PNone))"
  shows "\<exists>c. syn_confidence (forward D P sha256 dumps syn) = Some c \<and> between 0 1 c"
proof -
  obtain syn' where "estimate_synapse D P sha256 dumps syn = Inr syn'"
    using valid_is_answered [OF assms] by (rule returnsE)
  then show ?thesis using estimate_confidence by (simp add: forward_def)
qed

theorem valid_questionnaire_is_answered_witness:
  "\<exists>c. syn_confidence (forward sample_data sample_pydantic id (\<lambda>_. '''') sample_request) = Some c \<and> between 0 1 c"
proof -
  have "returns (validate_questionnaire sample_pydantic (syn_questionnaire sample_request))"
    by (simp add: validate_questionnaire_def sample_request_def query_synapse_def read_str_def read_industry_def
        read_services_def read_provided_def read_year_def validate_provided_def provided_schema_def validate_field_def
        sample_pydantic_def res_of_option_def flt_0_1)
  then obtain v where v: "validate_questionnaire sample_pydantic (syn_questionnaire sample_request) = Inr v"
    by (rule returnsE)
  show ?thesis
    by (rule valid_questionnaire_is_answered [OF sample_complete v])
      (simp add: sample_request_def query_synapse_def dict_get_def)
qed

text \<open>
  C11. Weights follow scores: whenever the sum of the scores is finite, a miner with a score at least as
  high as another's gets a weight at least as high.
\<close>

theorem weights_follow_scores:
  assumes "i < length raw" "j < length raw" "raw ! i \<le> raw ! j" "is_fin (py_sum raw)"
  shows "weights_of raw ! i \<le> weights_of raw ! j"
  by (rule weights_order [OF assms])

theorem weights_follow_scores_witness:
  "weights_of [Fin (1/4), Fin (1/2)] ! 0 \<le> weights_of [Fin (1/4), Fin (1/2)] ! 1"
  by (rule weights_follow_scores) (simp_all add: flt_eval)

text \<open>
  Selecting the miners of a round never picks a validator or an inactive node, never picks a node
  outside the metagraph and never picks one twice, whatever the random probe draws from the skipped.
\<close>

theorem selection_is_sound:
  assumes "\<And>xs k. set (sample xs k) \<subseteq> set xs \<and> distinct (sample xs k)"
  shows "distinct (select_miners cfg permit active n sample v) \<and>
    list_all (\<lambda>uid. uid < n \<and> \<not> permit ! uid \<and> active ! uid) (select_miners cfg permit active n sample v)"
  using select_miners_ok [where sample = sample, OF assms] by (auto simp: list_all_iff)

theorem selection_is_sound_witness:
  "distinct (select_miners sample_config [False, True, False] [True, True, True] 3 (\<lambda>xs k. take k (remdups xs)) sample_validator) \<and>
   list_all (\<lambda>uid. uid < 3 \<and> \<not> [False, True, False] ! uid \<and> [True, True, True] ! uid)
     (select_miners sample_config [False, True, False] [True, True, True] 3 (\<lambda>xs k. take k (remdups xs)) sample_validator)"
  by (rule selection_is_sound) (auto dest: in_set_takeD)

text \<open>
  Renewable certificates only lower the market-based figure: with non-negative grid factors and no
  override it lies between zero and the location-based figure.
\<close>

theorem certificates_only_lower:
  assumes "grid_ok D" "rnd k = k" "\<bar>k\<bar> < 2 ^ 1024" "0 \<le> rec_kwh"
    "calc_location_based D (Fin k) region = Inr loc" "calc_market_based D (Fin k) region PNone rec_kwh = Inr mkt"
  shows "0 \<le> mkt \<and> mkt \<le> loc"
  by (rule recs_only_lower [OF assms])

theorem certificates_only_lower_witness:
  "\<exists>loc mkt. calc_location_based sample_data (Fin 1000) ''FR'' = Inr loc \<and>
     calc_market_based sample_data (Fin 1000) ''FR'' PNone (Fin 600) = Inr mkt \<and> 0 \<le> mkt \<and> mkt \<le> loc"
proof -
  obtain loc where loc: "calc_location_based sample_data (Fin 1000) ''FR'' = Inr loc"
    using location_returns [OF sample_complete] by (rule returnsE)
  obtain mkt where mkt: "calc_market_based sample_data (Fin 1000) ''FR'' PNone (Fin 600) = Inr mkt"
    using market_returns [OF sample_complete disjI1 [OF refl]] by (rule returnsE)
  have "rnd 1000 = 1000" using rnd_of_int [of 1000] by simp
  then show ?thesis
    using certificates_only_lower [OF sample_grid _ _ _ loc mkt] loc mkt by (simp add: flt_0_1)
qed

text \<open>
  Gap filling keeps every category already estimated and stays within the budget: it adds at most
  the part of the estimated total that is not yet accounted for, and the rounding of the filled
  categories to cents.
\<close>

theorem gap_filling_within_budget:
  assumes "get_industry_profile (industries D) industry = Inr profile" "estimate_scope3 profile data = Inr (Fin e)"
    "0 < e" "e \<le> 10 ^ 11" "dict_ok detail" "values_nonneg detail" "py_sum (dict_values detail) = Fin a" "0 \<le> a" "a \<le> 10 ^ 11"
  shows "\<exists>filled. fill_industry_defaults D detail industry data = Inr filled \<and> values_nonneg filled \<and>
    (\<forall>cat v. map_of detail cat = Some v \<longrightarrow> 0 < v \<longrightarrow> map_of filled cat = Some v) \<and>
    exact_total filled \<le> exact_total detail + max 0 (e - a) + of_nat (length (scope3_materiality profile)) * (6/1000)"
proof -
  let ?ps = "normalize_materiality (scope3_materiality profile)"
  define filled where "filled = fst (foldl (fill_step (Fin e)) (detail, py_sum (dict_values detail)) ?ps)"
  have "fill_industry_defaults D detail industry data = Inr filled"
    using assms(1-3) by (simp add: fill_industry_defaults_def filled_def flt_0_1)
  moreover have "length ?ps = length (scope3_materiality profile)"
    by (simp add: normalize_materiality_def Let_def)
  ultimately show ?thesis
    using fill_within_budget [OF assms(5-9) assms(3,4) filled_def [symmetric]] fill_keeps [of _ "(detail, py_sum (dict_values detail))" _ "Fin e" ?ps]
    by (auto simp: filled_def)
qed

theorem gap_filling_within_budget_witness:
  "\<exists>filled. fill_industry_defaults sample_data [(''cat1_purchased_goods'', Fin 1000)] ''manufacturing''
       [(''revenue_usd'', PNum (Fin 1000000))] = Inr filled \<and> values_nonneg filled \<and>
     (\<forall>cat v. map_of [(''cat1_purchased_goods'', Fin 1000)] cat = Some v \<longrightarrow> 0 < v \<longrightarrow> map_of filled cat = Some v) \<and>
     exact_total filled \<le> exact_total [(''cat1_purchased_goods'', Fin 1000)] + max 0 (4000 - 1000)
       + of_nat (length (scope3_materiality sample_profile)) * (6/1000)"
proof (rule gap_filling_within_budget)
  show "get_industry_profile (industries sample_data) ''manufacturing'' = Inr sample_profile"
    by (simp add: get_industry_profile_def sample_data_def dict_get_def)
  show "estimate_scope3 sample_profile [(''revenue_usd'', PNum (Fin 1000000))] = Inr (Fin 4000)"
    by (simp add: estimate_scope3_def sample_profile_def dict_item_def get_or_zero_def flt_eval rnd_def Let_def)
  show "py_sum (dict_values [(''cat1_purchased_goods'', Fin 1000)]) = Fin 1000"
    by (simp add: flt_eval rnd_def Let_def)
qed (simp_all add: values_nonneg_def flt_0_1)

text \<open>
  Providing more data never lowers the completeness score: if every field of the industry's table
  provided in one data set is provided in another, the other's score is at least as high.
\<close>

theorem more_data_more_complete:
  assumes "\<And>f. f \<in> set (dict_keys (dict_get field_weights industry default_weights)) \<Longrightarrow> provides d1 f \<Longrightarrow> provides d2 f"
  shows "\<exists>a b. calc_data_completeness d1 industry = Fin a \<and> calc_data_completeness d2 industry = Fin b \<and> a \<le> b"
  by (rule completeness_mono [OF assms])

theorem more_data_more_complete_witness:
  "\<exists>a b. calc_data_completeness [(''vehicle_km'', PNum 1)] ''retail'' = Fin a \<and>
     calc_data_completeness [(''vehicle_km'', PNum (Fin 5)), (''fuel_type'', PStr ''lpg'')] ''retail'' = Fin b \<and> a \<le> b"
  by (rule more_data_more_complete) (auto simp: flt_0_1 feq_def split: if_splits)

text \<open>
  C12. The dataset cache is fresh: with a collision-free digest, every load serves a content the file
  had within the last hour, and keeps the cache a record of past readings.
\<close>

theorem cache_serves_fresh_data:
  assumes "inj sha" "cache_faithful parse_json sha hist now cache"
    "load_factors parse_json sha (hist now) dataset now cache = Inr (data, cache')"
  shows "cache_faithful parse_json sha hist now cache' \<and>
    (\<exists>path t. map_of dataset_files dataset = Some path \<and> t \<le> now \<and> now - t < cache_ttl_seconds \<and>
       data = parse_json (hist t path))"
  using load_factors_fresh [OF assms] by blast

theorem cache_serves_fresh_data_witness:
  "\<exists>data cache'. load_factors id id (\<lambda>path. path) ''gwp'' 10 [] = Inr (data, cache') \<and>
     cache_faithful id id (\<lambda>t path. path) 10 cache' \<and> data = ''gwp_ar6.json''"
proof -
  have run: "load_factors id id (\<lambda>path. path) ''gwp'' 10 [] =
      Inr (''gwp_ar6.json'', [(''gwp'', read_dataset id id ''gwp_ar6.json'' 10)])"
    by (simp add: load_factors_def dataset_files_def Let_def read_dataset_def)
  show ?thesis
    using cache_serves_fresh_data [of id id "\<lambda>t path. path" 10 "[]" "''gwp''"] run
    by (simp add: cache_faithful_def [of _ _ _ _ "[]"])
qed

text \<open>
  Persisted scores survive a restart and an altered score file is rejected: under the same key a
  saved file loads back to the same scores, and a file whose digest differs starts fresh.
\<close>

theorem saved_scores_load_back:
  assumes "\<And>s. \<exists>j. loads (dumps s) = Some j \<and> scores_of j = Inr s" "\<And>k m. py_strip (hmac k m) = hmac k m"
    "key \<noteq> []" "save_scores dumps hmac (Inr key) scores disk = (r, disk')"
  shows "r = Inr () \<and> load_scores loads scores_of hmac empty_scores (Inr key) disk' = Inr scores \<and>
    (hmac key raw \<noteq> hmac key (dumps scores) \<longrightarrow>
     load_scores loads scores_of hmac empty_scores (Inr key) (disk'\<lparr>score_file := Some raw\<rparr>) = Inr empty_scores)"
proof (intro conjI impI)
  show "r = Inr ()" "load_scores loads scores_of hmac empty_scores (Inr key) disk' = Inr scores"
    using save_load [OF assms, of empty_scores] by simp_all
  show "load_scores loads scores_of hmac empty_scores (Inr key) (disk'\<lparr>score_file := Some raw\<rparr>) = Inr empty_scores"
    if "hmac key raw \<noteq> hmac key (dumps scores)"
    by (rule altered_rejected [OF assms(2-4) that])
qed

theorem saved_scores_load_back_witness:
  "load_scores Some (\<lambda>j. Inr j) (\<lambda>k m. py_strip (k @ m)) [] (Inr ''k'')
     (snd (save_scores (\<lambda>s. s) (\<lambda>k m. py_strip (k @ m)) (Inr ''k'') ''scores'' \<lparr>score_file = None, sig_file = None\<rparr>)) = Inr ''scores''"
  using saved_scores_load_back [of Some "\<lambda>s. s" "\<lambda>j. Inr j" "\<lambda>k m. py_strip (k @ m)" "''k''" "''scores''"
      "\<lparr>score_file = None, sig_file = None\<rparr>", OF _ _ _ surjective_pairing]
  by simp

text \<open>
  Without a signature file nothing is verified: any parseable score file is taken as it is, with or
  without a key.
\<close>

theorem unsigned_scores_are_accepted:
  assumes "sig_file disk = None" "score_file disk = Some raw" "loads raw = Some data" "scores_of data = Inr scores"
  shows "load_scores loads scores_of hmac empty_scores hmac_key disk = Inr scores"
  by (rule unsigned_accepted [of disk raw loads data scores_of scores]) (fact assms)+

theorem unsigned_scores_are_accepted_witness:
  "load_scores Some (\<lambda>j. Inr j) (\<lambda>k m. k @ m) [] (Inr ''key'') \<lparr>score_file = Some ''forged'', sig_file = None\<rparr> = Inr ''forged''"
  by (rule unsigned_scores_are_accepted) simp_all

text \<open>
  A miner that answers NaN for every scope passes every check: without ground truth it earns a final
  score of 0.95 for any well-formed questionnaire, because every comparison with NaN is false.
\<close>

theorem nan_answer_scores_high:
  assumes "list_all (num_at (provided_data q)) confidence_fields" "map_of inds ''manufacturing'' = Some m"
    "typical_scope_split (dict_get inds industry m) \<noteq> []"
    "bd \<noteq> []" "0 \<le> c" "c < lit (7/10)" "src \<noteq> []" "asm \<noteq> []"
  shows "\<exists>r. score_response inds nan_emissions (Some bd) (Some c) (Some src) (Some asm) q None industry = Inr r \<and>
    sr_final r = lit (95/100)"
  by (rule nan_response_score [OF assms])

theorem nan_answer_scores_high_witness:
  "\<exists>r. score_response [(''manufacturing'', sample_profile)] nan_emissions (Some [(''scope1_detail'', PNone)]) (Some (Fin (1/2)))
     (Some [''EPA'']) (Some [''none'']) \<lparr>q_industry = None, q_region = None, provided_data = [(''electricity_kwh'', PNum (Fin 5))]\<rparr> None
     ''retail'' = Inr r \<and> sr_final r = lit (95/100)"
proof (rule nan_answer_scores_high [where m = sample_profile])
  show "typical_scope_split (dict_get [(''manufacturing'', sample_profile)] ''retail'' sample_profile) \<noteq> []"
    by (simp add: dict_get_def sample_profile_def)
qed (simp_all add: confidence_fields_def num_at_def flt_eval flt_0_1 rnd_def Let_def)

text \<open>
  C13. What the protocol lets through: after the field validators of a synapse no total is negative, and
  a confidence is an error code, NaN or in the unit interval.
\<close>

theorem validated_synapse_fields:
  "(case check_emissions (Some d) of
      Inr m \<Rightarrow> (case m of Some d' \<Rightarrow> list_all (not_negative_at d') total_keys | None \<Rightarrow> False)
    | Inl e \<Rightarrow> e = TypeError) \<and>
   (case clamp_confidence (Some x) of Some y \<Rightarrow> between 0 1 y \<or> y < 0 \<or> y = NaN | None \<Rightarrow> False)"
proof
  have "e = TypeError" if "clean_keys ks d = Inl e" for ks e
    using that by (induction ks d rule: clean_keys.induct)
      (auto simp: bind_r_Inl_iff split: option.splits pyval.splits elim!: as_num.elims)
  then show "case check_emissions (Some d) of
      Inr m \<Rightarrow> (case m of Some d' \<Rightarrow> list_all (not_negative_at d') total_keys | None \<Rightarrow> False)
    | Inl e \<Rightarrow> e = TypeError"
    using check_emissions_not_negative [of d]
    by (cases "clean_keys total_keys d") (auto simp: check_emissions_def list_all_iff)
  show "case clamp_confidence (Some x) of Some y \<Rightarrow> between 0 1 y \<or> y < 0 \<or> y = NaN | None \<Rightarrow> False"
    using clamp_confidence_cases [of x] by (simp add: clamp_confidence_def split: option.split)
qed

text \<open>
  C9. The ground truth of a synthetic case is what an honest miner answers: whatever the draws and whatever
  share of the fields is kept, the generator returns a case that keeps at least one field, with a fuel type
  whenever there is fuel. The miner accepts its questionnaire and reports the figures of the ground truth bit
  by bit, which earns the full accuracy when they are finite and not negative.
\<close>

theorem honest_miner_is_exact:
  assumes "datasets_complete D" "pydantic_ok P" "draws_ok g" "between 0 1 level"
  shows "\<exists>c k' data gt. generate_synthetic_query D g level k = Inr (c, k') \<and>
    map_of (tc_questionnaire c) ''provided_data'' = Some (PDict data) \<and> data \<noteq> [] \<and>
    (map_of data ''fuel_use_liters'' \<noteq> None \<longrightarrow> map_of data ''fuel_type'' \<noteq> None) \<and> tc_ground_truth c = Some gt \<and>
    syn_emissions (forward D P sha256 dumps (query_synapse (test_case.truncate c))) = Some (map (\<lambda>(f, x). (f, PNum x)) gt) \<and>
    (set (dict_values gt) \<subseteq> {x. \<exists>r \<ge> 0. x = Fin r} \<longrightarrow>
       calc_accuracy_score (map (\<lambda>(f, x). (f, PNum x)) gt) gt = Inr 1)"
proof -
  obtain c k' data industry region where c: "generate_synthetic_query D g level k = Inr (c, k')" "sound_case c data industry region"
      "map_of data ''waste_kg'' = None" "data \<noteq> []" "map_of data ''fuel_use_liters'' \<noteq> None \<longrightarrow> map_of data ''fuel_type'' \<noteq> None"
      "compute_ground_truth D c = Inr (the (tc_ground_truth c))" "tc_ground_truth c \<noteq> None"
    by (rule synthetic_run [OF assms, of k])
  have d: "map_of (tc_questionnaire c) ''provided_data'' = Some (PDict data)" using c(2) by (simp add: sound_case_def Let_def)
  obtain gt where gt: "tc_ground_truth c = Some gt" "map fst gt = [''scope1'', ''scope2'', ''scope3'', ''total'']"
      "syn_emissions (forward D P sha256 dumps (query_synapse (test_case.truncate c))) = Some (map (\<lambda>(f, x). (f, PNum x)) gt)"
    using sound_truth [OF assms(1,2) c(2,3), of "test_case.truncate c" sha256 dumps] c(6,7) by (auto simp: test_case.defs)
  show ?thesis using c(1,4,5) d gt exact_accuracy [OF gt(2)] by blast
qed

theorem honest_miner_is_exact_witness:
  "\<exists>c k' gt. generate_synthetic_query sample_data \<lparr>rn_random = (\<lambda>_. 0), rn_below = (\<lambda>_ _. 0)\<rparr> (Fin (1/2)) 0 = Inr (c, k') \<and>
    tc_ground_truth c = Some gt \<and>
    syn_emissions (forward sample_data sample_pydantic id (\<lambda>_. '''') (query_synapse (test_case.truncate c))) =
      Some (map (\<lambda>(f, x). (f, PNum x)) gt)"
proof -
  have "pydantic_ok sample_pydantic" by (rule sample_pydantic_ok)
  moreover have "draws_ok \<lparr>rn_random = (\<lambda>_. 0), rn_below = (\<lambda>_ _. 0)\<rparr>" by (simp add: draws_ok_def)
  moreover have "between 0 1 (Fin (1/2))" by simp
  ultimately show ?thesis using honest_miner_is_exact [OF sample_complete] by blast
qed

text \<open>
  C10. The curated cases: each gets its ground truth and is found by its identifier. Those without a figure for
  waste are answered by an honest miner with exactly that ground truth. The one with fifty million liters of fuel
  is more than the miner's validation accepts: whatever the ground truth, the answer is an error code and zeros.
\<close>

theorem curated_cases_are_answered:
  assumes "datasets_complete D" "pydantic_ok P"
  shows "\<exists>cs. get_curated_cases D = Inr cs \<and> map nc_id cs = map nc_id CURATED_CASES \<and>
    (\<forall>c \<in> set cs. get_case_by_id D (nc_id c) = Inr (Some c)) \<and>
    (\<forall>c \<in> set cs. nc_id c \<notin> {''mega_corp_extreme_scale'', ''construction_mixed_fleet''} \<longrightarrow>
       syn_emissions (forward D P sha256 dumps (query_synapse (test_case.truncate c))) =
         Some (map (\<lambda>(f, x). (f, PNum x)) (the (tc_ground_truth c)))) \<and>
    (\<forall>c \<in> set cs. nc_id c = ''mega_corp_extreme_scale'' \<longrightarrow>
       syn_confidence (forward D P sha256 dumps (query_synapse (test_case.truncate c))) = Some (Fin (- 1)) \<and>
       syn_emissions (forward D P sha256 dumps (query_synapse (test_case.truncate c))) = Some (totals 0 0 0 0))"
proof (intro exI conjI ballI impI)
  show "get_curated_cases D = Inr (map (with_truth D) CURATED_CASES)" by (rule curated_cases_run [OF assms(1)])
  show "map nc_id (map (with_truth D) CURATED_CASES) = map nc_id CURATED_CASES" by (simp add: comp_def)
  fix c assume c: "c \<in> set (map (with_truth D) CURATED_CASES)"
  show "get_case_by_id D (nc_id c) = Inr (Some c)" by (rule case_found [OF assms(1) c])
  from c obtain c0 where c0: "c = with_truth D c0" "c0 \<in> set CURATED_CASES" unfolding set_map by (rule imageE)
  show "syn_emissions (forward D P sha256 dumps (query_synapse (test_case.truncate c))) =
      Some (map (\<lambda>(f, x). (f, PNum x)) (the (tc_ground_truth c)))"
    if "nc_id c \<notin> {''mega_corp_extreme_scale'', ''construction_mixed_fleet''}"
    using that unfolding c0(1) by (intro curated_exact [OF assms c0(2)]) (simp add: reports_waste_def oversized_def)
  show "syn_confidence (forward D P sha256 dumps (query_synapse (test_case.truncate c))) = Some (Fin (- 1))"
    "syn_emissions (forward D P sha256 dumps (query_synapse (test_case.truncate c))) = Some (totals 0 0 0 0)"
    if "nc_id c = ''mega_corp_extreme_scale''"
    using oversized_refused [OF assms(2) c0(2), of "test_case.truncate c" D sha256 dumps] that
    by (simp_all add: c0(1) oversized_def test_case.defs)
qed

theorem curated_cases_are_answered_witness:
  "\<exists>cs. get_curated_cases sample_data = Inr cs \<and> map nc_id cs = map nc_id CURATED_CASES"
  using curated_cases_are_answered [OF sample_complete sample_pydantic_ok] by blast

end
