(* ===== verification/Platform_Properties.thy ===== *)
theory Platform_Properties
imports Samples
begin

text \<open>The properties of the platform's services, each applied to the sample database.\<close>

text \<open>
  C14. The credit ledger refines an abstract balance: after any sequence of grants and deductions,
  including refused ones, the balance the service reports is that of the abstract ledger, and the
  ledger's entries stay consistent and never negative.
\<close>

theorem ledger_refines_balance:
  assumes "ledger_ok s" "list_all (\<lambda>op. 0 \<le> op_amount op) ops"
  shows "let s' = run_ops grant_credits deduct_credits ops s; b = spec_ops ops (balance_of s)
    in ledger_ok s' \<and> 0 \<le> b c \<and> get_credit_balance c s' = Inr (b c, s')"
proof -
  define s' where "s' = run_ops grant_credits deduct_credits ops s"
  have "ledger_ok s'" and b: "balance_of s' = spec_ops ops (balance_of s)"
    using credits.ops_refine [OF assms] by (simp_all add: s'_def)
  then have "ledger_ok s' \<and> 0 \<le> balance_of s' c \<and> get_credit_balance c s' = Inr (balance_of s' c, s')"
    using credits.balance_law get_balance_refines(1) by blast
  then show ?thesis unfolding Let_def s'_def [symmetric] b .
qed

theorem ledger_refines_balance_witness:
  "get_credit_balance 2 (run_ops grant_credits deduct_credits
     [Deduct 2 700 Manual, Grant 2 300 Manual, Deduct 2 700 Manual] sample_db) =
   Inr (100, run_ops grant_credits deduct_credits [Deduct 2 700 Manual, Grant 2 300 Manual, Deduct 2 700 Manual] sample_db)"
  using ledger_refines_balance [OF sample_ledger, of "[Deduct 2 700 Manual, Grant 2 300 Manual, Deduct 2 700 Manual]" 2]
  by (simp add: spec_ops_def sample_balance Let_def)

text \<open>
  A change of plan moves the balance as documented: an upgrade adds the difference of the monthly
  credits, a downgrade caps the balance at the new plan's credits, no other company is touched and the
  company keeps its one subscription.
\<close>

theorem change_plan_adjusts_balance:
  assumes "ledger_ok s" "subscriptions_ok s" "active_subscriptions c s = [sub]" "map_of plan_of_name name = Some new"
  shows "\<exists>s'. change_plan c name s = Inr (sub\<lparr>sub_plan := new\<rparr>, s') \<and>
    active_subscriptions c s' = [sub\<lparr>sub_plan := new\<rparr>] \<and> ledger_ok s' \<and> subscriptions_ok s' \<and>
    (\<forall>d. balance_of s' d = (if d = c
       then adjusted (monthly_credits (sub_plan sub)) (monthly_credits new) (balance_of s c) else balance_of s d))"
  by (rule change_plan_effect [OF assms])

theorem change_plan_adjusts_balance_witness:
  "\<exists>s'. change_plan 2 ''pro'' sample_db = Inr (sample_subscription\<lparr>sub_plan := Pro\<rparr>, s') \<and> balance_of s' 2 = 1400"
  using change_plan_adjusts_balance [OF sample_ledger sample_subscriptions, of "''pro''" Pro]
  by (auto simp: plan_of_name_def adjusted_def sample_balance sample_subscription_def)

text \<open>
  Upgrading, spending the granted credits and downgrading again returns a company to the state it
  started from, with the free plan and a zero balance, having spent 900 credits; nothing limits the number
  of cycles.
\<close>

theorem upgrade_cycle_yields_credits:
  assumes "ledger_ok s" "subscriptions_ok s" "active_subscriptions c s = [sub]" "sub_plan sub = Free" "balance_of s c = 0"
  shows "\<exists>sub1 s1 e s2 sub3 s3. change_plan c ''pro'' s = Inr (sub1, s1) \<and>
    deduct_credits c 900 r s1 = Inr (e, s2) \<and> change_plan c ''free'' s2 = Inr (sub3, s3) \<and>
    ledger_ok s3 \<and> subscriptions_ok s3 \<and> active_subscriptions c s3 = [sub3] \<and> sub_plan sub3 = Free \<and> balance_of s3 c = 0"
  by (rule upgrade_cycle [OF assms])

theorem upgrade_cycle_yields_credits_witness:
  "\<exists>sub1 s1 e s2 sub3 s3. change_plan 2 ''pro'' (sample_db\<lparr>credit_ledger := []\<rparr>) = Inr (sub1, s1) \<and>
    deduct_credits 2 900 Manual s1 = Inr (e, s2) \<and> change_plan 2 ''free'' s2 = Inr (sub3, s3) \<and>
    ledger_ok s3 \<and> subscriptions_ok s3 \<and> active_subscriptions 2 s3 = [sub3] \<and> sub_plan sub3 = Free \<and> balance_of s3 2 = 0"
  by (rule upgrade_cycle_yields_credits [where sub = sample_subscription])
    (simp_all add: ledger_ok_def company_ledger_def balance_of_def subscriptions_ok_def active_subscriptions_def
      sample_db_def sample_subscription_def)

text \<open>
  A company whose only subscription row is deleted can never get a subscription again: the unique
  constraint counts the deleted row, so every metered request ends in an integrity error.
\<close>

theorem deleted_subscription_locks_out:
  assumes "has_subscription_row c s" "active_subscriptions c s = []"
  shows "get_or_create_subscription c s = Inl IntegrityError \<and> check_credit_balance c operation s = Inl IntegrityError \<and>
    check_feature_access c feature s = Inl IntegrityError"
proof -
  have "get_or_create_subscription c s = Inl IntegrityError" by (rule deleted_subscription_blocks [OF assms])
  then show ?thesis by (simp add: check_credit_balance_def check_feature_access_def get_plan_limits_def)
qed

theorem deleted_subscription_locks_out_witness:
  "get_or_create_subscription 2 (sample_db\<lparr>subscriptions := [sample_subscription\<lparr>sub_deleted_at := Some 9\<rparr>]\<rparr>) = Inl IntegrityError"
  using deleted_subscription_locks_out
    [of 2 "sample_db\<lparr>subscriptions := [sample_subscription\<lparr>sub_deleted_at := Some 9\<rparr>]\<rparr>" "''estimate''" "''webhooks''"]
  by (simp add: has_subscription_row_def active_subscriptions_def sample_subscription_def)

text \<open>
  C15. A purchase is paid for exactly once: it needs an active listing of another company that the buyer has
  not bought, records one purchase, moves exactly the price from buyer to seller and leaves every other
  balance and all listings alone.
\<close>

theorem purchase_moves_price:
  assumes "market_ok s" "purchase_listing listing_id buyer s = Inr (p, s')"
  shows "\<exists>listing. find_listing listing_id s = Inr (Some listing) \<and> dl_seller_company_id listing \<noteq> buyer \<and>
    data_purchases s' = data_purchases s @ [p] \<and> data_listings s' = data_listings s \<and>
    dp_listing_id p = listing_id \<and> dp_buyer_company_id p = buyer \<and> dp_price_credits p = dl_price_credits listing \<and>
    market_ok s' \<and>
    (let price = max 0 (dl_price_credits listing); seller = dl_seller_company_id listing
     in price \<le> balance_of s buyer \<and> balance_of s' buyer = balance_of s buyer - price \<and>
        balance_of s' seller = balance_of s seller + price \<and>
        (\<forall>d. d \<noteq> buyer \<longrightarrow> d \<noteq> seller \<longrightarrow> balance_of s' d = balance_of s d))"
  by (rule purchase_effect [OF assms])

lemma sample_purchase: "\<exists>p s'. purchase_listing 7 2 sample_db = Inr (p, s')"
proof -
  obtain p s1 where 1: "insert_purchase 7 2 200 sample_db = Inr (p, s1)"
    by (simp add: insert_purchase_def bind_s_def Let_def sample_db_def empty_db_def purchases_of_def)
  note s1 = insert_purchase_effect [OF 1]
  have "ledger_ok s1" "balance_of s1 2 = 500"
    using s1 by (auto simp: ledger_ok_def balance_of_def company_ledger_def sample_db_def sample_entry_def)
  then obtain e s' where "pay 2 1 200 s1 = Inr (e, s')"
    using pay_frame [of s1 200 2 1] by auto
  then show ?thesis
    using 1 by (simp add: purchase_listing_def get_listing_by_id_def sample_find_listing sample_no_purchases bind_s_def)
      (simp add: sample_listing_def)
qed

theorem purchase_moves_price_witness:
  "\<exists>p s'. purchase_listing 7 2 sample_db = Inr (p, s') \<and> balance_of s' 2 = 300 \<and> balance_of s' 1 = 200"
proof -
  obtain p s' where 1: "purchase_listing 7 2 sample_db = Inr (p, s')" using sample_purchase by blast
  show ?thesis
    using purchase_moves_price [OF sample_market 1] 1
    by (auto simp: sample_find_listing sample_balance Let_def) (auto simp: sample_listing_def)
qed

text \<open>
  A purchase the buyer cannot pay for fails with the documented error, and a listing that was
  withdrawn is found by nobody and can be bought by nobody.
\<close>

theorem purchase_refusals:
  assumes "market_ok s"
  shows "(purchases_of listing_id buyer s = [] \<and> find_listing listing_id s = Inr (Some listing) \<and>
      dl_seller_company_id listing \<noteq> buyer \<and> 0 < dl_price_credits listing \<and> balance_of s buyer < dl_price_credits listing \<longrightarrow>
      purchase_listing listing_id buyer s = Inl (InsufficientCredits (balance_of s buyer) (dl_price_credits listing))) \<and>
    (withdraw_listing listing_id c s = Inr (Some l, s') \<longrightarrow> find_listing listing_id s' = Inr None \<and>
      purchase_listing listing_id buyer s' = Inl (ValueError ''Listing not found or no longer available''))"
  using purchase_too_expensive [OF assms] withdrawn_unavailable [OF assms] by blast

theorem purchase_refusals_witness:
  "purchase_listing 7 3 sample_db = Inl (InsufficientCredits 0 200)"
  using purchase_refusals [OF sample_market, of 7 3 sample_listing]
  by (simp add: sample_find_listing sample_no_purchases sample_balance) (simp add: sample_listing_def)

text \<open>
  The seller's revenue report agrees with the payments: a purchase raises the revenue of its seller
  by the price and the number of sales by one, and nobody else's.
\<close>

theorem revenue_follows_purchases:
  assumes "market_ok s" "purchase_listing listing_id buyer s = Inr (p, s')" "find_listing listing_id s = Inr (Some listing)"
  shows "total_revenue_credits (get_seller_revenue c s') = total_revenue_credits (get_seller_revenue c s) +
      (if c = dl_seller_company_id listing then dl_price_credits listing else 0) \<and>
    total_sales (get_seller_revenue c s') = total_sales (get_seller_revenue c s) + (if c = dl_seller_company_id listing then 1 else 0)"
  using revenue_effect [OF assms] by blast

theorem revenue_follows_purchases_witness:
  "\<exists>p s'. purchase_listing 7 2 sample_db = Inr (p, s') \<and> total_revenue_credits (get_seller_revenue 1 s') = 200 \<and>
     total_sales (get_seller_revenue 1 s') = 1"
proof -
  obtain p s' where 1: "purchase_listing 7 2 sample_db = Inr (p, s')" using sample_purchase by blast
  have "get_seller_revenue 1 sample_db = \<lparr>total_revenue_credits = 0, total_sales = 0, active_listing_count = 1\<rparr>"
    by (simp add: get_seller_revenue_def sales_of_def sample_db_def empty_db_def sample_listing_def)
  then show ?thesis
    using revenue_follows_purchases [OF sample_market 1 sample_find_listing, of 1] 1 by (auto simp: sample_listing_def)
qed

text \<open>
  C16. The review workflow: every review in the database is reachable from a draft, so who submitted and
  who reviewed it agrees with its status; an action follows an allowed move; only an admin approves or
  rejects; and an approved review never changes again.
\<close>

theorem review_workflow:
  assumes "reviews_ok s" "review \<in> set (data_reviews s)" "perform_action review action u role remarks s = Inr (r, s')"
  shows "reviews_ok s' \<and> review_ok r \<and> allowed_move (dr_status review) (dr_status r) \<and> dr_status review \<noteq> Approved \<and>
    (dr_status r \<in> {Approved, Rejected} \<longrightarrow> role = ''admin'' \<and> dr_reviewed_by r = Some u)"
proof -
  have t: "review_transition action u role remarks (db_now s) review = Inr r" using perform_action_run [OF assms(3)] by blast
  have ok: "reviews_ok s'" "review_step review r" "allowed_move (dr_status review) (dr_status r)"
    using perform_action_ok [OF assms] by blast+
  moreover have "review_reachable r"
    using assms(1,2) ok(2) by (auto simp: reviews_ok_def list_all_iff intro: review_reachable.step)
  ultimately show ?thesis
    using reachable_ok approval_needs_admin [OF t] approved_is_final [of review action u role remarks "db_now s"] t by auto
qed

theorem review_workflow_witness:
  "\<exists>r s'. perform_action sample_review ''submit'' 3 ''member'' None sample_db = Inr (r, s') \<and> reviews_ok s' \<and> review_ok r \<and>
     dr_status r = Submitted"
proof -
  obtain r s' where 1: "perform_action sample_review ''submit'' 3 ''member'' None sample_db = Inr (r, s')" "dr_status r = Submitted"
    by (simp add: perform_action_def review_transition_def bind_s_def sample_review_def)
  show ?thesis
    using review_workflow [OF sample_reviews _ 1(1)] 1 by (auto simp: sample_db_def)
qed

text \<open>
  C17. Supply chain links stay unique and honest: every operation keeps at most one row for each buyer and
  supplier, no company supplies itself, and a new link starts pending.
\<close>

theorem links_stay_unique:
  assumes "links_ok s"
  shows "(case create_link buyer supplier spend category notes s of
        Inr (l, s') \<Rightarrow> links_ok s' \<and> buyer \<noteq> supplier \<and> scl_status l = Link_Pending | Inl e \<Rightarrow> True) \<and>
    (case remove_link i c s of Inr (b, s') \<Rightarrow> links_ok s' | Inl e \<Rightarrow> True) \<and>
    (case update_link_status i c st s of Inr (m, s') \<Rightarrow> links_ok s' | Inl e \<Rightarrow> True)"
  using create_link_ok [OF assms] create_link_run(1,4) remove_link_ok [OF assms] update_status_ok [OF assms]
  by (auto split: sum.split)

theorem links_stay_unique_witness:
  "\<exists>l s'. create_link 2 1 None ''goods'' None sample_db = Inr (l, s') \<and> links_ok s' \<and> scl_status l = Link_Pending"
proof -
  obtain l s' where 1: "create_link 2 1 None ''goods'' None sample_db = Inr (l, s')"
    by (simp add: create_link_def bind_s_def live_links_def Let_def sample_db_def sample_link_def)
  show ?thesis
    using links_stay_unique [OF sample_links, of 2 1 None "''goods''" None 0 0 Link_Pending] 1 by simp
qed

text \<open>
  A link that was removed can never be made again: the soft-deleted row still holds the pair of the
  unique constraint, and the request ends in an integrity error instead of the documented one.
\<close>

theorem removed_link_cannot_return:
  assumes "links_ok s" "find_link link_id buyer s = Inr (Some l)" "remove_link link_id buyer s = Inr (True, s')"
  shows "create_link buyer (scl_supplier_company_id l) spend category notes s' = Inl IntegrityError"
  by (rule removed_link_blocks [OF assms])

theorem removed_link_cannot_return_witness:
  "\<exists>s'. remove_link 8 1 sample_db = Inr (True, s') \<and> create_link 1 2 None ''goods'' None s' = Inl IntegrityError"
proof -
  obtain s' where 1: "remove_link 8 1 sample_db = Inr (True, s')"
    by (simp del: One_nat_def add: remove_link_def sample_find_link bind_s_def)
  show ?thesis
    using removed_link_cannot_return [OF sample_links sample_find_link 1] 1 by (simp add: sample_link_def)
qed

text \<open>
  The supplier report never counts more verified rows than the buyer has links, as report times are
  distinct and so each verified supplier contributes one row.
\<close>

theorem coverage_counts:
  assumes "reports_ok s"
  shows "ss_verified_count (calc_supplier_scope3 buyer year s) \<le> ss_supplier_count (calc_supplier_scope3 buyer year s) \<and>
    length (ss_details (calc_supplier_scope3 buyer year s)) \<le> ss_verified_count (calc_supplier_scope3 buyer year s)"
proof -
  have "length (snd (attribute_rows total rows acc)) \<le> length (snd acc) + length rows" for total rows acc
    by (induction total rows acc rule: attribute_rows.induct) (auto simp: Let_def)
  from this [of _ _ "(0, [])"] show ?thesis
    using verified_at_most_all [OF assms, of buyer year]
    by (auto simp: calc_supplier_scope3_def Let_def split: prod.split) (metis snd_conv)
qed

theorem coverage_counts_witness:
  "ss_verified_count (calc_supplier_scope3 1 None sample_db) \<le> ss_supplier_count (calc_supplier_scope3 1 None sample_db) \<and>
   length (ss_details (calc_supplier_scope3 1 None sample_db)) \<le> ss_verified_count (calc_supplier_scope3 1 None sample_db)"
  by (rule coverage_counts [OF sample_reports])

text \<open>
  The alert check never fails, only appends alerts of the company, each unread, and raises each of the two
  kinds at most once.
\<close>

theorem alerts_once_each:
  "\<exists>as s'. check_company_alerts cfg c s = Inr (as, s') \<and> alerts s' = alerts s @ as \<and>
     map al_alert_type as \<in> {[], [Emission_Increase], [Confidence_Drop], [Emission_Increase, Confidence_Drop]} \<and>
     list_all (\<lambda>a. al_company_id a = c \<and> \<not> al_is_read a) as"
  by (rule check_alerts_run)

text \<open>
  Lower emissions never get a worse label: against the same positive industry average, a company with
  emissions at most another's is ranked at least as well, and one at the average is in the middle.
\<close>

theorem rank_follows_emissions:
  assumes "a \<le> b" "0 < t"
  shows "classify_rank (pct_diff a (Fin t)) \<le> classify_rank (pct_diff b (Fin t)) \<and>
    classify_rank (pct_diff (Fin t) (Fin t)) = Median"
  using rank_mono [OF assms] average_is_median by blast

theorem rank_follows_emissions_witness:
  "classify_rank (pct_diff (Fin 50) (Fin 100)) \<le> classify_rank (pct_diff (Fin 120) (Fin 100)) \<and>
   classify_rank (pct_diff (Fin 100) (Fin 100)) = Median"
  by (rule rank_follows_emissions) simp_all

text \<open>
  Attribution of financed emissions: an owner of a part of a company gets a factor in the unit interval
  and between none and all of the company's emissions, and the portfolio summary counts every asset in one class.
\<close>

theorem financed_share:
  assumes "0 \<le> a" "a \<le> t" "0 \<le> e" "rnd e = e" "e \<le> 10 ^ 18"
  shows "between 0 1 (fst (calculate_financed_emissions (Fin a) (Fin t) (Fin e))) \<and>
    0 \<le> snd (calculate_financed_emissions (Fin a) (Fin t) (Fin e)) \<and>
    snd (calculate_financed_emissions (Fin a) (Fin t) (Fin e)) \<le> py_round (Fin e) 4 \<and>
    sum_list (map bk_count (dict_values (by_asset_class (summarise_portfolio assets)))) = asset_count (summarise_portfolio assets)"
  using attribution_range [OF assms(1,2)] financed_at_most_all [OF assms] summary_counts [of assets]
  by (simp add: calculate_financed_emissions_def Let_def)

theorem financed_share_witness:
  "between 0 1 (fst (calculate_financed_emissions (Fin 25) (Fin 100) (Fin 1000))) \<and>
   snd (calculate_financed_emissions (Fin 25) (Fin 100) (Fin 1000)) \<le> py_round (Fin 1000) 4"
  using financed_share [of 25 100 1000 "[]"] rnd_of_int [of 1000] by simp

text \<open>
  C18. The check against server-side request forgery: an accepted webhook URL uses HTTP or HTTPS and
  its host resolves to no loopback, private, link-local or zero IPv4 address.
\<close>

theorem accepted_url_is_public_ipv4:
  assumes "validate_webhook_url bracket_ok getaddrinfo env url = Inr ()"
  shows "\<exists>parsed n infos. urlsplit bracket_ok url = Inr parsed \<and> scheme parsed \<in> {''http'', ''https''} \<and>
    (py_lower env = ''production'' \<longrightarrow> scheme parsed = ''https'') \<and>
    getaddrinfo (py_lower (hostname parsed)) n = Resolved infos \<and> (\<forall>a. IPv4 a \<in> set infos \<longrightarrow> \<not> private_ipv4 a)"
  using assms
proof (rule validate_blocks)
  fix parsed p infos
  assume "urlsplit bracket_ok url = Inr parsed" "scheme parsed \<in> {''http'', ''https''}"
    "py_lower env = ''production'' \<Longrightarrow> scheme parsed = ''https''"
    "getaddrinfo (py_lower (hostname parsed)) (port_or_443 p) = Resolved infos"
    "list_all (\<lambda>ip. list_all (\<lambda>net. \<not> in_network ip net) blocked_ranges) infos"
  then show ?thesis
    by (auto simp: private_ipv4_iff [symmetric] list_all_iff list_ex_iff)
qed

text \<open>The sample URL, resolving to one address.\<close>

lemma sample_url:
  assumes "\<not> list_ex (in_network ip) blocked_ranges"
  shows "validate_webhook_url (\<lambda>_. True) (\<lambda>_ _. Resolved [ip]) ''production'' ''https://a.example/in'' = Inr ()"
proof -
  have "urlsplit (\<lambda>_. True) ''https://a.example/in'' = Inr \<lparr>scheme = ''https'', netloc = ''a.example''\<rparr>"
    by code_simp
  moreover have "hostname \<lparr>scheme = ''https'', netloc = ''a.example''\<rparr> = ''a.example''" "py_lower ''production'' = ''production''"
    "port \<lparr>scheme = ''https'', netloc = ''a.example''\<rparr> = Inr None" "py_lower ''a.example'' = ''a.example''"
    by code_simp+
  ultimately show ?thesis using assms by (simp add: validate_webhook_url_def blocked_hosts_def Let_def)
qed

lemma public_address: "\<not> list_ex (in_network (IPv4 (dotted 93 184 216 34))) blocked_ranges"
  by (simp add: private_ipv4_iff private_ipv4_def dotted_def)

theorem accepted_url_is_public_ipv4_witness:
  "\<exists>parsed n infos. urlsplit (\<lambda>_. True) ''https://a.example/in'' = Inr parsed \<and> scheme parsed \<in> {''http'', ''https''} \<and>
    (py_lower ''production'' = ''production'' \<longrightarrow> scheme parsed = ''https'') \<and>
    (\<lambda>_ _. Resolved [IPv4 (dotted 93 184 216 34)]) (py_lower (hostname parsed)) (n :: nat) = Resolved infos \<and>
    (\<forall>a. IPv4 a \<in> set infos \<longrightarrow> \<not> private_ipv4 a)"
  by (rule accepted_url_is_public_ipv4 [OF sample_url [OF public_address]])

text \<open>
  The check lets loopback through in another notation: a URL whose host resolves to the IPv4-mapped
  form of 127.0.0.1, or to the unspecified IPv6 address, is accepted even in production.
\<close>

theorem mapped_loopback_is_accepted:
  "validate_webhook_url (\<lambda>_. True) (\<lambda>_ _. Resolved [ipv4_mapped (dotted 127 0 0 1)]) ''production'' ''https://a.example/in'' = Inr () \<and>
   validate_webhook_url (\<lambda>_. True) (\<lambda>_ _. Resolved [IPv6 0]) ''production'' ''https://a.example/in'' = Inr ()"
  using sample_url [OF mapped_loopback_passes(1)] sample_url [OF mapped_loopback_passes(2)] by blast

text \<open>
  One webhook that fails loses the deliveries of all: if a subscribed webhook of the company cannot be
  reached or answers with an error, the dispatch raises, since the retry counters of the new delivery
  are still unset, and no delivery of any webhook is recorded or retried.
\<close>

theorem failed_webhook_fails_dispatch:
  assumes "\<And>t rq. handled (env_post env t rq)" "wh \<in> set (webhooks s)" "wh_company_id wh = c" "wh_deleted_at wh = None"
    "subscribed event wh" "\<And>t rq. rq_url rq = wh_url wh \<Longrightarrow> failing (env_post env t rq)"
  shows "dispatch_event env c event data s = Inl TypeError"
  by (rule one_failure_loses_all [OF assms])

theorem failed_webhook_fails_dispatch_witness:
  "dispatch_event sample_web 1 ''report.created'' [] sample_db = Inl TypeError"
  by (rule failed_webhook_fails_dispatch [where wh = sample_webhook])
    (simp_all add: sample_web_def handled_def failing_def sample_db_def sample_webhook_def)

text \<open>
  A dispatch that returns has reached exactly the active webhooks of the company that subscribe to the
  event, latest first, each with a success status, and has recorded one successful delivery for each.
\<close>

theorem dispatch_reaches_subscribers:
  assumes "dispatch_event env c event data s = Inr (results, s')"
  shows "map ds_webhook_id results = map wh_id (filter (subscribed event) (fst (list_webhooks c None None s))) \<and>
    list_all (\<lambda>r. \<exists>code. ds_status r = Sent code \<and> code < 400) results \<and>
    map (\<lambda>d. (wd_webhook_id d, wd_success d)) (webhook_deliveries s') =
     map (\<lambda>d. (wd_webhook_id d, wd_success d)) (webhook_deliveries s) @ map (\<lambda>r. (ds_webhook_id r, True)) results"
  using dispatch_all_sent [OF assms] by blast

theorem dispatch_reaches_subscribers_witness:
  "\<exists>results s'. dispatch_event (sample_web\<lparr>env_post := \<lambda>_ _. Response 200 ''ok''\<rparr>) 1 ''report.created'' [] sample_db = Inr (results, s') \<and>
     map ds_webhook_id results = [9] \<and> map wd_success (webhook_deliveries s') = [False, True]"
proof -
  have live: "fst (list_webhooks 1 None None sample_db) = [sample_webhook]"
    by (simp add: list_webhooks_def live_webhooks_def sample_db_def sample_webhook_def order_by_desc_def)
  have subscribed: "wh_active sample_webhook" "''report.created'' \<in> set (wh_event_types sample_webhook)"
    by (simp_all add: sample_webhook_def)
  obtain results s' where 1: "dispatch_event (sample_web\<lparr>env_post := \<lambda>_ _. Response 200 ''ok''\<rparr>) 1 ''report.created'' [] sample_db = Inr (results, s')"
    by (simp del: One_nat_def add: dispatch_event_def live subscribed bind_s_def dispatch_one_def Let_def flush_delivery_def)
  note r = dispatch_reaches_subscribers [OF 1, unfolded live]
  have ids: "map ds_webhook_id results = [9]" using r by (simp add: sample_webhook_def)
  then have "map (\<lambda>d. (wd_webhook_id d, wd_success d)) (webhook_deliveries s') = [(9, False), (9, True)]"
    using r by (auto simp: map_eq_Cons_conv) (simp add: sample_db_def sample_delivery_def)
  then have "map snd (map (\<lambda>d. (wd_webhook_id d, wd_success d)) (webhook_deliveries s')) = [False, True]" by simp
  then show ?thesis using 1 ids by (simp add: comp_def)
qed



text \<open>
  The manual retry ignores the bound: when the attempt fails it counts it and schedules a further retry in the
  future however many attempts were made before.
\<close>

theorem manual_retry_exceeds_bound:
  assumes "owned_deliveries i c s = [d]" "filter (\<lambda>w. wh_id w = wd_webhook_id d) (webhooks s) = [wh]" "wh_active wh"
    "\<And>t rq. failing (env_post env t rq)" "jitter_ok env" "0 \<le> wd_retry_count d"
  shows "\<exists>d' s'. retry_delivery env i c s = Inr (Some d', s') \<and> \<not> wd_success d' \<and>
     wd_retry_count d' = wd_retry_count d + 1 \<and> wd_max_retries d' = wd_max_retries d \<and>
     (\<exists>t. wd_next_retry_at d' = Some t \<and> db_now s < t)"
  by (rule retry_delivery_exceeds [OF assms])

theorem manual_retry_exceeds_bound_witness:
  "\<exists>d' s' t. retry_delivery sample_web 10 1 sample_db = Inr (Some d', s') \<and> wd_max_retries d' < wd_retry_count d' \<and>
     wd_next_retry_at d' = Some t"
proof -
  have "owned_deliveries 10 1 sample_db = [sample_delivery]"
    "filter (\<lambda>w. wh_id w = wd_webhook_id sample_delivery) (webhooks sample_db) = [sample_webhook]"
    by (simp_all add: owned_deliveries_def live_webhooks_def sample_db_def sample_rows)
  from manual_retry_exceeds_bound [OF this _ _ sample_jitter] show ?thesis
    by (auto simp: sample_rows sample_web_def failing_def)
qed

end
