(* ===== verification/Event_Bus.thy ===== *)
theory Event_Bus
imports Models "HOL-Library.Sublist"
begin

text \<open>
  \<open>api/services/event_bus.py\<close> and the stream of \<open>api/routes/events_routes.py\<close>: bounded queues of events for
  each company. A subscription is an object with its company and its queue; the registry \<open>_subscribers\<close>
  holds, for each company, the numbers of the subscriptions that are open. A Python set is a list of
  distinct numbers, in the order in which it is walked.
\<close>

record event_payload =
  ev_event :: string
  ev_data :: pydict

record event_subscription =
  es_company_id :: ident
  es_queue :: "event_payload list"

record event_bus =
  eb_subscribers :: "(ident, nat list) dict"
  eb_objects :: "event_subscription list"

definition queue_maxsize :: nat where
  "queue_maxsize = 64"

definition empty_bus :: event_bus where
  "empty_bus = \<lparr>eb_subscribers = [], eb_objects = []\<rparr>"

text \<open>\<open>Subscription(company_id).__enter__()\<close>, with the number of the new object\<close>

definition enter_subscription :: "ident \<Rightarrow> event_bus \<Rightarrow> nat \<times> event_bus" where
  "enter_subscription company_id bus =
     (let q = length (eb_objects bus); subs = dict_get (eb_subscribers bus) company_id []
      in (q, bus\<lparr>eb_objects := eb_objects bus @ [\<lparr>es_company_id = company_id, es_queue = []\<rparr>],
                 eb_subscribers := dict_set company_id (subs @ [q]) (eb_subscribers bus)\<rparr>))"

text \<open>\<open>_cleanup\<close> of the object \<open>q\<close>\<close>

definition cleanup :: "nat \<Rightarrow> event_bus \<Rightarrow> event_bus" where
  "cleanup q bus =
     (let company_id = es_company_id (eb_objects bus ! q)
      in case map_of (eb_subscribers bus) company_id of
           None \<Rightarrow> bus
         | Some subs \<Rightarrow>
             if subs = [] then bus
             else let subs' = filter (\<lambda>x. x \<noteq> q) subs
                  in if subs' = [] then bus\<lparr>eb_subscribers := dict_del company_id (eb_subscribers bus)\<rparr>
                     else bus\<lparr>eb_subscribers := dict_set company_id subs' (eb_subscribers bus)\<rparr>)"

text \<open>\<open>put_nowait\<close>, with \<open>False\<close> for \<open>QueueFull\<close>\<close>

definition put_nowait :: "nat \<Rightarrow> event_payload \<Rightarrow> event_bus \<Rightarrow> bool \<times> event_bus" where
  "put_nowait q payload bus =
     (let obj = eb_objects bus ! q
      in if queue_maxsize \<le> length (es_queue obj) then (False, bus)
         else (True, bus\<lparr>eb_objects := (eb_objects bus)[q := obj\<lparr>es_queue := es_queue obj @ [payload]\<rparr>]\<rparr>))"

fun put_all :: "nat list \<Rightarrow> event_payload \<Rightarrow> event_bus \<Rightarrow> nat \<times> event_bus" where
  "put_all [] payload bus = (0, bus)"
| "put_all (q # qs) payload bus =
     (case put_nowait q payload bus of (ok, bus1) \<Rightarrow>
      case put_all qs payload bus1 of (n, bus2) \<Rightarrow> ((if ok then n + 1 else n), bus2))"

definition publish :: "ident \<Rightarrow> string \<Rightarrow> pydict option \<Rightarrow> event_bus \<Rightarrow> nat \<times> event_bus" where
  "publish company_id event_type data bus =
     (let subs = dict_get (eb_subscribers bus) company_id []
      in if subs = [] then (0, bus)
         else put_all subs \<lparr>ev_event = event_type, ev_data = (case data of None \<Rightarrow> [] | Some d \<Rightarrow> d)\<rparr> bus)"

text \<open>\<open>queue.get()\<close> by the stream of the object \<open>q\<close>; \<open>None\<close> while the queue is empty\<close>

definition get_event :: "nat \<Rightarrow> event_bus \<Rightarrow> event_payload option \<times> event_bus" where
  "get_event q bus =
     (let obj = eb_objects bus ! q
      in case es_queue obj of
           [] \<Rightarrow> (None, bus)
         | e # es \<Rightarrow> (Some e, bus\<lparr>eb_objects := (eb_objects bus)[q := obj\<lparr>es_queue := es\<rparr>]\<rparr>))"

section \<open>The stream of events\<close>

text \<open>
  What a turn of the loop finds: the client gone, an event in time, a timeout after which the client may
  be gone, or a cancelled task. The stream yields a text for each turn that goes on.
\<close>

datatype stream_turn = Client_Gone | Event_In_Time | Timed_Out bool | Cancelled

definition event_text :: "(pydict \<Rightarrow> string) \<Rightarrow> event_payload \<Rightarrow> string" where
  "event_text dumps e = ''event: '' @ ev_event e @ [CHR 0x0A] @ ''data: '' @ dumps (ev_data e) @ [CHR 0x0A, CHR 0x0A]"

definition heartbeat :: string where
  "heartbeat = '': heartbeat'' @ [CHR 0x0A, CHR 0x0A]"

text \<open>The turns until the loop ends; the context manager cleans up at the end. A turn with an event needs one.\<close>

fun event_stream :: "(pydict \<Rightarrow> string) \<Rightarrow> nat \<Rightarrow> stream_turn list \<Rightarrow> event_bus \<Rightarrow> string list \<times> event_bus" where
  "event_stream dumps q [] bus = ([], bus)"
| "event_stream dumps q (Client_Gone # turns) bus = ([], cleanup q bus)"
| "event_stream dumps q (Cancelled # turns) bus = ([], cleanup q bus)"
| "event_stream dumps q (Timed_Out gone # turns) bus =
     (if gone then ([], cleanup q bus)
      else case event_stream dumps q turns bus of (out, bus') \<Rightarrow> (heartbeat # out, bus'))"
| "event_stream dumps q (Event_In_Time # turns) bus =
     (case get_event q bus of
        (None, bus') \<Rightarrow> event_stream dumps q turns bus'
      | (Some e, bus') \<Rightarrow> case event_stream dumps q turns bus' of (out, bus2) \<Rightarrow> (event_text dumps e # out, bus2))"

section \<open>The state of the bus\<close>

text \<open>
  No company has an empty entry, every registered number is an object of that company, registered once,
  and no queue is longer than its bound.
\<close>

definition bus_ok :: "event_bus \<Rightarrow> bool" where
  "bus_ok bus \<longleftrightarrow> dict_ok (eb_subscribers bus) \<and>
     list_all (\<lambda>(c, qs). qs \<noteq> [] \<and> distinct qs \<and>
       list_all (\<lambda>q. q < length (eb_objects bus) \<and> es_company_id (eb_objects bus ! q) = c) qs) (eb_subscribers bus) \<and>
     list_all (\<lambda>obj. length (es_queue obj) \<le> queue_maxsize) (eb_objects bus)"

definition subscribers_of :: "ident \<Rightarrow> event_bus \<Rightarrow> nat list" where
  "subscribers_of c bus = dict_get (eb_subscribers bus) c []"

lemma bus_ok_empty [simp]: "bus_ok empty_bus"
  by (simp add: bus_ok_def empty_bus_def)

lemma bus_okD:
  assumes "bus_ok bus" "q \<in> set (subscribers_of c bus)"
  shows "q < length (eb_objects bus)" "es_company_id (eb_objects bus ! q) = c"
  using assms by (auto simp: bus_ok_def subscribers_of_def dict_get_def list_all_iff split: option.splits dest!: map_of_SomeD)

lemma subscribers_distinct: "bus_ok bus \<Longrightarrow> distinct (subscribers_of c bus)"
  by (auto simp: bus_ok_def subscribers_of_def dict_get_def list_all_iff split: option.splits dest!: map_of_SomeD)

text \<open>Changes of the queues alone.\<close>

definition same_shape :: "event_bus \<Rightarrow> event_bus \<Rightarrow> bool" where
  "same_shape bus bus' \<longleftrightarrow> eb_subscribers bus' = eb_subscribers bus \<and>
     map es_company_id (eb_objects bus') = map es_company_id (eb_objects bus) \<and>
     list_all (\<lambda>obj. length (es_queue obj) \<le> queue_maxsize) (eb_objects bus')"

lemma same_shape_ok: "bus_ok bus \<Longrightarrow> same_shape bus bus' \<Longrightarrow> bus_ok bus'"
proof -
  assume ok: "bus_ok bus" and sh: "same_shape bus bus'"
  have len: "length (eb_objects bus') = length (eb_objects bus)" using sh unfolding same_shape_def by (metis length_map)
  have "es_company_id (eb_objects bus' ! q) = es_company_id (eb_objects bus ! q)" if "q < length (eb_objects bus)" for q
    using sh that len unfolding same_shape_def by (metis nth_map)
  then show ?thesis using ok sh len by (auto simp: bus_ok_def same_shape_def list_all_iff)
qed

lemma put_nowait_run:
  assumes "put_nowait q payload bus = (ok, bus')" "q < length (eb_objects bus)"
  shows "eb_subscribers bus' = eb_subscribers bus" "length (eb_objects bus') = length (eb_objects bus)"
    "es_company_id (eb_objects bus' ! k) = es_company_id (eb_objects bus ! k)"
    "ok \<longleftrightarrow> length (es_queue (eb_objects bus ! q)) < queue_maxsize"
    "es_queue (eb_objects bus' ! k) = es_queue (eb_objects bus ! k) @ (if k = q \<and> ok then [payload] else [])"
  using assms by (auto simp: put_nowait_def Let_def nth_list_update split: if_splits)

lemma put_all_run:
  assumes "put_all qs payload bus = (n, bus')" "distinct qs" "\<And>q. q \<in> set qs \<Longrightarrow> q < length (eb_objects bus)"
  shows "eb_subscribers bus' = eb_subscribers bus \<and> length (eb_objects bus') = length (eb_objects bus) \<and>
    n = length (filter (\<lambda>q. length (es_queue (eb_objects bus ! q)) < queue_maxsize) qs) \<and>
    (\<forall>k. es_company_id (eb_objects bus' ! k) = es_company_id (eb_objects bus ! k) \<and>
      es_queue (eb_objects bus' ! k) = es_queue (eb_objects bus ! k) @
        (if k \<in> set qs \<and> length (es_queue (eb_objects bus ! k)) < queue_maxsize then [payload] else []))"
  using assms
proof (induction qs payload bus arbitrary: n rule: put_all.induct)
  case (2 q qs payload bus)
  obtain ok bus1 where 1: "put_nowait q payload bus = (ok, bus1)" by fastforce
  obtain m where m: "put_all qs payload bus1 = (m, bus')" "n = (if ok then m + 1 else m)"
    using "2.prems"(1) 1 by (auto split: prod.splits)
  have q: "q < length (eb_objects bus)" using "2.prems"(3) by simp
  note p = put_nowait_run [OF 1 q]
  have "\<And>k. k \<in> set qs \<Longrightarrow> k < length (eb_objects bus1)" using "2.prems"(3) p(2) by simp
  note ih = "2.IH" [OF 1 [symmetric] m(1) _ this]
  have "filter (\<lambda>q. length (es_queue (eb_objects bus1 ! q)) < queue_maxsize) qs =
      filter (\<lambda>q. length (es_queue (eb_objects bus ! q)) < queue_maxsize) qs"
    using "2.prems"(2) p(5) by (intro filter_cong) auto
  then show ?case using ih "2.prems"(2) p m(2) by (auto split: if_splits)
qed simp

text \<open>A published event reaches every open subscription of the company that has room, and no other queue.\<close>

lemma publish_run:
  assumes "bus_ok bus" "publish c ev data bus = (n, bus')"
  shows "eb_subscribers bus' = eb_subscribers bus \<and> length (eb_objects bus') = length (eb_objects bus) \<and>
    n = length (filter (\<lambda>q. length (es_queue (eb_objects bus ! q)) < queue_maxsize) (subscribers_of c bus)) \<and>
    (\<forall>k. es_company_id (eb_objects bus' ! k) = es_company_id (eb_objects bus ! k) \<and>
      es_queue (eb_objects bus' ! k) = es_queue (eb_objects bus ! k) @
        (if k \<in> set (subscribers_of c bus) \<and> length (es_queue (eb_objects bus ! k)) < queue_maxsize
         then [\<lparr>ev_event = ev, ev_data = (case data of None \<Rightarrow> [] | Some d \<Rightarrow> d)\<rparr>] else []))"
proof (cases "subscribers_of c bus = []")
  case True
  then show ?thesis using assms(2) by (simp add: publish_def subscribers_of_def Let_def)
next
  case False
  then have "put_all (subscribers_of c bus) \<lparr>ev_event = ev, ev_data = (case data of None \<Rightarrow> [] | Some d \<Rightarrow> d)\<rparr> bus = (n, bus')"
    using assms(2) by (simp add: publish_def subscribers_of_def Let_def)
  from put_all_run [OF this subscribers_distinct [OF assms(1)]] bus_okD(1) [OF assms(1)] show ?thesis by blast
qed

lemma publish_ok: "bus_ok bus \<Longrightarrow> bus_ok (snd (publish c ev data bus))"
proof -
  assume ok: "bus_ok bus"
  obtain n bus' where p: "publish c ev data bus = (n, bus')" by fastforce
  note r = publish_run [OF ok p]
  have "map es_company_id (eb_objects bus') = map es_company_id (eb_objects bus)"
    using r by (intro nth_equalityI) auto
  moreover have "list_all (\<lambda>obj. length (es_queue obj) \<le> queue_maxsize) (eb_objects bus')"
  proof (unfold list_all_length, intro allI impI)
    fix k assume "k < length (eb_objects bus')"
    then have "length (es_queue (eb_objects bus ! k)) \<le> queue_maxsize"
      using ok r by (auto simp: bus_ok_def list_all_length)
    then show "length (es_queue (eb_objects bus' ! k)) \<le> queue_maxsize" using r by auto
  qed
  ultimately have "same_shape bus bus'" using r by (simp add: same_shape_def)
  then show ?thesis using same_shape_ok [OF ok] p by simp
qed

lemma company_kept: "map_of (eb_subscribers bus) c = Some qs \<Longrightarrow> subscribers_of c bus = qs"
  by (simp add: subscribers_of_def dict_get_def)

lemma bus_ok_entry: "bus_ok bus \<Longrightarrow> map_of (eb_subscribers bus) c = Some qs \<Longrightarrow>
    qs \<noteq> [] \<and> distinct qs \<and> (\<forall>q \<in> set qs. q < length (eb_objects bus) \<and> es_company_id (eb_objects bus ! q) = c)"
  by (auto simp: bus_ok_def list_all_iff dest!: map_of_SomeD)

lemma bus_okI:
  assumes "dict_ok (eb_subscribers bus)" "list_all (\<lambda>obj. length (es_queue obj) \<le> queue_maxsize) (eb_objects bus)"
    "\<And>c qs. map_of (eb_subscribers bus) c = Some qs \<Longrightarrow> qs \<noteq> [] \<and> distinct qs \<and>
       (\<forall>q \<in> set qs. q < length (eb_objects bus) \<and> es_company_id (eb_objects bus ! q) = c)"
  shows "bus_ok bus"
proof -
  have "case p of (c, qs) \<Rightarrow> qs \<noteq> [] \<and> distinct qs \<and>
      list_all (\<lambda>q. q < length (eb_objects bus) \<and> es_company_id (eb_objects bus ! q) = c) qs"
    if p: "p \<in> set (eb_subscribers bus)" for p
  proof -
    obtain c qs where e: "p = (c, qs)" by fastforce
    then have "map_of (eb_subscribers bus) c = Some qs" using p assms(1) by simp
    from assms(3) [OF this] show ?thesis by (simp add: e list_all_iff)
  qed
  then show ?thesis using assms(1,2) unfolding bus_ok_def list_all_iff by blast
qed

lemma bus_ok_parts: "bus_ok bus \<Longrightarrow> dict_ok (eb_subscribers bus) \<and>
    list_all (\<lambda>obj. length (es_queue obj) \<le> queue_maxsize) (eb_objects bus)"
  by (simp add: bus_ok_def)

lemma enter_ok:
  assumes "bus_ok bus"
  shows "bus_ok (snd (enter_subscription c bus))"
proof (rule bus_okI)
  fix c' qs
  assume m: "map_of (eb_subscribers (snd (enter_subscription c bus))) c' = Some qs"
  show "qs \<noteq> [] \<and> distinct qs \<and> (\<forall>q \<in> set qs. q < length (eb_objects (snd (enter_subscription c bus))) \<and>
      es_company_id (eb_objects (snd (enter_subscription c bus)) ! q) = c')"
  proof (cases "c' = c")
    case True
    let ?objs = "eb_objects bus @ [\<lparr>es_company_id = c, es_queue = []\<rparr>]"
    have qs: "qs = subscribers_of c bus @ [length (eb_objects bus)]"
      using m True by (simp add: enter_subscription_def Let_def subscribers_of_def)
    have old: "q < length ?objs \<and> es_company_id (?objs ! q) = c" if "q \<in> set (subscribers_of c bus)" for q
      using bus_okD [OF assms that] by (simp add: nth_append)
    have "length (eb_objects bus) \<notin> set (subscribers_of c bus)"
    proof
      assume "length (eb_objects bus) \<in> set (subscribers_of c bus)"
      from bus_okD(1) [OF assms this] show False by simp
    qed
    then have "distinct qs" using qs subscribers_distinct [OF assms, of c] by simp
    moreover have "\<forall>q \<in> set qs. q < length ?objs \<and> es_company_id (?objs ! q) = c"
      using old by (auto simp: qs)
    ultimately show ?thesis using True by (simp add: qs enter_subscription_def Let_def)
  next
    case False
    then have "map_of (eb_subscribers bus) c' = Some qs" using m by (simp add: enter_subscription_def Let_def)
    from bus_ok_entry [OF assms this] show ?thesis by (auto simp: enter_subscription_def Let_def nth_append)
  qed
qed (use bus_ok_parts [OF assms] in \<open>simp_all add: enter_subscription_def Let_def\<close>)

lemma cleanup_subscribers:
  assumes "bus_ok bus" "q < length (eb_objects bus)"
  shows "eb_objects (cleanup q bus) = eb_objects bus"
    "subscribers_of c (cleanup q bus) = filter (\<lambda>x. x \<noteq> q) (subscribers_of c bus)"
proof -
  show "eb_objects (cleanup q bus) = eb_objects bus" by (simp add: cleanup_def Let_def split: option.splits)
  have own: "filter (\<lambda>x. x \<noteq> q) (subscribers_of c bus) = subscribers_of c bus" if "c \<noteq> es_company_id (eb_objects bus ! q)"
    using bus_okD(2) [OF assms(1), of q c] that by (auto simp: filter_id_conv)
  show "subscribers_of c (cleanup q bus) = filter (\<lambda>x. x \<noteq> q) (subscribers_of c bus)"
    using own
    by (cases "c = es_company_id (eb_objects bus ! q)")
      (auto simp: cleanup_def subscribers_of_def dict_get_def map_of_dict_del Let_def split: option.splits)
qed

lemma cleanup_ok:
  assumes "bus_ok bus" "q < length (eb_objects bus)"
  shows "bus_ok (cleanup q bus)"
proof (rule bus_okI)
  show "dict_ok (eb_subscribers (cleanup q bus))"
    using bus_ok_parts [OF assms(1)] by (auto simp: cleanup_def Let_def split: option.splits)
  show "list_all (\<lambda>obj. length (es_queue obj) \<le> queue_maxsize) (eb_objects (cleanup q bus))"
    using bus_ok_parts [OF assms(1)] cleanup_subscribers(1) [OF assms] by simp
  fix c qs
  assume m: "map_of (eb_subscribers (cleanup q bus)) c = Some qs"
  have "qs = filter (\<lambda>x. x \<noteq> q) (subscribers_of c bus)"
    using company_kept [OF m] cleanup_subscribers(2) [OF assms] by simp
  moreover have "qs \<noteq> []"
  proof (cases "map_of (eb_subscribers bus) (es_company_id (eb_objects bus ! q))")
    case None
    then have "map_of (eb_subscribers bus) c = Some qs" using m by (simp add: cleanup_def Let_def)
    from bus_ok_entry [OF assms(1) this] show ?thesis by simp
  next
    case (Some subs)
    show ?thesis
    proof (cases "c = es_company_id (eb_objects bus ! q)")
      case True
      then show ?thesis using m Some bus_ok_entry [OF assms(1) Some]
        by (simp add: cleanup_def Let_def map_of_dict_del split: if_splits)
    next
      case False
      then have "map_of (eb_subscribers bus) c = Some qs"
        using m Some by (simp add: cleanup_def Let_def map_of_dict_del split: if_splits)
      from bus_ok_entry [OF assms(1) this] show ?thesis by simp
    qed
  qed
  moreover have "q' < length (eb_objects bus) \<and> es_company_id (eb_objects bus ! q') = c" if "q' \<in> set (subscribers_of c bus)" for q'
    using bus_okD [OF assms(1) that] by simp
  ultimately show "qs \<noteq> [] \<and> distinct qs \<and> (\<forall>q' \<in> set qs. q' < length (eb_objects (cleanup q bus)) \<and>
      es_company_id (eb_objects (cleanup q bus) ! q') = c)"
    using subscribers_distinct [OF assms(1), of c] cleanup_subscribers(1) [OF assms] by simp
qed

text \<open>Leaving undoes entering.\<close>

lemma cleanup_enter:
  assumes "bus_ok bus"
  shows "subscribers_of c' (cleanup (fst (enter_subscription c bus)) (snd (enter_subscription c bus))) = subscribers_of c' bus"
proof -
  have new: "length (eb_objects bus) \<notin> set (subscribers_of c' bus)"
  proof
    assume "length (eb_objects bus) \<in> set (subscribers_of c' bus)"
    from bus_okD(1) [OF assms this] show False by simp
  qed
  have "subscribers_of c' (cleanup (fst (enter_subscription c bus)) (snd (enter_subscription c bus))) =
      filter (\<lambda>x. x \<noteq> length (eb_objects bus)) (subscribers_of c' (snd (enter_subscription c bus)))"
    using cleanup_subscribers(2) [OF enter_ok [OF assms]] by (simp add: enter_subscription_def Let_def)
  also have "\<dots> = filter (\<lambda>x. x \<noteq> length (eb_objects bus)) (subscribers_of c' bus)"
    by (simp add: enter_subscription_def Let_def subscribers_of_def)
  also have "\<dots> = subscribers_of c' bus" using new by (auto simp: filter_id_conv)
  finally show ?thesis .
qed

lemma get_event_ok:
  assumes "bus_ok bus" "q < length (eb_objects bus)"
  shows "bus_ok (snd (get_event q bus))"
proof (cases "es_queue (eb_objects bus ! q)")
  case (Cons e es)
  have "length (es_queue (eb_objects bus ! q)) \<le> queue_maxsize"
    using assms by (simp add: bus_ok_def list_all_length)
  then have "same_shape bus (snd (get_event q bus))"
    using Cons assms by (auto simp: same_shape_def get_event_def bus_ok_def list_all_length nth_list_update map_update
        list_update_same_conv)
  then show ?thesis by (rule same_shape_ok [OF assms(1)])
qed (use assms in \<open>simp add: get_event_def\<close>)

section \<open>Runs of the bus\<close>

text \<open>
  Clients come and go, services publish and streams send. The log holds what each stream has sent, so far,
  in order, with the number of its subscription.
\<close>

datatype bus_op = Open ident | Leave nat | Publish ident string "pydict option" | Send nat

fun bus_step :: "bus_op \<Rightarrow> event_bus \<times> (nat \<times> event_payload) list \<Rightarrow> event_bus \<times> (nat \<times> event_payload) list" where
  "bus_step (Open c) (bus, sent) = (snd (enter_subscription c bus), sent)"
| "bus_step (Leave q) (bus, sent) = (if q < length (eb_objects bus) then cleanup q bus else bus, sent)"
| "bus_step (Publish c ev data) (bus, sent) = (snd (publish c ev data bus), sent)"
| "bus_step (Send q) (bus, sent) =
     (if q < length (eb_objects bus)
      then case get_event q bus of (None, bus') \<Rightarrow> (bus', sent) | (Some e, bus') \<Rightarrow> (bus', sent @ [(q, e)])
      else (bus, sent))"

definition bus_run :: "bus_op list \<Rightarrow> event_bus \<times> (nat \<times> event_payload) list" where
  "bus_run ops = fold bus_step ops (empty_bus, [])"

fun published :: "ident \<Rightarrow> bus_op list \<Rightarrow> event_payload list" where
  "published c [] = []"
| "published c (Publish c' ev data # ops) =
     (if c' = c then [\<lparr>ev_event = ev, ev_data = (case data of None \<Rightarrow> [] | Some d \<Rightarrow> d)\<rparr>] else []) @ published c ops"
| "published c (Open v # ops) = published c ops"
| "published c (Leave v # ops) = published c ops"
| "published c (Send v # ops) = published c ops"

lemma published_append [simp]: "published c (ops @ ops') = published c ops @ published c ops'"
  by (induction c ops rule: published.induct) auto

definition sent_by :: "nat \<Rightarrow> (nat \<times> event_payload) list \<Rightarrow> event_payload list" where
  "sent_by q sent = map snd (filter (\<lambda>p. fst p = q) sent)"

text \<open>What a subscription has sent and holds are events of its company, in the order of publication.\<close>

definition isolated :: "bus_op list \<Rightarrow> event_bus \<times> (nat \<times> event_payload) list \<Rightarrow> bool" where
  "isolated ops st \<longleftrightarrow> bus_ok (fst st) \<and> (\<forall>(q, e) \<in> set (snd st). q < length (eb_objects (fst st))) \<and>
     (\<forall>q < length (eb_objects (fst st)).
       subseq (sent_by q (snd st) @ es_queue (eb_objects (fst st) ! q)) (published (es_company_id (eb_objects (fst st) ! q)) ops))"

lemma isolated_step:
  assumes "isolated ops (bus, sent)"
  shows "isolated (ops @ [op]) (bus_step op (bus, sent))"
proof (cases op)
  case (Open c)
  have "sent_by (length (eb_objects bus)) sent = []"
    using assms by (auto simp: isolated_def sent_by_def filter_empty_conv)
  then show ?thesis using assms Open enter_ok [of bus c]
    by (auto simp: isolated_def enter_subscription_def Let_def nth_append less_Suc_eq)
next
  case (Leave q)
  show ?thesis
  proof (cases "q < length (eb_objects bus)")
    case True
    have "bus_ok bus" using assms by (simp add: isolated_def)
    then show ?thesis using assms Leave cleanup_ok [of bus q] cleanup_subscribers(1) [of bus q] True by (simp add: isolated_def)
  qed (use assms Leave in \<open>simp add: isolated_def\<close>)
next
  case (Publish c ev data)
  have ok: "bus_ok bus" using assms by (simp add: isolated_def)
  obtain n bus' where p: "publish c ev data bus = (n, bus')" by fastforce
  note r = publish_run [OF ok p]
  let ?e = "\<lparr>ev_event = ev, ev_data = (case data of None \<Rightarrow> [] | Some d \<Rightarrow> d)\<rparr>"
  have "subseq (sent_by q sent @ es_queue (eb_objects bus' ! q)) (published (es_company_id (eb_objects bus' ! q)) (ops @ [op]))"
    if q: "q < length (eb_objects bus')" for q
  proof -
    let ?c = "es_company_id (eb_objects bus ! q)"
    have ih: "subseq (sent_by q sent @ es_queue (eb_objects bus ! q)) (published ?c ops)"
      using assms q r by (simp add: isolated_def)
    have own: "q \<in> set (subscribers_of c bus) \<Longrightarrow> ?c = c" by (rule bus_okD(2) [OF ok])
    let ?new = "if q \<in> set (subscribers_of c bus) \<and> length (es_queue (eb_objects bus ! q)) < queue_maxsize then [?e] else []"
    have "subseq ((sent_by q sent @ es_queue (eb_objects bus ! q)) @ ?new) (published ?c ops @ (if c = ?c then [?e] else []))"
    proof (rule list_emb_append_mono [OF ih])
      show "subseq ?new (if c = ?c then [?e] else [])"
        using own by (cases "q \<in> set (subscribers_of c bus)") simp_all
    qed
    then show ?thesis using r Publish by simp
  qed
  then show ?thesis using assms Publish publish_ok [OF ok, of c ev data] p r by (auto simp: isolated_def)
next
  case (Send q)
  show ?thesis
  proof (cases "q < length (eb_objects bus)")
    case True
    have ok: "bus_ok bus" using assms by (simp add: isolated_def)
    note gok = get_event_ok [OF ok True]
    show ?thesis
    proof (cases "es_queue (eb_objects bus ! q)")
      case Nil
      then show ?thesis using assms Send True by (simp add: isolated_def get_event_def)
    next
      case (Cons e es)
      then show ?thesis using assms Send True gok
        by (auto simp: isolated_def get_event_def sent_by_def nth_list_update)
    qed
  qed (use assms Send in \<open>simp add: isolated_def\<close>)
qed

lemma isolated_run: "isolated ops (bus_run ops)"
proof (induction ops rule: rev_induct)
  case Nil
  then show ?case by (simp add: isolated_def bus_run_def) (simp add: empty_bus_def)
next
  case (snoc op ops)
  then show ?case using isolated_step [of ops "fst (bus_run ops)" "snd (bus_run ops)" op] by (simp add: bus_run_def)
qed

end
