(* ===== verification/Access_Properties.thy ===== *)
theory Access_Properties
imports Samples Event_Bus
begin

text \<open>
  The properties of sign-in, sessions, the second factor, the team and the event bus.
\<close>

section \<open>Sign-in\<close>





text \<open>
  C22. Refresh tokens and password reset tokens are single-use: with a random source that does not repeat
  and a digest without collisions, in any sequence of issues and attempts to redeem, whoever makes them,
  no token is redeemed twice.\<close>

theorem tokens_redeemed_once:
  assumes "inj (\<lambda>k. ae_sha256 env (ae_token env k))" "refresh_stored d s = 0" "reset_stored d s = 0"
    "token_run (create_refresh_token env) (validate_refresh_token env) ops s = (es, s')"
    "token_run (\<lambda>u. create_reset_token env u email) (validate_reset_token env) ops s = (fs, s2)"
  shows "redemptions (ae_sha256 env) d es \<le> 1 \<and> redemptions (ae_sha256 env) d fs \<le> 1"
  using refresh.redeemed_at_most_once [OF assms(1,2,4)] reset.redeemed_at_most_once [OF assms(1,3,5)] by simp

theorem tokens_redeemed_once_witness:
  "redemptions (ae_sha256 sample_auth) (CHR ''h'' # replicate 101 (CHR ''x''))
     (fst (token_run (create_refresh_token sample_auth) (validate_refresh_token sample_auth)
       [Issue 1, Redeem (replicate 101 (CHR ''x'')), Redeem (replicate 101 (CHR ''x''))] access_db)) \<le> 1"
proof -
  let ?ops = "[Issue 1, Redeem (replicate 101 (CHR ''x'')), Redeem (replicate 101 (CHR ''x''))]"
  obtain es s' where e: "token_run (create_refresh_token sample_auth) (validate_refresh_token sample_auth) ?ops access_db = (es, s')"
    by fastforce
  obtain fs s2 where f: "token_run (\<lambda>u. create_reset_token sample_auth u ''admin'') (validate_reset_token sample_auth) ?ops access_db = (fs, s2)"
    by fastforce
  have "inj (\<lambda>k. ae_sha256 sample_auth (ae_token sample_auth k))"
    by (rule injI) (auto simp: sample_auth_def dest: arg_cong [where f = length])
  note once = tokens_redeemed_once [OF this _ _ e f, THEN conjunct1]
  show ?thesis unfolding e fst_conv
    by (rule once) (simp_all add: refresh_stored_def reset_stored_def access_db_def empty_db_def)
qed

text \<open>
  C23. A second factor that is enabled is needed. A password alone gets no refresh token and only a pending
  token, which no handler for the current user accepts; \<open>validate_totp\<close> gives full tokens only for a code
  of the user's secret in the current time step or one next to it.\<close>

theorem second_factor_required:
  assumes "get_db (login env email password) s = (Inr reply, s')"
    "filter (\<lambda>v. us_email v = email) (users s) = [u]" "m \<in> set (mfa_secrets s)" "mf_user_id m = us_id u" "mf_is_enabled m"
    "jwt_faithful env" "fst (request_token rq) = rp_access_token reply"
    "get_db (validate_totp env menv rq2 code) t = (Inr full, t')"
  shows "rp_mfa_required reply \<and> refresh_tokens s' = refresh_tokens s \<and> \<not> returns (get_current_user env rq any) \<and>
    (\<exists>v k secret n. get_mfa_pending_user env rq2 t = Inr (v, t\<lparr>db_now := db_now t + 1\<rparr>) \<and> k \<in> set (mfa_secrets t) \<and>
       mf_user_id k = us_id v \<and> mf_is_enabled k \<and> me_decrypt menv (mf_totp_secret k) = Inr secret \<and>
       hotp menv secret n = Inr code \<and> n \<le> totp_step (db_now t + 1) + 1 \<and> totp_step (db_now t + 1) \<le> n + 1)"
proof -
  obtain v where v: "filter (\<lambda>v. us_email v = email) (users s) = [v]"
    "\<And>m. m \<in> set (mfa_secrets s) \<Longrightarrow> mf_user_id m = us_id v \<Longrightarrow> mf_is_enabled m \<Longrightarrow>
       rp_mfa_required reply \<and> rp_refresh_token reply = [] \<and> refresh_tokens s' = refresh_tokens s \<and>
       (\<exists>c. rp_access_token reply = ae_jwt_encode env c \<and> jc_type c = Some ''mfa_pending'' \<and> jc_sub c = Some (us_id v))"
    using login_run_success [OF assms(1)] by metis
  have "us_id v = us_id u" using v(1) assms(2) by simp
  with v(2) [OF assms(3)] assms(4,5) obtain c where c: "rp_mfa_required reply" "refresh_tokens s' = refresh_tokens s"
    "rp_access_token reply = ae_jwt_encode env c" "jc_type c = Some ''mfa_pending''" by auto
  have "\<not> returns (get_current_user env rq any)"
    by (rule pending_token_refused [OF assms(6) _ c(4)]) (simp add: assms(7) c(3))
  moreover obtain w k secret n where "get_mfa_pending_user env rq2 t = Inr (w, t\<lparr>db_now := db_now t + 1\<rparr>)" "k \<in> set (mfa_secrets t)"
    "mf_user_id k = us_id w" "mf_is_enabled k" "me_decrypt menv (mf_totp_secret k) = Inr secret"
    "hotp menv secret n = Inr code" "n \<le> totp_step (db_now t + 1) + 1" "totp_step (db_now t + 1) \<le> n + 1"
    by (rule validate_totp_run [OF assms(8)])
  ultimately show ?thesis using c(1,2) by blast
qed

theorem second_factor_required_witness:
  "\<exists>reply s'. get_db (login sample_auth ''admin'' ''secret'') access_db = (Inr reply, s') \<and> rp_mfa_required reply"
proof -
  have "\<not> isl (fst (get_db (login sample_auth ''admin'' ''secret'') access_db))" by code_simp
  then obtain reply s' where l: "get_db (login sample_auth ''admin'' ''secret'') access_db = (Inr reply, s')"
    by (metis prod.collapse sum.collapse(2))
  obtain full t' where v: "get_db (validate_totp sample_auth sample_mfa pending_request_in ''000000'') access_db = (Inr full, t')"
    by (rule sample_validates)
  have "rp_mfa_required reply"
    by (rule second_factor_required [OF l _ _ _ _ sample_faithful _ v, of sample_admin sample_secret
          "admin_request_in\<lparr>hi_bearer := Some (rp_access_token reply)\<rparr>", THEN conjunct1])
      (simp_all add: request_token_def admin_request_in_def dict_get_def access_sample_defs)
  with l show ?thesis by blast
qed

text \<open>
  The sign-in with Google goes around the second factor and the lock: a verified address of an active
  account gets full tokens, whatever secrets are enabled and however long the account is locked.\<close>

theorem google_skips_second_factor:
  assumes "google_client_id (ae_config env) \<noteq> []" "gi_aud info = google_client_id (ae_config env)" "gi_email info \<noteq> []"
    "gi_email_verified info = ''true''"
    "filter (\<lambda>u. us_email u = gi_email info \<and> us_deleted_at u = None) (users s) = [u]" "us_is_active u"
  shows "\<exists>reply s'. get_db (google_verify env (Token_Info info)) s = (Inr reply, s') \<and> \<not> rp_mfa_required reply \<and>
    rp_user reply = Some (us_id u) \<and>
    (\<exists>row. refresh_tokens s' = refresh_tokens s @ [row] \<and> rt_user_id row = us_id u \<and>
       rt_token_hash row = ae_sha256 env (rp_refresh_token reply))"
  by (rule google_verify_run [OF assms])

theorem google_skips_second_factor_witness:
  "mf_is_enabled sample_secret \<and> mf_user_id sample_secret = us_id sample_admin \<and> sample_secret \<in> set (mfa_secrets access_db) \<and>
   (\<exists>reply s'. get_db (google_verify sample_auth (Token_Info sample_google)) access_db = (Inr reply, s') \<and> \<not> rp_mfa_required reply)"
proof -
  have "\<exists>reply s'. get_db (google_verify sample_auth (Token_Info sample_google)) access_db = (Inr reply, s') \<and> \<not> rp_mfa_required reply \<and>
      rp_user reply = Some (us_id sample_admin) \<and>
      (\<exists>row. refresh_tokens s' = refresh_tokens access_db @ [row] \<and> rt_user_id row = us_id sample_admin \<and>
         rt_token_hash row = ae_sha256 sample_auth (rp_refresh_token reply))"
    by (rule google_skips_second_factor) (simp_all add: sample_google_def access_sample_defs)
  then show ?thesis by (auto simp: access_sample_defs)
qed

text \<open>
  C24. A generated secret works: Base32 gives back its random bytes, and \<open>verify_totp\<close> accepts exactly the
  codes of the current time step and its two neighbours, all of six digits.\<close>

theorem generated_secret_codes:
  assumes "verify_totp menv (generate_totp_secret menv i) code s = Inr (b, s')"
  shows "b32decode (pad8 (py_upper (generate_totp_secret menv i))) = Inr (me_random menv i 20) \<and>
    (b \<longleftrightarrow> hotp menv (generate_totp_secret menv i) (totp_step (db_now s)) = Inr code \<or>
         hotp menv (generate_totp_secret menv i) (totp_step (db_now s) - 1) = Inr code \<or>
         hotp menv (generate_totp_secret menv i) (totp_step (db_now s) + 1) = Inr code) \<and>
    (b \<longrightarrow> length code = 6 \<and> list_all is_digit code)"
proof -
  let ?S = "generate_totp_secret menv i" and ?n = "totp_step (db_now s)"
  have "\<exists>x. any_code menv ?S code [?n - 1, ?n, ?n + 1] = Inr x \<and> (x \<longleftrightarrow> (\<exists>n \<in> set [?n - 1, ?n, ?n + 1]. hotp menv ?S n = Inr code))"
    by (rule any_code_iff) (simp add: generated_secret_returns)
  moreover have "any_code menv ?S code [?n - 1, ?n, ?n + 1] = Inr b"
    using assms by (simp add: verify_totp_def del: any_code.simps)
  ultimately have b: "b \<longleftrightarrow> (\<exists>n \<in> set [?n - 1, ?n, ?n + 1]. hotp menv ?S n = Inr code)" by auto
  have "b \<longrightarrow> length code = 6 \<and> list_all is_digit code" using b hotp_shape by blast
  then show ?thesis using b secret_key [of menv i] by auto
qed

theorem generated_secret_codes_witness:
  "\<exists>s'. verify_totp sample_mfa (generate_totp_secret sample_mfa 0) ''000000'' access_db = Inr (True, s') \<and> length ''000000'' = 6"
proof -
  obtain code where c: "hotp sample_mfa (generate_totp_secret sample_mfa 0) (totp_step (db_now access_db)) = Inr code"
    using generated_secret_returns [of sample_mfa 0 "totp_step (db_now access_db)"] by (rule returnsE)
  have own: "verify_totp sample_mfa (generate_totp_secret sample_mfa 0) code access_db = Inr (True, access_db\<lparr>db_now := db_now access_db + 1\<rparr>)"
    by (rule own_code_accepted [OF c])
  have "length code = 6" using generated_secret_codes [OF own] by simp
  moreover have "code = ''000000''"
  proof -
    have "unpack_u32 (take 4 (drop 0 (replicate 20 0))) AND 0x7FFFFFFF = 0" by code_simp
    moreover have "zfill 6 (str_nat 0) = ''000000''" by code_simp
    ultimately show ?thesis using c by (simp add: hotp_def sample_mfa_def secret_key [of sample_mfa 0, unfolded sample_mfa_def])
  qed
  ultimately show ?thesis using own by auto
qed

section \<open>The team\<close>

text \<open>
  Whatever an admin does with the team, inviting, changing roles or removing members, and whether it
  succeeds or not, the admin stays a member, as the row it was, and no user of another company changes.
  Yet the audit log never grows: its entry is added after the last commit and lost.\<close>

theorem team_changes_stay_in_team:
  assumes "get_current_user env rq s = Inr (u, s1)" "us_role u = Admin" "distinct (map us_id (users s))"
    "get_db (invite_member env rq email role) s = (r, s') \<or> get_db (update_member_role env rq i role) s = (r2, s') \<or>
     get_db (remove_member env rq i) s = (r3, s')"
  shows "u \<in> set (users s') \<and>
    filter (\<lambda>v. us_company_id v \<noteq> us_company_id u) (users s') = filter (\<lambda>v. us_company_id v \<noteq> us_company_id u) (users s) \<and>
    audit_logs s' = audit_logs s"
proof -
  have "member_change u s s'"
    using assms(4) invite_member_change [OF assms(1,2)] update_role_change [OF assms(1,2)] remove_member_change [OF assms(1,2)]
    by blast
  moreover have "u \<in> set (users s)" by (rule current_user_run [OF assms(1)])
  ultimately show ?thesis using member_change_keeps [OF _ _ assms(3)] by (simp add: keeps_others_def)
qed

theorem team_changes_stay_in_team_witness:
  "sample_admin \<in> set (users (snd (get_db (remove_member sample_auth admin_request_in 2) access_db))) \<and>
   audit_logs (snd (get_db (remove_member sample_auth admin_request_in 2) access_db)) = []"
proof -
  obtain r s' where run: "get_db (remove_member sample_auth admin_request_in 2) access_db = (r, s')" by fastforce
  have "sample_admin \<in> set (users s') \<and>
      filter (\<lambda>v. us_company_id v \<noteq> us_company_id sample_admin) (users s') =
      filter (\<lambda>v. us_company_id v \<noteq> us_company_id sample_admin) (users access_db) \<and> audit_logs s' = audit_logs access_db"
    by (rule team_changes_stay_in_team [OF sample_admin_request sample_rows_of_db(6) _ disjI2 [OF disjI2 [OF run]]])
      (simp add: access_sample_defs)
  then show ?thesis using run by (simp add: access_db_def empty_db_def)
qed

text \<open>
  An accepted invitation makes exactly the member it names: the company, the role and the address are
  those of the invitation, no other user changes, the invitation had not expired and is used up.\<close>

theorem invitation_makes_its_member:
  assumes "get_db (accept_invite env token name password) s = (Inr u, s')"
  shows "\<exists>i. filter (\<lambda>i. iv_token_hash i = ae_sha256 env token \<and> iv_accepted_at i = None) (invitations s) = [i] \<and>
    us_company_id u = iv_company_id i \<and> us_role u = iv_role i \<and> us_email u = iv_email i \<and> users s' = users s @ [u] \<and>
    filter (\<lambda>i. iv_token_hash i = ae_sha256 env token \<and> iv_accepted_at i = None) (invitations s') = [] \<and>
    db_now s \<le> iv_expires_at i"
proof -
  obtain i where "filter (open_invitation env token) (invitations s) = [i]" "us_company_id u = iv_company_id i"
    "us_role u = iv_role i" "us_email u = iv_email i" "users s' = users s @ [u]"
    "filter (open_invitation env token) (invitations s') = []" "audit_logs s' = audit_logs s" "db_now s \<le> iv_expires_at i"
    by (rule accept_invite_run [OF assms])
  then show ?thesis by (intro exI [of _ i]) (simp add: open_invitation_def [abs_def])
qed

theorem invitation_makes_its_member_witness:
  "\<exists>u s'. get_db (accept_invite sample_auth ''invite'' ''New'' ''pw'') access_db = (Inr u, s') \<and> us_company_id u = 10 \<and> us_role u = Member"
proof -
  have "\<not> isl (fst (get_db (accept_invite sample_auth ''invite'' ''New'' ''pw'') access_db))" by code_simp
  then obtain u s' where run: "get_db (accept_invite sample_auth ''invite'' ''New'' ''pw'') access_db = (Inr u, s')"
    by (metis prod.collapse sum.collapse(2))
  from invitation_makes_its_member [OF run] show ?thesis using run by (auto simp: access_sample_defs)
qed

text \<open>
  The purge crosses companies: an admin of any company erases a deleted user of any other company, and,
  as the last of it, that company's reports, uploads and subscription. The listings and the supply chain
  links of the purged company stay.\<close>

theorem purge_crosses_companies:
  assumes "get_current_user env rq s = Inr (u, s1)" "us_role u = Admin"
    "filter (\<lambda>v. us_id v = i \<and> us_deleted_at v \<noteq> None) (users s) = [t]" "\<not> has_other_users t s" "data_reviews s = []"
    "list_all (\<lambda>n. \<forall>r \<in> set (emission_reports s). sn_base_report_id n = Some (er_id r) \<longrightarrow> sn_company_id n = er_company_id r) (scenarios s)"
    "list_all (\<lambda>v. iv_invited_by v \<noteq> i) (invitations s)"
  shows "\<exists>s'. get_db (gdpr_hard_delete env rq i) s = (Inr (), s') \<and> i \<notin> us_id ` set (users s') \<and>
    us_company_id t \<notin> er_company_id ` set (emission_reports s') \<and> us_company_id t \<notin> sub_company_id ` set (subscriptions s') \<and>
    us_company_id t \<notin> du_company_id ` set (data_uploads s') \<and>
    data_listings s' = data_listings s \<and> supply_chain_links s' = supply_chain_links s"
  by (rule purge_run [OF assms(1-4) _ _ assms(6) _ assms(7)]) (simp_all add: assms(5))

theorem purge_crosses_companies_witness:
  "us_company_id sample_admin \<noteq> us_company_id former_user \<and>
   (\<exists>s'. get_db (gdpr_hard_delete sample_auth admin_request_in 3) access_db = (Inr (), s') \<and> 3 \<notin> us_id ` set (users s'))"
proof -
  have "\<exists>s'. get_db (gdpr_hard_delete sample_auth admin_request_in 3) access_db = (Inr (), s') \<and> 3 \<notin> us_id ` set (users s') \<and>
      us_company_id former_user \<notin> er_company_id ` set (emission_reports s') \<and>
      us_company_id former_user \<notin> sub_company_id ` set (subscriptions s') \<and>
      us_company_id former_user \<notin> du_company_id ` set (data_uploads s') \<and>
      data_listings s' = data_listings access_db \<and> supply_chain_links s' = supply_chain_links access_db"
    by (rule purge_crosses_companies [OF sample_admin_request sample_rows_of_db(6)])
      (simp_all add: access_sample_defs has_other_users_def)
  then show ?thesis by (auto simp: access_sample_defs)
qed

section \<open>The event bus\<close>

text \<open>
  C25. Companies get their own events. However clients come and go, events are published and streams send,
  what the stream of a subscription has sent and what waits for it are events published to its company, in
  the order of publication and none twice; no queue exceeds its bound and no company is left with an empty
  entry.\<close>

theorem events_stay_in_company:
  assumes "bus_run ops = (bus, sent)" "q < length (eb_objects bus)"
  shows "subseq (sent_by q sent @ es_queue (eb_objects bus ! q)) (published (es_company_id (eb_objects bus ! q)) ops) \<and> bus_ok bus"
  using isolated_run [of ops] assms by (simp add: isolated_def)

theorem events_stay_in_company_witness:
  "subseq (sent_by 0 [(0, \<lparr>ev_event = ''alert.created'', ev_data = []\<rparr>)]) (published 1 [Open 1, Open 2, Publish 1 ''alert.created'' None, Send 0, Send 1])"
proof -
  let ?ops = "[Open 1, Open 2, Publish 1 ''alert.created'' None, Send 0, Send 1]"
  obtain bus sent where run: "bus_run ?ops = (bus, sent)" by fastforce
  have "snd (bus_run ?ops) = [(0, \<lparr>ev_event = ''alert.created'', ev_data = []\<rparr>)]" "length (eb_objects (fst (bus_run ?ops))) = 2"
    "es_company_id (eb_objects (fst (bus_run ?ops)) ! 0) = 1" "es_queue (eb_objects (fst (bus_run ?ops)) ! 0) = []" by code_simp+
  then have "sent = [(0, \<lparr>ev_event = ''alert.created'', ev_data = []\<rparr>)]" "0 < length (eb_objects bus)"
    "es_company_id (eb_objects bus ! 0) = 1" "es_queue (eb_objects bus ! 0) = []" using run by simp_all
  with events_stay_in_company [OF run this(2)] show ?thesis by simp
qed

end
