(* ===== verification/Estimate_Properties.thy ===== *)
theory Estimate_Properties
imports Samples
begin

text \<open>The properties of the bridge to the subnet and of the estimates made with it.\<close>







text \<open>
  C29. An estimate is booked whole or not at all: whatever happens in the request, afterwards the database has
  either the reports, the ledger and the audit trail from before, or exactly one more report of the company,
  one charge of ten credits that its balance covered and one audit entry that names the report. A report
  that is returned is the one stored.
\<close>

theorem estimate_is_booked_whole:
  assumes "ledger_ok s" "create_estimate env upload_id c user_id b \<lparr>ses_db = s, ses_saved = s\<rparr> = ((x, ses), b')"
  shows "isl x \<and> unbooked s (end_session ses) \<or>
    (\<exists>r. booked c user_id r s (end_session ses) \<and> (\<forall>q. x = Inr q \<longrightarrow> q = r))"
  using create_estimate_run [OF assms(2)] assms(1)
  by (auto simp: unbooked_def booked_def end_session_def)

theorem estimate_is_booked_whole_witness:
  "\<exists>r ses. fst (create_estimate local_env 13 2 1 fresh_bridge \<lparr>ses_db = estimate_db, ses_saved = estimate_db\<rparr>) = (Inr r, ses) \<and>
     booked 2 1 r estimate_db (end_session ses)"
proof -
  obtain x ses b' where 1: "create_estimate local_env 13 2 1 fresh_bridge \<lparr>ses_db = estimate_db, ses_saved = estimate_db\<rparr> =
      ((x, ses), b')"
    by (metis surj_pair)
  have "\<not> isl x" using 1 by (rule estimate_succeeds)
  then show ?thesis using estimate_is_booked_whole [OF _ 1] estimate_ledger 1 by (cases x) auto
qed

text \<open>
  A webhook of the company that fails makes every estimate fail: if one subscribed to new reports cannot
  be reached or answers with an error, no request for an estimate returns a report, and those that get as
  far as booking one end in a TypeError with the report stored and the credits charged.
\<close>

theorem failing_webhook_fails_estimates:
  assumes "ledger_ok s" "create_estimate env upload_id c user_id b \<lparr>ses_db = s, ses_saved = s\<rparr> = ((x, ses), b')"
    "\<And>t rq. handled (env_post (en_web env) t rq)" "wh \<in> set (webhooks s)" "wh_company_id wh = c" "wh_deleted_at wh = None"
    "subscribed ''report.created'' wh" "\<And>t rq. rq_url rq = wh_url wh \<Longrightarrow> failing (env_post (en_web env) t rq)"
  shows "isl x \<and> unbooked s (end_session ses) \<or> x = Inl TypeError \<and> (\<exists>r. booked c user_id r s (end_session ses))"
  using failing_webhook_run [OF assms(2) _ _ assms(3) _ assms(5-8)] assms(1,4)
  by (auto simp: unbooked_def booked_def end_session_def)

theorem failing_webhook_fails_estimates_witness:
  "\<exists>ses r. fst (create_estimate local_env 13 2 1 fresh_bridge \<lparr>ses_db = hooked_db, ses_saved = hooked_db\<rparr>) = (Inl TypeError, ses) \<and>
     booked 2 1 r hooked_db (end_session ses)"
proof -
  obtain x ses b' where 1: "create_estimate local_env 13 2 1 fresh_bridge \<lparr>ses_db = hooked_db, ses_saved = hooked_db\<rparr> =
      ((x, ses), b')"
    by (metis surj_pair)
  have "\<not> unbooked hooked_db (end_session ses)" using 1 by (rule hooked_estimate_books)
  moreover have "isl x \<and> unbooked hooked_db (end_session ses) \<or> x = Inl TypeError \<and> (\<exists>r. booked 2 1 r hooked_db (end_session ses))"
    by (rule failing_webhook_fails_estimates [OF hooked_ledger 1, where wh = estimate_hook])
      (simp_all add: local_env_def sample_web_def handled_def failing_def hooked_db_def estimate_hook_def sample_webhook_def)
  ultimately show ?thesis using 1 by auto
qed

end
