(* ===== verification/Scheduler.thy ===== *)
theory Scheduler
imports Alerts Event_Bus Subscriptions Webhooks Sessions
begin

text \<open>
  \<open>api/services/scheduler.py\<close>: the four background jobs. A turn of a job tries the lock of the cluster and then
  works in a session of its own; an exception that the loop does not catch ends the job. Waiting, logging
  and the start of the tasks are left out; the lock is what Redis answers.
\<close>

section \<open>Turns of a job\<close>

text \<open>\<open>None\<close> without Redis; otherwise the answer of \<open>SET NX\<close> or what the client raises.\<close>

type_synonym lock_reply = "bool res option"

definition acquire_lock :: "lock_reply \<Rightarrow> bool res" where
  "acquire_lock r =
     (case r of
        None \<Rightarrow> Inr True
      | Some (Inr b) \<Rightarrow> Inr b
      | Some (Inl e) \<Rightarrow> if e = OSError then Inr True else Inl e)"

fun is_sqlalchemy_error :: "exn \<Rightarrow> bool" where
  "is_sqlalchemy_error IntegrityError = True"
| "is_sqlalchemy_error DataError = True"
| "is_sqlalchemy_error MultipleResultsFound = True"
| "is_sqlalchemy_error NoResultFound = True"
| "is_sqlalchemy_error e = False"

text \<open>What a loop catches, and what the loop over the companies catches for one of them.\<close>

fun turn_survives :: "exn \<Rightarrow> bool" where
  "turn_survives OSError = True"
| "turn_survives (RuntimeError m) = True"
| "turn_survives e = is_sqlalchemy_error e"

fun company_survives :: "exn \<Rightarrow> bool" where
  "company_survives OSError = True"
| "company_survives (ValueError m) = True"
| "company_survives (InsufficientCredits a b) = True"
| "company_survives e = is_sqlalchemy_error e"

text \<open>A piece of work: the exception that left it, if any, and the state after it.\<close>

type_synonym 's work = "'s \<Rightarrow> exn option \<times> 's"

definition job_turn :: "'s work \<Rightarrow> lock_reply \<Rightarrow> 's work" where
  "job_turn cycle lock st =
     (case acquire_lock lock of Inl e \<Rightarrow> (Some e, st) | Inr got \<Rightarrow> if got then cycle st else (None, st))"

text \<open>The turns of a job while it lives.\<close>

fun job_run :: "'s work \<Rightarrow> lock_reply list \<Rightarrow> 's \<Rightarrow> bool \<times> 's" where
  "job_run cycle [] st = (True, st)"
| "job_run cycle (lock # locks) st =
     (case job_turn cycle lock st of
        (None, st') \<Rightarrow> job_run cycle locks st'
      | (Some e, st') \<Rightarrow> if turn_survives e then job_run cycle locks st' else (False, st'))"

section \<open>All companies, in batches\<close>

definition batch_size :: nat where
  "batch_size = 100"

definition company_ids :: "db \<Rightarrow> ident list" where
  "company_ids s = sort (map co_id (companies s))"

text \<open>\<open>async with db.begin_nested()\<close> inside the \<open>try\<close> of one company\<close>

definition in_savepoint :: "('s, 'a) sres \<Rightarrow> 's work" where
  "in_savepoint m s =
     (case m s of Inl e \<Rightarrow> (if company_survives e then None else Some e, s) | Inr r \<Rightarrow> (None, snd r))"

fun for_each :: "(ident \<Rightarrow> 's work) \<Rightarrow> ident list \<Rightarrow> 's work" where
  "for_each step [] s = (None, s)"
| "for_each step (c # cs) s =
     (case step c s of (None, s') \<Rightarrow> for_each step cs s' | (Some e, s') \<Rightarrow> (Some e, s'))"

text \<open>The loop ends at the first empty batch.\<close>

partial_function (option) for_batches ::
    "('s \<Rightarrow> ident list) \<Rightarrow> (ident \<Rightarrow> 's work) \<Rightarrow> nat \<Rightarrow> 's \<Rightarrow> (exn option \<times> 's) option" where
  "for_batches ids step offset s =
     (let batch = paginate batch_size offset (ids s)
      in if batch = [] then Some (None, s)
         else let r = for_each step batch s
              in if fst r = None then for_batches ids step (offset + batch_size) (snd r) else Some r)"

lemma for_each_append:
  "for_each step (cs @ ds) s = (case for_each step cs s of (None, s') \<Rightarrow> for_each step ds s' | (Some e, s') \<Rightarrow> (Some e, s'))"
  by (induction cs arbitrary: s) (auto split: prod.split option.split)

lemma for_each_ids:
  assumes "\<And>c s. ids s = l \<Longrightarrow> ids (snd (step c s)) = l"
  shows "ids s = l \<Longrightarrow> ids (snd (for_each step cs s)) = l"
proof (induction cs arbitrary: s)
  case (Cons c cs)
  then show ?case using assms [of s c] by (cases "step c s") (auto split: option.split)
qed simp

text \<open>As long as the steps leave the list of companies alone, the batches end and together are the whole list.\<close>

lemma for_batches_all:
  assumes "\<And>c s. ids s = l \<Longrightarrow> ids (snd (step c s)) = l"
  shows "ids s = l \<Longrightarrow> for_batches ids step offset s = Some (for_each step (drop offset l) s)"
proof (induction "length l - offset" arbitrary: offset s rule: less_induct)
  case less
  let ?batch = "take batch_size (drop offset l)"
  have split: "drop offset l = ?batch @ drop (offset + batch_size) l"
    by (metis add.commute append_take_drop_id drop_drop)
  show ?case
  proof (cases "?batch = []")
    case True
    then have "drop offset l = []" by (simp add: batch_size_def)
    then show ?thesis using True less.prems by (subst for_batches.simps) (simp add: paginate_def)
  next
    case False
    obtain e s' where r: "for_each step ?batch s = (e, s')" by fastforce
    have ids: "ids s' = l" using for_each_ids [of ids l step s ?batch, OF assms less.prems] r by simp
    have "length l - (offset + batch_size) < length l - offset"
      using False by (auto simp: batch_size_def not_le)
    note ih = less.hyps [OF this ids]
    show ?thesis
    proof (cases e)
      case None
      then show ?thesis using False r ih less.prems
        by (subst for_batches.simps, subst split) (simp add: paginate_def for_each_append)
    next
      case (Some x)
      then show ?thesis using False r less.prems
        by (subst for_batches.simps, subst split) (simp add: paginate_def for_each_append)
    qed
  qed
qed

section \<open>Alerts\<close>

text \<open>The reports the last twenty alerts of a company name.\<close>

definition latest_alert_report_ids :: "ident \<Rightarrow> db \<Rightarrow> pyval list" where
  "latest_alert_report_ids c s =
     concat (map (\<lambda>a. case map_of (al_metadata a) ''latest_report_id'' of None \<Rightarrow> [] | Some v \<Rightarrow> [v])
       (take 20 (order_by_desc al_created_at (filter (\<lambda>a. al_company_id a = c) (alerts s)))))"

definition duplicate_alert :: "pyval list \<Rightarrow> alert \<Rightarrow> bool" where
  "duplicate_alert existing_ids a \<longleftrightarrow>
     (case map_of (al_metadata a) ''latest_report_id'' of None \<Rightarrow> False | Some v \<Rightarrow> v \<in> set existing_ids)"

definition alert_step :: "alert_config \<Rightarrow> ident \<Rightarrow> (db \<times> event_bus, nat) sres" where
  "alert_step cfg c = (\<lambda>(s, bus).
     case check_company_alerts cfg c s of
       Inl e \<Rightarrow> Inl e
     | Inr (new_alerts, s1) \<Rightarrow>
         (let existing_ids = latest_alert_report_ids c s;
              dropped = filter (duplicate_alert existing_ids) new_alerts;
              kept = length (filter (\<lambda>a. \<not> duplicate_alert existing_ids a) new_alerts);
              s2 = s1\<lparr>alerts := filter (\<lambda>a. a \<notin> set dropped) (alerts s1)\<rparr>;
              bus2 = (if 0 < kept then snd (publish c ''alert.created'' (Some [(''count'', PNum (flt_of_int (int kept)))]) bus) else bus)
          in Inr (kept, (s2, bus2))))"

text \<open>What an uncaught exception leaves: the writes are lost, the events are not.\<close>

definition alert_cycle :: "alert_config \<Rightarrow> (db \<times> event_bus) work" where
  "alert_cycle cfg st =
     (case for_batches (\<lambda>st. company_ids (fst st)) (\<lambda>c. in_savepoint (alert_step cfg c)) 0 st of
        None \<Rightarrow> (None, st)
      | Some (None, st') \<Rightarrow> (None, st')
      | Some (Some e, st') \<Rightarrow> (Some e, (end_session \<lparr>ses_db = fst st', ses_saved = fst st\<rparr>, snd st')))"

section \<open>Monthly credits\<close>

definition reset_step :: "ident \<Rightarrow> (db, unit) sres" where
  "reset_step c =
     bind_s (get_or_create_subscription c) (\<lambda>sub.
     bind_s (get_credit_balance c) (\<lambda>current.
     let top_up = max 0 (monthly_credits (sub_plan sub) - current)
     in if 0 < top_up then bind_s (grant_credits c top_up Monthly_Reset) (\<lambda>_. return_s ()) else return_s ()))"

text \<open>
  For a company whose only subscription was deleted, the flush in \<open>get_or_create_subscription\<close> fails and the
  service rolls the whole session back, not only the savepoint: what was done for the companies before is
  lost, and the loop goes on with the next. \<open>start\<close> is the database at the start of the turn.
\<close>

definition subscription_blocked :: "ident \<Rightarrow> db \<Rightarrow> bool" where
  "subscription_blocked c s \<longleftrightarrow> active_subscriptions c s = [] \<and> has_subscription_row c s"

definition reset_work :: "db \<Rightarrow> ident \<Rightarrow> db work" where
  "reset_work start c s =
     (if subscription_blocked c s then (None, end_session \<lparr>ses_db = s, ses_saved = start\<rparr>)
      else in_savepoint (reset_step c) s)"

definition reset_cycle :: "db work" where
  "reset_cycle s =
     (case for_batches company_ids (reset_work s) 0 s of
        None \<Rightarrow> (None, s)
      | Some (None, s') \<Rightarrow> (None, s')
      | Some (Some e, s') \<Rightarrow> (Some e, end_session \<lparr>ses_db = s', ses_saved = s\<rparr>))"

text \<open>A turn on a day of a month; the month of the last reset is kept in memory.\<close>

record reset_turn =
  tn_day :: nat
  tn_month :: nat
  tn_lock :: lock_reply

definition reset_job_turn :: "reset_turn \<Rightarrow> (nat option \<times> db) work" where
  "reset_job_turn t = (\<lambda>(last_reset, s).
     if tn_day t = 1 \<and> last_reset \<noteq> Some (tn_month t) then
       (case acquire_lock (tn_lock t) of
          Inl e \<Rightarrow> (Some e, (last_reset, s))
        | Inr got \<Rightarrow>
            if got then
              (case reset_cycle s of
                 (None, s') \<Rightarrow> (None, (Some (tn_month t), s'))
               | (Some e, s') \<Rightarrow> (Some e, (last_reset, s')))
            else (None, (last_reset, s)))
     else (None, (last_reset, s)))"

fun reset_job_run :: "reset_turn list \<Rightarrow> nat option \<times> db \<Rightarrow> bool \<times> nat option \<times> db" where
  "reset_job_run [] st = (True, st)"
| "reset_job_run (t # ts) st =
     (case reset_job_turn t st of
        (None, st') \<Rightarrow> reset_job_run ts st'
      | (Some e, st') \<Rightarrow> if turn_survives e then reset_job_run ts st' else (False, st'))"

section \<open>Webhook retries\<close>

definition retry_cycle :: "web_env \<Rightarrow> db work" where
  "retry_cycle env s = (case process_pending_retries env s of Inl e \<Rightarrow> (Some e, s) | Inr r \<Rightarrow> (None, snd r))"

section \<open>Expired tokens\<close>

definition purge_batch :: nat where
  "purge_batch = 1000"

function purge :: "('a \<Rightarrow> timestamp) \<Rightarrow> timestamp \<Rightarrow> 'a list \<Rightarrow> 'a list" where
  "purge expires_at now rows =
     (let batch = take purge_batch (filter (\<lambda>r. expires_at r < now) rows)
      in if batch = [] then rows else purge expires_at now (filter (\<lambda>r. r \<notin> set batch) rows))"
  by pat_completeness auto

termination
proof (relation "measure (\<lambda>(f, now, rows). length (filter (\<lambda>r. f r < now) rows))", goal_cases)
  case (2 f now rows batch)
  have "hd batch \<in> set batch" by (rule hd_in_set) (fact 2(2))
  then obtain r where r: "r \<in> set batch" by blast
  then have "r \<in> set rows" "f r < now" unfolding 2(1) by (auto dest!: in_set_takeD)
  then have "length (filter (\<lambda>r. r \<notin> set batch) (filter (\<lambda>r. f r < now) rows)) < length (filter (\<lambda>r. f r < now) rows)"
    using r by (intro length_filter_less [of r]) auto
  then show ?case by (simp add: conj_commute)
qed simp

declare purge.simps [simp del]

text \<open>The batches delete the expired rows and no other.\<close>

lemma purge_filter: "purge f now rows = filter (\<lambda>r. now \<le> f r) rows"
proof (induction f now rows rule: purge.induct)
  case (1 f now rows)
  let ?batch = "take purge_batch (filter (\<lambda>r. f r < now) rows)"
  show ?case
  proof (cases "?batch = []")
    case True
    then have "filter (\<lambda>r. f r < now) rows = []" by (simp add: purge_batch_def)
    then have "filter (\<lambda>r. now \<le> f r) rows = rows" by (auto simp: filter_empty_conv not_less intro!: filter_True)
    then show ?thesis using True by (subst purge.simps) simp
  next
    case False
    have "r \<notin> set ?batch" if "now \<le> f r" for r using that by (auto dest!: in_set_takeD)
    then have "filter (\<lambda>r. now \<le> f r) (filter (\<lambda>r. r \<notin> set ?batch) rows) = filter (\<lambda>r. now \<le> f r) rows"
      by (auto intro!: filter_cong simp: filter_filter)
    then show ?thesis using False 1 [OF refl False] by (subst purge.simps) simp
  qed
qed

definition cleanup_cycle :: "db work" where
  "cleanup_cycle s =
     (let now = db_now s; s = s\<lparr>db_now := db_now s + 1\<rparr>
      in (None, s\<lparr>revoked_tokens := purge rv_expires_at now (revoked_tokens s),
           refresh_tokens := purge rt_expires_at now (refresh_tokens s),
           password_reset_tokens := purge pr_expires_at now (password_reset_tokens s)\<rparr>))"

end
