(* ===== verification/Scheduler_Laws.thy ===== *)
theory Scheduler_Laws
imports Scheduler Token_Laws Subscriptions Deps
begin

text \<open>
  What the background jobs do: the credit reset tops every company up, unless one company's deleted
  subscription takes the others' back; a drop in confidence is reported again at every check; an error of
  Redis ends a job; the cleanup of tokens revives none.
\<close>

section \<open>The monthly reset\<close>

text \<open>An entry appended to the ledger of a company, and nothing else but the clock and the identifiers.\<close>

definition topped_up :: "ident \<Rightarrow> int \<Rightarrow> db \<Rightarrow> db \<Rightarrow> bool" where
  "topped_up c n s s' \<longleftrightarrow> ledger_ok s' \<and> db_now s \<le> db_now s' \<and> companies s' = companies s \<and> subscriptions s' = subscriptions s \<and>
     (\<forall>d. balance_of s' d = balance_of s d + (if d = c then n else 0))"

lemma reset_step_run:
  assumes "ledger_ok s" "active_subscriptions c s = [sub]"
  shows "\<exists>s'. reset_step c s = Inr ((), s') \<and> topped_up c (max 0 (monthly_credits (sub_plan sub) - balance_of s c)) s s'"
proof (cases "monthly_credits (sub_plan sub) \<le> balance_of s c")
  case True
  then show ?thesis using assms existing_subscription [OF assms(2)] get_balance_refines [OF assms(1)]
    by (simp add: reset_step_def topped_up_def bind_s_def max_def)
next
  case False
  let ?n = "monthly_credits (sub_plan sub) - balance_of s c"
  have "0 \<le> balance_of s c + ?n" using False balance_nonneg [OF assms(1), of c] by simp
  from grant_effect [OF assms(1) this, of Monthly_Reset] obtain e where
    "grant_credits c ?n Monthly_Reset s =
      Inr (e, s\<lparr>db_now := db_now s + 1, db_next_id := db_next_id s + 1, credit_ledger := credit_ledger s @ [e]\<rparr>)"
    "cl_company_id e = c" "cl_amount e = ?n"
    "ledger_ok (s\<lparr>db_now := db_now s + 1, db_next_id := db_next_id s + 1, credit_ledger := credit_ledger s @ [e]\<rparr>)"
    by blast
  then show ?thesis using False assms existing_subscription [OF assms(2)] get_balance_refines [OF assms(1)]
    by (auto simp: reset_step_def topped_up_def bind_s_def max_def)
qed

text \<open>A state of the loop in which every company has its subscription.\<close>

definition subscribed_all :: "db \<Rightarrow> bool" where
  "subscribed_all s \<longleftrightarrow> (\<forall>c \<in> set (company_ids s). \<exists>sub. active_subscriptions c s = [sub])"

definition monthly_of :: "db \<Rightarrow> ident \<Rightarrow> int" where
  "monthly_of s c = (case active_subscriptions c s of [] \<Rightarrow> 0 | sub # _ \<Rightarrow> monthly_credits (sub_plan sub))"

lemma active_cong: "subscriptions s' = subscriptions s \<Longrightarrow> active_subscriptions c s' = active_subscriptions c s"
  by (simp add: active_subscriptions_def)

lemma reset_work_run:
  assumes "ledger_ok s" "active_subscriptions c s = [sub]"
  shows "\<exists>s'. reset_work start c s = (None, s') \<and> topped_up c (max 0 (monthly_of s c - balance_of s c)) s s'"
  using reset_step_run [OF assms] assms(2)
  by (auto simp: reset_work_def subscription_blocked_def in_savepoint_def monthly_of_def)

lemma reset_for_each:
  assumes "ledger_ok s" "\<And>c. c \<in> set cs \<Longrightarrow> \<exists>sub. active_subscriptions c s = [sub]"
  shows "\<exists>s'. for_each (reset_work start) cs s = (None, s') \<and> ledger_ok s' \<and> db_now s \<le> db_now s' \<and> companies s' = companies s \<and>
    subscriptions s' = subscriptions s \<and>
    (\<forall>c. balance_of s' c = (if c \<in> set cs then max (balance_of s c) (monthly_of s c) else balance_of s c))"
  using assms
proof (induction cs arbitrary: s)
  case (Cons d cs)
  obtain sub where "active_subscriptions d s = [sub]" using Cons.prems(2) by auto
  from reset_work_run [OF Cons.prems(1) this, of start] obtain s1 where
    s1: "reset_work start d s = (None, s1)" "topped_up d (max 0 (monthly_of s d - balance_of s d)) s s1" by blast
  then have subs: "subscriptions s1 = subscriptions s" by (simp add: topped_up_def)
  have m: "monthly_of s1 c = monthly_of s c" for c using active_cong [OF subs] by (simp add: monthly_of_def)
  obtain s' where "for_each (reset_work start) cs s1 = (None, s')" "ledger_ok s'" "db_now s1 \<le> db_now s'" "companies s' = companies s1"
    "subscriptions s' = subscriptions s1"
    "\<forall>c. balance_of s' c = (if c \<in> set cs then max (balance_of s1 c) (monthly_of s1 c) else balance_of s1 c)"
    using Cons.IH [of s1] s1(2) Cons.prems(2) active_cong [OF subs] by (auto simp: topped_up_def)
  then show ?case using s1 m by (auto simp: topped_up_def max_def)
qed auto

lemma end_session_companies [simp]:
  "companies (end_session ses) = companies (ses_saved ses)" "subscriptions (end_session ses) = subscriptions (ses_saved ses)"
  "credit_ledger (end_session ses) = credit_ledger (ses_saved ses)"
  by (simp_all add: end_session_def)

lemma reset_step_companies: "reset_step c s = Inr (u, s') \<Longrightarrow> companies s' = companies s"
  by (auto simp: reset_step_def get_or_create_subscription_def get_credit_balance_def grant_credits_def get_balance_for_update_def
      insert_entry_def bind_s_Inr_iff Let_def split: if_splits option.splits)

lemma reset_work_ids:
  assumes "company_ids start = l" "company_ids s = l"
  shows "company_ids (snd (reset_work start c s)) = l"
proof (cases "reset_step c s")
  case (Inr r)
  obtain s' where r: "r = ((), s')" by (cases r) auto
  have "companies s' = companies s" using reset_step_companies [of c s "()" s'] Inr r by simp
  then show ?thesis using Inr r assms by (simp add: reset_work_def in_savepoint_def company_ids_def)
qed (use assms in \<open>simp add: reset_work_def in_savepoint_def company_ids_def\<close>)

lemma reset_cycle_for_each:
  "reset_cycle s = (case for_each (reset_work s) (company_ids s) s of
     (None, s') \<Rightarrow> (None, s') | (Some e, s') \<Rightarrow> (Some e, end_session \<lparr>ses_db = s', ses_saved = s\<rparr>))"
  using for_batches_all [of company_ids "company_ids s" "reset_work s" s 0, OF reset_work_ids [OF refl]]
  by (simp add: reset_cycle_def split: prod.split option.split)

text \<open>When every company has its subscription, each ends with at least the credits of its plan.\<close>

lemma reset_tops_up:
  assumes "ledger_ok s" "subscribed_all s"
  shows "\<exists>s'. reset_cycle s = (None, s') \<and> ledger_ok s' \<and>
    (\<forall>c. balance_of s' c = (if c \<in> co_id ` set (companies s) then max (balance_of s c) (monthly_of s c) else balance_of s c))"
proof -
  obtain s' where "for_each (reset_work s) (company_ids s) s = (None, s')" "ledger_ok s'"
    "\<forall>c. balance_of s' c = (if c \<in> set (company_ids s) then max (balance_of s c) (monthly_of s c) else balance_of s c)"
    using reset_for_each [OF assms(1), of "company_ids s" s] assms(2) unfolding subscribed_all_def by blast
  then show ?thesis by (auto simp: reset_cycle_for_each company_ids_def)
qed

text \<open>A company whose subscription was deleted takes back what the companies before it got.\<close>

lemma rolled_back:
  assumes "ledger_ok start" "db_now start \<le> db_now s"
  shows "ledger_ok (end_session \<lparr>ses_db = s, ses_saved = start\<rparr>)"
    "balance_of (end_session \<lparr>ses_db = s, ses_saved = start\<rparr>) c = balance_of start c"
  using assms by (force simp: ledger_ok_def company_ledger_def list_all_iff, simp add: balance_of_def company_ledger_def)

lemma reset_takes_back:
  assumes "ledger_ok s" "company_ids s = before @ d # after" "subscription_blocked d s"
    "\<And>c. c \<in> set before \<union> set after \<Longrightarrow> \<exists>sub. active_subscriptions c s = [sub]"
  shows "\<exists>s'. reset_cycle s = (None, s') \<and>
    (\<forall>c. balance_of s' c = (if c \<in> set after then max (balance_of s c) (monthly_of s c) else balance_of s c))"
proof -
  obtain s1 where s1: "for_each (reset_work s) before s = (None, s1)" "db_now s \<le> db_now s1" "subscriptions s1 = subscriptions s"
    using reset_for_each [OF assms(1), of before s] assms(4) by auto
  let ?s2 = "end_session \<lparr>ses_db = s1, ses_saved = s\<rparr>"
  have blocked: "reset_work s d s1 = (None, ?s2)"
    using assms(3) active_cong [OF s1(3)] s1(3) by (simp add: reset_work_def subscription_blocked_def has_subscription_row_def)
  have active: "active_subscriptions c ?s2 = active_subscriptions c s" for c by (rule active_cong) simp
  then have m: "monthly_of ?s2 c = monthly_of s c" for c by (simp add: monthly_of_def)
  obtain s' where "for_each (reset_work s) after ?s2 = (None, s')"
    "\<forall>c. balance_of s' c = (if c \<in> set after then max (balance_of ?s2 c) (monthly_of ?s2 c) else balance_of ?s2 c)"
    using reset_for_each [OF rolled_back(1) [OF assms(1) s1(2)], of after s] assms(4) active by auto
  then show ?thesis
    using s1(1) blocked by (simp add: reset_cycle_for_each assms(2) for_each_append m rolled_back(2) [OF assms(1) s1(2)])
qed

section \<open>The lock\<close>

text \<open>An error of the Redis client itself is no \<open>OSError\<close>: the job ends, whatever turns would follow.\<close>

lemma redis_error_ends_job:
  "job_run cycle (Some (Inl RedisError) # locks) st = (False, st)"
  by (simp add: job_turn_def acquire_lock_def)

lemma job_run_append:
  "job_run cycle (xs @ ys) st = (case job_run cycle xs st of (alive, st') \<Rightarrow> if alive then job_run cycle ys st' else (False, st'))"
  by (induction cycle xs st rule: job_run.induct) (auto split: prod.split option.split)

lemma redis_error_is_last:
  "job_run cycle (xs @ Some (Inl RedisError) # ys) st = (False, snd (job_run cycle xs st))"
  by (cases "job_run cycle xs st") (simp add: job_run_append redis_error_ends_job del: job_run.simps)

section \<open>Expired tokens\<close>

lemma cleanup_cycle_run:
  "cleanup_cycle s = (None, s\<lparr>db_now := db_now s + 1,
     revoked_tokens := filter (\<lambda>r. db_now s \<le> rv_expires_at r) (revoked_tokens s),
     refresh_tokens := filter (\<lambda>r. db_now s \<le> rt_expires_at r) (refresh_tokens s),
     password_reset_tokens := filter (\<lambda>r. db_now s \<le> pr_expires_at r) (password_reset_tokens s)\<rparr>)"
  by (simp add: cleanup_cycle_def purge_filter Let_def)

text \<open>A revoked token whose revocation is purged has expired itself.\<close>

lemma cleanup_revives_none:
  assumes "\<And>t tk p. ae_jwt_decode env t tk = Inr p \<Longrightarrow> t < jc_exp p * 1000000"
    "ae_jwt_decode env (db_now later) (fst (request_token rq)) = Inr payload" "jc_jti payload = Some (rv_jti row)" "rv_jti row \<noteq> []"
    "row \<in> set (revoked_tokens s)" "rv_expires_at row = jc_exp payload * 1000000"
    "cleanup_cycle s = (e, s')" "set (revoked_tokens s') \<subseteq> set (revoked_tokens later)" "db_now s' \<le> db_now later"
  shows "\<not> returns (get_current_user env rq later)"
proof
  assume "returns (get_current_user env rq later)"
  then obtain v s2 where "get_current_user env rq later = Inr (v, s2)" by (auto elim!: returnsE)
  then obtain p where p: "ae_jwt_decode env (db_now later) (fst (request_token rq)) = Inr p"
    "\<And>jti. jc_jti p = Some jti \<Longrightarrow> jti \<noteq> [] \<Longrightarrow> jti \<notin> rv_jti ` set (revoked_tokens later)"
    by (elim current_user_run) blast
  have "p = payload" using p(1) assms(2) by simp
  then have "rv_jti row \<notin> rv_jti ` set (revoked_tokens later)" using p(2) assms(3,4) by simp
  then have "row \<notin> set (revoked_tokens s')" using assms(8) by auto
  then have "rv_expires_at row < db_now s" using assms(5,7) by (auto simp: cleanup_cycle_run)
  moreover have "db_now later < jc_exp payload * 1000000" by (rule assms(1) [OF assms(2)])
  moreover have "db_now s' = db_now s + 1" using assms(7) by (auto simp: cleanup_cycle_run)
  ultimately show False using assms(6,9) by simp
qed

section \<open>Alerts\<close>

text \<open>A check finds the same drop in confidence every time, and its alert names no report to recognise it by.\<close>

definition drop_alerts :: "ident \<Rightarrow> db \<Rightarrow> alert list" where
  "drop_alerts c s = filter (\<lambda>a. al_company_id a = c \<and> al_alert_type a = Confidence_Drop \<and> \<not> al_is_read a) (alerts s)"

lemma check_increase_only:
  "check_increase cfg c l p s = Inr (as, s') \<Longrightarrow>
    alerts s' = alerts s @ as \<and> emission_reports s' = emission_reports s \<and> list_all (\<lambda>a. al_alert_type a = Emission_Increase) as"
  by (auto simp: check_increase_def add_alert_def bind_s_def Let_def split: if_splits)

lemma check_drop_found:
  "confidence_drop_threshold cfg < er_confidence p - er_confidence l \<Longrightarrow>
    \<exists>a s'. check_drop cfg c l p s = Inr ([a], s') \<and> alerts s' = alerts s @ [a] \<and> emission_reports s' = emission_reports s \<and>
      al_company_id a = c \<and> al_alert_type a = Confidence_Drop \<and> \<not> al_is_read a \<and> map_of (al_metadata a) ''latest_report_id'' = None"
  by (simp add: check_drop_def add_alert_def bind_s_def Let_def)

lemma drop_is_reported_again:
  assumes "last_reports c s = latest # previous # rest" "confidence_drop_threshold cfg < er_confidence previous - er_confidence latest"
  shows "\<exists>k s' bus'. alert_step cfg c (s, bus) = Inr (k, (s', bus')) \<and> 0 < k \<and>
    length (drop_alerts c s') = length (drop_alerts c s) + 1 \<and> emission_reports s' = emission_reports s"
proof -
  obtain as s1 where a: "check_increase cfg c latest previous s = Inr (as, s1)" using check_increase_run by blast
  note i = check_increase_only [OF a]
  obtain d s2 where d: "check_drop cfg c latest previous s1 = Inr ([d], s2)" "alerts s2 = alerts s1 @ [d]"
    "emission_reports s2 = emission_reports s1" "al_company_id d = c" "al_alert_type d = Confidence_Drop" "\<not> al_is_read d"
    "map_of (al_metadata d) ''latest_report_id'' = None"
    using check_drop_found [OF assms(2), of c s1] by blast
  have run: "check_company_alerts cfg c s = Inr (as @ [d], s2)"
    using a d(1) by (simp add: check_company_alerts_def assms(1) bind_s_def)
  let ?dup = "duplicate_alert (latest_alert_report_ids c s)"
  let ?dropped = "filter ?dup (as @ [d])" and ?D = "\<lambda>a. al_company_id a = c \<and> al_alert_type a = Confidence_Drop \<and> \<not> al_is_read a"
  have nd: "\<not> ?dup d" using d(7) by (simp add: duplicate_alert_def)
  have keep: "filter ?D (filter (\<lambda>a. a \<notin> set ?dropped) xs) = filter ?D xs" for xs
  proof -
    have "a \<notin> set ?dropped" if D: "?D a" for a
    proof
      assume "a \<in> set ?dropped"
      then have "?dup a" "a \<in> set as \<or> a = d" unfolding set_filter by auto
      moreover have "a \<notin> set as" using i D by (auto simp: list_all_iff)
      ultimately show False using nd by metis
    qed
    then have eq: "(?D a \<and> a \<notin> set ?dropped) = ?D a" for a by metis
    show ?thesis by (simp only: filter_filter conj_commute [of "_ \<notin> _"] eq)
  qed
  have "filter ?D as = []" using i by (auto simp: list_all_iff filter_empty_conv)
  then have "length (filter ?D (alerts s2)) = length (filter ?D (alerts s)) + 1" using i d by simp
  then show ?thesis using nd i d(3) keep [of "alerts s2"]
    by (simp add: alert_step_def run Let_def drop_alerts_def)
qed

text \<open>The check of one company at every turn, while its reports stay as they are.\<close>

fun check_times :: "alert_config \<Rightarrow> ident \<Rightarrow> nat \<Rightarrow> (db \<times> event_bus) work" where
  "check_times cfg c 0 st = (None, st)"
| "check_times cfg c (Suc n) st =
     (case in_savepoint (alert_step cfg c) st of (None, st') \<Rightarrow> check_times cfg c n st' | (Some e, st') \<Rightarrow> (Some e, st'))"

lemma drop_is_reported_forever:
  assumes "last_reports c s = latest # previous # rest" "confidence_drop_threshold cfg < er_confidence previous - er_confidence latest"
  shows "\<exists>s' bus'. check_times cfg c n (s, bus) = (None, (s', bus')) \<and> length (drop_alerts c s') = length (drop_alerts c s) + n"
  using assms(1)
proof (induction n arbitrary: s bus)
  case (Suc n)
  obtain k s1 bus1 where 1: "alert_step cfg c (s, bus) = Inr (k, (s1, bus1))"
    "length (drop_alerts c s1) = length (drop_alerts c s) + 1" "emission_reports s1 = emission_reports s"
    using drop_is_reported_again [OF Suc.prems assms(2), of bus] by blast
  have "last_reports c s1 = latest # previous # rest" using Suc.prems 1(3) by (simp add: last_reports_def)
  from Suc.IH [OF this, of bus1] show ?case using 1 by (simp add: in_savepoint_def)
qed simp

end
