(* ===== verification/Companies.thy ===== *)
theory Companies
imports Carbon
begin

text \<open>
  \<open>api/services/company.py\<close>: the profile of a company and its uploads. An update holds the fields the client
  has set, each with the value it gave, which may be null.
\<close>

section \<open>The profile\<close>

definition get_company :: "ident \<Rightarrow> db \<Rightarrow> company res" where
  "get_company c s =
     bind_r (scalar_one_or_none (filter (\<lambda>r. co_id r = c \<and> co_deleted_at r = None) (companies s))) (\<lambda>found.
     case found of None \<Rightarrow> Inl (ServiceError ''Company not found'' 404) | Some r \<Rightarrow> Inr r)"

record company_update =
  cu_name :: "string option option"
  cu_industry :: "string option option"
  cu_region :: "string option option"
  cu_employee_count :: "int option option"
  cu_revenue_usd :: "flt option option"

text \<open>A text column of limited width that may not be null; the schema allows longer texts than two of them.\<close>

definition text_column :: "nat \<Rightarrow> string option option \<Rightarrow> string \<Rightarrow> string res" where
  "text_column width upd old =
     (case upd of
        None \<Rightarrow> Inr old
      | Some None \<Rightarrow> Inl IntegrityError
      | Some (Some v) \<Rightarrow> if width < length v then Inl DataError else Inr v)"

definition set_fields :: "company_update \<Rightarrow> company \<Rightarrow> company res" where
  "set_fields u co =
     bind_r (text_column 255 (cu_name u) (co_name co)) (\<lambda>name.
     bind_r (text_column 100 (cu_industry u) (co_industry co)) (\<lambda>industry.
     bind_r (text_column 10 (cu_region u) (co_region co)) (\<lambda>region.
     Inr (co\<lparr>co_name := name, co_industry := industry, co_region := region,
       co_employee_count := (case cu_employee_count u of None \<Rightarrow> co_employee_count co | Some v \<Rightarrow> v),
       co_revenue_usd := (case cu_revenue_usd u of None \<Rightarrow> co_revenue_usd co | Some v \<Rightarrow> v)\<rparr>))))"

definition updated_keys :: "company_update \<Rightarrow> string list" where
  "updated_keys u =
     (if cu_name u = None then [] else [''name'']) @ (if cu_industry u = None then [] else [''industry'']) @
     (if cu_region u = None then [] else [''region'']) @ (if cu_employee_count u = None then [] else [''employee_count'']) @
     (if cu_revenue_usd u = None then [] else [''revenue_usd''])"

definition update_company :: "ident \<Rightarrow> ident \<Rightarrow> company_update \<Rightarrow> company req" where
  "update_company c user_id u =
     bind_q (ask (get_company c)) (\<lambda>co.
     bind_q (ask (\<lambda>s. set_fields u co)) (\<lambda>co'.
     bind_q (serve (modify_s (\<lambda>s. s\<lparr>companies := update_row co_id (co_id co) (\<lambda>_. co') (companies s)\<rparr>))) (\<lambda>_.
     bind_q (serve (record_audit user_id c ''update'' ''company'' (Some (co_id co)) (Some (''fields: '' @ join '', '' (updated_keys u))))) (\<lambda>_.
     bind_q commit (\<lambda>_.
     return_q co')))))"

section \<open>Uploads\<close>

definition insert_upload :: "ident \<Rightarrow> int \<Rightarrow> pydict \<Rightarrow> string option \<Rightarrow> (db, data_upload) sres" where
  "insert_upload c year data note =
     bind_s new_id (\<lambda>i.
     bind_s utcnow (\<lambda>now.
     let u = \<lparr>du_id = i, du_company_id = c, du_year = year, du_provided_data = Some data, du_notes = note,
              du_created_at = now, du_deleted_at = None\<rparr>
     in bind_s (modify_s (\<lambda>s. s\<lparr>data_uploads := data_uploads s @ [u]\<rparr>)) (\<lambda>_. return_s u)))"

definition create_upload :: "web_env \<Rightarrow> ident \<Rightarrow> int \<Rightarrow> pydict \<Rightarrow> string option \<Rightarrow> data_upload req" where
  "create_upload env c year data note =
     bind_q (serve (insert_upload c year data note)) (\<lambda>u.
     bind_q commit (\<lambda>_.
     bind_q (dispatch env c ''data.uploaded'' [(''upload_id'', PStr (str_nat (du_id u))), (''year'', PNum (flt_of_int (du_year u)))]) (\<lambda>_.
     return_q u)))"

definition list_uploads :: "ident \<Rightarrow> int option \<Rightarrow> nat \<Rightarrow> nat \<Rightarrow> db \<Rightarrow> data_upload list \<times> nat" where
  "list_uploads c year limit offset s =
     page du_year limit offset (filter (\<lambda>u. du_company_id u = c \<and> du_deleted_at u = None \<and>
       (case year of None \<Rightarrow> True | Some y \<Rightarrow> du_year u = y)) (data_uploads s))"

definition get_upload :: "ident \<Rightarrow> ident \<Rightarrow> db \<Rightarrow> data_upload res" where
  "get_upload upload_id c s =
     bind_r (scalar_one_or_none (filter (\<lambda>u. du_id u = upload_id \<and> du_company_id u = c \<and> du_deleted_at u = None) (data_uploads s))) (\<lambda>found.
     case found of None \<Rightarrow> Inl (ServiceError ''Data upload not found'' 404) | Some u \<Rightarrow> Inr u)"

text \<open>A null in the JSON column is stored as the JSON null, which the column does not refuse.\<close>

record upload_update =
  uu_year :: "int option option"
  uu_provided_data :: "pydict option option"
  uu_notes :: "string option option"

definition update_upload :: "ident \<Rightarrow> ident \<Rightarrow> ident \<Rightarrow> upload_update \<Rightarrow> data_upload req" where
  "update_upload upload_id c user_id body =
     bind_q (ask (get_upload upload_id c)) (\<lambda>u.
     if uu_year body = Some None then raise_q IntegrityError
     else
       let u' = u\<lparr>du_year := (case uu_year body of Some (Some y) \<Rightarrow> y | _ \<Rightarrow> du_year u),
                  du_provided_data := (case uu_provided_data body of Some d \<Rightarrow> d | None \<Rightarrow> du_provided_data u),
                  du_notes := (case uu_notes body of Some n \<Rightarrow> n | None \<Rightarrow> du_notes u)\<rparr>
       in bind_q (serve (modify_s (\<lambda>s. s\<lparr>data_uploads := update_row du_id (du_id u) (\<lambda>_. u') (data_uploads s)\<rparr>))) (\<lambda>_.
          bind_q (serve (record_audit user_id c ''update'' ''data_upload'' (Some upload_id) None)) (\<lambda>_.
          bind_q commit (\<lambda>_.
          return_q u'))))"

definition delete_upload :: "ident \<Rightarrow> ident \<Rightarrow> ident \<Rightarrow> unit req" where
  "delete_upload upload_id c user_id =
     bind_q (ask (get_upload upload_id c)) (\<lambda>u.
     bind_q (serve utcnow) (\<lambda>now.
     bind_q (serve (modify_s (\<lambda>s. s\<lparr>data_uploads :=
       update_row du_id (du_id u) (\<lambda>u. u\<lparr>du_deleted_at := Some now\<rparr>) (data_uploads s)\<rparr>))) (\<lambda>_.
     bind_q (serve (record_audit user_id c ''delete'' ''data_upload'' (Some upload_id) None)) (\<lambda>_.
     commit))))"

end
