(* ===== verification/Scenarios.thy ===== *)
theory Scenarios
imports Companies Float_Order
begin

text \<open>
  \<open>api/services/scenarios.py\<close>: what-if scenarios, computed from the scopes of a report by adjustments that
  are applied in the order of the parameters.
\<close>

section \<open>Adjustments\<close>

record scopes =
  sc_scope1 :: flt
  sc_scope2 :: flt
  sc_scope3 :: flt

text \<open>\<open>min(max(params.get(k, 0), 0), hi) / 100\<close>\<close>

definition clamped_share :: "pydict \<Rightarrow> string \<Rightarrow> rat \<Rightarrow> flt res" where
  "clamped_share params k hi = bind_r (get_num params k) (\<lambda>x. Inr (py_min (py_max x 0) (Fin hi) / Fin 100))"

definition apply_energy_switch :: "scopes \<Rightarrow> pydict \<Rightarrow> scopes res" where
  "apply_energy_switch b params =
     bind_r (clamped_share params ''renewable_pct'' 100) (\<lambda>pct.
     Inr (b\<lparr>sc_scope2 := py_round (sc_scope2 b * (1 - pct)) 2\<rparr>))"

definition apply_fleet_electrification :: "scopes \<Rightarrow> pydict \<Rightarrow> scopes res" where
  "apply_fleet_electrification b params =
     bind_r (clamped_share params ''electrification_pct'' 100) (\<lambda>pct.
     bind_r (as_num (dict_get params ''transport_share'' (PNum (lit (3/10))))) (\<lambda>transport_share.
     let reduction = sc_scope1 b * transport_share * pct * lit (85/100)
     in Inr (b\<lparr>sc_scope1 := py_round (sc_scope1 b - reduction) 2, sc_scope2 := py_round (sc_scope2 b + reduction * lit (3/10)) 2\<rparr>)))"

definition apply_supplier_change :: "scopes \<Rightarrow> pydict \<Rightarrow> scopes res" where
  "apply_supplier_change b params =
     bind_r (clamped_share params ''scope3_reduction_pct'' 100) (\<lambda>pct_reduction.
     Inr (b\<lparr>sc_scope3 := py_round (sc_scope3 b * (1 - pct_reduction)) 2\<rparr>))"

definition apply_efficiency :: "scopes \<Rightarrow> pydict \<Rightarrow> scopes res" where
  "apply_efficiency b params =
     bind_r (clamped_share params ''efficiency_pct'' 50) (\<lambda>pct.
     Inr (b\<lparr>sc_scope1 := py_round (sc_scope1 b * (1 - pct)) 2, sc_scope2 := py_round (sc_scope2 b * (1 - pct)) 2\<rparr>))"

definition adjustment_names :: "string list" where
  "adjustment_names = [''energy_switch'', ''fleet_electrification'', ''supplier_change'', ''efficiency'']"

definition adjust :: "string \<Rightarrow> scopes \<Rightarrow> pydict \<Rightarrow> scopes res" where
  "adjust k =
     (if k = ''energy_switch'' then apply_energy_switch
      else if k = ''fleet_electrification'' then apply_fleet_electrification
      else if k = ''supplier_change'' then apply_supplier_change
      else apply_efficiency)"

text \<open>The loop over the parameters; what is not a dictionary is passed over.\<close>

fun adjust_all :: "pydict \<Rightarrow> scopes \<Rightarrow> string list \<Rightarrow> (scopes \<times> string list) res" where
  "adjust_all [] current applied = Inr (current, applied)"
| "adjust_all ((k, PDict params) # rest) current applied =
     bind_r (adjust k current params) (\<lambda>current. adjust_all rest current (applied @ [k]))"
| "adjust_all ((k, v) # rest) current applied = adjust_all rest current applied"

record scenario_results =
  sr_baseline :: scopes
  sr_adjusted :: scopes
  sr_total_baseline :: flt
  sr_total_adjusted :: flt
  sr_total_reduction :: flt
  sr_reduction_pct :: flt
  sr_adjustments_applied :: "string list"

definition sum_scopes :: "scopes \<Rightarrow> flt" where
  "sum_scopes b = sc_scope1 b + sc_scope2 b + sc_scope3 b"

definition compute_scenario :: "scopes \<Rightarrow> pydict \<Rightarrow> scenario_results res" where
  "compute_scenario baseline parameters =
     (let unknown = filter (\<lambda>k. k \<notin> set adjustment_names) (map fst parameters)
      in if unknown \<noteq> [] then Inl (ServiceError (''Unknown adjustment types: '' @ join '', '' unknown) 400)
         else bind_r (adjust_all parameters baseline []) (\<lambda>(current, applied).
           let total_baseline = sum_scopes baseline;
               total_scenario = sum_scopes current;
               reduction = total_baseline - total_scenario;
               reduction_pct = (if 0 < total_baseline then reduction / total_baseline * Fin 100 else 0)
           in Inr \<lparr>sr_baseline = baseline, sr_adjusted = current, sr_total_baseline = py_round total_baseline 2,
                sr_total_adjusted = py_round total_scenario 2, sr_total_reduction = py_round reduction 2,
                sr_reduction_pct = py_round reduction_pct 2, sr_adjustments_applied = applied\<rparr>))"

section \<open>Scenarios of a company\<close>

definition scopes_dict :: "scopes \<Rightarrow> pyval" where
  "scopes_dict b = PDict [(''scope1'', PNum (sc_scope1 b)), (''scope2'', PNum (sc_scope2 b)), (''scope3'', PNum (sc_scope3 b))]"

definition results_dict :: "scenario_results \<Rightarrow> pydict" where
  "results_dict r =
     [(''baseline'', scopes_dict (sr_baseline r)), (''adjusted'', scopes_dict (sr_adjusted r)),
      (''total_baseline'', PNum (sr_total_baseline r)), (''total_adjusted'', PNum (sr_total_adjusted r)),
      (''total_reduction'', PNum (sr_total_reduction r)), (''reduction_pct'', PNum (sr_reduction_pct r)),
      (''adjustments_applied'', PList (map PStr (sr_adjustments_applied r)))]"

definition live_scenarios :: "ident \<Rightarrow> db \<Rightarrow> scenario list" where
  "live_scenarios c s = filter (\<lambda>r. sn_company_id r = c \<and> sn_deleted_at r = None) (scenarios s)"

definition find_scenario :: "ident \<Rightarrow> ident \<Rightarrow> db \<Rightarrow> scenario option res" where
  "find_scenario i c s = scalar_one_or_none (filter (\<lambda>r. sn_id r = i) (live_scenarios c s))"

definition find_base_report :: "ident option \<Rightarrow> ident \<Rightarrow> db \<Rightarrow> emission_report option res" where
  "find_base_report i c s = scalar_one_or_none (filter (\<lambda>r. Some (er_id r) = i) (live_reports c s))"

definition report_scopes :: "emission_report \<Rightarrow> scopes" where
  "report_scopes r = \<lparr>sc_scope1 = er_scope1 r, sc_scope2 = er_scope2 r, sc_scope3 = er_scope3 r\<rparr>"

definition write_scenario :: "scenario \<Rightarrow> scenario \<Rightarrow> unit req" where
  "write_scenario old row = bind_q
     (serve (modify_s (\<lambda>s. s\<lparr>scenarios := update_row sn_id (sn_id old) (\<lambda>_. row) (scenarios s)\<rparr>))) (\<lambda>_. commit)"

definition run_scenario :: "ident \<Rightarrow> ident \<Rightarrow> scenario req" where
  "run_scenario i c =
     bind_q (ask (find_scenario i c)) (\<lambda>found.
     case found of
       None \<Rightarrow> raise_q (ValueError ''Scenario not found'')
     | Some sc \<Rightarrow>
         bind_q (ask (find_base_report (sn_base_report_id sc) c)) (\<lambda>report.
         case report of
           None \<Rightarrow> raise_q (ValueError ''Base emission report not found'')
         | Some r \<Rightarrow>
             bind_q (ask (\<lambda>s. compute_scenario (report_scopes r) (sn_parameters sc))) (\<lambda>results.
             let sc' = sc\<lparr>sn_results := Some (results_dict results), sn_status := Scenario_Computed\<rparr>
             in bind_q (write_scenario sc sc') (\<lambda>_. return_q sc'))))"

definition insert_scenario :: "ident \<Rightarrow> string \<Rightarrow> string option \<Rightarrow> ident option \<Rightarrow> pydict \<Rightarrow> (db, scenario) sres" where
  "insert_scenario c name description base parameters =
     bind_s new_id (\<lambda>i.
     bind_s utcnow (\<lambda>now.
     let sc = \<lparr>sn_id = i, sn_company_id = c, sn_name = name, sn_description = description, sn_base_report_id = base,
               sn_parameters = parameters, sn_results = None, sn_status = Scenario_Draft, sn_created_at = now,
               sn_deleted_at = None\<rparr>
     in bind_s (modify_s (\<lambda>s. s\<lparr>scenarios := scenarios s @ [sc]\<rparr>)) (\<lambda>_. return_s sc)))"

definition create_scenario :: "ident \<Rightarrow> string \<Rightarrow> string option \<Rightarrow> ident option \<Rightarrow> pydict \<Rightarrow> scenario req" where
  "create_scenario c name description base parameters =
     bind_q (ask (find_base_report base c)) (\<lambda>report.
     if report = None then raise_q (ServiceError ''Base emission report not found'' 404)
     else
       bind_q (serve (insert_scenario c name description base parameters)) (\<lambda>sc.
       bind_q commit (\<lambda>_. return_q sc)))"

text \<open>The filter is compared with the name of the status, whatever text it is.\<close>

fun scenario_status_name :: "scenario_status \<Rightarrow> string" where
  "scenario_status_name Scenario_Draft = ''draft''"
| "scenario_status_name Scenario_Computed = ''computed''"

datatype scenario_sort = Sort_Created_At | Sort_Name

definition scenario_le :: "(string \<Rightarrow> string \<Rightarrow> bool) \<Rightarrow> scenario_sort \<Rightarrow> scenario \<Rightarrow> scenario \<Rightarrow> bool" where
  "scenario_le collation k a b =
     (case k of Sort_Created_At \<Rightarrow> sn_created_at a \<le> sn_created_at b | Sort_Name \<Rightarrow> collation (sn_name a) (sn_name b))"

definition list_scenarios ::
    "(string \<Rightarrow> string \<Rightarrow> bool) \<Rightarrow> ident \<Rightarrow> string option \<Rightarrow> scenario_sort \<Rightarrow> bool \<Rightarrow> nat \<Rightarrow> nat \<Rightarrow> db \<Rightarrow> scenario list \<times> nat" where
  "list_scenarios collation c status k ascending limit offset s =
     (let rows = filter (\<lambda>r. case status of None \<Rightarrow> True | Some n \<Rightarrow> scenario_status_name (sn_status r) = n) (live_scenarios c s);
          le = (if ascending then scenario_le collation k else (\<lambda>a b. scenario_le collation k b a))
      in (paginate limit offset (sort_by le rows), length rows))"

definition get_scenario :: "ident \<Rightarrow> ident \<Rightarrow> db \<Rightarrow> scenario res" where
  "get_scenario i c s =
     bind_r (find_scenario i c s) (\<lambda>found.
     case found of None \<Rightarrow> Inl (ServiceError ''Scenario not found'' 404) | Some sc \<Rightarrow> Inr sc)"

record scenario_update =
  su_name :: "string option option"
  su_description :: "string option option"

definition update_scenario :: "ident \<Rightarrow> ident \<Rightarrow> scenario_update \<Rightarrow> scenario req" where
  "update_scenario i c body =
     bind_q (ask (get_scenario i c)) (\<lambda>sc.
     if su_name body = Some None then raise_q IntegrityError
     else
       let sc' = sc\<lparr>sn_name := (case su_name body of Some (Some n) \<Rightarrow> n | _ \<Rightarrow> sn_name sc),
                    sn_description := (case su_description body of Some d \<Rightarrow> d | None \<Rightarrow> sn_description sc)\<rparr>
       in bind_q (write_scenario sc sc') (\<lambda>_. return_q sc'))"

definition delete_scenario :: "ident \<Rightarrow> ident \<Rightarrow> unit req" where
  "delete_scenario i c =
     bind_q (ask (get_scenario i c)) (\<lambda>sc.
     bind_q (serve utcnow) (\<lambda>now.
     write_scenario sc (sc\<lparr>sn_deleted_at := Some now\<rparr>)))"

section \<open>Laws of the adjustments\<close>

text \<open>
  A scenario reduces: whatever the adjustments and their order, no scope turns negative, and scopes 1 and 3
  stay below the baseline; scope 2 does too unless a fleet is electrified. This needs a share of transport
  in the unit interval, which nothing checks.
\<close>

section \<open>One adjustment\<close>

text \<open>A finite float between zero and a bound.\<close>

definition tons :: "rat \<Rightarrow> flt \<Rightarrow> bool" where
  "tons b x \<longleftrightarrow> (\<exists>r. x = Fin r \<and> 0 \<le> r \<and> r \<le> b \<and> rnd r = r)"

text \<open>A bound that rounding to two digits keeps.\<close>

definition cents :: "rat \<Rightarrow> bool" where
  "cents b \<longleftrightarrow> 0 \<le> b \<and> b \<le> 10 ^ 12 \<and> rnd b = b \<and> py_round (Fin b) 2 = Fin b"

lemma tons_between: "tons b x \<Longrightarrow> between 0 b x"
  by (auto simp: tons_def)

lemma py_round_representable: "py_round v n = Fin r \<Longrightarrow> rnd r = r"
  by (cases v) (auto simp: flt_of_rat_def Let_def split: if_splits)

lemma tons_round:
  assumes "cents b" "between 0 b x"
  shows "tons b (py_round x 2)"
proof -
  obtain r where r: "x = Fin r" "0 \<le> r" "r \<le> b" using assms(2) by (auto simp: between_iff)
  have "0 \<le> py_round x 2" using r by (intro flt_round_nonneg) (simp add: flt_0_1)
  moreover have "py_round x 2 \<le> Fin b"
    using flt_round_mono [of x "Fin b" 2] assms(1) r by (simp add: cents_def del: py_round.simps)
  ultimately obtain q where "py_round x 2 = Fin q" "0 \<le> q" "q \<le> b"
    unfolding flt_ge_zero_iff by fastforce
  then show ?thesis using py_round_representable [of x 2 q] by (simp add: tons_def)
qed

lemma cents_bounds: "cents b \<Longrightarrow> rnd b = b" "cents b \<Longrightarrow> b \<le> 10 ^ 18" "cents b \<Longrightarrow> \<bar>b\<bar> \<le> 10 ^ 18"
  by (simp_all add: cents_def)

lemma tons_scaled:
  assumes "cents b" "tons b x" "between 0 1 q"
  shows "tons b (py_round (x * q) 2)"
  using tons_round [OF assms(1) between_mult_nonneg [OF tons_between [OF assms(2)] assms(3)]] cents_bounds [OF assms(1)] by simp

definition is_share :: "flt \<Rightarrow> bool" where
  "is_share x \<longleftrightarrow> 0 \<le> x \<and> x \<le> 1"

lemma is_share_between: "is_share x \<longleftrightarrow> between 0 1 x"
  by (cases x) (auto simp: is_share_def flt_0_1)

lemma rnd_0_1: "rnd 1 = 1" "rnd 0 = 0"
  using rnd_of_int [of 1] by simp_all

lemma clamped_share_unit:
  assumes "clamped_share ps k hi = Inr q" "get_num ps k = Inr x" "x \<noteq> NaN" "0 < hi" "hi \<le> 100"
  shows "between 0 1 q" "between 0 1 (1 - q)"
proof -
  have "q = py_min (py_max x 0) (Fin hi) / Fin 100" using assms by (simp add: clamped_share_def)
  moreover obtain r where "py_min (py_max x 0) (Fin hi) = Fin r" "0 \<le> r" "r \<le> 100"
  proof -
    have "between 0 100 (py_min (py_max x 0) (Fin hi))"
      using assms(3-5) by (cases x) (auto simp: py_min_def py_max_def flt_0_1)
    then show ?thesis using that by (auto simp: between_iff)
  qed
  ultimately have "q = flt_of_rat (r / 100)" "0 \<le> r / 100" "r / 100 \<le> 1" by (simp_all add: divide_flt_def)
  then show q: "between 0 1 q" using between_rounded [of 0 "r / 100" 1] rnd_0_1 by simp
  have "between 0 1 (1 :: flt)" "between 1 1 (1 :: flt)" by simp_all
  then show "between 0 1 (1 - q)" using between_diff [OF _ q, of 1 1 1 0 1] rnd_0_1 by simp
qed

section \<open>All of them\<close>

text \<open>Parameters without NaN, and with a share of transport that is one.\<close>

definition sane_params :: "pydict \<Rightarrow> bool" where
  "sane_params ps \<longleftrightarrow>
     list_all (\<lambda>k. get_num ps k \<noteq> Inr NaN)
       [''renewable_pct'', ''electrification_pct'', ''scope3_reduction_pct'', ''efficiency_pct''] \<and>
     (case as_num (dict_get ps ''transport_share'' (PNum (lit (3/10)))) of Inl e \<Rightarrow> True | Inr x \<Rightarrow> is_share x)"

definition sane_parameters :: "pydict \<Rightarrow> bool" where
  "sane_parameters ps \<longleftrightarrow> list_all (\<lambda>(k, v). case v of PDict d \<Rightarrow> sane_params d | _ \<Rightarrow> True) ps"

lemma share_of:
  assumes "clamped_share ps k hi = Inr q" "get_num ps k \<noteq> Inr NaN" "0 < hi" "hi \<le> 100"
  shows "between 0 1 q" "between 0 1 (1 - q)"
proof -
  obtain x where x: "get_num ps k = Inr x" using assms(1) by (cases "get_num ps k") (auto simp: clamped_share_def)
  then have "x \<noteq> NaN" using assms(2) by auto
  then show "between 0 1 q" "between 0 1 (1 - q)" using clamped_share_unit [OF assms(1) x] assms(3,4) by simp_all
qed

text \<open>The scopes of a report as the adjustments see them: scope 2 has room for the power of vehicles.\<close>

definition scopes_within :: "rat \<Rightarrow> rat \<Rightarrow> nat \<Rightarrow> scopes \<Rightarrow> bool" where
  "scopes_within b1 b3 n b \<longleftrightarrow>
     tons b1 (sc_scope1 b) \<and> tons b3 (sc_scope3 b) \<and> between 0 (of_int (int n * 10 ^ 12)) (sc_scope2 b)"

lemma between_cents_int:
  assumes "between 0 (of_int k) x" "0 \<le> k" "k \<le> 10 ^ 15"
  shows "between 0 (of_int k) (py_round x 2)"
proof -
  have "of_int k \<le> (of_int (10 ^ 15) :: rat)" using assms(3) by (simp only: of_int_le_iff)
  then show ?thesis
    using assms by (intro between_py_round [of 0 "of_int k" x 0 2 "100 * k"]) (auto simp: rnd_0_1)
qed

lemma scope2_scaled:
  assumes "between 0 (of_int (int n * 10 ^ 12)) x" "between 0 1 q" "n \<le> 100"
  shows "between 0 (of_int (int n * 10 ^ 12)) (py_round (x * q) 2)"
proof -
  have n: "int n * 10 ^ 12 \<le> 10 ^ 14" using assms(3) by simp
  then have "of_int (int n * 10 ^ 12) \<le> (of_int (10 ^ 14) :: rat)" by (simp only: of_int_le_iff)
  then have "between 0 (of_int (int n * 10 ^ 12)) (x * q)"
    using n by (intro between_mult_nonneg [OF assms(1,2)] rnd_of_int) auto
  then show ?thesis using n by (intro between_cents_int) auto
qed

lemma scopes_within_mono: "scopes_within b1 b3 n b \<Longrightarrow> n \<le> m \<Longrightarrow> scopes_within b1 b3 m b"
  by (auto simp: scopes_within_def elim!: between_weaken)

lemma electrified:
  assumes "tons b x" "cents b" "between 0 1 t" "between 0 1 p"
  shows "tons b (py_round (x - x * t * p * lit (85/100)) 2)" "between 0 b (x * t * p * lit (85/100) * lit (3/10))"
proof -
  obtain r where r: "x = Fin r" "0 \<le> r" "r \<le> b" "rnd r = r" using assms(1) by (auto simp: tons_def)
  have big: "r \<le> 10 ^ 18" using r assms(2) by (simp add: cents_def)
  have l: "between 0 1 (lit (85/100))" "between 0 1 (lit (3/10))" by (rule between_lit; simp add: rnd_0_1)+
  have "between 0 r x" using r by simp
  then have "between 0 r (x * t)" using between_mult_nonneg [OF _ assms(3), of r x r] r(4) big by simp
  then have "between 0 r (x * t * p)" using between_mult_nonneg [OF _ assms(4), of r _ r] r(4) big by simp
  then have red: "between 0 r (x * t * p * lit (85/100))" using between_mult_nonneg [OF _ l(1), of r _ r] r(4) big by simp
  then have "between 0 r (x - x * t * p * lit (85/100))"
    using between_diff [of r r x 0 r _ 0 r] r big by simp
  then have "between 0 b (x - x * t * p * lit (85/100))" by (rule between_weaken) (use r in simp_all)
  then show "tons b (py_round (x - x * t * p * lit (85/100)) 2)" by (rule tons_round [OF assms(2)])
  have "between 0 r (x * t * p * lit (85/100) * lit (3/10))" using between_mult_nonneg [OF red l(2), of r] r(4) big by simp
  then show "between 0 b (x * t * p * lit (85/100) * lit (3/10))" by (rule between_weaken) (use r in simp_all)
qed

lemma adjust_within:
  assumes "adjust k b ps = Inr b'" "sane_params ps" "scopes_within b1 b3 n b" "cents b1" "cents b3" "n < 100"
  shows "scopes_within b1 b3 (Suc n) b'"
proof -
  note w = assms(3) [unfolded scopes_within_def]
  have s: "get_num ps ''renewable_pct'' \<noteq> Inr NaN" "get_num ps ''electrification_pct'' \<noteq> Inr NaN"
    "get_num ps ''scope3_reduction_pct'' \<noteq> Inr NaN" "get_num ps ''efficiency_pct'' \<noteq> Inr NaN"
    using assms(2) by (simp_all add: sane_params_def)
  consider (energy) "apply_energy_switch b ps = Inr b'" | (fleet) "apply_fleet_electrification b ps = Inr b'"
    | (supplier) "apply_supplier_change b ps = Inr b'" | (efficiency) "apply_efficiency b ps = Inr b'"
    using assms(1) by (auto simp: adjust_def split: if_splits)
  then show ?thesis
  proof cases
    case energy
    then obtain q where q: "clamped_share ps ''renewable_pct'' 100 = Inr q" "b' = b\<lparr>sc_scope2 := py_round (sc_scope2 b * (1 - q)) 2\<rparr>"
      by (auto simp: apply_energy_switch_def bind_r_Inr_iff)
    have "scopes_within b1 b3 n b'"
      using w scope2_scaled [OF _ share_of(2) [OF q(1) s(1)], of n] assms(6) by (simp add: q(2) scopes_within_def)
    then show ?thesis by (rule scopes_within_mono) simp
  next
    case fleet
    then obtain q t where q: "clamped_share ps ''electrification_pct'' 100 = Inr q"
      and t: "as_num (dict_get ps ''transport_share'' (PNum (lit (3/10)))) = Inr t"
      and b': "b' = b\<lparr>sc_scope1 := py_round (sc_scope1 b - sc_scope1 b * t * q * lit (85/100)) 2,
        sc_scope2 := py_round (sc_scope2 b + sc_scope1 b * t * q * lit (85/100) * lit (3/10)) 2\<rparr>"
      by (auto simp: apply_fleet_electrification_def bind_r_Inr_iff Let_def)
    have t1: "between 0 1 t" using assms(2) t by (simp add: sane_params_def is_share_between)
    note e = electrified [OF conjunct1 [OF w] assms(4) t1 share_of(1) [OF q s(2)]]
    have more: "between 0 (10 ^ 12) (sc_scope1 b * t * q * lit (85/100) * lit (3/10))"
      by (rule between_weaken [OF e(2)]) (use assms(4) in \<open>simp_all add: cents_def\<close>)
    have n: "int (Suc n) * 10 ^ 12 \<le> 10 ^ 14" using assms(6) by simp
    then have "of_int (int (Suc n) * 10 ^ 12) \<le> (of_int (10 ^ 14) :: rat)" by (simp only: of_int_le_iff)
    then have "between 0 (of_int (int (Suc n) * 10 ^ 12)) (sc_scope2 b + sc_scope1 b * t * q * lit (85/100) * lit (3/10))"
      using n w by (intro between_add [OF _ more] rnd_of_int) (auto simp: algebra_simps)
    then have "between 0 (of_int (int (Suc n) * 10 ^ 12)) (sc_scope2 b')"
      unfolding b' using n by (simp add: between_cents_int del: of_nat_Suc of_int_mult)
    then show ?thesis using w e(1) by (simp add: scopes_within_def b')
  next
    case supplier
    then obtain q where q: "clamped_share ps ''scope3_reduction_pct'' 100 = Inr q" "b' = b\<lparr>sc_scope3 := py_round (sc_scope3 b * (1 - q)) 2\<rparr>"
      by (auto simp: apply_supplier_change_def bind_r_Inr_iff)
    have "scopes_within b1 b3 n b'"
      using w tons_scaled [OF assms(5) _ share_of(2) [OF q(1) s(3)]] by (simp add: q(2) scopes_within_def)
    then show ?thesis by (rule scopes_within_mono) simp
  next
    case efficiency
    then obtain q where q: "clamped_share ps ''efficiency_pct'' 50 = Inr q"
      "b' = b\<lparr>sc_scope1 := py_round (sc_scope1 b * (1 - q)) 2, sc_scope2 := py_round (sc_scope2 b * (1 - q)) 2\<rparr>"
      by (auto simp: apply_efficiency_def bind_r_Inr_iff)
    have "scopes_within b1 b3 n b'"
      using w tons_scaled [OF assms(4) _ share_of(2) [OF q(1) s(4)]] scope2_scaled [OF _ share_of(2) [OF q(1) s(4)], of n] assms(6)
      by (simp add: q(2) scopes_within_def)
    then show ?thesis by (rule scopes_within_mono) simp
  qed
qed

lemma sane_parameters_Cons:
  "sane_parameters ((k, PDict ps) # rest) \<longleftrightarrow> sane_params ps \<and> sane_parameters rest"
  "sane_parameters (x # rest) \<Longrightarrow> sane_parameters rest"
  by (simp_all add: sane_parameters_def)

lemma adjust_all_within:
  assumes "cents b1" "cents b3"
  shows "adjust_all ps b applied = Inr (b', applied') \<Longrightarrow> sane_parameters ps \<Longrightarrow> scopes_within b1 b3 n b \<Longrightarrow>
    n + length ps \<le> 100 \<Longrightarrow> scopes_within b1 b3 (n + length ps) b'"
proof (induction ps b applied arbitrary: n rule: adjust_all.induct)
  case (2 k params rest current applied)
  then obtain c where c: "adjust k current params = Inr c" "adjust_all rest c (applied @ [k]) = Inr (b', applied')"
    by (auto simp: bind_r_Inr_iff)
  have "scopes_within b1 b3 (Suc n) c"
    using adjust_within [OF c(1) _ "2.prems"(3) assms] "2.prems"(2,4) by (simp add: sane_parameters_Cons)
  then show ?case using "2.IH" [OF c(2), of "Suc n"] "2.prems"(2,4) by (simp add: sane_parameters_Cons)
next
  case "3_1" then show ?case using sane_parameters_Cons(2) [OF "3_1.prems"(2)] scopes_within_mono by fastforce
next
  case "3_2" then show ?case using sane_parameters_Cons(2) [OF "3_2.prems"(2)] scopes_within_mono by fastforce
next
  case "3_3" then show ?case using sane_parameters_Cons(2) [OF "3_3.prems"(2)] scopes_within_mono by fastforce
next
  case "3_4" then show ?case using sane_parameters_Cons(2) [OF "3_4.prems"(2)] scopes_within_mono by fastforce
qed auto

text \<open>Without electrification, scope 2 does not grow either.\<close>

lemma adjust_scope2:
  assumes "adjust k b ps = Inr b'" "sane_params ps" "k \<noteq> ''fleet_electrification''" "tons b2 (sc_scope2 b)" "cents b2"
  shows "tons b2 (sc_scope2 b')"
proof -
  have s: "get_num ps ''renewable_pct'' \<noteq> Inr NaN" "get_num ps ''efficiency_pct'' \<noteq> Inr NaN"
    using assms(2) by (simp_all add: sane_params_def)
  show ?thesis
    using assms(1,3,4) tons_scaled [OF assms(5,4)] share_of(2) [OF _ s(1)] share_of(2) [OF _ s(2)]
    by (auto simp: adjust_def apply_energy_switch_def apply_supplier_change_def apply_efficiency_def bind_r_Inr_iff
        split: if_splits)
qed

lemma adjust_all_scope2:
  assumes "cents b2"
  shows "adjust_all ps b applied = Inr (b', applied') \<Longrightarrow> sane_parameters ps \<Longrightarrow> ''fleet_electrification'' \<notin> set (map fst ps) \<Longrightarrow>
    tons b2 (sc_scope2 b) \<Longrightarrow> tons b2 (sc_scope2 b')"
proof (induction ps b applied rule: adjust_all.induct)
  case (2 k params rest current applied)
  then obtain c where c: "adjust k current params = Inr c" "adjust_all rest c (applied @ [k]) = Inr (b', applied')"
    by (auto simp: bind_r_Inr_iff)
  have k: "k \<noteq> ''fleet_electrification''" "sane_params params" "sane_parameters rest" "''fleet_electrification'' \<notin> set (map fst rest)"
    using "2.prems" by (auto simp: sane_parameters_Cons)
  show ?case using "2.IH" [OF c(2) k(3,4) adjust_scope2 [OF c(1) k(2,1) "2.prems"(4) assms]] .
next
  case "3_1" then show ?case using sane_parameters_Cons(2) [OF "3_1.prems"(2)] by simp
next
  case "3_2" then show ?case using sane_parameters_Cons(2) [OF "3_2.prems"(2)] by simp
next
  case "3_3" then show ?case using sane_parameters_Cons(2) [OF "3_3.prems"(2)] by simp
next
  case "3_4" then show ?case using sane_parameters_Cons(2) [OF "3_4.prems"(2)] by simp
qed auto

text \<open>The adjustments that are applied are those given as dictionaries, in their order.\<close>

lemma adjust_all_applied:
  "adjust_all ps b applied = Inr (b', applied') \<Longrightarrow>
    applied' = applied @ map fst (filter (\<lambda>(k, v). case v of PDict d \<Rightarrow> True | _ \<Rightarrow> False) ps)"
  by (induction ps b applied rule: adjust_all.induct) (auto simp: bind_r_Inr_iff)

section \<open>The whole scenario\<close>

lemma few_adjustments:
  assumes "distinct (map fst ps)" "filter (\<lambda>k. k \<notin> set adjustment_names) (map fst ps) = []"
  shows "length ps \<le> 4"
proof -
  have "set (map fst ps) \<subseteq> set adjustment_names" using assms(2) by (auto simp: filter_empty_conv)
  then have "card (set (map fst ps)) \<le> card (set adjustment_names)" by (intro card_mono) auto
  also have "\<dots> = 4" by (simp add: adjustment_names_def)
  finally show ?thesis using distinct_card [OF assms(1)] by simp
qed

definition baseline_ok :: "scopes \<Rightarrow> bool" where
  "baseline_ok b \<longleftrightarrow> list_all (\<lambda>x. case x of Fin r \<Rightarrow> cents r | _ \<Rightarrow> False) [sc_scope1 b, sc_scope2 b, sc_scope3 b]"

lemma baseline_cents:
  assumes "baseline_ok b"
  obtains r1 r2 r3 where "sc_scope1 b = Fin r1" "sc_scope2 b = Fin r2" "sc_scope3 b = Fin r3" "cents r1" "cents r2" "cents r3"
    "scopes_within r1 r3 1 b" "tons r2 (sc_scope2 b)"
  using assms by (auto simp: baseline_ok_def scopes_within_def tons_def cents_def split: flt.splits)

lemma scenario_run:
  assumes "compute_scenario b ps = Inr r" "distinct (map fst ps)"
  obtains c where "adjust_all ps b [] = Inr (c, sr_adjustments_applied r)" "sr_adjusted r = c" "sr_baseline r = b" "length ps \<le> 4"
proof -
  have u: "filter (\<lambda>k. k \<notin> set adjustment_names) (map fst ps) = []"
    using assms(1) by (auto simp: compute_scenario_def Let_def split: if_splits)
  then obtain c as where c: "adjust_all ps b [] = Inr (c, as)" using assms(1) by (auto simp: compute_scenario_def bind_r_Inr_iff)
  then have "sr_adjusted r = c" "sr_baseline r = b" "sr_adjustments_applied r = as"
    using assms(1) u by (auto simp: compute_scenario_def Let_def)
  then show ?thesis using that c few_adjustments [OF assms(2) u] by blast
qed

lemma tons_Fin_le: "tons b x \<Longrightarrow> 0 \<le> x \<and> x \<le> Fin b"
  by (auto simp: tons_def flt_0_1)

lemma scenario_reduces:
  assumes "compute_scenario b ps = Inr r" "distinct (map fst ps)" "baseline_ok b" "sane_parameters ps"
  shows "0 \<le> sc_scope1 (sr_adjusted r)" "sc_scope1 (sr_adjusted r) \<le> sc_scope1 b"
    "0 \<le> sc_scope2 (sr_adjusted r)" "''fleet_electrification'' \<notin> set (map fst ps) \<Longrightarrow> sc_scope2 (sr_adjusted r) \<le> sc_scope2 b"
    "0 \<le> sc_scope3 (sr_adjusted r)" "sc_scope3 (sr_adjusted r) \<le> sc_scope3 b"
    "is_fin (sc_scope2 (sr_adjusted r))"
proof -
  obtain c where c: "adjust_all ps b [] = Inr (c, sr_adjustments_applied r)" "sr_adjusted r = c" "length ps \<le> 4"
    using scenario_run [OF assms(1,2)] by metis
  obtain r1 r2 r3 where b: "sc_scope1 b = Fin r1" "sc_scope2 b = Fin r2" "sc_scope3 b = Fin r3" "cents r1" "cents r2" "cents r3"
    "scopes_within r1 r3 1 b" "tons r2 (sc_scope2 b)"
    by (rule baseline_cents [OF assms(3)])
  have w: "scopes_within r1 r3 (1 + length ps) c"
    using adjust_all_within [OF b(4,6) c(1) assms(4) b(7)] c(3) by simp
  then have 13: "tons r1 (sc_scope1 c)" "tons r3 (sc_scope3 c)" by (simp_all add: scopes_within_def)
  show "0 \<le> sc_scope1 (sr_adjusted r)" "sc_scope1 (sr_adjusted r) \<le> sc_scope1 b"
    "0 \<le> sc_scope3 (sr_adjusted r)" "sc_scope3 (sr_adjusted r) \<le> sc_scope3 b"
    using tons_Fin_le [OF 13(1)] tons_Fin_le [OF 13(2)] b by (simp_all add: c(2))
  have "between 0 (of_int (int (1 + length ps) * 10 ^ 12)) (sc_scope2 c)" using w unfolding scopes_within_def by blast
  then obtain q where "sc_scope2 c = Fin q" "0 \<le> q" by (auto simp: between_iff)
  then show "0 \<le> sc_scope2 (sr_adjusted r)" "is_fin (sc_scope2 (sr_adjusted r))" by (simp_all add: c(2) flt_0_1)
  show "sc_scope2 (sr_adjusted r) \<le> sc_scope2 b" if "''fleet_electrification'' \<notin> set (map fst ps)"
    using tons_Fin_le [OF adjust_all_scope2 [OF b(5) c(1) assms(4) that b(8)]] b by (simp add: c(2))
qed

text \<open>Whole numbers of tons are bounds of this kind.\<close>

lemma py_round_of_int: "\<bar>n\<bar> \<le> 10 ^ 12 \<Longrightarrow> py_round (Fin (of_int n)) 2 = Fin (of_int n)"
proof -
  assume n: "\<bar>n\<bar> \<le> 10 ^ 12"
  then have "of_int \<bar>n\<bar> \<le> (of_int (10 ^ 12) :: rat)" by (simp only: of_int_le_iff)
  moreover have "round_half_even (of_int n * 10 ^ 2 :: rat) = n * 100" using rhe_of_int [of "n * 100"] by simp
  moreover have "rnd (of_int n) = of_int n" using n by (intro rnd_of_int) simp
  ultimately show ?thesis by (simp add: flt_of_rat_small)
qed

lemma cents_of_int: "0 \<le> n \<Longrightarrow> n \<le> 10 ^ 12 \<Longrightarrow> cents (of_int n)"
proof -
  assume n: "0 \<le> n" "n \<le> 10 ^ 12"
  then have "of_int n \<le> (of_int (10 ^ 12) :: rat)" by (simp only: of_int_le_iff)
  then show ?thesis using n py_round_of_int [of n] rnd_of_int [of n] by (simp add: cents_def)
qed

end
