(* ===== verification/Recommendations.thy ===== *)
theory Recommendations
imports Py_Value Py_String
begin

text \<open>
  \<open>api/services/recommendations.py\<close>: the reduction strategies, which of them apply to a report, and their
  ranking.
\<close>

section \<open>Strategies\<close>

datatype cost_tier = Low_Cost | Medium_Cost | High_Cost

datatype difficulty = Easy | Moderate | Hard

text \<open>A strategy applies when one of the figures of its scope is above its threshold, tested in order.\<close>

record strategy =
  st_id :: string
  st_scope :: nat
  st_category :: string
  st_title :: string
  st_description :: string
  st_reduction_pct :: flt
  st_cost_tier :: cost_tier
  st_payback_years :: int
  st_difficulty :: difficulty
  st_co_benefits :: "string list"
  st_applicable_when :: "(string \<times> rat) list"

definition strategies :: "strategy list" where
  "strategies =
    [\<lparr>st_id = ''electrify_fleet'', st_scope = 1, st_category = ''Mobile Combustion'', st_title = ''Electrify Vehicle Fleet'',
      st_description = ''Replace diesel/gasoline fleet vehicles with electric vehicles (EVs). Shifts emissions from Scope 1 to Scope 2 (lower with clean grid).'',
      st_reduction_pct = lit (60/100), st_cost_tier = High_Cost, st_payback_years = 5, st_difficulty = Moderate,
      st_co_benefits = [''Reduced fuel costs'', ''Lower maintenance'', ''Regulatory compliance''],
      st_applicable_when = [(''mobile_combustion'', 100)]\<rparr>,
     \<lparr>st_id = ''switch_renewable_gas'', st_scope = 1, st_category = ''Stationary Combustion'', st_title = ''Switch to Renewable Natural Gas'',
      st_description = ''Replace conventional natural gas with certified renewable natural gas (RNG) or biogas for heating and processes.'',
      st_reduction_pct = lit (80/100), st_cost_tier = Medium_Cost, st_payback_years = 3, st_difficulty = Easy,
      st_co_benefits = [''Carbon-neutral fuel'', ''Often drop-in replacement''],
      st_applicable_when = [(''stationary_combustion'', 50), (''natural_gas'', 50)]\<rparr>,
     \<lparr>st_id = ''refrigerant_management'', st_scope = 1, st_category = ''Fugitive Emissions'', st_title = ''Upgrade Refrigerant Management'',
      st_description = ''Transition to low-GWP refrigerants (HFO, CO2, ammonia) and improve leak detection systems.'',
      st_reduction_pct = lit (70/100), st_cost_tier = Medium_Cost, st_payback_years = 4, st_difficulty = Moderate,
      st_co_benefits = [''Regulatory compliance (Kigali Amendment)'', ''Reduced refrigerant purchase costs''],
      st_applicable_when = [(''fugitive_emissions'', 50)]\<rparr>,
     \<lparr>st_id = ''onsite_solar'', st_scope = 2, st_category = ''Electricity'', st_title = ''Install On-site Solar PV'',
      st_description = ''Install rooftop or ground-mount solar panels to generate on-site renewable electricity.'',
      st_reduction_pct = lit (40/100), st_cost_tier = High_Cost, st_payback_years = 7, st_difficulty = Moderate,
      st_co_benefits = [''Energy cost savings'', ''Energy independence'', ''Grid resilience''],
      st_applicable_when = [(''location_based'', 100)]\<rparr>,
     \<lparr>st_id = ''purchase_recs'', st_scope = 2, st_category = ''Electricity'', st_title = ''Purchase Renewable Energy Certificates (RECs)'',
      st_description = ''Purchase RECs or sign a virtual PPA to cover 100% of electricity consumption with renewable sources.'',
      st_reduction_pct = lit (95/100), st_cost_tier = Low_Cost, st_payback_years = 0, st_difficulty = Easy,
      st_co_benefits = [''Immediate Scope 2 market-based reduction'', ''Sustainability branding''],
      st_applicable_when = [(''location_based'', 50)]\<rparr>,
     \<lparr>st_id = ''energy_efficiency'', st_scope = 2, st_category = ''Electricity'', st_title = ''Energy Efficiency Upgrades'',
      st_description = ''LED lighting, HVAC optimization, building envelope improvements, smart controls.'',
      st_reduction_pct = lit (25/100), st_cost_tier = Medium_Cost, st_payback_years = 3, st_difficulty = Easy,
      st_co_benefits = [''Reduced energy bills'', ''Improved comfort'', ''Extended equipment life''],
      st_applicable_when = [(''location_based'', 0)]\<rparr>,
     \<lparr>st_id = ''supplier_engagement'', st_scope = 3, st_category = ''Purchased Goods & Services'', st_title = ''Supplier Carbon Engagement Program'',
      st_description = ''Require top suppliers to set science-based targets. Shift procurement to lower-carbon suppliers.'',
      st_reduction_pct = lit (20/100), st_cost_tier = Low_Cost, st_payback_years = 2, st_difficulty = Moderate,
      st_co_benefits = [''Supply chain resilience'', ''Innovation'', ''Stakeholder trust''],
      st_applicable_when = [(''cat1_purchased_goods'', 200)]\<rparr>,
     \<lparr>st_id = ''optimize_logistics'', st_scope = 3, st_category = ''Transportation'', st_title = ''Optimize Logistics & Modal Shift'',
      st_description = ''Shift freight from air/road to rail/sea. Consolidate shipments. Optimize routes.'',
      st_reduction_pct = lit (30/100), st_cost_tier = Low_Cost, st_payback_years = 1, st_difficulty = Moderate,
      st_co_benefits = [''Lower shipping costs'', ''Fewer delays''],
      st_applicable_when = [(''cat4_upstream_transport'', 100)]\<rparr>,
     \<lparr>st_id = ''remote_work'', st_scope = 3, st_category = ''Employee Commuting'', st_title = ''Expand Remote & Hybrid Work'',
      st_description = ''Allow flexible remote work to reduce employee commuting emissions by 40-60%.'',
      st_reduction_pct = lit (50/100), st_cost_tier = Low_Cost, st_payback_years = 0, st_difficulty = Easy,
      st_co_benefits = [''Employee satisfaction'', ''Reduced office costs'', ''Talent attraction''],
      st_applicable_when = [(''cat7_commuting'', 50)]\<rparr>,
     \<lparr>st_id = ''waste_reduction'', st_scope = 3, st_category = ''Waste'', st_title = ''Zero Waste to Landfill Program'',
      st_description = ''Implement waste reduction, recycling, and composting to divert waste from landfills.'',
      st_reduction_pct = lit (60/100), st_cost_tier = Low_Cost, st_payback_years = 2, st_difficulty = Easy,
      st_co_benefits = [''Reduced disposal costs'', ''Resource recovery'', ''Regulatory compliance''],
      st_applicable_when = [(''cat5_waste'', 30)]\<rparr>,
     \<lparr>st_id = ''business_travel_policy'', st_scope = 3, st_category = ''Business Travel'', st_title = ''Sustainable Travel Policy'',
      st_description = ''Replace non-essential flights with video calls. Mandate rail for short-haul trips. Offset remaining flights.'',
      st_reduction_pct = lit (40/100), st_cost_tier = Low_Cost, st_payback_years = 0, st_difficulty = Easy,
      st_co_benefits = [''Travel cost reduction'', ''Employee time savings''],
      st_applicable_when = [(''cat6_business_travel'', 50)]\<rparr>]"

text \<open>The annual cost of a ton less, from and to.\<close>

fun cost_per_tco2e :: "cost_tier \<Rightarrow> rat \<times> rat" where
  "cost_per_tco2e Low_Cost = (5, 30)"
| "cost_per_tco2e Medium_Cost = (30, 100)"
| "cost_per_tco2e High_Cost = (100, 300)"

fun cost_score :: "cost_tier \<Rightarrow> flt" where
  "cost_score Low_Cost = 1"
| "cost_score Medium_Cost = lit (6/10)"
| "cost_score High_Cost = lit (3/10)"

fun ease_score :: "difficulty \<Rightarrow> flt" where
  "ease_score Easy = 1"
| "ease_score Moderate = lit (6/10)"
| "ease_score Hard = lit (3/10)"

section \<open>What a strategy looks at\<close>

definition detail_key :: "nat \<Rightarrow> string" where
  "detail_key scope = ''scope'' @ str_nat scope @ ''_detail''"

text \<open>\<open>breakdown.get("scopeN_detail", {}).get(k, 0)\<close> as a number\<close>

definition detail_num :: "pydict \<Rightarrow> nat \<Rightarrow> string \<Rightarrow> flt res" where
  "detail_num breakdown scope k =
     (case dict_get breakdown (detail_key scope) (PDict []) of PDict d \<Rightarrow> get_num d k | _ \<Rightarrow> Inl AttributeError)"

fun any_above :: "pydict \<Rightarrow> nat \<Rightarrow> (string \<times> rat) list \<Rightarrow> bool res" where
  "any_above breakdown scope [] = Inr False"
| "any_above breakdown scope ((k, t) # ts) =
     bind_r (detail_num breakdown scope k) (\<lambda>x. if Fin t < x then Inr True else any_above breakdown scope ts)"

text \<open>A test that raises is taken as not passed.\<close>

definition applicable :: "strategy \<Rightarrow> pydict \<Rightarrow> bool" where
  "applicable st breakdown = (case any_above breakdown (st_scope st) (st_applicable_when st) of Inl e \<Rightarrow> False | Inr b \<Rightarrow> b)"

definition get_category_emission :: "strategy \<Rightarrow> pydict \<Rightarrow> flt res" where
  "get_category_emission st breakdown =
     (let scope = st_scope st; cat = st_category st; num = detail_num breakdown scope
      in if scope = 1 then
           if contains ''Mobile'' cat then num ''mobile_combustion''
           else if contains ''Stationary'' cat then
             bind_r (num ''stationary_combustion'') (\<lambda>a. bind_r (num ''natural_gas'') (\<lambda>b. Inr (a + b)))
           else if contains ''Fugitive'' cat then num ''fugitive_emissions''
           else Inr 0
         else if scope = 2 then num ''location_based''
         else if scope = 3 then
           if contains ''Purchased'' cat then num ''cat1_purchased_goods''
           else if contains ''Transport'' cat then num ''cat4_upstream_transport''
           else if contains ''Commut'' cat then num ''cat7_commuting''
           else if contains ''Waste'' cat then num ''cat5_waste''
           else if contains ''Travel'' cat then num ''cat6_business_travel''
           else Inr 0
         else Inr 0)"

section \<open>Recommendations\<close>

record recommendation =
  rc_strategy :: strategy
  rc_co2_reduction_tco2e :: flt
  rc_reduction_percentage :: flt
  rc_cost_min :: int
  rc_cost_max :: int
  rc_priority_score :: flt

text \<open>\<open>round(x)\<close> to an integer\<close>

fun py_round_int :: "flt \<Rightarrow> int res" where
  "py_round_int (Fin x) = Inr (round_half_even x)"
| "py_round_int NaN = Inl (ValueError ''cannot convert float NaN to integer'')"
| "py_round_int _ = Inl OverflowError"

definition priority :: "strategy \<Rightarrow> flt \<Rightarrow> flt \<Rightarrow> flt" where
  "priority st co2_reduction total_emissions =
     (let impact_score = py_min (co2_reduction / py_max total_emissions 1) 1
      in py_round (impact_score * lit (1/2) + cost_score (st_cost_tier st) * lit (3/10) + ease_score (st_difficulty st) * lit (2/10)) 4)"

definition recommend :: "(string, flt) dict \<Rightarrow> pydict \<Rightarrow> strategy \<Rightarrow> recommendation option res" where
  "recommend emissions breakdown st =
     (let scope_val = dict_get emissions (''scope'' @ str_nat (st_scope st)) 0
      in if \<not> applicable st breakdown then Inr None
         else if scope_val \<le> 0 then Inr None
         else bind_r (get_category_emission st breakdown) (\<lambda>x.
           let category_emission = (if x \<le> 0 then scope_val * lit (3/10) else x);
               co2_reduction = py_round (category_emission * st_reduction_pct st) 1
           in case cost_per_tco2e (st_cost_tier st) of (lo, hi) \<Rightarrow>
              bind_r (py_round_int (co2_reduction * Fin lo)) (\<lambda>cost_min.
              bind_r (py_round_int (co2_reduction * Fin hi)) (\<lambda>cost_max.
              Inr (Some \<lparr>rc_strategy = st, rc_co2_reduction_tco2e = co2_reduction,
                rc_reduction_percentage = py_round (st_reduction_pct st * Fin 100) 0, rc_cost_min = cost_min,
                rc_cost_max = cost_max, rc_priority_score = priority st co2_reduction (dict_get emissions ''total'' 1)\<rparr>)))))"

fun recommend_all :: "(string, flt) dict \<Rightarrow> pydict \<Rightarrow> strategy list \<Rightarrow> recommendation list res" where
  "recommend_all emissions breakdown [] = Inr []"
| "recommend_all emissions breakdown (st # sts) =
     bind_r (recommend emissions breakdown st) (\<lambda>r.
     bind_r (recommend_all emissions breakdown sts) (\<lambda>rs.
     Inr (case r of None \<Rightarrow> rs | Some x \<Rightarrow> x # rs)))"

text \<open>The stable sort, highest priority first.\<close>

fun insert_ranked :: "recommendation \<Rightarrow> recommendation list \<Rightarrow> recommendation list" where
  "insert_ranked r [] = [r]"
| "insert_ranked r (q # qs) = (if rc_priority_score q \<le> rc_priority_score r then r # q # qs else q # insert_ranked r qs)"

definition rank_recommendations :: "recommendation list \<Rightarrow> recommendation list" where
  "rank_recommendations rs = foldr insert_ranked rs []"

definition generate_recommendations :: "(string, flt) dict \<Rightarrow> pydict option \<Rightarrow> recommendation list res" where
  "generate_recommendations emissions breakdown =
     bind_r (recommend_all emissions (case breakdown of None \<Rightarrow> [] | Some b \<Rightarrow> b) strategies) (\<lambda>rs.
     Inr (rank_recommendations rs))"

record reduction_summary =
  rs_total_reduction_tco2e :: flt
  rs_total_reduction_pct :: flt
  rs_cost_min :: int
  rs_cost_max :: int
  rs_recommendation_count :: nat
  rs_quick_wins :: nat

definition summarize_reduction_potential :: "recommendation list \<Rightarrow> flt \<Rightarrow> reduction_summary" where
  "summarize_reduction_potential rs total_emissions =
     (let total_reduction = py_sum (map rc_co2_reduction_tco2e rs)
      in \<lparr>rs_total_reduction_tco2e = py_round total_reduction 1,
          rs_total_reduction_pct = py_round (total_reduction / py_max total_emissions 1 * Fin 100) 1,
          rs_cost_min = sum_list (map rc_cost_min rs), rs_cost_max = sum_list (map rc_cost_max rs),
          rs_recommendation_count = length rs,
          rs_quick_wins = length (filter (\<lambda>r. st_difficulty (rc_strategy r) = Easy \<and> st_cost_tier (rc_strategy r) = Low_Cost) rs)\<rparr>)"

end
