(* ===== verification/Prediction.thy ===== *)
theory Prediction
imports Py_String Benchmark_Alignment
begin

text \<open>
  \<open>api/services/prediction.py\<close>: predicted figures for the scopes a company has no data for, from its revenue,
  its size or an average, or from a trained model where one is installed, which is a parameter.
\<close>

section \<open>Intensities\<close>

text \<open>Tons per million of revenue, and tons per employee, in the three scopes.\<close>

definition revenue_intensities :: "(string, rat \<times> rat \<times> rat) dict" where
  "revenue_intensities =
    [(''energy'', 450, 85, 280), (''manufacturing'', 120, 65, 300), (''technology'', 5, 25, 95),
     (''transportation'', 300, 30, 180), (''retail'', 15, 45, 350), (''healthcare'', 25, 55, 150),
     (''finance'', 3, 20, 80), (''construction'', 180, 40, 250), (''agriculture'', 250, 30, 200)]"

definition employee_intensities :: "(string, rat \<times> rat \<times> rat) dict" where
  "employee_intensities =
    [(''energy'', 45, 17/2, 28), (''manufacturing'', 18, 19/2, 40), (''technology'', 12/10, 7/2, 12),
     (''transportation'', 35, 4, 20), (''retail'', 5/2, 6, 22), (''healthcare'', 7/2, 15/2, 18),
     (''finance'', 8/10, 4, 10), (''construction'', 22, 5, 30), (''agriculture'', 30, 7/2, 25)]"

definition uncertainty_bands :: "(string, rat \<times> rat) dict" where
  "uncertainty_bands =
    [(''revenue_based'', 1/2, 18/10), (''employee_based'', 55/100, 17/10), (''hybrid'', 65/100, 3/2),
     (''partial_data'', 3/4, 135/100)]"

text \<open>A figure for each scope, by its name.\<close>

type_synonym figures = "(string, flt) dict"

definition scope_figures :: "flt \<Rightarrow> flt \<Rightarrow> flt \<Rightarrow> figures" where
  "scope_figures a b c = [(''scope1'', a), (''scope2'', b), (''scope3'', c)]"

definition intensities_of :: "(string, rat \<times> rat \<times> rat) dict \<Rightarrow> string \<Rightarrow> rat \<times> rat \<times> rat" where
  "intensities_of tbl industry = dict_get tbl (py_lower industry) (dict_get tbl ''manufacturing'' (0, 0, 0))"

definition scaled :: "rat \<times> rat \<times> rat \<Rightarrow> flt \<Rightarrow> figures" where
  "scaled is x =
     (case is of (i1, i2, i3) \<Rightarrow> scope_figures (py_round (lit i1 * x) 2) (py_round (lit i2 * x) 2) (py_round (lit i3 * x) 2))"

definition predict_from_revenue :: "flt \<Rightarrow> string \<Rightarrow> figures" where
  "predict_from_revenue revenue_usd industry =
     scaled (intensities_of revenue_intensities industry) (revenue_usd / Fin 1000000)"

definition predict_from_employees :: "flt \<Rightarrow> string \<Rightarrow> figures" where
  "predict_from_employees employee_count industry =
     scaled (intensities_of employee_intensities industry) employee_count"

section \<open>The trained model\<close>

text \<open>What the model answers for the scopes it has; an exception in it counts as no model.\<close>

type_synonym ml_model = "string \<Rightarrow> string \<Rightarrow> pyval \<Rightarrow> pyval \<Rightarrow> figures res"

definition ml_predict :: "ml_model option \<Rightarrow> string \<Rightarrow> string \<Rightarrow> pyval \<Rightarrow> pyval \<Rightarrow> figures option" where
  "ml_predict model industry region revenue employees =
     (case model of
        None \<Rightarrow> None
      | Some m \<Rightarrow> (case m industry region revenue employees of Inl e \<Rightarrow> None | Inr d \<Rightarrow> Some (map (\<lambda>(k, x). (k, py_max 0 x)) d)))"

section \<open>Predictions\<close>

definition any_truthy :: "pydict \<Rightarrow> string list \<Rightarrow> bool" where
  "any_truthy d ks = list_ex (\<lambda>k. case map_of d k of None \<Rightarrow> False | Some v \<Rightarrow> truthy v) ks"

definition has_scope1_data :: "pydict \<Rightarrow> bool" where
  "has_scope1_data d = any_truthy d [''fuel_use_liters'', ''natural_gas_therms'', ''diesel_gallons'', ''gasoline_gallons'',
     ''vehicle_km'', ''fleet_miles'']"

definition has_scope2_data :: "pydict \<Rightarrow> bool" where
  "has_scope2_data d = any_truthy d [''electricity_kwh'']"

definition has_scope3_data :: "pydict \<Rightarrow> bool" where
  "has_scope3_data d = any_truthy d [''supplier_spend_usd'', ''purchased_goods_usd'', ''shipping_ton_km'', ''freight_ton_miles'',
     ''waste_kg'', ''waste_metric_tons'', ''business_travel_usd'', ''business_travel_miles'']"

text \<open>
  The average of an industry: the profile that is loaded has neither an average total nor a split by these
  names, so the defaults are taken for every industry.
\<close>

definition industry_average :: "industry_data \<Rightarrow> string \<Rightarrow> figures res" where
  "industry_average inds industry =
     bind_r (get_industry_profile inds industry) (\<lambda>profile.
     let avg_total = Fin 5000
     in Inr (scope_figures (py_round (avg_total * lit (2/10)) 2) (py_round (avg_total * lit (15/100)) 2)
          (py_round (avg_total * lit (65/100)) 2)))"

definition hybrid :: "figures \<Rightarrow> figures \<Rightarrow> figures" where
  "hybrid a b = map (\<lambda>k. (k, py_round ((dict_get a k 0 + dict_get b k 0) / Fin 2) 2)) [''scope1'', ''scope2'', ''scope3'']"

text \<open>The method and its figures, tried in this order.\<close>

definition predict_all ::
    "industry_data \<Rightarrow> ml_model option \<Rightarrow> pyval \<Rightarrow> pyval \<Rightarrow> string \<Rightarrow> string \<Rightarrow> (string \<times> figures) res" where
  "predict_all inds model revenue employees industry region =
     (case ml_predict model industry region revenue employees of
        Some d \<Rightarrow> Inr (''ml_gradient_boosting'', map (\<lambda>(k, x). (k, py_round x 2)) d)
      | None \<Rightarrow>
          bind_r (as_num revenue) (\<lambda>rev.
          if 0 < rev then
            bind_r (as_num employees) (\<lambda>emp.
            if 0 < emp then Inr (''hybrid'', hybrid (predict_from_revenue rev industry) (predict_from_employees emp industry))
            else Inr (''revenue_based'', predict_from_revenue rev industry))
          else
            bind_r (as_num employees) (\<lambda>emp.
            if 0 < emp then Inr (''employee_based'', predict_from_employees emp industry)
            else bind_r (industry_average inds industry) (\<lambda>f. Inr (''industry_average'', f)))))"

record prediction =
  pr_predictions :: figures
  pr_method :: string
  pr_low :: flt
  pr_mid :: flt
  pr_high :: flt
  pr_filled_categories :: "string list"
  pr_confidence_adjustment :: flt

definition fill_missing :: "pydict \<Rightarrow> figures \<Rightarrow> figures" where
  "fill_missing d f =
     (if has_scope1_data d then [] else [(''scope1'', dict_get f ''scope1'' 0)]) @
     (if has_scope2_data d then [] else [(''scope2'', dict_get f ''scope2'' 0)]) @
     (if has_scope3_data d then [] else [(''scope3'', dict_get f ''scope3'' 0)])"

definition filled_categories :: "pydict \<Rightarrow> string list" where
  "filled_categories d =
     (if has_scope1_data d then [] else [''Scope 1 (all categories)'']) @
     (if has_scope2_data d then [] else [''Scope 2 (electricity)'']) @
     (if has_scope3_data d then []
      else [''Scope 3 Cat 1 (Purchased goods)'', ''Scope 3 Cat 4 (Transport)'', ''Scope 3 Cat 5 (Waste)'',
        ''Scope 3 Cat 6 (Business travel)'', ''Scope 3 Cat 7 (Commuting)''])"

definition uncertainty_of :: "bool \<Rightarrow> string \<Rightarrow> rat \<times> rat" where
  "uncertainty_of partial_data m =
     dict_get uncertainty_bands (if partial_data then ''partial_data'' else m) (dict_get uncertainty_bands ''revenue_based'' (0, 0))"

definition data_coverage :: "pydict \<Rightarrow> flt" where
  "data_coverage d =
     flt_of_int (of_bool (has_scope1_data d) + of_bool (has_scope2_data d) + of_bool (has_scope3_data d)) / Fin 3"

definition predict_missing_emissions ::
    "industry_data \<Rightarrow> ml_model option \<Rightarrow> pydict \<Rightarrow> string \<Rightarrow> string \<Rightarrow> prediction res" where
  "predict_missing_emissions inds model known_data industry region =
     bind_r (predict_all inds model (get_or_zero known_data ''revenue_usd'') (get_or_zero known_data ''employee_count'') industry region)
       (\<lambda>(m, f).
       let final = fill_missing known_data f;
           (lo, hi) = uncertainty_of (has_scope1_data known_data \<or> has_scope2_data known_data \<or> has_scope3_data known_data) m;
           mid_total = py_sum (dict_values final)
       in Inr \<lparr>pr_predictions = final, pr_method = m, pr_low = py_round (mid_total * lit lo) 2, pr_mid = py_round mid_total 2,
            pr_high = py_round (mid_total * lit hi) 2, pr_filled_categories = filled_categories known_data,
            pr_confidence_adjustment = py_round (lit (4/10) + lit (6/10) * data_coverage known_data) 4\<rparr>)"

end
