(* ===== verification/Advice_Laws.thy ===== *)
theory Advice_Laws
imports Recommendations Prediction Float_Order
begin

text \<open>
  The recommendations are the strategies that apply, ranked by a priority in the unit interval; the
  predictions fill exactly the scopes without data, never with a negative figure.
\<close>

section \<open>Ranking\<close>

abbreviation ranked_before :: "recommendation \<Rightarrow> recommendation \<Rightarrow> bool" where
  "ranked_before a b \<equiv> rc_priority_score b \<le> rc_priority_score a"

lemma set_insert_ranked [simp]: "set (insert_ranked r qs) = insert r (set qs)"
  by (induction r qs rule: insert_ranked.induct) auto

lemma distinct_insert_ranked: "distinct (map f (insert_ranked r qs)) \<longleftrightarrow> f r \<notin> f ` set qs \<and> distinct (map f qs)"
  by (induction r qs rule: insert_ranked.induct) auto

lemma rank_set [simp]: "set (rank_recommendations rs) = set rs"
  by (induction rs) (simp_all add: rank_recommendations_def)

lemma rank_distinct: "distinct (map f (rank_recommendations rs)) \<longleftrightarrow> distinct (map f rs)"
proof (induction rs)
  case (Cons r rs)
  have "set (foldr insert_ranked rs []) = set rs" using rank_set [of rs] by (simp add: rank_recommendations_def)
  then show ?case using Cons by (simp add: rank_recommendations_def distinct_insert_ranked)
qed (simp add: rank_recommendations_def)

lemma insert_ranked_sorted:
  "sorted_wrt ranked_before qs \<Longrightarrow> \<forall>q \<in> insert r (set qs). rc_priority_score q \<noteq> NaN \<Longrightarrow> sorted_wrt ranked_before (insert_ranked r qs)"
proof (induction r qs rule: insert_ranked.induct)
  case (2 r q qs)
  show ?case
  proof (cases "rc_priority_score q \<le> rc_priority_score r")
    case True
    moreover have "ranked_before r p" if "p \<in> set qs" for p
    proof -
      have "rc_priority_score p \<le> rc_priority_score q" using that "2.prems"(1) by simp
      then show ?thesis using flt_le_trans True by blast
    qed
    ultimately show ?thesis using "2.prems"(1) by simp
  next
    case False
    then have "rc_priority_score r \<le> rc_priority_score q"
      using 2 by (cases "rc_priority_score q"; cases "rc_priority_score r") auto
    then show ?thesis using 2 False by auto
  qed
qed simp

lemma rank_sorted:
  "\<forall>q \<in> set rs. rc_priority_score q \<noteq> NaN \<Longrightarrow> sorted_wrt ranked_before (rank_recommendations rs)"
proof (induction rs)
  case (Cons r rs)
  have "rank_recommendations (r # rs) = insert_ranked r (rank_recommendations rs)" by (simp add: rank_recommendations_def)
  then show ?case using Cons insert_ranked_sorted [of "rank_recommendations rs" r] by simp
qed (simp add: rank_recommendations_def)

section \<open>Priorities\<close>

lemma dyadic:
  assumes "\<bar>n\<bar> \<le> 2 ^ 53" "e \<le> 1000"
  shows "rnd (of_int n / 2 ^ e) = of_int n / 2 ^ e"
  using rnd_exact [of n "- int e"] assms by (simp add: power_int_minus divide_inverse)

lemma priority_unit:
  assumes "between 0 1 i" "c \<in> {1, lit (6/10), lit (3/10)}" "d \<in> {1, lit (6/10), lit (3/10)}"
  shows "between 0 1 (py_round (i * lit (1/2) + c * lit (3/10) + d * lit (2/10)) 4)"
proof -
  have r: "rnd (39322 / 131072) = 39322 / 131072" "rnd (26215 / 131072) = 26215 / 131072" "rnd (1/2) = (1/2 :: rat)"
    "rnd (104858 / 131072) = 104858 / 131072" "rnd (131073 / 131072) = 131073 / 131072" "rnd 1 = 1"
    using dyadic [of 39322 17] dyadic [of 26215 17] dyadic [of 1 1] dyadic [of 104858 17] dyadic [of 131073 17] rnd_of_int [of 1]
    by simp_all
  have l: "between 0 (1/2) (lit (1/2))" "between 0 (39322 / 131072) (lit (3/10))" "between 0 (26215 / 131072) (lit (2/10))"
    "between 0 1 (lit (6/10))" "between 0 1 (lit (3/10))"
    by (rule between_lit; use r in simp)+
  have cd: "between 0 1 c" "between 0 1 d" using assms(2,3) l(4,5) by auto
  have "between 0 (1/2) (i * lit (1/2))" by (rule between_mult_nonneg [OF assms(1) l(1)]) (use r in simp_all)
  moreover have "between 0 (39322 / 131072) (c * lit (3/10))" by (rule between_mult_nonneg [OF cd(1) l(2)]) (use r in simp_all)
  ultimately have "between 0 (104858 / 131072) (i * lit (1/2) + c * lit (3/10))" by (rule between_add) (use r in simp_all)
  moreover have "between 0 (26215 / 131072) (d * lit (2/10))" by (rule between_mult_nonneg [OF cd(2) l(3)]) (use r in simp_all)
  ultimately have "between 0 (131073 / 131072) (i * lit (1/2) + c * lit (3/10) + d * lit (2/10))"
    by (rule between_add) (use r in simp_all)
  then show ?thesis by (rule between_py_round [where m = 0 and k = 10000]) (use r in simp_all)
qed

lemma impact_unit:
  assumes "x = Fin r" "0 \<le> r" "tot \<noteq> NaN"
  shows "between 0 1 (py_min (x / py_max tot 1) 1)"
proof -
  have "py_max tot 1 = PosInf \<or> (\<exists>t. py_max tot 1 = Fin t \<and> 1 \<le> t)"
    using assms(3) by (cases tot) (auto simp: py_max_def flt_0_1)
  then have "0 \<le> x / py_max tot 1"
    using assms(1,2) flt_div_nonneg [of x] by (auto simp: flt_0_1 divide_flt_def)
  then show ?thesis unfolding flt_ge_zero_iff by (auto simp: py_min_def flt_0_1)
qed

lemma priority_between:
  assumes "x = Fin r" "0 \<le> r" "tot \<noteq> NaN"
  shows "between 0 1 (priority st x tot)"
proof -
  have "cost_score (st_cost_tier st) \<in> {1, lit (6/10), lit (3/10)}" by (cases "st_cost_tier st") simp_all
  moreover have "ease_score (st_difficulty st) \<in> {1, lit (6/10), lit (3/10)}" by (cases "st_difficulty st") simp_all
  ultimately show ?thesis using priority_unit [OF impact_unit [OF assms]] unfolding priority_def Let_def by simp
qed

section \<open>Recommendations\<close>

definition worth_recommending :: "(string, flt) dict \<Rightarrow> pydict \<Rightarrow> strategy \<Rightarrow> bool" where
  "worth_recommending emissions breakdown st \<longleftrightarrow>
     applicable st breakdown \<and> \<not> dict_get emissions (''scope'' @ str_nat (st_scope st)) 0 \<le> 0"

lemma lit_pos: "1/10 \<le> q \<Longrightarrow> q \<le> 1 \<Longrightarrow> \<exists>p > 0. lit q = Fin p"
proof -
  assume q: "1/10 \<le> q" "q \<le> 1"
  have "rnd (1/16) = (1/16 :: rat)" using dyadic [of 1 4] by simp
  then have "between (1/16) 1 (lit q)" using q rnd_of_int [of 1] by (intro between_lit) simp_all
  then obtain p where "lit q = Fin p" "1/16 \<le> p" by (auto simp: between_iff)
  then show ?thesis by (intro exI [of _ p]) simp
qed

lemma strategies_positive: "st \<in> set strategies \<Longrightarrow> \<exists>p > 0. st_reduction_pct st = Fin p"
proof -
  assume "st \<in> set strategies"
  then have "\<exists>q. st_reduction_pct st = lit q \<and> 1/10 \<le> q \<and> q \<le> 1" by (auto simp: strategies_def)
  then show ?thesis using lit_pos by metis
qed

lemma strategies_distinct: "distinct (map st_id strategies)"
  by (simp add: strategies_def)

lemma flt_mul_fin: "0 \<le> x \<Longrightarrow> 0 < c \<Longrightarrow> is_fin (x * Fin c) \<Longrightarrow> \<exists>r \<ge> 0. x = Fin r"
  by (cases x) (auto simp: flt_0_1 times_flt_def inf_signed_def)

lemma py_round_int_fin: "py_round_int x = Inr n \<Longrightarrow> is_fin x"
  by (cases x) auto

lemma py_round_int_mono: "py_round_int x = Inr m \<Longrightarrow> py_round_int y = Inr n \<Longrightarrow> x \<le> y \<Longrightarrow> m \<le> n"
  by (cases x; cases y) (auto intro: rhe_mono)

lemma not_le_zero: "\<not> x \<le> 0 \<Longrightarrow> x = NaN \<or> 0 \<le> x"
  by (cases x) (auto simp: flt_0_1)

lemma cost_bounds: "cost_per_tco2e t = (lo, hi) \<Longrightarrow> 0 < lo \<and> lo \<le> hi"
  by (cases t) auto

lemma flt_mult_left_mono_rat: "x = Fin r \<Longrightarrow> 0 \<le> r \<Longrightarrow> a \<le> b \<Longrightarrow> x * Fin a \<le> x * Fin b"
  by (simp add: times_flt_def flt_of_rat_mono mult_left_mono)

lemma recommend_none: "recommend es b st = Inr None \<longleftrightarrow> \<not> worth_recommending es b st"
  by (auto simp: recommend_def worth_recommending_def Let_def bind_r_Inr_iff split: prod.splits if_splits)

lemma recommend_some:
  assumes "recommend es b st = Inr (Some r)" "st \<in> set strategies" "dict_get es ''total'' 1 \<noteq> NaN"
  shows "rc_strategy r = st" "worth_recommending es b st" "between 0 1 (rc_priority_score r)"
    "0 \<le> rc_co2_reduction_tco2e r" "rc_cost_min r \<le> rc_cost_max r"
proof -
  define scope_val where "scope_val = dict_get es (''scope'' @ str_nat (st_scope st)) 0"
  obtain lo hi where lh: "cost_per_tco2e (st_cost_tier st) = (lo, hi)" by fastforce
  note run = assms(1) [unfolded recommend_def Let_def scope_val_def [symmetric]]
  have w: "applicable st b" "\<not> scope_val \<le> 0" using run by (auto split: if_splits)
  then obtain x c1 c2 where x: "get_category_emission st b = Inr x"
    and c: "py_round_int (py_round ((if x \<le> 0 then scope_val * lit (3/10) else x) * st_reduction_pct st) 1 * Fin lo) = Inr c1"
      "py_round_int (py_round ((if x \<le> 0 then scope_val * lit (3/10) else x) * st_reduction_pct st) 1 * Fin hi) = Inr c2"
    and r: "rc_strategy r = st" "rc_cost_min r = c1" "rc_cost_max r = c2"
      "rc_co2_reduction_tco2e r = py_round ((if x \<le> 0 then scope_val * lit (3/10) else x) * st_reduction_pct st) 1"
      "rc_priority_score r = priority st (rc_co2_reduction_tco2e r) (dict_get es ''total'' 1)"
    using run lh by (auto simp: bind_r_Inr_iff simp del: One_nat_def)
  define e where "e = (if x \<le> 0 then scope_val * lit (3/10) else x)"
  define co2 where "co2 = py_round (e * st_reduction_pct st) 1"
  have fin: "is_fin (co2 * Fin lo)" using c(1) py_round_int_fin unfolding co2_def e_def by blast
  obtain p where p: "0 < p" "st_reduction_pct st = Fin p" using strategies_positive [OF assms(2)] by blast
  have "e \<noteq> NaN"
  proof
    assume "e = NaN" then have "co2 * Fin lo = NaN" by (simp add: co2_def times_flt_def)
    then show False using fin by simp
  qed
  moreover have "0 \<le> scope_val * lit (3/10)" if "scope_val \<noteq> NaN"
    using not_le_zero [OF w(2)] that flt_mul_nonneg lit_pos [of "3/10"] by fastforce
  ultimately have "0 \<le> e" using not_le_zero [of x] by (cases "scope_val = NaN") (auto simp: e_def times_flt_def split: if_splits)
  then have "0 \<le> co2" unfolding co2_def p(2) using flt_mul_nonneg [OF _ p(1)] flt_round_nonneg by blast
  then obtain q where q: "co2 = Fin q" "0 \<le> q" using flt_mul_fin [OF _ _ fin] cost_bounds [OF lh] by auto
  show "rc_strategy r = st" "worth_recommending es b st" using r w by (simp_all add: worth_recommending_def scope_val_def)
  have co2: "rc_co2_reduction_tco2e r = co2" using r(4) by (simp only: co2_def e_def)
  show "0 \<le> rc_co2_reduction_tco2e r" using \<open>0 \<le> co2\<close> co2 by simp
  show "between 0 1 (rc_priority_score r)" using priority_between [OF q assms(3)] r(5) co2 by simp
  show "rc_cost_min r \<le> rc_cost_max r"
    using py_round_int_mono [OF c] flt_mult_left_mono_rat [OF q conjunct2 [OF cost_bounds [OF lh]]] r(2,3) by (simp add: co2_def e_def)
qed

lemma recommend_all_run:
  assumes "recommend_all es b sts = Inr rs" "set sts \<subseteq> set strategies" "dict_get es ''total'' 1 \<noteq> NaN"
  shows "map rc_strategy rs = filter (worth_recommending es b) sts \<and>
    (\<forall>r \<in> set rs. between 0 1 (rc_priority_score r) \<and> 0 \<le> rc_co2_reduction_tco2e r \<and> rc_cost_min r \<le> rc_cost_max r)"
  using assms(1,2)
proof (induction sts arbitrary: rs)
  case (Cons st sts)
  then obtain o' rs' where o: "recommend es b st = Inr o'" "recommend_all es b sts = Inr rs'"
    and rs: "rs = (case o' of None \<Rightarrow> rs' | Some x \<Rightarrow> x # rs')"
    by (auto simp: bind_r_Inr_iff)
  note ih = Cons.IH [OF o(2)]
  show ?case
  proof (cases o')
    case None
    then have "\<not> worth_recommending es b st" using o(1) recommend_none by simp
    then show ?thesis using ih rs None Cons.prems(2) by simp
  next
    case (Some r)
    have st: "st \<in> set strategies" using Cons.prems(2) by simp
    note s = recommend_some [OF o(1) [unfolded Some] st assms(3)]
    show ?thesis using ih rs Some s Cons.prems(2) by simp
  qed
qed simp

lemma generate_run:
  assumes "generate_recommendations es b = Inr rs" "dict_get es ''total'' 1 \<noteq> NaN"
  shows "sorted_wrt ranked_before rs"
    "rc_strategy ` set rs = {st \<in> set strategies. worth_recommending es (case b of None \<Rightarrow> [] | Some d \<Rightarrow> d) st}"
    "distinct (map (st_id \<circ> rc_strategy) rs)"
    "r \<in> set rs \<Longrightarrow> between 0 1 (rc_priority_score r) \<and> 0 \<le> rc_co2_reduction_tco2e r \<and> rc_cost_min r \<le> rc_cost_max r"
proof -
  let ?b = "case b of None \<Rightarrow> [] | Some d \<Rightarrow> d"
  obtain rs0 where rs0: "recommend_all es ?b strategies = Inr rs0" "rs = rank_recommendations rs0"
    using assms(1) by (auto simp: generate_recommendations_def bind_r_Inr_iff)
  note run = recommend_all_run [OF rs0(1) subset_refl assms(2)]
  have "rc_strategy ` set rs0 = set (map rc_strategy rs0)" by simp
  also have "\<dots> = {st \<in> set strategies. worth_recommending es ?b st}" using run by (simp only: set_filter)
  finally show "rc_strategy ` set rs = {st \<in> set strategies. worth_recommending es ?b st}" by (simp add: rs0(2))
  have "\<forall>q \<in> set rs0. rc_priority_score q \<noteq> NaN" using run between_not_NaN by blast
  then show "sorted_wrt ranked_before rs" unfolding rs0(2) by (rule rank_sorted)
  have "map (st_id \<circ> rc_strategy) rs0 = map st_id (filter (worth_recommending es ?b) strategies)"
    using run by (metis list.map_comp)
  then have "distinct (map (st_id \<circ> rc_strategy) rs0)" using strategies_distinct distinct_map_filter by metis
  then show "distinct (map (st_id \<circ> rc_strategy) rs)" by (simp only: rs0(2) rank_distinct)
  show "r \<in> set rs \<Longrightarrow> between 0 1 (rc_priority_score r) \<and> 0 \<le> rc_co2_reduction_tco2e r \<and> rc_cost_min r \<le> rc_cost_max r"
    using run by (simp add: rs0(2))
qed

section \<open>Predictions\<close>

definition nonneg_figures :: "figures \<Rightarrow> bool" where
  "nonneg_figures f \<longleftrightarrow> list_all (\<lambda>(k, x). 0 \<le> x) f"

lemma nonneg_figures_get: "nonneg_figures f \<Longrightarrow> 0 \<le> dict_get f k 0"
  by (induction f) (auto simp: nonneg_figures_def dict_get_def flt_0_1 split: if_splits)

definition sound_intensities :: "rat \<times> rat \<times> rat \<Rightarrow> bool" where
  "sound_intensities is \<longleftrightarrow> (case is of (a, b, c) \<Rightarrow> list_all (\<lambda>q. 1/2 \<le> q \<and> q \<le> 1000) [a, b, c])"

lemma intensities_sound:
  assumes "list_all sound_intensities (map snd tbl)" "sound_intensities (dict_get tbl ''manufacturing'' (0, 0, 0))"
  shows "sound_intensities (intensities_of tbl industry)"
proof -
  have "sound_intensities (dict_get tbl k d)" if "sound_intensities d" for k d
    using assms(1) that by (induction tbl) (auto simp: dict_get_def)
  then show ?thesis using assms(2) unfolding intensities_of_def by blast
qed

lemma tables_sound: "sound_intensities (intensities_of revenue_intensities industry)"
  "sound_intensities (intensities_of employee_intensities industry)"
  by (rule intensities_sound; simp add: revenue_intensities_def employee_intensities_def sound_intensities_def dict_get_def)+

lemma lit_mul_nonneg:
  assumes "0 \<le> x" "1/2 \<le> q" "q \<le> 1000"
  shows "0 \<le> lit q * x"
proof -
  have "rnd (1/2) = (1/2 :: rat)" "rnd 1000 = (1000 :: rat)" using dyadic [of 1 1] rnd_of_int [of 1000] by simp_all
  then have "between (1/2) 1000 (lit q)" using assms(2,3) by (intro between_lit) simp_all
  then obtain p where "lit q = Fin p" "1/2 \<le> p" by (auto simp: between_iff)
  then have "lit q * x = x * Fin p" "0 < p" by (cases x; simp add: times_flt_def mult.commute)+
  then show ?thesis using flt_mul_nonneg [OF assms(1)] by simp
qed

lemma scaled_nonneg: "sound_intensities is \<Longrightarrow> 0 \<le> x \<Longrightarrow> nonneg_figures (scaled is x)"
  by (auto simp: sound_intensities_def scaled_def scope_figures_def nonneg_figures_def lit_mul_nonneg flt_round_nonneg
      split: prod.splits simp del: py_round.simps)

lemma hybrid_nonneg: "nonneg_figures a \<Longrightarrow> nonneg_figures b \<Longrightarrow> nonneg_figures (hybrid a b)"
  by (simp add: hybrid_def nonneg_figures_def [of "_ # _"] nonneg_figures_get flt_add_nonneg flt_div_nonneg flt_round_nonneg
      del: py_round.simps)

lemma ml_nonneg: "ml_predict m industry region revenue employees = Some d \<Longrightarrow> nonneg_figures d"
  by (auto simp: ml_predict_def nonneg_figures_def list_all_iff py_max_def flt_less_imp_le flt_0_1 split: option.splits sum.splits)

lemma round_figures_nonneg: "nonneg_figures f \<Longrightarrow> nonneg_figures (map (\<lambda>(k, x). (k, py_round x n)) f)"
  by (auto simp: nonneg_figures_def list_all_iff flt_round_nonneg simp del: py_round.simps)

lemma average_nonneg: "industry_average inds i = Inr f \<Longrightarrow> nonneg_figures f"
proof -
  assume "industry_average inds i = Inr f"
  then have f: "f = scope_figures (py_round (Fin 5000 * lit (2/10)) 2) (py_round (Fin 5000 * lit (15/100)) 2)
      (py_round (Fin 5000 * lit (65/100)) 2)" by (auto simp: industry_average_def bind_r_Inr_iff Let_def)
  have "0 \<le> Fin 5000 * lit q" if "1/10 \<le> q" "q \<le> 1" for q
    using lit_pos [OF that] flt_mul_nonneg [of "Fin 5000"] by (auto simp: flt_0_1)
  then show ?thesis unfolding f scope_figures_def nonneg_figures_def
    by (simp add: flt_round_nonneg del: py_round.simps)
qed

lemma predict_all_nonneg:
  assumes "predict_all inds model revenue employees industry region = Inr (m, f)"
  shows "nonneg_figures f"
proof (cases "ml_predict model industry region revenue employees")
  case (Some d)
  then show ?thesis using assms round_figures_nonneg ml_nonneg by (fastforce simp: predict_all_def)
next
  case None
  have scale: "0 < x \<Longrightarrow> 0 \<le> x / Fin 1000000" for x by (rule flt_div_nonneg) (auto simp: flt_less_imp_le)
  show ?thesis
    using assms None scaled_nonneg [OF tables_sound(1) scale] scaled_nonneg [OF tables_sound(2) flt_less_imp_le] average_nonneg hybrid_nonneg
    by (auto simp: predict_all_def predict_from_revenue_def predict_from_employees_def bind_r_Inr_iff split: if_splits)
qed

lemma prediction_run:
  assumes "predict_missing_emissions inds model d industry region = Inr p"
  obtains m f where "predict_all inds model (get_or_zero d ''revenue_usd'') (get_or_zero d ''employee_count'') industry region = Inr (m, f)"
    "pr_method p = m" "pr_predictions p = fill_missing d f" "pr_mid p = py_round (py_sum (dict_values (fill_missing d f))) 2"
    "pr_low p = py_round (py_sum (dict_values (fill_missing d f)) *
        lit (fst (uncertainty_of (has_scope1_data d \<or> has_scope2_data d \<or> has_scope3_data d) m))) 2"
    "pr_high p = py_round (py_sum (dict_values (fill_missing d f)) *
        lit (snd (uncertainty_of (has_scope1_data d \<or> has_scope2_data d \<or> has_scope3_data d) m))) 2"
    "pr_filled_categories p = filled_categories d" "pr_confidence_adjustment p = py_round (lit (4/10) + lit (6/10) * data_coverage d) 4"
proof -
  obtain m f where mf: "predict_all inds model (get_or_zero d ''revenue_usd'') (get_or_zero d ''employee_count'') industry region = Inr (m, f)"
    using assms by (auto simp: predict_missing_emissions_def bind_r_Inr_iff)
  show ?thesis
    by (rule that [OF mf]; use assms mf in \<open>simp add: predict_missing_emissions_def Let_def split_beta del: py_round.simps\<close>;
        (erule subst)?; simp del: py_round.simps)
qed

lemma fill_missing_keys:
  "map fst (fill_missing d f) = map fst (filter (\<lambda>(k, known). \<not> known)
     [(''scope1'', has_scope1_data d), (''scope2'', has_scope2_data d), (''scope3'', has_scope3_data d)])"
  by (simp add: fill_missing_def)

lemma fill_missing_nonneg: "nonneg_figures f \<Longrightarrow> nonneg_figures (fill_missing d f)"
  using nonneg_figures_get [of f] by (simp add: fill_missing_def nonneg_figures_def [of "_ @ _"])

lemma bands_bracket:
  assumes "uncertainty_of part m = (lo, hi)"
  shows "1/2 \<le> lo" "lo \<le> 3/4" "135/100 \<le> hi" "hi \<le> 18/10"
  using assms by (auto simp: uncertainty_of_def uncertainty_bands_def dict_get_def split: if_splits)

text \<open>The middle is a float, so scaling it by less than one does not raise it, and by more than one does not lower it.\<close>

definition representable :: "flt \<Rightarrow> bool" where
  "representable x \<longleftrightarrow> (case x of Fin r \<Rightarrow> flt_of_rat r = Fin r | _ \<Rightarrow> True)"

lemma representable_flt_of_rat: "representable (flt_of_rat x)"
  by (auto simp: representable_def flt_of_rat_def Let_def)

lemma representable_add: "representable (a + b)"
  using representable_flt_of_rat by (cases a; cases b) (simp_all add: representable_def plus_flt_def)

lemma representable_sum: "representable (py_sum xs)"
proof -
  have zero: "representable 0" by (simp add: representable_def flt_0_1 flt_of_rat_small)
  have "representable (fst acc) \<Longrightarrow> representable (fst (foldl sum_step acc xs))" for acc
    by (induction xs arbitrary: acc) (auto simp: Let_def representable_add)
  then have "representable (fst (foldl sum_step (0, 0) xs))" using zero by simp
  then show ?thesis unfolding py_sum_def by (cases "foldl sum_step (0, 0) xs") (simp add: representable_add)
qed

lemma flt_scale:
  assumes "0 \<le> x" "representable x" "0 \<le> q"
  shows "q \<le> 1 \<Longrightarrow> 0 < q \<Longrightarrow> x * Fin q \<le> x" "1 \<le> q \<Longrightarrow> x \<le> x * Fin q"
proof -
  consider r where "x = Fin r" "0 \<le> r" | "x = PosInf" using assms(1) unfolding flt_ge_zero_iff by blast
  then have "(q \<le> 1 \<longrightarrow> 0 < q \<longrightarrow> x * Fin q \<le> x) \<and> (1 \<le> q \<longrightarrow> x \<le> x * Fin q)"
  proof cases
    case (1 r)
    then have r: "flt_of_rat r = Fin r" using assms(2) by (simp add: representable_def)
    show ?thesis
      using flt_of_rat_mono [of "r * q" r] flt_of_rat_mono [of r "r * q"] 1 r
      by (simp add: times_flt_def mult_left_le mult_le_cancel_left1)
  qed (simp add: times_flt_def inf_signed_def)
  then show "q \<le> 1 \<Longrightarrow> 0 < q \<Longrightarrow> x * Fin q \<le> x" "1 \<le> q \<Longrightarrow> x \<le> x * Fin q" by blast+
qed

lemma lit_between_dyadic: "rnd l = l \<Longrightarrow> rnd u = u \<Longrightarrow> 0 < l \<Longrightarrow> u \<le> 1000 \<Longrightarrow> l \<le> q \<Longrightarrow> q \<le> u \<Longrightarrow> \<exists>p. lit q = Fin p \<and> l \<le> p \<and> p \<le> u"
  using between_lit [of l q u] by (auto simp: between_iff)

lemma bands_ordered:
  assumes "uncertainty_of part m = (lo, hi)" "0 \<le> x" "representable x"
  shows "py_round (x * lit lo) 2 \<le> py_round x 2" "py_round x 2 \<le> py_round (x * lit hi) 2"
proof -
  have r: "rnd (1/2) = (1/2 :: rat)" "rnd 1 = (1 :: rat)" "rnd 2 = (2 :: rat)"
    using dyadic [of 1 1] rnd_of_int [of 1] rnd_of_int [of 2] by simp_all
  note b = bands_bracket [OF assms(1)]
  obtain p where p: "lit lo = Fin p" "1/2 \<le> p" "p \<le> 1" using lit_between_dyadic [OF r(1,2), of lo] b by auto
  obtain q where q: "lit hi = Fin q" "1 \<le> q" using lit_between_dyadic [OF r(2,3), of hi] b by auto
  show "py_round (x * lit lo) 2 \<le> py_round x 2" "py_round x 2 \<le> py_round (x * lit hi) 2"
    using flt_scale [OF assms(2,3), of p] flt_scale [OF assms(2,3), of q] p q by (auto intro!: flt_round_mono)
qed

lemma coverage_values: "data_coverage d \<in> {0, Fin 1 / Fin 3, Fin 2 / Fin 3, 1}"
proof -
  have i: "flt_of_int 0 = Fin 0" "flt_of_int 1 = Fin 1" "flt_of_int 2 = Fin 2" "flt_of_int 3 = Fin 3"
    using rnd_of_int [of 1] rnd_of_int [of 2] rnd_of_int [of 3] by (simp_all add: flt_of_int_def flt_of_rat_small)
  have "Fin 0 / Fin 3 = 0" "Fin 3 / Fin 3 = 1" using rnd_of_int [of 1] by (simp_all add: divide_flt_def flt_0_1 flt_of_rat_small)
  then show ?thesis using i
    by (cases "has_scope1_data d"; cases "has_scope2_data d"; cases "has_scope3_data d") (simp_all add: data_coverage_def)
qed

lemma confidence_range: "between (3/8) 1 (py_round (lit (4/10) + lit (6/10) * data_coverage d) 4)"
proof -
  have r: "rnd (3/8) = (3/8 :: rat)" "rnd (26215/65536) = (26215/65536 :: rat)" "rnd (39322/65536) = (39322/65536 :: rat)"
    "rnd (65537/65536) = (65537/65536 :: rat)" "rnd 1 = (1 :: rat)"
    using dyadic [of 3 3] dyadic [of 26215 16] dyadic [of 39322 16] dyadic [of 65537 16] rnd_of_int [of 1] by simp_all
  have "between 0 1 (Fin 1 / Fin 3)" "between 0 1 (Fin 2 / Fin 3)"
    using between_rounded [of 0 "1/3" 1] between_rounded [of 0 "2/3" 1] r by (simp_all add: divide_flt_def)
  then have c: "between 0 1 (data_coverage d)" using coverage_values [of d] by auto
  have l: "between (3/8) (26215/65536) (lit (4/10))" "between 0 (39322/65536) (lit (6/10))" by (rule between_lit; use r in simp)+
  have "between 0 (39322/65536) (lit (6/10) * data_coverage d)" by (rule between_mult_nonneg [OF l(2) c]) (use r in simp_all)
  with l(1) have "between (3/8) (65537/65536) (lit (4/10) + lit (6/10) * data_coverage d)" by (rule between_add) (use r in simp_all)
  then show ?thesis by (rule between_py_round [where m = 3750 and k = 10000]) (use r in simp_all)
qed

text \<open>What a prediction holds.\<close>

lemma prediction_fills:
  assumes "predict_missing_emissions inds model d industry region = Inr p"
  shows "map fst (pr_predictions p) = map fst (filter (\<lambda>(k, known). \<not> known)
      [(''scope1'', has_scope1_data d), (''scope2'', has_scope2_data d), (''scope3'', has_scope3_data d)])"
    "nonneg_figures (pr_predictions p)" "between (3/8) 1 (pr_confidence_adjustment p)"
    "0 \<le> py_sum (dict_values (pr_predictions p)) \<Longrightarrow> pr_low p \<le> pr_mid p \<and> pr_mid p \<le> pr_high p"
proof -
  obtain m f where p: "predict_all inds model (get_or_zero d ''revenue_usd'') (get_or_zero d ''employee_count'') industry region = Inr (m, f)"
    "pr_predictions p = fill_missing d f" "pr_mid p = py_round (py_sum (dict_values (fill_missing d f))) 2"
    "pr_low p = py_round (py_sum (dict_values (fill_missing d f)) *
        lit (fst (uncertainty_of (has_scope1_data d \<or> has_scope2_data d \<or> has_scope3_data d) m))) 2"
    "pr_high p = py_round (py_sum (dict_values (fill_missing d f)) *
        lit (snd (uncertainty_of (has_scope1_data d \<or> has_scope2_data d \<or> has_scope3_data d) m))) 2"
    "pr_confidence_adjustment p = py_round (lit (4/10) + lit (6/10) * data_coverage d) 4"
    by (rule prediction_run [OF assms])
  show "map fst (pr_predictions p) = map fst (filter (\<lambda>(k, known). \<not> known)
      [(''scope1'', has_scope1_data d), (''scope2'', has_scope2_data d), (''scope3'', has_scope3_data d)])"
    unfolding p(2) by (rule fill_missing_keys)
  show "nonneg_figures (pr_predictions p)" unfolding p(2) by (rule fill_missing_nonneg [OF predict_all_nonneg [OF p(1)]])
  show "between (3/8) 1 (pr_confidence_adjustment p)" unfolding p(6) by (rule confidence_range)
  show "pr_low p \<le> pr_mid p \<and> pr_mid p \<le> pr_high p" if "0 \<le> py_sum (dict_values (pr_predictions p))"
  proof -
    obtain lo hi where b: "uncertainty_of (has_scope1_data d \<or> has_scope2_data d \<or> has_scope3_data d) m = (lo, hi)" by fastforce
    show ?thesis
      unfolding p(3-5) b fst_conv snd_conv using bands_ordered [OF b that representable_sum] by (simp only: p(2))
  qed
qed

end
