(* ===== verification/Service_Properties.thy ===== *)
theory Service_Properties
imports Samples Scheduler_Laws Scenarios Advice_Laws
begin

text \<open>The properties of the background jobs, of scenarios, recommendations and predictions.\<close>

section \<open>Background jobs\<close>

text \<open>A company without credits, and another whose subscription was deleted.\<close>

definition poor_db :: db where
  "poor_db = estimate_db\<lparr>credit_ledger := []\<rparr>"

definition blocked_db :: db where
  "blocked_db = poor_db\<lparr>companies := [estimate_company, estimate_company\<lparr>co_id := 3\<rparr>],
     subscriptions := [sample_subscription, sample_subscription\<lparr>sub_id := 14, sub_company_id := 3, sub_deleted_at := Some 4\<rparr>]\<rparr>"

lemmas job_sample_defs = blocked_db_def poor_db_def estimate_db_def sample_db_def estimate_company_def sample_subscription_def

lemma poor_ledger: "ledger_ok poor_db" "ledger_ok blocked_db" "balance_of poor_db c = 0" "balance_of blocked_db c = 0"
  by (auto simp: ledger_ok_def balance_of_def company_ledger_def poor_db_def blocked_db_def)

text \<open>
  The monthly reset tops every company up: when each company has its subscription, the turn ends without an
  error, every company has at least the monthly credits of its plan, and none has lost a credit or got more
  than was missing.
\<close>

theorem monthly_reset_tops_up:
  assumes "ledger_ok s" "subscribed_all s"
  shows "\<exists>s'. reset_cycle s = (None, s') \<and> ledger_ok s' \<and>
    (\<forall>c. balance_of s' c = (if c \<in> co_id ` set (companies s) then max (balance_of s c) (monthly_of s c) else balance_of s c))"
  by (rule reset_tops_up [OF assms])

theorem monthly_reset_tops_up_witness:
  "\<exists>s'. reset_cycle poor_db = (None, s') \<and> balance_of poor_db 2 = 0 \<and> balance_of s' 2 = 100"
proof -
  have "subscribed_all poor_db" "monthly_of poor_db 2 = 100" "2 \<in> co_id ` set (companies poor_db)"
    by (simp_all add: subscribed_all_def company_ids_def monthly_of_def active_subscriptions_def job_sample_defs plan_credits)
  then show ?thesis using monthly_reset_tops_up [OF poor_ledger(1)] by (auto simp: poor_ledger)
qed

text \<open>
  One company without a live subscription undoes the reset of others: when the subscription of a company was
  deleted, the rollback in its turn discards the credits of every company before it, although the savepoint
  is there to keep companies apart; only those after it are topped up, and the turn ends as if all was well.
\<close>

theorem blocked_company_undoes_reset:
  assumes "ledger_ok s" "company_ids s = before @ d # after" "subscription_blocked d s"
    "\<And>c. c \<in> set before \<union> set after \<Longrightarrow> \<exists>sub. active_subscriptions c s = [sub]"
  shows "\<exists>s'. reset_cycle s = (None, s') \<and>
    (\<forall>c. balance_of s' c = (if c \<in> set after then max (balance_of s c) (monthly_of s c) else balance_of s c))"
  by (rule reset_takes_back [OF assms])

theorem blocked_company_undoes_reset_witness:
  "\<exists>s'. reset_cycle blocked_db = (None, s') \<and> balance_of s' 2 = 0 \<and> monthly_of blocked_db 2 = 100"
proof -
  have ids: "company_ids blocked_db = [2] @ 3 # []" by (simp add: company_ids_def job_sample_defs)
  have "subscription_blocked 3 blocked_db"
    by (simp add: subscription_blocked_def active_subscriptions_def has_subscription_row_def job_sample_defs)
  moreover have "\<exists>sub. active_subscriptions c blocked_db = [sub]" if "c \<in> set [2] \<union> set []" for c
    using that by (simp add: active_subscriptions_def job_sample_defs)
  ultimately obtain s' where "reset_cycle blocked_db = (None, s')" "\<forall>c. balance_of s' c = balance_of blocked_db c"
    using blocked_company_undoes_reset [OF poor_ledger(2) ids] by auto
  moreover have "monthly_of blocked_db 2 = 100"
    by (simp add: monthly_of_def active_subscriptions_def job_sample_defs plan_credits)
  ultimately show ?thesis by (simp add: poor_ledger)
qed

text \<open>
  The cleanup of expired tokens revives none: after a revocation that lasts as long as its token, and a
  purge, the token is still refused, at any later time, as long as no revocation is lost otherwise and the
  JWT library refuses expired tokens.
\<close>

theorem cleanup_keeps_revocations:
  assumes "\<And>t tk p. ae_jwt_decode env t tk = Inr p \<Longrightarrow> t < jc_exp p * 1000000"
    "ae_jwt_decode env (db_now later) (fst (request_token rq)) = Inr payload" "jc_jti payload = Some (rv_jti row)" "rv_jti row \<noteq> []"
    "row \<in> set (revoked_tokens s)" "rv_expires_at row = jc_exp payload * 1000000"
    "cleanup_cycle s = (e, s')" "set (revoked_tokens s') \<subseteq> set (revoked_tokens later)" "db_now s' \<le> db_now later"
  shows "\<not> returns (get_current_user env rq later)"
  by (rule cleanup_revives_none [OF assms])

definition strict_auth :: auth_env where
  "strict_auth = sample_auth\<lparr>ae_jwt_decode :=
     (\<lambda>now t. if t = ''a'' \<and> now < 99 * 1000000 then Inr admin_claims else Inl PyJWTError)\<rparr>"

definition admin_revocation :: revoked_token where
  "admin_revocation = \<lparr>rv_id = 40, rv_jti = ''j'', rv_user_id = 1, rv_revoked_at = 90, rv_expires_at = 99 * 1000000\<rparr>"

theorem cleanup_keeps_revocations_witness:
  "\<not> returns (get_current_user strict_auth admin_request_in (snd (cleanup_cycle (access_db\<lparr>revoked_tokens := [admin_revocation]\<rparr>))))"
proof -
  let ?s = "access_db\<lparr>revoked_tokens := [admin_revocation]\<rparr>"
  obtain e s' where run: "cleanup_cycle ?s = (e, s')" by fastforce
  then have now: "db_now s' = 101" by (auto simp: cleanup_cycle_run access_sample_defs)
  have "\<not> returns (get_current_user strict_auth admin_request_in s')"
    by (rule cleanup_keeps_revocations [OF _ _ _ _ _ _ run, where payload = admin_claims and row = admin_revocation])
      (auto simp: now strict_auth_def admin_token admin_claims_def admin_revocation_def split: if_splits)
  then show ?thesis using run by simp
qed

text \<open>
  A drop in confidence is reported without end: the alert carries no id of a report, so the check that
  passes over what was reported before never recognises it, and after n hourly turns with the same two
  reports there are n more unread alerts of the same drop.
\<close>

theorem confidence_drop_floods:
  assumes "last_reports c s = latest # previous # rest" "confidence_drop_threshold cfg < er_confidence previous - er_confidence latest"
  shows "\<exists>s' bus'. check_times cfg c n (s, bus) = (None, (s', bus')) \<and> length (drop_alerts c s') = length (drop_alerts c s) + n"
  by (rule drop_is_reported_forever [OF assms])

definition dropped_db :: db where
  "dropped_db = sample_db\<lparr>emission_reports :=
     [sample_report, sample_report\<lparr>er_id := 15, er_confidence := Fin (1/4), er_created_at := 9\<rparr>]\<rparr>"

theorem confidence_drop_floods_witness:
  "\<forall>bus. \<exists>s' bus'. check_times \<lparr>emission_increase_threshold = Fin (1/8), confidence_drop_threshold = Fin (1/8)\<rparr> 2 24 (dropped_db, bus) =
     (None, (s', bus')) \<and> length (drop_alerts 2 s') = 24"
proof -
  let ?new = "sample_report\<lparr>er_id := 15, er_confidence := Fin (1/4), er_created_at := 9\<rparr>"
  have 1: "last_reports 2 dropped_db = ?new # sample_report # []"
    by (simp add: last_reports_def dropped_db_def sample_report_def order_by_desc_def)
  have "rnd (1/4) = (1/4 :: rat)" using dyadic [of 1 2] by simp
  then have "Fin (1/2) - Fin (1/4) = Fin (1/4)" by (simp add: minus_flt_def flt_of_rat_small)
  then have 2: "confidence_drop_threshold \<lparr>emission_increase_threshold = Fin (1/8), confidence_drop_threshold = Fin (1/8)\<rparr> <
      er_confidence sample_report - er_confidence ?new"
    by (simp add: sample_report_def)
  have "drop_alerts 2 dropped_db = []" by (simp add: drop_alerts_def dropped_db_def sample_db_def empty_db_def)
  then show ?thesis using confidence_drop_floods [OF 1 2, of 24] by simp
qed

section \<open>Scenarios, recommendations, predictions\<close>










text \<open>
  Predictions fill the gaps and nothing else: they name exactly the scopes without data of the company,
  never with a negative figure, adjust the confidence within the unit interval, and the middle of the
  uncertainty lies between its ends.
\<close>

theorem predictions_fill_gaps:
  assumes "predict_missing_emissions inds model d industry region = Inr p"
  shows "map fst (pr_predictions p) = map fst (filter (\<lambda>(k, known). \<not> known)
      [(''scope1'', has_scope1_data d), (''scope2'', has_scope2_data d), (''scope3'', has_scope3_data d)]) \<and>
    nonneg_figures (pr_predictions p) \<and> between (3/8) 1 (pr_confidence_adjustment p) \<and>
    (0 \<le> py_sum (dict_values (pr_predictions p)) \<longrightarrow> pr_low p \<le> pr_mid p \<and> pr_mid p \<le> pr_high p)"
  using prediction_fills [OF assms] by blast

theorem predictions_fill_gaps_witness:
  "\<exists>p. predict_missing_emissions [] None [(''revenue_usd'', PNum (Fin 1000000)), (''electricity_kwh'', PNum (Fin 5))] ''energy'' ''US'' = Inr p \<and>
     map fst (pr_predictions p) = [''scope1'', ''scope3''] \<and> nonneg_figures (pr_predictions p)"
proof -
  let ?d = "[(''revenue_usd'', PNum (Fin 1000000)), (''electricity_kwh'', PNum (Fin 5))]"
  have d: "\<not> has_scope1_data ?d" "has_scope2_data ?d" "\<not> has_scope3_data ?d"
    by (simp_all add: has_scope1_data_def has_scope2_data_def has_scope3_data_def any_truthy_def flt_0_1 feq_def)
  obtain p where p: "predict_missing_emissions [] None ?d ''energy'' ''US'' = Inr p"
    by (simp add: predict_missing_emissions_def predict_all_def ml_predict_def get_or_zero_def flt_0_1 split_beta feq_def Let_def)
  show ?thesis using predictions_fill_gaps [OF p] p d by simp
qed

end
