(* ===== verification/Schemas.thy ===== *)
theory Schemas
imports Companies Scenarios Reviews Supply_Chain Marketplace
begin

text \<open>
  \<open>api/schemas.py\<close>: what the body of a request must look like. A body that is not valid is refused before
  the handler runs. Bodies of updates tell a field that is absent (\<open>None\<close>) from one that is null
  (\<open>Some None\<close>). Addresses of mail are checked by a package: a parameter.
\<close>

section \<open>Shared checks\<close>

definition max_json_depth :: nat where
  "max_json_depth = 5"

definition max_dict_keys :: nat where
  "max_dict_keys = 200"

fun check_json_depth :: "pyval \<Rightarrow> nat \<Rightarrow> unit res"
and check_values :: "pyval list \<Rightarrow> nat \<Rightarrow> unit res"
and check_items :: "(string \<times> pyval) list \<Rightarrow> nat \<Rightarrow> unit res" where
  "check_json_depth v depth =
     (if max_json_depth < depth then Inl (ValueError ''JSON nesting exceeds maximum depth of 5'')
      else case v of
        PDict d \<Rightarrow> check_items d (depth + 1)
      | PList l \<Rightarrow> check_values l (depth + 1)
      | _ \<Rightarrow> Inr ())"
| "check_values [] depth = Inr ()"
| "check_values (v # vs) depth = bind_r (check_json_depth v depth) (\<lambda>_. check_values vs depth)"
| "check_items [] depth = Inr ()"
| "check_items ((k, v) # d) depth = bind_r (check_json_depth v depth) (\<lambda>_. check_items d depth)"

text \<open>The character classes of the four patterns\<close>

definition ascii_between :: "nat \<Rightarrow> nat \<Rightarrow> char \<Rightarrow> bool" where
  "ascii_between a b c \<longleftrightarrow> a \<le> of_char c \<and> of_char c \<le> b"

definition special_characters :: string where
  "special_characters = ''!@#$%^&*(),.?:{}|<>[]~_+-=/;'' @ [CHR 0x22, CHR 0x27, CHR 0x5C, CHR 0x60]"

definition check_password_strength :: "string \<Rightarrow> string res" where
  "check_password_strength v =
     (if \<not> list_ex (ascii_between 65 90) v then Inl (ValueError ''Password must contain at least one uppercase letter'')
      else if \<not> list_ex (ascii_between 97 122) v then Inl (ValueError ''Password must contain at least one lowercase letter'')
      else if \<not> list_ex (ascii_between 48 57) v then Inl (ValueError ''Password must contain at least one digit'')
      else if \<not> list_ex (\<lambda>c. c \<in> set special_characters) v
      then Inl (ValueError ''Password must contain at least one special character'')
      else Inr v)"

definition length_ok :: "nat \<Rightarrow> nat \<Rightarrow> string \<Rightarrow> bool" where
  "length_ok lo hi t \<longleftrightarrow> lo \<le> length t \<and> length t \<le> hi"

definition null_or :: "('a \<Rightarrow> bool) \<Rightarrow> 'a option \<Rightarrow> bool" where
  "null_or ok v \<longleftrightarrow> (case v of None \<Rightarrow> True | Some x \<Rightarrow> ok x)"

definition absent_or :: "('a \<Rightarrow> bool) \<Rightarrow> 'a option option \<Rightarrow> bool" where
  "absent_or ok v = null_or (null_or ok) v"

definition year_ok :: "int \<Rightarrow> bool" where
  "year_ok y \<longleftrightarrow> 2000 \<le> y \<and> y \<le> 2030"

definition notes_ok :: "string \<Rightarrow> bool" where
  "notes_ok t \<longleftrightarrow> length_ok 0 2000 t"

definition password_ok :: "nat \<Rightarrow> string \<Rightarrow> bool" where
  "password_ok longest p \<longleftrightarrow> length_ok 8 longest p \<and> returns (check_password_strength p)"

section \<open>Accounts\<close>

record user_register =
  ur_email :: string
  ur_password :: string
  ur_full_name :: string
  ur_company_name :: string
  ur_industry :: string
  ur_region :: string

text \<open>The name of the company is stripped.\<close>

definition valid_register :: "(string \<Rightarrow> bool) \<Rightarrow> user_register \<Rightarrow> user_register option" where
  "valid_register email_ok b =
     (if email_ok (ur_email b) \<and> password_ok 72 (ur_password b) \<and> length_ok 1 255 (ur_full_name b) \<and>
         length_ok 1 255 (ur_company_name b) \<and> py_strip (ur_company_name b) \<noteq> [] \<and>
         length_ok 1 100 (ur_industry b) \<and> length_ok 0 10 (ur_region b)
      then Some (b\<lparr>ur_company_name := py_strip (ur_company_name b)\<rparr>) else None)"

definition profile_update_ok :: "(string \<Rightarrow> bool) \<Rightarrow> string option option \<Rightarrow> string option option \<Rightarrow> bool" where
  "profile_update_ok email_ok full_name email \<longleftrightarrow> absent_or (length_ok 1 255) full_name \<and> absent_or email_ok email"

definition password_change_ok :: "string \<Rightarrow> string \<Rightarrow> bool" where
  "password_change_ok current new \<longleftrightarrow> length_ok 1 72 current \<and> password_ok 72 new"

definition invite_create_ok :: "(string \<Rightarrow> bool) \<Rightarrow> string \<Rightarrow> string \<Rightarrow> bool" where
  "invite_create_ok email_ok email role \<longleftrightarrow> email_ok email \<and> role \<in> {''admin'', ''member''}"

definition invite_accept_ok :: "string \<Rightarrow> string \<Rightarrow> string \<Rightarrow> bool" where
  "invite_accept_ok token full_name password \<longleftrightarrow>
     length_ok 1 128 token \<and> length_ok 1 255 full_name \<and> password_ok 128 password"

definition totp_code_ok :: "string \<Rightarrow> bool" where
  "totp_code_ok t \<longleftrightarrow> length t = 6 \<and> list_all (ascii_between 48 57) t"

section \<open>Company, data and reports\<close>

definition company_update_ok :: "company_update \<Rightarrow> bool" where
  "company_update_ok b \<longleftrightarrow>
     absent_or (length_ok 0 255) (cu_name b) \<and> absent_or (length_ok 0 255) (cu_industry b) \<and>
     absent_or (length_ok 0 255) (cu_region b) \<and> absent_or (\<lambda>n. 0 \<le> n \<and> n \<le> 10000000) (cu_employee_count b) \<and>
     absent_or (\<lambda>x. 0 \<le> x \<and> x \<le> Fin (10 ^ 15)) (cu_revenue_usd b)"

record data_upload_create =
  uc_year :: int
  uc_provided_data :: pydict
  uc_notes :: "string option"

definition data_upload_create_ok :: "data_upload_create \<Rightarrow> bool" where
  "data_upload_create_ok b \<longleftrightarrow> year_ok (uc_year b) \<and> length (uc_provided_data b) \<le> max_dict_keys \<and>
     returns (check_json_depth (PDict (uc_provided_data b)) 0) \<and> null_or notes_ok (uc_notes b)"

text \<open>The number of keys is not limited here.\<close>

definition data_upload_update_ok :: "upload_update \<Rightarrow> bool" where
  "data_upload_update_ok b \<longleftrightarrow> absent_or year_ok (uu_year b) \<and>
     absent_or (\<lambda>d. returns (check_json_depth (PDict d) 0)) (uu_provided_data b) \<and> absent_or notes_ok (uu_notes b)"

definition report_update_ok :: "report_update \<Rightarrow> bool" where
  "report_update_ok b \<longleftrightarrow> absent_or year_ok (ru_year b) \<and> absent_or notes_ok (ru_notes b)"

text \<open>A reply with an upload needs a dictionary where the row may have null.\<close>

record data_upload_out =
  uo_id :: ident
  uo_company_id :: ident
  uo_year :: int
  uo_provided_data :: pydict
  uo_notes :: "string option"
  uo_created_at :: timestamp

definition upload_out :: "data_upload \<Rightarrow> data_upload_out res" where
  "upload_out r =
     (case du_provided_data r of
        None \<Rightarrow> Inl (ValueError ''ResponseValidationError'')
      | Some d \<Rightarrow> Inr \<lparr>uo_id = du_id r, uo_company_id = du_company_id r, uo_year = du_year r, uo_provided_data = d,
          uo_notes = du_notes r, uo_created_at = du_created_at r\<rparr>)"

text \<open>An entry of the log needs the user, which is null once the user is deleted.\<close>

record audit_log_out =
  ao_id :: ident
  ao_user_id :: ident
  ao_action :: string
  ao_resource_type :: string
  ao_resource_id :: "ident option"
  ao_detail :: "string option"
  ao_created_at :: timestamp

definition audit_log_out_of :: "audit_log \<Rightarrow> audit_log_out res" where
  "audit_log_out_of r =
     (case au_user_id r of
        None \<Rightarrow> Inl (ValueError ''ResponseValidationError'')
      | Some u \<Rightarrow> Inr \<lparr>ao_id = au_id r, ao_user_id = u, ao_action = au_action r, ao_resource_type = au_resource_type r,
          ao_resource_id = au_resource_id r, ao_detail = au_detail r, ao_created_at = au_created_at r\<rparr>)"

section \<open>The other bodies\<close>

record link_create =
  lc_supplier_company_id :: ident
  lc_spend_usd :: "flt option"
  lc_category :: string
  lc_notes :: "string option"

definition link_create_ok :: "link_create \<Rightarrow> bool" where
  "link_create_ok b \<longleftrightarrow> null_or (\<lambda>x. 0 \<le> x) (lc_spend_usd b) \<and> null_or notes_ok (lc_notes b)"

text \<open>\<open>^(pending|verified|rejected)$\<close>\<close>

definition link_status_names :: "(string, supply_chain_status) dict" where
  "link_status_names = [(''pending'', Link_Pending), (''verified'', Link_Verified), (''rejected'', Link_Rejected)]"

definition frameworks :: "string list" where
  "frameworks = [''ghg_protocol'', ''cdp'', ''tcfd'', ''sbti'', ''csrd'', ''issb'', ''secr'']"

definition webhook_create_ok :: "string \<Rightarrow> string list \<Rightarrow> bool" where
  "webhook_create_ok url event_types \<longleftrightarrow> length_ok 1 2048 url \<and> 1 \<le> length event_types \<and> length event_types \<le> 50 \<and>
     (starts_with ''https://'' url \<or> starts_with ''http://'' url)"

definition scenario_create_ok :: "string \<Rightarrow> string option \<Rightarrow> pydict \<Rightarrow> bool" where
  "scenario_create_ok name description parameters \<longleftrightarrow> length_ok 1 255 name \<and> null_or notes_ok description \<and>
     length parameters \<le> max_dict_keys \<and> returns (check_json_depth (PDict parameters) 0)"

definition scenario_update_ok :: "scenario_update \<Rightarrow> bool" where
  "scenario_update_ok b \<longleftrightarrow> absent_or (length_ok 1 255) (su_name b) \<and> absent_or notes_ok (su_description b)"

record listing_create =
  lt_title :: string
  lt_description :: "string option"
  lt_data_type :: data_listing_type
  lt_report_id :: ident
  lt_price_credits :: int

definition listing_create_ok :: "listing_create \<Rightarrow> bool" where
  "listing_create_ok b \<longleftrightarrow> length_ok 1 500 (lt_title b) \<and> null_or notes_ok (lt_description b) \<and>
     0 \<le> lt_price_credits b \<and> lt_price_credits b \<le> 1000000"

record asset_create =
  ac_asset_name :: string
  ac_asset_class :: pcaf_asset_class
  ac_outstanding_amount :: flt
  ac_total_equity_debt :: flt
  ac_investee_emissions :: flt
  ac_data_quality_score :: int
  ac_industry :: "string option"
  ac_region :: "string option"
  ac_notes :: "string option"

definition asset_create_ok :: "asset_create \<Rightarrow> bool" where
  "asset_create_ok b \<longleftrightarrow> length_ok 1 255 (ac_asset_name b) \<and> 0 \<le> ac_outstanding_amount b \<and>
     0 < ac_total_equity_debt b \<and> 0 \<le> ac_investee_emissions b \<and>
     1 \<le> ac_data_quality_score b \<and> ac_data_quality_score b \<le> 5 \<and> null_or notes_ok (ac_notes b)"

definition portfolio_create_ok :: "string \<Rightarrow> int \<Rightarrow> bool" where
  "portfolio_create_ok name year \<longleftrightarrow> length_ok 1 255 name \<and> year_ok year"

definition review_action_ok :: "string \<Rightarrow> string option \<Rightarrow> bool" where
  "review_action_ok action remarks \<longleftrightarrow> action \<in> {''submit'', ''approve'', ''reject''} \<and> null_or notes_ok remarks"

section \<open>Nesting\<close>

text \<open>How deep dictionaries and lists are nested in a value.\<close>

fun json_depth :: "pyval \<Rightarrow> nat" and depth_of_values :: "pyval list \<Rightarrow> nat" and depth_of_items :: "(string \<times> pyval) list \<Rightarrow> nat" where
  "json_depth (PDict d) = depth_of_items d"
| "json_depth (PList l) = depth_of_values l"
| "json_depth _ = 0"
| "depth_of_values [] = 0"
| "depth_of_values (v # vs) = max (Suc (json_depth v)) (depth_of_values vs)"
| "depth_of_items [] = 0"
| "depth_of_items ((k, v) # d) = max (Suc (json_depth v)) (depth_of_items d)"

declare check_json_depth.simps [simp del]

lemma returns_then: "returns (bind_r m (\<lambda>_. n)) \<longleftrightarrow> returns m \<and> returns n"
  by (cases m) simp_all

lemma json_depth_check:
  "returns (check_json_depth v n) \<longleftrightarrow> n + json_depth v \<le> max_json_depth"
  "n \<le> Suc max_json_depth \<Longrightarrow> returns (check_values vs n) \<longleftrightarrow> n + depth_of_values vs \<le> Suc max_json_depth"
  "n \<le> Suc max_json_depth \<Longrightarrow> returns (check_items d n) \<longleftrightarrow> n + depth_of_items d \<le> Suc max_json_depth"
proof (induction v n and vs n and d n rule: check_json_depth_check_values_check_items.induct)
  case (1 v depth)
  then show ?case by (cases v) (auto simp: check_json_depth.simps)
qed (auto simp: returns_then)

end
