(* ===== verification/Company_Routes.thy ===== *)
theory Company_Routes
imports Schemas Carbon Deps Team Alerts Benchmarks Prediction Recommendations
begin

text \<open>
  The routes of a company's own data: \<open>carbon_routes.py\<close>, \<open>company_routes.py\<close>, \<open>scenario_routes.py\<close>,
  \<open>review_routes.py\<close>, \<open>alert_routes.py\<close>, \<open>audit_routes.py\<close>, \<open>benchmark_routes.py\<close>, and \<open>ai_routes.py\<close>
  with \<open>services/ai.py\<close>. A request is first authenticated, then its body and its query are checked, then the
  service runs in the session of the request. The limiter of the HTTP layer is not part of it.
\<close>

text \<open>\<open>raise HTTPException(status_code=e.status_code, detail=...)\<close>\<close>

fun service_error :: "exn \<Rightarrow> exn" where
  "service_error (ServiceError detail code) = HTTPException code detail"
| "service_error e = e"

fun service_error_as :: "string \<Rightarrow> exn \<Rightarrow> exn" where
  "service_error_as detail (ServiceError d code) = HTTPException code detail"
| "service_error_as detail e = e"

definition page_ok :: "nat \<Rightarrow> bool" where
  "page_ok limit \<longleftrightarrow> 1 \<le> limit \<and> limit \<le> 200"

section \<open>Estimates and reports\<close>

definition create_estimate_route ::
    "auth_env \<Rightarrow> estimate_env \<Rightarrow> http_in \<Rightarrow> ident \<Rightarrow> bridge \<Rightarrow> session \<Rightarrow> (emission_report res \<times> session) \<times> bridge" where
  "create_estimate_route auth env rq upload_id b ses =
     (case serve (require_credits auth rq ''estimate'') ses of
        (Inl e, ses1) \<Rightarrow> ((Inl e, ses1), b)
      | (Inr u, ses1) \<Rightarrow>
          (case create_estimate env upload_id (us_company_id u) (us_id u) b ses1 of
             (reply, b1) \<Rightarrow> (rethrow service_error (\<lambda>_. reply) ses1, b1)))"

definition list_reports_route ::
    "auth_env \<Rightarrow> http_in \<Rightarrow> int option \<Rightarrow> flt option \<Rightarrow> report_sort \<Rightarrow> bool \<Rightarrow> nat \<Rightarrow> nat \<Rightarrow> (emission_report list \<times> nat) req" where
  "list_reports_route auth rq year confidence_min sort_col ascending limit offset =
     bind_q (serve (get_current_user auth rq)) (\<lambda>u.
     bind_q (check_body (page_ok limit \<and> null_or (\<lambda>x. 0 \<le> x \<and> x \<le> 1) confidence_min)) (\<lambda>_.
     ask (\<lambda>s. Inr (list_reports (us_company_id u) year confidence_min sort_col ascending limit offset s))))"

definition export_reports_route ::
    "auth_env \<Rightarrow> export_env \<Rightarrow> http_in \<Rightarrow> string \<Rightarrow> int option \<Rightarrow> (string \<times> string \<times> string) req" where
  "export_reports_route auth env rq fmt year =
     bind_q (serve (get_current_user auth rq)) (\<lambda>u.
     bind_q (check_body (fmt \<in> {''csv'', ''json'', ''parquet''})) (\<lambda>_.
     ask (export_reports env (us_company_id u) fmt year)))"

definition get_report_route :: "auth_env \<Rightarrow> http_in \<Rightarrow> ident \<Rightarrow> emission_report req" where
  "get_report_route auth rq report_id =
     bind_q (serve (get_current_user auth rq)) (\<lambda>u.
     rethrow service_error (ask (get_report report_id (us_company_id u))))"

definition update_report_route :: "auth_env \<Rightarrow> http_in \<Rightarrow> ident \<Rightarrow> report_update \<Rightarrow> emission_report req" where
  "update_report_route auth rq report_id body =
     bind_q (serve (get_current_user auth rq)) (\<lambda>u.
     bind_q (check_body (report_update_ok body)) (\<lambda>_.
     rethrow service_error (update_report report_id (us_company_id u) (us_id u) body)))"

definition export_report_pdf_route ::
    "auth_env \<Rightarrow> (company \<Rightarrow> emission_report \<Rightarrow> string) \<Rightarrow> http_in \<Rightarrow> ident \<Rightarrow> (string \<times> int) req" where
  "export_report_pdf_route auth generate rq report_id =
     bind_q (serve (require_credits auth rq ''pdf_export'')) (\<lambda>u.
     rethrow service_error (export_report_pdf generate report_id (us_company_id u)))"

definition delete_report_route :: "auth_env \<Rightarrow> http_in \<Rightarrow> ident \<Rightarrow> unit req" where
  "delete_report_route auth rq report_id =
     bind_q (serve (get_current_user auth rq)) (\<lambda>u.
     rethrow service_error (delete_report report_id (us_company_id u) (us_id u)))"

definition dashboard_route :: "auth_env \<Rightarrow> http_in \<Rightarrow> dashboard req" where
  "dashboard_route auth rq =
     bind_q (serve (get_current_user auth rq)) (\<lambda>u. ask (get_dashboard (us_company_id u)))"

section \<open>Company and uploads\<close>

definition get_company_route :: "auth_env \<Rightarrow> http_in \<Rightarrow> company req" where
  "get_company_route auth rq =
     bind_q (serve (get_current_user auth rq)) (\<lambda>u. rethrow service_error (ask (get_company (us_company_id u))))"

definition update_company_route :: "auth_env \<Rightarrow> http_in \<Rightarrow> company_update \<Rightarrow> company req" where
  "update_company_route auth rq body =
     bind_q (serve (require_admin auth rq)) (\<lambda>u.
     bind_q (check_body (company_update_ok body)) (\<lambda>_.
     rethrow service_error (update_company (us_company_id u) (us_id u) body)))"

definition upload_data_route :: "auth_env \<Rightarrow> web_env \<Rightarrow> http_in \<Rightarrow> data_upload_create \<Rightarrow> data_upload_out req" where
  "upload_data_route auth web rq body =
     bind_q (serve (get_current_user auth rq)) (\<lambda>u.
     bind_q (check_body (data_upload_create_ok body)) (\<lambda>_.
     bind_q (create_upload web (us_company_id u) (uc_year body) (uc_provided_data body) (uc_notes body)) (\<lambda>r.
     ask (\<lambda>_. upload_out r))))"

definition list_data_uploads_route ::
    "auth_env \<Rightarrow> http_in \<Rightarrow> int option \<Rightarrow> nat \<Rightarrow> nat \<Rightarrow> (data_upload_out list \<times> nat) req" where
  "list_data_uploads_route auth rq year limit offset =
     bind_q (serve (get_current_user auth rq)) (\<lambda>u.
     bind_q (check_body (page_ok limit)) (\<lambda>_.
     ask (\<lambda>s. case list_uploads (us_company_id u) year limit offset s of
       (items, n) \<Rightarrow> bind_r (mapM_r upload_out items) (\<lambda>outs. Inr (outs, n)))))"

definition get_data_upload_route :: "auth_env \<Rightarrow> http_in \<Rightarrow> ident \<Rightarrow> data_upload_out req" where
  "get_data_upload_route auth rq upload_id =
     bind_q (serve (get_current_user auth rq)) (\<lambda>u.
     bind_q (rethrow service_error (ask (get_upload upload_id (us_company_id u)))) (\<lambda>r.
     ask (\<lambda>_. upload_out r)))"

definition update_data_upload_route :: "auth_env \<Rightarrow> http_in \<Rightarrow> ident \<Rightarrow> upload_update \<Rightarrow> data_upload_out req" where
  "update_data_upload_route auth rq upload_id body =
     bind_q (serve (get_current_user auth rq)) (\<lambda>u.
     bind_q (check_body (data_upload_update_ok body)) (\<lambda>_.
     bind_q (rethrow service_error (update_upload upload_id (us_company_id u) (us_id u) body)) (\<lambda>r.
     ask (\<lambda>_. upload_out r))))"

definition delete_data_upload_route :: "auth_env \<Rightarrow> http_in \<Rightarrow> ident \<Rightarrow> unit req" where
  "delete_data_upload_route auth rq upload_id =
     bind_q (serve (get_current_user auth rq)) (\<lambda>u.
     rethrow service_error (delete_upload upload_id (us_company_id u) (us_id u)))"

section \<open>Scenarios\<close>

definition scenario_failed :: string where
  "scenario_failed = ''Scenario operation failed''"

definition create_scenario_route ::
    "auth_env \<Rightarrow> http_in \<Rightarrow> string \<Rightarrow> string option \<Rightarrow> ident option \<Rightarrow> pydict \<Rightarrow> scenario req" where
  "create_scenario_route auth rq name description base_report_id parameters =
     bind_q (serve (get_current_user auth rq)) (\<lambda>u.
     bind_q (check_body (scenario_create_ok name description parameters)) (\<lambda>_.
     rethrow (service_error_as scenario_failed)
       (create_scenario (us_company_id u) name description base_report_id parameters)))"

definition list_scenarios_route ::
    "auth_env \<Rightarrow> (string \<Rightarrow> string \<Rightarrow> bool) \<Rightarrow> http_in \<Rightarrow> string option \<Rightarrow> scenario_sort \<Rightarrow> bool \<Rightarrow> nat \<Rightarrow> nat \<Rightarrow>
      (scenario list \<times> nat) req" where
  "list_scenarios_route auth collation rq status k ascending limit offset =
     bind_q (serve (get_current_user auth rq)) (\<lambda>u.
     bind_q (check_body (page_ok limit \<and> null_or (\<lambda>t. t \<in> {''draft'', ''computed'', ''archived''}) status)) (\<lambda>_.
     ask (\<lambda>s. Inr (list_scenarios collation (us_company_id u) status k ascending limit offset s))))"

definition get_scenario_route :: "auth_env \<Rightarrow> http_in \<Rightarrow> ident \<Rightarrow> scenario req" where
  "get_scenario_route auth rq scenario_id =
     bind_q (serve (get_current_user auth rq)) (\<lambda>u.
     rethrow (service_error_as ''Scenario not found'') (ask (get_scenario scenario_id (us_company_id u))))"

definition update_scenario_route :: "auth_env \<Rightarrow> http_in \<Rightarrow> ident \<Rightarrow> scenario_update \<Rightarrow> scenario req" where
  "update_scenario_route auth rq scenario_id body =
     bind_q (serve (get_current_user auth rq)) (\<lambda>u.
     bind_q (check_body (scenario_update_ok body)) (\<lambda>_.
     bind_q (rethrow (service_error_as scenario_failed) (update_scenario scenario_id (us_company_id u) body)) (\<lambda>sc.
     bind_q (serve (record_audit (us_id u) (us_company_id u) ''update'' ''scenario'' (Some scenario_id) None)) (\<lambda>_.
     return_q sc))))"

text \<open>Only a \<open>ValueError\<close> is turned into a reply, and a \<open>ServiceError\<close> is none.\<close>

definition compute_scenario_route :: "auth_env \<Rightarrow> http_in \<Rightarrow> ident \<Rightarrow> scenario req" where
  "compute_scenario_route auth rq scenario_id =
     bind_q (serve (require_credits auth rq ''scenario_compute'')) (\<lambda>u.
     bind_q (rethrow (value_error_as (HTTPException 404 ''Scenario not found''))
       (run_scenario scenario_id (us_company_id u))) (\<lambda>sc.
     bind_q (serve (deduct_operation_credits (us_company_id u) ''scenario_compute'')) (\<lambda>_.
     bind_q commit (\<lambda>_.
     return_q sc))))"

definition delete_scenario_route :: "auth_env \<Rightarrow> http_in \<Rightarrow> ident \<Rightarrow> unit req" where
  "delete_scenario_route auth rq scenario_id =
     bind_q (serve (get_current_user auth rq)) (\<lambda>u.
     bind_q (rethrow (service_error_as scenario_failed) (delete_scenario scenario_id (us_company_id u))) (\<lambda>_.
     serve (record_audit (us_id u) (us_company_id u) ''delete'' ''scenario'' (Some scenario_id) None)))"

section \<open>Reviews\<close>

definition create_review_route :: "auth_env \<Rightarrow> http_in \<Rightarrow> ident \<Rightarrow> data_review req" where
  "create_review_route auth rq report_id =
     bind_q (serve (get_current_user auth rq)) (\<lambda>u.
     bind_q (rethrow service_error (serve (create_review report_id (us_company_id u)))) (\<lambda>review.
     bind_q (serve (record_audit (us_id u) (us_company_id u) ''create'' ''data_review'' (Some (dr_id review)) None)) (\<lambda>_.
     bind_q commit (\<lambda>_.
     return_q review))))"

definition list_reviews_route ::
    "auth_env \<Rightarrow> http_in \<Rightarrow> review_status option \<Rightarrow> nat \<Rightarrow> nat \<Rightarrow> (data_review list \<times> nat) req" where
  "list_reviews_route auth rq status_filter limit offset =
     bind_q (serve (get_current_user auth rq)) (\<lambda>u.
     bind_q (check_body (page_ok limit)) (\<lambda>_.
     ask (\<lambda>s. Inr (list_reviews (us_company_id u) status_filter limit offset s))))"

definition get_review_route :: "auth_env \<Rightarrow> http_in \<Rightarrow> ident \<Rightarrow> data_review req" where
  "get_review_route auth rq review_id =
     bind_q (serve (get_current_user auth rq)) (\<lambda>u.
     rethrow service_error (serve (get_review review_id (us_company_id u))))"

definition review_action_route :: "auth_env \<Rightarrow> http_in \<Rightarrow> ident \<Rightarrow> string \<Rightarrow> string option \<Rightarrow> data_review req" where
  "review_action_route auth rq review_id action remarks =
     bind_q (serve (get_current_user auth rq)) (\<lambda>u.
     bind_q (check_body (review_action_ok action remarks)) (\<lambda>_.
     if action \<in> {''approve'', ''reject''} \<and> us_role u \<noteq> Admin
     then raise_q (HTTPException 403 ''Only admins can approve or reject reviews'')
     else
       bind_q (rethrow service_error
         (bind_q (serve (get_review review_id (us_company_id u))) (\<lambda>review.
          serve (perform_action review action (us_id u) (role_name (us_role u)) remarks)))) (\<lambda>review.
       bind_q (serve (record_audit (us_id u) (us_company_id u) (''review_'' @ action) ''data_review''
         (Some (dr_id review)) remarks)) (\<lambda>_.
       bind_q commit (\<lambda>_.
       return_q review)))))"

section \<open>Alerts, the log and the benchmarks\<close>

text \<open>What a handler publishes on the event bus once its session is committed.\<close>

type_synonym notice = "ident \<times> string \<times> pydict"

definition get_alerts_route :: "auth_env \<Rightarrow> http_in \<Rightarrow> bool \<Rightarrow> nat \<Rightarrow> nat \<Rightarrow> (alert list \<times> nat) req" where
  "get_alerts_route auth rq unread_only limit offset =
     bind_q (serve (get_current_user auth rq)) (\<lambda>u.
     bind_q (check_body (page_ok limit)) (\<lambda>_.
     ask (\<lambda>s. Inr (list_alerts (us_company_id u) unread_only limit offset s))))"

definition ack_alert_route :: "auth_env \<Rightarrow> http_in \<Rightarrow> ident \<Rightarrow> (alert \<times> notice list) req" where
  "ack_alert_route auth rq alert_id =
     bind_q (serve (get_current_user auth rq)) (\<lambda>u.
     bind_q (serve (acknowledge_alert alert_id (us_company_id u))) (\<lambda>found.
     case found of
       None \<Rightarrow> raise_q (HTTPException 404 ''Alert not found'')
     | Some a \<Rightarrow>
         bind_q commit (\<lambda>_.
         return_q (a, [(us_company_id u, ''alert.acknowledged'', [(''alert_id'', PStr (str_nat alert_id))])]))))"

definition trigger_alert_check_route :: "auth_env \<Rightarrow> alert_config \<Rightarrow> http_in \<Rightarrow> (alert list \<times> notice list) req" where
  "trigger_alert_check_route auth cfg rq =
     bind_q (serve (require_admin auth rq)) (\<lambda>u.
     bind_q (serve (check_company_alerts cfg (us_company_id u))) (\<lambda>new_alerts.
     bind_q commit (\<lambda>_.
     return_q (new_alerts, if new_alerts = [] then []
       else [(us_company_id u, ''alert.created'', [(''count'', PNum (flt_of_int (int (length new_alerts))))])]))))"

definition list_audit_logs_route ::
    "auth_env \<Rightarrow> http_in \<Rightarrow> log_filter \<Rightarrow> nat \<Rightarrow> nat \<Rightarrow> (audit_log_out list \<times> nat) req" where
  "list_audit_logs_route auth rq flt limit offset =
     bind_q (serve (require_admin auth rq)) (\<lambda>u.
     bind_q (check_body (page_ok limit)) (\<lambda>_.
     ask (\<lambda>s. case list_logs (us_company_id u) flt limit offset s of
       (items, n) \<Rightarrow> bind_r (mapM_r audit_log_out_of items) (\<lambda>outs. Inr (outs, n)))))"

text \<open>\<open>ORDER BY year DESC, industry\<close> in the collation of the database\<close>

definition list_benchmarks ::
    "(string \<Rightarrow> string \<Rightarrow> bool) \<Rightarrow> string option \<Rightarrow> string option \<Rightarrow> int option \<Rightarrow> nat \<Rightarrow> nat \<Rightarrow> db \<Rightarrow> industry_benchmark list \<times> nat" where
  "list_benchmarks collation industry region year limit offset s =
     (let rows = filter_benchmarks industry region year s
      in (paginate limit offset (sort_by (\<lambda>a b. ib_year b < ib_year a \<or>
            ib_year a = ib_year b \<and> collation (ib_industry a) (ib_industry b)) rows), length rows))"

definition list_benchmarks_route ::
    "auth_env \<Rightarrow> (string \<Rightarrow> string \<Rightarrow> bool) \<Rightarrow> http_in \<Rightarrow> string option \<Rightarrow> string option \<Rightarrow> int option \<Rightarrow> nat \<Rightarrow> nat \<Rightarrow>
      (industry_benchmark list \<times> nat) req" where
  "list_benchmarks_route auth collation rq industry region year limit offset =
     bind_q (serve (get_current_user auth rq)) (\<lambda>u.
     bind_q (check_body (page_ok limit)) (\<lambda>_.
     ask (\<lambda>s. Inr (list_benchmarks collation industry region year limit offset s))))"

definition compare_to_industry_route :: "auth_env \<Rightarrow> http_in \<Rightarrow> ident \<Rightarrow> comparison req" where
  "compare_to_industry_route auth rq report_id =
     bind_q (serve (get_current_user auth rq)) (\<lambda>u.
     rethrow service_error (ask (compare_to_industry report_id (us_company_id u))))"

section \<open>Predictions and recommendations\<close>

record prediction_request =
  pq_known_data :: pydict
  pq_industry :: "string option"
  pq_region :: "string option"

definition predict :: "industry_data \<Rightarrow> ml_model option \<Rightarrow> ident \<Rightarrow> prediction_request \<Rightarrow> db \<Rightarrow> prediction res" where
  "predict inds model c body s =
     bind_r (get_company_row c s) (\<lambda>co.
     predict_missing_emissions inds model (pq_known_data body)
       (case pq_industry body of Some i \<Rightarrow> if i = [] then co_industry co else i | None \<Rightarrow> co_industry co)
       (case pq_region body of Some r \<Rightarrow> if r = [] then co_region co else r | None \<Rightarrow> co_region co))"

definition predict_route ::
    "auth_env \<Rightarrow> industry_data \<Rightarrow> ml_model option \<Rightarrow> http_in \<Rightarrow> prediction_request \<Rightarrow> prediction req" where
  "predict_route auth inds model rq body =
     bind_q (serve (get_current_user auth rq)) (\<lambda>u. ask (predict inds model (us_company_id u) body))"

text \<open>The four figures of a report by name\<close>

definition report_emissions :: "emission_report \<Rightarrow> (string, flt) dict" where
  "report_emissions r = [(''scope1'', er_scope1 r), (''scope2'', er_scope2 r), (''scope3'', er_scope3 r), (''total'', er_total r)]"

definition recommendations :: "ident \<Rightarrow> ident \<Rightarrow> db \<Rightarrow> (recommendation list \<times> reduction_summary) res" where
  "recommendations report_id c s =
     bind_r (get_report report_id c s) (\<lambda>report.
     bind_r (get_company_row c s) (\<lambda>co.
     bind_r (generate_recommendations (report_emissions report) (er_breakdown report)) (\<lambda>recs.
     Inr (recs, summarize_reduction_potential recs (er_total report)))))"

definition get_recommendations_route ::
    "auth_env \<Rightarrow> http_in \<Rightarrow> ident \<Rightarrow> (recommendation list \<times> reduction_summary) req" where
  "get_recommendations_route auth rq report_id =
     bind_q (serve (get_current_user auth rq)) (\<lambda>u.
     rethrow service_error (ask (recommendations report_id (us_company_id u))))"

end
