(* ===== verification/Compliance.thy ===== *)
theory Compliance
imports Company_Routes
begin

text \<open>
  \<open>api/services/compliance.py\<close> and \<open>api/routes/compliance_routes.py\<close>: the reports of the seven frameworks.
  A report is the JSON value the route replies with, with \<open>True\<close> as 1 and plain dashes. The powers of a
  pathway (\<open>float ** int\<close>) are those of the C library, a parameter; so are the text of a remark, which
  formats numbers, and the text of a time.
\<close>

text \<open>\<open>breakdown.get(k, {})\<close>, used as a dictionary\<close>

definition detail_of :: "pydict \<Rightarrow> string \<Rightarrow> pydict res" where
  "detail_of breakdown k = (case dict_get breakdown k (PDict []) of PDict d \<Rightarrow> Inr d | _ \<Rightarrow> Inl AttributeError)"

definition or_empty :: "'a list option \<Rightarrow> 'a list" where
  "or_empty x = (case x of None \<Rightarrow> [] | Some l \<Rightarrow> l)"

section \<open>The categories of scope 3\<close>

definition cat_map :: "(nat \<times> string \<times> string) list" where
  "cat_map =
     [(1, ''Purchased goods and services'', ''cat1_purchased_goods''),
      (2, ''Capital goods'', ''cat2_capital_goods''),
      (3, ''Fuel- and energy-related activities'', ''cat3_fuel_energy''),
      (4, ''Upstream transportation and distribution'', ''cat4_upstream_transport''),
      (5, ''Waste generated in operations'', ''cat5_waste''),
      (6, ''Business travel'', ''cat6_business_travel''),
      (7, ''Employee commuting'', ''cat7_commuting''),
      (8, ''Upstream leased assets'', ''cat8_leased_assets''),
      (9, ''Downstream transportation and distribution'', ''cat9_downstream_transport''),
      (10, ''Processing of sold products'', ''cat10_processing''),
      (11, ''Use of sold products'', ''cat11_use_products''),
      (12, ''End-of-life treatment of sold products'', ''cat12_end_of_life''),
      (13, ''Downstream leased assets'', ''cat13_downstream_leased''),
      (14, ''Franchises'', ''cat14_franchises''),
      (15, ''Investments'', ''cat15_investments'')]"

definition activity_keys :: "string list" where
  "activity_keys = [''cat1_purchased_goods'', ''cat4_upstream_transport'', ''cat5_waste'', ''cat6_business_travel'', ''cat7_commuting'']"

record scope3_category =
  ct_number :: nat
  ct_name :: string
  ct_tco2e :: flt
  ct_method :: string
  ct_relevant :: bool

text \<open>The three assignments of \<open>method\<close>, in their order\<close>

definition category_method :: "pydict \<Rightarrow> string \<Rightarrow> flt \<Rightarrow> string" where
  "category_method s3_detail key value =
     (let present = map_of s3_detail key \<noteq> None;
          method = (if 0 < value \<and> present then ''Activity-based'' else ''Not estimated'');
          method = (if \<not> present \<and> 0 < value then ''Industry-default'' else method);
          default_keys = filter (\<lambda>k. starts_with ''cat'' k \<and> k \<notin> set activity_keys) (dict_keys s3_detail)
      in if key \<in> set default_keys then ''Industry-default'' else method)"

definition scope3_category_of :: "pydict \<Rightarrow> nat \<times> string \<times> string \<Rightarrow> scope3_category res" where
  "scope3_category_of s3_detail c =
     (case c of (num, name, key) \<Rightarrow>
        bind_r (get_num s3_detail key) (\<lambda>value.
        Inr \<lparr>ct_number = num, ct_name = name, ct_tco2e = py_round value 2,
          ct_method = category_method s3_detail key value, ct_relevant = 0 < value\<rparr>))"

definition build_scope3_categories :: "pydict \<Rightarrow> scope3_category list res" where
  "build_scope3_categories s3_detail = mapM_r (scope3_category_of s3_detail) cat_map"

definition category_value :: "scope3_category \<Rightarrow> pyval" where
  "category_value c = PDict
     [(''category_number'', PNum (flt_of_int (int (ct_number c)))), (''category_name'', PStr (ct_name c)),
      (''tco2e'', PNum (ct_tco2e c)), (''method'', PStr (ct_method c)), (''relevant'', PNum (if ct_relevant c then 1 else 0))]"

section \<open>Inventory, questionnaire and disclosure\<close>

record compliance_env =
  ce_pow :: "flt \<Rightarrow> nat \<Rightarrow> flt"
  ce_text :: "remark \<Rightarrow> string"
  ce_isoformat :: "timestamp \<Rightarrow> string"

text \<open>\<open>sources or []\<close>\<close>

definition remarks_value :: "compliance_env \<Rightarrow> remark list option \<Rightarrow> pyval" where
  "remarks_value env rs = PList (map (\<lambda>x. PStr (ce_text env x)) (or_empty rs))"

definition num_of_year :: "int \<Rightarrow> pyval" where
  "num_of_year y = PNum (flt_of_int y)"

definition reporting_period :: "int \<Rightarrow> pyval" where
  "reporting_period year = PStr (str_int year @ ''-01-01 to '' @ str_int year @ ''-12-31'')"

text \<open>\<open>a + b\<close>\<close>

fun py_add :: "pyval \<Rightarrow> pyval \<Rightarrow> pyval res" where
  "py_add (PNum x) (PNum y) = Inr (PNum (x + y))"
| "py_add (PStr x) (PStr y) = Inr (PStr (x @ y))"
| "py_add (PList x) (PList y) = Inr (PList (x @ y))"
| "py_add _ _ = Inl TypeError"

definition generate_ghg_inventory :: "compliance_env \<Rightarrow> string \<Rightarrow> company \<Rightarrow> emission_report \<Rightarrow> pydict res" where
  "generate_ghg_inventory env generated_at co r =
     bind_r (detail_of (or_empty (er_breakdown r)) ''scope2_detail'') (\<lambda>s2_detail.
     bind_r (detail_of (or_empty (er_breakdown r)) ''scope1_detail'') (\<lambda>s1_detail.
     bind_r (py_add (dict_get s1_detail ''stationary_combustion'' (PNum 0)) (dict_get s1_detail ''natural_gas'' (PNum 0))) (\<lambda>stationary.
     bind_r (detail_of (or_empty (er_breakdown r)) ''scope3_detail'') (\<lambda>s3_detail.
     bind_r (build_scope3_categories s3_detail) (\<lambda>categories.
     Inr
      [(''framework'', PStr ''GHG Protocol Corporate Standard''), (''version'', PStr ''Revised Edition (2004, updated 2015)''),
       (''generated_at'', PStr generated_at), (''reporting_period'', reporting_period (er_year r)),
       (''organization'', PDict
         [(''name'', PStr (co_name co)), (''industry_sector'', PStr (co_industry co)), (''region'', PStr (co_region co))]),
       (''organizational_boundary'', PDict
         [(''approach'', PStr ''Operational Control''),
          (''description'', PStr (co_name co @ '' reports GHG emissions from all operations under its operational control.''))]),
       (''emissions_summary'', PDict
         [(''total_tco2e'', PNum (er_total r)), (''scope1_tco2e'', PNum (er_scope1 r)),
          (''scope2_location_tco2e'', dict_get s2_detail ''location_based'' (PNum (er_scope2 r))),
          (''scope2_market_tco2e'', dict_get s2_detail ''market_based'' (PNum (er_scope2 r))), (''scope3_tco2e'', PNum (er_scope3 r)),
          (''unit'', PStr ''metric tonnes of CO2 equivalent (tCO2e)''), (''gwp_source'', PStr ''IPCC AR6''),
          (''gases_included'', PList
            [PStr ''CO2'',
             PStr ''CH4'',
             PStr ''N2O'',
             PStr ''HFCs''])]),
       (''scope1_detail'', PDict
         [(''stationary_combustion'', stationary), (''mobile_combustion'', dict_get s1_detail ''mobile_combustion'' (PNum 0)),
          (''fugitive_emissions'', dict_get s1_detail ''fugitive_emissions'' (PNum 0)), (''process_emissions'', PNum 0)]),
       (''scope2_detail'', PDict
         [(''location_based_method'', dict_get s2_detail ''location_based'' (PNum (er_scope2 r))),
          (''market_based_method'', dict_get s2_detail ''market_based'' (PNum (er_scope2 r))), (''grid_region'', PStr (co_region co))]),
       (''scope3_categories'', PList (map category_value categories)),
       (''data_quality'', PDict
         [(''confidence_score'', PNum (er_confidence r)), (''data_sources'', remarks_value env (er_sources r)),
          (''assumptions'', remarks_value env (er_assumptions r)),
          (''verification_status'', PStr (if er_confidence r < lit (4/5) then ''Self-assessed'' else ''Ready for third-party verification''))]),
       (''methodology_notes'', PList
         [PStr ''Emission factors sourced from EPA, eGRID, IEA, and DEFRA databases.'',
          PStr ''Scope 3 categories without primary data estimated using industry benchmarks.'',
          PStr ''GWP values from IPCC Sixth Assessment Report (AR6).''])])))))"

text \<open>\<open>round(x / max(total, 1) * 100, 1)\<close>\<close>

definition scope_pct :: "flt \<Rightarrow> flt \<Rightarrow> flt" where
  "scope_pct x total_emissions = py_round (x / py_max total_emissions 1 * Fin 100) 1"

definition generate_cdp_responses :: "string \<Rightarrow> company \<Rightarrow> emission_report \<Rightarrow> pydict res" where
  "generate_cdp_responses generated_at co r =
     bind_r (detail_of (or_empty (er_breakdown r)) ''scope2_detail'') (\<lambda>s2_detail.
     Inr
      [(''framework'', PStr ''CDP Climate Change Questionnaire''), (''reporting_year'', num_of_year (er_year r)),
       (''generated_at'', PStr generated_at),
       (''modules'', PDict
         [(''C0_introduction'', PDict
            [(''C0.1'', PStr (co_name co)),
             (''C0.2'', PStr (''Reporting period: '' @ str_int (er_year r) @ ''-01-01 to '' @ str_int (er_year r) @ ''-12-31'')),
             (''C0.3'', PStr ''Operational control'')]),
          (''C1_governance'', PDict
            [(''C1.1'', PStr ''Yes - Board-level oversight of climate-related issues''),
             (''C1.2'', PStr ''Climate risk is integrated into overall risk management'')]),
          (''C4_targets'', PDict
            [(''C4.1'', PStr ''Absolute emissions reduction target''),
             (''C4.1a'', PDict
               [(''base_year'', num_of_year (er_year r)), (''base_year_emissions'', PNum (er_total r)),
                (''target_year'', num_of_year (er_year r + 5)), (''target_reduction_pct'', PNum (Fin 30)),
                (''target_emissions'', PNum (py_round (er_total r * lit (7/10)) 2))])]),
          (''C6_emissions'', PDict
            [(''C6.1_scope1'', PNum (er_scope1 r)),
             (''C6.3_scope2_location'', dict_get s2_detail ''location_based'' (PNum (er_scope2 r))),
             (''C6.3_scope2_market'', dict_get s2_detail ''market_based'' (PNum (er_scope2 r))),
             (''C6.5_scope3'', PNum (er_scope3 r)), (''C6.10_methodology'', PStr ''GHG Protocol Corporate Standard''),
             (''C6.10_gwp_source'', PStr ''IPCC AR6'')]),
          (''C7_emissions_breakdown'', PDict
            [(''by_scope'', PDict
               [(''scope1_pct'', PNum (scope_pct (er_scope1 r) (er_total r))),
                (''scope2_pct'', PNum (scope_pct (er_scope2 r) (er_total r))),
                (''scope3_pct'', PNum (scope_pct (er_scope3 r) (er_total r)))])])])])"

definition first_titles :: "recommendation list \<Rightarrow> pyval" where
  "first_titles recs = PList (map (PStr \<circ> st_title \<circ> rc_strategy) (take 5 recs))"

definition generate_tcfd_disclosure :: "string \<Rightarrow> emission_report \<Rightarrow> recommendation list \<Rightarrow> pydict" where
  "generate_tcfd_disclosure generated_at r recs =
     [(''framework'', PStr ''Task Force on Climate-related Financial Disclosures (TCFD)''),
      (''reporting_year'', num_of_year (er_year r)), (''generated_at'', PStr generated_at),
      (''pillars'', PDict
        [(''governance'', PDict
           [(''description'', PStr ''Board oversight and management role in climate-related risks and opportunities.''),
            (''board_oversight'', PStr ''The Board receives quarterly updates on climate-related performance and risks.''),
            (''management_role'', PStr ''A dedicated sustainability team monitors emissions and implements reduction strategies.'')]),
         (''strategy'', PDict
           [(''description'', PStr ''Climate-related risks and opportunities impact on strategy and financial planning.''),
            (''risks'', PList
              [PDict
                [(''type'', PStr ''Transition''), (''risk'', PStr ''Carbon pricing / emissions trading''),
                 (''impact'', PStr ''Potential cost increase of $10-50 per tCO2e on Scope 1 emissions''),
                 (''time_horizon'', PStr ''Medium-term (2-5 years)'')],
               PDict
                [(''type'', PStr ''Physical''), (''risk'', PStr ''Extreme weather events disrupting operations''),
                 (''impact'', PStr ''Supply chain disruptions, facility damage''), (''time_horizon'', PStr ''Long-term (5+ years)'')]]),
            (''opportunities'', PList
              [PDict
                [(''type'', PStr ''Resource efficiency''), (''description'', PStr ''Energy efficiency improvements reducing costs''),
                 (''financial_impact'', PStr ''Potential 10-25% reduction in energy costs'')],
               PDict
                [(''type'', PStr ''Market''), (''description'', PStr ''Growing demand for low-carbon products and services''),
                 (''financial_impact'', PStr ''Revenue growth from sustainable offerings'')]])]),
         (''risk_management'', PDict
           [(''description'', PStr ''Processes for identifying, assessing, and managing climate risks.''),
            (''process'', PStr ''Climate risk assessment integrated into enterprise risk management framework.''),
            (''integration'', PStr ''Climate metrics included in operational KPIs and investment decisions.'')]),
         (''metrics_and_targets'', PDict
           [(''emissions'', PDict
              [(''scope1_tco2e'', PNum (er_scope1 r)), (''scope2_tco2e'', PNum (er_scope2 r)), (''scope3_tco2e'', PNum (er_scope3 r)),
               (''total_tco2e'', PNum (er_total r))]),
            (''intensity_metrics'', PDict
              [(''note'', PStr ''Revenue-normalized and employee-normalized intensities available via dashboard.'')]),
            (''targets'', PDict
              [(''short_term'', PStr (''Reduce absolute emissions 15% by '' @ str_int (er_year r + 3))),
               (''medium_term'', PStr (''Reduce absolute emissions 30% by '' @ str_int (er_year r + 5))),
               (''long_term'', PStr (''Achieve net-zero by '' @ str_int (er_year r + 25))),
               (''science_based'', PStr (''Aligned with 1.5'' @ [CHR 0xB0] @ ''C pathway (SBTi)''))]),
            (''key_reduction_strategies'', first_titles recs)])])]"

section \<open>The pathway\<close>

definition s12_annual_reduction :: flt where
  "s12_annual_reduction = lit (42/1000)"

definition s3_annual_reduction :: flt where
  "s3_annual_reduction = lit (25/1000)"

definition projected :: "(flt \<Rightarrow> nat \<Rightarrow> flt) \<Rightarrow> flt \<Rightarrow> flt \<Rightarrow> nat \<Rightarrow> flt" where
  "projected pow base reduction i = base * pow (1 - reduction) i"

record pathway_point =
  pw_year :: int
  pw_scope1_2 :: flt
  pw_scope3 :: flt
  pw_total :: flt

definition pathway_point_of :: "(flt \<Rightarrow> nat \<Rightarrow> flt) \<Rightarrow> emission_report \<Rightarrow> nat \<Rightarrow> pathway_point" where
  "pathway_point_of pow r i =
     (let s12 = projected pow (er_scope1 r + er_scope2 r) s12_annual_reduction i;
          s3 = projected pow (er_scope3 r) s3_annual_reduction i
      in \<lparr>pw_year = er_year r + int i, pw_scope1_2 = py_round s12 1, pw_scope3 = py_round s3 1, pw_total = py_round (s12 + s3) 1\<rparr>)"

definition sbti_pathway :: "(flt \<Rightarrow> nat \<Rightarrow> flt) \<Rightarrow> emission_report \<Rightarrow> pathway_point list" where
  "sbti_pathway pow r = map (pathway_point_of pow r) [0..<11]"

definition pathway_value :: "pathway_point \<Rightarrow> pyval" where
  "pathway_value p = PDict
     [(''year'', num_of_year (pw_year p)), (''scope1_2_tco2e'', PNum (pw_scope1_2 p)), (''scope3_tco2e'', PNum (pw_scope3 p)),
      (''total_tco2e'', PNum (pw_total p))]"

definition generate_sbti_pathway :: "(flt \<Rightarrow> nat \<Rightarrow> flt) \<Rightarrow> string \<Rightarrow> emission_report \<Rightarrow> pydict" where
  "generate_sbti_pathway pow generated_at r =
     [(''framework'', PStr ''Science Based Targets initiative (SBTi)''), (''base_year'', num_of_year (er_year r)),
      (''generated_at'', PStr generated_at),
      (''baseline'', PDict
        [(''scope1_tco2e'', PNum (er_scope1 r)), (''scope2_tco2e'', PNum (er_scope2 r)), (''scope3_tco2e'', PNum (er_scope3 r)),
         (''total_tco2e'', PNum (er_total r))]),
      (''target'', PDict
        [(''ambition'', PStr (''1.5'' @ [CHR 0xB0] @ ''C aligned'')),
         (''scope1_2_annual_reduction_pct'', PNum (s12_annual_reduction * Fin 100)),
         (''scope3_annual_reduction_pct'', PNum (s3_annual_reduction * Fin 100)), (''target_year'', num_of_year (er_year r + 10)),
         (''scope1_2_target_tco2e'', PNum (py_round (projected pow (er_scope1 r + er_scope2 r) s12_annual_reduction 10) 1)),
         (''scope3_target_tco2e'', PNum (py_round (projected pow (er_scope3 r) s3_annual_reduction 10) 1))]),
      (''pathway'', PList (map pathway_value (sbti_pathway pow r))),
      (''notes'', PList
        [PStr (''Scope 1+2: 4.2% annual absolute reduction (1.5'' @ [CHR 0xB0] @ ''C pathway, SBTi corporate manual v2.1).''),
         PStr ''Scope 3: 2.5% annual absolute reduction (SBTi Scope 3 minimum ambition).'',
         PStr ''Pathway assumes linear year-over-year reductions from the base year.''])]"

section \<open>Intensities\<close>

text \<open>\<open>if revenue_usd and revenue_usd > 0\<close> and the same for the employees\<close>

definition revenue_intensity :: "company \<Rightarrow> emission_report \<Rightarrow> flt option res" where
  "revenue_intensity co r =
     (case co_revenue_usd co of
        None \<Rightarrow> Inr None
      | Some x \<Rightarrow>
          if 0 < x then bind_r (py_div (er_total r) (x / Fin 1000000)) (\<lambda>v. Inr (Some (py_round v 2))) else Inr None)"

definition employee_intensity :: "company \<Rightarrow> emission_report \<Rightarrow> flt option" where
  "employee_intensity co r =
     (case co_employee_count co of
        None \<Rightarrow> None
      | Some n \<Rightarrow> if 0 < n then Some (py_round (er_total r / flt_of_int n) 2) else None)"

definition opt_item :: "string \<Rightarrow> flt option \<Rightarrow> pydict" where
  "opt_item k v = (case v of None \<Rightarrow> [] | Some x \<Rightarrow> [(k, PNum x)])"

definition generate_csrd_report :: "compliance_env \<Rightarrow> string \<Rightarrow> company \<Rightarrow> emission_report \<Rightarrow> pydict res" where
  "generate_csrd_report env generated_at co r =
     (let breakdown = or_empty (er_breakdown r)
      in bind_r (revenue_intensity co r) (\<lambda>per_revenue.
         bind_r (detail_of breakdown ''scope2_detail'') (\<lambda>s2_detail.
         bind_r (detail_of breakdown ''scope3_detail'') (\<lambda>s3_detail.
         bind_r (build_scope3_categories s3_detail) (\<lambda>categories.
         let intensity = opt_item ''tco2e_per_million_revenue'' per_revenue @ opt_item ''tco2e_per_employee'' (employee_intensity co r)
         in Inr
      [(''framework'', PStr ''CSRD - ESRS E1 Climate Change''), (''version'', PStr ''ESRS Set 1 (Delegated Act 2023/2772)''),
       (''generated_at'', PStr generated_at), (''reporting_period'', reporting_period (er_year r)),
       (''organization'', PDict
         [(''name'', PStr (co_name co)), (''industry_sector'', PStr (co_industry co)), (''region'', PStr (co_region co))]),
       (''E1_1_transition_plan'', PDict
         [(''has_transition_plan'', PNum 1),
          (''description'', PStr (co_name co @ '' is committed to reducing GHG emissions in line with the Paris Agreement 1.5'' @ [CHR 0xB0] @ ''C target. A phased decarbonisation plan covers energy transition, supply chain engagement, and operational efficiency.'')),
          (''alignment'', PStr (''Paris Agreement 1.5'' @ [CHR 0xB0] @ ''C''))]),
       (''E1_4_targets'', PDict
         [(''target_type'', PStr ''Absolute GHG emission reduction''), (''base_year'', num_of_year (er_year r)),
          (''base_year_emissions_tco2e'', PNum (er_total r)),
          (''short_term_target'', PDict
            [(''year'', num_of_year (er_year r + 5)), (''reduction_pct'', PNum (Fin 30)),
             (''target_tco2e'', PNum (py_round (er_total r * lit (7/10)) 1))]),
          (''long_term_target'', PDict
            [(''year'', num_of_year (er_year r + 25)), (''reduction_pct'', PNum (Fin 90)),
             (''target_tco2e'', PNum (py_round (er_total r * lit (1/10)) 1)), (''net_zero_year'', num_of_year (er_year r + 25))])]),
       (''E1_6_gross_ghg_emissions'', PDict
         [(''scope1_tco2e'', PNum (er_scope1 r)),
          (''scope2_location_tco2e'', dict_get s2_detail ''location_based'' (PNum (er_scope2 r))),
          (''scope2_market_tco2e'', dict_get s2_detail ''market_based'' (PNum (er_scope2 r))), (''scope3_tco2e'', PNum (er_scope3 r)),
          (''total_tco2e'', PNum (er_total r)), (''gwp_source'', PStr ''IPCC AR6''),
          (''consolidation_approach'', PStr ''Operational Control'')]),
       (''E1_7_ghg_removals_and_offsets'', PDict
         [(''carbon_removals_tco2e'', PNum 0), (''carbon_credits_retired_tco2e'', PNum 0),
          (''note'', PStr ''No offsets claimed - gross figures reported.'')]),
       (''E1_8_internal_carbon_pricing'', PDict
         [(''has_internal_carbon_price'', PNum 0), (''price_per_tco2e'', PNone),
          (''note'', PStr ''Internal carbon pricing under evaluation.'')]),
       (''E1_9_energy'', PDict
         [(''total_energy_mwh'', dict_get breakdown ''total_energy_mwh'' PNone),
          (''renewable_share_pct'', dict_get breakdown ''renewable_share_pct'' PNone),
          (''note'', PStr ''Detailed energy breakdown available in operational data.'')]),
       (''intensity_metrics'', PDict intensity), (''scope3_categories'', PList (map category_value categories)),
       (''data_quality'', PDict
         [(''confidence_score'', PNum (er_confidence r)), (''data_sources'', remarks_value env (er_sources r)),
          (''assumptions'', remarks_value env (er_assumptions r)),
          (''external_assurance'', PStr (if lit (4/5) \<le> er_confidence r then ''Limited'' else ''Not yet assured''))])])))))"

definition metric_value :: "string \<times> pyval \<Rightarrow> pyval" where
  "metric_value m = PDict [(''metric'', PStr (fst m)), (''value'', snd m)]"

definition generate_issb_report :: "compliance_env \<Rightarrow> string \<Rightarrow> company \<Rightarrow> emission_report \<Rightarrow> recommendation list \<Rightarrow> pydict res" where
  "generate_issb_report env generated_at co r recs =
     bind_r (detail_of (or_empty (er_breakdown r)) ''scope2_detail'') (\<lambda>s2_detail.
     bind_r (revenue_intensity co r) (\<lambda>per_revenue.
     let metrics = map metric_value
              ([(''Scope 1 GHG emissions (tCO2e)'', PNum (er_scope1 r)),
                (''Scope 2 GHG emissions - location-based (tCO2e)'', dict_get s2_detail ''location_based'' (PNum (er_scope2 r))),
                (''Scope 2 GHG emissions - market-based (tCO2e)'', dict_get s2_detail ''market_based'' (PNum (er_scope2 r))),
                (''Scope 3 GHG emissions (tCO2e)'', PNum (er_scope3 r)),
                (''Total GHG emissions (tCO2e)'', PNum (er_total r))] @
               opt_item ''GHG intensity - per $M revenue (tCO2e/$M)'' per_revenue @
               opt_item ''GHG intensity - per employee (tCO2e/FTE)'' (employee_intensity co r))
     in Inr
      [(''framework'', PStr ''IFRS S2 Climate-related Disclosures''), (''version'', PStr ''ISSB Standards (June 2023)''),
       (''generated_at'', PStr generated_at), (''reporting_period'', reporting_period (er_year r)),
       (''organization'', PDict
         [(''name'', PStr (co_name co)), (''industry_sector'', PStr (co_industry co)), (''region'', PStr (co_region co))]),
       (''governance'', PDict
         [(''paragraph_6'', PStr ''The Board maintains oversight of climate-related risks and opportunities through quarterly sustainability committee reviews.''),
          (''paragraph_7'', PStr ''Management responsibility for climate matters is assigned to the Chief Sustainability Officer, who reports directly to the CEO.'')]),
       (''strategy'', PDict
         [(''paragraph_10_risks_and_opportunities'', PList
            [PDict
              [(''type'', PStr ''Transition risk''), (''description'', PStr ''Increased carbon pricing or emissions regulation''),
               (''time_horizon'', PStr ''Medium-term (2-5 years)''),
               (''financial_impact'', PStr ''Potential increase in operating costs'')],
             PDict
              [(''type'', PStr ''Physical risk''),
               (''description'', PStr ''Acute weather events disrupting operations or supply chain''),
               (''time_horizon'', PStr ''Long-term (5+ years)''),
               (''financial_impact'', PStr ''Asset impairment and business interruption costs'')],
             PDict
              [(''type'', PStr ''Opportunity''), (''description'', PStr ''Revenue growth from low-carbon products and services''),
               (''time_horizon'', PStr ''Short-term (0-2 years)''),
               (''financial_impact'', PStr ''Incremental revenue from sustainability offerings'')]]),
          (''paragraph_14_transition_plan'', PDict
            [(''has_plan'', PNum 1), (''alignment'', PStr (''Paris Agreement 1.5'' @ [CHR 0xB0] @ ''C pathway'')),
             (''key_actions'', first_titles recs)])]),
       (''risk_management'', PDict
         [(''paragraph_25'', PStr ''Climate-related risks are identified through an annual risk assessment covering transition, physical, and regulatory axes.''),
          (''paragraph_26_integration'', PStr ''Climate risk is embedded in the enterprise risk management framework.'')]),
       (''metrics_and_targets'', PDict
         [(''paragraph_29_cross_industry_metrics'', PList metrics),
          (''paragraph_33_targets'', PDict
            [(''target_type'', PStr ''Absolute emission reduction''), (''base_year'', num_of_year (er_year r)),
             (''target_year'', num_of_year (er_year r + 10)), (''reduction_pct'', PNum (Fin 42)),
             (''methodology'', PStr (''SBTi 1.5'' @ [CHR 0xB0] @ ''C pathway''))]),
          (''ghg_measurement_approach'', PDict
            [(''standard'', PStr ''GHG Protocol Corporate Standard''), (''gwp_source'', PStr ''IPCC AR6''),
             (''consolidation'', PStr ''Operational Control'')])]),
       (''data_quality'', PDict
         [(''confidence_score'', PNum (er_confidence r)), (''data_sources'', remarks_value env (er_sources r))])]))"

definition secr_intensity :: "flt option \<Rightarrow> pydict" where
  "secr_intensity per_revenue =
     (''chosen_metric'', PStr (''tCO2e per '' @ [CHR 0xA3] @ ''M turnover'')) #
     (case per_revenue of
        Some x \<Rightarrow> [(''value'', PNum x), (''unit'', PStr ''tCO2e per $M revenue (USD equivalent)'')]
      | None \<Rightarrow> [(''value'', PNone), (''note'', PStr ''Revenue data required for intensity ratio calculation.'')])"

definition generate_secr_report :: "compliance_env \<Rightarrow> string \<Rightarrow> company \<Rightarrow> emission_report \<Rightarrow> pydict res" where
  "generate_secr_report env generated_at co r =
     (let breakdown = or_empty (er_breakdown r)
      in bind_r (revenue_intensity co r) (\<lambda>per_revenue.
         bind_r (detail_of breakdown ''scope2_detail'') (\<lambda>s2_detail.
         Inr
      [(''framework'', PStr ''UK Streamlined Energy and Carbon Reporting (SECR)''),
       (''version'', PStr ''Companies (Directors' Report) Regulations 2018, Schedule 7''), (''generated_at'', PStr generated_at),
       (''reporting_period'', PStr (''01 April '' @ str_int (er_year r) @ '' to 31 March '' @ str_int (er_year r + 1))),
       (''organization'', PDict
         [(''name'', PStr (co_name co)), (''industry_sector'', PStr (co_industry co)), (''region'', PStr (co_region co))]),
       (''uk_ghg_emissions'', PDict
         [(''scope1_tco2e'', PNum (er_scope1 r)),
          (''scope2_location_tco2e'', dict_get s2_detail ''location_based'' (PNum (er_scope2 r))),
          (''total_scope1_and_2_tco2e'', PNum (py_round (er_scope1 r + er_scope2 r) 2)),
          (''scope3_tco2e_voluntary'', PNum (er_scope3 r)), (''global_total_tco2e'', PNum (er_total r))]),
       (''energy_consumption'', PDict
         [(''total_kwh'', dict_get breakdown ''total_energy_kwh'' PNone),
          (''electricity_kwh'', dict_get breakdown ''electricity_kwh'' PNone), (''gas_kwh'', dict_get breakdown ''gas_kwh'' PNone),
          (''transport_kwh'', dict_get breakdown ''transport_kwh'' PNone),
          (''note'', PStr ''Detailed energy split reported where metered data is available.'')]),
       (''intensity_ratio'', PDict (secr_intensity per_revenue)),
       (''methodology'', PDict
         [(''standard'', PStr ''GHG Protocol Corporate Standard''),
          (''emission_factors'', PStr ''UK DEFRA / BEIS Conversion Factors''), (''gwp_source'', PStr ''IPCC AR6''),
          (''boundary'', PStr ''Operational Control'')]),
       (''energy_efficiency_narrative'', PStr (co_name co @ '' is actively pursuing energy efficiency improvements including LED lighting upgrades, HVAC optimisation, and procurement of renewable electricity certificates.'')),
       (''data_quality'', PDict
         [(''confidence_score'', PNum (er_confidence r)), (''data_sources'', remarks_value env (er_sources r))])])))"

section \<open>The route\<close>

definition generate_report :: "compliance_env \<Rightarrow> string \<Rightarrow> string \<Rightarrow> company \<Rightarrow> emission_report \<Rightarrow> pydict res" where
  "generate_report env now framework co r =
     (let recs = generate_recommendations (report_emissions r) (er_breakdown r)
      in if framework = ''ghg_protocol'' then generate_ghg_inventory env now co r
         else if framework = ''cdp'' then generate_cdp_responses now co r
         else if framework = ''tcfd'' then bind_r recs (\<lambda>recs. Inr (generate_tcfd_disclosure now r recs))
         else if framework = ''sbti'' then Inr (generate_sbti_pathway (ce_pow env) now r)
         else if framework = ''csrd'' then generate_csrd_report env now co r
         else if framework = ''issb'' then bind_r recs (generate_issb_report env now co r)
         else if framework = ''secr'' then generate_secr_report env now co r
         else Inl (HTTPException 400 ''Unknown framework''))"

definition create_compliance_report ::
    "auth_env \<Rightarrow> compliance_env \<Rightarrow> http_in \<Rightarrow> ident \<Rightarrow> string \<Rightarrow> pydict req" where
  "create_compliance_report auth env rq report_id framework =
     bind_q (serve (require_credits auth rq ''estimate'')) (\<lambda>u.
     bind_q (check_body (framework \<in> set frameworks)) (\<lambda>_.
     bind_q (ask (find_report report_id (us_company_id u))) (\<lambda>found.
     case found of
       None \<Rightarrow> raise_q (HTTPException 404 ''Report not found'')
     | Some r \<Rightarrow>
         bind_q (ask (get_company_row (us_company_id u))) (\<lambda>co.
         bind_q (serve utcnow) (\<lambda>now.
         bind_q (ask (\<lambda>_. generate_report env (ce_isoformat env now) framework co r)) (\<lambda>result.
         bind_q (serve (deduct_operation_credits (us_company_id u) ''estimate'')) (\<lambda>_.
         bind_q (serve (record_audit (us_id u) (us_company_id u) ''generate'' ''compliance_report'' (Some report_id)
           (Some (''framework: '' @ framework)))) (\<lambda>_.
         bind_q commit (\<lambda>_.
         return_q result)))))))))"

end
