(* ===== verification/Billing.thy ===== *)
theory Billing
imports Deps Sessions
begin

text \<open>
  \<open>api/routes/billing_routes.py\<close> and \<open>api/routes/stripe_routes.py\<close>: the plan and the credits of a company,
  and the events of the payment provider, each handled in a session of its own. Mail is left out; the
  keyed digest and the JSON parser are parameters.
\<close>

section \<open>Billing routes\<close>

definition get_subscription :: "auth_env \<Rightarrow> http_in \<Rightarrow> subscription req" where
  "get_subscription env rq =
     bind_q (serve (get_current_user env rq)) (\<lambda>u.
     bind_q (serve (get_or_create_subscription (us_company_id u))) (\<lambda>sub.
     bind_q commit (\<lambda>_. return_q sub)))"

fun plan_name :: "subscription_plan \<Rightarrow> string" where
  "plan_name Free = ''free''"
| "plan_name Pro = ''pro''"
| "plan_name Enterprise = ''enterprise''"

text \<open>The plan in a formatted text, as the interpreter of the image (3.12) writes a member of an enumeration.\<close>

definition plan_text :: "subscription_plan \<Rightarrow> string" where
  "plan_text p = ''SubscriptionPlan.'' @ plan_name p"

definition update_subscription :: "auth_env \<Rightarrow> http_in \<Rightarrow> string \<Rightarrow> subscription req" where
  "update_subscription env rq plan =
     bind_q (serve (require_admin env rq)) (\<lambda>u.
     bind_q (check_body (plan \<in> set (map plan_name [Free, Pro, Enterprise]))) (\<lambda>_.
     rethrow (value_error_as (HTTPException 400 ''Plan change failed. Please verify your selection.''))
       (bind_q (serve (get_or_create_subscription (us_company_id u))) (\<lambda>old_sub.
        bind_q (serve (change_plan (us_company_id u) plan)) (\<lambda>sub.
        bind_q (serve (record_audit (us_id u) (us_company_id u) ''update'' ''subscription'' (Some (sub_id sub))
          (Some (''plan_change: '' @ plan_text (sub_plan old_sub) @ '' -> '' @ plan)))) (\<lambda>_.
        bind_q commit (\<lambda>_. return_q sub)))))))"

record balance_out =
  bo_company_id :: ident
  bo_balance :: int
  bo_plan :: subscription_plan

definition get_credits :: "auth_env \<Rightarrow> http_in \<Rightarrow> balance_out req" where
  "get_credits env rq =
     bind_q (serve (get_current_user env rq)) (\<lambda>u.
     bind_q (serve (get_or_create_subscription (us_company_id u))) (\<lambda>sub.
     bind_q (serve (get_credit_balance (us_company_id u))) (\<lambda>balance.
     bind_q commit (\<lambda>_.
     return_q \<lparr>bo_company_id = us_company_id u, bo_balance = balance, bo_plan = sub_plan sub\<rparr>))))"

definition list_plans :: "auth_env \<Rightarrow> http_in \<Rightarrow> (string \<times> (string, plan_limit) dict) list req" where
  "list_plans env rq =
     bind_q (serve (get_current_user env rq)) (\<lambda>u.
     return_q (map (\<lambda>p. (plan_name p, plan_limits p)) [Free, Pro, Enterprise]))"

text \<open>The schema of the body: \<open>amount\<close> above zero and at most a million.\<close>

definition grant_amount_ok :: "int \<Rightarrow> bool" where
  "grant_amount_ok amount \<longleftrightarrow> 0 < amount \<and> amount \<le> 1000000"

definition admin_grant_credits :: "auth_env \<Rightarrow> http_in \<Rightarrow> int \<Rightarrow> balance_out req" where
  "admin_grant_credits env rq amount =
     bind_q (serve (require_admin env rq)) (\<lambda>u.
     bind_q (check_body (grant_amount_ok amount)) (\<lambda>_.
     bind_q (serve (grant_credits (us_company_id u) amount Manual_Grant)) (\<lambda>_.
     bind_q (serve (record_audit (us_id u) (us_company_id u) ''admin_grant_credits'' ''credits'' (Some (us_company_id u))
       (Some (''granted '' @ str_int amount @ '' credits'')))) (\<lambda>_.
     bind_q (serve (get_credit_balance (us_company_id u))) (\<lambda>balance.
     bind_q (serve (get_or_create_subscription (us_company_id u))) (\<lambda>sub.
     bind_q commit (\<lambda>_.
     return_q \<lparr>bo_company_id = us_company_id u, bo_balance = balance, bo_plan = sub_plan sub\<rparr>)))))))"

definition get_credit_history :: "auth_env \<Rightarrow> http_in \<Rightarrow> nat \<Rightarrow> nat \<Rightarrow> (credit_entry list \<times> nat) req" where
  "get_credit_history env rq limit offset =
     bind_q (serve (get_current_user env rq)) (\<lambda>u.
     bind_q (check_body (1 \<le> limit \<and> limit \<le> 200)) (\<lambda>_.
     ask (\<lambda>s. Inr (get_credit_ledger (us_company_id u) limit offset s))))"

section \<open>The signature of a payment event\<close>

record stripe_env =
  sp_secret :: string
  sp_hmac :: "string \<Rightarrow> string \<Rightarrow> string"
  sp_loads :: "string \<Rightarrow> pyval res"

text \<open>\<open>int(s)\<close>: white space around, a sign, and digits with single underscores between them\<close>

fun int_digits :: "nat \<Rightarrow> bool \<Rightarrow> string \<Rightarrow> nat option" where
  "int_digits acc after_digit [] = (if after_digit then Some acc else None)"
| "int_digits acc after_digit (c # cs) =
     (if 48 \<le> (of_char c :: nat) \<and> (of_char c :: nat) \<le> 57 then int_digits (10 * acc + (of_char c - 48)) True cs
      else if c = CHR ''_'' \<and> after_digit then int_digits acc False cs
      else None)"

definition py_int :: "string \<Rightarrow> int option" where
  "py_int s =
     (case py_strip s of
        [] \<Rightarrow> None
      | c # cs \<Rightarrow>
          if c = CHR ''-'' then map_option (\<lambda>n. - int n) (int_digits 0 False cs)
          else if c = CHR ''+'' then map_option int (int_digits 0 False cs)
          else map_option int (int_digits 0 False (c # cs)))"

text \<open>\<open>s.split(c)\<close> and \<open>s.split(c, 1)\<close> where it yields two parts\<close>

fun split_on :: "char \<Rightarrow> string \<Rightarrow> string list" where
  "split_on c [] = [[]]"
| "split_on c (x # xs) =
     (if x = c then [] # split_on c xs else (case split_on c xs of [] \<Rightarrow> [[x]] | y # ys \<Rightarrow> (x # y) # ys))"

fun split_once :: "char \<Rightarrow> string \<Rightarrow> (string \<times> string) option" where
  "split_once c [] = None"
| "split_once c (x # xs) = (if x = c then Some ([], xs) else map_option (\<lambda>(a, b). (x # a, b)) (split_once c xs))"

text \<open>The header as a dictionary: a later element with the same name replaces an earlier one.\<close>

fun signature_elements :: "string list \<Rightarrow> (string, string) dict \<Rightarrow> (string, string) dict res" where
  "signature_elements [] d = Inr d"
| "signature_elements (kv # kvs) d =
     (case split_once (CHR ''='') kv of
        None \<Rightarrow> Inl (ValueError ''Invalid Stripe signature header'')
      | Some (k, v) \<Rightarrow> signature_elements kvs (dict_set k v d))"

definition is_ascii :: "string \<Rightarrow> bool" where
  "is_ascii s \<longleftrightarrow> list_all (\<lambda>c. (of_char c :: nat) < 128) s"

text \<open>\<open>hmac.compare_digest\<close> on texts raises \<open>TypeError\<close> when one is not ASCII.\<close>

definition verify_stripe_signature :: "stripe_env \<Rightarrow> timestamp \<Rightarrow> string \<Rightarrow> string \<Rightarrow> pyval res" where
  "verify_stripe_signature env now payload sig_header =
     (if sp_secret env = [] then Inl (ValueError ''STRIPE_WEBHOOK_SECRET not configured'')
      else bind_r (signature_elements (split_on (CHR '','') sig_header) []) (\<lambda>elements.
        let t = dict_get elements ''t'' []; signature = dict_get elements ''v1'' []
        in if t = [] \<or> signature = [] then Inl (ValueError ''Invalid Stripe signature header'')
           else case py_int t of
             None \<Rightarrow> Inl (ValueError ''invalid literal for int()'')
           | Some n \<Rightarrow>
               if 300 * 1000000 < \<bar>now - n * 1000000\<bar> then Inl (ValueError ''Stripe webhook timestamp too old'')
               else if \<not> is_ascii signature then Inl TypeError
               else if sp_hmac env (sp_secret env) (t @ ''.'' @ payload) \<noteq> signature
               then Inl (ValueError ''Stripe signature verification failed'')
               else sp_loads env payload))"

section \<open>The events\<close>

text \<open>\<open>v.get(k, other)\<close>, and a query by a text column with a value of any type\<close>

definition get_of :: "pyval \<Rightarrow> string \<Rightarrow> pyval \<Rightarrow> pyval res" where
  "get_of v k other = (case v of PDict d \<Rightarrow> Inr (dict_get d k other) | _ \<Rightarrow> Inl AttributeError)"

definition text_value :: "pyval \<Rightarrow> string res" where
  "text_value v = (case v of PStr t \<Rightarrow> Inr t | _ \<Rightarrow> Inl DataError)"

definition stripe_status :: "pyval \<Rightarrow> subscription_status option res" where
  "stripe_status v =
     (case v of
        PStr t \<Rightarrow> Inr (map_of [(''active'', Sub_Active), (''past_due'', Sub_Past_Due), (''canceled'', Sub_Cancelled), (''unpaid'', Sub_Past_Due)] t)
      | PList l \<Rightarrow> Inl TypeError
      | PDict d \<Rightarrow> Inl TypeError
      | _ \<Rightarrow> Inr None)"

definition find_subscription :: "(subscription \<Rightarrow> bool) \<Rightarrow> db \<Rightarrow> subscription option res" where
  "find_subscription p s = scalar_one_or_none (filter (\<lambda>r. p r \<and> sub_deleted_at r = None) (subscriptions s))"

definition update_sub :: "subscription \<Rightarrow> (subscription \<Rightarrow> subscription) \<Rightarrow> unit req" where
  "update_sub sub f = write_db (\<lambda>s. s\<lparr>subscriptions := update_row sub_id (sub_id sub) f (subscriptions s)\<rparr>)"

definition handle_subscription_updated :: "pyval \<Rightarrow> unit req" where
  "handle_subscription_updated data =
     bind_q (ask (\<lambda>_. get_of data ''object'' (PDict []))) (\<lambda>stripe_sub.
     bind_q (ask (\<lambda>_. get_of stripe_sub ''id'' PNone)) (\<lambda>stripe_sub_id.
     bind_q (ask (\<lambda>_. get_of stripe_sub ''status'' PNone)) (\<lambda>status.
     if \<not> truthy stripe_sub_id then return_q ()
     else
       bind_q (ask (\<lambda>_. stripe_status status)) (\<lambda>new_status.
       case new_status of
         None \<Rightarrow> return_q ()
       | Some new \<Rightarrow>
           bind_q (ask (\<lambda>s. bind_r (text_value stripe_sub_id) (\<lambda>i.
             find_subscription (\<lambda>r. sub_stripe_subscription_id r = Some i) s))) (\<lambda>found.
           case found of
             None \<Rightarrow> return_q ()
           | Some sub \<Rightarrow> bind_q (update_sub sub (\<lambda>r. r\<lparr>sub_status := new\<rparr>)) (\<lambda>_. commit))))))"

definition insert_payment_alert :: "ident \<Rightarrow> pyval \<Rightarrow> (db, unit) sres" where
  "insert_payment_alert c customer_id =
     bind_s new_id (\<lambda>i.
     bind_s utcnow (\<lambda>now.
     modify_s (\<lambda>s. s\<lparr>alerts := alerts s @
       [\<lparr>al_id = i, al_company_id = c, al_alert_type = Target_Exceeded, al_severity = Severity_Critical, al_is_read = False,
         al_acknowledged_at = None, al_metadata = [(''stripe_customer_id'', customer_id)], al_created_at = now\<rparr>]\<rparr>)))"

definition handle_invoice_payment_failed :: "pyval \<Rightarrow> unit req" where
  "handle_invoice_payment_failed data =
     bind_q (ask (\<lambda>_. get_of data ''object'' (PDict []))) (\<lambda>invoice.
     bind_q (ask (\<lambda>_. get_of invoice ''customer'' PNone)) (\<lambda>customer_id.
     if \<not> truthy customer_id then return_q ()
     else
       bind_q (ask (\<lambda>s. bind_r (text_value customer_id) (\<lambda>i.
         find_subscription (\<lambda>r. sub_stripe_customer_id r = Some i) s))) (\<lambda>found.
       case found of
         None \<Rightarrow> return_q ()
       | Some sub \<Rightarrow>
           bind_q (update_sub sub (\<lambda>r. r\<lparr>sub_status := Sub_Past_Due\<rparr>)) (\<lambda>_.
           bind_q (serve (insert_payment_alert (sub_company_id sub) customer_id)) (\<lambda>_.
           commit)))))"

text \<open>The company is named by the text of its identifier.\<close>

definition handle_checkout_session_completed :: "pyval \<Rightarrow> unit req" where
  "handle_checkout_session_completed data =
     bind_q (ask (\<lambda>_. get_of data ''object'' (PDict []))) (\<lambda>sess.
     bind_q (ask (\<lambda>_. get_of sess ''customer'' PNone)) (\<lambda>customer_id.
     bind_q (ask (\<lambda>_. get_of sess ''subscription'' PNone)) (\<lambda>subscription_id.
     bind_q (ask (\<lambda>_. bind_r (get_of sess ''metadata'' (PDict [])) (\<lambda>md. get_of md ''company_id'' PNone))) (\<lambda>company_id.
     if \<not> (truthy customer_id \<and> truthy company_id) then return_q ()
     else
       bind_q (ask (\<lambda>s. bind_r (text_value company_id) (\<lambda>c. find_subscription (\<lambda>r. str_nat (sub_company_id r) = c) s))) (\<lambda>found.
       case found of
         None \<Rightarrow> return_q ()
       | Some sub \<Rightarrow>
           bind_q (ask (\<lambda>_. text_value customer_id)) (\<lambda>customer.
           bind_q (ask (\<lambda>_. if truthy subscription_id then bind_r (text_value subscription_id) (\<lambda>i. Inr (Some i)) else Inr None)) (\<lambda>linked.
           bind_q (update_sub sub (\<lambda>r. r\<lparr>sub_stripe_customer_id := Some customer,
             sub_stripe_subscription_id := (case linked of Some i \<Rightarrow> Some i | None \<Rightarrow> sub_stripe_subscription_id r)\<rparr>)) (\<lambda>_.
           commit))))))))"

definition event_handlers :: "(string, pyval \<Rightarrow> unit req) dict" where
  "event_handlers =
     [(''customer.subscription.updated'', handle_subscription_updated),
      (''customer.subscription.deleted'', handle_subscription_updated),
      (''invoice.payment_failed'', handle_invoice_payment_failed),
      (''checkout.session.completed'', handle_checkout_session_completed)]"

text \<open>What the route turns into a reply of its own; another exception leaves the route, to the same status.\<close>

definition handled_error :: "exn \<Rightarrow> bool" where
  "handled_error e \<longleftrightarrow> is_value_error e \<or> e \<in> {KeyError, TypeError, IntegrityError, DataError, MultipleResultsFound, NoResultFound, OSError}"

definition stripe_webhook :: "stripe_env \<Rightarrow> string \<Rightarrow> string \<Rightarrow> db \<Rightarrow> unit res \<times> db" where
  "stripe_webhook env payload sig_header s =
     (if sp_secret env = [] then (Inl (HTTPException 503 ''Stripe webhooks not configured''), s)
      else let s = s\<lparr>db_now := db_now s + 1\<rparr>
        in case verify_stripe_signature env (db_now s) payload sig_header of
          Inl e \<Rightarrow> (Inl (if is_value_error e then HTTPException 400 ''Webhook signature verification failed'' else e), s)
        | Inr event \<Rightarrow>
            (case bind_r (get_of event ''type'' (PStr [])) (\<lambda>t. bind_r (get_of event ''data'' (PDict [])) (\<lambda>d. Inr (t, d))) of
               Inl e \<Rightarrow> (Inl e, s)
             | Inr (PList l, d) \<Rightarrow> (Inl TypeError, s)
             | Inr (PDict l, d) \<Rightarrow> (Inl TypeError, s)
             | Inr (PStr t, d) \<Rightarrow>
                 (case map_of event_handlers t of
                    None \<Rightarrow> (Inr (), s)
                  | Some handler \<Rightarrow>
                      (case get_db (handler d) s of
                         (Inl e, s') \<Rightarrow> (Inl (if handled_error e then HTTPException 500 ''Webhook processing error'' else e), s')
                       | (Inr u, s') \<Rightarrow> (Inr (), s')))
             | Inr (_, d) \<Rightarrow> (Inr (), s)))"

end
