(* ===== verification/Frames.thy ===== *)
theory Frames
imports Sessions
begin

text \<open>
  What a request leaves alone. A frame is a predicate on databases that the clock and the supply of
  identifiers do not affect; the rules carry it, and what is known of the values on the way, through the
  steps of a service and of a request, step by step as the code binds them.
\<close>

named_theorems frame_steps \<open>rules for the steps of services and requests\<close>

section \<open>Steps\<close>

definition step_ok :: "(db \<Rightarrow> bool) \<Rightarrow> ('a \<Rightarrow> bool) \<Rightarrow> exn + 'a \<times> db \<Rightarrow> bool" where
  "step_ok P Q r \<longleftrightarrow> (\<forall>x s'. r = Inr (x, s') \<longrightarrow> P s' \<and> Q x)"

definition req_ok :: "(db \<Rightarrow> bool) \<Rightarrow> 'a req \<Rightarrow> ('a \<Rightarrow> bool) \<Rightarrow> bool" where
  "req_ok P m Q \<longleftrightarrow> (\<forall>ses. P (ses_db ses) \<longrightarrow> P (ses_saved ses) \<longrightarrow>
     P (ses_db (snd (m ses))) \<and> P (ses_saved (snd (m ses))) \<and> (\<forall>x. fst (m ses) = Inr x \<longrightarrow> Q x))"

lemma step_return [frame_steps]: "P s \<Longrightarrow> Q x \<Longrightarrow> step_ok P Q (return_s x s)"
  by (simp add: step_ok_def)

lemma step_raise [frame_steps]: "step_ok P Q (raise_s e s)"
  by (simp add: step_ok_def)

lemma step_Inl [frame_steps]: "step_ok P Q (Inl e)"
  by (simp add: step_ok_def)

lemma step_Inr [frame_steps]: "P s \<Longrightarrow> Q x \<Longrightarrow> step_ok P Q (Inr (x, s))"
  by (simp add: step_ok_def)

lemma step_lift [frame_steps]: "P s \<Longrightarrow> step_ok P (\<lambda>x. v = Inr x) (lift_s v s)"
  by (cases v) (auto simp: step_ok_def lift_s_def)

lemma step_bind [frame_steps]:
  assumes "step_ok P R (m s)" "\<And>x s'. P s' \<Longrightarrow> R x \<Longrightarrow> step_ok P Q (f x s')"
  shows "step_ok P Q (bind_s m f s)"
  using assms by (fastforce simp: step_ok_def bind_s_Inr_iff)

lemma step_modify [frame_steps]: "P (f s) \<Longrightarrow> step_ok P (\<lambda>_. True) (modify_s f s)"
  by (simp add: step_ok_def)

lemma step_get [frame_steps]: "P s \<Longrightarrow> step_ok P (\<lambda>x. x = f s) (get_s f s)"
  by (simp add: step_ok_def)

lemma step_if [frame_steps]:
  "(b \<Longrightarrow> step_ok P Q (m s)) \<Longrightarrow> (\<not> b \<Longrightarrow> step_ok P Q (n s)) \<Longrightarrow> step_ok P Q ((if b then m else n) s)"
  "(b \<Longrightarrow> step_ok P Q r) \<Longrightarrow> (\<not> b \<Longrightarrow> step_ok P Q t) \<Longrightarrow> step_ok P Q (if b then r else t)"
  by simp_all

lemma step_option [frame_steps]:
  "(x = None \<Longrightarrow> step_ok P Q (m s)) \<Longrightarrow> (\<And>y. x = Some y \<Longrightarrow> step_ok P Q (f y s)) \<Longrightarrow>
    step_ok P Q ((case x of None \<Rightarrow> m | Some y \<Rightarrow> f y) s)"
  by (cases x) simp_all

lemma step_prod [frame_steps]:
  "(\<And>a b. x = (a, b) \<Longrightarrow> step_ok P Q (f a b s)) \<Longrightarrow> step_ok P Q ((case x of (a, b) \<Rightarrow> f a b) s)"
  by (cases x) simp

lemma step_weaken: "step_ok P R r \<Longrightarrow> (\<And>x. R x \<Longrightarrow> Q x) \<Longrightarrow> step_ok P Q r"
  by (simp add: step_ok_def)

lemma step_any: "step_ok P R r \<Longrightarrow> step_ok P (\<lambda>_. True) r"
  by (simp add: step_ok_def)

section \<open>Requests\<close>

lemma req_return [frame_steps]: "Q x \<Longrightarrow> req_ok P (return_q x) Q"
  by (simp add: req_ok_def)

lemma req_raise [frame_steps]: "req_ok P (raise_q e) Q"
  by (simp add: req_ok_def)

lemma req_commit [frame_steps]: "req_ok P commit (\<lambda>_. True)"
  by (simp add: req_ok_def)

lemma req_bind [frame_steps]:
  assumes "req_ok P m R" "\<And>x. R x \<Longrightarrow> req_ok P (f x) Q"
  shows "req_ok P (bind_q m f) Q"
  unfolding req_ok_def
proof (intro allI impI)
  fix ses :: session assume ses: "P (ses_db ses)" "P (ses_saved ses)"
  obtain r ses1 where m: "m ses = (r, ses1)" by fastforce
  then have 1: "P (ses_db ses1)" "P (ses_saved ses1)" "\<And>x. r = Inr x \<Longrightarrow> R x"
    using assms(1) ses unfolding req_ok_def by (metis fst_conv snd_conv)+
  show "P (ses_db (snd (bind_q m f ses))) \<and> P (ses_saved (snd (bind_q m f ses))) \<and>
    (\<forall>x. fst (bind_q m f ses) = Inr x \<longrightarrow> Q x)"
  proof (cases r)
    case (Inl e) then show ?thesis using m 1 by simp
  next
    case (Inr x)
    have "req_ok P (f x) Q" using assms(2) 1(3) Inr by blast
    then show ?thesis using m 1 Inr by (simp add: req_ok_def)
  qed
qed

lemma req_serve [frame_steps]:
  assumes "\<And>s. P s \<Longrightarrow> step_ok P Q (m s)"
  shows "req_ok P (serve m) Q"
  unfolding req_ok_def
proof (intro allI impI)
  fix ses :: session assume ses: "P (ses_db ses)" "P (ses_saved ses)"
  show "P (ses_db (snd (serve m ses))) \<and> P (ses_saved (snd (serve m ses))) \<and> (\<forall>x. fst (serve m ses) = Inr x \<longrightarrow> Q x)"
  proof (cases "m (ses_db ses)")
    case (Inl e) then show ?thesis using ses by simp
  next
    case (Inr r)
    obtain x s' where "r = (x, s')" by fastforce
    then show ?thesis using assms [OF ses(1)] ses Inr by (simp add: step_ok_def)
  qed
qed

lemma req_ask [frame_steps]: "req_ok P (ask f) (\<lambda>x. \<exists>s. P s \<and> f s = Inr x)"
  unfolding ask_def by (intro req_serve) (auto simp: step_ok_def lift_s_def split: sum.splits)

lemma req_write [frame_steps]: "(\<And>s. P s \<Longrightarrow> P (f s)) \<Longrightarrow> req_ok P (write_db f) (\<lambda>_. True)"
  unfolding write_db_def by (intro req_serve step_modify)

lemma req_if [frame_steps]: "(b \<Longrightarrow> req_ok P m Q) \<Longrightarrow> (\<not> b \<Longrightarrow> req_ok P n Q) \<Longrightarrow> req_ok P (if b then m else n) Q"
  by simp

lemma req_option [frame_steps]:
  "(x = None \<Longrightarrow> req_ok P m Q) \<Longrightarrow> (\<And>y. x = Some y \<Longrightarrow> req_ok P (f y) Q) \<Longrightarrow> req_ok P (case x of None \<Rightarrow> m | Some y \<Rightarrow> f y) Q"
  by (cases x) simp_all

lemma req_prod [frame_steps]: "(\<And>a b. x = (a, b) \<Longrightarrow> req_ok P (f a b) Q) \<Longrightarrow> req_ok P (case x of (a, b) \<Rightarrow> f a b) Q"
  by (cases x) simp

lemma req_rethrow [frame_steps]: "req_ok P m Q \<Longrightarrow> req_ok P (rethrow h m) Q"
  by (auto simp: req_ok_def rethrow_def split: prod.splits sum.splits)

lemma req_check_body [frame_steps]: "req_ok P (check_body b) (\<lambda>_. b)"
  by (simp add: req_ok_def check_body_def)

lemma req_any: "req_ok P m R \<Longrightarrow> req_ok P m (\<lambda>_. True)"
  by (simp add: req_ok_def)

lemma req_weaken: "req_ok P m R \<Longrightarrow> (\<And>x. R x \<Longrightarrow> Q x) \<Longrightarrow> req_ok P m Q"
  by (simp add: req_ok_def)

section \<open>Tables\<close>

text \<open>The rows of others, and the identifiers they have.\<close>

definition foreign_ids :: "('r \<Rightarrow> bool) \<Rightarrow> ('r \<Rightarrow> ident) \<Rightarrow> 'r list \<Rightarrow> ident set" where
  "foreign_ids foreign k rows0 = k ` {r \<in> set rows0. foreign r}"

definition table_frame :: "('r \<Rightarrow> bool) \<Rightarrow> ('r \<Rightarrow> ident) \<Rightarrow> 'r list \<Rightarrow> 'r list \<Rightarrow> bool" where
  "table_frame foreign k rows0 rows \<longleftrightarrow>
     filter foreign rows = filter foreign rows0 \<and> (\<forall>r\<in>set rows. \<not> foreign r \<longrightarrow> k r \<notin> foreign_ids foreign k rows0)"

lemma table_frame_refl: "distinct (map k rows) \<Longrightarrow> table_frame foreign k rows rows"
  by (auto simp: table_frame_def foreign_ids_def distinct_map dest: inj_onD)

lemma table_frame_own: "table_frame foreign k rows0 rows \<Longrightarrow> r \<in> set rows \<Longrightarrow> \<not> foreign r \<Longrightarrow> k r \<notin> foreign_ids foreign k rows0"
  by (auto simp: table_frame_def)

lemma table_frame_key:
  assumes "table_frame foreign k rows0 rows" "r \<in> set rows" "foreign r" "i \<notin> foreign_ids foreign k rows0"
  shows "k r \<noteq> i"
proof -
  have "set (filter foreign rows) = set (filter foreign rows0)" using assms(1) by (simp add: table_frame_def)
  then have "r \<in> {r \<in> set rows0. foreign r}" using assms(2,3) by auto
  then show ?thesis using assms(4) by (auto simp: foreign_ids_def)
qed

lemma table_frame_append:
  "table_frame foreign k rows0 rows \<Longrightarrow> \<not> foreign r \<Longrightarrow> k r \<notin> foreign_ids foreign k rows0 \<Longrightarrow> table_frame foreign k rows0 (rows @ [r])"
  by (auto simp: table_frame_def)

lemma table_frame_filter:
  assumes "table_frame foreign k rows0 rows" "i \<notin> foreign_ids foreign k rows0"
  shows "table_frame foreign k rows0 (filter (\<lambda>r. k r \<noteq> i) rows)"
proof -
  have "r \<in> set rows \<Longrightarrow> foreign r \<Longrightarrow> k r \<noteq> i" for r
    using table_frame_key [OF assms(1) _ _ assms(2)] .
  then have "filter foreign (filter (\<lambda>r. k r \<noteq> i) rows) = filter foreign rows"
    by (auto simp: filter_filter intro!: filter_cong)
  then show ?thesis using assms(1) by (auto simp: table_frame_def)
qed

lemma table_frame_update:
  assumes "table_frame foreign k rows0 rows" "i \<notin> foreign_ids foreign k rows0"
    and f: "\<And>r. k r = i \<Longrightarrow> \<not> foreign r \<Longrightarrow> \<not> foreign (f r) \<and> k (f r) = i"
  shows "table_frame foreign k rows0 (update_row k i f rows)"
proof -
  have ne: "r \<in> set rows \<Longrightarrow> foreign r \<Longrightarrow> k r \<noteq> i" for r
    using table_frame_key [OF assms(1) _ _ assms(2)] .
  then have "filter foreign (update_row k i f rows) = filter foreign rows"
    using f by (induction rows) (auto simp: update_row_def)
  then show ?thesis using assms ne f by (fastforce simp: table_frame_def update_row_def)
qed

section \<open>Frames\<close>

locale row_frame =
  fixes P :: "db \<Rightarrow> bool"
  assumes clock: "P s \<Longrightarrow> P (s\<lparr>db_now := n\<rparr>)"
    and ids: "P s \<Longrightarrow> db_next_id s \<le> k \<Longrightarrow> P (s\<lparr>db_next_id := k\<rparr>)"
    and ids_of: "P s \<Longrightarrow> P t \<Longrightarrow> P (s\<lparr>db_next_id := db_next_id t\<rparr>)"
begin

lemma step_utcnow: "P s \<Longrightarrow> step_ok P (\<lambda>_. True) (utcnow s)"
  by (simp add: step_ok_def clock)

lemma step_new_id: "P s \<Longrightarrow> step_ok P (\<lambda>i. \<exists>t. P t \<and> i = db_next_id t) (new_id s)"
  by (auto simp: step_ok_def ids)

lemma frame_end_session:
  assumes "P (ses_db ses)" "P (ses_saved ses)"
  shows "P (end_session ses)"
proof -
  have "P ((ses_saved ses)\<lparr>db_next_id := db_next_id (ses_db ses)\<rparr>)" using assms by (intro ids_of)
  then have "P ((ses_saved ses)\<lparr>db_next_id := db_next_id (ses_db ses), db_now := db_now (ses_db ses)\<rparr>)" by (rule clock)
  moreover have "(ses_saved ses)\<lparr>db_next_id := db_next_id (ses_db ses), db_now := db_now (ses_db ses)\<rparr> = end_session ses"
    by (simp add: end_session_def)
  ultimately show ?thesis by simp
qed

lemma frame_get_db:
  assumes "req_ok P m Q" "P s"
  shows "P (snd (get_db m s))" "fst (get_db m s) = Inr x \<Longrightarrow> Q x"
proof -
  let ?ses = "\<lparr>ses_db = s, ses_saved = s\<rparr>"
  note ok = assms(1) [unfolded req_ok_def, rule_format, of ?ses, simplified, OF assms(2)]
  show "P (snd (get_db m s))" using ok frame_end_session by (cases "m ?ses") (simp add: get_db_def)
  show "fst (get_db m s) = Inr x \<Longrightarrow> Q x" using ok by (cases "m ?ses") (simp add: get_db_def)
qed

end

end
