(* ===== verification/Route_Laws.thy ===== *)
theory Route_Laws
imports Compliance Billing Carbon_Laws Bridge_Laws Frames Subscriptions
begin

text \<open>
  What single requests do: a compliance report with its charge, the categories of scope 3 it shows and the
  pathway it draws, a grant of credits, and the bodies of uploads.
\<close>

section \<open>A compliance report\<close>

text \<open>One charge of ten credits that the balance covered and one audit entry, and nothing else.\<close>

definition reported :: "ident \<Rightarrow> ident \<Rightarrow> ident \<Rightarrow> db \<Rightarrow> db \<Rightarrow> bool" where
  "reported c user_id report_id s s' \<longleftrightarrow>
     (\<exists>e a. s' = s\<lparr>db_now := db_now s', db_next_id := db_next_id s', credit_ledger := credit_ledger s @ [e], audit_logs := audit_logs s @ [a]\<rparr> \<and>
        cl_company_id e = c \<and> cl_amount e = - 10 \<and> cl_balance_after e = balance_of s c - 10 \<and> 10 \<le> balance_of s c \<and>
        au_user_id a = Some user_id \<and> au_company_id a = Some c \<and> au_action a = ''generate'' \<and> au_resource_id a = Some report_id)"

lemma require_credits_checked:
  assumes "require_credits auth rq operation s = Inr (u, s')"
  obtains s1 where "get_current_user auth rq s = Inr (u, s1)" "check_credit_balance (us_company_id u) operation s1 = Inr ((), s')"
proof -
  obtain s1 x where "get_current_user auth rq s = Inr (u, s1)"
    "(case check_credit_balance (us_company_id u) operation s1 of
       Inl e \<Rightarrow> Inl (if is_value_error e then HTTPException 402 ''Insufficient credits for this operation'' else e)
     | Inr r \<Rightarrow> Inr r) = Inr (x, s')"
    using assms by (auto simp: require_credits_def bind_s_Inr_iff)
  then show thesis using that by (cases "check_credit_balance (us_company_id u) operation s1") auto
qed

lemma require_credits_run:
  assumes "require_credits auth rq operation s = Inr (u, s')" "active_subscriptions (us_company_id u) s = [sub]"
  shows "s' = s\<lparr>db_now := db_now s + 1\<rparr>" "u \<in> set (users s)"
proof -
  obtain s1 where 1: "get_current_user auth rq s = Inr (u, s1)" "check_credit_balance (us_company_id u) operation s1 = Inr ((), s')"
    using assms(1) by (rule require_credits_checked)
  have s1: "s1 = s\<lparr>db_now := db_now s + 1\<rparr>" "u \<in> set (users s)" using 1(1) by (auto elim: current_user_run)
  have "active_subscriptions (us_company_id u) s1 = [sub]" using assms(2) by (simp add: s1(1) active_subscriptions_def)
  then have "s' = s1" using 1(2)
    by (auto simp: check_credit_balance_def existing_subscription bind_s_Inr_iff get_credit_balance_def split: if_splits)
  then show "s' = s\<lparr>db_now := db_now s + 1\<rparr>" "u \<in> set (users s)" using s1 by auto
qed

lemma credits_gate:
  assumes "get_current_user auth rq s = Inr (u, s1)" "active_subscriptions (us_company_id u) s = [sub]" "ledger_ok s"
    "operation_cost operation \<le> balance_of s (us_company_id u)"
  shows "require_credits auth rq operation s = Inr (u, s1)"
proof -
  have s1: "s1 = s\<lparr>db_now := db_now s + 1\<rparr>" using assms(1) by (auto elim: current_user_run)
  have "active_subscriptions (us_company_id u) s1 = [sub]" "balance_of s1 (us_company_id u) = balance_of s (us_company_id u)" "ledger_ok s1"
    using assms(2,3) by (auto simp: s1 active_subscriptions_def balance_of_def company_ledger_def ledger_ok_def list_all_iff intro: less_trans less_imp_le)
  then have "check_credit_balance (us_company_id u) operation s1 = Inr ((), s1)"
    using assms(4) existing_subscription get_balance_refines(1) by (simp add: check_credit_balance_def bind_s_def)
  then show ?thesis using assms(1) by (simp add: require_credits_def bind_s_def)
qed

lemma compliance_fails:
  assumes "create_compliance_report auth env rq report_id framework ses = (Inl e, ses')"
  shows "ses_saved ses' = ses_saved ses"
  using assms
  by (auto simp: create_compliance_report_def bind_q_def serve_def ask_def check_body_def return_q_def raise_q_def
      split: if_splits sum.splits prod.splits option.splits)

lemma find_report_run:
  assumes "find_report i c s = Inr (Some r)"
  shows "r \<in> set (emission_reports s)" "er_id r = i" "er_company_id r = c" "er_deleted_at r = None"
proof -
  have "r \<in> set (filter (\<lambda>r. er_id r = i \<and> er_company_id r = c \<and> er_deleted_at r = None) (emission_reports s))"
    using assms by (simp add: find_report_def scalar_one_or_none_Some)
  then show "r \<in> set (emission_reports s)" "er_id r = i" "er_company_id r = c" "er_deleted_at r = None" by auto
qed

lemma compliance_runs:
  assumes "create_compliance_report auth env rq report_id framework \<lparr>ses_db = s, ses_saved = s\<rparr> = (Inr figures, ses')"
    "ledger_ok s" "get_current_user auth rq s = Inr (u, s1)" "active_subscriptions (us_company_id u) s = [sub]"
  shows "framework \<in> set frameworks" "\<exists>r\<in>set (emission_reports s). er_id r = report_id \<and> er_company_id r = us_company_id u \<and> er_deleted_at r = None"
    "reported (us_company_id u) (us_id u) report_id s (end_session ses')"
proof -
  let ?c = "us_company_id u"
  obtain v s2 r co now s3 s4 where v: "require_credits auth rq ''estimate'' s = Inr (v, s2)" and f: "framework \<in> set frameworks"
    and r: "find_report report_id (us_company_id v) s2 = Inr (Some r)" and co: "get_company_row (us_company_id v) s2 = Inr co"
    and now: "s3 = s2\<lparr>db_now := db_now s2 + 1\<rparr>"
    and d: "deduct_operation_credits (us_company_id v) ''estimate'' s3 = Inr ((), s4)"
    and ses': "ses_db ses' = s4\<lparr>db_now := db_now s4 + 1, db_next_id := db_next_id s4 + 1,
      audit_logs := audit_logs s4 @ [\<lparr>au_id = db_next_id s4, au_user_id = Some (us_id v), au_company_id = Some (us_company_id v), au_action = ''generate'',
        au_resource_type = ''compliance_report'', au_resource_id = Some report_id, au_detail = Some (''framework: '' @ framework), au_created_at = db_now s4\<rparr>]\<rparr>"
      "ses_saved ses' = ses_db ses'"
    using assms(1)
    by (auto simp: create_compliance_report_def bind_q_Inr_iff serve_Inr_iff ask_Inr_iff check_body_Inr_iff utcnow_def
        split: option.splits)
  have u: "v = u"
    using v assms(3) by (auto simp: require_credits_def bind_s_Inr_iff)
  have s2: "s2 = s\<lparr>db_now := db_now s + 1\<rparr>" using require_credits_run [OF v] assms(4) u by simp
  have same: "ledger_ok s3" "balance_of s3 ?c = balance_of s ?c"
    using assms(2) by (auto simp: now s2 ledger_ok_def balance_of_def company_ledger_def list_all_iff intro: less_trans less_imp_le)
  obtain e where e: "s4 = s3\<lparr>db_now := db_now s3 + 1, db_next_id := Suc (db_next_id s3), credit_ledger := credit_ledger s3 @ [e]\<rparr>"
    "cl_company_id e = ?c" "cl_amount e = - 10" "cl_balance_after e = balance_of s ?c - 10" "10 \<le> balance_of s ?c"
    using estimate_charge_run [of ?c s3 "()" s4] d same u by auto
  show "framework \<in> set frameworks" by (rule f)
  show "\<exists>r\<in>set (emission_reports s). er_id r = report_id \<and> er_company_id r = ?c \<and> er_deleted_at r = None"
    using find_report_run [OF r] by (intro bexI [of _ r]) (simp_all add: u s2)
  show "reported ?c (us_id u) report_id s (end_session ses')"
    using e(2-) unfolding reported_def
    by (intro exI [of _ e] exI [of _ "last (audit_logs (ses_db ses'))"]) (simp add: end_session_def ses' e(1) now s2 u)
qed

section \<open>Categories of scope 3\<close>

lemma category_method_other: "k \<noteq> key \<Longrightarrow> category_method (dict_set k v d) key value = category_method d key value"
  by (simp add: category_method_def Let_def keys_dict_set map_of_dict_set)

lemma category_of_other: "k \<noteq> snd (snd cat) \<Longrightarrow> scope3_category_of (dict_set k v d) cat = scope3_category_of d cat"
  by (cases cat) (simp add: scope3_category_of_def get_num_def dict_get_set category_method_other)

lemma mapM_r_cong: "(\<And>x. x \<in> set xs \<Longrightarrow> f x = g x) \<Longrightarrow> mapM_r f xs = mapM_r g xs"
  by (induction xs) auto

lemma categories_other:
  "k \<notin> set (map (snd \<circ> snd) cat_map) \<Longrightarrow> build_scope3_categories (dict_set k v d) = build_scope3_categories d"
  unfolding build_scope3_categories_def by (intro mapM_r_cong category_of_other) auto

lemma categories_at:
  assumes "build_scope3_categories d = Inr cats"
  shows "length cats = 15" "i < 15 \<Longrightarrow> \<exists>x. get_num d (snd (snd (cat_map ! i))) = Inr x \<and> ct_number (cats ! i) = i + 1 \<and>
    ct_tco2e (cats ! i) = py_round x 2 \<and> ct_relevant (cats ! i) = (0 < x)"
proof -
  have len: "length cat_map = 15" by (simp add: cat_map_def)
  note r = mapM_r_Inr [OF assms [unfolded build_scope3_categories_def]]
  show "length cats = 15" using r len by simp
  have num: "i < 15 \<Longrightarrow> fst (cat_map ! i) = i + 1" for i
    by (simp add: cat_map_def nth_Cons' less_Suc_eq numeral_eq_Suc; elim disjE; simp)
  show "i < 15 \<Longrightarrow> \<exists>x. get_num d (snd (snd (cat_map ! i))) = Inr x \<and> ct_number (cats ! i) = i + 1 \<and>
    ct_tco2e (cats ! i) = py_round x 2 \<and> ct_relevant (cats ! i) = (0 < x)"
  proof -
    assume i: "i < 15"
    obtain num name key where c: "cat_map ! i = (num, name, key)" by (metis prod_cases3)
    have "scope3_category_of d (cat_map ! i) = Inr (cats ! i)" using r len i by simp
    then show ?thesis using num [OF i] by (auto simp: scope3_category_of_def bind_r_Inr_iff c dest!: sym [of _ "cats ! i"])
  qed
qed

section \<open>The pathway\<close>

text \<open>Powers that fall, as those of a base below one do, but not to zero\<close>

definition falling :: "(nat \<Rightarrow> flt) \<Rightarrow> bool" where
  "falling p \<longleftrightarrow> (\<forall>i. \<exists>a b. p i = Fin a \<and> p (Suc i) = Fin b \<and> 0 < b \<and> b \<le> a)"

lemma flt_times_pos_mono: "0 \<le> x \<Longrightarrow> 0 < b \<Longrightarrow> b \<le> a \<Longrightarrow> x * Fin b \<le> x * Fin a"
  by (cases x) (auto simp: times_flt_def flt_0_1 inf_signed_def flt_of_rat_mono mult_left_mono)

lemma flt_add_nonneg_mono: "0 \<le> a \<Longrightarrow> a \<le> b \<Longrightarrow> 0 \<le> c \<Longrightarrow> c \<le> d \<Longrightarrow> a + c \<le> b + (d :: flt)"
  by (cases a; cases b; cases c; cases d) (auto simp: plus_flt_def flt_0_1 flt_of_rat_mono)

lemma projected_falls:
  assumes "falling (pow (1 - reduction))" "0 \<le> base"
  shows "0 \<le> projected pow base reduction (Suc i)" "projected pow base reduction (Suc i) \<le> projected pow base reduction i"
proof -
  obtain a b where p: "pow (1 - reduction) i = Fin a" "pow (1 - reduction) (Suc i) = Fin b" "0 < b" "b \<le> a"
    using assms(1) unfolding falling_def by (elim allE [of _ i]) blast
  show "projected pow base reduction (Suc i) \<le> projected pow base reduction i"
    using flt_times_pos_mono [OF assms(2) p(3,4)] p by (simp add: projected_def)
  show "0 \<le> projected pow base reduction (Suc i)"
    using assms(2) p(2,3) by (simp add: projected_def flt_mul_nonneg)
qed

section \<open>Grants\<close>

lemma admin_grant_run:
  assumes "ledger_ok s" "require_admin auth rq s = Inr (u, s1)" "grant_amount_ok amount"
    "active_subscriptions (us_company_id u) s = [sub]"
  obtains out s' where "get_db (admin_grant_credits auth rq amount) s = (Inr out, s')"
    "bo_balance out = balance_of s (us_company_id u) + amount"
    "\<And>c. balance_of s' c = balance_of s c + (if c = us_company_id u then amount else 0)"
    "ledger_ok s'"
proof -
  let ?c = "us_company_id u"
  have s1: "s1 = s\<lparr>db_now := db_now s + 1\<rparr>"
    using assms(2) by (auto simp: require_admin_def bind_s_Inr_iff split: if_splits elim: current_user_run)
  have ok: "ledger_ok s1" "0 \<le> balance_of s1 ?c + amount" and same: "\<And>c. balance_of s1 c = balance_of s c"
    using assms(1,3) balance_nonneg [OF assms(1), of ?c]
    by (auto simp: s1 ledger_ok_def balance_of_def company_ledger_def list_all_iff grant_amount_ok_def intro: less_trans less_imp_le)
  obtain e where e: "grant_credits ?c amount Manual_Grant s1 =
      Inr (e, s1\<lparr>db_now := db_now s1 + 1, db_next_id := db_next_id s1 + 1, credit_ledger := credit_ledger s1 @ [e]\<rparr>)"
    "cl_company_id e = ?c" "cl_amount e = amount"
    "ledger_ok (s1\<lparr>db_now := db_now s1 + 1, db_next_id := db_next_id s1 + 1, credit_ledger := credit_ledger s1 @ [e]\<rparr>)"
    using grant_effect [OF ok(1,2), of Manual_Grant] by blast
  define s2 where "s2 = s1\<lparr>db_now := db_now s1 + 1, db_next_id := db_next_id s1 + 1, credit_ledger := credit_ledger s1 @ [e]\<rparr>"
  have g: "grant_credits ?c amount Manual_Grant s1 = Inr (e, s2)" using e(1) by (simp only: s2_def)
  have ok2: "ledger_ok s2" using e(4) by (simp only: s2_def)
  obtain s3 where s3: "record_audit (us_id u) ?c ''admin_grant_credits'' ''credits'' (Some ?c) (Some (''granted '' @ str_int amount @ '' credits'')) s2 = Inr ((), s3)"
    "credit_ledger s3 = credit_ledger s2" "subscriptions s3 = subscriptions s2" "db_now s3 = db_now s2 + 1"
    by simp
  have ok3: "ledger_ok s3"
    using ok2 s3(2,4) by (auto simp: ledger_ok_def company_ledger_def list_all_iff less_imp_le)
  have bal: "balance_of s3 c = balance_of s c + (if c = ?c then amount else 0)" for c
    using same [of c] e(2,3) by (simp add: balance_of_def company_ledger_def s3(2) s2_def)
  have sub: "active_subscriptions ?c s3 = [sub]"
    using assms(4) by (simp add: active_subscriptions_def s3(3) s2_def s1)
  let ?out = "\<lparr>bo_company_id = ?c, bo_balance = balance_of s3 ?c, bo_plan = sub_plan sub\<rparr>"
  have "admin_grant_credits auth rq amount \<lparr>ses_db = s, ses_saved = s\<rparr> = (Inr ?out, \<lparr>ses_db = s3, ses_saved = s3\<rparr>)"
    using assms(2,3) g s3(1) get_balance_refines(1) [OF ok3, of ?c] existing_subscription [OF sub]
    by (simp add: admin_grant_credits_def del: record_audit_run)
  then have "get_db (admin_grant_credits auth rq amount) s = (Inr ?out, s3)"
    by (simp add: get_db_def end_session_def)
  then show thesis using that [of ?out s3] bal ok3 by simp
qed

section \<open>Uploads without data\<close>

text \<open>A change of an upload to null goes to the database, and every reply that shows the upload fails afterwards.\<close>

definition no_data :: upload_update where
  "no_data = \<lparr>uu_year = None, uu_provided_data = Some None, uu_notes = None\<rparr>"

lemma no_data_ok: "data_upload_update_ok no_data"
  by (simp add: no_data_def data_upload_update_ok_def absent_or_def null_or_def)

lemma no_data_run:
  assumes "get_current_user auth rq s = Inr (u, s1)" "get_upload i (us_company_id u) s = Inr r"
  obtains s' where "get_db (update_data_upload_route auth rq i no_data) s = (Inl (ValueError ''ResponseValidationError''), s')"
    "\<exists>a. s' = s\<lparr>data_uploads := update_row du_id i (\<lambda>_. r\<lparr>du_provided_data := None\<rparr>) (data_uploads s),
       db_now := db_now s + 2, db_next_id := db_next_id s + 1, audit_logs := audit_logs s @ [a]\<rparr>"
proof -
  have s1: "s1 = s\<lparr>db_now := db_now s + 1\<rparr>" using assms(1) by (auto elim: current_user_run)
  have r: "get_upload i (us_company_id u) s1 = Inr r" "du_id r = i"
    using assms(2) by (auto simp: s1 get_upload_def bind_r_Inr_iff scalar_one_or_none_Inr filter_eq_Cons_iff split: option.splits)
  define s2 where "s2 = s1\<lparr>data_uploads := update_row du_id i (\<lambda>_. r\<lparr>du_provided_data := None\<rparr>) (data_uploads s1), db_now := db_now s1 + 1,
    db_next_id := db_next_id s1 + 1, audit_logs := audit_logs s1 @ [\<lparr>au_id = db_next_id s1, au_user_id = Some (us_id u),
      au_company_id = Some (us_company_id u), au_action = ''update'', au_resource_type = ''data_upload'', au_resource_id = Some i,
      au_detail = None, au_created_at = db_now s1\<rparr>]\<rparr>"
  have upd: "update_upload i (us_company_id u) (us_id u) no_data \<lparr>ses_db = s1, ses_saved = s\<rparr> =
      (Inr (r\<lparr>du_provided_data := None\<rparr>), \<lparr>ses_db = s2, ses_saved = s2\<rparr>)"
    using r by (simp add: update_upload_def s2_def) (simp add: no_data_def serve_def bind_q_def Let_def)
  have "update_data_upload_route auth rq i no_data \<lparr>ses_db = s, ses_saved = s\<rparr> =
      (Inl (ValueError ''ResponseValidationError''), \<lparr>ses_db = s2, ses_saved = s2\<rparr>)"
    using assms(1) rethrow_Inr [where h = service_error and m = "update_upload i (us_company_id u) (us_id u) no_data", OF upd]
    by (simp add: update_data_upload_route_def no_data_ok ask_def serve_def upload_out_def)
  then show thesis
    by (intro that [of s2] exI [of _ "last (audit_logs s2)"]) (simp_all add: get_db_def end_session_def s2_def s1)
qed

text \<open>A list that shows such a row is not served.\<close>

lemma mapM_r_fails: "x \<in> set xs \<Longrightarrow> f x = Inl e \<Longrightarrow> \<not> returns (mapM_r f xs)"
proof (induction xs)
  case (Cons a xs)
  then show ?case by (cases "f a"; cases "mapM_r f xs") auto
qed simp

lemma null_upload_unlisted:
  assumes "get_current_user auth rq s = Inr (u, s1)" "r \<in> set (fst (list_uploads (us_company_id u) year limit offset s))"
    "du_provided_data r = None"
  shows "\<not> returns (fst (get_db (list_data_uploads_route auth rq year limit offset) s))"
proof (cases "page_ok limit")
  case False
  then show ?thesis using assms(1) by (simp add: get_db_def list_data_uploads_route_def check_body_def bind_q_def)
next
  case True
  have s1: "s1 = s\<lparr>db_now := db_now s + 1\<rparr>" using assms(1) by (auto elim: current_user_run)
  obtain items n where l: "list_uploads (us_company_id u) year limit offset s1 = (items, n)" by fastforce
  have "r \<in> set items" using assms(2) l by (simp add: s1 list_uploads_def page_def)
  then have "\<not> returns (mapM_r upload_out items)" by (rule mapM_r_fails) (simp add: upload_out_def assms(3))
  then obtain e where "mapM_r upload_out items = Inl e" by (cases "mapM_r upload_out items") auto
  then show ?thesis using assms(1) True l
    by (simp add: get_db_def list_data_uploads_route_def ask_def serve_def bind_q_def)
qed

section \<open>Payments and grants\<close>

text \<open>
  Payment events are taken only with a fresh signature, change no plan and no credits, and an admin of a
  company grants it what it asks for.
\<close>

section \<open>Signatures\<close>

lemma signature_checked:
  assumes "verify_stripe_signature env now payload header = Inr event"
  obtains elements n where "signature_elements (split_on (CHR '','') header) [] = Inr elements"
    "py_int (dict_get elements ''t'' []) = Some n" "\<bar>now - n * 1000000\<bar> \<le> 300 * 1000000"
    "dict_get elements ''v1'' [] = sp_hmac env (sp_secret env) (dict_get elements ''t'' [] @ ''.'' @ payload)"
    "sp_loads env payload = Inr event"
proof -
  obtain elements where e: "signature_elements (split_on (CHR '','') header) [] = Inr elements"
    using assms by (auto simp: verify_stripe_signature_def bind_r_Inr_iff split: if_splits)
  then obtain n where "py_int (dict_get elements ''t'' []) = Some n"
    using assms by (auto simp: verify_stripe_signature_def Let_def split: if_splits option.splits)
  then show ?thesis
    using that [OF e] assms e by (auto simp: verify_stripe_signature_def Let_def not_less split: if_splits)
qed

text \<open>A webhook that is not refused was signed.\<close>

lemma webhook_signed:
  assumes "stripe_webhook env payload header s = (r, s')" "r = Inr () \<or> s' \<noteq> s \<and> s' \<noteq> s\<lparr>db_now := db_now s + 1\<rparr>"
  shows "\<exists>event. verify_stripe_signature env (db_now s + 1) payload header = Inr event"
  using assms by (auto simp: stripe_webhook_def Let_def split: if_splits sum.splits)

section \<open>What events change\<close>

text \<open>Rows as before, but for alerts and for the status and the links of subscriptions.\<close>

definition sub_core :: "subscription \<Rightarrow> ident \<times> ident \<times> subscription_plan \<times> timestamp \<times> timestamp option" where
  "sub_core r = (sub_id r, sub_company_id r, sub_plan r, sub_created_at r, sub_deleted_at r)"

definition payments_only :: "db \<Rightarrow> db \<Rightarrow> bool" where
  "payments_only s0 s \<longleftrightarrow>
     s\<lparr>db_now := 0, db_next_id := 0, alerts := [], subscriptions := []\<rparr> = s0\<lparr>db_now := 0, db_next_id := 0, alerts := [], subscriptions := []\<rparr> \<and>
     map sub_core (subscriptions s) = map sub_core (subscriptions s0)"

interpretation payments: row_frame "payments_only s0" for s0
  by unfold_locales (auto simp: payments_only_def)

lemmas payment_steps = frame_steps payments.step_utcnow payments.step_new_id

lemma payments_refl [simp]: "payments_only s s"
  by (simp add: payments_only_def)

lemma update_sub_ok: "(\<And>r. sub_core (f r) = sub_core r) \<Longrightarrow> req_ok (payments_only s0) (update_sub sub f) (\<lambda>_. True)"
  unfolding update_sub_def by (intro req_write) (simp add: payments_only_def)

lemma payment_alert_ok: "payments_only s0 s \<Longrightarrow> step_ok (payments_only s0) (\<lambda>_. True) (insert_payment_alert c v s)"
  unfolding insert_payment_alert_def by (rule payment_steps | simp add: payments_only_def)+

lemma handlers_ok: "map_of event_handlers t = Some handler \<Longrightarrow> req_ok (payments_only s0) (handler d) (\<lambda>_. True)"
proof -
  have "req_ok (payments_only s0) (handle_subscription_updated d) (\<lambda>_. True)"
    unfolding handle_subscription_updated_def
    by (rule payment_steps update_sub_ok | simp add: sub_core_def)+
  moreover have "req_ok (payments_only s0) (handle_invoice_payment_failed d) (\<lambda>_. True)"
    unfolding handle_invoice_payment_failed_def
    by (rule payment_steps update_sub_ok payment_alert_ok | simp add: sub_core_def)+
  moreover have "req_ok (payments_only s0) (handle_checkout_session_completed d) (\<lambda>_. True)"
    unfolding handle_checkout_session_completed_def
    by (rule payment_steps update_sub_ok | simp add: sub_core_def)+
  ultimately show "map_of event_handlers t = Some handler \<Longrightarrow> ?thesis"
    by (auto simp: event_handlers_def split: if_splits)
qed

lemma webhook_payments_only: "payments_only s (snd (stripe_webhook env payload header s))"
proof -
  have clock: "payments_only s (s\<lparr>db_now := db_now s + 1\<rparr>)" by (rule payments.clock) simp
  have run: "payments_only s (snd (get_db (handler d) (s\<lparr>db_now := db_now s + 1\<rparr>)))" if "map_of event_handlers t = Some handler" for t handler d
    by (rule payments.frame_get_db(1) [OF handlers_ok [OF that] clock])
  define s1 where "s1 = s\<lparr>db_now := db_now s + 1\<rparr>"
  show ?thesis
  proof (cases "sp_secret env = []")
    case True then show ?thesis by (simp add: stripe_webhook_def)
  next
    case False
    then show ?thesis
      using clock run unfolding stripe_webhook_def s1_def [symmetric] Let_def
      by (simp split: sum.splits prod.splits pyval.splits option.splits) (metis snd_conv)
  qed
qed

end
