(* ===== verification/Trade_Routes.thy ===== *)
theory Trade_Routes
imports Company_Routes Pcaf Webhooks
begin

text \<open>
  The routes between companies and to the outside: \<open>webhook_routes.py\<close>, \<open>marketplace_routes.py\<close>,
  \<open>supply_chain_routes.py\<close> and \<open>pcaf_routes.py\<close>. Services that commit are followed by \<open>commit\<close>.
\<close>

section \<open>Webhooks\<close>

definition add_webhook_route ::
    "auth_env \<Rightarrow> (string \<Rightarrow> unit res) \<Rightarrow> web_env \<Rightarrow> http_in \<Rightarrow> string \<Rightarrow> string list \<Rightarrow> webhook req" where
  "add_webhook_route auth validate web rq url event_types =
     bind_q (serve (require_admin auth rq)) (\<lambda>u.
     bind_q (check_body (webhook_create_ok url event_types)) (\<lambda>_.
     rethrow (value_error_as (HTTPException 400 ''Invalid webhook configuration''))
       (bind_q (serve (create_webhook validate web (us_company_id u) url event_types)) (\<lambda>wh.
        bind_q commit (\<lambda>_.
        bind_q (serve (record_audit (us_id u) (us_company_id u) ''create'' ''webhook'' (Some (wh_id wh)) None)) (\<lambda>_.
        return_q wh))))))"

definition get_webhooks_route :: "auth_env \<Rightarrow> http_in \<Rightarrow> nat \<Rightarrow> nat \<Rightarrow> (webhook list \<times> nat) req" where
  "get_webhooks_route auth rq limit offset =
     bind_q (serve (get_current_user auth rq)) (\<lambda>u.
     bind_q (check_body (page_ok limit)) (\<lambda>_.
     ask (\<lambda>s. Inr (list_webhooks (us_company_id u) (Some limit) (Some offset) s))))"

definition update_webhook_route :: "auth_env \<Rightarrow> http_in \<Rightarrow> ident \<Rightarrow> bool \<Rightarrow> webhook req" where
  "update_webhook_route auth rq webhook_id active =
     bind_q (serve (require_admin auth rq)) (\<lambda>u.
     bind_q (serve (toggle_webhook webhook_id (us_company_id u) active)) (\<lambda>found.
     case found of
       None \<Rightarrow> raise_q (HTTPException 404 ''Webhook not found'')
     | Some wh \<Rightarrow>
         bind_q commit (\<lambda>_.
         bind_q (serve (record_audit (us_id u) (us_company_id u) ''update'' ''webhook'' (Some webhook_id) None)) (\<lambda>_.
         return_q wh))))"

definition remove_webhook_route :: "auth_env \<Rightarrow> http_in \<Rightarrow> ident \<Rightarrow> unit req" where
  "remove_webhook_route auth rq webhook_id =
     bind_q (serve (require_admin auth rq)) (\<lambda>u.
     bind_q (serve (delete_webhook webhook_id (us_company_id u))) (\<lambda>removed.
     if \<not> removed then raise_q (HTTPException 404 ''Webhook not found'')
     else
       bind_q commit (\<lambda>_.
       serve (record_audit (us_id u) (us_company_id u) ''delete'' ''webhook'' (Some webhook_id) None))))"

definition get_deliveries_route :: "auth_env \<Rightarrow> http_in \<Rightarrow> ident \<Rightarrow> nat \<Rightarrow> nat \<Rightarrow> (webhook_delivery list \<times> nat) req" where
  "get_deliveries_route auth rq webhook_id limit offset =
     bind_q (serve (get_current_user auth rq)) (\<lambda>u.
     bind_q (check_body (page_ok limit)) (\<lambda>_.
     bind_q (ask (list_deliveries webhook_id (us_company_id u) limit offset)) (\<lambda>rows.
     if snd rows = 0 then
       bind_q (ask (find_webhook webhook_id (us_company_id u))) (\<lambda>found.
       if found = None then raise_q (HTTPException 404 ''Webhook not found'') else return_q rows)
     else return_q rows)))"

definition retry_webhook_delivery_route :: "auth_env \<Rightarrow> web_env \<Rightarrow> http_in \<Rightarrow> ident \<Rightarrow> webhook_delivery req" where
  "retry_webhook_delivery_route auth web rq delivery_id =
     bind_q (serve (require_admin auth rq)) (\<lambda>u.
     bind_q (serve (retry_delivery web delivery_id (us_company_id u))) (\<lambda>found.
     case found of
       None \<Rightarrow> raise_q (HTTPException 404 ''Delivery not found'')
     | Some d \<Rightarrow>
         bind_q commit (\<lambda>_.
         bind_q (serve (record_audit (us_id u) (us_company_id u) ''retry'' ''webhook_delivery'' (Some delivery_id) None)) (\<lambda>_.
         return_q d))))"

section \<open>Marketplace\<close>

definition create_data_listing_route :: "auth_env \<Rightarrow> http_in \<Rightarrow> listing_create \<Rightarrow> data_listing req" where
  "create_data_listing_route auth rq body =
     bind_q (serve (require_plan auth rq ''marketplace'')) (\<lambda>u.
     bind_q (check_body (listing_create_ok body)) (\<lambda>_.
     rethrow (value_error_as (HTTPException 400 ''Listing creation failed. Report not found or invalid parameters.''))
       (bind_q (serve (create_listing (us_company_id u) (lt_title body) (lt_description body) (lt_data_type body)
          (lt_report_id body) (lt_price_credits body))) (\<lambda>listing.
        bind_q commit (\<lambda>_.
        return_q listing)))))"

definition browse_marketplace_route ::
    "auth_env \<Rightarrow> http_in \<Rightarrow> string option \<Rightarrow> string option \<Rightarrow> data_listing_type option \<Rightarrow> nat \<Rightarrow> nat \<Rightarrow> (data_listing list \<times> nat) req" where
  "browse_marketplace_route auth rq industry region data_type limit offset =
     bind_q (serve (get_current_user auth rq)) (\<lambda>u.
     bind_q (check_body (page_ok limit)) (\<lambda>_.
     ask (\<lambda>s. Inr (browse_listings industry region data_type limit offset s))))"

definition get_listing_route :: "auth_env \<Rightarrow> http_in \<Rightarrow> ident \<Rightarrow> data_listing req" where
  "get_listing_route auth rq listing_id =
     bind_q (serve (get_current_user auth rq)) (\<lambda>u.
     bind_q (serve (get_listing_by_id listing_id)) (\<lambda>found.
     case found of None \<Rightarrow> raise_q (HTTPException 404 ''Listing not found'') | Some l \<Rightarrow> return_q l))"

text \<open>The mails of a purchase: to the buyer, and to a user of the seller if there is an active one.\<close>

record purchase_mails =
  pm_buyer :: string
  pm_seller :: "string option"
  pm_title :: string
  pm_price :: int

definition purchase_data_route :: "auth_env \<Rightarrow> http_in \<Rightarrow> ident \<Rightarrow> (data_purchase \<times> purchase_mails) req" where
  "purchase_data_route auth rq listing_id =
     bind_q (serve (require_plan auth rq ''marketplace'')) (\<lambda>u.
     rethrow (value_error_as (HTTPException 400 ''Purchase failed. Cannot buy own listing or listing not found.''))
       (bind_q (serve (purchase_listing listing_id (us_company_id u))) (\<lambda>bought.
        bind_q commit (\<lambda>_.
        bind_q (ask (\<lambda>s. scalar_one (filter (\<lambda>p. dp_id p = dp_id bought) (data_purchases s)))) (\<lambda>purchase.
        bind_q (ask (\<lambda>s. scalar_one (filter (\<lambda>l. dl_id l = dp_listing_id purchase) (data_listings s)))) (\<lambda>listing.
        bind_q (serve (record_audit (us_id u) (us_company_id u) ''create'' ''data_purchase'' (Some (dp_id purchase)) None)) (\<lambda>_.
        bind_q (ask (\<lambda>s. scalar_one_or_none (take 1 (filter
          (\<lambda>v. us_company_id v = dl_seller_company_id listing \<and> us_is_active v) (users s))))) (\<lambda>seller_user.
        return_q (purchase, \<lparr>pm_buyer = us_email u, pm_seller = map_option us_email seller_user,
          pm_title = dl_title listing, pm_price = dl_price_credits listing\<rparr>)))))))))"

definition get_my_listings_route :: "auth_env \<Rightarrow> http_in \<Rightarrow> nat \<Rightarrow> nat \<Rightarrow> (data_listing list \<times> nat) req" where
  "get_my_listings_route auth rq limit offset =
     bind_q (serve (get_current_user auth rq)) (\<lambda>u.
     bind_q (check_body (page_ok limit)) (\<lambda>_.
     ask (\<lambda>s. Inr (list_my_listings (us_company_id u) limit offset s))))"

definition withdraw_data_listing_route :: "auth_env \<Rightarrow> http_in \<Rightarrow> ident \<Rightarrow> data_listing req" where
  "withdraw_data_listing_route auth rq listing_id =
     bind_q (serve (get_current_user auth rq)) (\<lambda>u.
     bind_q (serve (withdraw_listing listing_id (us_company_id u))) (\<lambda>found.
     case found of
       None \<Rightarrow> raise_q (HTTPException 404 ''Listing not found or already withdrawn'')
     | Some l \<Rightarrow> bind_q commit (\<lambda>_. return_q l)))"

definition get_my_sales_route :: "auth_env \<Rightarrow> http_in \<Rightarrow> nat \<Rightarrow> nat \<Rightarrow> (data_purchase list \<times> nat) req" where
  "get_my_sales_route auth rq limit offset =
     bind_q (serve (get_current_user auth rq)) (\<lambda>u.
     bind_q (check_body (page_ok limit)) (\<lambda>_.
     ask (\<lambda>s. Inr (list_my_sales (us_company_id u) limit offset s))))"

definition get_my_revenue_route :: "auth_env \<Rightarrow> http_in \<Rightarrow> seller_revenue req" where
  "get_my_revenue_route auth rq =
     bind_q (serve (get_current_user auth rq)) (\<lambda>u. ask (\<lambda>s. Inr (get_seller_revenue (us_company_id u) s)))"

section \<open>Supply chain\<close>

definition add_supplier_route :: "auth_env \<Rightarrow> web_env \<Rightarrow> http_in \<Rightarrow> link_create \<Rightarrow> supply_chain_link req" where
  "add_supplier_route auth web rq body =
     bind_q (serve (get_current_user auth rq)) (\<lambda>u.
     bind_q (check_body (link_create_ok body)) (\<lambda>_.
     rethrow (value_error_as (HTTPException 400 ''Invalid supplier link parameters''))
       (bind_q (serve (create_link (us_company_id u) (lc_supplier_company_id body) (lc_spend_usd body) (lc_category body) (lc_notes body))) (\<lambda>link.
        bind_q commit (\<lambda>_.
        bind_q (dispatch web (us_company_id u) ''supply_chain.link_created''
          [(''link_id'', PStr (str_nat (scl_id link))), (''supplier_company_id'', PStr (str_nat (lc_supplier_company_id body))),
           (''category'', PStr (if lc_category body = [] then ''general'' else lc_category body))]) (\<lambda>_.
        return_q link))))))"

definition get_suppliers_route ::
    "auth_env \<Rightarrow> http_in \<Rightarrow> nat \<Rightarrow> nat \<Rightarrow> ((supply_chain_link \<times> company \<times> emission_report option) list \<times> nat) req" where
  "get_suppliers_route auth rq limit offset =
     bind_q (serve (get_current_user auth rq)) (\<lambda>u.
     bind_q (check_body (page_ok limit)) (\<lambda>_.
     ask (\<lambda>s. Inr (list_suppliers (us_company_id u) limit offset s))))"

definition get_buyers_route :: "auth_env \<Rightarrow> http_in \<Rightarrow> nat \<Rightarrow> nat \<Rightarrow> ((supply_chain_link \<times> company) list \<times> nat) req" where
  "get_buyers_route auth rq limit offset =
     bind_q (serve (get_current_user auth rq)) (\<lambda>u.
     bind_q (check_body (page_ok limit)) (\<lambda>_.
     ask (\<lambda>s. Inr (list_buyers (us_company_id u) limit offset s))))"

definition scope3_from_suppliers_route :: "auth_env \<Rightarrow> http_in \<Rightarrow> int option \<Rightarrow> supplier_scope3 req" where
  "scope3_from_suppliers_route auth rq year =
     bind_q (serve (get_current_user auth rq)) (\<lambda>u. ask (\<lambda>s. Inr (calc_supplier_scope3 (us_company_id u) year s)))"

definition get_link_route :: "auth_env \<Rightarrow> http_in \<Rightarrow> ident \<Rightarrow> supply_chain_link req" where
  "get_link_route auth rq link_id =
     bind_q (serve (get_current_user auth rq)) (\<lambda>u.
     bind_q (serve (get_link link_id (us_company_id u))) (\<lambda>found.
     case found of None \<Rightarrow> raise_q (HTTPException 404 ''Link not found'') | Some l \<Rightarrow> return_q l))"

definition update_link_route :: "auth_env \<Rightarrow> web_env \<Rightarrow> http_in \<Rightarrow> ident \<Rightarrow> string \<Rightarrow> supply_chain_link req" where
  "update_link_route auth web rq link_id status =
     bind_q (serve (require_admin auth rq)) (\<lambda>u.
     case map_of link_status_names status of
       None \<Rightarrow> raise_q (HTTPException 422 ''Unprocessable Entity'')
     | Some new_status \<Rightarrow>
         bind_q (serve (update_link_status link_id (us_company_id u) new_status)) (\<lambda>found.
         case found of
           None \<Rightarrow> raise_q (HTTPException 404 ''Link not found'')
         | Some link \<Rightarrow>
             bind_q commit (\<lambda>_.
             bind_q (serve (record_audit (us_id u) (us_company_id u) ''update'' ''supply_chain_link'' (Some link_id) None)) (\<lambda>_.
             bind_q (if status = ''verified'' then
                 dispatch web (us_company_id u) ''supply_chain.link_verified''
                   [(''link_id'', PStr (str_nat link_id)), (''status'', PStr ''verified'')]
               else return_q ()) (\<lambda>_.
             return_q link)))))"

definition delete_link_route :: "auth_env \<Rightarrow> http_in \<Rightarrow> ident \<Rightarrow> unit req" where
  "delete_link_route auth rq link_id =
     bind_q (serve (require_admin auth rq)) (\<lambda>u.
     bind_q (serve (remove_link link_id (us_company_id u))) (\<lambda>removed.
     if \<not> removed then raise_q (HTTPException 404 ''Link not found'') else commit))"

section \<open>Financed emissions\<close>

definition get_portfolio :: "ident \<Rightarrow> ident \<Rightarrow> db \<Rightarrow> financed_portfolio res" where
  "get_portfolio portfolio_id c s =
     bind_r (scalar_one_or_none (filter
       (\<lambda>p. fp_id p = portfolio_id \<and> fp_company_id p = c \<and> fp_deleted_at p = None) (financed_portfolios s))) (\<lambda>found.
     case found of None \<Rightarrow> Inl (HTTPException 404 ''Portfolio not found'') | Some p \<Rightarrow> Inr p)"

definition insert_portfolio :: "ident \<Rightarrow> string \<Rightarrow> int \<Rightarrow> (db, financed_portfolio) sres" where
  "insert_portfolio c name year =
     bind_s new_id (\<lambda>i.
     bind_s utcnow (\<lambda>now.
     let p = \<lparr>fp_id = i, fp_company_id = c, fp_name = name, fp_year = year, fp_created_at = now, fp_deleted_at = None\<rparr>
     in bind_s (modify_s (\<lambda>s. s\<lparr>financed_portfolios := financed_portfolios s @ [p]\<rparr>)) (\<lambda>_. return_s p)))"

definition create_portfolio_route :: "auth_env \<Rightarrow> http_in \<Rightarrow> string \<Rightarrow> int \<Rightarrow> financed_portfolio req" where
  "create_portfolio_route auth rq name year =
     bind_q (serve (require_plan auth rq ''supply_chain'')) (\<lambda>u.
     bind_q (check_body (portfolio_create_ok name year)) (\<lambda>_.
     bind_q (serve (insert_portfolio (us_company_id u) name year)) (\<lambda>p.
     bind_q (serve (record_audit (us_id u) (us_company_id u) ''create'' ''pcaf_portfolio'' (Some (fp_id p)) None)) (\<lambda>_.
     bind_q commit (\<lambda>_.
     return_q p)))))"

definition list_portfolios_route :: "auth_env \<Rightarrow> http_in \<Rightarrow> nat \<Rightarrow> nat \<Rightarrow> (financed_portfolio list \<times> nat) req" where
  "list_portfolios_route auth rq limit offset =
     bind_q (serve (get_current_user auth rq)) (\<lambda>u.
     bind_q (check_body (page_ok limit)) (\<lambda>_.
     ask (\<lambda>s. Inr (page fp_created_at limit offset
       (filter (\<lambda>p. fp_company_id p = us_company_id u \<and> fp_deleted_at p = None) (financed_portfolios s))))))"

definition assets_of :: "ident \<Rightarrow> db \<Rightarrow> financed_asset list" where
  "assets_of portfolio_id s = filter (\<lambda>a. fa_portfolio_id a = portfolio_id) (financed_assets s)"

text \<open>\<open>coalesce(sum(...), 0)\<close>, which skips nulls\<close>

definition sql_sum :: "flt option list \<Rightarrow> flt" where
  "sql_sum vs = foldl (+) 0 (List.map_filter id vs)"

fun asset_class_name :: "pcaf_asset_class \<Rightarrow> string" where
  "asset_class_name Listed_Equity = ''listed_equity''"
| "asset_class_name Corporate_Bonds = ''corporate_bonds''"
| "asset_class_name Business_Loans = ''business_loans''"
| "asset_class_name Project_Finance = ''project_finance''"
| "asset_class_name Commercial_Real_Estate = ''commercial_real_estate''"
| "asset_class_name Mortgages = ''mortgages''"
| "asset_class_name Sovereign_Debt = ''sovereign_debt''"

text \<open>One row per class that occurs\<close>

definition class_row :: "financed_asset list \<Rightarrow> pcaf_asset_class \<Rightarrow> string \<times> bucket" where
  "class_row rows k =
     (let those = filter (\<lambda>a. fa_asset_class a = k) rows
      in (asset_class_name k,
          \<lparr>bk_financed_emissions = py_round (sql_sum (map fa_financed_emissions_tco2e those)) 2,
           bk_outstanding_amount = py_round (sql_sum (map (Some \<circ> fa_outstanding_amount) those)) 2, bk_count = length those\<rparr>))"

definition portfolio_sql_summary :: "financed_asset list \<Rightarrow> portfolio_summary" where
  "portfolio_sql_summary rows =
     (let total_oa = sql_sum (map (Some \<circ> fa_outstanding_amount) rows);
          weighted_dq_num = sql_sum (map (\<lambda>a. Some (flt_of_int (fa_data_quality_score a) * fa_outstanding_amount a)) rows)
      in \<lparr>total_financed_emissions = py_round (sql_sum (map fa_financed_emissions_tco2e rows)) 2,
          total_outstanding = py_round total_oa 2,
          weighted_data_quality = (if 0 < total_oa then py_round (weighted_dq_num / total_oa) 2 else 0),
          asset_count = length rows,
          by_asset_class = map (class_row rows) (remdups (map fa_asset_class rows))\<rparr>)"

definition portfolio_summary_route :: "auth_env \<Rightarrow> http_in \<Rightarrow> ident \<Rightarrow> (financed_portfolio \<times> portfolio_summary) req" where
  "portfolio_summary_route auth rq portfolio_id =
     bind_q (serve (get_current_user auth rq)) (\<lambda>u.
     bind_q (ask (get_portfolio portfolio_id (us_company_id u))) (\<lambda>p.
     ask (\<lambda>s. Inr (p, portfolio_sql_summary (assets_of portfolio_id s)))))"

definition insert_asset :: "ident \<Rightarrow> asset_create \<Rightarrow> flt \<times> flt \<Rightarrow> (db, financed_asset) sres" where
  "insert_asset portfolio_id body figures =
     bind_s new_id (\<lambda>i.
     bind_s utcnow (\<lambda>now.
     let a = \<lparr>fa_id = i, fa_portfolio_id = portfolio_id, fa_asset_name = ac_asset_name body, fa_asset_class = ac_asset_class body,
           fa_outstanding_amount = ac_outstanding_amount body, fa_total_equity_debt = ac_total_equity_debt body,
           fa_investee_emissions_tco2e = ac_investee_emissions body, fa_attribution_factor = Some (py_round (fst figures) 6),
           fa_financed_emissions_tco2e = Some (snd figures), fa_data_quality_score = ac_data_quality_score body,
           fa_industry = ac_industry body, fa_region = ac_region body, fa_notes = ac_notes body, fa_created_at = now\<rparr>
     in bind_s (modify_s (\<lambda>s. s\<lparr>financed_assets := financed_assets s @ [a]\<rparr>)) (\<lambda>_. return_s a)))"

definition add_asset_route :: "auth_env \<Rightarrow> http_in \<Rightarrow> ident \<Rightarrow> asset_create \<Rightarrow> financed_asset req" where
  "add_asset_route auth rq portfolio_id body =
     bind_q (serve (require_plan auth rq ''supply_chain'')) (\<lambda>u.
     bind_q (check_body (asset_create_ok body)) (\<lambda>_.
     bind_q (ask (get_portfolio portfolio_id (us_company_id u))) (\<lambda>p.
     bind_q (serve (insert_asset portfolio_id body
       (calculate_financed_emissions (ac_outstanding_amount body) (ac_total_equity_debt body) (ac_investee_emissions body)))) (\<lambda>a.
     bind_q commit (\<lambda>_.
     bind_q (serve (record_audit (us_id u) (us_company_id u) ''create'' ''pcaf_asset'' (Some (fa_id a)) None)) (\<lambda>_.
     bind_q commit (\<lambda>_.
     return_q a)))))))"

definition list_assets_route :: "auth_env \<Rightarrow> http_in \<Rightarrow> ident \<Rightarrow> nat \<Rightarrow> nat \<Rightarrow> (financed_asset list \<times> nat) req" where
  "list_assets_route auth rq portfolio_id limit offset =
     bind_q (serve (get_current_user auth rq)) (\<lambda>u.
     bind_q (check_body (page_ok limit)) (\<lambda>_.
     bind_q (ask (get_portfolio portfolio_id (us_company_id u))) (\<lambda>p.
     ask (\<lambda>s. Inr (page fa_created_at limit offset (assets_of portfolio_id s))))))"

definition delete_asset_route :: "auth_env \<Rightarrow> http_in \<Rightarrow> ident \<Rightarrow> ident \<Rightarrow> unit req" where
  "delete_asset_route auth rq portfolio_id asset_id =
     bind_q (serve (require_plan auth rq ''supply_chain'')) (\<lambda>u.
     bind_q (ask (get_portfolio portfolio_id (us_company_id u))) (\<lambda>p.
     bind_q (ask (\<lambda>s. scalar_one_or_none (filter (\<lambda>a. fa_id a = asset_id) (assets_of portfolio_id s)))) (\<lambda>found.
     case found of
       None \<Rightarrow> raise_q (HTTPException 404 ''Asset not found'')
     | Some a \<Rightarrow>
         bind_q (write_db (\<lambda>s. s\<lparr>financed_assets := filter (\<lambda>a. fa_id a \<noteq> asset_id) (financed_assets s)\<rparr>)) (\<lambda>_.
         bind_q commit (\<lambda>_.
         bind_q (serve (record_audit (us_id u) (us_company_id u) ''delete'' ''pcaf_asset'' (Some asset_id) None)) (\<lambda>_.
         commit))))))"

end
