(* ===== verification/Regex.thy ===== *)
theory Regex
imports Py_String "HOL-Library.Sublist"
begin

text \<open>
  The part of Python's \<open>re\<close> the program uses, as a backtracking matcher: \<open>runs r\<close> lists the ways in which \<open>r\<close>
  matches a prefix of the text, in the order in which the engine tries them, each with the text left and the
  last value of the group. \<open>match\<close> and \<open>search\<close> take the first. A repetition does not go on after an
  iteration that consumed nothing.
\<close>

datatype regex =
    Sat "char \<Rightarrow> bool"
  | Eps
  | Seq regex regex
  | Alt regex regex
  | Many regex
  | Few regex
  | Grp regex
  | At_End

type_synonym match_state = "string \<times> string option"

primrec greedy :: "nat \<Rightarrow> (match_state \<Rightarrow> match_state list) \<Rightarrow> match_state \<Rightarrow> match_state list" where
  "greedy 0 m x = [x]"
| "greedy (Suc n) m x = concat (map (greedy n m) (filter (\<lambda>y. length (fst y) < length (fst x)) (m x))) @ [x]"

primrec reluctant :: "nat \<Rightarrow> (match_state \<Rightarrow> match_state list) \<Rightarrow> match_state \<Rightarrow> match_state list" where
  "reluctant 0 m x = [x]"
| "reluctant (Suc n) m x = x # concat (map (reluctant n m) (filter (\<lambda>y. length (fst y) < length (fst x)) (m x)))"

definition consumed :: "string \<Rightarrow> string \<Rightarrow> string" where
  "consumed s rest = take (length s - length rest) s"

primrec runs :: "regex \<Rightarrow> match_state \<Rightarrow> match_state list" where
  "runs (Sat p) = (\<lambda>(s, g). case s of [] \<Rightarrow> [] | c # cs \<Rightarrow> if p c then [(cs, g)] else [])"
| "runs Eps = (\<lambda>x. [x])"
| "runs (Seq r q) = (\<lambda>x. concat (map (runs q) (runs r x)))"
| "runs (Alt r q) = (\<lambda>x. runs r x @ runs q x)"
| "runs (Many r) = (\<lambda>x. greedy (length (fst x)) (runs r) x)"
| "runs (Few r) = (\<lambda>x. reluctant (length (fst x)) (runs r) x)"
| "runs (Grp r) = (\<lambda>x. map (\<lambda>y. (fst y, Some (consumed (fst x) (fst y)))) (runs r x))"
| "runs At_End = (\<lambda>x. if fst x = [] \<or> fst x = [CHR 0x0A] then [x] else [])"

text \<open>\<open>r.match(s)\<close>: the text matched and the group.\<close>

definition re_match :: "regex \<Rightarrow> string \<Rightarrow> (string \<times> string option) option" where
  "re_match r s = (case runs r (s, None) of [] \<Rightarrow> None | x # _ \<Rightarrow> Some (consumed s (fst x), snd x))"

primrec re_search :: "regex \<Rightarrow> string \<Rightarrow> (string \<times> string option) option" where
  "re_search r [] = re_match r []"
| "re_search r (c # s) = (case re_match r (c # s) of Some m \<Rightarrow> Some m | None \<Rightarrow> re_search r s)"

text \<open>\<open>re.split(r, s)\<close> for a pattern without a group that matches no empty text; the piece read so far is reversed\<close>

function re_split :: "regex \<Rightarrow> string \<Rightarrow> string \<Rightarrow> string list" where
  "re_split r piece [] = [rev piece]"
| "re_split r piece (c # s) =
     (case runs r (c # s, None) of
        x # _ \<Rightarrow> if length (fst x) < length (c # s) then rev piece # re_split r [] (fst x) else re_split r (c # piece) s
      | [] \<Rightarrow> re_split r (c # piece) s)"
  by pat_completeness auto

termination
  by (relation "measure (\<lambda>(r, piece, s). length s)") auto

section \<open>Abbreviations of the notation\<close>

abbreviation optional :: "regex \<Rightarrow> regex" where
  "optional r \<equiv> Alt r Eps"

abbreviation some :: "regex \<Rightarrow> regex" where
  "some r \<equiv> Seq r (Many r)"

fun times :: "nat \<Rightarrow> regex \<Rightarrow> regex" where
  "times 0 r = Eps"
| "times (Suc n) r = Seq r (times n r)"

fun seqs :: "regex list \<Rightarrow> regex" where
  "seqs [] = Eps"
| "seqs [r] = r"
| "seqs (r # rs) = Seq r (seqs rs)"

fun alts :: "regex list \<Rightarrow> regex" where
  "alts [] = Sat (\<lambda>_. False)"
| "alts [r] = r"
| "alts (r # rs) = Alt r (alts rs)"

definition one_of :: "string \<Rightarrow> regex" where
  "one_of cs = Sat (\<lambda>c. c \<in> set cs)"

definition literal :: "string \<Rightarrow> regex" where
  "literal s = seqs (map (\<lambda>c. Sat (\<lambda>d. d = c)) s)"

text \<open>A literal under \<open>re.IGNORECASE\<close>\<close>

definition any_case :: "string \<Rightarrow> regex" where
  "any_case s = seqs (map (\<lambda>c. Sat (\<lambda>d. lower_char d = lower_char c)) s)"

definition is_digit_char :: "char \<Rightarrow> bool" where
  "is_digit_char c = (let n = of_char c :: nat in 48 \<le> n \<and> n \<le> 57)"

definition digit :: regex where
  "digit = Sat is_digit_char"

definition space :: regex where
  "space = Sat is_space"

definition dot :: regex where
  "dot = Sat (\<lambda>c. c \<noteq> CHR 0x0A)"

text \<open>\<open>.\<close> under \<open>re.DOTALL\<close>\<close>

definition dot_all :: regex where
  "dot_all = Sat (\<lambda>_. True)"

section \<open>What a match says\<close>

text \<open>A run consumes a prefix of the text, and what it puts into the group is a part of the text.\<close>

definition reads_from :: "match_state \<Rightarrow> match_state \<Rightarrow> bool" where
  "reads_from x y \<longleftrightarrow> suffix (fst y) (fst x) \<and> (snd y = snd x \<or> (\<exists>w. snd y = Some w \<and> sublist w (fst x)))"

lemma reads_from_refl [simp, intro]: "reads_from x x"
  by (simp add: reads_from_def)

lemma suffix_sublist_trans: "sublist w s \<Longrightarrow> suffix s t \<Longrightarrow> sublist w t"
  using suffix_imp_sublist sublist_order.order_trans by blast

lemma reads_from_trans: "reads_from x y \<Longrightarrow> reads_from y z \<Longrightarrow> reads_from x z"
  unfolding reads_from_def using suffix_order.trans suffix_sublist_trans by metis

text \<open>A repetition ends where it started or goes on from where one more iteration ended.\<close>

lemma repeated_cases:
  assumes "y \<in> set (greedy (Suc n) m x) \<or> y \<in> set (reluctant (Suc n) m x)"
  obtains "y = x" | z where "z \<in> set (m x)" "y \<in> set (greedy n m z) \<or> y \<in> set (reluctant n m z)"
  using assms by (fastforce simp del: split_paired_All split_paired_Ex)

lemma repeated_reads:
  assumes "\<And>x y. y \<in> set (m x) \<Longrightarrow> reads_from x y"
  shows "y \<in> set (greedy n m x) \<or> y \<in> set (reluctant n m x) \<Longrightarrow> reads_from x y"
proof (induction n arbitrary: x y)
  case (Suc n)
  from Suc.prems show ?case
    by (cases rule: repeated_cases) (simp, meson Suc.IH assms reads_from_trans)
qed simp

lemma consumed_prefix: "suffix t s \<Longrightarrow> consumed s t @ t = s"
  by (auto simp: consumed_def suffix_def)

lemma runs_reads: "y \<in> set (runs r x) \<Longrightarrow> reads_from x y"
proof (induction r arbitrary: x y)
  case (Sat p)
  then show ?case by (cases x) (auto simp: reads_from_def suffix_Cons split: list.splits if_splits)
next
  case (Seq r q)
  then obtain z where "z \<in> set (runs r x)" "y \<in> set (runs q z)" by fastforce
  then show ?case using Seq.IH reads_from_trans by meson
next
  case (Many r)
  then show ?case using repeated_reads [of "runs r"] unfolding runs.simps by blast
next
  case (Few r)
  then show ?case using repeated_reads [of "runs r"] unfolding runs.simps by blast
next
  case (Grp r)
  then obtain z where "z \<in> set (runs r x)" "y = (fst z, Some (consumed (fst x) (fst z)))"
    unfolding runs.simps set_map by blast
  moreover from this have "reads_from x z" by (simp only: Grp.IH)
  moreover have "prefix (consumed (fst x) (fst z)) (fst x)" by (simp add: consumed_def take_is_prefix)
  ultimately show ?case by (auto simp: reads_from_def)
qed (auto split: if_splits)

lemma match_group: "re_match r s = Some (m, Some w) \<Longrightarrow> sublist w s"
  using runs_reads [of _ r "(s, None)"] by (fastforce simp: re_match_def reads_from_def split: list.splits)

lemma match_prefix: "re_match r s = Some (m, g) \<Longrightarrow> prefix m s"
  by (auto simp: re_match_def consumed_def take_is_prefix split: list.splits)

lemma search_sublist: "re_search r s = Some (m, g) \<Longrightarrow> sublist m s \<and> (\<forall>w. g = Some w \<longrightarrow> sublist w s)"
proof (induction s)
  case Nil
  then show ?case using match_group match_prefix by fastforce
next
  case (Cons c s)
  then show ?case
  proof (cases "re_match r (c # s)")
    case None
    then show ?thesis using Cons by (auto simp: sublist_Cons_right)
  next
    case (Some x)
    then show ?thesis using Cons.prems match_group match_prefix by fastforce
  qed
qed

lemma split_pieces: "p \<in> set (re_split r piece s) \<Longrightarrow> sublist p (rev piece @ s)"
proof (induction r piece s rule: re_split.induct)
  case (2 r piece c s)
  show ?case
  proof (cases "runs r (c # s, None)")
    case Nil
    then show ?thesis using 2 by simp
  next
    case (Cons x xs)
    show ?thesis
    proof (cases "length (fst x) < length (c # s) \<and> p \<noteq> rev piece")
      case True
      moreover from this have "p \<in> set (re_split r [] (fst x))" using "2.prems" Cons by auto
      ultimately have "sublist p (fst x)" using "2.IH"(2) [OF Cons] by simp
      moreover have "suffix (fst x) (c # s)" using runs_reads [of x r "(c # s, None)"] Cons by (simp add: reads_from_def)
      ultimately show ?thesis by (meson sublist_appendI sublist_order.order_trans suffix_sublist_trans suffix_appendI suffix_imp_sublist)
    next
      case False
      then show ?thesis using 2 Cons by (auto split: if_splits)
    qed
  qed
qed simp

lemma strip_sublist: "sublist (py_strip s) s"
proof -
  have "suffix (dropWhile is_space s) s" by (rule suffix_dropWhile)
  moreover have "prefix (py_strip s) (dropWhile is_space s)"
    by (metis py_strip_def rev_rev_ident suffix_dropWhile suffix_to_prefix)
  ultimately show ?thesis by (meson prefix_imp_sublist suffix_sublist_trans)
qed

end
