(* ===== verification/Text_Parser.thy ===== *)
theory Text_Parser
imports Regex Schemas Deps
begin

text \<open>
  Figures read from free text, \<open>api/services/llm_parser.py\<close>, on ASCII text. The language model is a parameter:
  whether a client can be had, its answer to a prompt (which may be null, and may raise), the JSON decoder and
  \<open>str\<close> of a value. The narrative of the audit trail, which has characters beyond ASCII, is left out.
\<close>

record llm_env =
  le_client :: bool
  le_call :: "string \<Rightarrow> nat \<Rightarrow> pyval res"
  le_loads :: "string \<Rightarrow> pyval res"
  le_str :: "pyval \<Rightarrow> string"

text \<open>\<open>json.JSONDecodeError\<close> is a \<open>ValueError\<close>; only that one is caught.\<close>

definition json_error :: exn where
  "json_error = ValueError ''JSONDecodeError''"

section \<open>The patterns\<close>

text \<open>\<open>(\d[\d,]*\.?\d*)\<close>\<close>

definition number_group :: regex where
  "number_group = Grp (seqs [digit, Many (Sat (\<lambda>c. is_digit_char c \<or> c = CHR '','')), optional (literal ''.''), Many digit])"

text \<open>\<open>\s*\<close>, \<open>(?:of\s+)?\<close>, \<open>[\s-]?\<close> and a word with an optional last letter\<close>

definition spaces :: regex where
  "spaces = Many space"

definition of_words :: regex where
  "of_words = optional (seqs [literal ''of'', some space])"

definition space_or_dash :: regex where
  "space_or_dash = optional (Sat (\<lambda>c. is_space c \<or> c = CHR ''-''))"

definition plural :: "string \<Rightarrow> regex" where
  "plural w = seqs [literal w, optional (literal ''s'')]"

definition revenue_words :: regex where
  "revenue_words = seqs [alts [literal ''revenue'', literal ''sales'', literal ''turnover''], spaces, of_words,
     optional (literal ''$''), spaces, number_group]"

definition gallons_of :: "string \<Rightarrow> regex" where
  "gallons_of fuel = seqs [number_group, spaces, plural ''gallon'', spaces, of_words, literal fuel]"

definition patterns :: "(regex \<times> string \<times> flt) list" where
  "patterns =
    [(seqs [number_group, spaces, alts [literal ''kwh'', seqs [literal ''kilowatt'', space_or_dash, plural ''hour'']]],
        ''electricity_kwh'', lit 1),
     (seqs [number_group, spaces, alts [literal ''mwh'', seqs [literal ''megawatt'', space_or_dash, plural ''hour'']]],
        ''electricity_kwh'', lit 1000),
     (seqs [number_group, spaces, plural ''therm''], ''natural_gas_therms'', lit 1),
     (seqs [number_group, spaces, literal ''ccf'', spaces, of_words,
        alts [seqs [literal ''natural'', some space, literal ''gas''], literal ''gas'']], ''natural_gas_therms'', lit (10232 / 10000)),
     (gallons_of ''diesel'', ''diesel_gallons'', lit 1),
     (gallons_of ''gasoline'', ''gasoline_gallons'', lit 1),
     (gallons_of ''propane'', ''propane_gallons'', lit 1),
     (seqs [number_group, spaces, literal ''miles'', spaces, alts [literal ''driven'', literal ''traveled'', literal ''fleet'']],
        ''fleet_miles'', lit 1),
     (seqs [literal ''fleet'', spaces, of_words, number_group, spaces, literal ''miles''], ''fleet_miles'', lit 1),
     (seqs [number_group, spaces, alts [plural ''employee'', literal ''staff'', literal ''headcount'', literal ''fte'']],
        ''employee_count'', lit 1),
     (seqs [revenue_words, spaces, alts [seqs [literal ''m'', optional (literal ''illion'')], literal ''M'']],
        ''revenue_usd'', lit 1000000),
     (seqs [revenue_words, spaces, alts [seqs [literal ''b'', optional (literal ''illion'')], literal ''B'']],
        ''revenue_usd'', lit 1000000000),
     (revenue_words, ''revenue_usd'', lit 1),
     (seqs [number_group, spaces, optional (seqs [literal ''metric'', some space]), alts [plural ''tonne'', plural ''ton''],
        spaces, of_words, literal ''waste''], ''waste_metric_tons'', lit 1),
     (seqs [number_group, spaces, seqs [literal ''ton'', space_or_dash, plural ''mile''], spaces, of_words,
        alts [literal ''freight'', literal ''shipping'']], ''freight_ton_miles'', lit 1)]"

section \<open>The rules\<close>

definition digit_value :: "char \<Rightarrow> nat" where
  "digit_value c = of_char c - 48"

text \<open>\<open>float(s)\<close> of digits with at most one point; other texts, some of which \<open>float\<close> accepts, never reach it\<close>

definition float_of_digits :: "string \<Rightarrow> flt res" where
  "float_of_digits s =
     (let whole = takeWhile is_digit_char s; rest = dropWhile is_digit_char s;
          fraction = (if rest = [] then [] else tl rest)
      in if whole \<noteq> [] \<and> (rest = [] \<or> hd rest = CHR ''.'') \<and> list_all is_digit_char fraction
         then Inr (flt_of_rat (of_nat (foldl (\<lambda>n c. 10 * n + digit_value c) 0 (whole @ fraction)) / 10 ^ length fraction))
         else Inl (ValueError ''could not convert string to float''))"

definition parse_number :: "string \<Rightarrow> flt res" where
  "parse_number s = float_of_digits (filter (\<lambda>c. c \<noteq> CHR '','') s)"

definition read_pattern :: "string \<Rightarrow> pydict \<Rightarrow> regex \<times> string \<times> flt \<Rightarrow> pydict" where
  "read_pattern text_lower result p =
     (case p of (r, key, multiplier) \<Rightarrow>
        (case re_search r text_lower of
           Some (_, Some figures) \<Rightarrow>
             (case parse_number figures of
                Inl e \<Rightarrow> result
              | Inr n \<Rightarrow> if map_of result key = None then dict_set key (PNum (py_round (n * multiplier) 2)) result else result)
         | _ \<Rightarrow> result))"

definition parse_text_rule_based :: "string \<Rightarrow> pydict" where
  "parse_text_rule_based text = foldl (read_pattern (py_lower text)) [] patterns"

section \<open>With the language model\<close>

definition nl :: string where
  "nl = [CHR 0x0A]"

fun unlines :: "string list \<Rightarrow> string" where
  "unlines [] = []"
| "unlines [l] = l"
| "unlines (l # ls) = l @ nl @ unlines ls"

definition extract_prompt_prefix :: string where
  "extract_prompt_prefix = unlines
    [''You are a carbon accounting data extraction expert. Extract structured operational data from the following text.'',
     '''',
     ''Return ONLY a JSON object with these possible keys (omit any not found):'',
     ''- electricity_kwh: annual electricity consumption in kWh'',
     ''- natural_gas_therms: annual natural gas in therms'',
     ''- diesel_gallons: annual diesel in gallons'',
     ''- gasoline_gallons: annual gasoline in gallons'',
     ''- propane_gallons: annual propane in gallons'',
     ''- fleet_miles: annual fleet vehicle miles'',
     ''- employee_count: number of employees'',
     ''- revenue_usd: annual revenue in USD'',
     ''- purchased_goods_usd: annual purchased goods/services spend in USD'',
     ''- business_travel_miles: annual business travel miles'',
     ''- waste_metric_tons: annual waste in metric tons'',
     ''- freight_ton_miles: annual freight ton-miles'',
     ''- grid_region: electricity grid region code (e.g., CAMX, RFCW)'',
     ''- steam_mmbtu: annual steam/heating in MMBtu'',
     '''',
     ''Text to parse:'',
     ''<user_input>'']"

definition extract_prompt_suffix :: string where
  "extract_prompt_suffix = unlines [''</user_input>'', '''', ''JSON:'']"

text \<open>The first \<open>{...}\<close> without a brace inside, of a text; anything else than a text raises.\<close>

definition braces :: regex where
  "braces = seqs [literal ''{'', some (Sat (\<lambda>c. c \<noteq> CHR ''}'')), literal ''}'']"

definition load_found :: "llm_env \<Rightarrow> regex \<Rightarrow> pyval \<Rightarrow> pyval res" where
  "load_found env r content =
     (case content of
        PStr t \<Rightarrow> (case re_search r t of Some (found, _) \<Rightarrow> le_loads env found | None \<Rightarrow> le_loads env t)
      | _ \<Rightarrow> Inl TypeError)"

definition set_item :: "string \<Rightarrow> pyval \<Rightarrow> pyval \<Rightarrow> pydict res" where
  "set_item k v d = (case d of PDict d \<Rightarrow> Inr (dict_set k v d) | _ \<Rightarrow> Inl TypeError)"

definition parser_catches :: "exn \<Rightarrow> bool" where
  "parser_catches e \<longleftrightarrow> e \<in> {json_error, KeyError, TypeError, OSError} \<or> (\<exists>m. e = RuntimeError m)"

definition parse_unstructured_text :: "llm_env \<Rightarrow> string \<Rightarrow> pydict res" where
  "parse_unstructured_text env text =
     (let by_rules = dict_set ''_method'' (PStr ''rule_based'') (parse_text_rule_based text)
      in if \<not> le_client env then Inr by_rules
         else case bind_r (le_call env (extract_prompt_prefix @ take 4000 text @ extract_prompt_suffix) 1024) (\<lambda>content.
                   bind_r (load_found env braces content) (set_item ''_method'' (PStr ''llm''))) of
             Inl e \<Rightarrow> if parser_catches e then Inr by_rules else Inl e
           | Inr result \<Rightarrow> Inr result)"

text \<open>\<open>POST /ai/parse-text\<close> of \<open>api/routes/ai_routes.py\<close>\<close>

definition parse_text_route :: "auth_env \<Rightarrow> llm_env \<Rightarrow> http_in \<Rightarrow> string \<Rightarrow> (pydict \<times> pyval) req" where
  "parse_text_route auth env rq text =
     bind_q (serve (get_current_user auth rq)) (\<lambda>u.
     bind_q (check_body (length_ok 1 10000 text)) (\<lambda>_.
     bind_q (ask (\<lambda>_. parse_unstructured_text env text)) (\<lambda>extracted.
     return_q (dict_del ''_method'' extracted, dict_get extracted ''_method'' (PStr ''rule_based'')))))"

section \<open>What is read\<close>

text \<open>A figure that is read is a number that is not negative, under the key of a pattern; the first pattern of a key wins.\<close>

definition sound_figures :: "pydict \<Rightarrow> bool" where
  "sound_figures d \<longleftrightarrow> dict_ok d \<and>
     (\<forall>(k, v) \<in> set d. k \<in> set (map (fst \<circ> snd) patterns) \<and> (\<exists>n. v = PNum n \<and> 0 \<le> n))"

lemma dict_set_subset: "set (dict_set k v d) \<subseteq> insert (k, v) (set d)"
  by (induction k v d rule: dict_set.induct) auto

lemma float_of_digits_nonneg: "float_of_digits s = Inr n \<Longrightarrow> 0 \<le> n"
  by (auto simp: float_of_digits_def Let_def intro!: flt_of_rat_nonneg split: if_splits)

lemma pattern_multiplier: "(r, k, m) \<in> set patterns \<Longrightarrow> \<exists>c. m = Fin c \<and> 0 < c"
proof -
  assume "(r, k, m) \<in> set patterns"
  then have "m \<in> set (map (snd \<circ> snd) patterns)" by force
  then have "m \<in> flt_of_rat ` {1, 1000, 10232 / 10000, 1000000, 1000000000}"
    unfolding patterns_def list.map comp_apply snd_conv list.set image_insert by blast
  then obtain x where "x \<in> {1, 1000, 10232 / 10000, 1000000, 1000000000}" "m = flt_of_rat x" by (rule imageE)
  moreover from this have "1 \<le> x" "x \<le> 1000000000" by auto
  moreover from this have "0 < rnd x" using rnd_mono [of 1 x] rnd_of_int [of 1] by simp
  ultimately show ?thesis by (simp add: flt_of_rat_small)
qed

lemma read_pattern_cases:
  assumes "p \<in> set patterns"
  obtains "read_pattern t d p = d"
  | k n where "read_pattern t d p = dict_set k (PNum n) d" "0 \<le> n" "k \<in> set (map (fst \<circ> snd) patterns)"
proof -
  obtain r k m where p: "p = (r, k, m)" by (cases p)
  obtain c where m: "m = Fin c" "0 < c" using pattern_multiplier assms p by blast
  have k: "k \<in> set (map (fst \<circ> snd) patterns)" using assms p by force
  have "read_pattern t d p = d \<or> (\<exists>n x. float_of_digits n = Inr x \<and>
      read_pattern t d p = dict_set k (PNum (py_round (x * m) 2)) d)"
    unfolding read_pattern_def p parse_number_def by (auto split: option.splits sum.splits)
  then show thesis
    using that k m float_of_digits_nonneg flt_round_nonneg flt_mul_nonneg by metis
qed

lemma read_pattern_sound:
  assumes "sound_figures d" "p \<in> set patterns"
  shows "sound_figures (read_pattern t d p)"
  using assms(2)
proof (cases rule: read_pattern_cases [where t = t and d = d])
  case (2 k n)
  have "x \<in> set (read_pattern t d p) \<Longrightarrow> x = (k, PNum n) \<or> x \<in> set d" for x
    unfolding 2(1) using dict_set_subset by fastforce
  moreover have "dict_ok (read_pattern t d p)" unfolding 2(1) using assms(1) by (intro dict_ok_set) (simp add: sound_figures_def)
  ultimately show ?thesis
    using assms(1) 2(2,3) unfolding sound_figures_def by (intro conjI ballI) (simp, blast)
qed (use assms(1) in simp)

lemma parsed_sound: "sound_figures (parse_text_rule_based text)"
  unfolding parse_text_rule_based_def
  by (rule foldl_invariant) (simp_all add: read_pattern_sound, simp add: sound_figures_def)

end
