(* ===== verification/Questionnaires.thy ===== *)
theory Questionnaires
imports Text_Parser Carbon Deps Prediction
begin

text \<open>
  Questionnaires: reading the text of an uploaded document and the questions in it
  (\<open>api/services/questionnaire.py\<close>), on ASCII text, and the templates of \<open>api/services/templates.py\<close>. A file is
  the list of its bytes. The readers of PDF, Word and Excel files and the decoder of UTF-8 are parameters, as is
  the language model; the reader of CSV is the state machine of Python's \<open>csv\<close>.
\<close>

section \<open>The text of a document\<close>

text \<open>\<open>csv.reader\<close>: the state, the field read so far (reversed) and the fields of the row so far (reversed)\<close>

datatype csv_mode = Start_Record | Start_Field | In_Field | In_Quoted_Field | Quote_In_Quoted_Field | Eat_Crnl

record csv_state =
  cv_mode :: csv_mode
  cv_field :: string
  cv_fields :: "string list"

definition csv_error :: exn where
  "csv_error = OtherError ''csv.Error''"

definition save_field :: "csv_mode \<Rightarrow> csv_state \<Rightarrow> csv_state" where
  "save_field m v = \<lparr>cv_mode = m, cv_field = [], cv_fields = rev (cv_field v) # cv_fields v\<rparr>"

definition add_char :: "char \<Rightarrow> csv_mode \<Rightarrow> csv_state \<Rightarrow> csv_state res" where
  "add_char c m v =
     (if 131072 \<le> length (cv_field v) then Inl csv_error else Inr (v\<lparr>cv_mode := m, cv_field := c # cv_field v\<rparr>))"

definition line_break :: "char option \<Rightarrow> bool" where
  "line_break c \<longleftrightarrow> c \<in> {None, Some (CHR 0x0A), Some (CHR 0x0D)}"

definition after_break :: "char option \<Rightarrow> csv_mode" where
  "after_break c = (if c = None then Start_Record else Eat_Crnl)"

text \<open>A character of a line, or the end of the line\<close>

definition csv_field_start :: "char option \<Rightarrow> csv_state \<Rightarrow> csv_state res" where
  "csv_field_start c v =
     (if line_break c then Inr (save_field (after_break c) v)
      else if c = Some (CHR 0x22) then Inr (v\<lparr>cv_mode := In_Quoted_Field\<rparr>)
      else if c = Some (CHR '','') then Inr (save_field Start_Field v)
      else add_char (the c) In_Field v)"

definition csv_char :: "csv_state \<Rightarrow> char option \<Rightarrow> csv_state res" where
  "csv_char v c =
     (case cv_mode v of
        Start_Record \<Rightarrow>
          if c = None then Inr v
          else if line_break c then Inr (v\<lparr>cv_mode := Eat_Crnl\<rparr>)
          else csv_field_start c v
      | Start_Field \<Rightarrow> csv_field_start c v
      | In_Field \<Rightarrow>
          if line_break c then Inr (save_field (after_break c) v)
          else if c = Some (CHR '','') then Inr (save_field Start_Field v)
          else add_char (the c) In_Field v
      | In_Quoted_Field \<Rightarrow>
          if c = None then Inr v
          else if c = Some (CHR 0x22) then Inr (v\<lparr>cv_mode := Quote_In_Quoted_Field\<rparr>)
          else add_char (the c) In_Quoted_Field v
      | Quote_In_Quoted_Field \<Rightarrow>
          if line_break c then Inr (save_field (after_break c) v)
          else if c = Some (CHR 0x22) then add_char (the c) In_Quoted_Field v
          else if c = Some (CHR '','') then Inr (save_field Start_Field v)
          else add_char (the c) In_Field v
      | Eat_Crnl \<Rightarrow>
          if c = None then Inr (v\<lparr>cv_mode := Start_Record\<rparr>)
          else if line_break c then Inr v
          else Inl csv_error)"

fun fold_r :: "('s \<Rightarrow> 'a \<Rightarrow> 's res) \<Rightarrow> 's \<Rightarrow> 'a list \<Rightarrow> 's res" where
  "fold_r f s [] = Inr s"
| "fold_r f s (x # xs) = bind_r (f s x) (\<lambda>s. fold_r f s xs)"

definition csv_line :: "csv_state \<Rightarrow> string \<Rightarrow> csv_state res" where
  "csv_line v line = fold_r csv_char v (map Some line @ [None])"

definition csv_start :: csv_state where
  "csv_start = \<lparr>cv_mode = Start_Record, cv_field = [], cv_fields = []\<rparr>"

text \<open>The rows of the lines: a row ends with a line that does not leave a quoted field open.\<close>

fun csv_rows :: "csv_state \<Rightarrow> string list \<Rightarrow> string list list res" where
  "csv_rows v [] =
     Inr (if cv_field v \<noteq> [] \<or> cv_mode v = In_Quoted_Field then [rev (cv_fields (save_field Start_Record v))] else [])"
| "csv_rows v (line # lines) =
     bind_r (csv_line v line) (\<lambda>w.
     if cv_mode w = Start_Record then bind_r (csv_rows csv_start lines) (\<lambda>rows. Inr (rev (cv_fields w) # rows))
     else csv_rows w lines)"

text \<open>The lines of \<open>io.StringIO(text)\<close>, each with its line feed, and \<open>text.split(...)\<close>\<close>

fun split_lines :: "string \<Rightarrow> string \<Rightarrow> string list" where
  "split_lines line [] = (if line = [] then [] else [rev line])"
| "split_lines line (c # s) = (if c = CHR 0x0A then rev (c # line) # split_lines [] s else split_lines (c # line) s)"

fun split_char :: "char \<Rightarrow> string \<Rightarrow> string list" where
  "split_char d [] = [[]]"
| "split_char d (c # s) =
     (if c = d then [] # split_char d s
      else case split_char d s of [] \<Rightarrow> [[c]] | w # ws \<Rightarrow> (c # w) # ws)"

record doc_env =
  de_decode :: "string \<Rightarrow> string"
  de_pdf :: "string \<Rightarrow> string res"
  de_docx :: "string \<Rightarrow> string res"
  de_xlsx :: "string \<Rightarrow> string res"

definition extract_text_from_csv :: "doc_env \<Rightarrow> string \<Rightarrow> string res" where
  "extract_text_from_csv env content =
     bind_r (csv_rows csv_start (split_lines [] (de_decode env content))) (\<lambda>rows.
     Inr (join nl (map (join '' | '') rows)))"

definition EXTRACTORS :: "doc_env \<Rightarrow> (string, string \<Rightarrow> string res) dict" where
  "EXTRACTORS env =
     [(''pdf'', de_pdf env), (''docx'', de_docx env), (''xlsx'', de_xlsx env), (''csv'', extract_text_from_csv env)]"

definition extract_text :: "doc_env \<Rightarrow> string \<Rightarrow> string \<Rightarrow> string res" where
  "extract_text env content file_type =
     (case map_of (EXTRACTORS env) file_type of None \<Rightarrow> Inr (de_decode env content) | Some extractor \<Rightarrow> extractor content)"

section \<open>Questions by rules\<close>

text \<open>The patterns; the bullet among the marks of the third is beyond ASCII.\<close>

definition question_end :: regex where
  "question_end = seqs [Grp (seqs [some dot, literal ''?'']), spaces, At_End]"

definition question_patterns :: "regex list" where
  "question_patterns =
    [seqs [spaces, alts [seqs [any_case ''Q'', some digit], seqs [any_case ''Question'', some space, some digit]],
       one_of ''.:'', spaces, Grp (some dot)],
     seqs [spaces, some digit, one_of ''.)'', some space, question_end],
     seqs [spaces, one_of ''-'', some space, question_end],
     seqs [Grp (seqs [times 20 dot, Few dot, literal ''?'']), spaces, At_End]]"

definition category_keywords :: "(string, string list) dict" where
  "category_keywords =
    [(''emissions'', [''emission'', ''ghg'', ''co2'', ''carbon'', ''scope 1'', ''scope 2'', ''scope 3'', ''greenhouse'']),
     (''energy'', [''energy'', ''electricity'', ''renewable'', ''solar'', ''wind'', ''power'', ''fuel'']),
     (''waste'', [''waste'', ''recycl'', ''circular'', ''landfill'', ''disposal'']),
     (''water'', [''water'', ''consumption'', ''discharge'', ''effluent'']),
     (''transport'', [''transport'', ''logistics'', ''fleet'', ''vehicle'', ''freight'', ''shipping'']),
     (''governance'', [''governance'', ''board'', ''policy'', ''strategy'', ''target'', ''commitment'']),
     (''supply_chain'', [''supply chain'', ''supplier'', ''procurement'', ''sourcing'', ''vendor'']),
     (''reporting'', [''report'', ''disclosure'', ''cdp'', ''tcfd'', ''gri'', ''csrd'', ''sbti''])]"

definition classify_question :: "string \<Rightarrow> string option" where
  "classify_question text =
     map_option fst (find (\<lambda>(category, keywords). \<exists>kw \<in> set keywords. contains kw (py_lower text)) category_keywords)"

type_synonym found = "(string \<times> string option) list"

definition add_question :: "nat \<Rightarrow> string \<Rightarrow> found \<Rightarrow> found" where
  "add_question shortest q_text qs =
     (if q_text \<notin> set (map fst qs) \<and> shortest < length q_text
      then qs @ [(q_text, classify_question q_text)] else qs)"

definition read_line :: "found \<Rightarrow> string \<Rightarrow> found" where
  "read_line qs line =
     (let line = py_strip line
      in if length line < 15 then qs
         else case List.map_filter (\<lambda>p. re_match p line) question_patterns of
           (_, Some q) # _ \<Rightarrow> add_question 10 (py_strip q) qs
         | _ \<Rightarrow> qs)"

definition read_sentence :: "found \<Rightarrow> string \<Rightarrow> found" where
  "read_sentence qs sentence =
     (let sentence = py_strip sentence
      in if sentence \<noteq> [] \<and> last sentence = CHR ''?'' then add_question 15 sentence qs else qs)"

definition extract_questions_rule_based :: "string \<Rightarrow> found" where
  "extract_questions_rule_based text =
     (let qs = foldl read_line [] (split_char (CHR 0x0A) text)
      in if qs = [] then foldl read_sentence [] (re_split (seqs [one_of ''.!'', some space]) [] text) else qs)"

section \<open>With the language model\<close>

definition extract_questions_prompt :: "string \<Rightarrow> string" where
  "extract_questions_prompt text = unlines
    [''You are an expert sustainability questionnaire analyzer. Extract all individual questions from this document text.'',
     '''',
     ''For each question, provide:'',
     ''1. The exact question text'',
     ''2. A category: emissions, energy, waste, water, transport, governance, supply_chain, or reporting'',
     '''',
     ''Return a JSON array of objects with keys: \"question_text\", \"category\"'',
     '''',
     ''Document text:'',
     text,
     '''',
     ''JSON array:'']"

record company_facts =
  cf_name :: string
  cf_industry :: string
  cf_region :: string
  cf_scope1 :: flt
  cf_scope2 :: flt
  cf_scope3 :: flt
  cf_total :: flt

text \<open>\<open>str.format\<close> of a value\<close>

definition format_value :: "llm_env \<Rightarrow> pyval \<Rightarrow> string" where
  "format_value env v = (case v of PStr s \<Rightarrow> s | _ \<Rightarrow> le_str env v)"

definition draft_answer_prompt :: "llm_env \<Rightarrow> company_facts \<Rightarrow> pyval \<Rightarrow> string" where
  "draft_answer_prompt env cf question = unlines
    [''You are a sustainability reporting expert helping a company respond to a questionnaire.'',
     '''',
     ''Company: '' @ cf_name cf,
     ''Industry: '' @ cf_industry cf,
     ''Region: '' @ cf_region cf,
     ''Latest Emissions (if available):'',
     ''- Scope 1: '' @ format_value env (PNum (cf_scope1 cf)) @ '' tCO2e'',
     ''- Scope 2: '' @ format_value env (PNum (cf_scope2 cf)) @ '' tCO2e'',
     ''- Scope 3: '' @ format_value env (PNum (cf_scope3 cf)) @ '' tCO2e'',
     ''- Total: '' @ format_value env (PNum (cf_total cf)) @ '' tCO2e'',
     '''',
     ''Question: '' @ format_value env question,
     '''',
     ''Write a professional, accurate draft answer (2-4 sentences). If you don't have enough data, note what information would be needed. Be factual, not speculative.'']"

text \<open>The greedy \<open>\[.*\]\<close>, across lines\<close>

definition brackets :: regex where
  "brackets = seqs [literal ''['', Many dot_all, literal '']'']"

definition found_value :: "found \<Rightarrow> pyval" where
  "found_value qs = PList (map (\<lambda>(q, category).
     PDict [(''question_text'', PStr q), (''category'', case category of None \<Rightarrow> PNone | Some c \<Rightarrow> PStr c)]) qs)"

definition extract_catches :: "exn \<Rightarrow> bool" where
  "extract_catches e \<longleftrightarrow> e \<in> {json_error, KeyError, TypeError, OSError}"

definition extract_questions_llm :: "llm_env \<Rightarrow> string \<Rightarrow> pyval res" where
  "extract_questions_llm env text =
     (let by_rules = found_value (extract_questions_rule_based text)
      in if \<not> le_client env then Inr by_rules
         else case bind_r (le_call env (extract_questions_prompt (take 8000 text)) 2048) (load_found env brackets) of
             Inl e \<Rightarrow> if extract_catches e then Inr by_rules else Inl e
           | Inr found \<Rightarrow> Inr found)"

definition answer_templates :: "string \<Rightarrow> (string, string) dict" where
  "answer_templates company_name =
    [(''emissions'', company_name @ '' tracks greenhouse gas emissions across Scope 1, 2, and 3 in accordance with the GHG Protocol Corporate Standard. Detailed emissions data is available in our annual sustainability report.''),
     (''energy'', company_name @ '' monitors energy consumption across all facilities and is actively pursuing energy efficiency improvements and renewable energy procurement.''),
     (''waste'', company_name @ '' has implemented waste reduction programs and tracks waste generation, recycling rates, and disposal methods across operations.''),
     (''transport'', company_name @ '' monitors transportation and logistics emissions, including fleet operations and freight distribution, and evaluates opportunities for optimization.''),
     (''governance'', company_name @ '' maintains a sustainability governance structure with board-level oversight. Our sustainability strategy is integrated into overall business planning.''),
     (''supply_chain'', company_name @ '' engages with suppliers on sustainability performance and tracks supply chain emissions as part of our Scope 3 inventory.''),
     (''reporting'', company_name @ '' discloses environmental performance through established reporting frameworks. We are committed to transparent and accurate sustainability reporting.'')]"

text \<open>\<open>question.lower()\<close> of another value than a text raises.\<close>

definition draft_answer_rule_based :: "pyval \<Rightarrow> string \<Rightarrow> string res" where
  "draft_answer_rule_based question company_name =
     (case question of
        PStr q \<Rightarrow>
          Inr (let other = company_name @ '' is committed to addressing this area as part of our sustainability strategy. Further details can be provided upon request.''
            in case classify_question q of None \<Rightarrow> other | Some category \<Rightarrow> dict_get (answer_templates company_name) category other)
      | _ \<Rightarrow> Inl AttributeError)"

definition generate_draft_answer :: "llm_env \<Rightarrow> company_facts \<Rightarrow> pyval \<Rightarrow> (string \<times> flt) res" where
  "generate_draft_answer env cf question =
     (let by_rules = bind_r (draft_answer_rule_based question (cf_name cf)) (\<lambda>a. Inr (a, lit (3 / 10)))
      in if \<not> le_client env then by_rules
         else case bind_r (le_call env (draft_answer_prompt env cf question) 512) (\<lambda>answer.
                   case answer of PStr a \<Rightarrow> Inr (py_strip a, lit (75 / 100)) | _ \<Rightarrow> Inl AttributeError) of
             Inl e \<Rightarrow> if e \<in> {KeyError, TypeError, OSError} then by_rules else Inl e
           | Inr r \<Rightarrow> Inr r)"

section \<open>Processing\<close>

text \<open>What \<open>for q in v\<close>, \<open>q[...]\<close> and \<open>q.get(...)\<close> do with a decoded value\<close>

fun iterate :: "pyval \<Rightarrow> pyval list res" where
  "iterate (PList l) = Inr l"
| "iterate (PDict d) = Inr (map (PStr \<circ> fst) d)"
| "iterate (PStr s) = Inr (map (\<lambda>c. PStr [c]) s)"
| "iterate v = Inl TypeError"

fun get_item :: "pyval \<Rightarrow> string \<Rightarrow> pyval res" where
  "get_item (PDict d) k = (case map_of d k of None \<Rightarrow> Inl KeyError | Some v \<Rightarrow> Inr v)"
| "get_item v k = Inl TypeError"

fun get_or_none :: "pyval \<Rightarrow> string \<Rightarrow> pyval res" where
  "get_or_none (PDict d) k = Inr (dict_get d k PNone)"
| "get_or_none v k = Inl AttributeError"

text \<open>The columns of a question that come from the decoded value, as the database takes them at the commit\<close>

definition question_column :: "pyval \<Rightarrow> string res" where
  "question_column v = (case v of PStr s \<Rightarrow> Inr s | PNone \<Rightarrow> Inl IntegrityError | _ \<Rightarrow> Inl DataError)"

definition category_column :: "pyval \<Rightarrow> string option res" where
  "category_column v =
     (case v of PNone \<Rightarrow> Inr None | PStr s \<Rightarrow> if length s \<le> 100 then Inr (Some s) else Inl DataError | _ \<Rightarrow> Inl DataError)"

record drafted =
  dq_text :: pyval
  dq_category :: pyval
  dq_answer :: string
  dq_confidence :: flt

definition draft_question :: "llm_env \<Rightarrow> company_facts \<Rightarrow> pyval \<Rightarrow> drafted res" where
  "draft_question env cf q =
     bind_r (get_item q ''question_text'') (\<lambda>text.
     bind_r (generate_draft_answer env cf text) (\<lambda>(draft, confidence).
     bind_r (get_or_none q ''category'') (\<lambda>category.
     Inr \<lparr>dq_text = text, dq_category = category, dq_answer = draft, dq_confidence = confidence\<rparr>)))"

definition insert_question :: "ident \<Rightarrow> int \<times> drafted \<Rightarrow> (db, unit) sres" where
  "insert_question questionnaire_id q =
     bind_s (lift_s (question_column (dq_text (snd q)))) (\<lambda>text.
     bind_s (lift_s (category_column (dq_category (snd q)))) (\<lambda>category.
     bind_s new_id (\<lambda>i.
     bind_s utcnow (\<lambda>now.
     modify_s (\<lambda>s. s\<lparr>questions := questions s @
       [\<lparr>qq_id = i, qq_questionnaire_id = questionnaire_id, qq_question_number = fst q, qq_question_text = text,
         qq_category = category, qq_ai_draft_answer = Some (dq_answer (snd q)), qq_human_answer = None, qq_status = Question_Draft,
         qq_confidence = dq_confidence (snd q), qq_created_at = now\<rparr>]\<rparr>)))))"

fun each_s :: "('a \<Rightarrow> ('s, unit) sres) \<Rightarrow> 'a list \<Rightarrow> ('s, unit) sres" where
  "each_s f [] = return_s ()"
| "each_s f (x # xs) = bind_s (f x) (\<lambda>_. each_s f xs)"

definition numbered :: "'a list \<Rightarrow> (int \<times> 'a) list" where
  "numbered xs = zip (map (\<lambda>n. int n + 1) [0..<length xs]) xs"

definition own_questionnaire :: "ident \<Rightarrow> ident \<Rightarrow> db \<Rightarrow> questionnaire_doc option res" where
  "own_questionnaire questionnaire_id c s =
     scalar_one_or_none (filter (\<lambda>q. qn_id q = questionnaire_id \<and> qn_company_id q = c \<and> qn_deleted_at q = None) (questionnaires s))"

definition update_doc :: "ident \<Rightarrow> (questionnaire_doc \<Rightarrow> questionnaire_doc) \<Rightarrow> unit req" where
  "update_doc i f = write_db (\<lambda>s. s\<lparr>questionnaires := update_row qn_id i f (questionnaires s)\<rparr>)"

definition latest_report :: "ident \<Rightarrow> db \<Rightarrow> emission_report option" where
  "latest_report c s = (case order_by_desc er_created_at (live_reports c s) of [] \<Rightarrow> None | r # _ \<Rightarrow> Some r)"

definition facts_of :: "company \<Rightarrow> emission_report option \<Rightarrow> company_facts" where
  "facts_of co report =
     \<lparr>cf_name = co_name co, cf_industry = co_industry co, cf_region = co_region co,
       cf_scope1 = (case report of None \<Rightarrow> 0 | Some r \<Rightarrow> er_scope1 r), cf_scope2 = (case report of None \<Rightarrow> 0 | Some r \<Rightarrow> er_scope2 r),
       cf_scope3 = (case report of None \<Rightarrow> 0 | Some r \<Rightarrow> er_scope3 r), cf_total = (case report of None \<Rightarrow> 0 | Some r \<Rightarrow> er_total r)\<rparr>"

definition found_questions :: "llm_env \<Rightarrow> string \<Rightarrow> pyval res" where
  "found_questions env text =
     bind_r (extract_questions_llm env text) (\<lambda>raw.
     Inr (if truthy raw then raw else found_value (extract_questions_rule_based text)))"

definition process_questionnaire :: "llm_env \<Rightarrow> ident \<Rightarrow> ident \<Rightarrow> unit req" where
  "process_questionnaire env questionnaire_id c =
     bind_q (ask (own_questionnaire questionnaire_id c)) (\<lambda>found.
     case found of
       None \<Rightarrow> raise_q (ValueError ''Questionnaire not found'')
     | Some doc \<Rightarrow>
         bind_q (update_doc questionnaire_id (\<lambda>q. q\<lparr>qn_status := Some Q_Extracting\<rparr>)) (\<lambda>_.
         bind_q commit (\<lambda>_.
         bind_q (ask (\<lambda>_. found_questions env (case qn_extracted_text doc of None \<Rightarrow> [] | Some t \<Rightarrow> t))) (\<lambda>raw.
         bind_q (write_db (\<lambda>s. s\<lparr>questions := filter (\<lambda>q. qq_questionnaire_id q \<noteq> questionnaire_id) (questions s)\<rparr>)) (\<lambda>_.
         bind_q (ask (get_company_row c)) (\<lambda>co.
         bind_q (ask (\<lambda>s. Inr (latest_report c s))) (\<lambda>report.
         bind_q (ask (\<lambda>_. bind_r (iterate raw) (mapM_r (draft_question env (facts_of co report))))) (\<lambda>drafts.
         bind_q (serve (each_s (insert_question questionnaire_id) (numbered drafts))) (\<lambda>_.
         bind_q (update_doc questionnaire_id (\<lambda>q. q\<lparr>qn_status := Some Q_Extracted\<rparr>)) (\<lambda>_.
         commit))))))))))"

section \<open>Templates\<close>

record template =
  tp_title :: string
  tp_description :: string
  tp_framework :: string
  tp_questions :: "(string \<times> string) list"

definition cdp_climate :: template where
  "cdp_climate = \<lparr>tp_title = ''CDP Climate Change Questionnaire'',
   tp_description = ''Core questions from the CDP Climate Change disclosure framework.'',
   tp_framework = ''CDP'',
   tp_questions =
    [(''Does your organization have a climate transition plan?'', ''governance''),
     (''What is your organization's gross global Scope 1 emissions in metric tons CO2e?'', ''emissions''),
     (''What is your organization's gross global Scope 2 emissions (location-based) in metric tons CO2e?'', ''emissions''),
     (''What are your organization's gross global Scope 3 emissions in metric tons CO2e?'', ''emissions''),
     (''Does your organization have an emissions reduction target?'', ''governance''),
     (''What percentage of your total energy consumption is from renewable sources?'', ''energy''),
     (''Has your organization identified any climate-related risks with the potential to have a substantive financial impact?'', ''governance''),
     (''What is the total amount of capital expenditure on low-carbon R&D in the reporting year?'', ''governance''),
     (''Does your organization engage with your value chain on climate-related issues?'', ''supply_chain''),
     (''Has your organization verified any of the reported Scope 1, 2, or 3 emissions data?'', ''reporting'')]\<rparr>"

definition ecovadis_environment :: template where
  "ecovadis_environment = \<lparr>tp_title = ''EcoVadis Environment Assessment'',
   tp_description = ''Key environmental performance questions from the EcoVadis sustainability rating.'',
   tp_framework = ''EcoVadis'',
   tp_questions =
    [(''Does your company have a formal environmental policy?'', ''governance''),
     (''Does your company track and report its greenhouse gas emissions?'', ''emissions''),
     (''What measures has your company taken to reduce energy consumption?'', ''energy''),
     (''Does your company have a water management strategy?'', ''water''),
     (''What is your company's approach to waste management and circular economy?'', ''waste''),
     (''Does your company assess the environmental impact of its products/services across their lifecycle?'', ''emissions''),
     (''Has your company set science-based targets for emission reduction?'', ''governance''),
     (''Does your company have an environmental management system (e.g., ISO 14001)?'', ''governance'')]\<rparr>"

definition tcfd_disclosure :: template where
  "tcfd_disclosure = \<lparr>tp_title = ''TCFD Recommended Disclosures'',
   tp_description = ''Task Force on Climate-related Financial Disclosures core questions.'',
   tp_framework = ''TCFD'',
   tp_questions =
    [(''Describe the board's oversight of climate-related risks and opportunities.'', ''governance''),
     (''Describe management's role in assessing and managing climate-related risks.'', ''governance''),
     (''Describe the climate-related risks and opportunities the organization has identified.'', ''governance''),
     (''Describe the impact of climate-related risks and opportunities on the organization's businesses, strategy, and financial planning.'', ''governance''),
     (''Describe the organization's processes for identifying and assessing climate-related risks.'', ''governance''),
     (''Describe how processes for managing climate-related risks are integrated into overall risk management.'', ''governance''),
     (''What metrics does the organization use to assess climate-related risks and opportunities?'', ''reporting''),
     (''Disclose Scope 1, Scope 2, and relevant Scope 3 greenhouse gas emissions.'', ''emissions''),
     (''Describe the targets used by the organization to manage climate-related risks and performance.'', ''governance'')]\<rparr>"

definition ghg_protocol_inventory :: template where
  "ghg_protocol_inventory = \<lparr>tp_title = ''GHG Protocol Corporate Inventory'',
   tp_description = ''Questions based on the GHG Protocol Corporate Accounting and Reporting Standard.'',
   tp_framework = ''GHG Protocol'',
   tp_questions =
    [(''What organizational boundary approach does your company use (equity share or control)?'', ''reporting''),
     (''What are your direct GHG emissions from owned or controlled sources (Scope 1)?'', ''emissions''),
     (''What are your indirect GHG emissions from purchased electricity, steam, heating, and cooling (Scope 2)?'', ''emissions''),
     (''What are your other indirect GHG emissions from your value chain (Scope 3)?'', ''emissions''),
     (''Which Scope 3 categories are material to your organization?'', ''emissions''),
     (''What emission factors and data sources are used for your calculations?'', ''reporting''),
     (''What is the base year for your emissions inventory and why was it selected?'', ''reporting''),
     (''Does your organization recalculate base year emissions when structural changes occur?'', ''reporting'')]\<rparr>"

definition csrd_esrs_climate :: template where
  "csrd_esrs_climate = \<lparr>tp_title = ''CSRD / ESRS E1 Climate Change'',
   tp_description = ''Key disclosure requirements from the European Sustainability Reporting Standards on climate change.'',
   tp_framework = ''CSRD'',
   tp_questions =
    [(''Does your entity have a transition plan for climate change mitigation?'', ''governance''),
     (''What are the entity's policies related to climate change mitigation and adaptation?'', ''governance''),
     (''Describe the actions and resources related to climate change policies and targets.'', ''governance''),
     (''What are the entity's gross Scope 1, 2, and 3 greenhouse gas emissions?'', ''emissions''),
     (''What is the entity's total energy consumption and energy mix?'', ''energy''),
     (''Has the entity set GHG emission reduction targets? If so, what are they?'', ''governance''),
     (''What are the anticipated financial effects of climate-related physical and transition risks?'', ''governance'')]\<rparr>"

definition TEMPLATES :: "(string, template) dict" where
  "TEMPLATES = [(''cdp_climate'', cdp_climate), (''ecovadis_environment'', ecovadis_environment), (''tcfd_disclosure'', tcfd_disclosure), (''ghg_protocol_inventory'', ghg_protocol_inventory), (''csrd_esrs_climate'', csrd_esrs_climate)]"

record template_summary =
  ts_id :: string
  ts_title :: string
  ts_description :: string
  ts_framework :: string
  ts_question_count :: nat

definition list_templates :: "template_summary list" where
  "list_templates = map (\<lambda>(key, tpl). \<lparr>ts_id = key, ts_title = tp_title tpl, ts_description = tp_description tpl,
     ts_framework = tp_framework tpl, ts_question_count = length (tp_questions tpl)\<rparr>) TEMPLATES"

definition get_template :: "string \<Rightarrow> (string \<times> template) option" where
  "get_template template_id = map_option (\<lambda>tpl. (template_id, tpl)) (map_of TEMPLATES template_id)"

end
