(* ===== verification/Questionnaire_Routes.thy ===== *)
theory Questionnaire_Routes
imports Questionnaires Company_Routes
begin

text \<open>The routes of \<open>api/routes/questionnaire_routes.py\<close>. The writer of PDF files is a parameter.\<close>

section \<open>The uploaded file\<close>

record upload_file =
  uf_content_type :: "string option"
  uf_filename :: "string option"
  uf_content :: string

definition allowed_types :: "(string, string) dict" where
  "allowed_types =
    [(''application/pdf'', ''pdf''),
     (''application/vnd.openxmlformats-officedocument.wordprocessingml.document'', ''docx''),
     (''application/vnd.openxmlformats-officedocument.spreadsheetml.sheet'', ''xlsx''),
     (''text/csv'', ''csv'')]"

definition max_file_size :: nat where
  "max_file_size = 10 * 1024 * 1024"

definition zip_magic :: string where
  "zip_magic = [CHR ''P'', CHR ''K'', CHR 0x03, CHR 0x04]"

definition magic_bytes :: "(string, string) dict" where
  "magic_bytes = [(''pdf'', ''%PDF''), (''docx'', zip_magic), (''xlsx'', zip_magic)]"

definition extension_of :: "string \<Rightarrow> string" where
  "extension_of name = (if CHR ''.'' \<in> set name then py_lower (rev (takeWhile (\<lambda>c. c \<noteq> CHR ''.'') (rev name))) else [])"

definition file_type_of :: "upload_file \<Rightarrow> string option" where
  "file_type_of file =
     (case map_of allowed_types (case uf_content_type file of None \<Rightarrow> [] | Some t \<Rightarrow> t) of
        Some t \<Rightarrow> Some t
      | None \<Rightarrow>
          (case uf_filename file of
             None \<Rightarrow> None
           | Some name \<Rightarrow> if extension_of name \<in> {''pdf'', ''docx'', ''xlsx'', ''csv''} then Some (extension_of name) else None))"

text \<open>The file is read in chunks of 64 KB, and refused as soon as it is too large.\<close>

function read_chunks :: "nat \<Rightarrow> string \<Rightarrow> string res" where
  "read_chunks total_size content =
     (let chunk = take (64 * 1024) content
      in if chunk = [] then Inr []
         else if max_file_size < total_size + length chunk then Inl (HTTPException 400 ''File too large. Maximum size: 10 MB'')
         else bind_r (read_chunks (total_size + length chunk) (drop (64 * 1024) content)) (\<lambda>more. Inr (chunk @ more)))"
  by pat_completeness auto

termination
  by (relation "measure (\<lambda>(total_size, content). length content)") auto

declare read_chunks.simps [simp del]

definition checked_upload :: "upload_file \<Rightarrow> (string \<times> string) res" where
  "checked_upload file =
     (case file_type_of file of
        None \<Rightarrow> Inl (HTTPException 400 ''Unsupported file type. Allowed: PDF, DOCX, XLSX, CSV'')
      | Some file_type \<Rightarrow>
          bind_r (read_chunks 0 (uf_content file)) (\<lambda>content.
          if content = [] then Inl (HTTPException 400 ''File is empty'')
          else case map_of magic_bytes file_type of
            None \<Rightarrow> Inr (file_type, content)
          | Some magic \<Rightarrow>
              if starts_with magic content then Inr (file_type, content)
              else Inl (HTTPException 400 (''File content does not match expected '' @ py_upper file_type @ '' format''))))"

definition name_char :: "char \<Rightarrow> bool" where
  "name_char c \<longleftrightarrow> is_digit_char c \<or> is_space c \<or> c \<in> {CHR ''_'', CHR ''.'', CHR ''-''} \<or>
     (let n = of_char c :: nat in 65 \<le> n \<and> n \<le> 90 \<or> 97 \<le> n \<and> n \<le> 122)"

definition safe_name :: "string option \<Rightarrow> string" where
  "safe_name filename =
     (let raw_name = (case filename of Some name \<Rightarrow> if name = [] then ''unknown'' else name | None \<Rightarrow> ''unknown'');
          raw_name = last (split_char (CHR 0x5C) (last (split_char (CHR ''/'') raw_name)))
      in take 255 (map (\<lambda>c. if name_char c then c else CHR ''_'') raw_name))"

text \<open>The database stores no text with a null character.\<close>

definition insert_doc :: "ident \<Rightarrow> string \<Rightarrow> string \<Rightarrow> string \<Rightarrow> int \<Rightarrow> questionnaire_status \<Rightarrow> string \<Rightarrow> (db, questionnaire_doc) sres" where
  "insert_doc c title filename file_type file_size status text =
     bind_s new_id (\<lambda>i.
     bind_s utcnow (\<lambda>now.
     let doc = \<lparr>qn_id = i, qn_company_id = c, qn_title = title, qn_original_filename = filename, qn_file_type = file_type,
       qn_file_size = file_size, qn_status = Some status, qn_extracted_text = Some text, qn_created_at = now, qn_deleted_at = None\<rparr>
     in bind_s (lift_s (if CHR 0x00 \<in> set text then Inl DataError else Inr ())) (\<lambda>_.
        bind_s (modify_s (\<lambda>s. s\<lparr>questionnaires := questionnaires s @ [doc]\<rparr>)) (\<lambda>_.
        return_s doc))))"

definition upload_questionnaire :: "auth_env \<Rightarrow> doc_env \<Rightarrow> http_in \<Rightarrow> upload_file \<Rightarrow> questionnaire_doc req" where
  "upload_questionnaire auth docs rq file =
     bind_q (serve (get_current_user auth rq)) (\<lambda>u.
     bind_q (ask (\<lambda>_. checked_upload file)) (\<lambda>(file_type, content).
     bind_q (ask (\<lambda>_. extract_text docs content file_type)) (\<lambda>text.
     bind_q (serve (insert_doc (us_company_id u) (safe_name (uf_filename file)) (safe_name (uf_filename file)) file_type
       (int (length content)) Q_Uploaded text)) (\<lambda>doc.
     bind_q (serve (record_audit (us_id u) (us_company_id u) ''questionnaire_upload'' ''questionnaire'' (Some (qn_id doc)) None)) (\<lambda>_.
     bind_q commit (\<lambda>_.
     return_q doc))))))"

section \<open>Reading\<close>

text \<open>A status that is null has no place in a reply.\<close>

definition doc_out :: "questionnaire_doc \<Rightarrow> questionnaire_doc res" where
  "doc_out d = (if qn_status d = None then Inl (ValueError ''ResponseValidationError'') else Inr d)"

definition doc_questions :: "ident \<Rightarrow> db \<Rightarrow> question list" where
  "doc_questions i s = sort_key qq_question_number (filter (\<lambda>q. qq_questionnaire_id q = i) (questions s))"

type_synonym questionnaire_detail = "questionnaire_doc \<times> question list"

definition detail_out :: "questionnaire_doc \<Rightarrow> db \<Rightarrow> questionnaire_detail res" where
  "detail_out d s = bind_r (doc_out d) (\<lambda>d. Inr (d, doc_questions (qn_id d) s))"

definition the_questionnaire :: "ident \<Rightarrow> ident \<Rightarrow> questionnaire_doc req" where
  "the_questionnaire questionnaire_id c =
     bind_q (ask (own_questionnaire questionnaire_id c)) (\<lambda>found.
     case found of None \<Rightarrow> raise_q (HTTPException 404 ''Questionnaire not found'') | Some d \<Rightarrow> return_q d)"

text \<open>The sorts by title and by the time of the last update are left out.\<close>

definition list_questionnaires ::
    "auth_env \<Rightarrow> http_in \<Rightarrow> questionnaire_status option \<Rightarrow> string option \<Rightarrow> bool \<Rightarrow> nat \<Rightarrow> nat \<Rightarrow> (questionnaire_doc list \<times> nat) req" where
  "list_questionnaires auth rq status file_type ascending limit offset =
     bind_q (serve (get_current_user auth rq)) (\<lambda>u.
     bind_q (check_body (page_ok limit \<and> null_or (\<lambda>t. t \<in> {''pdf'', ''xlsx'', ''docx'', ''csv''}) file_type)) (\<lambda>_.
     bind_q (ask (\<lambda>s. Inr (filter (\<lambda>q. qn_company_id q = us_company_id u \<and> qn_deleted_at q = None \<and>
       (status = None \<or> qn_status q = status) \<and> null_or (\<lambda>t. qn_file_type q = t) file_type) (questionnaires s)))) (\<lambda>rows.
     bind_q (ask (\<lambda>_. mapM_r doc_out (paginate limit offset
       (if ascending then sort_key qn_created_at rows else order_by_desc qn_created_at rows)))) (\<lambda>items.
     return_q (items, length rows)))))"

definition get_questionnaire :: "auth_env \<Rightarrow> http_in \<Rightarrow> ident \<Rightarrow> questionnaire_detail req" where
  "get_questionnaire auth rq questionnaire_id =
     bind_q (serve (get_current_user auth rq)) (\<lambda>u.
     bind_q (the_questionnaire questionnaire_id (us_company_id u)) (\<lambda>d. ask (detail_out d)))"

definition get_templates :: "auth_env \<Rightarrow> http_in \<Rightarrow> template_summary list req" where
  "get_templates auth rq = bind_q (serve (get_current_user auth rq)) (\<lambda>_. return_q list_templates)"

definition get_template_detail :: "auth_env \<Rightarrow> http_in \<Rightarrow> string \<Rightarrow> (string \<times> template) req" where
  "get_template_detail auth rq template_id =
     bind_q (serve (get_current_user auth rq)) (\<lambda>_.
     case get_template template_id of None \<Rightarrow> raise_q (HTTPException 404 ''Template not found'') | Some tpl \<Rightarrow> return_q tpl)"

section \<open>Drafting answers\<close>

text \<open>Without a report, the prediction for the industry stands for the emissions.\<close>

definition template_facts :: "industry_data \<Rightarrow> ml_model option \<Rightarrow> company \<Rightarrow> emission_report option \<Rightarrow> company_facts res" where
  "template_facts inds model co report =
     (case report of
        Some r \<Rightarrow> Inr (facts_of co report)
      | None \<Rightarrow>
          bind_r (predict_missing_emissions inds model
            [(''revenue_usd'', case co_revenue_usd co of None \<Rightarrow> PNone | Some x \<Rightarrow> PNum x),
             (''employee_count'', case co_employee_count co of None \<Rightarrow> PNone | Some n \<Rightarrow> PNum (flt_of_int n))]
            (co_industry co) (co_region co)) (\<lambda>prediction.
          let scope = \<lambda>k. dict_get (pr_predictions prediction) k 0
          in Inr \<lparr>cf_name = co_name co, cf_industry = co_industry co, cf_region = co_region co, cf_scope1 = scope ''scope1'',
               cf_scope2 = scope ''scope2'', cf_scope3 = scope ''scope3'',
               cf_total = scope ''scope1'' + scope ''scope2'' + scope ''scope3''\<rparr>))"

fun each_q :: "('a \<Rightarrow> unit req) \<Rightarrow> 'a list \<Rightarrow> unit req" where
  "each_q f [] = return_q ()"
| "each_q f (x # xs) = bind_q (f x) (\<lambda>_. each_q f xs)"

definition add_template_question :: "llm_env \<Rightarrow> company_facts \<Rightarrow> ident \<Rightarrow> int \<times> string \<times> string \<Rightarrow> unit req" where
  "add_template_question env cf questionnaire_id q =
     (case q of (n, text, category) \<Rightarrow>
        bind_q (ask (\<lambda>_. draft_question env cf (PDict [(''question_text'', PStr text), (''category'', PStr category)]))) (\<lambda>d.
        serve (insert_question questionnaire_id (n, d))))"

definition apply_template ::
    "auth_env \<Rightarrow> llm_env \<Rightarrow> industry_data \<Rightarrow> ml_model option \<Rightarrow> http_in \<Rightarrow> string \<Rightarrow> questionnaire_detail req" where
  "apply_template auth env inds model rq template_id =
     bind_q (serve (get_current_user auth rq)) (\<lambda>u.
     case get_template template_id of
       None \<Rightarrow> raise_q (HTTPException 404 ''Template not found'')
     | Some (_, tpl) \<Rightarrow>
         bind_q (serve (insert_doc (us_company_id u) (tp_title tpl) (''template:'' @ template_id) ''template'' 0 Q_Extracted [])) (\<lambda>doc.
         bind_q (ask (get_company_row (us_company_id u))) (\<lambda>co.
         bind_q (ask (\<lambda>s. template_facts inds model co (latest_report (us_company_id u) s))) (\<lambda>cf.
         bind_q (each_q (add_template_question env cf (qn_id doc)) (numbered (tp_questions tpl))) (\<lambda>_.
         bind_q commit (\<lambda>_.
         ask (detail_out doc)))))))"

text \<open>\<open>str.format\<close> of a status\<close>

definition status_text :: "questionnaire_status option \<Rightarrow> string" where
  "status_text st = (case st of
       None \<Rightarrow> ''None''
     | Some st \<Rightarrow> ''QuestionnaireStatus.'' @ (case st of Q_Uploaded \<Rightarrow> ''uploaded'' | Q_Extracting \<Rightarrow> ''extracting''
         | Q_Extracted \<Rightarrow> ''extracted'' | Q_Reviewed \<Rightarrow> ''reviewed'' | Q_Exported \<Rightarrow> ''exported''))"

definition extract_questions :: "auth_env \<Rightarrow> llm_env \<Rightarrow> http_in \<Rightarrow> ident \<Rightarrow> questionnaire_detail req" where
  "extract_questions auth env rq questionnaire_id =
     bind_q (serve (require_credits auth rq ''questionnaire_extract'')) (\<lambda>u.
     bind_q (the_questionnaire questionnaire_id (us_company_id u)) (\<lambda>d.
     if qn_status d \<notin> {Some Q_Uploaded, Some Q_Extracted} then raise_q (HTTPException 400
       (''Cannot extract from questionnaire in status '' @ [CHR 0x27] @ status_text (qn_status d) @ [CHR 0x27]))
     else
       bind_q (process_questionnaire env questionnaire_id (us_company_id u)) (\<lambda>_.
       bind_q (serve (deduct_operation_credits (us_company_id u) ''questionnaire_extract'')) (\<lambda>_.
       bind_q commit (\<lambda>_.
       bind_q (ask (\<lambda>s. scalar_one (filter (\<lambda>q. qn_id q = questionnaire_id) (questionnaires s)))) (\<lambda>d.
       ask (detail_out d)))))))"

section \<open>Changing\<close>

record question_update =
  qu_human_answer :: "string option"
  qu_status :: "question_status option"

definition update_question :: "auth_env \<Rightarrow> http_in \<Rightarrow> ident \<Rightarrow> ident \<Rightarrow> question_update \<Rightarrow> question req" where
  "update_question auth rq questionnaire_id question_id body =
     bind_q (serve (get_current_user auth rq)) (\<lambda>u.
     bind_q (check_body (null_or (length_ok 0 10000) (qu_human_answer body))) (\<lambda>_.
     bind_q (the_questionnaire questionnaire_id (us_company_id u)) (\<lambda>_.
     bind_q (ask (\<lambda>s. scalar_one_or_none (filter (\<lambda>q. qq_id q = question_id \<and> qq_questionnaire_id q = questionnaire_id) (questions s))))
       (\<lambda>found.
     case found of
       None \<Rightarrow> raise_q (HTTPException 404 ''Question not found'')
     | Some q \<Rightarrow>
         let q = q\<lparr>qq_human_answer := case qu_human_answer body of None \<Rightarrow> qq_human_answer q | Some a \<Rightarrow> Some a,
                   qq_status := case qu_status body of None \<Rightarrow> qq_status q | Some t \<Rightarrow> t\<rparr>
         in bind_q (write_db (\<lambda>s. s\<lparr>questions := update_row qq_id question_id (\<lambda>_. q) (questions s)\<rparr>)) (\<lambda>_.
            bind_q commit (\<lambda>_.
            return_q q))))))"

definition delete_questionnaire :: "auth_env \<Rightarrow> http_in \<Rightarrow> ident \<Rightarrow> unit req" where
  "delete_questionnaire auth rq questionnaire_id =
     bind_q (serve (get_current_user auth rq)) (\<lambda>u.
     bind_q (the_questionnaire questionnaire_id (us_company_id u)) (\<lambda>_.
     bind_q (serve utcnow) (\<lambda>now.
     bind_q (update_doc questionnaire_id (\<lambda>q. q\<lparr>qn_deleted_at := Some now\<rparr>)) (\<lambda>_.
     bind_q (serve (record_audit (us_id u) (us_company_id u) ''questionnaire_delete'' ''questionnaire'' (Some questionnaire_id) None)) (\<lambda>_.
     commit)))))"

text \<open>A key that is absent changes nothing; a title of null is refused by the database, a status of null is not.\<close>

record questionnaire_update =
  nu_title :: "string option option"
  nu_status :: "questionnaire_status option option"

definition questionnaire_update_ok :: "questionnaire_update \<Rightarrow> bool" where
  "questionnaire_update_ok b \<longleftrightarrow> absent_or (length_ok 1 500) (nu_title b)"

definition update_questionnaire :: "auth_env \<Rightarrow> http_in \<Rightarrow> ident \<Rightarrow> questionnaire_update \<Rightarrow> questionnaire_doc req" where
  "update_questionnaire auth rq questionnaire_id body =
     bind_q (serve (get_current_user auth rq)) (\<lambda>u.
     bind_q (check_body (questionnaire_update_ok body)) (\<lambda>_.
     bind_q (the_questionnaire questionnaire_id (us_company_id u)) (\<lambda>d.
     if nu_title body = Some None then raise_q IntegrityError
     else
       let d = d\<lparr>qn_title := case nu_title body of Some (Some t) \<Rightarrow> t | _ \<Rightarrow> qn_title d,
                 qn_status := case nu_status body of Some t \<Rightarrow> t | None \<Rightarrow> qn_status d\<rparr>
       in bind_q (update_doc questionnaire_id (\<lambda>_. d)) (\<lambda>_.
          bind_q commit (\<lambda>_.
          ask (\<lambda>_. doc_out d))))))"

definition export_questionnaire_pdf ::
    "auth_env \<Rightarrow> (string \<Rightarrow> string \<Rightarrow> question list \<Rightarrow> string res) \<Rightarrow> http_in \<Rightarrow> ident \<Rightarrow> string req" where
  "export_questionnaire_pdf auth pdf rq questionnaire_id =
     bind_q (serve (require_credits auth rq ''pdf_export'')) (\<lambda>u.
     bind_q (the_questionnaire questionnaire_id (us_company_id u)) (\<lambda>d.
     bind_q (ask (get_company_row (us_company_id u))) (\<lambda>co.
     bind_q (ask (\<lambda>s. pdf (co_name co) (qn_title d) (doc_questions questionnaire_id s))) (\<lambda>pdf_bytes.
     bind_q (serve (deduct_operation_credits (us_company_id u) ''pdf_export'')) (\<lambda>_.
     bind_q commit (\<lambda>_.
     return_q pdf_bytes))))))"

end
