(* ===== verification/Isolation.thy ===== *)
theory Isolation
imports Trade_Routes Compliance Billing Questionnaire_Routes Frames
begin

text \<open>
  What a company's requests leave alone: the rows of every other company. Rows belong to a company by
  their column, deliveries by their webhook, assets by their portfolio and questions by their questionnaire. A sale is the one thing that
  reaches over: it books its price to the seller.
\<close>

section \<open>The rows of others\<close>

definition foreign_hooks :: "ident \<Rightarrow> db \<Rightarrow> ident set" where
  "foreign_hooks c s0 = foreign_ids (\<lambda>r. wh_company_id r \<noteq> c) wh_id (webhooks s0)"

definition foreign_portfolios :: "ident \<Rightarrow> db \<Rightarrow> ident set" where
  "foreign_portfolios c s0 = foreign_ids (\<lambda>r. fp_company_id r \<noteq> c) fp_id (financed_portfolios s0)"

definition foreign_docs :: "ident \<Rightarrow> db \<Rightarrow> ident set" where
  "foreign_docs c s0 = foreign_ids (\<lambda>r. qn_company_id r \<noteq> c) qn_id (questionnaires s0)"

definition ledger_frame :: "ident \<Rightarrow> credit_entry list \<Rightarrow> credit_entry list \<Rightarrow> bool" where
  "ledger_frame c rows0 rows \<longleftrightarrow> (\<exists>sales. filter (\<lambda>r. cl_company_id r \<noteq> c) rows = filter (\<lambda>r. cl_company_id r \<noteq> c) rows0 @ sales \<and>
     list_all (\<lambda>r. cl_reason r = Marketplace_Sale) sales)"

definition same_elsewhere :: "ident \<Rightarrow> db \<Rightarrow> db \<Rightarrow> bool" where
  "same_elsewhere c s0 s \<longleftrightarrow>
     table_frame (\<lambda>r. co_id r \<noteq> c) co_id (companies s0) (companies s) \<and>
     table_frame (\<lambda>r. er_company_id r \<noteq> c) er_id (emission_reports s0) (emission_reports s) \<and>
     table_frame (\<lambda>r. du_company_id r \<noteq> c) du_id (data_uploads s0) (data_uploads s) \<and>
     table_frame (\<lambda>r. sn_company_id r \<noteq> c) sn_id (scenarios s0) (scenarios s) \<and>
     table_frame (\<lambda>r. dr_company_id r \<noteq> c) dr_id (data_reviews s0) (data_reviews s) \<and>
     table_frame (\<lambda>r. al_company_id r \<noteq> c) al_id (alerts s0) (alerts s) \<and>
     table_frame (\<lambda>r. wh_company_id r \<noteq> c) wh_id (webhooks s0) (webhooks s) \<and>
     table_frame (\<lambda>r. wd_webhook_id r \<in> foreign_hooks c s0) wd_id (webhook_deliveries s0) (webhook_deliveries s) \<and>
     table_frame (\<lambda>r. scl_buyer_company_id r \<noteq> c) scl_id (supply_chain_links s0) (supply_chain_links s) \<and>
     table_frame (\<lambda>r. dl_seller_company_id r \<noteq> c) dl_id (data_listings s0) (data_listings s) \<and>
     table_frame (\<lambda>r. dp_buyer_company_id r \<noteq> c) dp_id (data_purchases s0) (data_purchases s) \<and>
     table_frame (\<lambda>r. sub_company_id r \<noteq> c) sub_id (subscriptions s0) (subscriptions s) \<and>
     table_frame (\<lambda>r. fp_company_id r \<noteq> c) fp_id (financed_portfolios s0) (financed_portfolios s) \<and>
     table_frame (\<lambda>r. fa_portfolio_id r \<in> foreign_portfolios c s0) fa_id (financed_assets s0) (financed_assets s) \<and>
     table_frame (\<lambda>r. qn_company_id r \<noteq> c) qn_id (questionnaires s0) (questionnaires s) \<and>
     table_frame (\<lambda>r. qq_questionnaire_id r \<in> foreign_docs c s0) qq_id (questions s0) (questions s) \<and>
     filter (\<lambda>r. au_company_id r \<noteq> Some c) (audit_logs s) = filter (\<lambda>r. au_company_id r \<noteq> Some c) (audit_logs s0) \<and>
     ledger_frame c (credit_ledger s0) (credit_ledger s) \<and>
     industry_benchmarks s = industry_benchmarks s0 \<and>
     users s = users s0 \<and>
     refresh_tokens s = refresh_tokens s0 \<and>
     revoked_tokens s = revoked_tokens s0 \<and>
     password_reset_tokens s = password_reset_tokens s0 \<and>
     mfa_secrets s = mfa_secrets s0 \<and>
     invitations s = invitations s0"

text \<open>Primary keys, each given out once.\<close>

definition keys_ok :: "db \<Rightarrow> bool" where
  "keys_ok s \<longleftrightarrow>
     distinct (map co_id (companies s)) \<and> list_all (\<lambda>r. co_id r < db_next_id s) (companies s) \<and>
     distinct (map er_id (emission_reports s)) \<and> list_all (\<lambda>r. er_id r < db_next_id s) (emission_reports s) \<and>
     distinct (map du_id (data_uploads s)) \<and> list_all (\<lambda>r. du_id r < db_next_id s) (data_uploads s) \<and>
     distinct (map sn_id (scenarios s)) \<and> list_all (\<lambda>r. sn_id r < db_next_id s) (scenarios s) \<and>
     distinct (map dr_id (data_reviews s)) \<and> list_all (\<lambda>r. dr_id r < db_next_id s) (data_reviews s) \<and>
     distinct (map al_id (alerts s)) \<and> list_all (\<lambda>r. al_id r < db_next_id s) (alerts s) \<and>
     distinct (map wh_id (webhooks s)) \<and> list_all (\<lambda>r. wh_id r < db_next_id s) (webhooks s) \<and>
     distinct (map wd_id (webhook_deliveries s)) \<and> list_all (\<lambda>r. wd_id r < db_next_id s) (webhook_deliveries s) \<and>
     distinct (map scl_id (supply_chain_links s)) \<and> list_all (\<lambda>r. scl_id r < db_next_id s) (supply_chain_links s) \<and>
     distinct (map dl_id (data_listings s)) \<and> list_all (\<lambda>r. dl_id r < db_next_id s) (data_listings s) \<and>
     distinct (map dp_id (data_purchases s)) \<and> list_all (\<lambda>r. dp_id r < db_next_id s) (data_purchases s) \<and>
     distinct (map sub_id (subscriptions s)) \<and> list_all (\<lambda>r. sub_id r < db_next_id s) (subscriptions s) \<and>
     distinct (map fp_id (financed_portfolios s)) \<and> list_all (\<lambda>r. fp_id r < db_next_id s) (financed_portfolios s) \<and>
     distinct (map fa_id (financed_assets s)) \<and> list_all (\<lambda>r. fa_id r < db_next_id s) (financed_assets s) \<and>
     distinct (map qn_id (questionnaires s)) \<and> list_all (\<lambda>r. qn_id r < db_next_id s) (questionnaires s) \<and>
     distinct (map qq_id (questions s)) \<and> list_all (\<lambda>r. qq_id r < db_next_id s) (questions s)"

definition isolated_from :: "ident \<Rightarrow> db \<Rightarrow> db \<Rightarrow> bool" where
  "isolated_from c s0 s \<longleftrightarrow> keys_ok s0 \<and> db_next_id s0 \<le> db_next_id s \<and> same_elsewhere c s0 s"

lemma isolated_refl: "keys_ok s \<Longrightarrow> isolated_from c s s"
  by (simp add: isolated_from_def same_elsewhere_def keys_ok_def table_frame_refl ledger_frame_def)

interpretation iso: row_frame "isolated_from c s0" for c s0
  by unfold_locales (auto simp: isolated_from_def same_elsewhere_def)

section \<open>One table at a time\<close>

named_theorems iso_simps \<open>the frame of one table\<close>

lemma isolated_tables [iso_simps]:
  assumes "isolated_from c s0 s"
  shows
    "table_frame (\<lambda>r. co_id r \<noteq> c) co_id (companies s0) (companies s)"
    "table_frame (\<lambda>r. er_company_id r \<noteq> c) er_id (emission_reports s0) (emission_reports s)"
    "table_frame (\<lambda>r. du_company_id r \<noteq> c) du_id (data_uploads s0) (data_uploads s)"
    "table_frame (\<lambda>r. sn_company_id r \<noteq> c) sn_id (scenarios s0) (scenarios s)"
    "table_frame (\<lambda>r. dr_company_id r \<noteq> c) dr_id (data_reviews s0) (data_reviews s)"
    "table_frame (\<lambda>r. al_company_id r \<noteq> c) al_id (alerts s0) (alerts s)"
    "table_frame (\<lambda>r. wh_company_id r \<noteq> c) wh_id (webhooks s0) (webhooks s)"
    "table_frame (\<lambda>r. wd_webhook_id r \<in> foreign_hooks c s0) wd_id (webhook_deliveries s0) (webhook_deliveries s)"
    "table_frame (\<lambda>r. scl_buyer_company_id r \<noteq> c) scl_id (supply_chain_links s0) (supply_chain_links s)"
    "table_frame (\<lambda>r. dl_seller_company_id r \<noteq> c) dl_id (data_listings s0) (data_listings s)"
    "table_frame (\<lambda>r. dp_buyer_company_id r \<noteq> c) dp_id (data_purchases s0) (data_purchases s)"
    "table_frame (\<lambda>r. sub_company_id r \<noteq> c) sub_id (subscriptions s0) (subscriptions s)"
    "table_frame (\<lambda>r. fp_company_id r \<noteq> c) fp_id (financed_portfolios s0) (financed_portfolios s)"
    "table_frame (\<lambda>r. fa_portfolio_id r \<in> foreign_portfolios c s0) fa_id (financed_assets s0) (financed_assets s)"
    "table_frame (\<lambda>r. qn_company_id r \<noteq> c) qn_id (questionnaires s0) (questionnaires s)"
    "table_frame (\<lambda>r. qq_questionnaire_id r \<in> foreign_docs c s0) qq_id (questions s0) (questions s)"
    "ledger_frame c (credit_ledger s0) (credit_ledger s)"
    "users s = users s0"
  using assms by (simp_all add: isolated_from_def same_elsewhere_def)

lemma isolated_writes [iso_simps]:
  assumes "isolated_from c s0 s"
  shows
    "table_frame (\<lambda>r. co_id r \<noteq> c) co_id (companies s0) rows_companies \<Longrightarrow> isolated_from c s0 (s\<lparr>companies := rows_companies\<rparr>)"
    "table_frame (\<lambda>r. er_company_id r \<noteq> c) er_id (emission_reports s0) rows_emission_reports \<Longrightarrow> isolated_from c s0 (s\<lparr>emission_reports := rows_emission_reports\<rparr>)"
    "table_frame (\<lambda>r. du_company_id r \<noteq> c) du_id (data_uploads s0) rows_data_uploads \<Longrightarrow> isolated_from c s0 (s\<lparr>data_uploads := rows_data_uploads\<rparr>)"
    "table_frame (\<lambda>r. sn_company_id r \<noteq> c) sn_id (scenarios s0) rows_scenarios \<Longrightarrow> isolated_from c s0 (s\<lparr>scenarios := rows_scenarios\<rparr>)"
    "table_frame (\<lambda>r. dr_company_id r \<noteq> c) dr_id (data_reviews s0) rows_data_reviews \<Longrightarrow> isolated_from c s0 (s\<lparr>data_reviews := rows_data_reviews\<rparr>)"
    "table_frame (\<lambda>r. al_company_id r \<noteq> c) al_id (alerts s0) rows_alerts \<Longrightarrow> isolated_from c s0 (s\<lparr>alerts := rows_alerts\<rparr>)"
    "table_frame (\<lambda>r. wh_company_id r \<noteq> c) wh_id (webhooks s0) rows_webhooks \<Longrightarrow> isolated_from c s0 (s\<lparr>webhooks := rows_webhooks\<rparr>)"
    "table_frame (\<lambda>r. wd_webhook_id r \<in> foreign_hooks c s0) wd_id (webhook_deliveries s0) rows_webhook_deliveries \<Longrightarrow> isolated_from c s0 (s\<lparr>webhook_deliveries := rows_webhook_deliveries\<rparr>)"
    "table_frame (\<lambda>r. scl_buyer_company_id r \<noteq> c) scl_id (supply_chain_links s0) rows_supply_chain_links \<Longrightarrow> isolated_from c s0 (s\<lparr>supply_chain_links := rows_supply_chain_links\<rparr>)"
    "table_frame (\<lambda>r. dl_seller_company_id r \<noteq> c) dl_id (data_listings s0) rows_data_listings \<Longrightarrow> isolated_from c s0 (s\<lparr>data_listings := rows_data_listings\<rparr>)"
    "table_frame (\<lambda>r. dp_buyer_company_id r \<noteq> c) dp_id (data_purchases s0) rows_data_purchases \<Longrightarrow> isolated_from c s0 (s\<lparr>data_purchases := rows_data_purchases\<rparr>)"
    "table_frame (\<lambda>r. sub_company_id r \<noteq> c) sub_id (subscriptions s0) rows_subscriptions \<Longrightarrow> isolated_from c s0 (s\<lparr>subscriptions := rows_subscriptions\<rparr>)"
    "table_frame (\<lambda>r. fp_company_id r \<noteq> c) fp_id (financed_portfolios s0) rows_financed_portfolios \<Longrightarrow> isolated_from c s0 (s\<lparr>financed_portfolios := rows_financed_portfolios\<rparr>)"
    "table_frame (\<lambda>r. fa_portfolio_id r \<in> foreign_portfolios c s0) fa_id (financed_assets s0) rows_financed_assets \<Longrightarrow> isolated_from c s0 (s\<lparr>financed_assets := rows_financed_assets\<rparr>)"
    "table_frame (\<lambda>r. qn_company_id r \<noteq> c) qn_id (questionnaires s0) rows_questionnaires \<Longrightarrow> isolated_from c s0 (s\<lparr>questionnaires := rows_questionnaires\<rparr>)"
    "table_frame (\<lambda>r. qq_questionnaire_id r \<in> foreign_docs c s0) qq_id (questions s0) rows_questions \<Longrightarrow> isolated_from c s0 (s\<lparr>questions := rows_questions\<rparr>)"
    "ledger_frame c (credit_ledger s0) rows_credit_ledger \<Longrightarrow> isolated_from c s0 (s\<lparr>credit_ledger := rows_credit_ledger\<rparr>)"
    "au_company_id entry = Some c \<Longrightarrow> isolated_from c s0 (s\<lparr>audit_logs := audit_logs s @ [entry]\<rparr>)"
  using assms by (simp_all add: isolated_from_def same_elsewhere_def)

lemma fresh_is_own: "list_all (\<lambda>r. k r < n) rows0 \<Longrightarrow> n \<le> i \<Longrightarrow> i \<notin> foreign_ids foreign k rows0"
  by (force simp: foreign_ids_def list_all_iff)

lemma isolated_fresh [iso_simps]:
  assumes "isolated_from c s0 s"
  shows
    "db_next_id s \<notin> foreign_ids (\<lambda>r. co_id r \<noteq> c) co_id (companies s0)"
    "db_next_id s \<notin> foreign_ids (\<lambda>r. er_company_id r \<noteq> c) er_id (emission_reports s0)"
    "db_next_id s \<notin> foreign_ids (\<lambda>r. du_company_id r \<noteq> c) du_id (data_uploads s0)"
    "db_next_id s \<notin> foreign_ids (\<lambda>r. sn_company_id r \<noteq> c) sn_id (scenarios s0)"
    "db_next_id s \<notin> foreign_ids (\<lambda>r. dr_company_id r \<noteq> c) dr_id (data_reviews s0)"
    "db_next_id s \<notin> foreign_ids (\<lambda>r. al_company_id r \<noteq> c) al_id (alerts s0)"
    "db_next_id s \<notin> foreign_ids (\<lambda>r. wh_company_id r \<noteq> c) wh_id (webhooks s0)"
    "db_next_id s \<notin> foreign_ids (\<lambda>r. wd_webhook_id r \<in> foreign_hooks c s0) wd_id (webhook_deliveries s0)"
    "db_next_id s \<notin> foreign_ids (\<lambda>r. scl_buyer_company_id r \<noteq> c) scl_id (supply_chain_links s0)"
    "db_next_id s \<notin> foreign_ids (\<lambda>r. dl_seller_company_id r \<noteq> c) dl_id (data_listings s0)"
    "db_next_id s \<notin> foreign_ids (\<lambda>r. dp_buyer_company_id r \<noteq> c) dp_id (data_purchases s0)"
    "db_next_id s \<notin> foreign_ids (\<lambda>r. sub_company_id r \<noteq> c) sub_id (subscriptions s0)"
    "db_next_id s \<notin> foreign_ids (\<lambda>r. fp_company_id r \<noteq> c) fp_id (financed_portfolios s0)"
    "db_next_id s \<notin> foreign_ids (\<lambda>r. fa_portfolio_id r \<in> foreign_portfolios c s0) fa_id (financed_assets s0)"
    "db_next_id s \<notin> foreign_ids (\<lambda>r. qn_company_id r \<noteq> c) qn_id (questionnaires s0)"
    "db_next_id s \<notin> foreign_ids (\<lambda>r. qq_questionnaire_id r \<in> foreign_docs c s0) qq_id (questions s0)"
proof -
  have le: "db_next_id s0 \<le> db_next_id s" and k: "keys_ok s0" using assms by (simp_all add: isolated_from_def)
  show
    "db_next_id s \<notin> foreign_ids (\<lambda>r. co_id r \<noteq> c) co_id (companies s0)"
    "db_next_id s \<notin> foreign_ids (\<lambda>r. er_company_id r \<noteq> c) er_id (emission_reports s0)"
    "db_next_id s \<notin> foreign_ids (\<lambda>r. du_company_id r \<noteq> c) du_id (data_uploads s0)"
    "db_next_id s \<notin> foreign_ids (\<lambda>r. sn_company_id r \<noteq> c) sn_id (scenarios s0)"
    "db_next_id s \<notin> foreign_ids (\<lambda>r. dr_company_id r \<noteq> c) dr_id (data_reviews s0)"
    "db_next_id s \<notin> foreign_ids (\<lambda>r. al_company_id r \<noteq> c) al_id (alerts s0)"
    "db_next_id s \<notin> foreign_ids (\<lambda>r. wh_company_id r \<noteq> c) wh_id (webhooks s0)"
    "db_next_id s \<notin> foreign_ids (\<lambda>r. wd_webhook_id r \<in> foreign_hooks c s0) wd_id (webhook_deliveries s0)"
    "db_next_id s \<notin> foreign_ids (\<lambda>r. scl_buyer_company_id r \<noteq> c) scl_id (supply_chain_links s0)"
    "db_next_id s \<notin> foreign_ids (\<lambda>r. dl_seller_company_id r \<noteq> c) dl_id (data_listings s0)"
    "db_next_id s \<notin> foreign_ids (\<lambda>r. dp_buyer_company_id r \<noteq> c) dp_id (data_purchases s0)"
    "db_next_id s \<notin> foreign_ids (\<lambda>r. sub_company_id r \<noteq> c) sub_id (subscriptions s0)"
    "db_next_id s \<notin> foreign_ids (\<lambda>r. fp_company_id r \<noteq> c) fp_id (financed_portfolios s0)"
    "db_next_id s \<notin> foreign_ids (\<lambda>r. fa_portfolio_id r \<in> foreign_portfolios c s0) fa_id (financed_assets s0)"
    "db_next_id s \<notin> foreign_ids (\<lambda>r. qn_company_id r \<noteq> c) qn_id (questionnaires s0)"
    "db_next_id s \<notin> foreign_ids (\<lambda>r. qq_questionnaire_id r \<in> foreign_docs c s0) qq_id (questions s0)"
    by (rule fresh_is_own [OF _ le], use k in \<open>simp add: keys_ok_def\<close>)+
qed

lemma isolated_own [iso_simps]:
  assumes "isolated_from c s0 s"
  shows
    "rco_id \<in> set (companies s) \<Longrightarrow> \<not> co_id rco_id \<noteq> c \<Longrightarrow> co_id rco_id \<notin> foreign_ids (\<lambda>r. co_id r \<noteq> c) co_id (companies s0)"
    "rer_id \<in> set (emission_reports s) \<Longrightarrow> \<not> er_company_id rer_id \<noteq> c \<Longrightarrow> er_id rer_id \<notin> foreign_ids (\<lambda>r. er_company_id r \<noteq> c) er_id (emission_reports s0)"
    "rdu_id \<in> set (data_uploads s) \<Longrightarrow> \<not> du_company_id rdu_id \<noteq> c \<Longrightarrow> du_id rdu_id \<notin> foreign_ids (\<lambda>r. du_company_id r \<noteq> c) du_id (data_uploads s0)"
    "rsn_id \<in> set (scenarios s) \<Longrightarrow> \<not> sn_company_id rsn_id \<noteq> c \<Longrightarrow> sn_id rsn_id \<notin> foreign_ids (\<lambda>r. sn_company_id r \<noteq> c) sn_id (scenarios s0)"
    "rdr_id \<in> set (data_reviews s) \<Longrightarrow> \<not> dr_company_id rdr_id \<noteq> c \<Longrightarrow> dr_id rdr_id \<notin> foreign_ids (\<lambda>r. dr_company_id r \<noteq> c) dr_id (data_reviews s0)"
    "ral_id \<in> set (alerts s) \<Longrightarrow> \<not> al_company_id ral_id \<noteq> c \<Longrightarrow> al_id ral_id \<notin> foreign_ids (\<lambda>r. al_company_id r \<noteq> c) al_id (alerts s0)"
    "rwh_id \<in> set (webhooks s) \<Longrightarrow> \<not> wh_company_id rwh_id \<noteq> c \<Longrightarrow> wh_id rwh_id \<notin> foreign_ids (\<lambda>r. wh_company_id r \<noteq> c) wh_id (webhooks s0)"
    "rwd_id \<in> set (webhook_deliveries s) \<Longrightarrow> \<not> wd_webhook_id rwd_id \<in> foreign_hooks c s0 \<Longrightarrow> wd_id rwd_id \<notin> foreign_ids (\<lambda>r. wd_webhook_id r \<in> foreign_hooks c s0) wd_id (webhook_deliveries s0)"
    "rscl_id \<in> set (supply_chain_links s) \<Longrightarrow> \<not> scl_buyer_company_id rscl_id \<noteq> c \<Longrightarrow> scl_id rscl_id \<notin> foreign_ids (\<lambda>r. scl_buyer_company_id r \<noteq> c) scl_id (supply_chain_links s0)"
    "rdl_id \<in> set (data_listings s) \<Longrightarrow> \<not> dl_seller_company_id rdl_id \<noteq> c \<Longrightarrow> dl_id rdl_id \<notin> foreign_ids (\<lambda>r. dl_seller_company_id r \<noteq> c) dl_id (data_listings s0)"
    "rdp_id \<in> set (data_purchases s) \<Longrightarrow> \<not> dp_buyer_company_id rdp_id \<noteq> c \<Longrightarrow> dp_id rdp_id \<notin> foreign_ids (\<lambda>r. dp_buyer_company_id r \<noteq> c) dp_id (data_purchases s0)"
    "rsub_id \<in> set (subscriptions s) \<Longrightarrow> \<not> sub_company_id rsub_id \<noteq> c \<Longrightarrow> sub_id rsub_id \<notin> foreign_ids (\<lambda>r. sub_company_id r \<noteq> c) sub_id (subscriptions s0)"
    "rfp_id \<in> set (financed_portfolios s) \<Longrightarrow> \<not> fp_company_id rfp_id \<noteq> c \<Longrightarrow> fp_id rfp_id \<notin> foreign_ids (\<lambda>r. fp_company_id r \<noteq> c) fp_id (financed_portfolios s0)"
    "rfa_id \<in> set (financed_assets s) \<Longrightarrow> \<not> fa_portfolio_id rfa_id \<in> foreign_portfolios c s0 \<Longrightarrow> fa_id rfa_id \<notin> foreign_ids (\<lambda>r. fa_portfolio_id r \<in> foreign_portfolios c s0) fa_id (financed_assets s0)"
    "rqn_id \<in> set (questionnaires s) \<Longrightarrow> \<not> qn_company_id rqn_id \<noteq> c \<Longrightarrow> qn_id rqn_id \<notin> foreign_ids (\<lambda>r. qn_company_id r \<noteq> c) qn_id (questionnaires s0)"
    "rqq_id \<in> set (questions s) \<Longrightarrow> \<not> qq_questionnaire_id rqq_id \<in> foreign_docs c s0 \<Longrightarrow> qq_id rqq_id \<notin> foreign_ids (\<lambda>r. qq_questionnaire_id r \<in> foreign_docs c s0) qq_id (questions s0)"
  using isolated_tables [OF assms] by (auto dest: table_frame_own)

lemma ledger_frame_append [iso_simps]:
  "ledger_frame c rows0 rows \<Longrightarrow> cl_company_id e = c \<or> cl_reason e = Marketplace_Sale \<Longrightarrow> ledger_frame c rows0 (rows @ [e])"
  by (auto simp: ledger_frame_def)

lemmas table_frames = table_frame_append table_frame_filter table_frame_update

lemmas iso_rules = iso_simps table_frames

lemmas iso_steps = frame_steps iso.step_utcnow iso.step_new_id
section \<open>Credits and the log\<close>

lemma iso_insert_entry: "isolated_from c s0 s \<Longrightarrow> d = c \<or> reason = Marketplace_Sale \<Longrightarrow>
    step_ok (isolated_from c s0) (\<lambda>_. True) (insert_entry d amount reason bal s)"
  unfolding insert_entry_def Let_def by (rule iso_steps isolated_writes ledger_frame_append isolated_tables | assumption | (simp; fail))+

lemma iso_balance: "isolated_from c s0 s \<Longrightarrow> step_ok (isolated_from c s0) (\<lambda>_. True) (get_balance_for_update d s)"
  "isolated_from c s0 s \<Longrightarrow> step_ok (isolated_from c s0) (\<lambda>_. True) (get_credit_balance d s)"
  by (auto simp: step_ok_def get_balance_for_update_def get_credit_balance_def lift_s_def split: sum.splits)

lemma iso_grant: "isolated_from c s0 s \<Longrightarrow> d = c \<or> reason = Marketplace_Sale \<Longrightarrow>
    step_ok (isolated_from c s0) (\<lambda>_. True) (grant_credits d amount reason s)"
  unfolding grant_credits_def by (rule iso_steps iso_balance iso_insert_entry | assumption)+

lemma iso_deduct: "isolated_from c s0 s \<Longrightarrow> step_ok (isolated_from c s0) (\<lambda>_. True) (deduct_credits c amount reason s)"
  unfolding deduct_credits_def by (rule iso_steps iso_balance iso_insert_entry | assumption | simp)+

lemma found_row: "scalar_one_or_none rows = Inr (Some r) \<Longrightarrow> r \<in> set rows"
  by (simp add: scalar_one_or_none_Some)

lemma own_subscription:
  "isolated_from c s0 s \<Longrightarrow> scalar_one_or_none (active_subscriptions c s) = Inr (Some r) \<Longrightarrow>
    sub_id r \<notin> foreign_ids (\<lambda>r. sub_company_id r \<noteq> c) sub_id (subscriptions s0)"
  by (drule found_row, erule isolated_own) (simp_all add: active_subscriptions_def)

lemma iso_subscription: "isolated_from c s0 s \<Longrightarrow>
    step_ok (isolated_from c s0) (\<lambda>sub. sub_id sub \<notin> foreign_ids (\<lambda>r. sub_company_id r \<noteq> c) sub_id (subscriptions s0))
      (get_or_create_subscription c s)"
  unfolding get_or_create_subscription_def Let_def
  by (rule iso_steps iso_grant isolated_writes table_frames isolated_tables | assumption |
    (clarsimp simp: own_subscription isolated_fresh; fail))+


lemma iso_record_audit: "isolated_from c s0 s \<Longrightarrow> step_ok (isolated_from c s0) (\<lambda>_. True) (record_audit u c a t i d s)"
  unfolding record_audit_def by (rule iso_steps isolated_writes | assumption | (simp; fail))+

lemma iso_operation: "isolated_from c s0 s \<Longrightarrow> step_ok (isolated_from c s0) (\<lambda>_. True) (deduct_operation_credits c operation s)"
  unfolding deduct_operation_credits_def by (rule iso_steps iso_deduct | assumption | (simp; fail))+

lemma iso_limits: "isolated_from c s0 s \<Longrightarrow> step_ok (isolated_from c s0) (\<lambda>_. True) (get_plan_limits c s)"
  unfolding get_plan_limits_def by (rule iso_steps iso_subscription | assumption | (simp; fail))+

lemma iso_feature: "isolated_from c s0 s \<Longrightarrow> step_ok (isolated_from c s0) (\<lambda>_. True) (check_feature_access c feature s)"
  unfolding check_feature_access_def by (rule iso_steps iso_limits | assumption | (simp; fail))+

lemma iso_affordable: "isolated_from c s0 s \<Longrightarrow> step_ok (isolated_from c s0) (\<lambda>_. True) (check_credit_balance c operation s)"
  unfolding check_credit_balance_def by (rule iso_steps iso_subscription iso_balance | assumption | (simp; fail))+

lemma iso_adjust: "isolated_from c s0 s \<Longrightarrow> step_ok (isolated_from c s0) (\<lambda>_. True) (adjust_credits c old new s)"
  unfolding adjust_credits_def by (rule iso_steps iso_balance iso_grant iso_deduct | assumption | (simp; fail))+

lemma iso_change_plan: "isolated_from c s0 s \<Longrightarrow> step_ok (isolated_from c s0) (\<lambda>_. True) (change_plan c plan s)"
  unfolding change_plan_def
  by (rule iso_steps iso_subscription iso_adjust isolated_writes table_frames isolated_tables | assumption | (simp; fail))+

section \<open>Who asks\<close>

text \<open>Whatever token the request carries, it names no user of another company.\<close>

definition acts_for :: "auth_env \<Rightarrow> db \<Rightarrow> ident \<Rightarrow> http_in \<Rightarrow> bool" where
  "acts_for auth s0 c rq \<longleftrightarrow> (\<forall>now payload. \<forall>u\<in>set (users s0).
     ae_jwt_decode auth now (fst (request_token rq)) = Inr payload \<longrightarrow> jc_sub payload = Some (us_id u) \<longrightarrow> us_company_id u = c)"

lemma iso_user:
  assumes "isolated_from c s0 s" "acts_for auth s0 c rq"
  shows "step_ok (isolated_from c s0) (\<lambda>u. us_company_id u = c) (get_current_user auth rq s)"
  unfolding step_ok_def
proof (intro allI impI)
  fix u s' assume "get_current_user auth rq s = Inr (u, s')"
  then show "isolated_from c s0 s' \<and> us_company_id u = c"
    using assms(2) iso.clock [OF assms(1)] isolated_tables(18) [OF assms(1)]
    by (elim current_user_run) (auto simp: acts_for_def)
qed

lemma iso_admin: "isolated_from c s0 s \<Longrightarrow> acts_for auth s0 c rq \<Longrightarrow>
    step_ok (isolated_from c s0) (\<lambda>u. us_company_id u = c) (require_admin auth rq s)"
  unfolding require_admin_def by (rule iso_steps iso_user | assumption | (simp; fail))+

lemma iso_plan: "isolated_from c s0 s \<Longrightarrow> acts_for auth s0 c rq \<Longrightarrow>
    step_ok (isolated_from c s0) (\<lambda>u. us_company_id u = c) (require_plan auth rq feature s)"
  unfolding require_plan_def
  by (rule step_bind [OF iso_user], assumption, assumption, hypsubst)
     (rule iso_steps iso_feature | assumption | (simp; fail))+

lemma iso_affordable_caught: "isolated_from c s0 s \<Longrightarrow> step_ok (isolated_from c s0) (\<lambda>_. True)
    (case check_credit_balance c operation s of Inl e \<Rightarrow> Inl (f e) | Inr r \<Rightarrow> Inr r)"
  using iso_affordable [of c s0 s operation] by (auto simp: step_ok_def split: sum.splits)

lemma iso_credits: "isolated_from c s0 s \<Longrightarrow> acts_for auth s0 c rq \<Longrightarrow>
    step_ok (isolated_from c s0) (\<lambda>u. us_company_id u = c) (require_credits auth rq operation s)"
  unfolding require_credits_def
  by (rule step_bind [OF iso_user], assumption, assumption, hypsubst)
     (rule iso_affordable_caught iso_steps | assumption | (simp; fail))+

lemmas iso_auth = iso_user iso_admin iso_plan iso_credits

section \<open>Webhooks\<close>

lemma iso_schedule: "isolated_from c s0 s \<Longrightarrow> step_ok (isolated_from c s0) (\<lambda>_. True) (schedule_retry env attempt s)"
  unfolding schedule_retry_def by (rule iso_steps | assumption | (simp; fail))+

lemma iso_schedule_first: "isolated_from c s0 s \<Longrightarrow>
    step_ok (isolated_from c s0) (\<lambda>e. nd_webhook_id e = nd_webhook_id d) (schedule_first env d s)"
  unfolding schedule_first_def by (rule iso_steps iso_schedule | assumption | (simp; fail))+

lemma iso_dispatch_one: "isolated_from c s0 s \<Longrightarrow>
    step_ok (isolated_from c s0) (\<lambda>r. nd_webhook_id (fst r) = wh_id wh) (dispatch_one env d event data wh s)"
  unfolding dispatch_one_def Let_def
  by (rule step_bind [OF iso.step_utcnow], assumption)
     (auto split: http_outcome.split intro!: step_bind [OF iso_schedule_first] step_return step_Inr step_Inl)


lemma iso_dispatch_all: "isolated_from c s0 s \<Longrightarrow> (\<forall>wh\<in>set whs. wh_id wh \<notin> foreign_hooks c s0) \<Longrightarrow>
    step_ok (isolated_from c s0) (\<lambda>rs. \<forall>r\<in>set rs. nd_webhook_id (fst r) \<notin> foreign_hooks c s0) (dispatch_all env d event data whs s)"
proof (induction whs arbitrary: s)
  case (Cons wh whs)
  have rest: "step_ok (isolated_from c s0) (\<lambda>rs. \<forall>r\<in>set rs. nd_webhook_id (fst r) \<notin> foreign_hooks c s0) (dispatch_all env d event data whs s')"
    if "isolated_from c s0 s'" for s'
    using Cons.IH [OF that] Cons.prems(2) by auto
  show ?case
    unfolding dispatch_all.simps using Cons.prems
    by (auto intro!: rest step_if step_bind [OF iso_dispatch_one] step_bind [OF rest] step_Inr) fastforce
qed (simp add: step_Inr)

lemma iso_flush: "isolated_from c s0 s \<Longrightarrow> nd_webhook_id d \<notin> foreign_hooks c s0 \<Longrightarrow>
    step_ok (isolated_from c s0) (\<lambda>_. True) (flush_delivery d s)"
  unfolding flush_delivery_def
  by (rule iso_steps isolated_writes table_frames isolated_tables | assumption | (clarsimp simp: isolated_fresh; fail))+

lemma iso_flush_all: "isolated_from c s0 s \<Longrightarrow> (\<forall>d\<in>set ds. nd_webhook_id d \<notin> foreign_hooks c s0) \<Longrightarrow>
    step_ok (isolated_from c s0) (\<lambda>_. True) (flush_all ds s)"
proof (induction ds arbitrary: s)
  case (Cons d ds)
  then show ?case by (auto intro!: step_bind [OF iso_flush])
qed (simp add: step_Inr)

lemma own_hooks: "isolated_from c s0 s \<Longrightarrow> \<forall>wh\<in>set (fst (list_webhooks c None None s)). wh_id wh \<notin> foreign_hooks c s0"
  unfolding foreign_hooks_def
  by (auto simp: list_webhooks_def live_webhooks_def Let_def dest: isolated_own(7))

lemma iso_dispatch_event: "isolated_from c s0 s \<Longrightarrow> step_ok (isolated_from c s0) (\<lambda>_. True) (dispatch_event env c event data s)"
  unfolding dispatch_event_def
  by (rule step_bind [OF iso_dispatch_all step_bind [OF iso_flush_all]])
     (auto simp: own_hooks intro: step_Inr)

lemma iso_dispatch: "req_ok (isolated_from c s0) (dispatch env c event data) (\<lambda>_. True)"
  unfolding dispatch_def by (rule req_bind [OF req_serve [OF iso_dispatch_event] req_commit])


section \<open>Carbon, company, scenarios\<close>

lemma own_report:
  assumes "isolated_from c s0 s" "get_report i c s = Inr r"
  shows "er_company_id r = c \<and> er_id r \<notin> foreign_ids (\<lambda>r. er_company_id r \<noteq> c) er_id (emission_reports s0)"
proof -
  have "r \<in> set (emission_reports s) \<and> er_company_id r = c"
    using assms(2) by (clarsimp simp: get_report_def live_reports_def bind_r_Inr_iff split: option.splits) (drule found_row, simp)
  then show ?thesis using isolated_own(2) [OF assms(1)] by simp
qed

lemma req_get_report: "req_ok (isolated_from c s0) (ask (get_report i c))
    (\<lambda>r. er_company_id r = c \<and> er_id r \<notin> foreign_ids (\<lambda>r. er_company_id r \<noteq> c) er_id (emission_reports s0))"
  by (rule req_weaken [OF req_ask]) (elim exE conjE own_report)

lemma own_upload:
  assumes "isolated_from c s0 s" "get_upload i c s = Inr r"
  shows "du_company_id r = c \<and> du_id r \<notin> foreign_ids (\<lambda>r. du_company_id r \<noteq> c) du_id (data_uploads s0)"
proof -
  have "r \<in> set (data_uploads s) \<and> du_company_id r = c"
    using assms(2) by (clarsimp simp: get_upload_def bind_r_Inr_iff split: option.splits) (drule found_row, simp)
  then show ?thesis using isolated_own(3) [OF assms(1)] by simp
qed

lemma req_get_upload: "req_ok (isolated_from c s0) (ask (get_upload i c))
    (\<lambda>r. du_company_id r = c \<and> du_id r \<notin> foreign_ids (\<lambda>r. du_company_id r \<noteq> c) du_id (data_uploads s0))"
  by (rule req_weaken [OF req_ask]) (elim exE conjE own_upload)

lemma own_scenario:
  assumes "isolated_from c s0 s" "get_scenario i c s = Inr r"
  shows "sn_company_id r = c \<and> sn_id r \<notin> foreign_ids (\<lambda>r. sn_company_id r \<noteq> c) sn_id (scenarios s0)"
proof -
  have "r \<in> set (scenarios s) \<and> sn_company_id r = c"
    using assms(2) by (clarsimp simp: get_scenario_def find_scenario_def live_scenarios_def bind_r_Inr_iff split: option.splits) (drule found_row, simp)
  then show ?thesis using isolated_own(4) [OF assms(1)] by simp
qed

lemma req_get_scenario: "req_ok (isolated_from c s0) (ask (get_scenario i c))
    (\<lambda>r. sn_company_id r = c \<and> sn_id r \<notin> foreign_ids (\<lambda>r. sn_company_id r \<noteq> c) sn_id (scenarios s0))"
  by (rule req_weaken [OF req_ask]) (elim exE conjE own_scenario)

lemma own_company: "get_company c s = Inr r \<Longrightarrow> co_id r = c"
  by (clarsimp simp: get_company_def bind_r_Inr_iff split: option.splits) (drule found_row, simp)

lemma req_get_company: "req_ok (isolated_from c s0) (ask (get_company c))
    (\<lambda>r. co_id r = c \<and> co_id r \<notin> foreign_ids (\<lambda>r. co_id r \<noteq> c) co_id (companies s0))"
  by (rule req_weaken [OF req_ask]) (auto simp: foreign_ids_def dest: own_company)

lemma own_found_scenario: "isolated_from c s0 s \<Longrightarrow> find_scenario i c s = Inr (Some r) \<Longrightarrow>
    sn_company_id r = c \<and> sn_id r \<notin> foreign_ids (\<lambda>r. sn_company_id r \<noteq> c) sn_id (scenarios s0)"
  using own_scenario [of c s0 s i r] by (simp add: get_scenario_def bind_r_def)

lemma req_find_scenario: "req_ok (isolated_from c s0) (ask (find_scenario i c))
    (\<lambda>m. \<forall>r. m = Some r \<longrightarrow> sn_company_id r = c \<and> sn_id r \<notin> foreign_ids (\<lambda>r. sn_company_id r \<noteq> c) sn_id (scenarios s0))"
  by (rule req_weaken [OF req_ask]) (use own_found_scenario in blast)

lemmas req_own = req_get_report req_get_upload req_get_company req_get_scenario req_find_scenario

lemmas iso_tables = isolated_writes table_frames isolated_tables

lemma iso_insert_report: "isolated_from c s0 s \<Longrightarrow> step_ok (isolated_from c s0) (\<lambda>r. er_company_id r = c) (insert_report c upload est s)"
  unfolding insert_report_def Let_def
  by (rule iso_steps iso_tables | assumption | (clarsimp simp: isolated_fresh; fail))+

lemma iso_store_estimate: "req_ok (isolated_from c s0) (store_estimate c u upload est) (\<lambda>r. er_company_id r = c)"
  unfolding store_estimate_def
  by (rule iso_steps iso_insert_report iso_operation iso_record_audit | assumption | (simp; fail))+

lemma iso_announce: "er_company_id r = c \<Longrightarrow> req_ok (isolated_from c s0) (announce_estimate env r) (\<lambda>_. True)"
  unfolding announce_estimate_def Let_def by (rule iso_steps iso_dispatch | hypsubst | assumption | (simp; fail))+

lemma iso_update_report: "req_ok (isolated_from c s0) (update_report i c u body) (\<lambda>_. True)"
  unfolding update_report_def Let_def
  by (rule req_own iso_steps iso_record_audit iso_tables | assumption | (simp; fail))+

lemma iso_delete_report: "req_ok (isolated_from c s0) (delete_report i c u) (\<lambda>_. True)"
  unfolding delete_report_def
  by (rule req_own iso_steps iso_record_audit iso_tables | assumption | (simp; fail))+

lemma iso_export_pdf: "req_ok (isolated_from c s0) (export_report_pdf generate i c) (\<lambda>_. True)"
  unfolding export_report_pdf_def by (rule iso_steps iso_operation | assumption | (simp; fail))+

lemma iso_update_company: "req_ok (isolated_from c s0) (update_company c u body) (\<lambda>_. True)"
  unfolding update_company_def
  by (rule req_own iso_steps iso_record_audit iso_tables | assumption | (clarsimp simp: set_fields_def bind_r_Inr_iff; fail))+

lemma iso_insert_upload: "isolated_from c s0 s \<Longrightarrow> step_ok (isolated_from c s0) (\<lambda>_. True) (insert_upload c year data remarks s)"
  unfolding insert_upload_def Let_def by (rule iso_steps iso_tables | assumption | (clarsimp simp: isolated_fresh; fail))+

lemma iso_create_upload: "req_ok (isolated_from c s0) (create_upload env c year data remarks) (\<lambda>_. True)"
  unfolding create_upload_def by (rule iso_insert_upload iso_dispatch iso_steps | assumption)+

lemma iso_update_upload: "req_ok (isolated_from c s0) (update_upload i c u body) (\<lambda>_. True)"
  unfolding update_upload_def Let_def
  by (rule req_own iso_steps iso_record_audit iso_tables | assumption | (simp; fail))+

lemma iso_delete_upload: "req_ok (isolated_from c s0) (delete_upload i c u) (\<lambda>_. True)"
  unfolding delete_upload_def
  by (rule req_own iso_steps iso_record_audit iso_tables | assumption | (simp; fail))+


lemma iso_write_scenario:
  "sn_company_id old = c \<Longrightarrow> sn_id old \<notin> foreign_ids (\<lambda>r. sn_company_id r \<noteq> c) sn_id (scenarios s0) \<Longrightarrow>
    sn_company_id new = c \<Longrightarrow> sn_id new = sn_id old \<Longrightarrow> req_ok (isolated_from c s0) (write_scenario old new) (\<lambda>_. True)"
  unfolding write_scenario_def by (rule iso_steps iso_tables | assumption | (simp; fail))+

lemma iso_run_scenario: "req_ok (isolated_from c s0) (run_scenario i c) (\<lambda>_. True)"
  unfolding run_scenario_def Let_def
  by (rule req_own iso_write_scenario iso_steps | assumption | (simp; fail))+

lemma iso_insert_scenario: "isolated_from c s0 s \<Longrightarrow>
    step_ok (isolated_from c s0) (\<lambda>_. True) (insert_scenario c name description base parameters s)"
  unfolding insert_scenario_def Let_def by (rule iso_steps iso_tables | assumption | (clarsimp simp: isolated_fresh; fail))+

lemma iso_create_scenario: "req_ok (isolated_from c s0) (create_scenario c name description base parameters) (\<lambda>_. True)"
  unfolding create_scenario_def by (rule iso_insert_scenario iso_steps | assumption)+

lemma iso_update_scenario: "req_ok (isolated_from c s0) (update_scenario i c body) (\<lambda>_. True)"
  unfolding update_scenario_def Let_def
  by (rule req_own iso_write_scenario iso_steps | assumption | (simp; fail))+

lemma iso_delete_scenario: "req_ok (isolated_from c s0) (delete_scenario i c) (\<lambda>_. True)"
  unfolding delete_scenario_def by (rule req_own iso_write_scenario iso_steps | assumption | (simp; fail))+

section \<open>Reviews and alerts\<close>

lemma iso_create_review: "isolated_from c s0 s \<Longrightarrow> step_ok (isolated_from c s0) (\<lambda>_. True) (create_review i c s)"
  unfolding create_review_def Let_def
  by (rule iso_steps iso_tables | assumption | (clarsimp simp: isolated_fresh; fail))+

text \<open>A row looked up by its key among the company's.\<close>

lemma own_found:
  assumes "table_frame foreign k rows0 rows" "scalar_one_or_none (filter (\<lambda>r. k r = i \<and> own r) rows) = Inr (Some x)"
    "\<And>r. own r \<Longrightarrow> \<not> foreign r"
  shows "k x = i" "own x" "i \<notin> foreign_ids foreign k rows0"
proof -
  have x: "x \<in> set rows" "k x = i" "own x" using found_row [OF assms(2)] by auto
  then show "k x = i" "own x" "i \<notin> foreign_ids foreign k rows0"
    using table_frame_own [OF assms(1) x(1) assms(3) [OF x(3)]] by auto
qed

lemma step_find:
  assumes "table_frame foreign k rows0 rows" "P s" "\<And>r. own r \<Longrightarrow> \<not> foreign r"
  shows "step_ok P (\<lambda>m. \<forall>x. m = Some x \<longrightarrow> k x = i \<and> own x \<and> i \<notin> foreign_ids foreign k rows0)
    (lift_s (scalar_one_or_none (filter (\<lambda>r. k r = i \<and> own r) rows)) s)"
proof (rule step_weaken [OF step_lift], rule assms(2))
  fix m assume "scalar_one_or_none (filter (\<lambda>r. k r = i \<and> own r) rows) = Inr m"
  then show "\<forall>x. m = Some x \<longrightarrow> k x = i \<and> own x \<and> i \<notin> foreign_ids foreign k rows0"
    using own_found [OF assms(1) _ assms(3)] by blast
qed

lemma iso_get_review: "isolated_from c s0 s \<Longrightarrow>
    step_ok (isolated_from c s0) (\<lambda>r. dr_company_id r = c \<and> dr_id r \<notin> foreign_ids (\<lambda>r. dr_company_id r \<noteq> c) dr_id (data_reviews s0))
      (get_review i c s)"
  unfolding get_review_def
  by (rule step_find [OF isolated_tables(5)] iso_steps | assumption | (simp; fail))+

lemma transition_owner: "review_transition action u role remarks now r = Inr r' \<Longrightarrow> dr_id r' = dr_id r \<and> dr_company_id r' = dr_company_id r"
  by (auto simp: review_transition_def split: if_splits)

lemma iso_perform: "isolated_from c s0 s \<Longrightarrow> dr_company_id r = c \<Longrightarrow>
    dr_id r \<notin> foreign_ids (\<lambda>r. dr_company_id r \<noteq> c) dr_id (data_reviews s0) \<Longrightarrow>
    step_ok (isolated_from c s0) (\<lambda>_. True) (perform_action r action u role remarks s)"
  unfolding perform_action_def
  by (rule iso_steps iso_tables | assumption | (simp add: transition_owner; fail))+

lemma iso_add_alert: "isolated_from c s0 s \<Longrightarrow> step_ok (isolated_from c s0) (\<lambda>_. True) (add_alert c kind severity metadata s)"
  unfolding add_alert_def Let_def by (rule iso_steps iso_tables | assumption | (clarsimp simp: isolated_fresh; fail))+

lemma iso_check_alerts: "isolated_from c s0 s \<Longrightarrow> step_ok (isolated_from c s0) (\<lambda>_. True) (check_increase cfg c latest previous s)"
  "isolated_from c s0 s \<Longrightarrow> step_ok (isolated_from c s0) (\<lambda>_. True) (check_drop cfg c latest previous s)"
  unfolding check_increase_def check_drop_def Let_def by (rule iso_add_alert iso_steps | assumption | (simp; fail))+

lemma iso_company_alerts: "isolated_from c s0 s \<Longrightarrow> step_ok (isolated_from c s0) (\<lambda>_. True) (check_company_alerts cfg c s)"
  unfolding check_company_alerts_def
  by (auto split: list.split intro!: step_bind [OF iso_check_alerts(1)] step_bind [OF iso_check_alerts(2)] step_Inr)

lemma iso_acknowledge: "isolated_from c s0 s \<Longrightarrow> step_ok (isolated_from c s0) (\<lambda>_. True) (acknowledge_alert i c s)"
  unfolding acknowledge_alert_def Let_def
  by (rule step_find [OF isolated_tables(6)] iso_steps iso_tables | assumption | (simp; fail))+

section \<open>Webhooks, the market and the supply chain\<close>

lemma iso_create_webhook: "isolated_from c s0 s \<Longrightarrow>
    step_ok (isolated_from c s0) (\<lambda>_. True) (create_webhook validate env c url event_types s)"
  unfolding create_webhook_def Let_def
  by (rule iso_steps iso_tables | assumption | (clarsimp simp: isolated_fresh; fail))+

lemma step_find_webhook:
  assumes "isolated_from c s0 s"
  shows "step_ok (isolated_from c s0) (\<lambda>m. \<forall>w. m = Some w \<longrightarrow> wh_id w = i \<and> i \<notin> foreign_hooks c s0) (lift_s (find_webhook i c s) s)"
proof (rule step_weaken [OF step_lift], rule assms)
  fix m assume "find_webhook i c s = Inr m"
  then have "m = Some w \<Longrightarrow> scalar_one_or_none (filter (\<lambda>w. wh_id w = i \<and> wh_company_id w = c \<and> wh_deleted_at w = None) (webhooks s)) = Inr (Some w)" for w
    by (simp add: find_webhook_def live_webhooks_def)
  from own_found [OF isolated_tables(7) [OF assms] this]
  show "\<forall>w. m = Some w \<longrightarrow> wh_id w = i \<and> i \<notin> foreign_hooks c s0" by (simp add: foreign_hooks_def)
qed

lemma table_frame_keep: "table_frame foreign k rows0 rows \<Longrightarrow> (\<And>r. foreign r \<Longrightarrow> Q r) \<Longrightarrow> table_frame foreign k rows0 (filter Q rows)"
proof -
  assume "\<And>r. foreign r \<Longrightarrow> Q r"
  then have "filter foreign (filter Q rows) = filter foreign rows" by (induction rows) auto
  moreover assume "table_frame foreign k rows0 rows"
  ultimately show ?thesis by (simp add: table_frame_def)
qed

lemma iso_delete_webhook: "isolated_from c s0 s \<Longrightarrow> step_ok (isolated_from c s0) (\<lambda>_. True) (delete_webhook i c s)"
  unfolding delete_webhook_def
  by (rule step_find_webhook iso_steps iso_tables table_frame_keep | assumption | (clarsimp simp: foreign_hooks_def; fail))+

lemma iso_toggle_webhook: "isolated_from c s0 s \<Longrightarrow> step_ok (isolated_from c s0) (\<lambda>_. True) (toggle_webhook i c active s)"
  unfolding toggle_webhook_def
  by (rule step_find_webhook iso_steps iso_tables | assumption | (simp add: foreign_hooks_def; fail))+


lemma iso_attempt: "isolated_from c s0 s \<Longrightarrow>
    step_ok (isolated_from c s0) (\<lambda>(e, failed). wd_id e = wd_id d \<and> wd_webhook_id e = wd_webhook_id d) (attempt_delivery env wh d s)"
  unfolding attempt_delivery_def Let_def
  by (rule step_bind [OF iso.step_utcnow], assumption) (auto split: http_outcome.split intro!: step_Inr step_Inl)

lemma own_delivery:
  assumes "isolated_from c s0 s" "scalar_one_or_none (owned_deliveries i c s) = Inr (Some d)"
  shows "wd_webhook_id d \<notin> foreign_hooks c s0" "wd_id d \<notin> foreign_ids (\<lambda>r. wd_webhook_id r \<in> foreign_hooks c s0) wd_id (webhook_deliveries s0)"
proof -
  obtain w where w: "d \<in> set (webhook_deliveries s)" "w \<in> set (webhooks s)" "wh_id w = wd_webhook_id d" "wh_company_id w = c"
    using found_row [OF assms(2)] by (auto simp: owned_deliveries_def live_webhooks_def)
  then show "wd_webhook_id d \<notin> foreign_hooks c s0"
    using isolated_own(7) [OF assms(1)] by (force simp: foreign_hooks_def)
  then show "wd_id d \<notin> foreign_ids (\<lambda>r. wd_webhook_id r \<in> foreign_hooks c s0) wd_id (webhook_deliveries s0)"
    using isolated_own(8) [OF assms(1)] w(1) by simp
qed

lemma iso_write_delivery:
  "isolated_from c s0 s \<Longrightarrow> wd_webhook_id d \<notin> foreign_hooks c s0 \<Longrightarrow>
    wd_id d \<notin> foreign_ids (\<lambda>r. wd_webhook_id r \<in> foreign_hooks c s0) wd_id (webhook_deliveries s0) \<Longrightarrow>
    step_ok (isolated_from c s0) (\<lambda>_. True) (write_delivery d s)"
  unfolding write_delivery_def by (rule iso_steps iso_tables | assumption | (simp; fail))+

lemma iso_retry_delivery:
  assumes iso: "isolated_from c s0 s"
  shows "step_ok (isolated_from c s0) (\<lambda>_. True) (retry_delivery env i c s)"
  unfolding retry_delivery_def
proof (rule step_bind [OF step_lift], rule iso, rule step_option)
  fix m s1 d assume s1: "isolated_from c s0 s1" "scalar_one_or_none (owned_deliveries i c s) = Inr m" "m = Some d"
  then have d: "wd_webhook_id d \<notin> foreign_hooks c s0"
    "wd_id d \<notin> foreign_ids (\<lambda>r. wd_webhook_id r \<in> foreign_hooks c s0) wd_id (webhook_deliveries s0)"
    using own_delivery [OF iso] by simp_all
  have last: "step_ok (isolated_from c s0) (\<lambda>_. True)
      (bind_s (if wd_success e then return_s None else bind_s (schedule_retry env (wd_retry_count e)) (\<lambda>t. return_s (Some t)))
        (\<lambda>next. bind_s (write_delivery (e\<lparr>wd_next_retry_at := next\<rparr>)) (\<lambda>_. return_s (Some (e\<lparr>wd_next_retry_at := next\<rparr>)))) s2)"
    if "isolated_from c s0 s2" "wd_id e = wd_id d \<and> wd_webhook_id e = wd_webhook_id d" for e s2
    by (rule step_bind [where R = "\<lambda>_. True"])
       (rule iso_schedule iso_write_delivery iso_steps that(1) | assumption | (simp add: that d; fail))+
  show "step_ok (isolated_from c s0) (\<lambda>_. True)
      (bind_s (lift_s (scalar_one_or_none (filter (\<lambda>w. wh_id w = wd_webhook_id d) (webhooks s))))
        (\<lambda>wh. case wh of None \<Rightarrow> return_s None
          | Some wh \<Rightarrow> if \<not> wh_active wh then return_s None
              else bind_s (attempt_delivery env wh d) (\<lambda>(d, failed).
                let d = (if failed then d\<lparr>wd_success := False\<rparr> else d)
                in bind_s (if wd_success d then return_s None
                     else bind_s (schedule_retry env (wd_retry_count d)) (\<lambda>t. return_s (Some t))) (\<lambda>next.
                   let d = d\<lparr>wd_next_retry_at := next\<rparr>
                   in bind_s (write_delivery d) (\<lambda>_. return_s (Some d))))) s1)"
    unfolding Let_def
    by (rule iso_attempt last iso_steps s1(1) | assumption | (clarsimp; fail))+
qed (simp add: step_Inr)

lemma iso_create_listing: "isolated_from c s0 s \<Longrightarrow>
    step_ok (isolated_from c s0) (\<lambda>_. True) (create_listing c title description data_type i price s)"
  unfolding create_listing_def Let_def
  by (rule iso_steps iso_tables | assumption | (clarsimp simp: isolated_fresh; fail))+

lemma iso_get_listing: "isolated_from c s0 s \<Longrightarrow> step_ok (isolated_from c s0) (\<lambda>_. True) (get_listing_by_id i s)"
  unfolding get_listing_by_id_def by (rule step_any, rule step_lift)

lemma iso_insert_purchase: "isolated_from c s0 s \<Longrightarrow> step_ok (isolated_from c s0) (\<lambda>_. True) (insert_purchase i c price s)"
  unfolding insert_purchase_def Let_def
  by (rule iso_steps iso_tables | assumption | (clarsimp simp: isolated_fresh; fail))+

lemma iso_pay: "isolated_from c s0 s \<Longrightarrow> step_ok (isolated_from c s0) (\<lambda>_. True) (pay c seller price s)"
  unfolding pay_def by (rule iso_deduct iso_grant iso_steps | assumption | (simp; fail))+

lemma iso_purchase: "isolated_from c s0 s \<Longrightarrow> step_ok (isolated_from c s0) (\<lambda>_. True) (purchase_listing i c s)"
  unfolding purchase_listing_def
  by (rule iso_get_listing iso_insert_purchase iso_pay iso_steps | assumption | (simp; fail))+

lemma iso_withdraw: "isolated_from c s0 s \<Longrightarrow> step_ok (isolated_from c s0) (\<lambda>_. True) (withdraw_listing i c s)"
  unfolding withdraw_listing_def
  by (rule step_find [OF isolated_tables(10)] iso_steps iso_tables | assumption | (simp; fail))+

lemma iso_create_link: "isolated_from c s0 s \<Longrightarrow>
    step_ok (isolated_from c s0) (\<lambda>_. True) (create_link c supplier spend category remarks s)"
  unfolding create_link_def Let_def
  by (rule iso_steps iso_tables | assumption | (clarsimp simp: isolated_fresh; fail))+

lemma step_find_link:
  assumes "isolated_from c s0 s"
  shows "step_ok (isolated_from c s0)
    (\<lambda>m. \<forall>l. m = Some l \<longrightarrow> scl_id l = i \<and> i \<notin> foreign_ids (\<lambda>r. scl_buyer_company_id r \<noteq> c) scl_id (supply_chain_links s0))
    (lift_s (find_link i c s) s)"
proof (rule step_weaken [OF step_lift], rule assms)
  fix m assume "find_link i c s = Inr m"
  then have "m = Some l \<Longrightarrow> scalar_one_or_none (filter (\<lambda>l. scl_id l = i \<and> scl_buyer_company_id l = c \<and> scl_deleted_at l = None) (supply_chain_links s)) = Inr (Some l)" for l
    by (simp add: find_link_def live_links_def)
  from own_found [OF isolated_tables(9) [OF assms] this]
  show "\<forall>l. m = Some l \<longrightarrow> scl_id l = i \<and> i \<notin> foreign_ids (\<lambda>r. scl_buyer_company_id r \<noteq> c) scl_id (supply_chain_links s0)" by simp
qed

lemma iso_link_status: "isolated_from c s0 s \<Longrightarrow> step_ok (isolated_from c s0) (\<lambda>_. True) (update_link_status i c status s)"
  unfolding update_link_status_def
  by (rule step_find_link iso_steps iso_tables | assumption | (simp; fail))+

lemma iso_remove_link: "isolated_from c s0 s \<Longrightarrow> step_ok (isolated_from c s0) (\<lambda>_. True) (remove_link i c s)"
  unfolding remove_link_def
  by (rule step_find_link iso_steps iso_tables | assumption | (clarsimp; fail))+

section \<open>Financed emissions\<close>

lemma req_get_portfolio: "req_ok (isolated_from c s0) (ask (get_portfolio i c)) (\<lambda>p. i \<notin> foreign_portfolios c s0)"
proof (rule req_weaken [OF req_ask], elim exE conjE)
  fix p s assume p: "isolated_from c s0 s" "get_portfolio i c s = Inr p"
  then have "scalar_one_or_none (filter (\<lambda>p. fp_id p = i \<and> fp_company_id p = c \<and> fp_deleted_at p = None) (financed_portfolios s)) = Inr (Some p)"
    by (clarsimp simp: get_portfolio_def bind_r_Inr_iff split: option.splits)
  from own_found(3) [OF isolated_tables(13) [OF p(1)] this] show "i \<notin> foreign_portfolios c s0" by (simp add: foreign_portfolios_def)
qed

lemma iso_insert_portfolio: "isolated_from c s0 s \<Longrightarrow> step_ok (isolated_from c s0) (\<lambda>_. True) (insert_portfolio c name year s)"
  unfolding insert_portfolio_def Let_def
  by (rule iso_steps iso_tables | assumption | (clarsimp simp: isolated_fresh; fail))+

lemma iso_insert_asset: "isolated_from c s0 s \<Longrightarrow> i \<notin> foreign_portfolios c s0 \<Longrightarrow>
    step_ok (isolated_from c s0) (\<lambda>_. True) (insert_asset i body figures s)"
  unfolding insert_asset_def Let_def
  by (rule iso_steps iso_tables | assumption | (clarsimp simp: isolated_fresh; fail))+

section \<open>Questionnaires\<close>

text \<open>The frame of the questionnaires and their questions.\<close>

lemma table_frame_remove:
  "table_frame foreign k rows0 rows \<Longrightarrow> (\<And>r. foreign r \<Longrightarrow> keep r) \<Longrightarrow> table_frame foreign k rows0 (filter keep rows)"
  by (auto simp: table_frame_def conj_commute cong: conj_cong intro!: filter_cong)

lemma req_own_doc:
  "req_ok (isolated_from c s0) (ask (own_questionnaire i c)) (\<lambda>m. \<forall>d. m = Some d \<longrightarrow> i \<notin> foreign_docs c s0 \<and> qn_id d = i \<and> qn_company_id d = c)"
proof (rule req_weaken [OF req_ask], elim exE conjE, intro allI impI)
  fix m d s assume m: "isolated_from c s0 s" "own_questionnaire i c s = Inr m" "m = Some d"
  then have "scalar_one_or_none (filter (\<lambda>q. qn_id q = i \<and> qn_company_id q = c \<and> qn_deleted_at q = None) (questionnaires s)) = Inr (Some d)"
    by (simp add: own_questionnaire_def)
  from own_found(3) [OF isolated_tables(15) [OF m(1)] this] found_row [OF this]
  show "i \<notin> foreign_docs c s0 \<and> qn_id d = i \<and> qn_company_id d = c" by (auto simp: foreign_docs_def)
qed

lemma req_the_doc:
  "req_ok (isolated_from c s0) (the_questionnaire i c) (\<lambda>d. i \<notin> foreign_docs c s0 \<and> qn_id d = i \<and> qn_company_id d = c)"
  unfolding the_questionnaire_def by (rule req_bind [OF req_own_doc]) (rule iso_steps | simp)+

lemma iso_update_doc:
  "i \<notin> foreign_docs c s0 \<Longrightarrow> (\<And>r. qn_id r = i \<Longrightarrow> qn_company_id r = c \<Longrightarrow> qn_company_id (f r) = c \<and> qn_id (f r) = i) \<Longrightarrow>
    req_ok (isolated_from c s0) (update_doc i f) (\<lambda>_. True)"
  unfolding update_doc_def foreign_docs_def
  by (intro req_write isolated_writes(15) table_frame_update) (simp_all add: isolated_tables)

lemma iso_insert_doc: "isolated_from c s0 s \<Longrightarrow>
    step_ok (isolated_from c s0) (\<lambda>d. qn_id d \<notin> foreign_docs c s0) (insert_doc c title filename file_type file_size status txt s)"
  unfolding insert_doc_def Let_def foreign_docs_def
  by (rule iso_steps isolated_writes table_frames isolated_tables | assumption | (clarsimp simp: isolated_fresh; fail))+

lemma iso_insert_question: "isolated_from c s0 s \<Longrightarrow> i \<notin> foreign_docs c s0 \<Longrightarrow>
    step_ok (isolated_from c s0) (\<lambda>_. True) (insert_question i q s)"
  unfolding insert_question_def
  by (rule iso_steps isolated_writes table_frames isolated_tables | assumption | (clarsimp simp: isolated_fresh; fail))+

lemma iso_insert_questions: "isolated_from c s0 s \<Longrightarrow> i \<notin> foreign_docs c s0 \<Longrightarrow>
    step_ok (isolated_from c s0) (\<lambda>_. True) (each_s (insert_question i) qs s)"
proof (induction qs arbitrary: s)
  case (Cons q qs)
  then show ?case by (auto intro!: step_bind [OF iso_insert_question])
qed (simp add: step_Inr)

lemma req_clear_questions: "i \<notin> foreign_docs c s0 \<Longrightarrow>
    req_ok (isolated_from c s0) (write_db (\<lambda>s. s\<lparr>questions := filter (\<lambda>q. qq_questionnaire_id q \<noteq> i) (questions s)\<rparr>)) (\<lambda>_. True)"
  by (intro req_write isolated_writes(16) table_frame_remove) (auto simp: isolated_tables)

lemma iso_process: "req_ok (isolated_from c s0) (process_questionnaire env i c) (\<lambda>_. True)"
  unfolding process_questionnaire_def
  by (rule req_bind [OF req_own_doc])
    (rule req_bind [OF iso_update_doc] req_bind [OF req_clear_questions] iso_update_doc iso_insert_questions iso_steps
      | assumption | (simp; fail) | blast)+

lemma iso_add_template_question: "i \<notin> foreign_docs c s0 \<Longrightarrow> req_ok (isolated_from c s0) (add_template_question env cf i q) (\<lambda>_. True)"
  unfolding add_template_question_def by (rule iso_steps iso_insert_question | assumption | (simp; fail))+

lemma iso_each_template_question: "i \<notin> foreign_docs c s0 \<Longrightarrow>
    req_ok (isolated_from c s0) (each_q (add_template_question env cf i) qs) (\<lambda>_. True)"
  by (induction qs) (auto intro!: req_return req_bind [OF iso_add_template_question])

lemma req_own_question:
  assumes "i \<notin> foreign_docs c s0"
  shows "req_ok (isolated_from c s0) (ask (\<lambda>s. scalar_one_or_none (filter (\<lambda>q. qq_id q = j \<and> qq_questionnaire_id q = i) (questions s))))
    (\<lambda>m. \<forall>q. m = Some q \<longrightarrow> qq_id q = j \<and> qq_questionnaire_id q = i \<and>
       j \<notin> foreign_ids (\<lambda>r. qq_questionnaire_id r \<in> foreign_docs c s0) qq_id (questions s0))"
proof (rule req_weaken [OF req_ask], elim exE conjE, intro allI impI)
  fix m q s assume m: "isolated_from c s0 s" "scalar_one_or_none (filter (\<lambda>q. qq_id q = j \<and> qq_questionnaire_id q = i) (questions s)) = Inr m" "m = Some q"
  then have found: "scalar_one_or_none (filter (\<lambda>q. qq_id q = j \<and> qq_questionnaire_id q = i) (questions s)) = Inr (Some q)" by simp
  from own_found(3) [OF isolated_tables(16) [OF m(1)] found] found_row [OF found]
  show "qq_id q = j \<and> qq_questionnaire_id q = i \<and>
      j \<notin> foreign_ids (\<lambda>r. qq_questionnaire_id r \<in> foreign_docs c s0) qq_id (questions s0)" using assms by auto
qed

lemma req_update_question:
  "j \<notin> foreign_ids (\<lambda>r. qq_questionnaire_id r \<in> foreign_docs c s0) qq_id (questions s0) \<Longrightarrow> qq_id q = j \<Longrightarrow>
   qq_questionnaire_id q \<notin> foreign_docs c s0 \<Longrightarrow>
   req_ok (isolated_from c s0) (write_db (\<lambda>s. s\<lparr>questions := update_row qq_id j (\<lambda>_. q) (questions s)\<rparr>)) (\<lambda>_. True)"
  by (intro req_write isolated_writes(16) table_frame_update) (simp_all add: isolated_tables)

end
