(* ===== verification/Requests.thy ===== *)
theory Requests
imports Trade_Routes Compliance Billing Questionnaire_Routes
begin

text \<open>
  \<open>api/main.py\<close> puts the routers together: the requests a company's users can make of its data, its money and
  its dealings with others, one datatype per router, and the server that answers them one after the other,
  each in a session of its own. The state of the server is the database and the breakers of the bridge to
  the subnet. Routes of accounts and teams are in theories of their own.
\<close>

record site_env =
  st_auth :: auth_env
  st_estimate :: estimate_env
  st_export :: export_env
  st_pdf :: "company \<Rightarrow> emission_report \<Rightarrow> string"
  st_collation :: "string \<Rightarrow> string \<Rightarrow> bool"
  st_alerts :: alert_config
  st_profiles :: industry_data
  st_model :: "ml_model option"
  st_compliance :: compliance_env
  st_docs :: doc_env
  st_llm :: llm_env
  st_questions_pdf :: "string \<Rightarrow> string \<Rightarrow> question list \<Rightarrow> string res"
  st_validate :: "string \<Rightarrow> unit res"

datatype carbon_call =
    List_Reports "int option" "flt option" report_sort bool nat nat
  | Export_Reports string "int option"
  | Get_Report ident
  | Update_Report ident report_update
  | Export_Report_Pdf ident
  | Delete_Report ident
  | Dashboard

datatype company_call =
    Get_Company
  | Update_Company company_update
  | Upload_Data data_upload_create
  | List_Uploads "int option" nat nat
  | Get_Upload ident
  | Update_Upload ident upload_update
  | Delete_Upload ident

datatype scenario_call =
    Create_Scenario string "string option" "ident option" pydict
  | List_Scenarios "string option" scenario_sort bool nat nat
  | Get_Scenario ident
  | Update_Scenario ident scenario_update
  | Compute_Scenario ident
  | Delete_Scenario ident

datatype review_call =
    Create_Review ident
  | List_Reviews "review_status option" nat nat
  | Get_Review ident
  | Review_Action ident string "string option"

datatype alert_call =
    Get_Alerts bool nat nat
  | Ack_Alert ident
  | Check_Alerts

datatype audit_call =
    List_Logs log_filter nat nat

datatype benchmark_call =
    List_Benchmarks "string option" "string option" "int option" nat nat
  | Compare_Benchmark ident

datatype ai_call =
    Parse_Text string
  | Predict prediction_request
  | Get_Recommendations ident

datatype compliance_call =
    Compliance_Report ident string

datatype questionnaire_call =
    Upload_Questionnaire upload_file
  | List_Questionnaires "questionnaire_status option" "string option" bool nat nat
  | Get_Templates
  | Get_Template string
  | Apply_Template string
  | Get_Questionnaire ident
  | Extract_Questions ident
  | Update_Question ident ident question_update
  | Delete_Questionnaire ident
  | Update_Questionnaire ident questionnaire_update
  | Export_Questionnaire ident

datatype webhook_call =
    Add_Webhook string "string list"
  | Get_Webhooks nat nat
  | Update_Webhook ident bool
  | Remove_Webhook ident
  | Get_Deliveries ident nat nat
  | Retry_Delivery ident

datatype market_call =
    Create_Listing listing_create
  | Browse_Market "string option" "string option" "data_listing_type option" nat nat
  | Get_Listing ident
  | Purchase_Data ident
  | Get_My_Listings nat nat
  | Withdraw_Listing ident
  | Get_My_Sales nat nat
  | Get_My_Revenue

datatype supply_call =
    Add_Supplier link_create
  | Get_Suppliers nat nat
  | Get_Buyers nat nat
  | Scope3_From_Suppliers "int option"
  | Get_Link ident
  | Update_Link ident string
  | Delete_Link ident

datatype pcaf_call =
    Create_Portfolio string int
  | List_Portfolios nat nat
  | Portfolio_Summary ident
  | Add_Asset ident asset_create
  | List_Assets ident nat nat
  | Delete_Asset ident ident

datatype billing_call =
    Get_Subscription
  | Change_Subscription string
  | Get_Credits
  | List_Plans
  | Grant_Credits int
  | Credit_History nat nat

datatype call =
    Create_Estimate ident
  | To_Carbon carbon_call
  | To_Company company_call
  | To_Scenarios scenario_call
  | To_Reviews review_call
  | To_Alerts alert_call
  | To_Audit audit_call
  | To_Benchmarks benchmark_call
  | To_Ai ai_call
  | To_Compliance compliance_call
  | To_Questionnaires questionnaire_call
  | To_Webhooks webhook_call
  | To_Market market_call
  | To_Supply supply_call
  | To_Pcaf pcaf_call
  | To_Billing billing_call

text \<open>A request without its reply\<close>

definition answered :: "'a req \<Rightarrow> unit req" where
  "answered m = bind_q m (\<lambda>_. return_q ())"

primrec carbon_req :: "site_env \<Rightarrow> http_in \<Rightarrow> carbon_call \<Rightarrow> unit req" where
  "carbon_req env rq (List_Reports a b c d e f) = answered (list_reports_route (st_auth env) rq a b c d e f)"
| "carbon_req env rq (Export_Reports a b) = answered (export_reports_route (st_auth env) (st_export env) rq a b)"
| "carbon_req env rq (Get_Report a) = answered (get_report_route (st_auth env) rq a)"
| "carbon_req env rq (Update_Report a b) = answered (update_report_route (st_auth env) rq a b)"
| "carbon_req env rq (Export_Report_Pdf a) = answered (export_report_pdf_route (st_auth env) (st_pdf env) rq a)"
| "carbon_req env rq (Delete_Report a) = answered (delete_report_route (st_auth env) rq a)"
| "carbon_req env rq Dashboard = answered (dashboard_route (st_auth env) rq)"

primrec company_req :: "site_env \<Rightarrow> http_in \<Rightarrow> company_call \<Rightarrow> unit req" where
  "company_req env rq Get_Company = answered (get_company_route (st_auth env) rq)"
| "company_req env rq (Update_Company a) = answered (update_company_route (st_auth env) rq a)"
| "company_req env rq (Upload_Data a) = answered (upload_data_route (st_auth env) (en_web (st_estimate env)) rq a)"
| "company_req env rq (List_Uploads a b c) = answered (list_data_uploads_route (st_auth env) rq a b c)"
| "company_req env rq (Get_Upload a) = answered (get_data_upload_route (st_auth env) rq a)"
| "company_req env rq (Update_Upload a b) = answered (update_data_upload_route (st_auth env) rq a b)"
| "company_req env rq (Delete_Upload a) = answered (delete_data_upload_route (st_auth env) rq a)"

primrec scenario_req :: "site_env \<Rightarrow> http_in \<Rightarrow> scenario_call \<Rightarrow> unit req" where
  "scenario_req env rq (Create_Scenario a b c d) = answered (create_scenario_route (st_auth env) rq a b c d)"
| "scenario_req env rq (List_Scenarios a b c d e) = answered (list_scenarios_route (st_auth env) (st_collation env) rq a b c d e)"
| "scenario_req env rq (Get_Scenario a) = answered (get_scenario_route (st_auth env) rq a)"
| "scenario_req env rq (Update_Scenario a b) = answered (update_scenario_route (st_auth env) rq a b)"
| "scenario_req env rq (Compute_Scenario a) = answered (compute_scenario_route (st_auth env) rq a)"
| "scenario_req env rq (Delete_Scenario a) = answered (delete_scenario_route (st_auth env) rq a)"

primrec review_req :: "site_env \<Rightarrow> http_in \<Rightarrow> review_call \<Rightarrow> unit req" where
  "review_req env rq (Create_Review a) = answered (create_review_route (st_auth env) rq a)"
| "review_req env rq (List_Reviews a b c) = answered (list_reviews_route (st_auth env) rq a b c)"
| "review_req env rq (Get_Review a) = answered (get_review_route (st_auth env) rq a)"
| "review_req env rq (Review_Action a b c) = answered (review_action_route (st_auth env) rq a b c)"

primrec alert_req :: "site_env \<Rightarrow> http_in \<Rightarrow> alert_call \<Rightarrow> unit req" where
  "alert_req env rq (Get_Alerts a b c) = answered (get_alerts_route (st_auth env) rq a b c)"
| "alert_req env rq (Ack_Alert a) = answered (ack_alert_route (st_auth env) rq a)"
| "alert_req env rq Check_Alerts = answered (trigger_alert_check_route (st_auth env) (st_alerts env) rq)"

primrec audit_req :: "site_env \<Rightarrow> http_in \<Rightarrow> audit_call \<Rightarrow> unit req" where
  "audit_req env rq (List_Logs a b c) = answered (list_audit_logs_route (st_auth env) rq a b c)"

primrec benchmark_req :: "site_env \<Rightarrow> http_in \<Rightarrow> benchmark_call \<Rightarrow> unit req" where
  "benchmark_req env rq (List_Benchmarks a b c d e) = answered (list_benchmarks_route (st_auth env) (st_collation env) rq a b c d e)"
| "benchmark_req env rq (Compare_Benchmark a) = answered (compare_to_industry_route (st_auth env) rq a)"

primrec ai_req :: "site_env \<Rightarrow> http_in \<Rightarrow> ai_call \<Rightarrow> unit req" where
  "ai_req env rq (Parse_Text a) = answered (parse_text_route (st_auth env) (st_llm env) rq a)"
| "ai_req env rq (Predict a) = answered (predict_route (st_auth env) (st_profiles env) (st_model env) rq a)"
| "ai_req env rq (Get_Recommendations a) = answered (get_recommendations_route (st_auth env) rq a)"

primrec compliance_req :: "site_env \<Rightarrow> http_in \<Rightarrow> compliance_call \<Rightarrow> unit req" where
  "compliance_req env rq (Compliance_Report a b) = answered (create_compliance_report (st_auth env) (st_compliance env) rq a b)"

primrec questionnaire_req :: "site_env \<Rightarrow> http_in \<Rightarrow> questionnaire_call \<Rightarrow> unit req" where
  "questionnaire_req env rq (Upload_Questionnaire a) = answered (upload_questionnaire (st_auth env) (st_docs env) rq a)"
| "questionnaire_req env rq (List_Questionnaires a b c d e) = answered (list_questionnaires (st_auth env) rq a b c d e)"
| "questionnaire_req env rq Get_Templates = answered (get_templates (st_auth env) rq)"
| "questionnaire_req env rq (Get_Template a) = answered (get_template_detail (st_auth env) rq a)"
| "questionnaire_req env rq (Apply_Template a) = answered (apply_template (st_auth env) (st_llm env) (st_profiles env) (st_model env) rq a)"
| "questionnaire_req env rq (Get_Questionnaire a) = answered (get_questionnaire (st_auth env) rq a)"
| "questionnaire_req env rq (Extract_Questions a) = answered (extract_questions (st_auth env) (st_llm env) rq a)"
| "questionnaire_req env rq (Update_Question a b c) = answered (update_question (st_auth env) rq a b c)"
| "questionnaire_req env rq (Delete_Questionnaire a) = answered (delete_questionnaire (st_auth env) rq a)"
| "questionnaire_req env rq (Update_Questionnaire a b) = answered (update_questionnaire (st_auth env) rq a b)"
| "questionnaire_req env rq (Export_Questionnaire a) = answered (export_questionnaire_pdf (st_auth env) (st_questions_pdf env) rq a)"

primrec webhook_req :: "site_env \<Rightarrow> http_in \<Rightarrow> webhook_call \<Rightarrow> unit req" where
  "webhook_req env rq (Add_Webhook a b) = answered (add_webhook_route (st_auth env) (st_validate env) (en_web (st_estimate env)) rq a b)"
| "webhook_req env rq (Get_Webhooks a b) = answered (get_webhooks_route (st_auth env) rq a b)"
| "webhook_req env rq (Update_Webhook a b) = answered (update_webhook_route (st_auth env) rq a b)"
| "webhook_req env rq (Remove_Webhook a) = answered (remove_webhook_route (st_auth env) rq a)"
| "webhook_req env rq (Get_Deliveries a b c) = answered (get_deliveries_route (st_auth env) rq a b c)"
| "webhook_req env rq (Retry_Delivery a) = answered (retry_webhook_delivery_route (st_auth env) (en_web (st_estimate env)) rq a)"

primrec market_req :: "site_env \<Rightarrow> http_in \<Rightarrow> market_call \<Rightarrow> unit req" where
  "market_req env rq (Create_Listing a) = answered (create_data_listing_route (st_auth env) rq a)"
| "market_req env rq (Browse_Market a b c d e) = answered (browse_marketplace_route (st_auth env) rq a b c d e)"
| "market_req env rq (Get_Listing a) = answered (get_listing_route (st_auth env) rq a)"
| "market_req env rq (Purchase_Data a) = answered (purchase_data_route (st_auth env) rq a)"
| "market_req env rq (Get_My_Listings a b) = answered (get_my_listings_route (st_auth env) rq a b)"
| "market_req env rq (Withdraw_Listing a) = answered (withdraw_data_listing_route (st_auth env) rq a)"
| "market_req env rq (Get_My_Sales a b) = answered (get_my_sales_route (st_auth env) rq a b)"
| "market_req env rq Get_My_Revenue = answered (get_my_revenue_route (st_auth env) rq)"

primrec supply_req :: "site_env \<Rightarrow> http_in \<Rightarrow> supply_call \<Rightarrow> unit req" where
  "supply_req env rq (Add_Supplier a) = answered (add_supplier_route (st_auth env) (en_web (st_estimate env)) rq a)"
| "supply_req env rq (Get_Suppliers a b) = answered (get_suppliers_route (st_auth env) rq a b)"
| "supply_req env rq (Get_Buyers a b) = answered (get_buyers_route (st_auth env) rq a b)"
| "supply_req env rq (Scope3_From_Suppliers a) = answered (scope3_from_suppliers_route (st_auth env) rq a)"
| "supply_req env rq (Get_Link a) = answered (get_link_route (st_auth env) rq a)"
| "supply_req env rq (Update_Link a b) = answered (update_link_route (st_auth env) (en_web (st_estimate env)) rq a b)"
| "supply_req env rq (Delete_Link a) = answered (delete_link_route (st_auth env) rq a)"

primrec pcaf_req :: "site_env \<Rightarrow> http_in \<Rightarrow> pcaf_call \<Rightarrow> unit req" where
  "pcaf_req env rq (Create_Portfolio a b) = answered (create_portfolio_route (st_auth env) rq a b)"
| "pcaf_req env rq (List_Portfolios a b) = answered (list_portfolios_route (st_auth env) rq a b)"
| "pcaf_req env rq (Portfolio_Summary a) = answered (portfolio_summary_route (st_auth env) rq a)"
| "pcaf_req env rq (Add_Asset a b) = answered (add_asset_route (st_auth env) rq a b)"
| "pcaf_req env rq (List_Assets a b c) = answered (list_assets_route (st_auth env) rq a b c)"
| "pcaf_req env rq (Delete_Asset a b) = answered (delete_asset_route (st_auth env) rq a b)"

primrec billing_req :: "site_env \<Rightarrow> http_in \<Rightarrow> billing_call \<Rightarrow> unit req" where
  "billing_req env rq Get_Subscription = answered (get_subscription (st_auth env) rq)"
| "billing_req env rq (Change_Subscription a) = answered (update_subscription (st_auth env) rq a)"
| "billing_req env rq Get_Credits = answered (get_credits (st_auth env) rq)"
| "billing_req env rq List_Plans = answered (list_plans (st_auth env) rq)"
| "billing_req env rq (Grant_Credits a) = answered (admin_grant_credits (st_auth env) rq a)"
| "billing_req env rq (Credit_History a b) = answered (get_credit_history (st_auth env) rq a b)"


type_synonym site = "db \<times> bridge"

text \<open>The creation of an estimate also works on the bridge; the other requests leave it as it is.\<close>

primrec serve_call :: "site_env \<Rightarrow> http_in \<Rightarrow> call \<Rightarrow> site \<Rightarrow> site" where
  "serve_call env rq (Create_Estimate i) site =
     (case create_estimate_route (st_auth env) (st_estimate env) rq i (snd site)
             \<lparr>ses_db = fst site, ses_saved = fst site\<rparr> of
        ((reply, ses), bridge) \<Rightarrow> (end_session ses, bridge))"
| "serve_call env rq (To_Carbon call) site = (snd (get_db (carbon_req env rq call) (fst site)), snd site)"
| "serve_call env rq (To_Company call) site = (snd (get_db (company_req env rq call) (fst site)), snd site)"
| "serve_call env rq (To_Scenarios call) site = (snd (get_db (scenario_req env rq call) (fst site)), snd site)"
| "serve_call env rq (To_Reviews call) site = (snd (get_db (review_req env rq call) (fst site)), snd site)"
| "serve_call env rq (To_Alerts call) site = (snd (get_db (alert_req env rq call) (fst site)), snd site)"
| "serve_call env rq (To_Audit call) site = (snd (get_db (audit_req env rq call) (fst site)), snd site)"
| "serve_call env rq (To_Benchmarks call) site = (snd (get_db (benchmark_req env rq call) (fst site)), snd site)"
| "serve_call env rq (To_Ai call) site = (snd (get_db (ai_req env rq call) (fst site)), snd site)"
| "serve_call env rq (To_Compliance call) site = (snd (get_db (compliance_req env rq call) (fst site)), snd site)"
| "serve_call env rq (To_Questionnaires call) site = (snd (get_db (questionnaire_req env rq call) (fst site)), snd site)"
| "serve_call env rq (To_Webhooks call) site = (snd (get_db (webhook_req env rq call) (fst site)), snd site)"
| "serve_call env rq (To_Market call) site = (snd (get_db (market_req env rq call) (fst site)), snd site)"
| "serve_call env rq (To_Supply call) site = (snd (get_db (supply_req env rq call) (fst site)), snd site)"
| "serve_call env rq (To_Pcaf call) site = (snd (get_db (pcaf_req env rq call) (fst site)), snd site)"
| "serve_call env rq (To_Billing call) site = (snd (get_db (billing_req env rq call) (fst site)), snd site)"

definition serve_calls :: "site_env \<Rightarrow> (http_in \<times> call) list \<Rightarrow> site \<Rightarrow> site" where
  "serve_calls env requests site = foldl (\<lambda>site (rq, call). serve_call env rq call site) site requests"

end
