(* ===== verification/Tenant_Laws.thy ===== *)
theory Tenant_Laws
imports Isolation Requests
begin

text \<open>
  Every request leaves the rows of other companies alone: one lemma per router, by the rules of the frame
  and those of the services, then a request served and any run of them.
\<close>

lemma req_ask_any: "req_ok P (ask f) (\<lambda>_. True)"
  by (rule req_any, rule req_ask)

lemma iso_answered: "req_ok P m (\<lambda>_. True) \<Longrightarrow> req_ok P (answered m) (\<lambda>_. True)"
  unfolding answered_def by (rule frame_steps | assumption | simp)+

lemma iso_get_link: "isolated_from c s0 s \<Longrightarrow> step_ok (isolated_from c s0) (\<lambda>_. True) (get_link i c s)"
  unfolding get_link_def by (rule step_any [OF step_find_link])

lemma req_find_asset:
  assumes "i \<notin> foreign_portfolios c s0"
  shows "req_ok (isolated_from c s0) (ask (\<lambda>s. scalar_one_or_none (filter (\<lambda>a. fa_id a = j) (assets_of i s))))
    (\<lambda>m. \<forall>a. m = Some a \<longrightarrow> j \<notin> foreign_ids (\<lambda>r. fa_portfolio_id r \<in> foreign_portfolios c s0) fa_id (financed_assets s0))"
proof (rule req_weaken [OF req_ask], elim exE conjE, intro allI impI)
  fix m a s assume m: "isolated_from c s0 s" "scalar_one_or_none (filter (\<lambda>a. fa_id a = j) (assets_of i s)) = Inr m" "m = Some a"
  then have "scalar_one_or_none (filter (\<lambda>a. fa_id a = j \<and> fa_portfolio_id a = i) (financed_assets s)) = Inr (Some a)"
    by (simp add: assets_of_def conj_commute)
  from own_found(3) [OF isolated_tables(14) [OF m(1)] this]
  show "j \<notin> foreign_ids (\<lambda>r. fa_portfolio_id r \<in> foreign_portfolios c s0) fa_id (financed_assets s0)" using assms by simp
qed

lemma req_remove_asset:
  "j \<notin> foreign_ids (\<lambda>r. fa_portfolio_id r \<in> foreign_portfolios c s0) fa_id (financed_assets s0) \<Longrightarrow>
   req_ok (isolated_from c s0) (write_db (\<lambda>s. s\<lparr>financed_assets := filter (\<lambda>a. fa_id a \<noteq> j) (financed_assets s)\<rparr>)) (\<lambda>_. True)"
  by (intro req_write isolated_writes(14) table_frame_filter) (simp_all add: isolated_tables)

lemmas iso_services = iso_operation iso_record_audit iso_subscription iso_balance iso_grant iso_change_plan
  iso_create_review iso_get_review iso_perform iso_company_alerts iso_acknowledge iso_create_webhook iso_toggle_webhook
  iso_delete_webhook iso_retry_delivery iso_create_listing iso_get_listing iso_purchase iso_withdraw iso_create_link
  iso_link_status iso_remove_link iso_insert_portfolio iso_insert_asset iso_insert_doc

lemmas iso_requests = iso_update_report iso_delete_report iso_export_pdf iso_update_company iso_create_upload iso_update_upload
  iso_delete_upload iso_run_scenario iso_create_scenario iso_update_scenario iso_delete_scenario iso_dispatch req_get_portfolio
  iso_process iso_each_template_question req_ask_any

lemmas iso_route_rules = iso_auth iso_services iso_requests iso_steps


lemmas carbon_calls = list_reports_route_def export_reports_route_def get_report_route_def update_report_route_def
  export_report_pdf_route_def delete_report_route_def dashboard_route_def

lemma iso_carbon_req: "acts_for (st_auth env) s0 c rq \<Longrightarrow> req_ok (isolated_from c s0) (carbon_req env rq call) (\<lambda>_. True)"
  by (cases call; hypsubst_thin; simp only: carbon_req.simps carbon_calls Let_def;
    (rule iso_answered iso_route_rules | assumption | hypsubst | (clarsimp; fail))+)

lemmas company_calls = get_company_route_def update_company_route_def upload_data_route_def list_data_uploads_route_def
  get_data_upload_route_def update_data_upload_route_def delete_data_upload_route_def

lemma iso_company_req: "acts_for (st_auth env) s0 c rq \<Longrightarrow> req_ok (isolated_from c s0) (company_req env rq call) (\<lambda>_. True)"
  by (cases call; hypsubst_thin; simp only: company_req.simps company_calls Let_def;
    (rule iso_answered iso_route_rules | assumption | hypsubst | (clarsimp; fail))+)

lemmas scenario_calls = create_scenario_route_def list_scenarios_route_def get_scenario_route_def update_scenario_route_def
  compute_scenario_route_def delete_scenario_route_def

lemma iso_scenario_req: "acts_for (st_auth env) s0 c rq \<Longrightarrow> req_ok (isolated_from c s0) (scenario_req env rq call) (\<lambda>_. True)"
  by (cases call; hypsubst_thin; simp only: scenario_req.simps scenario_calls Let_def;
    (rule iso_answered iso_route_rules | assumption | hypsubst | (clarsimp; fail))+)

lemmas review_calls = create_review_route_def list_reviews_route_def get_review_route_def review_action_route_def

lemma iso_review_req: "acts_for (st_auth env) s0 c rq \<Longrightarrow> req_ok (isolated_from c s0) (review_req env rq call) (\<lambda>_. True)"
  by (cases call; hypsubst_thin; simp only: review_req.simps review_calls Let_def;
    (rule step_any [OF iso_get_review] iso_answered iso_route_rules | assumption | hypsubst | (clarsimp; fail))+)

lemmas alert_calls = get_alerts_route_def ack_alert_route_def trigger_alert_check_route_def

lemma iso_alert_req: "acts_for (st_auth env) s0 c rq \<Longrightarrow> req_ok (isolated_from c s0) (alert_req env rq call) (\<lambda>_. True)"
  by (cases call; hypsubst_thin; simp only: alert_req.simps alert_calls Let_def;
    (rule iso_answered iso_route_rules | assumption | hypsubst | (clarsimp; fail))+)

lemmas audit_calls = list_audit_logs_route_def

lemma iso_audit_req: "acts_for (st_auth env) s0 c rq \<Longrightarrow> req_ok (isolated_from c s0) (audit_req env rq call) (\<lambda>_. True)"
  by (cases call; hypsubst_thin; simp only: audit_req.simps audit_calls Let_def;
    (rule iso_answered iso_route_rules | assumption | hypsubst | (clarsimp; fail))+)

lemmas benchmark_calls = list_benchmarks_route_def compare_to_industry_route_def

lemma iso_benchmark_req: "acts_for (st_auth env) s0 c rq \<Longrightarrow> req_ok (isolated_from c s0) (benchmark_req env rq call) (\<lambda>_. True)"
  by (cases call; hypsubst_thin; simp only: benchmark_req.simps benchmark_calls Let_def;
    (rule iso_answered iso_route_rules | assumption | hypsubst | (clarsimp; fail))+)

lemmas ai_calls = parse_text_route_def predict_route_def get_recommendations_route_def

lemma iso_ai_req: "acts_for (st_auth env) s0 c rq \<Longrightarrow> req_ok (isolated_from c s0) (ai_req env rq call) (\<lambda>_. True)"
  by (cases call; hypsubst_thin; simp only: ai_req.simps ai_calls Let_def;
    (rule iso_answered iso_route_rules | assumption | hypsubst | (clarsimp; fail))+)

lemmas compliance_calls = create_compliance_report_def

lemma iso_compliance_req: "acts_for (st_auth env) s0 c rq \<Longrightarrow> req_ok (isolated_from c s0) (compliance_req env rq call) (\<lambda>_. True)"
  by (cases call; hypsubst_thin; simp only: compliance_req.simps compliance_calls Let_def;
    (rule iso_answered iso_route_rules | assumption | hypsubst | (clarsimp; fail))+)

lemmas questionnaire_calls = upload_questionnaire_def list_questionnaires_def get_templates_def get_template_detail_def apply_template_def
  get_questionnaire_def extract_questions_def update_question_def delete_questionnaire_def
  update_questionnaire_def export_questionnaire_pdf_def

lemma iso_questionnaire_req: "acts_for (st_auth env) s0 c rq \<Longrightarrow> req_ok (isolated_from c s0) (questionnaire_req env rq call) (\<lambda>_. True)"
  by (cases call; hypsubst_thin; simp only: questionnaire_req.simps questionnaire_calls Let_def;
    (hypsubst | rule req_bind [OF req_the_doc] req_bind [OF req_own_question] req_bind [OF req_update_question] req_bind [OF iso_update_doc] iso_answered iso_route_rules | assumption | hypsubst | (clarsimp; fail))+)

lemmas webhook_calls = add_webhook_route_def get_webhooks_route_def update_webhook_route_def remove_webhook_route_def
  get_deliveries_route_def retry_webhook_delivery_route_def

lemma iso_webhook_req: "acts_for (st_auth env) s0 c rq \<Longrightarrow> req_ok (isolated_from c s0) (webhook_req env rq call) (\<lambda>_. True)"
  by (cases call; hypsubst_thin; simp only: webhook_req.simps webhook_calls Let_def;
    (rule iso_answered iso_route_rules | assumption | hypsubst | (clarsimp; fail))+)

lemmas market_calls = create_data_listing_route_def browse_marketplace_route_def get_listing_route_def purchase_data_route_def
  get_my_listings_route_def withdraw_data_listing_route_def get_my_sales_route_def get_my_revenue_route_def

lemma iso_market_req: "acts_for (st_auth env) s0 c rq \<Longrightarrow> req_ok (isolated_from c s0) (market_req env rq call) (\<lambda>_. True)"
  by (cases call; hypsubst_thin; simp only: market_req.simps market_calls Let_def;
    (rule iso_answered iso_route_rules | assumption | hypsubst | (clarsimp; fail))+)

lemmas supply_calls = add_supplier_route_def get_suppliers_route_def get_buyers_route_def scope3_from_suppliers_route_def
  get_link_route_def update_link_route_def delete_link_route_def

lemma iso_supply_req: "acts_for (st_auth env) s0 c rq \<Longrightarrow> req_ok (isolated_from c s0) (supply_req env rq call) (\<lambda>_. True)"
  by (cases call; hypsubst_thin; simp only: supply_req.simps supply_calls Let_def;
    (rule iso_get_link iso_answered iso_route_rules | assumption | hypsubst | (clarsimp; fail))+)

lemmas pcaf_calls = create_portfolio_route_def list_portfolios_route_def portfolio_summary_route_def add_asset_route_def
  list_assets_route_def delete_asset_route_def

lemma iso_pcaf_req: "acts_for (st_auth env) s0 c rq \<Longrightarrow> req_ok (isolated_from c s0) (pcaf_req env rq call) (\<lambda>_. True)"
  by (cases call; hypsubst_thin; simp only: pcaf_req.simps pcaf_calls Let_def;
    (hypsubst | rule req_bind [OF req_get_portfolio] req_bind [OF req_find_asset] req_bind [OF req_remove_asset] iso_answered iso_route_rules | assumption | hypsubst | (clarsimp; fail))+)

lemmas billing_calls = get_subscription_def update_subscription_def get_credits_def list_plans_def admin_grant_credits_def
  get_credit_history_def

lemma iso_billing_req: "acts_for (st_auth env) s0 c rq \<Longrightarrow> req_ok (isolated_from c s0) (billing_req env rq call) (\<lambda>_. True)"
  by (cases call; hypsubst_thin; simp only: billing_req.simps billing_calls Let_def;
    (rule iso_answered iso_route_rules | assumption | hypsubst | (clarsimp; fail))+)

lemmas iso_calls = iso_carbon_req iso_company_req iso_scenario_req iso_review_req iso_alert_req iso_audit_req iso_benchmark_req iso_ai_req iso_compliance_req iso_questionnaire_req iso_webhook_req iso_market_req iso_supply_req iso_pcaf_req iso_billing_req

section \<open>The server\<close>

lemma iso_create_estimate: "req_ok (isolated_from c s0) (\<lambda>ses. fst (create_estimate env i c u b ses)) (\<lambda>_. True)"
proof -
  have looked_up: "req_ok (isolated_from c s0) (bind_q (ask (find_upload i c)) (\<lambda>upload. bind_q (ask (get_company_row c)) (\<lambda>co.
      bind_q (ask (\<lambda>s. make_questionnaire co upload)) (\<lambda>questionnaire. return_q (upload, questionnaire))))) (\<lambda>_. True)"
    by (rule iso_steps | simp)+
  have stored: "req_ok (isolated_from c s0) (bind_q (store_estimate c u upload est) (\<lambda>r.
      bind_q (announce_estimate (en_web env) r) (\<lambda>_. return_q r))) (\<lambda>_. True)" for upload est
    by (rule iso_store_estimate iso_announce iso_steps | assumption | simp)+
  show ?thesis
    using looked_up stored by (fastforce simp: req_ok_def create_estimate_def split: prod.split sum.split)
qed

lemma create_estimate_route_is:
  "fst (create_estimate_route auth env rq i b ses) =
     bind_q (serve (require_credits auth rq ''estimate''))
       (\<lambda>u. rethrow service_error (\<lambda>ses. fst (create_estimate env i (us_company_id u) (us_id u) b ses))) ses"
  by (auto simp: create_estimate_route_def bind_q_def rethrow_def split: prod.split sum.split)

lemma iso_estimate: "acts_for auth s0 c rq \<Longrightarrow>
    req_ok (isolated_from c s0) (\<lambda>ses. fst (create_estimate_route auth env rq i b ses)) (\<lambda>_. True)"
  unfolding create_estimate_route_is
  by (rule req_bind [OF req_serve [OF iso_credits]], assumption, assumption, hypsubst)
     (rule iso_create_estimate req_rethrow)+

lemma iso_serve_call:
  assumes "acts_for (st_auth env) s0 c rq" "isolated_from c s0 (fst site)"
  shows "isolated_from c s0 (fst (serve_call env rq call site))"
proof (cases call)
  case (Create_Estimate i)
  let ?r = "create_estimate_route (st_auth env) (st_estimate env) rq i (snd site) \<lparr>ses_db = fst site, ses_saved = fst site\<rparr>"
  have "isolated_from c s0 (end_session (snd (fst ?r)))"
    using iso_estimate [OF assms(1), of "st_estimate env" i "snd site"] assms(2)
    by (intro iso.frame_end_session) (auto simp: req_ok_def)
  then show ?thesis using Create_Estimate by (cases ?r) auto
qed (simp_all add: iso.frame_get_db(1) [where Q = "\<lambda>_. True"] assms iso_calls)

lemma acts_for_isolated: "isolated_from c s0 s \<Longrightarrow> acts_for auth s0 c rq \<Longrightarrow> acts_for auth s c rq"
  by (simp add: acts_for_def isolated_tables)

lemma iso_serve_calls:
  "isolated_from c s0 (fst site) \<Longrightarrow> \<forall>(rq, call)\<in>set requests. acts_for (st_auth env) s0 c rq \<Longrightarrow>
    isolated_from c s0 (fst (serve_calls env requests site))"
  by (induction requests arbitrary: site) (auto simp: serve_calls_def iso_serve_call split: prod.splits)

end
