(* ===== verification/Web_Properties.thy ===== *)
theory Web_Properties
imports Route_Laws Tenant_Laws Samples
begin

text \<open>The properties of the routes: the companies of one server, payments, credits, uploads and compliance reports.\<close>

text \<open>Two companies; the first has credits, a subscription known to the payment provider, an upload and a report.\<close>

definition tenant :: "ident \<Rightarrow> company" where
  "tenant c = estimate_company\<lparr>co_id := c\<rparr>"

definition web_db :: db where
  "web_db = access_db\<lparr>companies := [tenant 10, tenant 20], credit_ledger := [sample_entry\<lparr>cl_company_id := 10\<rparr>],
     subscriptions := [sample_subscription\<lparr>sub_company_id := 10, sub_stripe_customer_id := Some ''cus''\<rparr>],
     data_uploads := [estimate_upload\<lparr>du_company_id := 10\<rparr>],
     emission_reports := [sample_report\<lparr>er_company_id := 10\<rparr>, sample_report\<lparr>er_id := 14, er_company_id := 20\<rparr>]\<rparr>"

lemmas web_rows = web_db_def tenant_def sample_entry_def sample_subscription_def sample_report_def estimate_upload_def estimate_company_def

lemma admin_signs_in:
  assumes "users s = users access_db" "revoked_tokens s = []"
  shows "get_current_user sample_auth admin_request_in s = Inr (sample_admin, s\<lparr>db_now := db_now s + 1\<rparr>)"
proof -
  have "is_token_revoked ''j'' s = Inr False" "live_user 1 s = Inr sample_admin"
    using assms by (simp_all add: is_token_revoked_def live_user_def access_sample_defs)
  then show ?thesis
    by (simp add: get_current_user_def admin_token decode_or_401_def decode_access_token_def admin_claims_def
        bind_s_def sample_rows_of_db del: One_nat_def)
qed

lemma web_user: "get_current_user sample_auth admin_request_in web_db = Inr (sample_admin, web_db\<lparr>db_now := 101\<rparr>)"
  by (subst admin_signs_in) (simp_all add: web_db_def access_db_def empty_db_def)

lemma web_ledger: "ledger_ok web_db" "balance_of web_db 10 = 500"
  by (auto simp: ledger_ok_def balance_of_def company_ledger_def web_db_def access_db_def sample_entry_def)

lemma web_subscription: "active_subscriptions 10 web_db = [sample_subscription\<lparr>sub_company_id := 10, sub_stripe_customer_id := Some ''cus''\<rparr>]"
  by (simp add: active_subscriptions_def web_rows)

text \<open>
  C1. Companies that share a server do not touch each other's data: whatever requests the users of one company
  make, in any order, of reports, uploads, scenarios, reviews, alerts, questionnaires, webhooks, the market,
  suppliers, portfolios, plans and credits, every row of another company is afterwards as it was before, in the same
  order, whether the requests succeed or fail. The only rows others gain are the credits of sales to it.
\<close>

theorem tenant_isolation:
  assumes "keys_ok s" "\<forall>(rq, call) \<in> set requests. acts_for (st_auth env) s c rq"
  shows "same_elsewhere c s (fst (serve_calls env requests (s, bridge)))"
  using iso_serve_calls [of c s "(s, bridge)" requests env] isolated_refl [OF assms(1)] assms(2)
  by (simp add: isolated_from_def)

theorem tenant_isolation_witness:
  "\<forall>env. same_elsewhere 10 web_db (fst (serve_calls (env\<lparr>st_auth := sample_auth\<rparr>)
     [(admin_request_in, Create_Estimate 13), (admin_request_in, To_Billing (Grant_Credits 7)),
      (admin_request_in, To_Carbon (Delete_Report 12)), (admin_request_in, To_Carbon (Delete_Report 14))] (web_db, fresh_bridge)))"
proof
  fix env :: site_env
  have keys: "keys_ok web_db"
    by (simp add: keys_ok_def web_rows access_db_def empty_db_def)
  have acts: "acts_for sample_auth web_db 10 admin_request_in"
    by (simp add: acts_for_def admin_token sample_decode_def admin_claims_def web_db_def access_sample_defs)
  show "same_elsewhere 10 web_db (fst (serve_calls (env\<lparr>st_auth := sample_auth\<rparr>)
     [(admin_request_in, Create_Estimate 13), (admin_request_in, To_Billing (Grant_Credits 7)),
      (admin_request_in, To_Carbon (Delete_Report 12)), (admin_request_in, To_Carbon (Delete_Report 14))] (web_db, fresh_bridge)))"
    by (rule tenant_isolation [OF keys]) (simp add: acts)
qed

text \<open>
  C3. Payment events are taken only from the provider: an event that is answered with success, or that changes a
  subscription or an alert, carries a keyed digest of its time and its body, and that time is within five
  minutes of the clock. No event, signed or not, changes a plan, a company, the credits or any other table.
\<close>

theorem payment_events_are_signed:
  assumes "stripe_webhook env payload header s = (r, s')"
  shows "payments_only s s' \<and>
    (r = Inr () \<or> subscriptions s' \<noteq> subscriptions s \<or> alerts s' \<noteq> alerts s \<longrightarrow>
     (\<exists>elements n. signature_elements (split_on (CHR '','') header) [] = Inr elements \<and>
        py_int (dict_get elements ''t'' []) = Some n \<and> \<bar>db_now s + 1 - n * 1000000\<bar> \<le> 300 * 1000000 \<and>
        dict_get elements ''v1'' [] = sp_hmac env (sp_secret env) (dict_get elements ''t'' [] @ ''.'' @ payload)))"
proof (intro conjI impI)
  show "payments_only s s'" using webhook_payments_only [of s env payload header] assms by simp
  assume "r = Inr () \<or> subscriptions s' \<noteq> subscriptions s \<or> alerts s' \<noteq> alerts s"
  then have "r = Inr () \<or> s' \<noteq> s \<and> s' \<noteq> s\<lparr>db_now := db_now s + 1\<rparr>" by auto
  then obtain event where "verify_stripe_signature env (db_now s + 1) payload header = Inr event"
    using webhook_signed [OF assms] by blast
  then show "\<exists>elements n. signature_elements (split_on (CHR '','') header) [] = Inr elements \<and>
      py_int (dict_get elements ''t'' []) = Some n \<and> \<bar>db_now s + 1 - n * 1000000\<bar> \<le> 300 * 1000000 \<and>
      dict_get elements ''v1'' [] = sp_hmac env (sp_secret env) (dict_get elements ''t'' [] @ ''.'' @ payload)"
    by (elim signature_checked) blast
qed

definition sample_stripe :: stripe_env where
  "sample_stripe = \<lparr>sp_secret = ''k'', sp_hmac = (\<lambda>k m. ''5f''),
     sp_loads = (\<lambda>_. Inr (PDict [(''type'', PStr ''invoice.payment_failed''),
       (''data'', PDict [(''object'', PDict [(''customer'', PStr ''cus'')])])]))\<rparr>"

abbreviation failed_payment :: "string \<Rightarrow> pyval" where
  "failed_payment i \<equiv> PDict [(''object'', PDict [(''customer'', PStr i)])]"

lemma payment_failed_run:
  assumes "find_subscription (\<lambda>r. sub_stripe_customer_id r = Some i) s = Inr (Some sub)" "i \<noteq> []"
  shows "\<exists>s'. get_db (handle_invoice_payment_failed (failed_payment i)) s = (Inr (), s') \<and>
    subscriptions s' = update_row sub_id (sub_id sub) (\<lambda>r. r\<lparr>sub_status := Sub_Past_Due\<rparr>) (subscriptions s)"
  using assms
  by (simp add: handle_invoice_payment_failed_def get_of_def dict_get_def text_value_def update_sub_def write_db_def
      insert_payment_alert_def serve_def bind_s_def get_db_def end_session_def)

lemma webhook_run:
  assumes "verify_stripe_signature env (db_now s + 1) payload header = Inr (PDict [(''type'', PStr t), (''data'', d)])"
    "map_of event_handlers t = Some handler" "get_db (handler d) (s\<lparr>db_now := db_now s + 1\<rparr>) = (Inr (), s')" "sp_secret env \<noteq> []"
  shows "stripe_webhook env payload header s = (Inr (), s')"
  using assms by (simp add: stripe_webhook_def get_of_def dict_get_def)

theorem payment_events_are_signed_witness:
  "\<exists>s'. stripe_webhook sample_stripe ''{}'' ''t=0,v1=5f'' web_db = (Inr (), s') \<and>
     map sub_status (subscriptions s') = [Sub_Past_Due] \<and> payments_only web_db s'"
proof -
  have e: "signature_elements (split_on (CHR '','') ''t=0,v1=5f'') [] = Inr [(''t'', ''0''), (''v1'', ''5f'')]" by code_simp
  have n: "py_int ''0'' = Some 0" by code_simp
  let ?sub = "sample_subscription\<lparr>sub_company_id := 10, sub_stripe_customer_id := Some ''cus''\<rparr>"
  have rows: "subscriptions web_db = [?sub]" "db_now web_db = 100" by (simp_all add: web_db_def access_db_def)
  have v: "verify_stripe_signature sample_stripe (db_now web_db + 1) ''{}'' ''t=0,v1=5f'' =
      Inr (PDict [(''type'', PStr ''invoice.payment_failed''), (''data'', failed_payment ''cus'')])"
    unfolding verify_stripe_signature_def e bind_r_simps Let_def dict_get_def
    by (simp add: n rows sample_stripe_def is_ascii_def)
  have found: "find_subscription (\<lambda>r. sub_stripe_customer_id r = Some ''cus'') (web_db\<lparr>db_now := db_now web_db + 1\<rparr>) = Inr (Some ?sub)"
    by (simp add: find_subscription_def rows) (simp add: sample_subscription_def)
  obtain s' where run: "get_db (handle_invoice_payment_failed (failed_payment ''cus'')) (web_db\<lparr>db_now := db_now web_db + 1\<rparr>) = (Inr (), s')"
    "subscriptions s' = update_row sub_id (sub_id ?sub) (\<lambda>r. r\<lparr>sub_status := Sub_Past_Due\<rparr>) [?sub]"
    using payment_failed_run [OF found] rows(1) by auto
  have s': "stripe_webhook sample_stripe ''{}'' ''t=0,v1=5f'' web_db = (Inr (), s')"
  proof (rule webhook_run [where handler = handle_invoice_payment_failed, OF v _ run(1)])
    show "map_of event_handlers ''invoice.payment_failed'' = Some handle_invoice_payment_failed"
      unfolding event_handlers_def map_of.simps fst_conv snd_conv by simp
    show "sp_secret sample_stripe \<noteq> []" by (simp add: sample_stripe_def)
  qed
  have "map sub_status (subscriptions s') = [Sub_Past_Due]" unfolding run(2) update_row_def by simp
  with s' payment_events_are_signed [OF s', THEN conjunct1] show ?thesis by (intro exI conjI)
qed

text \<open>
  The admin of a company grants the company its own credits: a request that passes as admin is granted any
  amount up to a million, the balance of its company grows by exactly that amount and no other balance
  moves. Nothing asks for a payment or for a role outside the company.
\<close>

theorem admin_grants_itself:
  assumes "ledger_ok s" "require_admin auth rq s = Inr (u, s1)" "0 < amount" "amount \<le> 1000000"
    "active_subscriptions (us_company_id u) s = [sub]"
  shows "\<exists>out s'. get_db (admin_grant_credits auth rq amount) s = (Inr out, s') \<and>
    bo_balance out = balance_of s (us_company_id u) + amount \<and>
    (\<forall>c. balance_of s' c = balance_of s c + (if c = us_company_id u then amount else 0)) \<and> ledger_ok s'"
proof -
  have "grant_amount_ok amount" using assms(3,4) by (simp add: grant_amount_ok_def)
  from admin_grant_run [OF assms(1,2) this assms(5)] show ?thesis by metis
qed

theorem admin_grants_itself_witness:
  "\<exists>out s'. get_db (admin_grant_credits sample_auth admin_request_in 1000000) web_db = (Inr out, s') \<and> balance_of s' 10 = 1000500"
proof -
  have "require_admin sample_auth admin_request_in web_db = Inr (sample_admin, web_db\<lparr>db_now := 101\<rparr>)"
    by (simp add: require_admin_def web_user bind_s_def sample_rows_of_db)
  from admin_grants_itself [OF web_ledger(1) this, of 1000000] show ?thesis
    using web_subscription web_ledger(2) by (auto simp: sample_rows_of_db)
qed

text \<open>
  C2. A compliance report is paid for when it is made and not otherwise: a request for one either fails and leaves
  every table as it was, or it names one of the seven frameworks and a report of the company that is not
  deleted, and then adds one charge of ten credits, which the balance covered, and one audit entry, and
  changes nothing else.
\<close>

theorem compliance_report_charged_once:
  assumes "ledger_ok s" "get_current_user auth rq s = Inr (u, s1)" "active_subscriptions (us_company_id u) s = [sub]"
    "get_db (create_compliance_report auth env rq report_id framework) s = (x, s')"
  shows "isl x \<and> s' = s\<lparr>db_now := db_now s', db_next_id := db_next_id s'\<rparr> \<or>
    \<not> isl x \<and> framework \<in> set frameworks \<and>
    (\<exists>r\<in>set (emission_reports s). er_id r = report_id \<and> er_company_id r = us_company_id u \<and> er_deleted_at r = None) \<and>
    reported (us_company_id u) (us_id u) report_id s s'"
proof -
  obtain ses where run: "create_compliance_report auth env rq report_id framework \<lparr>ses_db = s, ses_saved = s\<rparr> = (x, ses)"
    and s': "s' = end_session ses"
    using assms(4) by (auto simp: get_db_def split: prod.splits)
  show ?thesis
  proof (cases x)
    case (Inl e)
    then show ?thesis using compliance_fails run by (fastforce simp: s' end_session_def)
  next
    case (Inr figures)
    then show ?thesis using compliance_runs [OF _ assms(1-3)] run by (auto simp: s')
  qed
qed

definition sample_compliance :: compliance_env where
  "sample_compliance = \<lparr>ce_pow = (\<lambda>x n. Fin (1 / 2 ^ n)), ce_text = (\<lambda>_. ''text''), ce_isoformat = (\<lambda>_. ''now'')\<rparr>"

theorem compliance_report_charged_once_witness:
  "\<exists>figures s'. get_db (create_compliance_report sample_auth sample_compliance admin_request_in 12 ''sbti'') web_db = (Inr figures, s') \<and>
     reported 10 1 12 web_db s'"
proof -
  obtain x s' where run: "get_db (create_compliance_report sample_auth sample_compliance admin_request_in 12 ''sbti'') web_db = (x, s')"
    by fastforce
  note u = web_user
  have sub: "active_subscriptions 10 (web_db\<lparr>db_now := t\<rparr>) = [sample_subscription\<lparr>sub_company_id := 10, sub_stripe_customer_id := Some ''cus''\<rparr>]" for t
    using web_subscription by (simp add: active_subscriptions_def)
  have bal: "ledger_ok (web_db\<lparr>db_now := t\<rparr>) \<and> balance_of (web_db\<lparr>db_now := t\<rparr>) 10 = 500" if "100 \<le> t" for t
    using that by (auto simp: ledger_ok_def balance_of_def company_ledger_def web_db_def access_db_def sample_entry_def)
  have gate: "require_credits sample_auth admin_request_in ''estimate'' web_db = Inr (sample_admin, web_db\<lparr>db_now := 101\<rparr>)"
    by (rule credits_gate [OF u]) (use web_subscription web_ledger in \<open>auto simp: sample_rows_of_db operation_cost_def dict_get_def credit_costs_def\<close>)
  obtain e s2 where charge: "deduct_operation_credits 10 ''estimate'' (web_db\<lparr>db_now := 102\<rparr>) = Inr ((), s2)"
  proof -
    obtain reason where "usage_reason ''estimate'' = Inr reason" by (simp add: usage_reason_def credit_reason_names_def)
    moreover obtain e t where "deduct_credits 10 10 reason (web_db\<lparr>db_now := 102\<rparr>) = Inr (e, t)"
      using deduct_effect [of "web_db\<lparr>db_now := 102\<rparr>" 10 10 reason] bal [of 102] by auto
    ultimately show thesis using that
      by (simp add: deduct_operation_credits_def operation_cost_def dict_get_def credit_costs_def bind_s_def)
  qed
  have rows: "find_report 12 10 (web_db\<lparr>db_now := 101\<rparr>) = Inr (Some (sample_report\<lparr>er_company_id := 10\<rparr>))"
    "get_company_row 10 (web_db\<lparr>db_now := 101\<rparr>) = Inr (tenant 10)"
    by (simp_all add: find_report_def get_company_row_def scalar_one_def web_rows)
  have "\<not> isl x"
    using run by (auto simp: get_db_def create_compliance_report_def gate frameworks_def rows charge sample_rows_of_db
        generate_report_def split: prod.splits)
  then show ?thesis
    using compliance_report_charged_once [OF web_ledger(1) u _ run] web_subscription run
    by (cases x) (auto simp: sample_rows_of_db)
qed

text \<open>
  C32. The inventory of scope 3 shows the fifteen categories of the protocol, each with the figure the breakdown has
  under the name the report expects, rounded to cents, and nothing else: an emission under any other name
  is in no category. The name under which the platform's own data have the use of sold products,
  \<open>cat11_use_of_sold_products\<close>, is such a one.
\<close>

theorem scope3_inventory:
  assumes "build_scope3_categories d = Inr cats"
  shows "length cats = 15 \<and>
    (\<forall>i<15. \<exists>x. get_num d (snd (snd (cat_map ! i))) = Inr x \<and> ct_number (cats ! i) = i + 1 \<and>
       ct_tco2e (cats ! i) = py_round x 2 \<and> ct_relevant (cats ! i) = (0 < x)) \<and>
    (\<forall>v. build_scope3_categories (dict_set ''cat11_use_of_sold_products'' v d) = Inr cats)"
proof -
  have "''cat11_use_of_sold_products'' \<notin> set (map (snd \<circ> snd) cat_map)" by code_simp
  then show ?thesis
    using categories_at [OF assms] categories_other [of "''cat11_use_of_sold_products''" _ d] assms by auto
qed

theorem scope3_inventory_witness:
  "\<exists>cats. build_scope3_categories [(''cat1_purchased_goods'', PNum (Fin 5))] = Inr cats \<and> length cats = 15 \<and>
     ct_relevant (cats ! 0) \<and>
     build_scope3_categories (dict_set ''cat11_use_of_sold_products'' (PNum (Fin 7)) [(''cat1_purchased_goods'', PNum (Fin 5))]) = Inr cats"
proof -
  have "returns (build_scope3_categories [(''cat1_purchased_goods'', PNum (Fin 5))])"
    by (simp add: build_scope3_categories_def cat_map_def scope3_category_of_def get_num_def dict_get_def returns_bind)
  then obtain cats where c: "build_scope3_categories [(''cat1_purchased_goods'', PNum (Fin 5))] = Inr cats" by (rule returnsE)
  have "get_num [(''cat1_purchased_goods'', PNum (Fin 5))] (snd (snd (cat_map ! 0))) = Inr (Fin 5)"
    by (simp add: cat_map_def get_num_def dict_get_def)
  then have "ct_relevant (cats ! 0)"
    using scope3_inventory [OF c, THEN conjunct2, THEN conjunct1, rule_format, of 0] by (auto simp: flt_0_1)
  then show ?thesis using scope3_inventory [OF c] c by blast
qed

text \<open>
  C33. The body of an upload is accepted exactly when its year lies between 2000 and 2030, it has at most 200 keys,
  its dictionaries and lists are nested at most five deep and its notes have at most 2000 characters: the
  recursive check, which stops at the first value that is too deep, decides the depth.
\<close>

theorem accepted_uploads:
  "data_upload_create_ok b \<longleftrightarrow>
     2000 \<le> uc_year b \<and> uc_year b \<le> 2030 \<and> length (uc_provided_data b) \<le> 200 \<and>
     json_depth (PDict (uc_provided_data b)) \<le> 5 \<and> (case uc_notes b of None \<Rightarrow> True | Some t \<Rightarrow> length t \<le> 2000)"
  by (auto simp: data_upload_create_ok_def year_ok_def max_dict_keys_def json_depth_check max_json_depth_def null_or_def
      notes_ok_def length_ok_def split: option.split)

text \<open>
  One null hides the uploads: a change of an upload that sets its data to null is stored although the reply to it
  fails, and from then on every page of uploads that has this one, whoever of the company asks for it,
  fails too.
\<close>

theorem null_upload_breaks_list:
  assumes "get_current_user auth rq s = Inr (u, s1)" "get_upload i (us_company_id u) s = Inr r"
    "get_db (update_data_upload_route auth rq i no_data) s = (x, s')"
  shows "x = Inl (ValueError ''ResponseValidationError'') \<and>
    (\<forall>rq' u' s2 year limit offset q. get_current_user auth rq' s' = Inr (u', s2) \<longrightarrow>
       q \<in> set (fst (list_uploads (us_company_id u') year limit offset s')) \<longrightarrow> du_id q = i \<longrightarrow>
       \<not> returns (fst (get_db (list_data_uploads_route auth rq' year limit offset) s')))"
proof -
  have x: "x = Inl (ValueError ''ResponseValidationError'')"
    and rows: "data_uploads s' = update_row du_id i (\<lambda>_. r\<lparr>du_provided_data := None\<rparr>) (data_uploads s)"
    by (rule no_data_run [OF assms(1,2)], use assms(3) in force)+
  have "q \<in> set (fst (list_uploads c year limit offset s')) \<Longrightarrow> q \<in> set (data_uploads s')" for q c year limit offset
    by (auto simp: list_uploads_def page_def paginate_def order_by_desc_def dest!: in_set_takeD in_set_dropD)
  then have "q \<in> set (fst (list_uploads c year limit offset s')) \<Longrightarrow> du_id q = i \<Longrightarrow> du_provided_data q = None" for q c year limit offset
    using rows by (fastforce simp: update_row_def split: if_splits)
  then show ?thesis using x null_upload_unlisted by blast
qed

theorem null_upload_breaks_list_witness:
  "\<exists>s'. get_db (update_data_upload_route sample_auth admin_request_in 13 no_data) web_db = (Inl (ValueError ''ResponseValidationError''), s') \<and>
     \<not> returns (fst (get_db (list_data_uploads_route sample_auth admin_request_in None 50 0) s'))"
proof -
  let ?up = "estimate_upload\<lparr>du_company_id := 10\<rparr>" and ?null = "estimate_upload\<lparr>du_company_id := 10, du_provided_data := None\<rparr>"
  have rows: "data_uploads web_db = [?up]" "users web_db = users access_db" "revoked_tokens web_db = []"
    by (simp_all add: web_db_def access_db_def empty_db_def)
  have up: "get_upload 13 (us_company_id sample_admin) web_db = Inr ?up"
    by (simp add: get_upload_def sample_rows_of_db rows) (simp add: estimate_upload_def)
  obtain s' a where run: "get_db (update_data_upload_route sample_auth admin_request_in 13 no_data) web_db =
      (Inl (ValueError ''ResponseValidationError''), s')"
    and s': "s' = web_db\<lparr>data_uploads := update_row du_id 13 (\<lambda>_. ?up\<lparr>du_provided_data := None\<rparr>) (data_uploads web_db),
      db_now := db_now web_db + 2, db_next_id := db_next_id web_db + 1, audit_logs := audit_logs web_db @ [a]\<rparr>"
    using no_data_run [OF web_user up] by metis
  have "data_uploads s' = [?null]" by (simp add: s' rows update_row_def) (simp add: estimate_upload_def)
  then have page: "?null \<in> set (fst (list_uploads (us_company_id sample_admin) None 50 0 s'))"
    by (simp add: list_uploads_def page_def paginate_def order_by_desc_def sample_rows_of_db) (simp add: estimate_upload_def)
  have "get_current_user sample_auth admin_request_in s' = Inr (sample_admin, s'\<lparr>db_now := db_now s' + 1\<rparr>)"
    by (rule admin_signs_in) (simp_all add: s' rows)
  moreover have "du_id ?null = 13" by (simp add: estimate_upload_def)
  ultimately show ?thesis
    using null_upload_breaks_list [OF web_user up run] page run by blast
qed

text \<open>
  The pathway to the targets only falls: as long as the powers of the yearly factors fall, the eleven years
  from the base year on have projections that never rise, for scopes 1 and 2, for scope 3 and for their
  sum, and none is negative.
\<close>

theorem sbti_pathway_falls:
  assumes "falling (pow (1 - s12_annual_reduction))" "falling (pow (1 - s3_annual_reduction))"
    "0 \<le> er_scope1 r" "0 \<le> er_scope2 r" "0 \<le> er_scope3 r" "i < 10"
  shows "length (sbti_pathway pow r) = 11 \<and> pw_year (sbti_pathway pow r ! i) = er_year r + int i \<and>
    pw_scope1_2 (sbti_pathway pow r ! Suc i) \<le> pw_scope1_2 (sbti_pathway pow r ! i) \<and>
    pw_scope3 (sbti_pathway pow r ! Suc i) \<le> pw_scope3 (sbti_pathway pow r ! i) \<and>
    pw_total (sbti_pathway pow r ! Suc i) \<le> pw_total (sbti_pathway pow r ! i) \<and> 0 \<le> pw_total (sbti_pathway pow r ! Suc i)"
proof -
  have at: "j < 11 \<Longrightarrow> sbti_pathway pow r ! j = pathway_point_of pow r j" for j
    by (simp add: sbti_pathway_def del: upt_Suc upt_conv_Cons_Cons upt_rec_numeral)
  have s12: "0 \<le> er_scope1 r + er_scope2 r" using assms(3,4) by (rule flt_add_nonneg)
  note p12 = projected_falls [where pow = pow and reduction = s12_annual_reduction and i = i, OF assms(1) s12]
    and p3 = projected_falls [where pow = pow and reduction = s3_annual_reduction and i = i, OF assms(2,5)]
  have "length (sbti_pathway pow r) = 11" by (simp add: sbti_pathway_def)
  then show ?thesis
    using assms(6) p12 p3 flt_add_nonneg_mono [OF p12 p3]
    by (simp add: at pathway_point_of_def Let_def flt_round_mono flt_round_nonneg flt_add_nonneg)
qed

theorem sbti_pathway_falls_witness:
  "pw_total (sbti_pathway (ce_pow sample_compliance) sample_report ! 10) \<le> pw_total (sbti_pathway (ce_pow sample_compliance) sample_report ! 9)"
proof -
  have f: "falling (ce_pow sample_compliance x)" for x
    unfolding falling_def
  proof
    fix i show "\<exists>a b. ce_pow sample_compliance x i = Fin a \<and> ce_pow sample_compliance x (Suc i) = Fin b \<and> 0 < b \<and> b \<le> a"
      by (intro exI [of _ "1 / 2 ^ i"] exI [of _ "1 / 2 ^ Suc i"]) (simp add: sample_compliance_def field_simps)
  qed
  have "0 \<le> er_scope1 sample_report" "0 \<le> er_scope2 sample_report" "0 \<le> er_scope3 sample_report"
    by (simp_all add: sample_report_def flt_0_1)
  from sbti_pathway_falls [OF f f this, of 9] show ?thesis by simp
qed

end
