(* ===== verification/Questionnaire_Laws.thy ===== *)
theory Questionnaire_Laws
imports Questionnaire_Routes Route_Laws
begin

text \<open>
  What the routes of questionnaires do: the questions found by rules are quotations, an extraction that ends
  replaces the questions and is charged once, and one that raises leaves the questionnaire marked.
\<close>

section \<open>Quotations\<close>

definition quoted :: "string \<Rightarrow> found \<Rightarrow> bool" where
  "quoted text qs \<longleftrightarrow> distinct (map fst qs) \<and>
     (\<forall>(q, category) \<in> set qs. sublist q text \<and> 10 < length q \<and> category = classify_question q)"

lemma quoted_Nil [simp]: "quoted text []"
  by (simp add: quoted_def)

lemma add_question_quoted: "quoted text qs \<Longrightarrow> sublist q text \<Longrightarrow> 10 \<le> n \<Longrightarrow> quoted text (add_question n q qs)"
  by (auto simp: quoted_def add_question_def)

lemma first_match_group:
  "List.map_filter (\<lambda>p. re_match p s) ps = (m, Some q) # ms \<Longrightarrow> sublist q s"
  by (induction ps) (auto simp: map_filter_simps match_group split: option.splits)

lemma read_line_quoted:
  assumes "quoted text qs" "sublist line text"
  shows "quoted text (read_line qs line)"
proof -
  have "sublist q (py_strip line) \<Longrightarrow> sublist (py_strip q) text" for q
    using strip_sublist assms(2) sublist_order.order_trans by blast
  then show ?thesis
    using assms(1) by (auto simp: read_line_def Let_def dest!: first_match_group intro!: add_question_quoted split: list.splits option.splits)
qed

lemma read_sentence_quoted:
  assumes "quoted text qs" "sublist sentence text"
  shows "quoted text (read_sentence qs sentence)"
proof -
  have "sublist (py_strip sentence) text" using strip_sublist assms(2) sublist_order.order_trans by blast
  then show ?thesis using assms(1) by (simp add: read_sentence_def Let_def add_question_quoted)
qed

lemma split_char_sublist: "w \<in> set (split_char d s) \<Longrightarrow> sublist w s"
proof -
  have "split_char d s \<noteq> [] \<and> prefix (hd (split_char d s)) s \<and> (\<forall>w \<in> set (split_char d s). sublist w s)"
    by (induction s) (auto simp: sublist_Cons_right split: list.splits)
  then show "w \<in> set (split_char d s) \<Longrightarrow> sublist w s" by blast
qed

lemma rule_based_quoted: "quoted text (extract_questions_rule_based text)"
proof -
  have lines: "quoted text (foldl read_line [] (split_char (CHR 0x0A) text))"
    by (rule foldl_invariant) (auto intro: read_line_quoted split_char_sublist)
  have "quoted text (foldl read_sentence [] (re_split r [] text))" for r
    by (rule foldl_invariant) (auto intro!: read_sentence_quoted dest: split_pieces)
  then show ?thesis using lines by (simp add: extract_questions_rule_based_def Let_def)
qed

section \<open>An uploaded file\<close>

lemma read_chunks_run:
  "size0 \<le> max_file_size \<Longrightarrow> read_chunks size0 content =
     (if size0 + length content \<le> max_file_size then Inr content else Inl (HTTPException 400 ''File too large. Maximum size: 10 MB''))"
proof (induction size0 content rule: read_chunks.induct)
  case (1 size0 content)
  show ?case
  proof (cases "content = [] \<or> max_file_size < size0 + length (take (64 * 1024) content)")
    case True
    then show ?thesis using 1(2) by (subst read_chunks.simps) (auto simp: Let_def)
  next
    case False
    then have "read_chunks (size0 + length (take (64 * 1024) content)) (drop (64 * 1024) content) =
        (if size0 + length content \<le> max_file_size then Inr (drop (64 * 1024) content)
         else Inl (HTTPException 400 ''File too large. Maximum size: 10 MB''))"
      using 1(1) [OF refl] by (simp add: min_def split: if_splits)
    then show ?thesis using False by (subst read_chunks.simps) (auto simp: Let_def)
  qed
qed

lemma checked_upload_run:
  "checked_upload file = Inr (t, content) \<Longrightarrow> content = uf_content file \<and> content \<noteq> [] \<and> length content \<le> max_file_size \<and>
     file_type_of file = Some t \<and> (case map_of magic_bytes t of None \<Rightarrow> True | Some magic \<Rightarrow> starts_with magic content)"
  by (auto simp: checked_upload_def bind_r_Inr_iff read_chunks_run split: option.splits if_splits)

lemma file_type_known: "file_type_of file = Some t \<Longrightarrow> t \<in> {''pdf'', ''docx'', ''xlsx'', ''csv''}"
  by (auto simp: file_type_of_def allowed_types_def split: option.splits if_splits)

lemma safe_name_plain: "length (safe_name f) \<le> 255" "c \<in> set (safe_name f) \<Longrightarrow> name_char c"
proof -
  show "length (safe_name f) \<le> 255" by (simp add: safe_name_def Let_def)
  assume "c \<in> set (safe_name f)"
  then have "\<exists>d. c = (if name_char d then d else CHR ''_'')" by (auto simp: safe_name_def Let_def dest!: in_set_takeD)
  then show "name_char c" by (auto simp: name_char_def split: if_splits)
qed

section \<open>Extraction\<close>

definition marked :: "ident \<Rightarrow> questionnaire_status \<Rightarrow> db \<Rightarrow> db" where
  "marked i st s = s\<lparr>questionnaires := update_row qn_id i (\<lambda>q. q\<lparr>qn_status := Some st\<rparr>) (questionnaires s)\<rparr>"

text \<open>The questions of one questionnaire replaced, numbered from one\<close>

definition requestioned :: "ident \<Rightarrow> question list \<Rightarrow> db \<Rightarrow> db" where
  "requestioned i rows s = s\<lparr>questions := filter (\<lambda>q. qq_questionnaire_id q \<noteq> i) (questions s) @ rows\<rparr>"

definition fresh_questions :: "ident \<Rightarrow> question list \<Rightarrow> bool" where
  "fresh_questions i rows \<longleftrightarrow> map qq_question_number rows = map (\<lambda>n. int n + 1) [0..<length rows] \<and>
     (\<forall>q \<in> set rows. qq_questionnaire_id q = i \<and> qq_human_answer q = None \<and> qq_status q = Question_Draft \<and>
        qq_ai_draft_answer q \<noteq> None \<and> (qq_confidence q = lit (3 / 10) \<or> qq_confidence q = lit (75 / 100)))"

definition drafted_row :: "ident \<Rightarrow> int \<times> drafted \<Rightarrow> question \<Rightarrow> bool" where
  "drafted_row i q row \<longleftrightarrow> qq_questionnaire_id row = i \<and> qq_question_number row = fst q \<and> qq_human_answer row = None \<and>
     qq_status row = Question_Draft \<and> qq_ai_draft_answer row = Some (dq_answer (snd q)) \<and> qq_confidence row = dq_confidence (snd q) \<and>
     question_column (dq_text (snd q)) = Inr (qq_question_text row) \<and> category_column (dq_category (snd q)) = Inr (qq_category row)"

lemma insert_question_run:
  assumes "insert_question i q s = Inr ((), t)"
  obtains row where "t = s\<lparr>db_now := db_now t, db_next_id := db_next_id t, questions := questions s @ [row]\<rparr>" "drafted_row i q row" "db_now s \<le> db_now t"
proof -
  obtain t0 category where c: "question_column (dq_text (snd q)) = Inr t0" "category_column (dq_category (snd q)) = Inr category"
    using assms by (auto simp: insert_question_def bind_s_Inr_iff)
  show thesis
    using assms c by (intro that [of "last (questions t)"]) (auto simp: insert_question_def drafted_row_def)
qed

lemma insert_questions_run:
  assumes "each_s (insert_question i) qs s = Inr ((), s')"
  obtains rows where "s' = s\<lparr>db_now := db_now s', db_next_id := db_next_id s', questions := questions s @ rows\<rparr>"
    "list_all2 (drafted_row i) qs rows" "db_now s \<le> db_now s'"
  using assms
proof (induction qs arbitrary: s thesis)
  case Nil
  then show ?case by simp
next
  case (Cons q qs)
  from Cons.prems(2) obtain t where t: "insert_question i q s = Inr ((), t)" "each_s (insert_question i) qs t = Inr ((), s')"
    by (auto simp: bind_s_Inr_iff)
  obtain row where row: "t = s\<lparr>db_now := db_now t, db_next_id := db_next_id t, questions := questions s @ [row]\<rparr>" "drafted_row i q row"
    "db_now s \<le> db_now t"
    using t(1) by (rule insert_question_run)
  obtain rows where rows: "s' = t\<lparr>db_now := db_now s', db_next_id := db_next_id s', questions := questions t @ rows\<rparr>"
    "list_all2 (drafted_row i) qs rows" "db_now t \<le> db_now s'"
    using Cons.IH [OF _ t(2)] by blast
  have "questions t = questions s @ [row]" by (subst row(1)) simp
  then have "s' = s\<lparr>db_now := db_now s', db_next_id := db_next_id s', questions := questions s @ row # rows\<rparr>"
    by (subst rows(1), subst row(1)) simp
  then show ?case using Cons.prems(1) row(2,3) rows(2,3) by simp
qed

lemma answer_confidence: "generate_draft_answer env cf v = Inr (a, n) \<Longrightarrow> n = lit (3 / 10) \<or> n = lit (75 / 100)"
  by (cases "le_call env (draft_answer_prompt env cf v) 512")
    (auto simp: generate_draft_answer_def Let_def bind_r_Inr_iff split: if_splits pyval.split_asm sum.split_asm)

lemma draft_confidence: "draft_question env cf q = Inr d \<Longrightarrow> dq_confidence d = lit (3 / 10) \<or> dq_confidence d = lit (75 / 100)"
  by (auto simp: draft_question_def bind_r_Inr_iff dest!: answer_confidence)

lemma mapM_r_set: "mapM_r f xs = Inr ys \<Longrightarrow> y \<in> set ys \<Longrightarrow> \<exists>x \<in> set xs. f x = Inr y"
  using mapM_r_Inr [of f xs ys] by (metis in_set_conv_nth)

lemma drafted_fresh:
  assumes "list_all2 (drafted_row i) (numbered drafts) rows" "mapM_r (draft_question env cf) raw = Inr drafts"
  shows "fresh_questions i rows"
proof -
  have len: "length rows = length drafts" using assms(1) by (auto simp: numbered_def dest: list_all2_lengthD)
  have at: "drafted_row i (int k + 1, drafts ! k) (rows ! k)" if "k < length rows" for k
    using list_all2_nthD2 [OF assms(1) that] that len by (simp add: numbered_def)
  have "dq_confidence (drafts ! k) = lit (3 / 10) \<or> dq_confidence (drafts ! k) = lit (75 / 100)" if "k < length rows" for k
    using mapM_r_set [OF assms(2), of "drafts ! k"] that len draft_confidence by auto
  then show ?thesis
    using at unfolding fresh_questions_def drafted_row_def
    by (intro conjI ballI nth_equalityI) (auto simp: in_set_conv_nth, metis)
qed

lemma marked_simps [simp]:
  "questions (marked i st s) = questions s" "credit_ledger (marked i st s) = credit_ledger s"
  "db_now (marked i st s) = db_now s" "db_next_id (marked i st s) = db_next_id s"
  by (simp_all add: marked_def)

lemma remarked: "marked i st (s\<lparr>questionnaires := questionnaires (marked i st' s)\<rparr>) = marked i st s"
  by (simp add: marked_def update_row_def comp_def cong: map_cong if_cong)

lemma process_run:
  assumes "process_questionnaire env i c ses = (x, ses')" "own_questionnaire i c (ses_db ses) = Inr (Some d)"
  shows "isl x \<and> ses_saved ses' = marked i Q_Extracting (ses_db ses) \<or>
    x = Inr () \<and> ses_saved ses' = ses_db ses' \<and> db_now (ses_db ses) \<le> db_now (ses_db ses') \<and> (\<exists>rows. fresh_questions i rows \<and>
      ses_db ses' = (marked i Q_Extracted (requestioned i rows (ses_db ses)))\<lparr>db_now := db_now (ses_db ses'), db_next_id := db_next_id (ses_db ses')\<rparr>)"
proof (cases x)
  case (Inl e)
  then show ?thesis
    using assms
    by (auto simp: process_questionnaire_def bind_q_def serve_def ask_def update_doc_def write_db_def raise_q_def marked_def
        split: if_splits sum.splits prod.splits option.splits)
next
  case (Inr u)
  let ?s = "marked i Q_Extracting (ses_db ses)"
  obtain raw co report drafts s2 where d: "bind_r (iterate raw) (mapM_r (draft_question env (facts_of co report))) = Inr drafts"
    and ins: "each_s (insert_question i) (numbered drafts) (?s\<lparr>questions := filter (\<lambda>q. qq_questionnaire_id q \<noteq> i) (questions ?s)\<rparr>) = Inr ((), s2)"
    and ses': "ses_db ses' = marked i Q_Extracted s2" "ses_saved ses' = ses_db ses'"
    using assms Inr
    by (auto simp: process_questionnaire_def bind_q_Inr_iff serve_Inr_iff ask_Inr_iff update_doc_def write_db_def marked_def)
  obtain rows where s2: "s2 = (?s\<lparr>questions := filter (\<lambda>q. qq_questionnaire_id q \<noteq> i) (questions ?s)\<rparr>)
      \<lparr>db_now := db_now s2, db_next_id := db_next_id s2, questions := questions (?s\<lparr>questions := filter (\<lambda>q. qq_questionnaire_id q \<noteq> i) (questions ?s)\<rparr>) @ rows\<rparr>"
    and rows: "list_all2 (drafted_row i) (numbered drafts) rows" and clock: "db_now (ses_db ses) \<le> db_now s2"
    using ins by (rule insert_questions_run) simp
  have "fresh_questions i rows" using rows d by (auto simp: bind_r_Inr_iff intro: drafted_fresh)
  moreover have "marked i Q_Extracted s2 = (marked i Q_Extracted (requestioned i rows (ses_db ses)))\<lparr>db_now := db_now s2, db_next_id := db_next_id s2\<rparr>"
    by (subst s2) (simp add: marked_def requestioned_def update_row_def comp_def cong: map_cong if_cong)
  ultimately show ?thesis using Inr ses' clock by auto
qed

section \<open>The route of an extraction\<close>

lemma credits_cover:
  assumes "require_credits auth rq operation s = Inr (u, s')" "active_subscriptions (us_company_id u) s = [sub]" "ledger_ok s"
    "0 < operation_cost operation"
  shows "operation_cost operation \<le> balance_of s (us_company_id u)"
proof -
  obtain s1 where 1: "get_current_user auth rq s = Inr (u, s1)" "check_credit_balance (us_company_id u) operation s1 = Inr ((), s')"
    using assms(1) by (rule require_credits_checked)
  have s1: "s1 = s\<lparr>db_now := db_now s + 1\<rparr>" using 1(1) by (auto elim: current_user_run)
  have same: "active_subscriptions (us_company_id u) s1 = [sub]" "balance_of s1 (us_company_id u) = balance_of s (us_company_id u)" "ledger_ok s1"
    using assms(2,3) by (auto simp: s1 active_subscriptions_def balance_of_def company_ledger_def ledger_ok_def list_all_iff intro: less_trans less_imp_le)
  show ?thesis
    using 1(2) assms(4) same get_balance_refines(1) [OF same(3)] existing_subscription [OF same(1)]
    by (simp add: check_credit_balance_def split: if_splits)
qed

lemma operation_charge_run:
  assumes "ledger_ok s" "operation_cost operation \<le> balance_of s c" "0 < operation_cost operation"
  obtains e where "deduct_operation_credits c operation s =
      Inr ((), s\<lparr>db_now := db_now s + 1, db_next_id := db_next_id s + 1, credit_ledger := credit_ledger s @ [e]\<rparr>)"
    "cl_company_id e = c" "cl_amount e = - operation_cost operation"
proof -
  obtain r where "usage_reason operation = Inr r" using usage_reasons_exist assms(3) by blast
  then show thesis
    using that deduct_effect [OF assms(1,2), of r] assms(3) by (force simp: deduct_operation_credits_def bind_s_def)
qed

text \<open>The questionnaire an extraction starts from\<close>

definition extractable :: "ident \<Rightarrow> ident \<Rightarrow> db \<Rightarrow> bool" where
  "extractable i c s \<longleftrightarrow> (\<exists>d \<in> set (questionnaires s). qn_id d = i \<and> qn_company_id d = c \<and> qn_deleted_at d = None \<and>
     qn_status d \<in> {Some Q_Uploaded, Some Q_Extracted})"

text \<open>Equal up to the clock and the supply of identifiers\<close>

definition later :: "db \<Rightarrow> db \<Rightarrow> bool" where
  "later s s' \<longleftrightarrow> s' = s\<lparr>db_now := db_now s', db_next_id := db_next_id s'\<rparr>"

lemma later_trans:
  assumes "later s t" "later t u"
  shows "later s u"
proof -
  have "u = t\<lparr>db_now := db_now u, db_next_id := db_next_id u\<rparr>" using assms(2) by (simp only: later_def)
  also have "t\<lparr>db_now := db_now u, db_next_id := db_next_id u\<rparr> = s\<lparr>db_now := db_now u, db_next_id := db_next_id u\<rparr>"
    by (subst assms(1) [unfolded later_def]) simp
  finally show ?thesis unfolding later_def .
qed

lemma later_end: "later (ses_saved ses) (end_session ses)"
  by (simp add: later_def end_session_def)

lemma own_questionnaire_run: "own_questionnaire i c s = Inr (Some d) \<Longrightarrow>
    d \<in> set (questionnaires s) \<and> qn_id d = i \<and> qn_company_id d = c \<and> qn_deleted_at d = None"
  by (auto simp: own_questionnaire_def scalar_one_or_none_Some filter_eq_Cons_iff)

lemma the_questionnaire_cases:
  assumes "the_questionnaire i c ses = (x, ses')"
  obtains e where "x = Inl e" "ses' = ses" | d where "x = Inr d" "ses' = ses" "own_questionnaire i c (ses_db ses) = Inr (Some d)"
  using assms by (cases "own_questionnaire i c (ses_db ses)") (auto simp: the_questionnaire_def bind_q_def ask_def serve_def split: option.splits)

lemma marked_found:
  assumes "distinct (map qn_id (questionnaires s))" "d \<in> set (questionnaires s)" "qn_id d = i"
  shows "filter (\<lambda>q. qn_id q = i) (questionnaires (marked i st s)) = [d\<lparr>qn_status := Some st\<rparr>]"
proof -
  have d: "d \<in> set (filter (\<lambda>q. qn_id q = i) (questionnaires s))" using assms(2,3) by simp
  then have "filter (\<lambda>q. qn_id q = i) (questionnaires s) \<noteq> []" by force
  then obtain r where "filter (\<lambda>q. qn_id q = i) (questionnaires s) = [r]"
    using distinct_key_filter [of qn_id "questionnaires s" i "\<lambda>_. True"] assms(1) by auto
  with d have "filter (\<lambda>q. qn_id q = i) (questionnaires s) = [d]" by simp
  then show ?thesis using assms(3) by (simp add: marked_def update_row_filter) (simp add: update_row_def)
qed

lemma own_questionnaire_clock [simp]: "own_questionnaire i c (s\<lparr>db_now := n\<rparr>) = own_questionnaire i c s"
  by (simp add: own_questionnaire_def)

lemma ledger_clock: "ledger_ok s \<Longrightarrow> credit_ledger t = credit_ledger s \<Longrightarrow> db_now s \<le> db_now t \<Longrightarrow> ledger_ok t"
  by (force simp: ledger_ok_def list_all_iff company_ledger_def)

lemma extraction_charged:
  assumes "bind_q (process_questionnaire env i c) (\<lambda>_.
      bind_q (serve (deduct_operation_credits c ''questionnaire_extract'')) (\<lambda>_.
      bind_q commit (\<lambda>_.
      bind_q (ask (\<lambda>s. scalar_one (filter (\<lambda>q. qn_id q = i) (questionnaires s)))) (\<lambda>d.
      ask (detail_out d))))) ses = (x, ses')"
    "own_questionnaire i c (ses_db ses) = Inr (Some d)" "ledger_ok (ses_db ses)" "5 \<le> balance_of (ses_db ses) c"
    "distinct (map qn_id (questionnaires (ses_db ses)))"
  shows "isl x = isl (fst (process_questionnaire env i c ses)) \<and> (isl x \<and> ses_saved ses' = marked i Q_Extracting (ses_db ses) \<or>
    \<not> isl x \<and> (\<exists>rows e. fresh_questions i rows \<and> cl_company_id e = c \<and> cl_amount e = - 5 \<and>
      later ((marked i Q_Extracted (requestioned i rows (ses_db ses)))\<lparr>credit_ledger := credit_ledger (ses_db ses) @ [e]\<rparr>) (ses_saved ses')))"
  using assms(1)
proof (cases rule: bind_q_cases)
  case (raised e)
  then show ?thesis using process_run [OF raised(1) assms(2)] by auto
next
  case (went_on y ses3)
  let ?t = "ses_db ses3"
  obtain rows where rows: "fresh_questions i rows" and clock: "db_now (ses_db ses) \<le> db_now ?t"
    and t: "?t = (marked i Q_Extracted (requestioned i rows (ses_db ses)))\<lparr>db_now := db_now ?t, db_next_id := db_next_id ?t\<rparr>"
    using process_run [OF went_on(1) assms(2)] by auto
  have same: "credit_ledger ?t = credit_ledger (ses_db ses)" "questionnaires ?t = questionnaires (marked i Q_Extracted (ses_db ses))"
    by (subst t, simp add: requestioned_def marked_def)+
  have cost: "operation_cost ''questionnaire_extract'' = 5" by (simp add: operation_cost_def dict_get_def credit_costs_def)
  obtain e where e: "deduct_operation_credits c ''questionnaire_extract'' ?t =
      Inr ((), ?t\<lparr>db_now := db_now ?t + 1, db_next_id := db_next_id ?t + 1, credit_ledger := credit_ledger ?t @ [e]\<rparr>)"
    "cl_company_id e = c" "cl_amount e = - 5"
    using operation_charge_run [of ?t "''questionnaire_extract''" c] ledger_clock [OF assms(3) same(1) clock] assms(4)
    by (auto simp: cost balance_of_def company_ledger_def same(1))
  have "filter (\<lambda>q. qn_id q = i) (questionnaires ?t) = [d\<lparr>qn_status := Some Q_Extracted\<rparr>]"
    unfolding same(2) using marked_found assms(5) own_questionnaire_run [OF assms(2)] by blast
  then have "\<not> isl x" and saved: "ses_saved ses' = ?t\<lparr>db_now := db_now ?t + 1, db_next_id := db_next_id ?t + 1, credit_ledger := credit_ledger ?t @ [e]\<rparr>"
    using went_on(2) e(1) by (auto simp: scalar_one_def detail_out_def doc_out_def)
  moreover have "later ((marked i Q_Extracted (requestioned i rows (ses_db ses)))\<lparr>credit_ledger := credit_ledger (ses_db ses) @ [e]\<rparr>) (ses_saved ses')"
    unfolding saved later_def by (subst t) (simp add: same(1))
  ultimately show ?thesis using rows e(2,3) went_on(1) by auto
qed

lemma require_credits_rows:
  assumes "require_credits auth rq operation s = Inr (u, s')"
  shows "questionnaires s' = questionnaires s"
proof -
  obtain s1 where 1: "get_current_user auth rq s = Inr (u, s1)" "check_credit_balance (us_company_id u) operation s1 = Inr ((), s')"
    using assms by (rule require_credits_checked)
  have "questionnaires s' = questionnaires s1"
    using 1(2) by (auto simp: check_credit_balance_def get_or_create_subscription_def get_credit_balance_def grant_credits_def insert_entry_def
        bind_s_Inr_iff get_balance_for_update_def Let_def split: if_splits option.splits)
  then show ?thesis using 1(1) by (auto elim: current_user_run)
qed

lemma extraction_cases:
  assumes "ledger_ok s" "get_current_user auth rq s = Inr (u, s1)" "active_subscriptions (us_company_id u) s = [sub]"
    "distinct (map qn_id (questionnaires s))" "get_db (extract_questions auth env rq i) s = (x, s')"
  shows "isl x \<and> (later s s' \<or> extractable i (us_company_id u) s \<and> later (marked i Q_Extracting s) s') \<or>
    \<not> isl x \<and> extractable i (us_company_id u) s \<and>
      (\<exists>rows e. fresh_questions i rows \<and> cl_company_id e = us_company_id u \<and> cl_amount e = - 5 \<and> 5 \<le> balance_of s (us_company_id u) \<and>
        later ((marked i Q_Extracted (requestioned i rows s))\<lparr>credit_ledger := credit_ledger s @ [e]\<rparr>) s')"
proof -
  let ?c = "us_company_id u"
  obtain ses' where run: "extract_questions auth env rq i \<lparr>ses_db = s, ses_saved = s\<rparr> = (x, ses')" and s': "s' = end_session ses'"
    using assms(5) by (auto simp: get_db_def split: prod.splits)
  have same: "isl x \<Longrightarrow> ses_saved ses' = s \<Longrightarrow> isl x \<and> later s s'" by (simp add: later_def s' end_session_def)
  from run [unfolded extract_questions_def] show ?thesis
  proof (cases rule: bind_q_cases)
    case (raised e)
    then show ?thesis using same by (auto simp: serve_def split: sum.splits)
  next
    case (went_on v ses1)
    then obtain s2 where v: "require_credits auth rq ''questionnaire_extract'' s = Inr (v, s2)" and ses1: "ses1 = \<lparr>ses_db = s2, ses_saved = s\<rparr>"
      by (auto simp: serve_Inr_iff)
    have "v = u" using v assms(2) by (auto simp: require_credits_def bind_s_Inr_iff)
    have s2: "s2 = s\<lparr>db_now := db_now s + 1\<rparr>" using require_credits_run [OF v] assms(3) \<open>v = u\<close> by simp
    have cost: "operation_cost ''questionnaire_extract'' = 5" by (simp add: operation_cost_def dict_get_def credit_costs_def)
    have cover: "5 \<le> balance_of s ?c" using credits_cover [OF v _ assms(1)] assms(3) cost \<open>v = u\<close> by simp
    from went_on(2) show ?thesis
    proof (cases rule: bind_q_cases)
      case (raised e)
      then show ?thesis using same by (auto simp: ses1 elim: the_questionnaire_cases)
    next
      case (went_on d ses2)
      then have ses2: "ses2 = ses1" and d: "own_questionnaire i ?c s2 = Inr (Some d)"
        by (auto simp: ses1 \<open>v = u\<close> elim: the_questionnaire_cases)
      show ?thesis
      proof (cases "qn_status d \<in> {Some Q_Uploaded, Some Q_Extracted}")
        case False
        then show ?thesis using went_on(2) same by (auto simp: ses1 ses2)
      next
        case True
        then have ok: "extractable i ?c s" using own_questionnaire_run [OF d] by (auto simp: extractable_def s2)
        have same': "ledger_ok s2" "balance_of s2 ?c = balance_of s ?c" "distinct (map qn_id (questionnaires s2))"
          using ledger_clock [OF assms(1), of s2] assms(4) by (simp_all add: s2 balance_of_def company_ledger_def)
        have marks: "later (marked i Q_Extracting s) (marked i Q_Extracting s2)"
          "later ((marked i Q_Extracted (requestioned i rows s))\<lparr>credit_ledger := credit_ledger s @ [e]\<rparr>)
             ((marked i Q_Extracted (requestioned i rows s2))\<lparr>credit_ledger := credit_ledger s2 @ [e]\<rparr>)" for rows e
          by (simp_all add: later_def s2 marked_def requestioned_def)
        have "isl x \<and> ses_saved ses' = marked i Q_Extracting s2 \<or>
          \<not> isl x \<and> (\<exists>rows e. fresh_questions i rows \<and> cl_company_id e = ?c \<and> cl_amount e = - 5 \<and>
            later ((marked i Q_Extracted (requestioned i rows s2))\<lparr>credit_ledger := credit_ledger s2 @ [e]\<rparr>) (ses_saved ses'))"
          using extraction_charged [of env i ?c ses1 x ses' d] went_on(2) True d same' cover by (auto simp: ses1 ses2 \<open>v = u\<close>)
        then show ?thesis
        proof (elim disjE conjE exE)
          assume "isl x" "ses_saved ses' = marked i Q_Extracting s2"
          then show ?thesis using ok marks(1) later_end [of ses'] later_trans unfolding s' by fastforce
        next
          fix rows e
          assume x: "\<not> isl x" "fresh_questions i rows" "cl_company_id e = ?c" "cl_amount e = - 5"
            and l: "later ((marked i Q_Extracted (requestioned i rows s2))\<lparr>credit_ledger := credit_ledger s2 @ [e]\<rparr>) (ses_saved ses')"
          have "later ((marked i Q_Extracted (requestioned i rows s))\<lparr>credit_ledger := credit_ledger s @ [e]\<rparr>) s'"
            using later_trans [OF later_trans [OF marks(2) l] later_end] by (simp only: s')
          with x ok cover show ?thesis by (intro disjI2 conjI exI)
        qed
      qed
    qed
  qed
qed

section \<open>A failed extraction\<close>

lemma marked_not_extractable: "\<not> extractable i c (marked i Q_Extracting s)"
proof
  assume "extractable i c (marked i Q_Extracting s)"
  then obtain d where d: "d \<in> set (questionnaires (marked i Q_Extracting s))" "qn_id d = i" "qn_status d \<in> {Some Q_Uploaded, Some Q_Extracted}"
    unfolding extractable_def by blast
  let ?f = "\<lambda>q. if qn_id q = i then q\<lparr>qn_status := Some Q_Extracting\<rparr> else q"
  have "questionnaires (marked i Q_Extracting s) = map ?f (questionnaires s)" by (simp add: marked_def update_row_def)
  with d(1) have "d \<in> ?f ` set (questionnaires s)" by (simp only: set_map)
  then obtain q where "d = ?f q" by (rule imageE)
  with d(2) have "qn_status d = Some Q_Extracting" by (cases "qn_id q = i") simp_all
  with d(3) show False by simp
qed

lemma later_simps:
  assumes "later s s'"
  shows "credit_ledger s' = credit_ledger s" "subscriptions s' = subscriptions s" "questionnaires s' = questionnaires s"
proof -
  from assms obtain a b where "s' = s\<lparr>db_now := a, db_next_id := b\<rparr>" unfolding later_def by blast
  then show "credit_ledger s' = credit_ledger s" "subscriptions s' = subscriptions s" "questionnaires s' = questionnaires s" by simp_all
qed

lemma not_extractable_refused:
  assumes "\<not> extractable i (us_company_id u) s" "get_current_user auth rq s = Inr (u, s1)"
    "get_db (extract_questions auth env rq i) s = (x, s')"
  shows "isl x \<and> later s s'"
proof -
  obtain ses' where run: "extract_questions auth env rq i \<lparr>ses_db = s, ses_saved = s\<rparr> = (x, ses')" and s': "s' = end_session ses'"
    using assms(3) by (auto simp: get_db_def split: prod.splits)
  have same: "isl x \<Longrightarrow> ses_saved ses' = s \<Longrightarrow> isl x \<and> later s s'" by (simp add: later_def s' end_session_def)
  from run [unfolded extract_questions_def] show ?thesis
  proof (cases rule: bind_q_cases)
    case (raised e)
    then show ?thesis using same by (auto simp: serve_def split: sum.splits)
  next
    case (went_on v ses1)
    then obtain s2 where v: "require_credits auth rq ''questionnaire_extract'' s = Inr (v, s2)" and ses1: "ses1 = \<lparr>ses_db = s2, ses_saved = s\<rparr>"
      by (auto simp: serve_Inr_iff)
    have "v = u" using v assms(2) by (auto simp: require_credits_def bind_s_Inr_iff)
    have rows: "questionnaires s2 = questionnaires s" using require_credits_rows [OF v] .
    from went_on(2) show ?thesis
    proof (cases rule: bind_q_cases)
      case (raised e)
      then show ?thesis using same by (auto simp: ses1 elim: the_questionnaire_cases)
    next
      case (went_on d ses2)
      then have ses2: "ses2 = ses1" and d: "own_questionnaire i (us_company_id u) s2 = Inr (Some d)"
        by (auto simp: ses1 \<open>v = u\<close> elim: the_questionnaire_cases)
      have "qn_status d \<notin> {Some Q_Uploaded, Some Q_Extracted}"
        using assms(1) own_questionnaire_run [OF d] rows by (auto simp: extractable_def)
      then show ?thesis using went_on(2) same by (auto simp: ses1 ses2)
    qed
  qed
qed

section \<open>A template\<close>

definition template_row :: "ident \<Rightarrow> int \<times> string \<times> string \<Rightarrow> question \<Rightarrow> bool" where
  "template_row i q row \<longleftrightarrow> qq_questionnaire_id row = i \<and> qq_question_number row = fst q \<and>
     qq_question_text row = fst (snd q) \<and> qq_category row = Some (snd (snd q)) \<and> qq_ai_draft_answer row \<noteq> None"

lemma add_template_question_run:
  assumes "add_template_question env cf i q ses = (Inr (), ses')"
  obtains row where "ses_db ses' = (ses_db ses)\<lparr>db_now := db_now (ses_db ses'), db_next_id := db_next_id (ses_db ses'), questions := questions (ses_db ses) @ [row]\<rparr>"
    "template_row i q row"
proof -
  obtain n t c where q: "q = (n, t, c)" by (cases q)
  obtain d where d: "draft_question env cf (PDict [(''question_text'', PStr t), (''category'', PStr c)]) = Inr d"
    and ins: "insert_question i (n, d) (ses_db ses) = Inr ((), ses_db ses')"
    using assms by (auto simp: add_template_question_def q bind_q_Inr_iff ask_Inr_iff serve_Inr_iff)
  obtain row where row: "ses_db ses' = (ses_db ses)\<lparr>db_now := db_now (ses_db ses'), db_next_id := db_next_id (ses_db ses'), questions := questions (ses_db ses) @ [row]\<rparr>"
    "drafted_row i (n, d) row" using ins by (rule insert_question_run)
  have "dq_text d = PStr t" "dq_category d = PStr c" using d by (auto simp: draft_question_def bind_r_Inr_iff dict_get_def)
  then have "template_row i q row"
    using row(2) by (auto simp: template_row_def drafted_row_def q question_column_def category_column_def split: if_splits)
  then show thesis using row(1) that by blast
qed

lemma template_questions_run:
  assumes "each_q (add_template_question env cf i) qs ses = (Inr (), ses')"
  obtains rows where "ses_db ses' = (ses_db ses)\<lparr>db_now := db_now (ses_db ses'), db_next_id := db_next_id (ses_db ses'), questions := questions (ses_db ses) @ rows\<rparr>"
    "list_all2 (template_row i) qs rows"
  using assms
proof (induction qs arbitrary: ses thesis)
  case Nil
  then show ?case by simp
next
  case (Cons q qs)
  from Cons.prems(2) obtain ses1 where 1: "add_template_question env cf i q ses = (Inr (), ses1)"
    "each_q (add_template_question env cf i) qs ses1 = (Inr (), ses')"
    by (auto simp: bind_q_Inr_iff)
  obtain row where row: "ses_db ses1 = (ses_db ses)\<lparr>db_now := db_now (ses_db ses1), db_next_id := db_next_id (ses_db ses1), questions := questions (ses_db ses) @ [row]\<rparr>"
    "template_row i q row" using 1(1) by (rule add_template_question_run)
  obtain rows where rows: "ses_db ses' = (ses_db ses1)\<lparr>db_now := db_now (ses_db ses'), db_next_id := db_next_id (ses_db ses'), questions := questions (ses_db ses1) @ rows\<rparr>"
    "list_all2 (template_row i) qs rows" using Cons.IH [OF _ 1(2)] by blast
  have "questions (ses_db ses1) = questions (ses_db ses) @ [row]" by (subst row(1)) simp
  then have "ses_db ses' = (ses_db ses)\<lparr>db_now := db_now (ses_db ses'), db_next_id := db_next_id (ses_db ses'), questions := questions (ses_db ses) @ row # rows\<rparr>"
    by (subst rows(1), subst row(1)) simp
  then show ?case using Cons.prems(1) row(2) rows(2) by simp
qed

lemma insert_doc_run:
  "insert_doc c title filename file_type file_size status txt s = Inr (d, s') \<longleftrightarrow> CHR 0x00 \<notin> set txt \<and>
     d = \<lparr>qn_id = db_next_id s, qn_company_id = c, qn_title = title, qn_original_filename = filename, qn_file_type = file_type,
       qn_file_size = file_size, qn_status = Some status, qn_extracted_text = Some txt, qn_created_at = db_now s, qn_deleted_at = None\<rparr> \<and>
     s' = s\<lparr>db_now := db_now s + 1, db_next_id := db_next_id s + 1, questionnaires := questionnaires s @ [d]\<rparr>"
  by (auto simp: insert_doc_def Let_def bind_s_def)

lemma numbered_rows:
  assumes "list_all2 (template_row i) (numbered qs) rows"
  shows "map qq_question_number rows = map (\<lambda>n. int n + 1) [0..<length rows]"
    "map (\<lambda>q. (qq_question_text q, qq_category q)) rows = map (\<lambda>(t, c). (t, Some c)) qs" "\<forall>q \<in> set rows. qq_questionnaire_id q = i"
proof -
  have len: "length rows = length qs" using assms by (auto simp: numbered_def dest: list_all2_lengthD)
  have at: "template_row i (int k + 1, qs ! k) (rows ! k)" if "k < length rows" for k
    using list_all2_nthD2 [OF assms that] that len by (simp add: numbered_def)
  show "map qq_question_number rows = map (\<lambda>n. int n + 1) [0..<length rows]" using at by (auto intro!: nth_equalityI simp: template_row_def)
  show "map (\<lambda>q. (qq_question_text q, qq_category q)) rows = map (\<lambda>(t, c). (t, Some c)) qs"
    using at len by (auto intro!: nth_equalityI simp: template_row_def split: prod.split)
  show "\<forall>q \<in> set rows. qq_questionnaire_id q = i" using at by (auto simp: in_set_conv_nth template_row_def)
qed

lemma doc_questions_appended:
  assumes "questions t = questions s @ rows" "\<forall>q \<in> set (questions s). qq_questionnaire_id q < i" "\<forall>q \<in> set rows. qq_questionnaire_id q = i"
    "map qq_question_number rows = map (\<lambda>n. int n + 1) [0..<length rows]"
  shows "doc_questions i t = rows"
proof -
  have "filter (\<lambda>q. qq_questionnaire_id q = i) (questions t) = rows"
    using assms(1-3) by (auto simp: filter_empty_conv)
  moreover have "sorted (map qq_question_number rows)" unfolding assms(4) by (simp add: sorted_map sorted_wrt_iff_nth_less)
  ultimately show ?thesis by (simp add: doc_questions_def sort_key_id_if_sorted)
qed

lemma apply_template_run:
  assumes "apply_template auth env inds model rq template_id \<lparr>ses_db = s, ses_saved = s\<rparr> = (Inr (d, qs), ses')"
    "\<forall>q \<in> set (questions s). qq_questionnaire_id q < db_next_id s"
  obtains tpl where "map_of TEMPLATES template_id = Some tpl"
    "map (\<lambda>q. (qq_question_text q, qq_category q)) qs = map (\<lambda>(t, c). (t, Some c)) (tp_questions tpl)"
    "map qq_question_number qs = map (\<lambda>n. int n + 1) [0..<length qs]"
    "later (s\<lparr>questionnaires := questionnaires s @ [d], questions := questions s @ qs\<rparr>) (ses_saved ses')"
proof -
  obtain u s1 tpl s2 cf ses1 where u: "get_current_user auth rq s = Inr (u, s1)" and tpl: "map_of TEMPLATES template_id = Some tpl"
    and doc: "insert_doc (us_company_id u) (tp_title tpl) (''template:'' @ template_id) ''template'' 0 Q_Extracted [] s1 = Inr (d, s2)"
    and each: "each_q (add_template_question env cf (qn_id d)) (numbered (tp_questions tpl)) \<lparr>ses_db = s2, ses_saved = s\<rparr> = (Inr (), ses1)"
    and out: "qs = doc_questions (qn_id d) (ses_db ses1)" "ses_saved ses' = ses_db ses1"
    using assms(1)
    by (auto simp: apply_template_def get_template_def bind_q_Inr_iff serve_Inr_iff ask_Inr_iff detail_out_def doc_out_def bind_r_Inr_iff
        split: option.splits if_splits)
  have s1: "s1 = s\<lparr>db_now := db_now s + 1\<rparr>" using u by (auto elim: current_user_run)
  have d: "qn_id d = db_next_id s" and s2: "s2 = s1\<lparr>db_now := db_now s1 + 1, db_next_id := db_next_id s1 + 1, questionnaires := questionnaires s1 @ [d]\<rparr>"
    using doc by (auto simp: insert_doc_run s1)
  obtain rows where rows: "ses_db ses1 = s2\<lparr>db_now := db_now (ses_db ses1), db_next_id := db_next_id (ses_db ses1), questions := questions s2 @ rows\<rparr>"
    "list_all2 (template_row (qn_id d)) (numbered (tp_questions tpl)) rows"
    using template_questions_run [OF each] by auto
  have "questions (ses_db ses1) = questions s @ rows" by (subst rows(1)) (simp add: s2 s1)
  then have qs: "qs = rows" unfolding out(1) using doc_questions_appended numbered_rows(1,3) [OF rows(2)] assms(2) d by metis
  have "later (s\<lparr>questionnaires := questionnaires s @ [d], questions := questions s @ qs\<rparr>) (ses_saved ses')"
    unfolding later_def out(2) by (subst rows(1)) (simp add: s2 s1 qs)
  then show thesis using that tpl numbered_rows(1,2) [OF rows(2)] qs by blast
qed

section \<open>Without a language model\<close>

lemma mapM_r_returns: "(\<And>x. x \<in> set xs \<Longrightarrow> returns (f x)) \<Longrightarrow> returns (mapM_r f xs)"
  by (induction xs) (auto intro!: returns_bind)

lemma inserts_return:
  "(\<And>q. q \<in> set qs \<Longrightarrow> returns (question_column (dq_text (snd q))) \<and> returns (category_column (dq_category (snd q)))) \<Longrightarrow>
    \<exists>s'. each_s (insert_question i) qs s = Inr ((), s')"
proof (induction qs arbitrary: s)
  case (Cons q qs)
  obtain t c where "question_column (dq_text (snd q)) = Inr t" "category_column (dq_category (snd q)) = Inr c"
    using Cons.prems [of q] by (auto elim!: returnsE)
  then obtain s1 where "insert_question i q s = Inr ((), s1)" by (simp add: insert_question_def bind_s_def)
  then show ?case using Cons.IH [of s1] Cons.prems by simp
qed simp

lemma classified_short: "classify_question q = Some c \<Longrightarrow> length c \<le> 100"
proof -
  assume "classify_question q = Some c"
  then have "c \<in> set (map fst category_keywords)"
    by (auto simp: classify_question_def find_Some_iff intro!: rev_image_eqI [OF nth_mem])
  then show ?thesis by (auto simp: category_keywords_def)
qed

text \<open>A decoded question as the rules make it\<close>

definition plain_question :: "pyval \<Rightarrow> bool" where
  "plain_question v \<longleftrightarrow> (\<exists>t. v = PDict [(''question_text'', PStr t), (''category'', PNone)] \<or>
     (\<exists>c. v = PDict [(''question_text'', PStr t), (''category'', PStr c)] \<and> length c \<le> 100))"

lemma rules_plain:
  assumes "quoted text qs"
  obtains vs where "found_value qs = PList vs" "\<forall>v \<in> set vs. plain_question v"
  using assms classified_short
  by (intro that [OF found_value_def]) (fastforce simp: quoted_def plain_question_def split: option.split)

lemma plain_draft:
  assumes "\<not> le_client env" "plain_question v"
  obtains d where "draft_question env cf v = Inr d" "returns (question_column (dq_text d))" "returns (category_column (dq_category d))"
  using assms
  by (auto simp: plain_question_def draft_question_def generate_draft_answer_def draft_answer_rule_based_def Let_def dict_get_def
      question_column_def category_column_def)

lemma rules_process:
  assumes "\<not> le_client env" "own_questionnaire i c (ses_db ses) = Inr (Some d)" "get_company_row c (ses_db ses) = Inr co"
  shows "fst (process_questionnaire env i c ses) = Inr ()"
proof -
  let ?t = "case qn_extracted_text d of None \<Rightarrow> [] | Some t \<Rightarrow> t"
  let ?s = "(marked i Q_Extracting (ses_db ses))\<lparr>questions := filter (\<lambda>q. qq_questionnaire_id q \<noteq> i) (questions (ses_db ses))\<rparr>"
  let ?draft = "draft_question env (facts_of co (latest_report c ?s))"
  obtain vs where vs: "found_value (extract_questions_rule_based ?t) = PList vs" "\<forall>v \<in> set vs. plain_question v"
    using rule_based_quoted by (rule rules_plain)
  have "returns (?draft v)" if "v \<in> set vs" for v
    using vs(2) that by (auto elim!: plain_draft [OF assms(1), of _ "facts_of co (latest_report c ?s)"])
  then have "returns (mapM_r ?draft vs)" by (rule mapM_r_returns)
  then obtain drafts where drafts: "mapM_r ?draft vs = Inr drafts" by (rule returnsE)
  have "returns (question_column (dq_text y)) \<and> returns (category_column (dq_category y))" if y: "y \<in> set drafts" for y
  proof -
    obtain v where v: "v \<in> set vs" "?draft v = Inr y" using mapM_r_set [OF drafts y] by blast
    obtain e where "?draft v = Inr e" "returns (question_column (dq_text e))" "returns (category_column (dq_category e))"
      using vs(2) v(1) by (blast intro: plain_draft [OF assms(1)])
    then show ?thesis using v(2) by simp
  qed
  then have "\<exists>s'. each_s (insert_question i) (numbered drafts) ?s = Inr ((), s')"
    by (intro inserts_return) (auto simp: numbered_def dest: set_zip_rightD)
  then obtain s' where "each_s (insert_question i) (numbered drafts) ?s = Inr ((), s')" by blast
  then show ?thesis
    using assms vs(1) drafts
    by (simp add: process_questionnaire_def update_doc_def write_db_def found_questions_def extract_questions_llm_def Let_def
        marked_def get_company_row_def cong: if_cong)
qed

lemma rules_extract:
  assumes "ledger_ok s" "get_current_user auth rq s = Inr (u, s1)" "active_subscriptions (us_company_id u) s = [sub]"
    "distinct (map qn_id (questionnaires s))" "\<not> le_client env" "own_questionnaire i (us_company_id u) s = Inr (Some d)"
    "qn_status d \<in> {Some Q_Uploaded, Some Q_Extracted}" "get_company_row (us_company_id u) s = Inr co" "5 \<le> balance_of s (us_company_id u)"
  shows "\<exists>reply s'. get_db (extract_questions auth env rq i) s = (Inr reply, s')"
proof -
  let ?c = "us_company_id u" and ?ses = "\<lparr>ses_db = s1, ses_saved = s\<rparr>"
  have s1: "s1 = s\<lparr>db_now := db_now s + 1\<rparr>" using assms(2) by (auto elim: current_user_run)
  have "operation_cost ''questionnaire_extract'' = 5" by (simp add: operation_cost_def dict_get_def credit_costs_def)
  then have gate: "require_credits auth rq ''questionnaire_extract'' s = Inr (u, s1)"
    using credits_gate [OF assms(2,3,1)] assms(9) by simp
  have d: "own_questionnaire i ?c s1 = Inr (Some d)" using assms(6) by (simp add: s1)
  have "fst (process_questionnaire env i ?c ?ses) = Inr ()"
    using rules_process [of env i ?c ?ses d co] assms(5,8) d by (simp add: s1 get_company_row_def)
  moreover obtain x ses' where rest: "bind_q (process_questionnaire env i ?c) (\<lambda>_.
      bind_q (serve (deduct_operation_credits ?c ''questionnaire_extract'')) (\<lambda>_.
      bind_q commit (\<lambda>_.
      bind_q (ask (\<lambda>s. scalar_one (filter (\<lambda>q. qn_id q = i) (questionnaires s)))) (\<lambda>d.
      ask (detail_out d))))) ?ses = (x, ses')" by fastforce
  moreover have "ledger_ok s1" "5 \<le> balance_of s1 ?c" "distinct (map qn_id (questionnaires s1))"
    using ledger_clock [OF assms(1), of s1] assms(4,9) by (simp_all add: s1 balance_of_def company_ledger_def)
  ultimately have "\<not> isl x" using extraction_charged [OF rest] d by simp
  have "extract_questions auth env rq i \<lparr>ses_db = s, ses_saved = s\<rparr> = (x, ses')"
    using gate d assms(7) rest by (auto simp: extract_questions_def the_questionnaire_def)
  then show ?thesis using \<open>\<not> isl x\<close> by (cases x) (auto simp: get_db_def)
qed

text \<open>A client of the language model that raises an exception of its own package ends the extraction where it stands.\<close>

lemma client_error_extract:
  assumes "ledger_ok s" "get_current_user auth rq s = Inr (u, s1)" "active_subscriptions (us_company_id u) s = [sub]"
    "le_client env" "\<And>prompt n. le_call env prompt n = Inl (OtherError m)" "own_questionnaire i (us_company_id u) s = Inr (Some d)"
    "qn_status d \<in> {Some Q_Uploaded, Some Q_Extracted}" "5 \<le> balance_of s (us_company_id u)"
  shows "get_db (extract_questions auth env rq i) s = (Inl (OtherError m), (marked i Q_Extracting s)\<lparr>db_now := db_now s + 1\<rparr>)"
proof -
  let ?c = "us_company_id u" and ?ses = "\<lparr>ses_db = s1, ses_saved = s\<rparr>"
  have s1: "s1 = s\<lparr>db_now := db_now s + 1\<rparr>" using assms(2) by (auto elim: current_user_run)
  have "operation_cost ''questionnaire_extract'' = 5" by (simp add: operation_cost_def dict_get_def credit_costs_def)
  then have gate: "require_credits auth rq ''questionnaire_extract'' s = Inr (u, s1)"
    using credits_gate [OF assms(2,3,1)] assms(8) by simp
  have d: "own_questionnaire i ?c s1 = Inr (Some d)" using assms(6) by (simp add: s1)
  have "found_questions env t = Inl (OtherError m)" for t
    using assms(4,5) by (simp add: found_questions_def extract_questions_llm_def extract_catches_def json_error_def Let_def)
  then have "process_questionnaire env i ?c ?ses = (Inl (OtherError m), \<lparr>ses_db = marked i Q_Extracting s1, ses_saved = marked i Q_Extracting s1\<rparr>)"
    using d by (simp add: process_questionnaire_def update_doc_def write_db_def marked_def ask_def serve_def bind_q_def)
  then have "extract_questions auth env rq i \<lparr>ses_db = s, ses_saved = s\<rparr> =
      (Inl (OtherError m), \<lparr>ses_db = marked i Q_Extracting s1, ses_saved = marked i Q_Extracting s1\<rparr>)"
    using gate d assms(7) by (auto simp: extract_questions_def the_questionnaire_def)
  then show ?thesis by (simp add: get_db_def end_session_def s1 marked_def)
qed

section \<open>Storing an upload\<close>

lemma upload_run:
  assumes "get_db (upload_questionnaire auth docs rq file) s = (Inr d, s')" "get_current_user auth rq s = Inr (u, s1)"
  obtains t where "checked_upload file = Inr (t, uf_content file)" "qn_file_type d = t" "qn_file_size d = int (length (uf_content file))"
    "qn_title d = safe_name (uf_filename file)" "qn_company_id d = us_company_id u" "questionnaires s' = questionnaires s @ [d]"
proof -
  have s1: "s1 = s\<lparr>db_now := db_now s + 1\<rparr>" using assms(2) by (auto elim: current_user_run)
  obtain t content t0 s2 where c: "checked_upload file = Inr (t, content)"
    and ins: "insert_doc (us_company_id u) (safe_name (uf_filename file)) (safe_name (uf_filename file)) t (int (length content)) Q_Uploaded t0 s1 = Inr (d, s2)"
    and out: "questionnaires s' = questionnaires s2"
    using assms by (auto simp: get_db_Inr_iff upload_questionnaire_def bind_q_Inr_iff serve_Inr_iff ask_Inr_iff end_session_def)
  have "content = uf_content file" using checked_upload_run [OF c] by blast
  then show thesis using that [of t] c ins out by (auto simp: insert_doc_run s1)
qed

section \<open>Applying a template without a language model\<close>

lemma add_template_question_returns:
  assumes "\<not> le_client env" "length (snd (snd q)) \<le> 100"
  obtains ses' where "add_template_question env cf i q ses = (Inr (), ses')"
proof -
  obtain n t c where q: "q = (n, t, c)" by (cases q)
  have "plain_question (PDict [(''question_text'', PStr t), (''category'', PStr c)])" using assms(2) by (simp add: plain_question_def q)
  then obtain d where d: "draft_question env cf (PDict [(''question_text'', PStr t), (''category'', PStr c)]) = Inr d"
    "returns (question_column (dq_text d))" "returns (category_column (dq_category d))" by (rule plain_draft [OF assms(1)])
  obtain s' where "insert_question i (n, d) (ses_db ses) = Inr ((), s')"
    using inserts_return [of "[(n, d)]" i "ses_db ses"] d(2,3) by (auto simp: bind_s_Inr_iff)
  then show thesis using that d(1) by (simp add: add_template_question_def q)
qed

lemma template_questions_return:
  "\<not> le_client env \<Longrightarrow> \<forall>q \<in> set qs. length (snd (snd q)) \<le> 100 \<Longrightarrow> \<exists>ses'. each_q (add_template_question env cf i) qs ses = (Inr (), ses')"
proof (induction qs arbitrary: ses)
  case (Cons q qs)
  then obtain ses1 where "add_template_question env cf i q ses = (Inr (), ses1)" using add_template_question_returns by (metis list.set_intros(1))
  then show ?case using Cons by simp
qed simp

lemma apply_template_returns:
  assumes "get_current_user auth rq s = Inr (u, s1)" "map_of TEMPLATES template_id = Some tpl" "\<not> le_client env"
    "\<forall>q \<in> set (tp_questions tpl). length (snd q) \<le> 100" "get_company_row (us_company_id u) s = Inr co" "latest_report (us_company_id u) s = Some r"
  shows "\<exists>reply s'. get_db (apply_template auth env inds model rq template_id) s = (Inr reply, s')"
proof -
  let ?c = "us_company_id u"
  have s1: "s1 = s\<lparr>db_now := db_now s + 1\<rparr>" using assms(1) by (auto elim: current_user_run)
  obtain d s2 where d: "insert_doc ?c (tp_title tpl) (''template:'' @ template_id) ''template'' 0 Q_Extracted [] s1 = Inr (d, s2)"
    "qn_status d = Some Q_Extracted" and s2: "s2 = s1\<lparr>db_now := db_now s1 + 1, db_next_id := db_next_id s1 + 1, questionnaires := questionnaires s1 @ [d]\<rparr>"
    by (simp add: insert_doc_run)
  have rows: "get_company_row ?c s2 = Inr co" "latest_report ?c s2 = Some r"
    using assms(5,6) by (simp_all add: s2 s1 get_company_row_def latest_report_def live_reports_def)
  have "\<forall>q \<in> set (numbered (tp_questions tpl)). length (snd (snd q)) \<le> 100"
    using assms(4) by (auto simp: numbered_def dest!: set_zip_rightD)
  then obtain ses' where "each_q (add_template_question env (facts_of co (Some r)) (qn_id d)) (numbered (tp_questions tpl)) \<lparr>ses_db = s2, ses_saved = s\<rparr> = (Inr (), ses')"
    using template_questions_return [OF assms(3)] by metis
  then show ?thesis
    using assms(1,2) d rows by (simp add: get_db_def apply_template_def get_template_def template_facts_def detail_out_def doc_out_def)
qed

end
