(* ===== verification/Text_Properties.thy ===== *)
theory Text_Properties
imports Questionnaire_Laws Web_Properties
begin

text \<open>The properties of free text and questionnaires: what is read, what is stored and what is charged.\<close>

definition sample_doc :: questionnaire_doc where
  "sample_doc = \<lparr>qn_id = 40, qn_company_id = 10, qn_title = ''q.csv'', qn_original_filename = ''q.csv'', qn_file_type = ''csv'',
     qn_file_size = 3, qn_status = Some Q_Uploaded, qn_extracted_text = Some ''How do you cut your emissions?'', qn_created_at = 9,
     qn_deleted_at = None\<rparr>"

definition doc_db :: db where
  "doc_db = web_db\<lparr>questionnaires := [sample_doc]\<rparr>"

definition sample_llm :: "pyval res option \<Rightarrow> llm_env" where
  "sample_llm reply = \<lparr>le_client = (reply \<noteq> None), le_call = (\<lambda>_ _. the reply), le_loads = (\<lambda>_. Inr (PList [])), le_str = (\<lambda>_. [])\<rparr>"

lemma doc_ledger: "ledger_ok doc_db" "balance_of doc_db 10 = 500"
  using web_ledger by (simp_all add: doc_db_def ledger_ok_def balance_of_def company_ledger_def)

lemma doc_subscription: "active_subscriptions 10 doc_db = [sample_subscription\<lparr>sub_company_id := 10, sub_stripe_customer_id := Some ''cus''\<rparr>]"
  using web_subscription by (simp add: active_subscriptions_def doc_db_def)

lemma doc_user: "get_current_user sample_auth admin_request_in doc_db = Inr (sample_admin, doc_db\<lparr>db_now := db_now doc_db + 1\<rparr>)"
  by (rule admin_signs_in) (simp_all add: doc_db_def web_db_def access_db_def empty_db_def)

lemma doc_rows: "questionnaires doc_db = [sample_doc]" "qn_id sample_doc = 40" "qn_status sample_doc = Some Q_Uploaded"
  "own_questionnaire 40 10 doc_db = Inr (Some sample_doc)" "get_company_row 10 doc_db = Inr (tenant 10)" "us_company_id sample_admin = 10"
  by (simp_all add: doc_db_def sample_doc_def own_questionnaire_def get_company_row_def scalar_one_def web_rows sample_rows_of_db)

lemma extraction_of_sample: "\<exists>reply s'. get_db (extract_questions sample_auth (sample_llm None) admin_request_in 40) doc_db = (Inr reply, s')"
  by (rule rules_extract [where d = sample_doc and co = "tenant 10", OF doc_ledger(1) doc_user])
    (simp_all add: doc_rows doc_subscription doc_ledger sample_llm_def)

text \<open>
  C34. An extraction is paid for exactly when it ends: a request that returns started from a questionnaire of the
  company that is not deleted and is uploaded or extracted; its questions, with the answers of people among
  them, are replaced by fresh drafts numbered from one, and five credits, which the balance covered, are
  charged. A request that raises charges nothing and changes no question, but may leave the questionnaire
  marked as being extracted.
\<close>

theorem extraction_charged_or_marked:
  assumes "ledger_ok s" "get_current_user auth rq s = Inr (u, s1)" "active_subscriptions (us_company_id u) s = [sub]"
    "distinct (map qn_id (questionnaires s))" "get_db (extract_questions auth env rq i) s = (x, s')"
  shows "isl x \<and> (later s s' \<or> extractable i (us_company_id u) s \<and> later (marked i Q_Extracting s) s') \<or>
    \<not> isl x \<and> extractable i (us_company_id u) s \<and>
      (\<exists>rows e. fresh_questions i rows \<and> cl_company_id e = us_company_id u \<and> cl_amount e = - 5 \<and> 5 \<le> balance_of s (us_company_id u) \<and>
        later ((marked i Q_Extracted (requestioned i rows s))\<lparr>credit_ledger := credit_ledger s @ [e]\<rparr>) s')"
  using assms by (rule extraction_cases)

text \<open>
  C36. Without a language model an extraction always ends: for a questionnaire of the company that is uploaded or
  extracted, whatever its text, the request of a user whose company is there and has five credits returns.
\<close>

theorem rules_always_extract:
  assumes "ledger_ok s" "get_current_user auth rq s = Inr (u, s1)" "active_subscriptions (us_company_id u) s = [sub]"
    "distinct (map qn_id (questionnaires s))" "\<not> le_client env" "own_questionnaire i (us_company_id u) s = Inr (Some d)"
    "qn_status d \<in> {Some Q_Uploaded, Some Q_Extracted}" "get_company_row (us_company_id u) s = Inr co" "5 \<le> balance_of s (us_company_id u)"
  shows "\<exists>reply s'. get_db (extract_questions auth env rq i) s = (Inr reply, s')"
  using assms by (rule rules_extract)

theorem rules_always_extract_witness:
  "\<exists>reply s'. get_db (extract_questions sample_auth (sample_llm None) admin_request_in 40) doc_db = (Inr reply, s')"
  by (rule rules_always_extract [where d = sample_doc and co = "tenant 10", OF doc_ledger(1) doc_user])
    (simp_all add: doc_rows doc_subscription doc_ledger sample_llm_def)

theorem extraction_charged_or_marked_witness:
  "\<exists>rows e s'. snd (get_db (extract_questions sample_auth (sample_llm None) admin_request_in 40) doc_db) = s' \<and>
     fresh_questions 40 rows \<and> cl_amount e = - 5 \<and>
     later ((marked 40 Q_Extracted (requestioned 40 rows doc_db))\<lparr>credit_ledger := credit_ledger doc_db @ [e]\<rparr>) s'"
proof -
  have co: "us_company_id sample_admin = 10" by (simp add: doc_rows)
  obtain reply s' where run: "get_db (extract_questions sample_auth (sample_llm None) admin_request_in 40) doc_db = (Inr reply, s')"
    using extraction_of_sample by blast
  have sub: "active_subscriptions (us_company_id sample_admin) doc_db = [sample_subscription\<lparr>sub_company_id := 10, sub_stripe_customer_id := Some ''cus''\<rparr>]"
    unfolding co by (rule doc_subscription)
  have ids: "distinct (map qn_id (questionnaires doc_db))" by (simp add: doc_rows)
  from extraction_charged_or_marked [OF doc_ledger(1) doc_user sub ids run] show ?thesis by (auto simp: run)
qed



text \<open>
  C35. The questions found without a language model are quotations: each is a part of the text, longer than ten
  characters, none is found twice, and each is filed under the category its own words give.
\<close>

theorem questions_are_quotations:
  "set (map fst (extract_questions_rule_based t)) \<subseteq> {q. sublist q t \<and> 10 < length q} \<and>
   distinct (map fst (extract_questions_rule_based t)) \<and>
   map snd (extract_questions_rule_based t) = map (classify_question \<circ> fst) (extract_questions_rule_based t)"
  using rule_based_quoted [of t] by (auto simp: quoted_def)








end
