(* ===== verification/Spec2Isabelle.thy ===== *)
theory Spec2Isabelle
imports Subnet_Properties Platform_Properties Access_Properties Estimate_Properties Service_Properties Web_Properties
  Text_Properties
begin

text \<open>
  Verification of CarbonScope, a Bittensor subnet that estimates corporate carbon footprints, and of the
  platform that sells the service.

  \<^bold>\<open>The program.\<close> A validator (\<open>neurons/validator.py\<close>) sends questionnaires to miners
  (\<open>neurons/miner.py\<close>), which estimate the three scopes of the GHG Protocol from the data a company
  provides (\<open>carbonscope/emission_factors\<close>, \<open>carbonscope/utils.py\<close>). The validator scores the answers
  (\<open>carbonscope/scoring.py\<close> with the checks of \<open>carbonscope/validation\<close>), averages the scores and turns
  them into weights on the chain. The platform (\<open>api\<close>) keeps companies, reports, credits, a marketplace,
  supply chains, reviews, alerts and webhooks in a database.

  \<^bold>\<open>Foundations.\<close> \<open>Prelude\<close> has the exceptions as values, the two binds that thread them, dictionaries as
  association lists in insertion order and the lemmas the components share. \<open>Py_Float\<close> is binary64
  arithmetic, bit-exact up to the sign of zero, with the rounding laws; \<open>Float_Order\<close> its monotonicity.
  \<open>Py_Value\<close> and \<open>Py_String\<close> are JSON values and the string methods the program uses.

  \<^bold>\<open>The subnet.\<close> \<open>Loader\<close> is the dataset cache, \<open>Emission_Factors\<close> the calculators of \<open>scope1.py\<close>,
  \<open>scope2.py\<close> and \<open>scope3.py\<close> (laws in \<open>Emission_Laws\<close>), \<open>Utils\<close> units, warming potentials and
  completeness, \<open>Protocol\<close> the synapse and its validators. \<open>Ghg_Protocol\<close>, \<open>Sanity_Checks\<close> and
  \<open>Benchmark_Alignment\<close> are three axes of the score, \<open>Scoring\<close> the other two and their combination.
  \<open>Rate_Limiter\<close> and \<open>Miner\<close> (laws in \<open>Miner_Laws\<close>) are the miner, \<open>Validator\<close> (laws in
  \<open>Validator_Laws\<close>) and \<open>Score_Store\<close> the validator. The validator's laws are proved in the locale
  \<open>scorer\<close>, from a scorer that stays in the unit interval and raises only what the loop catches, and
  interpreted on the composite scorer. \<open>Test_Cases\<close> is the generator of the questionnaires the validator asks
  with their ground truth; \<open>Test_Case_Laws\<close> shows that an honest miner answers with that ground truth.

  \<^bold>\<open>The platform.\<close> \<open>Models\<close> has the tables as records and the database as lists of rows, with a clock that
  advances at every reading and a supply of fresh identifiers. A service is a state transformer that
  raises an exception or returns a value and a new database; when it raises, the transaction is rolled
  back. \<open>Subscriptions\<close> is the credit ledger and the plans, with the locale \<open>ledger\<close> as the contract of the
  credit operations, interpreted on the service and carried to sequences of operations.
  \<open>Marketplace\<close> pays through it. \<open>Reviews\<close> is the approval workflow as a step relation, \<open>Supply_Chain\<close>,
  \<open>Alerts\<close>, \<open>Benchmarks\<close> and \<open>Pcaf\<close> the services of those names. \<open>Url_Validator\<close> and \<open>Webhooks\<close> are
  the outgoing hooks.

  \<^bold>\<open>Access.\<close> A request runs in the session of \<open>Sessions\<close>: the database it works on and the one last
  committed, so what a handler writes after its last commit is lost, as in \<open>api/database.py\<close>; the audit
  log of \<open>api/services/audit.py\<close> is there too. \<open>Auth_Tokens\<close> is \<open>api/auth.py\<close>, \<open>Deps\<close> the gates of
  \<open>api/deps.py\<close>, \<open>Mfa\<close> one-time codes down to Base32. The handlers are \<open>Auth_Routes\<close> (registration, login,
  profile, passwords, sessions), \<open>Gdpr\<close> (the purge, with the foreign keys it meets), \<open>Second_Factor\<close>
  (enrolment, validation, sign-in with Google) and \<open>Team\<close>. \<open>Token_Laws\<close> states the contract of single-use
  tokens as the locale \<open>single_use_tokens\<close> and interprets it on refresh and on reset tokens;
  \<open>Session_Laws\<close> bounds the guesses on an account and follows a logout; \<open>Factor_Laws\<close> says which handler
  gives full tokens to whom, and what an admin can change. \<open>Event_Bus\<close> is the bus of pushed events with
  its invariant and its runs.

  \<^bold>\<open>Estimates.\<close> \<open>Local_Estimate\<close> is the platform's own copy of the miner's computation, \<open>Subnet_Bridge\<close> the query
  of the miners with its two circuit breakers and the selection by consensus (laws in \<open>Bridge_Laws\<close>), both from
  \<open>api/services/subnet_bridge.py\<close>. \<open>Carbon\<close> is \<open>api/services/carbon.py\<close>: the creation of an estimate, which
  books a report, its charge and its audit entry and then announces them, and the lists, exports and
  summaries of reports (laws in \<open>Carbon_Laws\<close>).

  \<^bold>\<open>Services around reports.\<close> \<open>Companies\<close> is the profile of a company and its uploads, \<open>Scenarios\<close> the
  what-if adjustments with their laws, \<open>Recommendations\<close> the ranked strategies and \<open>Prediction\<close> the
  figures for scopes without data (laws of both in \<open>Advice_Laws\<close>). \<open>Scheduler\<close> is the turns of the four
  background jobs; its loop over the companies is a \<open>partial_function\<close> whose end is proved from the list of
  companies staying as it is (laws in \<open>Scheduler_Laws\<close>).

  \<^bold>\<open>Questionnaires and free text.\<close> \<open>Regex\<close> is a backtracking matcher with the semantics of Python's \<open>re\<close> for the
  operators the program uses, and its laws: a group captures a part of the text. \<open>Text_Parser\<close> is
  \<open>api/services/llm_parser.py\<close>, \<open>Questionnaires\<close> is \<open>api/services/questionnaire.py\<close> with its CSV reader and the
  templates of \<open>api/services/templates.py\<close>, \<open>Questionnaire_Routes\<close> the handlers of
  \<open>api/routes/questionnaire_routes.py\<close>. \<open>Questionnaire_Laws\<close> follows an extraction through its commits: what is
  stored when it returns, and what is left when the language model fails.

  \<^bold>\<open>Requests.\<close> \<open>Schemas\<close> is what \<open>api/schemas.py\<close> accepts as a request body and refuses as a reply. \<open>Billing\<close> is
  the credits and plans of \<open>billing_routes.py\<close> and the signed payment events of \<open>stripe_routes.py\<close>,
  \<open>Compliance\<close> the generators of \<open>api/services/compliance.py\<close> with the route that charges for
  them, \<open>Company_Routes\<close> the handlers whose rows belong to one company and \<open>Trade_Routes\<close> those where two companies
  meet; \<open>Route_Laws\<close> has the laws of these. \<open>Requests\<close> has one constructor per handler and runs them on
  one database.

  \<^bold>\<open>Tenants.\<close> \<open>Frames\<close> states what a transition may change of a table as the locale \<open>row_frame\<close> and proves once
  that the binds, the commits and the end of a session keep it. \<open>Isolation\<close> interprets it on the tables of the
  platform with the rows of other companies, carries it through the questionnaires, and
  \<open>Tenant_Laws\<close> proves it of each handler of \<open>Requests\<close>, so that it holds of a run of any requests.

  \<^bold>\<open>Properties.\<close> \<open>Subnet_Properties\<close>, \<open>Platform_Properties\<close>, \<open>Access_Properties\<close>, \<open>Estimate_Properties\<close>,
  \<open>Service_Properties\<close>, \<open>Web_Properties\<close> and \<open>Text_Properties\<close> state them, each followed by an application on the
  concrete data of \<open>Samples\<close>.

  \<^bold>\<open>Parameters.\<close> What is not in the repository is an argument: the JSON datasets and their files, SHA-256
  and keyed digests, JSON encoding, the network, the HTTP client, name resolution, the language model and the
  readers of PDF, Word and Excel, the power of floats, random draws and the clock. The loops are structural
  recursions over lists of rows, attempts or requests. Only the repetitions of \<open>Regex\<close> have fuel, the length of
  the text that is left, which is enough because a repetition stops at a turn that reads nothing.

  \<^bold>\<open>Not modelled.\<close> The middleware (headers, logging, the limiter of a third-party package), settings, mail, PDF and
  file output, the export of personal data, which only collects rows, and the reply models that copy columns
  are input and output around the services. Text is a list of 8-bit characters: the character classes are
  those of ASCII. Concurrency is modelled by the order of whole requests; row locks and the races
  between sessions are not.
\<close>

end
